(* ===== verification/Prelude.thy ===== *)
theory Prelude
  imports Complex_Main "HOL-Library.Word" "HOL-Library.AList" "HOL-Library.Multiset" "HOL-Library.Sublist"
begin

text \<open>
  Shared vocabulary of the development: machine integers, floating-point values, byte strings,
  Rust results, hash maps, big-endian integers, byte streams, and the three interface locales
  (keyed stores, framed codecs, bounded logs) that the components interpret.

  Conventions. Fixed-width integers are words and wrap (the release profile of
  \<^verbatim>\<open>.cargo/config.toml\<close> leaves overflow checks off). \<^verbatim>\<open>usize\<close> values that only count elements of
  a vector in memory are \<open>nat\<close>. A Rust \<^verbatim>\<open>String\<close> is the list of its UTF-8 bytes, one HOL
  character per byte, so \<open>length\<close> is \<^verbatim>\<open>str::len\<close>. A \<^verbatim>\<open>Result<T, E>\<close> is \<open>'e + 't\<close> with \<open>Inl\<close>
  the error. An \<^verbatim>\<open>Instant\<close> or a \<^verbatim>\<open>Duration\<close> is a natural number of milliseconds
  (\<^verbatim>\<open>Instant::duration_since\<close> saturates at zero, as subtraction on \<open>nat\<close> does).
\<close>

section \<open>Machine values\<close>

type_synonym u8 = "8 word"
type_synonym u16 = "16 word"
type_synonym u32 = "32 word"
type_synonym u64 = "64 word"
type_synonym uuid = "128 word"
type_synonym bytes = "u8 list"
type_synonym instant = nat
type_synonym duration = nat

named_theorems wire_simps \<open>unfolding rules of encoders and decoders\<close>
named_theorems store_simps \<open>lookups after an update of a keyed store\<close>

text \<open>\<^verbatim>\<open>saturating_sub\<close> on unsigned integers.\<close>

definition sat_sub :: "'a::len word \<Rightarrow> 'a word \<Rightarrow> 'a word" where
  "sat_sub a b = (if a < b then 0 else a - b)"

lemma unat_sat_sub: "unat (sat_sub a b) = unat a - unat b"
proof (cases "a < b")
  case True
  then have "unat a \<le> unat b" by (simp add: word_less_nat_alt)
  with True show ?thesis by (simp add: sat_sub_def)
next
  case False
  then show ?thesis by (simp add: sat_sub_def unat_sub word_le_nat_alt word_less_nat_alt not_less)
qed

lemma unat_max_word: "unat (max a (b :: 'a::len word)) = max (unat a) (unat b)"
  by (simp add: max_def word_le_nat_alt)

lemma unat_min_word: "unat (min a (b :: 'a::len word)) = min (unat a) (unat b)"
  by (simp add: min_def word_le_nat_alt)

text \<open>
  IEEE values without rounding: comparisons, \<^verbatim>\<open>min\<close> and \<^verbatim>\<open>clamp\<close> of finite values are exact, and
  NaN and the infinities are values of their own. Signed zeros are not distinguished.
\<close>

datatype fl = NaN | NegInf | Fin rat | PosInf

fun fl_less :: "fl \<Rightarrow> fl \<Rightarrow> bool" where
  "fl_less NaN _ = False"
| "fl_less _ NaN = False"
| "fl_less (Fin x) (Fin y) = (x < y)"
| "fl_less NegInf y = (y \<noteq> NegInf)"
| "fl_less (Fin _) y = (y = PosInf)"
| "fl_less PosInf _ = False"

text \<open>\<^verbatim>\<open>f64::min\<close>: the other argument where one of them is NaN.\<close>

definition fl_min :: "fl \<Rightarrow> fl \<Rightarrow> fl" where
  "fl_min a b = (if a = NaN then b else if b = NaN then a else if fl_less b a then b else a)"

lemma fl_min_commute: "fl_min a b = fl_min b a"
  by (cases a; cases b) (auto simp: fl_min_def)

text \<open>The conversions \<^verbatim>\<open>as u64\<close> of a float: NaN is 0, and the value saturates.\<close>

fun fl_as_u64 :: "fl \<Rightarrow> u64" where
  "fl_as_u64 NaN = 0"
| "fl_as_u64 NegInf = 0"
| "fl_as_u64 PosInf = - 1"
| "fl_as_u64 (Fin q) = (if q < 0 then 0 else if q \<ge> 2 ^ 64 then - 1 else of_int \<lfloor>q\<rfloor>)"

text \<open>The operator \<^verbatim>\<open>?\<close>: go on with the value, return the error.\<close>

definition bind_res :: "'e + 'a \<Rightarrow> ('a \<Rightarrow> 'e + 'b) \<Rightarrow> 'e + 'b" where
  "bind_res r k = (case r of Inl e \<Rightarrow> Inl e | Inr v \<Rightarrow> k v)"

lemma bind_res_simps [simp]: "bind_res (Inl e) k = Inl e" "bind_res (Inr v) k = k v"
  by (simp_all add: bind_res_def)

lemma bind_res_eq_Inr: "bind_res r k = Inr y \<longleftrightarrow> (\<exists>v. r = Inr v \<and> k v = Inr y)"
  by (cases r) auto

lemma bind_res_cong [fundef_cong]:
  "r = r' \<Longrightarrow> (\<And>v. r' = Inr v \<Longrightarrow> k v = k' v) \<Longrightarrow> bind_res r k = bind_res r' k'"
  by (cases r') auto

section \<open>Lists\<close>

text \<open>\<^verbatim>\<open>if let Some(x) = xs.iter_mut().find(p) { *x = f(x) }\<close>: update the first match.\<close>

fun update_first :: "('a \<Rightarrow> bool) \<Rightarrow> ('a \<Rightarrow> 'a) \<Rightarrow> 'a list \<Rightarrow> 'a list" where
  "update_first p f [] = []"
| "update_first p f (x # xs) = (if p x then f x # xs else x # update_first p f xs)"

lemma length_update_first [simp]: "length (update_first p f xs) = length xs"
  by (induction xs) auto

lemma map_update_first: "(\<And>x. p x \<Longrightarrow> g (f x) = g x) \<Longrightarrow> map g (update_first p f xs) = map g xs"
  by (induction xs) auto

lemma update_first_none: "find p xs = None \<Longrightarrow> update_first p f xs = xs"
  by (induction xs) (auto split: if_splits)

lemma update_first_nth:
  assumes "i < length xs"
  shows "update_first p f xs ! i =
    (if p (xs ! i) \<and> (\<forall>j<i. \<not> p (xs ! j)) then f (xs ! i) else xs ! i)"
  using assms
proof (induction xs arbitrary: i)
  case Nil
  then show ?case by simp
next
  case (Cons x xs)
  then show ?case by (cases i) (auto simp: less_Suc_eq_0_disj)
qed

lemma find_Some_mem: "find p xs = Some x \<Longrightarrow> p x \<and> x \<in> set xs"
  by (induction xs) (auto split: if_splits)

lemma find_split:
  assumes "find p xs = Some x"
  obtains pre post where "xs = pre @ x # post" "p x" "\<forall>y \<in> set pre. \<not> p y"
  using assms
proof (induction xs arbitrary: thesis)
  case Nil
  then show ?case by simp
next
  case (Cons a xs)
  show ?case
  proof (cases "p a")
    case True
    with Cons.prems show ?thesis by (auto intro: Cons.prems(1) [of "[]"])
  next
    case False
    with Cons obtain pre post where "xs = pre @ x # post" "p x" "\<forall>y \<in> set pre. \<not> p y" by auto
    with False show ?thesis by (intro Cons.prems(1) [of "a # pre"]) auto
  qed
qed

lemma find_append_skip: "\<forall>y \<in> set pre. \<not> p y \<Longrightarrow> find p (pre @ xs) = find p xs"
  by (induction pre) auto

lemma update_first_append_skip:
  "\<forall>y \<in> set pre. \<not> p y \<Longrightarrow> update_first p f (pre @ xs) = pre @ update_first p f xs"
  by (induction pre) auto

lemma find_None_iff_list: "find p xs = None \<longleftrightarrow> (\<forall>x \<in> set xs. \<not> p x)"
  by (induction xs) auto

section \<open>Hash maps\<close>

text \<open>
  \<^verbatim>\<open>std::collections::HashMap\<close> is an association list with distinct keys; its order stands for the
  unspecified iteration order, and no property below depends on it.
\<close>

type_synonym ('k, 'v) hmap = "('k \<times> 'v) list"

definition hm_get :: "('k, 'v) hmap \<Rightarrow> 'k \<Rightarrow> 'v option" where
  "hm_get m k = map_of m k"

definition hm_insert :: "'k \<Rightarrow> 'v \<Rightarrow> ('k, 'v) hmap \<Rightarrow> ('k, 'v) hmap" where
  "hm_insert k v m = AList.update k v m"

definition hm_remove :: "'k \<Rightarrow> ('k, 'v) hmap \<Rightarrow> ('k, 'v) hmap" where
  "hm_remove k m = AList.delete k m"

definition hm_retain :: "('k \<Rightarrow> 'v \<Rightarrow> bool) \<Rightarrow> ('k, 'v) hmap \<Rightarrow> ('k, 'v) hmap" where
  "hm_retain p m = filter (\<lambda>(k, v). p k v) m"

definition hm_values :: "('k, 'v) hmap \<Rightarrow> 'v list" where
  "hm_values m = map snd m"

text \<open>\<^verbatim>\<open>if let Some(v) = m.get_mut(k) { *v = f(v) }\<close>\<close>

definition hm_modify :: "'k \<Rightarrow> ('v \<Rightarrow> 'v) \<Rightarrow> ('k, 'v) hmap \<Rightarrow> ('k, 'v) hmap" where
  "hm_modify k f m = (case hm_get m k of None \<Rightarrow> m | Some v \<Rightarrow> hm_insert k (f v) m)"

definition hm_wf :: "('k, 'v) hmap \<Rightarrow> bool" where
  "hm_wf m \<longleftrightarrow> distinct (map fst m)"

lemma hm_get_empty [simp]: "hm_get [] k = None"
  by (simp add: hm_get_def)

lemma hm_get_insert [simp, store_simps]:
  "hm_get (hm_insert k v m) k' = (if k' = k then Some v else hm_get m k')"
  by (simp add: hm_get_def hm_insert_def update_conv')

lemma hm_get_remove [simp, store_simps]:
  "hm_get (hm_remove k m) k' = (if k' = k then None else hm_get m k')"
  by (simp add: hm_get_def hm_remove_def delete_conv')

lemma hm_get_modify [simp, store_simps]:
  "hm_get (hm_modify k f m) k' = (if k' = k then map_option f (hm_get m k) else hm_get m k')"
  by (simp add: hm_modify_def split: option.splits)

lemma hm_wf_empty [simp]: "hm_wf []"
  by (simp add: hm_wf_def)

lemma hm_wf_insert [simp]: "hm_wf m \<Longrightarrow> hm_wf (hm_insert k v m)"
  by (simp add: hm_wf_def hm_insert_def distinct_update)

lemma hm_wf_remove [simp]: "hm_wf m \<Longrightarrow> hm_wf (hm_remove k m)"
  by (simp add: hm_wf_def hm_remove_def distinct_delete)

lemma hm_wf_modify [simp]: "hm_wf m \<Longrightarrow> hm_wf (hm_modify k f m)"
  by (simp add: hm_modify_def split: option.splits)

lemma hm_wf_retain [simp]: "hm_wf m \<Longrightarrow> hm_wf (hm_retain p m)"
  by (auto simp: hm_wf_def hm_retain_def distinct_map inj_on_def)

lemma hm_get_retain:
  "hm_wf m \<Longrightarrow> hm_get (hm_retain p m) k =
    (case hm_get m k of None \<Rightarrow> None | Some v \<Rightarrow> if p k v then Some v else None)"
proof (induction m)
  case Nil
  then show ?case by (simp add: hm_retain_def)
next
  case (Cons kv m)
  obtain a b where kv: "kv = (a, b)" by (cases kv)
  from Cons.prems kv have wf: "hm_wf m" and nin: "a \<notin> fst ` set m" by (auto simp: hm_wf_def)
  from nin have "map_of (filter (\<lambda>(k, v). p k v) m) a = None"
    by (force simp: map_of_eq_None_iff)
  with Cons.IH [OF wf] nin kv show ?case
    by (auto simp: hm_get_def hm_retain_def map_of_eq_None_iff split: option.splits)
qed

lemma hm_values_iff: "hm_wf m \<Longrightarrow> v \<in> set (hm_values m) \<longleftrightarrow> (\<exists>k. hm_get m k = Some v)"
  by (force simp: hm_wf_def hm_values_def hm_get_def)

lemma hm_get_mem: "hm_wf m \<Longrightarrow> hm_get m k = Some v \<longleftrightarrow> (k, v) \<in> set m"
  by (auto simp: hm_wf_def hm_get_def dest: map_of_SomeD)

lemma hm_insert_fresh: "hm_get m k = None \<Longrightarrow> hm_insert k v m = m @ [(k, v)]"
  unfolding hm_get_def hm_insert_def by (induction m) (auto split: if_splits)

lemma length_hm_retain: "length (hm_retain p m) \<le> length m"
  by (simp add: hm_retain_def)

section \<open>Big-endian integers\<close>

text \<open>\<^verbatim>\<open>to_be_bytes\<close> into \<open>n\<close> bytes and \<^verbatim>\<open>from_be_bytes\<close>.\<close>

fun to_be :: "nat \<Rightarrow> 'a::len word \<Rightarrow> bytes" where
  "to_be 0 w = []"
| "to_be (Suc n) w = to_be n (drop_bit 8 w) @ [ucast w]"

definition be_nat :: "bytes \<Rightarrow> nat" where
  "be_nat bs = foldl (\<lambda>a b. a * 256 + unat b) 0 bs"

definition from_be :: "bytes \<Rightarrow> 'a::len word" where
  "from_be bs = word_of_nat (be_nat bs)"

lemma be_nat_Nil [simp]: "be_nat [] = 0"
  by (simp add: be_nat_def)

lemma be_nat_snoc [simp]: "be_nat (bs @ [b]) = be_nat bs * 256 + unat b"
  by (simp add: be_nat_def)

lemma length_to_be [simp]: "length (to_be n w) = n"
  by (induction n arbitrary: w) auto

lemma be_nat_to_be: "be_nat (to_be n w) = unat w mod 256 ^ n"
proof (induction n arbitrary: w)
  case 0
  then show ?case by simp
next
  case (Suc n)
  have "unat (ucast w :: u8) = unat w mod 256"
    by (simp add: unsigned_ucast_eq take_bit_eq_mod)
  moreover have "unat (drop_bit 8 w) = unat w div 256"
    unfolding unat_drop_bit_eq by (simp add: drop_bit_eq_div)
  ultimately show ?case
    using Suc [of "drop_bit 8 w"] mod_mult2_eq [of "unat w" 256 "256 ^ n"]
    by simp
qed

lemma be_nat_bound: "be_nat bs < 256 ^ length bs"
proof (induction bs rule: rev_induct)
  case Nil
  then show ?case by simp
next
  case (snoc b bs)
  have "unat b < 256" using unsigned_less [of b] by simp
  with snoc show ?case by simp
qed

lemma from_be_to_be:
  assumes "LENGTH('a) \<le> 8 * n"
  shows "from_be (to_be n (w :: 'a::len word)) = w"
proof -
  have "unat w < 2 ^ LENGTH('a)" by (rule unsigned_less)
  also have "(2::nat) ^ LENGTH('a) \<le> 2 ^ (8 * n)" using assms by (simp add: power_increasing)
  also have "(2::nat) ^ (8 * n) = 256 ^ n" by (simp add: power_mult)
  finally show ?thesis by (simp add: from_be_def be_nat_to_be)
qed

lemma from_be_to_be_64 [simp, wire_simps]: "from_be (to_be 8 (w :: u64)) = w"
  by (rule from_be_to_be) simp

lemma from_be_to_be_32 [simp, wire_simps]: "from_be (to_be 4 (w :: u32)) = w"
  by (rule from_be_to_be) simp

lemma from_be_to_be_16 [simp, wire_simps]: "from_be (to_be 2 (w :: u16)) = w"
  by (rule from_be_to_be) simp

lemma from_be_to_be_128 [simp, wire_simps]: "from_be (to_be 16 (w :: uuid)) = w"
  by (rule from_be_to_be) simp

lemma to_be_inject: "LENGTH('a) \<le> 8 * n \<Longrightarrow> to_be n (v :: 'a::len word) = to_be n w \<longleftrightarrow> v = w"
  by (metis from_be_to_be)

section \<open>Byte streams\<close>

text \<open>
  A reader is the bytes still to come before the peer closes the stream. \<^verbatim>\<open>read_exact\<close> takes
  exactly \<open>n\<close> of them and fails (\<^verbatim>\<open>UnexpectedEof\<close>) where fewer are left.
\<close>

definition read_exact :: "nat \<Rightarrow> bytes \<Rightarrow> (bytes \<times> bytes) option" where
  "read_exact n s = (if length s < n then None else Some (take n s, drop n s))"

lemma read_exact_append [simp, wire_simps]:
  "length xs = n \<Longrightarrow> read_exact n (xs @ ys) = Some (xs, ys)"
  by (simp add: read_exact_def)

lemma read_exact_short: "length s < n \<Longrightarrow> read_exact n s = None"
  by (simp add: read_exact_def)

lemma read_exact_SomeD: "read_exact n s = Some (a, b) \<Longrightarrow> s = a @ b \<and> length a = n"
  by (auto simp: read_exact_def split: if_splits)

text \<open>Decode frames until the decoder refuses or the fuel is used up; returns the frames and the
  bytes left.\<close>

fun decode_many :: "nat \<Rightarrow> (bytes \<Rightarrow> ('r \<times> bytes) option) \<Rightarrow> bytes \<Rightarrow> 'r list \<times> bytes" where
  "decode_many 0 dec s = ([], s)"
| "decode_many (Suc n) dec s =
     (case dec s of None \<Rightarrow> ([], s)
      | Some (r, s') \<Rightarrow> (let (rs, s'') = decode_many n dec s' in (r # rs, s'')))"

section \<open>Interfaces\<close>

text \<open>
  A datagram codec: a message of the domain survives encoding and decoding (as the view the
  decoder returns). A framed codec is one whose decoder also returns the bytes after the frame;
  it can be run on a stream of frames.
\<close>

locale datagram_codec =
  fixes enc :: "'m \<Rightarrow> bytes" and dec1 :: "bytes \<Rightarrow> 'r option"
    and ok :: "'m \<Rightarrow> bool" and view :: "'m \<Rightarrow> 'r"
  assumes dec1_enc: "ok m \<Longrightarrow> dec1 (enc m) = Some (view m)"
begin

lemma enc_view_inj: "ok m \<Longrightarrow> ok m' \<Longrightarrow> enc m = enc m' \<Longrightarrow> view m = view m'"
  using dec1_enc [of m] dec1_enc [of m'] by simp

end

locale framed_codec =
  fixes enc :: "'m \<Rightarrow> bytes" and dec :: "bytes \<Rightarrow> ('r \<times> bytes) option"
    and ok :: "'m \<Rightarrow> bool" and view :: "'m \<Rightarrow> 'r"
  assumes dec_enc: "ok m \<Longrightarrow> dec (enc m @ rest) = Some (view m, rest)"
    and dec_empty: "dec [] = None"
begin

lemma enc_nonempty: "ok m \<Longrightarrow> enc m \<noteq> []"
  using dec_enc [of m "[]"] dec_empty by auto

lemma frame_determined:
  assumes "ok m" and "ok m'" and "enc m @ r = enc m' @ r'"
  shows "view m = view m' \<and> r = r'"
  using dec_enc [OF assms(1), of r] dec_enc [OF assms(2), of r'] assms(3) by simp

lemma decode_many_stream:
  "list_all ok ms \<Longrightarrow> length ms \<le> n \<Longrightarrow> decode_many n dec (concat (map enc ms)) = (map view ms, [])"
proof (induction ms arbitrary: n)
  case Nil
  then show ?case by (cases n) (simp_all add: dec_empty)
next
  case (Cons m ms)
  then obtain k where "n = Suc k" by (cases n) auto
  with Cons show ?case by (simp add: dec_enc)
qed

end

sublocale framed_codec \<subseteq> datagram_codec enc "\<lambda>s. map_option fst (dec s)" ok view
  by unfold_locales (use dec_enc [where rest = "[]"] in simp)

text \<open>
  A keyed store, as the peer registry, the relay's node registry and the session table are: what
  a lookup returns after a put and after a removal.
\<close>

locale keyed_store =
  fixes lookup :: "'s \<Rightarrow> 'k \<Rightarrow> 'v option" and put :: "'v \<Rightarrow> 's \<Rightarrow> 's"
    and del :: "'k \<Rightarrow> 's \<Rightarrow> 's" and key :: "'v \<Rightarrow> 'k"
  assumes lookup_put: "lookup (put v s) k = (if k = key v then Some v else lookup s k)"
    and lookup_del: "lookup (del k' s) k = (if k = k' then None else lookup s k)"
begin

lemmas store_laws = lookup_put lookup_del

lemma last_put_wins:
  "lookup (foldl (\<lambda>s v. put v s) s vs) k =
    (case find (\<lambda>v. key v = k) (rev vs) of Some v \<Rightarrow> Some v | None \<Rightarrow> lookup s k)"
proof (induction vs rule: rev_induct)
  case Nil
  then show ?case by simp
next
  case (snoc v vs)
  then show ?case by (auto simp: lookup_put)
qed

lemma put_commute:
  "key v \<noteq> key w \<Longrightarrow> lookup (put v (put w s)) k = lookup (put w (put v s)) k"
  by (simp add: lookup_put)

lemma del_put: "lookup (del (key v) (put v s)) k = lookup (del (key v) s) k"
  by (simp add: store_laws)

end

text \<open>
  A bounded log keeps the last \<open>cap\<close> entries pushed: the session history and the metrics window
  drop from the front while they are too long.
\<close>

fun trim_front :: "nat \<Rightarrow> 'a list \<Rightarrow> 'a list" where
  "trim_front n [] = []"
| "trim_front n (x # xs) = (if length (x # xs) > n then trim_front n xs else x # xs)"

declare trim_front.simps [simp del]

lemma trim_front_drop: "trim_front n xs = drop (length xs - n) xs"
proof (induction xs)
  case Nil
  then show ?case by (simp add: trim_front.simps)
next
  case (Cons x xs)
  then show ?case by (cases "length xs < n") (simp_all add: trim_front.simps Suc_diff_le)
qed

lemma drop_snoc_bounded:
  "drop (length (drop (length ys - n) ys @ [v]) - n) (drop (length ys - n) ys @ [v]) =
    drop (length (ys @ [v]) - n) (ys @ [v])"
proof (cases "length ys < n")
  case True
  then show ?thesis by simp
next
  case False
  then have "Suc (length ys) - n = Suc (length ys - n)" by (rule Suc_diff_le [OF leI])
  with False show ?thesis by (cases n) (simp_all add: drop_Suc drop_tl)
qed

locale bounded_log =
  fixes entries :: "'s \<Rightarrow> 'v list" and push :: "'v \<Rightarrow> 's \<Rightarrow> 's" and cap :: "'s \<Rightarrow> nat"
  assumes entries_push: "entries (push v s) =
      drop (length (entries s @ [v]) - cap s) (entries s @ [v])"
    and cap_push: "cap (push v s) = cap s"
begin

lemma push_bounded: "length (entries (push v s)) \<le> cap s"
  by (simp add: entries_push)

lemma pushes_suffix:
  assumes "length (entries s) \<le> cap s"
  shows "entries (foldl (\<lambda>s v. push v s) s vs) =
      drop (length (entries s @ vs) - cap s) (entries s @ vs)
    \<and> cap (foldl (\<lambda>s v. push v s) s vs) = cap s"
proof (induction vs rule: rev_induct)
  case Nil
  then show ?case using assms by simp
next
  case (snoc v vs)
  have "entries (foldl (\<lambda>s v. push v s) s (vs @ [v])) =
      drop (length (drop (length (entries s @ vs) - cap s) (entries s @ vs) @ [v]) - cap s)
        (drop (length (entries s @ vs) - cap s) (entries s @ vs) @ [v])"
    using snoc by (simp add: entries_push)
  with snoc show ?case by (simp only: drop_snoc_bounded append_assoc [symmetric]) (simp add: cap_push)
qed

end

end
