(* ===== verification/Rust_Strings.thy ===== *)
theory Rust_Strings
  imports Prelude
begin

text \<open>
  The part of Rust's \<^verbatim>\<open>str\<close> API the sources use, on strings as lists of UTF-8 bytes: conversion
  to and from bytes (\<^verbatim>\<open>as_bytes\<close>, \<^verbatim>\<open>String::from_utf8_lossy\<close>), \<^verbatim>\<open>trim\<close> over the Unicode
  white space, ASCII case folding and character classes, decimal numbers.
\<close>

section \<open>Bytes and strings\<close>

definition byte_of_char :: "char \<Rightarrow> u8" where
  "byte_of_char c = word_of_nat (of_char c)"

definition char_of_byte :: "u8 \<Rightarrow> char" where
  "char_of_byte b = char_of (unat b)"

definition as_bytes :: "string \<Rightarrow> bytes" where
  "as_bytes s = map byte_of_char s"

definition of_bytes :: "bytes \<Rightarrow> string" where
  "of_bytes bs = map char_of_byte bs"

lemma of_char_less: "(of_char c :: nat) < 256"
  by simp

lemma unat_byte_of_char [simp]: "unat (byte_of_char c) = of_char c"
  using of_char_less [of c] by (simp add: byte_of_char_def unat_of_nat)

lemma char_of_byte_of_char [simp]: "char_of_byte (byte_of_char c) = c"
  by (simp add: char_of_byte_def)

lemma of_bytes_as_bytes [simp, wire_simps]: "of_bytes (as_bytes s) = s"
  by (simp add: of_bytes_def as_bytes_def o_def)

lemma length_as_bytes [simp, wire_simps]: "length (as_bytes s) = length s"
  by (simp add: as_bytes_def)

lemma as_bytes_append [simp]: "as_bytes (s @ t) = as_bytes s @ as_bytes t"
  by (simp add: as_bytes_def)

lemma take_as_bytes: "take n (as_bytes s) = as_bytes (take n s)"
  by (simp add: as_bytes_def take_map)

section \<open>UTF-8\<close>

text \<open>
  One step of the decoder: whether the bytes start with a well-formed character, and the number
  of bytes of that character or of the maximal ill-formed prefix that one U+FFFD replaces.
\<close>

definition cont :: "nat \<Rightarrow> nat \<Rightarrow> nat list \<Rightarrow> nat \<Rightarrow> bool" where
  "cont lo hi bs i = (i < length bs \<and> lo \<le> bs ! i \<and> bs ! i \<le> hi)"

definition utf8_step :: "nat list \<Rightarrow> bool \<times> nat" where
  "utf8_step bs = (case bs of [] \<Rightarrow> (False, 0) | b # _ \<Rightarrow>
     if b < 0x80 then (True, 1)
     else if 0xC2 \<le> b \<and> b \<le> 0xDF then (if cont 0x80 0xBF bs 1 then (True, 2) else (False, 1))
     else if 0xE0 \<le> b \<and> b \<le> 0xEF then
       (if \<not> cont (if b = 0xE0 then 0xA0 else 0x80) (if b = 0xED then 0x9F else 0xBF) bs 1
        then (False, 1)
        else if \<not> cont 0x80 0xBF bs 2 then (False, 2) else (True, 3))
     else if 0xF0 \<le> b \<and> b \<le> 0xF4 then
       (if \<not> cont (if b = 0xF0 then 0x90 else 0x80) (if b = 0xF4 then 0x8F else 0xBF) bs 1
        then (False, 1)
        else if \<not> cont 0x80 0xBF bs 2 then (False, 2)
        else if \<not> cont 0x80 0xBF bs 3 then (False, 3) else (True, 4))
     else (False, 1))"

lemma utf8_step_pos: "bs \<noteq> [] \<Longrightarrow> 0 < snd (utf8_step bs)"
  by (cases bs) (auto simp: utf8_step_def)

lemma utf8_step_decr: "bs \<noteq> [] \<Longrightarrow> (v, n) = utf8_step bs \<Longrightarrow> length bs - n < length bs"
  using utf8_step_pos [of bs] by (cases "utf8_step bs") auto

function lossy_codes :: "nat list \<Rightarrow> nat list" where
  "lossy_codes bs = (if bs = [] then [] else
     (case utf8_step bs of (valid, n) \<Rightarrow>
       (if valid then take n bs else [0xEF, 0xBF, 0xBD]) @ lossy_codes (drop n bs)))"
  by pat_completeness auto
termination
  by (relation "measure length") (simp_all add: utf8_step_decr)

function utf8_valid_codes :: "nat list \<Rightarrow> bool" where
  "utf8_valid_codes bs = (if bs = [] then True else
     (case utf8_step bs of (valid, n) \<Rightarrow> valid \<and> utf8_valid_codes (drop n bs)))"
  by pat_completeness auto
termination
  by (relation "measure length") (simp_all add: utf8_step_decr)

declare lossy_codes.simps [simp del] utf8_valid_codes.simps [simp del]

lemma lossy_codes_valid: "utf8_valid_codes bs \<Longrightarrow> lossy_codes bs = bs"
proof (induction bs rule: lossy_codes.induct)
  case (1 bs)
  show ?case
  proof (cases "bs = []")
    case True
    then show ?thesis by (simp add: lossy_codes.simps)
  next
    case False
    obtain v n where vn: "utf8_step bs = (v, n)" by fastforce
    with False "1.prems" have "v" and "utf8_valid_codes (drop n bs)"
      by (auto simp: utf8_valid_codes.simps [of bs])
    with "1.IH" [OF False vn [symmetric]] False vn show ?thesis
      by (simp add: lossy_codes.simps [of bs])
  qed
qed

text \<open>\<^verbatim>\<open>String::from_utf8_lossy\<close> on bytes, and the well-formedness of a Rust string.\<close>

definition from_utf8_lossy :: "bytes \<Rightarrow> string" where
  "from_utf8_lossy bs = map char_of (lossy_codes (map unat bs))"

definition utf8_valid :: "string \<Rightarrow> bool" where
  "utf8_valid s = utf8_valid_codes (map of_char s)"

lemma from_utf8_lossy_as_bytes [wire_simps]: "utf8_valid s \<Longrightarrow> from_utf8_lossy (as_bytes s) = s"
  by (simp add: from_utf8_lossy_def utf8_valid_def as_bytes_def o_def lossy_codes_valid)

lemma utf8_valid_ascii: "\<forall>c \<in> set s. (of_char c :: nat) < 128 \<Longrightarrow> utf8_valid s"
  unfolding utf8_valid_def
proof (induction s)
  case Nil
  then show ?case by (simp add: utf8_valid_codes.simps)
next
  case (Cons c s)
  then show ?case by (simp add: utf8_valid_codes.simps [of "_ # _"] utf8_step_def)
qed

section \<open>White space\<close>

text \<open>Bytes of the white-space character at the front, 0 where there is none.\<close>

definition ws_len :: "nat list \<Rightarrow> nat" where
  "ws_len bs = (case bs of [] \<Rightarrow> 0 | b # r \<Rightarrow>
     if 9 \<le> b \<and> b \<le> 13 \<or> b = 32 then 1
     else if b = 0xC2 then (if take 1 r = [0x85] \<or> take 1 r = [0xA0] then 2 else 0)
     else if b = 0xE1 then (if take 2 r = [0x9A, 0x80] then 3 else 0)
     else if b = 0xE2 then
       (if take 1 r = [0x80] \<and> (cont 0x80 0x8A r 1 \<or> cont 0xA8 0xA9 r 1 \<or> cont 0xAF 0xAF r 1)
          \<or> take 2 r = [0x81, 0x9F] then 3 else 0)
     else if b = 0xE3 then (if take 2 r = [0x80, 0x80] then 3 else 0)
     else 0)"

function trim_start_codes :: "nat list \<Rightarrow> nat list" where
  "trim_start_codes bs =
     (if bs = [] \<or> ws_len bs = 0 then bs else trim_start_codes (drop (ws_len bs) bs))"
  by pat_completeness auto
termination
  by (relation "measure length") auto

declare trim_start_codes.simps [simp del]

definition blank :: "string \<Rightarrow> bool" where
  "blank s = (trim_start_codes (map of_char s) = [])"

fun trim_end :: "string \<Rightarrow> string" where
  "trim_end [] = []"
| "trim_end (c # cs) = (if blank (c # cs) then [] else c # trim_end cs)"

text \<open>\<^verbatim>\<open>str::trim\<close>\<close>

definition trim :: "string \<Rightarrow> string" where
  "trim s = trim_end (map char_of (trim_start_codes (map of_char s)))"

lemma blank_trim: "blank s \<Longrightarrow> trim s = []"
  by (simp add: blank_def trim_def)

lemma blank_Nil [simp]: "blank []"
  by (simp add: blank_def trim_start_codes.simps)

lemma trim_start_codes_idem: "trim_start_codes (trim_start_codes bs) = trim_start_codes bs"
proof (induction bs rule: trim_start_codes.induct)
  case (1 bs)
  show ?case
  proof (cases "bs = [] \<or> ws_len bs = 0")
    case True
    then show ?thesis by (simp add: trim_start_codes.simps [of bs])
  next
    case False
    with "1.IH" show ?thesis by (simp add: trim_start_codes.simps [of bs])
  qed
qed

lemma trim_start_codes_suffix: "\<exists>n. trim_start_codes bs = drop n bs"
proof (induction bs rule: trim_start_codes.induct)
  case (1 bs)
  show ?case
  proof (cases "bs = [] \<or> ws_len bs = 0")
    case True
    then have "trim_start_codes bs = drop 0 bs" by (simp add: trim_start_codes.simps [of bs])
    then show ?thesis by blast
  next
    case False
    with "1.IH" obtain n where "trim_start_codes bs = drop n (drop (ws_len bs) bs)"
      by (auto simp: trim_start_codes.simps [of bs])
    then show ?thesis by auto
  qed
qed

text \<open>\<^verbatim>\<open>s.trim().is_empty()\<close> holds exactly of the strings of white space.\<close>

lemma trim_eq_Nil [simp]: "trim s = [] \<longleftrightarrow> blank s"
proof -
  let ?t = "trim_start_codes (map of_char s) :: nat list"
  obtain n where "?t = drop n (map of_char s)" using trim_start_codes_suffix by blast
  then have "map of_char (map char_of ?t :: string) = ?t" by (simp add: drop_map o_def)
  then have "blank (map char_of ?t) \<longleftrightarrow> ?t = []"
    unfolding blank_def by (simp only: trim_start_codes_idem)
  moreover have "trim_end t = [] \<longleftrightarrow> t = [] \<or> blank t" for t by (cases t) auto
  ultimately show ?thesis by (auto simp: trim_def blank_def)
qed

section \<open>ASCII classes and case\<close>

definition code :: "char \<Rightarrow> nat" where
  "code c = of_char c"

definition is_ascii_digit :: "char \<Rightarrow> bool" where
  "is_ascii_digit c = (48 \<le> code c \<and> code c \<le> 57)"

definition is_ascii_upper :: "char \<Rightarrow> bool" where
  "is_ascii_upper c = (65 \<le> code c \<and> code c \<le> 90)"

definition is_ascii_lower :: "char \<Rightarrow> bool" where
  "is_ascii_lower c = (97 \<le> code c \<and> code c \<le> 122)"

definition is_ascii_alphanumeric :: "char \<Rightarrow> bool" where
  "is_ascii_alphanumeric c = (is_ascii_digit c \<or> is_ascii_upper c \<or> is_ascii_lower c)"

definition is_ascii_hexdigit :: "char \<Rightarrow> bool" where
  "is_ascii_hexdigit c =
     (is_ascii_digit c \<or> 65 \<le> code c \<and> code c \<le> 70 \<or> 97 \<le> code c \<and> code c \<le> 102)"

definition ascii_lower :: "char \<Rightarrow> char" where
  "ascii_lower c = (if is_ascii_upper c then char_of (code c + 32) else c)"

definition ascii_upper :: "char \<Rightarrow> char" where
  "ascii_upper c = (if is_ascii_lower c then char_of (code c - 32) else c)"

lemmas ascii_defs = code_def is_ascii_digit_def is_ascii_upper_def is_ascii_lower_def
  is_ascii_alphanumeric_def is_ascii_hexdigit_def ascii_lower_def ascii_upper_def

definition eq_ignore_ascii_case :: "string \<Rightarrow> string \<Rightarrow> bool" where
  "eq_ignore_ascii_case a b = (map ascii_lower a = map ascii_lower b)"

lemma eq_ignore_ascii_case_refl [simp]: "eq_ignore_ascii_case a a"
  by (simp add: eq_ignore_ascii_case_def)

lemma eq_ignore_ascii_case_length: "eq_ignore_ascii_case a b \<Longrightarrow> length a = length b"
  unfolding eq_ignore_ascii_case_def by (metis length_map)

lemma ascii_lower_idem [simp]: "ascii_lower (ascii_lower c) = ascii_lower c"
  by (auto simp: ascii_defs)

section \<open>Decimal numbers\<close>

text \<open>\<^verbatim>\<open>format!\<close> of an unsigned integer, and \<^verbatim>\<open>str::parse::<u16>\<close>, which accepts a leading plus
  sign and refuses the empty string, other characters and overflow.\<close>

fun show_nat :: "nat \<Rightarrow> string" where
  "show_nat n = (if n < 10 then [char_of (48 + n)] else show_nat (n div 10) @ [char_of (48 + n mod 10)])"

declare show_nat.simps [simp del]

definition digits_value :: "string \<Rightarrow> nat" where
  "digits_value s = foldl (\<lambda>a c. a * 10 + (code c - 48)) 0 s"

definition parse_unsigned :: "nat \<Rightarrow> string \<Rightarrow> nat option" where
  "parse_unsigned bound s =
     (let d = (case s of [] \<Rightarrow> [] | c # cs \<Rightarrow> if c = CHR ''+'' then cs else s) in
      if d = [] \<or> \<not> list_all is_ascii_digit d \<or> digits_value d \<ge> bound then None
      else Some (digits_value d))"

lemma digits_value_snoc: "digits_value (s @ [c]) = digits_value s * 10 + (code c - 48)"
  by (simp add: digits_value_def)

lemma show_nat_digits: "list_all is_ascii_digit (show_nat n) \<and> digits_value (show_nat n) = n
    \<and> show_nat n \<noteq> []"
proof (induction n rule: show_nat.induct)
  case (1 n)
  have d: "is_ascii_digit (char_of (48 + k)) \<and> code (char_of (48 + k)) = 48 + k" if "k < 10" for k
    using that by (simp add: ascii_defs)
  show ?case
  proof (cases "n < 10")
    case True
    with d [of n] show ?thesis by (simp add: show_nat.simps [of n] digits_value_def)
  next
    case False
    with "1.IH" d [of "n mod 10"] show ?thesis
      by (simp add: show_nat.simps [of n] digits_value_snoc)
  qed
qed

lemma parse_show_nat: "n < bound \<Longrightarrow> parse_unsigned bound (show_nat n) = Some n"
proof -
  assume n: "n < bound"
  obtain c cs where s: "show_nat n = c # cs" using show_nat_digits [of n] by (cases "show_nat n") auto
  have "is_ascii_digit c" using show_nat_digits [of n] s by simp
  then have "c \<noteq> CHR ''+''" by (auto simp: ascii_defs)
  with s n show_nat_digits [of n] show ?thesis by (simp add: parse_unsigned_def)
qed

end
