(* ===== verification/Core_Model.thy ===== *)
theory Core_Model
  imports Rust_Strings
begin

text \<open>
  The domain model of \<^verbatim>\<open>crates/core\<close> and the identifiers of \<^verbatim>\<open>crates/protocol/src/ids.rs\<close>:
  capabilities, platforms, node and task status with their display names, and the node record
  with its operations. A \<^verbatim>\<open>Uuid\<close> is its 128-bit value.
\<close>

section \<open>Identifiers\<close>

datatype node_id = NodeId (node_uuid: uuid)
datatype task_id = TaskId (task_uuid: uuid)

section \<open>Capabilities\<close>

datatype capability =
    Compute | Clipboard | FileStorage | FileTransfer | Search | Docker | AiModel | Browser
  | Notifications | Camera | Microphone | Terminal | RemoteExecution | UnknownCapability string

fun capability_to_string :: "capability \<Rightarrow> string" where
  "capability_to_string Compute = ''compute''"
| "capability_to_string Clipboard = ''clipboard''"
| "capability_to_string FileStorage = ''file_storage''"
| "capability_to_string FileTransfer = ''file_transfer''"
| "capability_to_string Search = ''search''"
| "capability_to_string Docker = ''docker''"
| "capability_to_string AiModel = ''ai_model''"
| "capability_to_string Browser = ''browser''"
| "capability_to_string Notifications = ''notifications''"
| "capability_to_string Camera = ''camera''"
| "capability_to_string Microphone = ''microphone''"
| "capability_to_string Terminal = ''terminal''"
| "capability_to_string RemoteExecution = ''remote_execution''"
| "capability_to_string (UnknownCapability s) = s"

text \<open>\<^verbatim>\<open>FromStr\<close> has the error type \<open>()\<close> and never returns it; the model returns the value.\<close>

definition capability_from_str :: "string \<Rightarrow> unit + capability" where
  "capability_from_str s =
    (if s = ''compute'' then Inr Compute
     else if s = ''clipboard'' then Inr Clipboard
     else if s = ''file_storage'' then Inr FileStorage
     else if s = ''file_transfer'' then Inr FileTransfer
     else if s = ''search'' then Inr Search
     else if s = ''docker'' then Inr Docker
     else if s = ''ai_model'' then Inr AiModel
     else if s = ''browser'' then Inr Browser
     else if s = ''notifications'' then Inr Notifications
     else if s = ''camera'' then Inr Camera
     else if s = ''microphone'' then Inr Microphone
     else if s = ''terminal'' then Inr Terminal
     else if s = ''remote_execution'' then Inr RemoteExecution
     else Inr (UnknownCapability s))"

section \<open>Platforms and status\<close>

datatype platform =
    Mac | Windows | Linux | Android | DockerPlatform | Vm | BrowserPlatform | Nas | RaspberryPi
  | Cloud | Wsl | UnknownPlatform string

fun platform_to_string :: "platform \<Rightarrow> string" where
  "platform_to_string Mac = ''mac''"
| "platform_to_string Windows = ''windows''"
| "platform_to_string Linux = ''linux''"
| "platform_to_string Android = ''android''"
| "platform_to_string DockerPlatform = ''docker''"
| "platform_to_string Vm = ''vm''"
| "platform_to_string BrowserPlatform = ''browser''"
| "platform_to_string Nas = ''nas''"
| "platform_to_string RaspberryPi = ''raspberry_pi''"
| "platform_to_string Cloud = ''cloud''"
| "platform_to_string Wsl = ''wsl''"
| "platform_to_string (UnknownPlatform s) = s"

datatype node_status = Online | Offline | Busy | Maintenance

definition node_status_default :: node_status where
  "node_status_default = Offline"

fun node_status_to_string :: "node_status \<Rightarrow> string" where
  "node_status_to_string Online = ''online''"
| "node_status_to_string Offline = ''offline''"
| "node_status_to_string Busy = ''busy''"
| "node_status_to_string Maintenance = ''maintenance''"

datatype task_status = Pending | Queued | Running | Completed | Failed | Cancelled

definition task_status_default :: task_status where
  "task_status_default = Pending"

fun task_status_to_string :: "task_status \<Rightarrow> string" where
  "task_status_to_string Pending = ''pending''"
| "task_status_to_string Queued = ''queued''"
| "task_status_to_string Running = ''running''"
| "task_status_to_string Completed = ''completed''"
| "task_status_to_string Failed = ''failed''"
| "task_status_to_string Cancelled = ''cancelled''"

section \<open>Nodes\<close>

record node =
  nd_id :: uuid
  nd_name :: string
  nd_platform :: platform
  nd_capabilities :: "capability list"
  nd_status :: node_status
  nd_last_seen :: "int option"
  nd_public_key :: string
  nd_version :: string

definition node_new :: "uuid \<Rightarrow> string \<Rightarrow> platform \<Rightarrow> capability list \<Rightarrow> string \<Rightarrow> string \<Rightarrow> node" where
  "node_new i name platform caps key version =
     \<lparr>nd_id = i, nd_name = name, nd_platform = platform, nd_capabilities = caps,
      nd_status = node_status_default, nd_last_seen = None, nd_public_key = key,
      nd_version = version\<rparr>"

definition has_capability :: "node \<Rightarrow> capability \<Rightarrow> bool" where
  "has_capability n c = (c \<in> set (nd_capabilities n))"

definition mark_seen :: "int \<Rightarrow> node \<Rightarrow> node" where
  "mark_seen t n = n\<lparr>nd_last_seen := Some t, nd_status := Online\<rparr>"

section \<open>Properties\<close>

lemma capability_from_str_Inr: "\<exists>c. capability_from_str s = Inr c"
  by (simp add: capability_from_str_def)

lemma capability_print_parse:
  "capability_from_str s = Inr c \<Longrightarrow> capability_to_string c = s"
  by (auto simp: capability_from_str_def split: if_splits)

lemma capability_parse_print_known:
  "(\<And>s. c \<noteq> UnknownCapability s) \<Longrightarrow> capability_from_str (capability_to_string c) = Inr c"
  by (cases c) (simp_all add: capability_from_str_def)

text \<open>Capability names round-trip both ways: parsing never fails; printing what was parsed gives
  the original text back; and every capability but an \<open>Unknown\<close> that carries a reserved name is
  parsed back from its printed form.\<close>

theorem capability_roundtrip:
  "(\<exists>c. capability_from_str s = Inr c \<and> capability_to_string c = s)
   \<and> (capability_from_str (capability_to_string d) = Inr d
      \<or> (\<exists>t e. d = UnknownCapability t \<and> capability_from_str t = Inr e \<and> e \<noteq> d))"
proof
  show "\<exists>c. capability_from_str s = Inr c \<and> capability_to_string c = s"
    using capability_from_str_Inr capability_print_parse by blast
next
  show "capability_from_str (capability_to_string d) = Inr d
      \<or> (\<exists>t e. d = UnknownCapability t \<and> capability_from_str t = Inr e \<and> e \<noteq> d)"
  proof (cases "\<exists>t. d = UnknownCapability t")
    case True
    then obtain t where d: "d = UnknownCapability t" by blast
    obtain e where e: "capability_from_str t = Inr e" using capability_from_str_Inr by blast
    show ?thesis using d e by (cases "e = d") auto
  next
    case False
    then show ?thesis using capability_parse_print_known by blast
  qed
qed

lemma platform_names_distinct:
  "\<nexists>s. p = UnknownPlatform s \<Longrightarrow> \<nexists>s. q = UnknownPlatform s \<Longrightarrow>
    platform_to_string p = platform_to_string q \<Longrightarrow> p = q"
  by (cases p; cases q) simp_all

lemma node_status_to_string_inj: "node_status_to_string a = node_status_to_string b \<Longrightarrow> a = b"
  by (cases a; cases b) simp_all

lemma task_status_to_string_inj: "task_status_to_string a = task_status_to_string b \<Longrightarrow> a = b"
  by (cases a; cases b) simp_all

lemma node_lifecycle:
  "nd_status (node_new i name p caps key v) = Offline
   \<and> nd_status (mark_seen t n) = Online \<and> nd_last_seen (mark_seen t n) = Some t
   \<and> nd_capabilities (mark_seen t n) = nd_capabilities n"
  by (simp add: node_new_def mark_seen_def node_status_default_def)

lemma has_capability_new: "has_capability (node_new i name p caps key v) c \<longleftrightarrow> c \<in> set caps"
  by (simp add: has_capability_def node_new_def)

end
