(* ===== verification/Protocol.thy ===== *)
theory Protocol
  imports Core_Model
begin

text \<open>
  The wire protocol of \<^verbatim>\<open>crates/protocol\<close>: the messages and their constructors
  (\<^verbatim>\<open>message.rs\<close>, \<^verbatim>\<open>builder.rs\<close>), the versioned envelope (\<^verbatim>\<open>envelope.rs\<close>), the codec that
  rejects other versions (\<^verbatim>\<open>codec.rs\<close>), the validation of inbound messages (\<^verbatim>\<open>validation.rs\<close>)
  and pair codes (\<^verbatim>\<open>pair_code.rs\<close>).

  JSON belongs to \<^verbatim>\<open>serde_json\<close>: its values are the type parameter \<open>'j\<close>, its serialiser and
  parser are the arguments \<open>ser\<close> and \<open>de\<close> of the codec, its errors the type \<open>'e\<close>. Random identifiers
  and the wall clock (milliseconds, signed as in \<^verbatim>\<open>chrono\<close>) are arguments too.
\<close>

section \<open>Messages\<close>

record heartbeat_payload =
  hb_cpu_usage :: fl
  hb_memory_usage :: fl
  hb_battery_level :: "u8 option"
  hb_platform :: platform
  hb_version :: string
  hb_status :: node_status
  hb_capabilities :: "capability list"
  hb_timestamp :: int

record pair_request =
  pq_from :: node_id
  pq_to :: node_id
  pq_name :: string
  pq_public_key :: string
  pq_capabilities :: "capability list"
  pq_pair_code :: string

record pair_response =
  pp_from :: node_id
  pp_to :: node_id
  pp_name :: string
  pp_public_key :: string
  pp_accepted :: bool
  pp_reason :: "string option"

record 'j task_request =
  tq_task_id :: task_id
  tq_from :: node_id
  tq_to :: "node_id option"
  tq_kind :: string
  tq_payload :: 'j

record 'j task_result =
  tr_task_id :: task_id
  tr_from :: node_id
  tr_to :: "node_id option"
  tr_status :: task_status
  tr_result :: 'j
  tr_error :: "string option"
  tr_completed_at :: int

record search_request =
  sq_request_id :: task_id
  sq_query :: string

record search_result =
  sr_node_id :: node_id
  sr_name :: string
  sr_platform :: platform
  sr_status :: node_status
  sr_capabilities :: "capability list"
  sr_version :: string
  sr_score :: fl

record search_response =
  sp_request_id :: task_id
  sp_results :: "search_result list"

record session_request =
  ssq_from :: node_id
  ssq_to :: node_id
  ssq_file_name :: string
  ssq_file_size :: u64
  ssq_transfer_id :: "string option"
  ssq_chunk_size :: u64
  ssq_parallel :: bool
  ssq_parallel_streams :: u64

record session_accept =
  ssa_from :: node_id
  ssa_to :: node_id
  ssa_session_id :: string
  ssa_chunk_size :: u64
  ssa_parallel :: bool
  ssa_parallel_streams :: u64

record session_reject =
  ssr_from :: node_id
  ssr_to :: node_id
  ssr_reason :: string

record session_progress_msg =
  ssp_session_id :: string
  ssp_from :: node_id
  ssp_bytes_sent :: u64
  ssp_bytes_total :: u64
  ssp_speed_mbps :: fl

record session_close =
  ssc_session_id :: string
  ssc_from :: node_id
  ssc_reason :: "string option"

record device_list_request =
  dlq_from :: node_id

record node_summary =
  ns_id :: node_id
  ns_name :: string
  ns_platform :: platform
  ns_status :: node_status
  ns_last_seen :: "int option"
  ns_capabilities :: "capability list"

record device_list_response =
  dlr_nodes :: "node_summary list"

datatype 'j message =
    Heartbeat node_id heartbeat_payload
  | HeartbeatAck
  | PairRequest pair_request
  | PairResponse pair_response
  | TaskRequest "'j task_request"
  | TaskResult "'j task_result"
  | SearchRequest search_request
  | SearchResponse search_response
  | DeviceListRequest device_list_request
  | DeviceListResponse device_list_response
  | SessionRequest session_request
  | SessionAccept session_accept
  | SessionReject session_reject
  | SessionProgress session_progress_msg
  | SessionClose session_close
  | ErrorMsg string string

section \<open>Constructors\<close>

definition heartbeat :: "node_id \<Rightarrow> heartbeat_payload \<Rightarrow> 'j message" where
  "heartbeat from payload = Heartbeat from payload"

definition pair_request_msg ::
  "node_id \<Rightarrow> node_id \<Rightarrow> string \<Rightarrow> string \<Rightarrow> capability list \<Rightarrow> string \<Rightarrow> 'j message" where
  "pair_request_msg from to name key caps code' = PairRequest
     \<lparr>pq_from = from, pq_to = to, pq_name = name, pq_public_key = key, pq_capabilities = caps,
      pq_pair_code = code'\<rparr>"

definition pair_accept :: "node_id \<Rightarrow> node_id \<Rightarrow> string \<Rightarrow> string \<Rightarrow> 'j message" where
  "pair_accept from to name key = PairResponse
     \<lparr>pp_from = from, pp_to = to, pp_name = name, pp_public_key = key, pp_accepted = True,
      pp_reason = None\<rparr>"

definition pair_reject :: "node_id \<Rightarrow> node_id \<Rightarrow> string \<Rightarrow> string \<Rightarrow> string \<Rightarrow> 'j message" where
  "pair_reject from to name key reason = PairResponse
     \<lparr>pp_from = from, pp_to = to, pp_name = name, pp_public_key = key, pp_accepted = False,
      pp_reason = Some reason\<rparr>"

definition device_list_request_msg :: "node_id \<Rightarrow> 'j message" where
  "device_list_request_msg from = DeviceListRequest \<lparr>dlq_from = from\<rparr>"

definition search_request_msg :: "uuid \<Rightarrow> string \<Rightarrow> 'j message" where
  "search_request_msg fresh query =
     SearchRequest \<lparr>sq_request_id = TaskId fresh, sq_query = query\<rparr>"

definition task_request_msg ::
  "uuid \<Rightarrow> node_id \<Rightarrow> node_id option \<Rightarrow> string \<Rightarrow> 'j \<Rightarrow> 'j message" where
  "task_request_msg fresh from to kind payload = TaskRequest
     \<lparr>tq_task_id = TaskId fresh, tq_from = from, tq_to = to, tq_kind = kind, tq_payload = payload\<rparr>"

definition task_result_msg ::
  "int \<Rightarrow> node_id \<Rightarrow> node_id option \<Rightarrow> task_id \<Rightarrow> 'j \<Rightarrow> 'j message" where
  "task_result_msg now from to tid res = TaskResult
     \<lparr>tr_task_id = tid, tr_from = from, tr_to = to, tr_status = Completed, tr_result = res,
      tr_error = None, tr_completed_at = now\<rparr>"

definition error_msg :: "string \<Rightarrow> string \<Rightarrow> 'j message" where
  "error_msg c m = ErrorMsg c m"

section \<open>Envelope and codec\<close>

definition PROTOCOL_VERSION :: u16 where
  "PROTOCOL_VERSION = 1"

record 'j envelope =
  env_version :: u16
  env_message_id :: uuid
  env_message :: "'j message"

definition envelope_new :: "uuid \<Rightarrow> 'j message \<Rightarrow> 'j envelope" where
  "envelope_new fresh m =
     \<lparr>env_version = PROTOCOL_VERSION, env_message_id = fresh, env_message = m\<rparr>"

definition envelope_reply :: "'j message \<Rightarrow> task_id \<Rightarrow> 'j envelope" where
  "envelope_reply m rid =
     \<lparr>env_version = PROTOCOL_VERSION, env_message_id = task_uuid rid, env_message = m\<rparr>"

definition is_compatible :: "'j envelope \<Rightarrow> bool" where
  "is_compatible e = (env_version e = PROTOCOL_VERSION)"

datatype 'e protocol_error =
    Serialisation 'e
  | VersionMismatch (expected: u16) (received: u16)
  | ValidationFailed string
  | UnknownMessageType string
  | MissingField string
  | InvalidPairCode string

text \<open>The \<^verbatim>\<open>Display\<close> text of an error, where \<open>show_e\<close> prints the JSON errors.\<close>

fun protocol_error_to_string :: "('e \<Rightarrow> string) \<Rightarrow> 'e protocol_error \<Rightarrow> string" where
  "protocol_error_to_string show_e (Serialisation e) = ''serialisation error: '' @ show_e e"
| "protocol_error_to_string show_e (VersionMismatch ex rc) =
     ''protocol version mismatch: expected '' @ show_nat (unat ex) @ '', received '' @ show_nat (unat rc)"
| "protocol_error_to_string show_e (ValidationFailed s) = ''validation failed: '' @ s"
| "protocol_error_to_string show_e (UnknownMessageType s) = ''unknown message type: '' @ s"
| "protocol_error_to_string show_e (MissingField s) = ''missing field: '' @ s"
| "protocol_error_to_string show_e (InvalidPairCode s) = ''invalid pair code: '' @ s"

definition codec_encode ::
  "('j envelope \<Rightarrow> 'e + string) \<Rightarrow> 'j envelope \<Rightarrow> 'e protocol_error + string" where
  "codec_encode ser env = (case ser env of Inl e \<Rightarrow> Inl (Serialisation e) | Inr s \<Rightarrow> Inr s)"

definition codec_decode ::
  "(string \<Rightarrow> 'e + 'j envelope) \<Rightarrow> string \<Rightarrow> 'e protocol_error + 'j envelope" where
  "codec_decode de raw =
     (case de raw of
        Inl e \<Rightarrow> Inl (Serialisation e)
      | Inr env \<Rightarrow>
          if \<not> is_compatible env then Inl (VersionMismatch PROTOCOL_VERSION (env_version env))
          else Inr env)"

section \<open>Validation\<close>

text \<open>The \<^verbatim>\<open>?\<close> operator on \<^verbatim>\<open>Result<(), E>\<close>.\<close>

fun and_then :: "'e + unit \<Rightarrow> 'e + 'a \<Rightarrow> 'e + 'a" where
  "and_then (Inl e) k = Inl e"
| "and_then (Inr _) k = k"

definition validation_err :: "string \<Rightarrow> 'e protocol_error" where
  "validation_err reason = ValidationFailed reason"

definition validate_node_id_nonzero :: "uuid \<Rightarrow> 'e protocol_error + unit" where
  "validate_node_id_nonzero i =
     (if i = 0 then Inl (validation_err ''node_id must not be the nil UUID'') else Inr ())"

definition validate_public_key :: "string \<Rightarrow> 'e protocol_error + unit" where
  "validate_public_key k =
     (if length k \<noteq> 64 \<or> \<not> list_all is_ascii_hexdigit k
      then Inl (validation_err ''public_key must be a 64-character lowercase hex string'')
      else Inr ())"

definition validate_pair_code_format :: "string \<Rightarrow> 'e protocol_error + unit" where
  "validate_pair_code_format c =
     (if length c \<noteq> 6 \<or> \<not> list_all is_ascii_alphanumeric c
      then Inl (validation_err ''pair_code must be exactly 6 alphanumeric characters'')
      else Inr ())"

text \<open>The reason texts contain an en dash in the source (``0-100''); it is written as a hyphen.\<close>

fun validate :: "'j message \<Rightarrow> 'e protocol_error + unit" where
  "validate (Heartbeat from payload) =
     and_then (validate_node_id_nonzero (node_uuid from))
       (if hb_version payload = []
        then Inl (validation_err ''heartbeat.payload.version must not be empty'')
        else if fl_less (hb_cpu_usage payload) (Fin 0) \<or> fl_less (Fin 100) (hb_cpu_usage payload)
        then Inl (validation_err ''heartbeat.payload.cpu_usage must be 0-100'')
        else if fl_less (hb_memory_usage payload) (Fin 0)
          \<or> fl_less (Fin 100) (hb_memory_usage payload)
        then Inl (validation_err ''heartbeat.payload.memory_usage must be 0-100'')
        else Inr ())"
| "validate (PairRequest req) =
     and_then (validate_node_id_nonzero (node_uuid (pq_from req)))
       (if trim (pq_name req) = [] then Inl (validation_err ''pair_request.name must not be empty'')
        else and_then (validate_public_key (pq_public_key req))
               (and_then (validate_pair_code_format (pq_pair_code req)) (Inr ())))"
| "validate (PairResponse resp) =
     and_then (validate_node_id_nonzero (node_uuid (pp_from resp)))
       (if trim (pp_name resp) = [] then Inl (validation_err ''pair_response.name must not be empty'')
        else and_then (validate_public_key (pp_public_key resp)) (Inr ()))"
| "validate (TaskRequest req) =
     and_then (validate_node_id_nonzero (node_uuid (tq_from req)))
       (if trim (tq_kind req) = [] then Inl (validation_err ''task_request.kind must not be empty'')
        else Inr ())"
| "validate (SearchRequest req) =
     (if trim (sq_query req) = [] then Inl (validation_err ''search_request.query must not be empty'')
      else Inr ())"
| "validate _ = Inr ()"

section \<open>Pair codes\<close>

definition PAIR_CODE_TTL_SECS :: int where
  "PAIR_CODE_TTL_SECS = 300"

definition ALPHABET :: string where
  "ALPHABET = ''ABCDEFGHJKLMNPQRSTUVWXYZ23456789''"

record pair_code =
  pc_code :: string
  pc_created_at :: int

text \<open>The \<open>i\<close>-th draw of the random generator is \<open>rng i\<close>, below \<^verbatim>\<open>ALPHABET.len()\<close>.\<close>

definition pair_code_generate :: "(nat \<Rightarrow> nat) \<Rightarrow> int \<Rightarrow> pair_code" where
  "pair_code_generate rng now =
     \<lparr>pc_code = map (\<lambda>i. ALPHABET ! rng i) [0..<6], pc_created_at = now\<rparr>"

definition pair_code_is_valid :: "int \<Rightarrow> pair_code \<Rightarrow> bool" where
  "pair_code_is_valid now pc = (now - pc_created_at pc < PAIR_CODE_TTL_SECS * 1000)"

definition pair_code_verify :: "int \<Rightarrow> pair_code \<Rightarrow> string \<Rightarrow> 'e protocol_error + unit" where
  "pair_code_verify now pc inp =
     (if \<not> pair_code_is_valid now pc then Inl (InvalidPairCode ''pair code has expired'')
      else if \<not> eq_ignore_ascii_case inp (pc_code pc)
      then Inl (InvalidPairCode ''pair code does not match'')
      else Inr ())"

section \<open>Properties\<close>

lemma and_then_Inr [simp]: "and_then r k = Inr v \<longleftrightarrow> r = Inr () \<and> k = Inr v"
  by (cases "(r, k)" rule: and_then.cases) auto

text \<open>The checks of an inbound message as a predicate.\<close>

definition key_ok :: "string \<Rightarrow> bool" where
  "key_ok k \<longleftrightarrow> length k = 64 \<and> list_all is_ascii_hexdigit k"

definition code_ok :: "string \<Rightarrow> bool" where
  "code_ok c \<longleftrightarrow> length c = 6 \<and> list_all is_ascii_alphanumeric c"

fun message_ok :: "'j message \<Rightarrow> bool" where
  "message_ok (Heartbeat from p) \<longleftrightarrow> node_uuid from \<noteq> 0 \<and> hb_version p \<noteq> []
     \<and> \<not> fl_less (hb_cpu_usage p) (Fin 0) \<and> \<not> fl_less (Fin 100) (hb_cpu_usage p)
     \<and> \<not> fl_less (hb_memory_usage p) (Fin 0) \<and> \<not> fl_less (Fin 100) (hb_memory_usage p)"
| "message_ok (PairRequest r) \<longleftrightarrow> node_uuid (pq_from r) \<noteq> 0 \<and> \<not> blank (pq_name r)
     \<and> key_ok (pq_public_key r) \<and> code_ok (pq_pair_code r)"
| "message_ok (PairResponse r) \<longleftrightarrow> node_uuid (pp_from r) \<noteq> 0 \<and> \<not> blank (pp_name r)
     \<and> key_ok (pp_public_key r)"
| "message_ok (TaskRequest r) \<longleftrightarrow> node_uuid (tq_from r) \<noteq> 0 \<and> \<not> blank (tq_kind r)"
| "message_ok (SearchRequest r) \<longleftrightarrow> \<not> blank (sq_query r)"
| "message_ok _ \<longleftrightarrow> True"

lemma validate_parts:
  "validate_node_id_nonzero i = Inr () \<longleftrightarrow> i \<noteq> 0"
  "validate_public_key k = Inr () \<longleftrightarrow> key_ok k"
  "validate_pair_code_format c = Inr () \<longleftrightarrow> code_ok c"
  by (auto simp: validate_node_id_nonzero_def validate_public_key_def validate_pair_code_format_def
      key_ok_def code_ok_def)

lemma validate_fails_with:
  "validate m = (Inl e :: 'e protocol_error + unit) \<Longrightarrow> \<exists>reason. e = ValidationFailed reason"
  by (cases m) (auto simp: validate_node_id_nonzero_def validate_public_key_def
      validate_pair_code_format_def validation_err_def split: if_splits)

text \<open>Validation accepts exactly the messages that satisfy every structural rule of their
  kind, and every refusal is a \<open>ValidationFailed\<close>.\<close>

theorem validate_iff:
  "(validate m = (Inr () :: 'e protocol_error + unit)) = message_ok m
   \<and> (message_ok m \<or> (\<exists>reason. validate m = (Inl (ValidationFailed reason) :: 'e protocol_error + unit)))"
proof -
  have eq: "(validate m = (Inr () :: 'e protocol_error + unit)) = message_ok m"
    by (cases m) (auto simp: validate_parts)
  moreover have "\<exists>reason. validate m = (Inl (ValidationFailed reason) :: 'e protocol_error + unit)"
    if "\<not> message_ok m"
    using that eq validate_fails_with [of m] by (cases "validate m :: 'e protocol_error + unit") auto
  ultimately show ?thesis by blast
qed

text \<open>Codec round trip. Where the serialiser and the parser agree on an envelope, decoding its
  encoding gives the envelope back if it carries this node's protocol version and a
  \<open>VersionMismatch\<close> naming both versions otherwise.\<close>

theorem codec_roundtrip:
  assumes "ser env = Inr s" and "de s = Inr env"
  shows "codec_encode ser env = Inr s
   \<and> codec_decode de s = (if env_version env = PROTOCOL_VERSION then Inr env
        else Inl (VersionMismatch PROTOCOL_VERSION (env_version env)))"
  using assms by (simp add: codec_encode_def codec_decode_def is_compatible_def)

theorem codec_roundtrip_witness:
  "codec_decode (\<lambda>_. Inr (envelope_new 7 (HeartbeatAck :: unit message))) ''{}'' =
    (Inr (envelope_new 7 HeartbeatAck) :: unit protocol_error + unit envelope)"
  using codec_roundtrip [of "\<lambda>_. Inr ''{}'' :: unit + string"
      "envelope_new 7 (HeartbeatAck :: unit message)" "''{}''"
      "\<lambda>_. Inr (envelope_new 7 (HeartbeatAck :: unit message)) :: unit + unit envelope"]
  by (simp add: envelope_new_def)

lemma envelope_constructors_compatible:
  "is_compatible (envelope_new u m) \<and> is_compatible (envelope_reply m rid)
   \<and> env_message_id (envelope_reply m rid) = task_uuid rid"
  by (simp add: is_compatible_def envelope_new_def envelope_reply_def)

lemma decode_only_compatible: "codec_decode de raw = Inr env \<Longrightarrow> is_compatible env \<and> de raw = Inr env"
  by (auto simp: codec_decode_def split: sum.splits if_splits)

lemma alphabet_facts:
  "list_all is_ascii_alphanumeric ALPHABET \<and> length ALPHABET = 32
   \<and> list_all (\<lambda>c. c \<notin> set ''IO01'') ALPHABET"
  unfolding ALPHABET_def by (simp add: ascii_defs)

lemma alphabet_nth:
  "i < 32 \<Longrightarrow> is_ascii_alphanumeric (ALPHABET ! i) \<and> ALPHABET ! i \<notin> set ''IO01''"
  using alphabet_facts by (metis list_all_length)

text \<open>A generated pair code passes the format check every inbound pairing request is put
  through, uses none of the ambiguous characters, and is accepted, in any capitalisation, exactly
  until 300 seconds have passed.\<close>

theorem pair_code_generate_ok:
  assumes "\<forall>i<6. rng i < 32" and "eq_ignore_ascii_case inp (pc_code (pair_code_generate rng now))"
  shows "validate_pair_code_format (pc_code (pair_code_generate rng now))
        = (Inr () :: 'e protocol_error + unit)
   \<and> set (pc_code (pair_code_generate rng now)) \<inter> set ''IO01'' = {}
   \<and> (pair_code_verify now' (pair_code_generate rng now) inp = (Inr () :: 'e protocol_error + unit))
      = (now' - now < 300000)"
proof -
  have c: "pc_code (pair_code_generate rng now) = map (\<lambda>i. ALPHABET ! rng i) [0..<6]"
    by (simp add: pair_code_generate_def)
  have "code_ok (pc_code (pair_code_generate rng now))"
    unfolding c code_ok_def using assms(1) alphabet_nth by (auto simp: list_all_iff)
  moreover have "set (pc_code (pair_code_generate rng now)) \<inter> set ''IO01'' = {}"
    unfolding c using assms(1) alphabet_nth by fastforce
  ultimately show ?thesis
    using assms(2) by (auto simp: validate_parts pair_code_verify_def pair_code_is_valid_def
        PAIR_CODE_TTL_SECS_def pair_code_generate_def)
qed

theorem pair_code_generate_ok_witness:
  "pair_code_verify 299999 (pair_code_generate (\<lambda>i. i) 0) ''abcdef''
    = (Inr () :: unit protocol_error + unit)"
proof -
  have "eq_ignore_ascii_case ''abcdef'' (pc_code (pair_code_generate (\<lambda>i. i) 0))"
    by code_simp
  then show ?thesis
    using pair_code_generate_ok [of "\<lambda>i. i" "''abcdef''" 0 299999] by auto
qed

lemma pair_code_verify_wrong:
  "\<not> eq_ignore_ascii_case inp (pc_code pc) \<Longrightarrow>
    pair_code_verify now pc inp \<noteq> (Inr () :: 'e protocol_error + unit)"
  by (simp add: pair_code_verify_def)

end
