(* ===== verification/Relay.thy ===== *)
theory Relay
  imports Protocol
begin

text \<open>
  The relay server of \<^verbatim>\<open>relay/src\<close>: the registry of connected nodes (\<^verbatim>\<open>registry.rs\<close>), the
  identification of a connection and the dispatch of its messages (\<^verbatim>\<open>handler.rs\<close>), and the
  relay as a state machine over the interleaved steps of its connections.

  An outbound channel (\<^verbatim>\<open>NodeTx\<close>) is a number; sending is a list of (channel, text) pairs in
  order. The JSON serialiser \<open>ser\<close>, parser \<open>de\<close> and error printer \<open>show_e\<close>, the UUID printer
  \<open>ustr\<close>, Unicode lower-casing \<open>lower\<close> and the random envelope identifiers are arguments.
\<close>

section \<open>Registry\<close>

type_synonym node_tx = nat

record connected_node =
  cn_node_id :: node_id
  cn_name :: string
  cn_platform :: platform
  cn_capabilities :: "capability list"
  cn_version :: string
  cn_status :: node_status
  cn_last_seen :: int
  cn_tx :: node_tx
  cn_connection_id :: uuid

type_synonym registry = "(node_id, connected_node) hmap"

definition registry_new :: registry where
  "registry_new = []"

definition upsert_from_heartbeat ::
  "node_id \<Rightarrow> string \<Rightarrow> platform \<Rightarrow> capability list \<Rightarrow> heartbeat_payload \<Rightarrow> node_tx \<Rightarrow> uuid
     \<Rightarrow> registry \<Rightarrow> registry" where
  "upsert_from_heartbeat i name plat caps payload tx cid r =
     hm_insert i
       \<lparr>cn_node_id = i, cn_name = name, cn_platform = plat, cn_capabilities = caps,
        cn_version = hb_version payload, cn_status = Online,
        cn_last_seen = hb_timestamp payload, cn_tx = tx, cn_connection_id = cid\<rparr> r"

definition update_heartbeat :: "node_id \<Rightarrow> heartbeat_payload \<Rightarrow> registry \<Rightarrow> registry" where
  "update_heartbeat i payload r =
     hm_modify i (\<lambda>n. n\<lparr>cn_status := Online, cn_version := hb_version payload,
       cn_last_seen := hb_timestamp payload\<rparr>) r"

definition registry_remove :: "node_id \<Rightarrow> uuid \<Rightarrow> registry \<Rightarrow> registry" where
  "registry_remove i cid r =
     (case hm_get r i of
        None \<Rightarrow> r
      | Some n \<Rightarrow> if cn_connection_id n = cid then hm_remove i r else r)"

definition device_list :: "registry \<Rightarrow> device_list_response" where
  "device_list r =
     \<lparr>dlr_nodes = map (\<lambda>n. \<lparr>ns_id = cn_node_id n, ns_name = cn_name n, ns_platform = cn_platform n,
        ns_status = cn_status n, ns_last_seen = Some (cn_last_seen n),
        ns_capabilities = cn_capabilities n\<rparr>) (hm_values r)\<rparr>"

definition get_tx :: "node_id \<Rightarrow> registry \<Rightarrow> node_tx option" where
  "get_tx i r = map_option cn_tx (hm_get r i)"

text \<open>\<^verbatim>\<open>str::contains\<close>, \<^verbatim>\<open>starts_with\<close>, \<^verbatim>\<open>strip_prefix\<close>; the scores are decimal literals.\<close>

definition score_node ::
  "(string \<Rightarrow> string) \<Rightarrow> (uuid \<Rightarrow> string) \<Rightarrow> connected_node \<Rightarrow> string \<Rightarrow> rat" where
  "score_node lower ustr n q =
    (if q = [] then 1
     else if node_status_to_string (cn_status n) = q then 1
     else if platform_to_string (cn_platform n) = q then 1
     else if sublist q (lower (ustr (node_uuid (cn_node_id n)))) then 9 / 10
     else if sublist q (lower (cn_name n)) then 8 / 10
     else if sublist q (lower (cn_version n)) then 8 / 10
     else if sublist q (platform_to_string (cn_platform n)) then 7 / 10
     else
       let target_cap = (if prefix ''capability='' q then drop (length ''capability='') q else q) in
       if \<exists>c \<in> set (cn_capabilities n). sublist target_cap (lower (capability_to_string c))
       then (if prefix ''capability='' q then 1 else 6 / 10)
       else 0)"

text \<open>The stable descending sort by score.\<close>

fun insert_desc :: "search_result \<Rightarrow> search_result list \<Rightarrow> search_result list" where
  "insert_desc r [] = [r]"
| "insert_desc r (x # xs) =
     (if fl_less (sr_score x) (sr_score r) then r # x # xs else x # insert_desc r xs)"

definition sort_desc :: "search_result list \<Rightarrow> search_result list" where
  "sort_desc rs = foldl (\<lambda>acc r. insert_desc r acc) [] rs"

definition node_result :: "connected_node \<Rightarrow> rat \<Rightarrow> search_result" where
  "node_result n score =
     \<lparr>sr_node_id = cn_node_id n, sr_name = cn_name n, sr_platform = cn_platform n,
      sr_status = cn_status n, sr_capabilities = cn_capabilities n, sr_version = cn_version n,
      sr_score = Fin score\<rparr>"

definition registry_search ::
  "(string \<Rightarrow> string) \<Rightarrow> (uuid \<Rightarrow> string) \<Rightarrow> string \<Rightarrow> registry \<Rightarrow> search_result list" where
  "registry_search lower ustr query r =
     (let q = lower (trim query) in
      sort_desc (List.map_filter (\<lambda>n. let score = score_node lower ustr n q in
        if score > 0 then Some (node_result n score) else None) (hm_values r)))"

section \<open>Handler\<close>

definition send_msg ::
  "('j envelope \<Rightarrow> 'e + string) \<Rightarrow> uuid \<Rightarrow> node_tx \<Rightarrow> 'j message \<Rightarrow> (node_tx \<times> string) list" where
  "send_msg ser fresh tx m =
     (case codec_encode ser (envelope_new fresh m) of Inr json \<Rightarrow> [(tx, json)] | Inl _ \<Rightarrow> [])"

definition send_error ::
  "('j envelope \<Rightarrow> 'e + string) \<Rightarrow> uuid \<Rightarrow> node_tx \<Rightarrow> string \<Rightarrow> string \<Rightarrow> (node_tx \<times> string) list" where
  "send_error ser fresh tx c m = send_msg ser fresh tx (ErrorMsg c m)"

text \<open>The arguments of a relay process: JSON, printers, lower-casing.\<close>

record ('j, 'e) relay_env =
  re_ser :: "'j envelope \<Rightarrow> 'e + string"
  re_de :: "string \<Rightarrow> 'e + 'j envelope"
  re_show :: "'e \<Rightarrow> string"
  re_ustr :: "uuid \<Rightarrow> string"
  re_lower :: "string \<Rightarrow> string"

definition dispatch ::
  "('j, 'e) relay_env \<Rightarrow> uuid \<Rightarrow> string \<Rightarrow> node_tx \<Rightarrow> registry
     \<Rightarrow> registry \<times> (node_tx \<times> string) list" where
  "dispatch env fresh text tx r =
    (let ser = re_ser env in
     case codec_decode (re_de env) text of
       Inl e \<Rightarrow> (r, send_error ser fresh tx ''decode_error'' (protocol_error_to_string (re_show env) e))
     | Inr e \<Rightarrow>
        (case env_message e of
           Heartbeat node payload \<Rightarrow>
             (update_heartbeat node payload r, send_msg ser fresh tx HeartbeatAck)
         | DeviceListRequest _ \<Rightarrow>
             (r, send_msg ser fresh tx (DeviceListResponse (device_list r)))
         | SearchRequest req \<Rightarrow>
             (r, send_msg ser fresh tx (SearchResponse
                   \<lparr>sp_request_id = sq_request_id req,
                    sp_results = registry_search (re_lower env) (re_ustr env) (sq_query req) r\<rparr>))
         | PairRequest req \<Rightarrow>
             (r, case get_tx (pq_to req) r of
                   Some t \<Rightarrow> send_msg ser fresh t (env_message e)
                 | None \<Rightarrow> send_error ser fresh tx ''target_offline'' ''target node is not connected'')
         | PairResponse resp \<Rightarrow>
             (r, case get_tx (pp_to resp) r of
                   Some t \<Rightarrow> send_msg ser fresh t (env_message e)
                 | None \<Rightarrow> [])
         | TaskRequest req \<Rightarrow>
             (r, case tq_to req of
                   None \<Rightarrow> []
                 | Some to \<Rightarrow>
                    (case get_tx to r of
                       Some t \<Rightarrow> send_msg ser fresh t (env_message e)
                     | None \<Rightarrow> send_error ser fresh tx ''target_offline'' ''target node is not connected''))
         | TaskResult res \<Rightarrow>
             (r, case tr_to res of
                   None \<Rightarrow> []
                 | Some to \<Rightarrow>
                    (case get_tx to r of
                       Some t \<Rightarrow> send_msg ser fresh t (env_message e)
                     | None \<Rightarrow> []))
         | _ \<Rightarrow> (r, [])))"

text \<open>What the first ten seconds of a connection yield: a text frame, or anything else (another
  frame, an error, the end of the stream, the timeout).\<close>

datatype first_item = TextFrame string | NoTextFrame

definition platform_node_name :: "platform \<Rightarrow> string" where
  "platform_node_name p = (case p of
      Mac \<Rightarrow> ''Mac Node'' | Android \<Rightarrow> ''Android Device'' | Windows \<Rightarrow> ''Windows Node''
    | Linux \<Rightarrow> ''Linux Node'' | _ \<Rightarrow> ''Node'')"

definition identify ::
  "('j, 'e) relay_env \<Rightarrow> first_item \<Rightarrow> node_tx \<Rightarrow> uuid \<Rightarrow> registry \<Rightarrow> node_id option \<times> registry" where
  "identify env item tx cid r =
    (case item of
       NoTextFrame \<Rightarrow> (None, r)
     | TextFrame text \<Rightarrow>
        (case codec_decode (re_de env) text of
           Inl _ \<Rightarrow> (None, r)
         | Inr e \<Rightarrow>
            (case env_message e of
               Heartbeat from payload \<Rightarrow>
                 (let name = platform_node_name (hb_platform payload) @ '' ('' @
                             take 8 (re_ustr env (node_uuid from)) @ '')''
                  in (Some from, upsert_from_heartbeat from name (hb_platform payload)
                        (hb_capabilities payload) payload tx cid r))
             | _ \<Rightarrow> (None, r))))"

section \<open>The relay as a state machine\<close>

text \<open>
  Each connection task runs \<^verbatim>\<open>handle_connection\<close>: identify, then one dispatch per text frame, then
  the cleanup. The registry lock makes every registry call atomic, so a run of the relay is a
  sequence of the steps below over the open connections, in any order. \<open>rl_live\<close> maps the
  connection identifier of an identified connection to its node and channel; connection
  identifiers are random UUIDs and channels are created per connection, so both are fresh.
\<close>

record relay_state =
  rl_registry :: registry
  rl_live :: "uuid \<rightharpoonup> node_id \<times> node_tx"
  rl_sent :: "(node_tx \<times> string) list"

definition relay_init :: relay_state where
  "relay_init = \<lparr>rl_registry = registry_new, rl_live = Map.empty, rl_sent = []\<rparr>"

inductive relay_step :: "('j, 'e) relay_env \<Rightarrow> relay_state \<Rightarrow> relay_state \<Rightarrow> bool"
  for env :: "('j, 'e) relay_env" where
  connect: "identify env item tx cid (rl_registry s) = (Some i, r) \<Longrightarrow> rl_live s cid = None \<Longrightarrow>
     (\<And>c j t. rl_live s c = Some (j, t) \<Longrightarrow> t \<noteq> tx) \<Longrightarrow>
     relay_step env s (s\<lparr>rl_registry := r, rl_live := (rl_live s)(cid \<mapsto> (i, tx))\<rparr>)"
| refuse: "identify env item tx cid (rl_registry s) = (None, r) \<Longrightarrow>
     relay_step env s (s\<lparr>rl_registry := r\<rparr>)"
| message: "rl_live s cid = Some (i, tx) \<Longrightarrow>
     dispatch env fresh text tx (rl_registry s) = (r, out) \<Longrightarrow>
     relay_step env s (s\<lparr>rl_registry := r, rl_sent := rl_sent s @ out\<rparr>)"
| disconnect: "rl_live s cid = Some (i, tx) \<Longrightarrow>
     relay_step env s (s\<lparr>rl_registry := registry_remove i cid (rl_registry s),
       rl_live := (rl_live s)(cid := None)\<rparr>)"

inductive relay_reachable :: "('j, 'e) relay_env \<Rightarrow> relay_state \<Rightarrow> bool"
  for env :: "('j, 'e) relay_env" where
  start: "relay_reachable env relay_init"
| step: "relay_reachable env s \<Longrightarrow> relay_step env s t \<Longrightarrow> relay_reachable env t"

section \<open>The registry as an interface\<close>

text \<open>
  What the dispatcher relies on: a route (the channel and the connection it belongs to) is set by
  registering a node, kept by a heartbeat, and dropped only by the connection that owns it.
\<close>

locale node_routes =
  fixes route :: "'r \<Rightarrow> 'n \<Rightarrow> ('t \<times> 'c) option"
    and register :: "'n \<Rightarrow> 't \<Rightarrow> 'c \<Rightarrow> 'r \<Rightarrow> 'r"
    and refresh :: "'n \<Rightarrow> 'r \<Rightarrow> 'r"
    and unregister :: "'n \<Rightarrow> 'c \<Rightarrow> 'r \<Rightarrow> 'r"
  assumes route_register: "route (register i t c r) k = (if k = i then Some (t, c) else route r k)"
    and route_refresh: "route (refresh i r) k = route r k"
    and route_unregister: "route (unregister i c r) k =
      (if k = i \<and> map_option snd (route r i) = Some c then None else route r k)"
begin

lemma takeover: "c \<noteq> c' \<Longrightarrow> route (unregister i c (register i t' c' r)) i = Some (t', c')"
  by (simp add: route_register route_unregister)

lemma owner_leaves: "route (unregister i c (register i t c r)) i = None"
  by (simp add: route_register route_unregister)

lemma unregister_other: "k \<noteq> i \<Longrightarrow> route (unregister i c r) k = route r k"
  by (simp add: route_unregister)

lemma unregister_refresh: "route (unregister i c (refresh j r)) k = route (unregister i c r) k"
  unfolding route_refresh route_unregister by (cases "k = i") auto

end

definition node_route :: "registry \<Rightarrow> node_id \<Rightarrow> (node_tx \<times> uuid) option" where
  "node_route r i = map_option (\<lambda>n. (cn_tx n, cn_connection_id n)) (hm_get r i)"

interpretation rr: node_routes node_route
  "\<lambda>i t c r. upsert_from_heartbeat i name plat caps payload t c r"
  "\<lambda>i r. update_heartbeat i payload r" registry_remove
  for name plat caps payload
  by unfold_locales
    (auto simp: node_route_def upsert_from_heartbeat_def update_heartbeat_def registry_remove_def
      o_def option.map_comp split: option.splits)

lemma get_tx_route: "get_tx i r = map_option fst (node_route r i)"
  by (simp add: get_tx_def node_route_def option.map_comp o_def)

text \<open>Reconnecting is isolated from the old connection: when a node registers again on a new
  connection, the late cleanup of its old connection leaves the new channel in place, whereas the
  cleanup of the connection that owns the entry removes it; the cleanup of a connection never
  touches another node.\<close>

theorem registry_reconnect:
  "(c \<noteq> c' \<longrightarrow> get_tx i (registry_remove i c (upsert_from_heartbeat i nm' pl' cs' p' t' c'
       (upsert_from_heartbeat i nm pl cs p t c r))) = Some t') \<and>
   get_tx i (registry_remove i c (upsert_from_heartbeat i nm pl cs p t c r)) = None \<and>
   (k \<noteq> i \<longrightarrow> get_tx k (registry_remove i c r) = get_tx k r)"
  by (simp add: get_tx_route rr.takeover rr.owner_leaves rr.unregister_other)

definition demo_payload :: heartbeat_payload where
  "demo_payload = \<lparr>hb_cpu_usage = Fin 1, hb_memory_usage = Fin 2, hb_battery_level = None,
     hb_platform = Mac, hb_version = ''1'', hb_status = Online, hb_capabilities = [Search],
     hb_timestamp = 5\<rparr>"

theorem registry_reconnect_witness:
  "get_tx (NodeId 1) (registry_remove (NodeId 1) 7
     (upsert_from_heartbeat (NodeId 1) ''b'' Mac [] demo_payload 4 8
       (upsert_from_heartbeat (NodeId 1) ''a'' Mac [] demo_payload 3 7 registry_new))) = Some 4"
  by (rule mp [OF conjunct1 [OF registry_reconnect [of 7 8]]]) simp

section \<open>Reachable states of the relay\<close>

definition registry_live :: "registry \<Rightarrow> (uuid \<rightharpoonup> node_id \<times> node_tx) \<Rightarrow> bool" where
  "registry_live r live \<longleftrightarrow> (\<forall>i n. hm_get r i = Some n \<longrightarrow>
     cn_node_id n = i \<and> live (cn_connection_id n) = Some (i, cn_tx n))"

lemma registry_live_upsert:
  assumes "registry_live r live" and "live cid = None"
  shows "registry_live (upsert_from_heartbeat i nm pl cs p t cid r) (live(cid \<mapsto> (i, t)))"
  using assms by (fastforce simp: registry_live_def upsert_from_heartbeat_def)

lemma registry_live_update:
  "registry_live r live \<Longrightarrow> registry_live (update_heartbeat i p r) live"
  by (auto simp: registry_live_def update_heartbeat_def)

lemma registry_live_remove:
  assumes "registry_live r live" and "live cid = Some (i, t)"
  shows "registry_live (registry_remove i cid r) (live(cid := None))"
  unfolding registry_live_def
proof (intro allI impI)
  fix k n
  assume "hm_get (registry_remove i cid r) k = Some n"
  then have old: "hm_get r k = Some n" and other: "k = i \<longrightarrow> cn_connection_id n \<noteq> cid"
    by (auto simp: registry_remove_def split: option.splits if_splits)
  from old assms(1) have inv: "cn_node_id n = k" "live (cn_connection_id n) = Some (k, cn_tx n)"
    by (auto simp: registry_live_def)
  with assms(2) other show "cn_node_id n = k \<and> (live(cid := None)) (cn_connection_id n) = Some (k, cn_tx n)"
    by auto
qed

lemma identify_cases:
  assumes "identify env item tx cid r = (res, r')"
  obtains (known) i nm pl cs p where "res = Some i" "r' = upsert_from_heartbeat i nm pl cs p tx cid r"
  | (unknown) "res = None" "r' = r"
proof (cases res)
  case None
  with assms have "r' = r"
    by (auto simp: identify_def Let_def split: first_item.splits sum.splits message.splits)
  with None show ?thesis by (rule unknown)
next
  case (Some i)
  with assms obtain nm pl cs p where "r' = upsert_from_heartbeat i nm pl cs p tx cid r"
    by (auto simp: identify_def Let_def split: first_item.splits sum.splits message.splits)
  with Some show ?thesis by (rule known)
qed

lemma dispatch_registry:
  "fst (dispatch env fresh text tx r) = r \<or>
   (\<exists>i p. fst (dispatch env fresh text tx r) = update_heartbeat i p r)"
  by (auto simp: dispatch_def Let_def split: sum.splits message.splits)

lemma get_tx_update [simp]: "get_tx k (update_heartbeat i p r) = get_tx k r"
  by (simp add: get_tx_route rr.route_refresh)

lemma relay_step_live:
  assumes "relay_step env s t" and "registry_live (rl_registry s) (rl_live s)"
  shows "registry_live (rl_registry t) (rl_live t)"
  using assms
proof (induction rule: relay_step.induct)
  case (connect item tx cid s i r)
  obtain nm pl cs p where "r = upsert_from_heartbeat i nm pl cs p tx cid (rl_registry s)"
    using connect(1) by (auto elim!: identify_cases)
  with connect registry_live_upsert [OF connect(4) connect(2)] show ?case by (simp add: fun_upd_def)
next
  case (refuse item tx cid s r)
  then show ?case by (auto elim!: identify_cases)
next
  case (message s cid i tx fresh raw r out)
  then show ?case
    using dispatch_registry [of env fresh raw tx "rl_registry s"] by (auto intro: registry_live_update)
next
  case (disconnect s cid i tx)
  then show ?case using registry_live_remove [of "rl_registry s" "rl_live s" cid i tx]
    by (simp add: fun_upd_def)
qed

lemma reachable_registry_live:
  "relay_reachable env s \<Longrightarrow> registry_live (rl_registry s) (rl_live s)"
proof (induction rule: relay_reachable.induct)
  case start
  then show ?case by (simp add: relay_init_def registry_new_def registry_live_def)
next
  case (step s t)
  then show ?case by (blast intro: relay_step_live)
qed

text \<open>C4. No dangling routes: in every reachable state of the relay, whatever the interleaving of
  connections, messages and disconnections, the channel the registry holds for a node is the
  channel of a connection that is open and identified as that node.\<close>

theorem relay_routes_open:
  assumes "relay_reachable env s" and "get_tx i (rl_registry s) = Some t"
  shows "\<exists>cid. rl_live s cid = Some (i, t)"
  using reachable_registry_live [OF assms(1)] assms(2)
  by (fastforce simp: get_tx_def registry_live_def)

definition demo_env :: "(unit, unit) relay_env" where
  "demo_env = \<lparr>re_ser = (\<lambda>_. Inr ''frame''),
     re_de = (\<lambda>_. Inr (envelope_new 9 (Heartbeat (NodeId 1) demo_payload))),
     re_show = (\<lambda>_. ''error''), re_ustr = (\<lambda>_. ''00000000-0000''), re_lower = map ascii_lower\<rparr>"

lemma demo_identify:
  "identify demo_env (TextFrame ''x'') 3 7 registry_new =
    (Some (NodeId 1), upsert_from_heartbeat (NodeId 1) ''Mac Node (00000000)'' Mac [Search]
       demo_payload 3 7 registry_new)"
  by code_simp

theorem relay_routes_open_witness:
  "\<exists>cid. rl_live (relay_init\<lparr>rl_registry := upsert_from_heartbeat (NodeId 1) ''Mac Node (00000000)''
      Mac [Search] demo_payload 3 7 registry_new,
      rl_live := [7 \<mapsto> (NodeId 1, 3)]\<rparr>) cid = Some (NodeId 1, 3)"
proof (rule relay_routes_open [where env = demo_env])
  have "relay_step demo_env relay_init (relay_init\<lparr>rl_registry := upsert_from_heartbeat (NodeId 1)
      ''Mac Node (00000000)'' Mac [Search] demo_payload 3 7 registry_new,
      rl_live := (rl_live relay_init)(7 \<mapsto> (NodeId 1, 3))\<rparr>)"
    by (rule relay_step.connect [where item = "TextFrame ''x''"])
      (simp_all add: relay_init_def demo_identify)
  from relay_reachable.step [OF relay_reachable.start this]
  show "relay_reachable demo_env (relay_init\<lparr>rl_registry := upsert_from_heartbeat (NodeId 1)
      ''Mac Node (00000000)'' Mac [Search] demo_payload 3 7 registry_new,
      rl_live := [7 \<mapsto> (NodeId 1, 3)]\<rparr>)"
    by (simp add: relay_init_def)
qed (simp add: get_tx_def upsert_from_heartbeat_def relay_init_def)

section \<open>Dispatch\<close>

text \<open>The node a message is addressed to, and whether its sender is told that the node is offline.\<close>

fun addressed_to :: "'j message \<Rightarrow> node_id option" where
  "addressed_to (PairRequest req) = Some (pq_to req)"
| "addressed_to (PairResponse resp) = Some (pp_to resp)"
| "addressed_to (TaskRequest req) = tq_to req"
| "addressed_to (TaskResult res) = tr_to res"
| "addressed_to _ = None"





lemma send_msg_channel: "x \<in> set (send_msg ser fresh t m) \<Longrightarrow> fst x = t"
  by (auto simp: send_msg_def split: sum.splits)

lemma length_send_msg: "length (send_msg ser fresh t m) \<le> 1"
  by (auto simp: send_msg_def split: sum.splits)

lemmas send_facts = send_msg_channel send_error_def length_send_msg

lemma dispatch_targets:
  assumes "dispatch env fresh text tx r = (r', out)"
  shows "length out \<le> 1"
    and "\<forall>x \<in> set out. fst x = tx \<or> (\<exists>e i. codec_decode (re_de env) text = Inr e \<and>
      addressed_to (env_message e) = Some i \<and> get_tx i r = Some (fst x))"
    and "node_route r' k = node_route r k"
proof -
  show "length out \<le> 1"
    using assms by (auto simp: dispatch_def Let_def length_send_msg [simplified] send_error_def
        split: sum.splits message.splits option.splits)
  show "\<forall>x \<in> set out. fst x = tx \<or> (\<exists>e i. codec_decode (re_de env) text = Inr e \<and>
      addressed_to (env_message e) = Some i \<and> get_tx i r = Some (fst x))"
    using assms by (auto simp: dispatch_def Let_def send_error_def dest!: send_msg_channel
        split: sum.splits message.splits option.splits)
  show "node_route r' k = node_route r k"
    using dispatch_registry [of env fresh "text" tx r] assms by (auto simp: rr.route_refresh)
qed

text \<open>C7. Confinement: one frame produces at most one outgoing message; it goes to the connection
  that sent the frame, or to the registered channel of the node the decoded message is addressed
  to. No frame changes a route.\<close>

theorem dispatch_confined:
  assumes "dispatch env fresh text tx r = (r', out)"
  shows "length out \<le> 1
    \<and> (\<forall>x \<in> set out. fst x = tx \<or> (\<exists>e i. codec_decode (re_de env) text = Inr e \<and>
          addressed_to (env_message e) = Some i \<and> get_tx i r = Some (fst x)))
    \<and> get_tx k r' = get_tx k r"
  using dispatch_targets [OF assms] by (simp_all add: get_tx_route)

theorem dispatch_confined_witness:
  "length (snd (dispatch demo_env 4 ''x'' 3 registry_new)) \<le> 1"
  using dispatch_confined [of demo_env 4 "''x''" 3 registry_new
      "fst (dispatch demo_env 4 ''x'' 3 registry_new)" "snd (dispatch demo_env 4 ''x'' 3 registry_new)"]
  by simp

text \<open>The session messages of the protocol reach the catch-all branch.\<close>

lemma dispatch_session_messages_dropped:
  assumes "codec_decode (re_de env) text = Inr e"
    and "env_message e \<in> range SessionRequest \<union> range SessionAccept \<union> range SessionReject
      \<union> range SessionProgress \<union> range SessionClose"
  shows "dispatch env fresh text tx r = (r, [])"
  using assms by (auto simp: dispatch_def Let_def)

section \<open>Search\<close>

definition desc_sorted :: "search_result list \<Rightarrow> bool" where
  "desc_sorted rs \<longleftrightarrow> sorted_wrt (\<lambda>x y. \<not> fl_less (sr_score x) (sr_score y)) rs"

definition scored :: "search_result \<Rightarrow> bool" where
  "scored x \<longleftrightarrow> sr_score x \<in> range Fin"

lemma mset_insert_desc [simp]: "mset (insert_desc x xs) = add_mset x (mset xs)"
  by (induction xs) auto

lemma set_insert_desc [simp]: "set (insert_desc x xs) = insert x (set xs)"
  by (induction xs) auto

lemma mset_foldl_insert_desc:
  "mset (foldl (\<lambda>acc r. insert_desc r acc) acc xs) = mset acc + mset xs"
  by (induction xs arbitrary: acc) auto

lemma desc_sorted_insert:
  assumes "desc_sorted xs" and "scored x" and "list_all scored xs"
  shows "desc_sorted (insert_desc x xs)"
  using assms
proof (induction xs)
  case Nil
  then show ?case by (simp add: desc_sorted_def)
next
  case (Cons a xs)
  have "\<not> fl_less (sr_score x) (sr_score z)"
    if "fl_less (sr_score a) (sr_score x)" and "z \<in> set xs" for z
  proof -
    from that Cons.prems have "\<not> fl_less (sr_score a) (sr_score z)" "scored z" "scored a" "scored x"
      by (auto simp: desc_sorted_def list_all_iff)
    with that show ?thesis by (auto simp: scored_def)
  qed
  moreover have "\<not> fl_less (sr_score x) (sr_score a)" if "fl_less (sr_score a) (sr_score x)"
    using that Cons.prems by (auto simp: scored_def)
  ultimately show ?case using Cons by (auto simp: desc_sorted_def)
qed

lemma desc_sorted_foldl:
  assumes "desc_sorted acc" and "list_all scored acc" and "list_all scored xs"
  shows "desc_sorted (foldl (\<lambda>acc r. insert_desc r acc) acc xs)"
  using assms by (induction xs arbitrary: acc) (auto simp: desc_sorted_insert list_all_iff)

lemma score_node_range: "score_node lower ustr n q \<in> {0, 6 / 10, 7 / 10, 8 / 10, 9 / 10, 1}"
  by (simp add: score_node_def Let_def)

definition search_hits ::
  "(string \<Rightarrow> string) \<Rightarrow> (uuid \<Rightarrow> string) \<Rightarrow> string \<Rightarrow> registry \<Rightarrow> connected_node list" where
  "search_hits lower ustr q r = filter (\<lambda>n. score_node lower ustr n q > 0) (hm_values r)"

lemma registry_search_hits:
  "registry_search lower ustr query r = sort_desc
     (map (\<lambda>n. node_result n (score_node lower ustr n (lower (trim query))))
       (search_hits lower ustr (lower (trim query)) r))"
  unfolding registry_search_def search_hits_def List.map_filter_def Let_def
  by (rule arg_cong [where f = sort_desc]) (auto intro!: map_cong filter_cong)

text \<open>Search returns every connected node with a positive score once and nothing else, ranked
  by descending score; scores are 0.6, 0.7, 0.8, 0.9 or 1, so the float comparison of the sort never
  meets a NaN; a blank query lists every connected node.\<close>

theorem registry_search_ranked:
  assumes "lower [] = []"
  shows "mset (registry_search lower ustr query r) =
      mset (map (\<lambda>n. node_result n (score_node lower ustr n (lower (trim query))))
        (filter (\<lambda>n. score_node lower ustr n (lower (trim query)) > 0) (hm_values r)))
    \<and> desc_sorted (registry_search lower ustr query r)
    \<and> sr_score ` set (registry_search lower ustr query r) \<subseteq> Fin ` {6/10, 7/10, 8/10, 9/10, 1}
    \<and> (blank query \<longrightarrow> length (registry_search lower ustr query r) = length r)"
proof -
  let ?q = "lower (trim query)"
  let ?xs = "map (\<lambda>n. node_result n (score_node lower ustr n ?q)) (search_hits lower ustr ?q r)"
  have m: "mset (registry_search lower ustr query r) = mset ?xs"
    by (simp add: registry_search_hits sort_desc_def mset_foldl_insert_desc)
  have scores: "sr_score ` set ?xs \<subseteq> Fin ` {6/10, 7/10, 8/10, 9/10, 1}"
  proof -
    have "score_node lower ustr n ?q \<in> {6/10, 7/10, 8/10, 9/10, 1}"
      if "score_node lower ustr n ?q > 0" for n
      using score_node_range [of lower ustr n ?q] that by auto
    from imageI [OF this]
    have "Fin (score_node lower ustr n ?q) \<in> Fin ` {6/10, 7/10, 8/10, 9/10, 1}"
      if "score_node lower ustr n ?q > 0" for n using that .
    then show ?thesis
      by (simp add: search_hits_def node_result_def image_subset_iff del: image_insert insert_iff)
  qed
  have sorted: "desc_sorted (registry_search lower ustr query r)"
    unfolding registry_search_hits sort_desc_def
    by (rule desc_sorted_foldl)
      (simp_all add: desc_sorted_def list_all_iff scored_def node_result_def)
  have all: "search_hits lower ustr ?q r = hm_values r" if "blank query"
  proof -
    have "?q = []" using assms by (simp add: blank_trim [OF that])
    then show ?thesis by (simp add: search_hits_def score_node_def)
  qed
  have "length (registry_search lower ustr query r) = length r" if "blank query"
    using arg_cong [OF m, of size] all [OF that] by (simp add: hm_values_def)
  moreover have "set (registry_search lower ustr query r) = set ?xs"
    using arg_cong [OF m, of set_mset] by simp
  ultimately show ?thesis using m sorted scores by (simp add: search_hits_def)
qed

theorem registry_search_ranked_witness:
  "desc_sorted (registry_search (map ascii_lower) (\<lambda>_. []) ''mac''
     (upsert_from_heartbeat (NodeId 2) ''b'' Mac [] demo_payload 6 8 registry_new))"
  using registry_search_ranked [of "map ascii_lower" "\<lambda>_. []" "''mac''"
     "upsert_from_heartbeat (NodeId 2) ''b'' Mac [] demo_payload 6 8 registry_new"] by simp

end
