(* ===== verification/Chunk_Tracker.thy ===== *)
theory Chunk_Tracker
  imports Prelude
begin

text \<open>
  The chunk tracker of \<^verbatim>\<open>crates/transfer_engine/src/reliable.rs\<close>: the partition of a file into
  chunks, the state of every chunk, and the acknowledgement bookkeeping.

  \<^verbatim>\<open>usize\<close> is 64 bits wide, so chunk sizes are \<open>u64\<close>. \<^verbatim>\<open>contiguous_acked\<close> indexes the chunk vector
  and is a natural number (it equals the \<^verbatim>\<open>u32\<close> as long as there are fewer than $2^{32}$ chunks);
  chunk identifiers and the counters are 32-bit and wrap. \<^verbatim>\<open>Instant::now()\<close> is an argument.
\<close>

section \<open>State\<close>

datatype chunk_state = ChPending | ChInFlight instant u32 | ChAcked | ChLost

record chunk_info =
  ci_id :: u32
  ci_offset :: u64
  ci_size :: u64
  ci_state :: chunk_state
  ci_is_retransmit :: bool

record chunk_tracker =
  tk_chunks :: "chunk_info list"
  tk_acked_ids :: "u32 set"
  tk_contiguous :: nat
  tk_total :: u64
  tk_in_flight :: u32
  tk_retransmits :: u32

section \<open>Operations\<close>

text \<open>The loop of \<^verbatim>\<open>ChunkTracker::new\<close>; \<open>None\<close> where it does not end.\<close>

partial_function (option) new_chunks :: "u64 \<Rightarrow> u64 \<Rightarrow> u64 \<Rightarrow> u32 \<Rightarrow> chunk_info list option" where
  "new_chunks chunk_size tot offset i =
    (if offset < tot then
       Option.bind
         (new_chunks chunk_size tot (offset + min (tot - offset) chunk_size) (i + 1))
         (\<lambda>cs. Some (\<lparr>ci_id = i, ci_offset = offset, ci_size = min (tot - offset) chunk_size,
             ci_state = ChPending, ci_is_retransmit = False\<rparr> # cs))
     else Some [])"

definition tracker_new :: "u64 \<Rightarrow> u64 \<Rightarrow> chunk_tracker option" where
  "tracker_new chunk_size tot =
    (case new_chunks chunk_size tot 0 0 of
       None \<Rightarrow> None
     | Some cs \<Rightarrow> Some \<lparr>tk_chunks = cs, tk_acked_ids = {}, tk_contiguous = 0, tk_total = tot,
         tk_in_flight = 0, tk_retransmits = 0\<rparr>)"

definition chunk_lookup :: "u32 \<Rightarrow> chunk_tracker \<Rightarrow> chunk_info option" where
  "chunk_lookup i t = find (\<lambda>c. ci_id c = i) (tk_chunks t)"

definition mark_in_flight :: "instant \<Rightarrow> u32 \<Rightarrow> u32 \<Rightarrow> chunk_tracker \<Rightarrow> chunk_tracker" where
  "mark_in_flight now i attempt t =
    (case chunk_lookup i t of
       None \<Rightarrow> t
     | Some _ \<Rightarrow> t\<lparr>
         tk_chunks := update_first (\<lambda>c. ci_id c = i)
           (\<lambda>c. c\<lparr>ci_state := ChInFlight now attempt,
                  ci_is_retransmit := (attempt > 1 \<or> ci_is_retransmit c)\<rparr>) (tk_chunks t),
         tk_in_flight := tk_in_flight t + 1,
         tk_retransmits := (if attempt > 1 then tk_retransmits t + 1 else tk_retransmits t)\<rparr>)"

text \<open>The loop of \<^verbatim>\<open>mark_acked\<close> that advances \<^verbatim>\<open>contiguous_acked\<close> over acknowledged chunks; the first
  argument is the chunk vector from index \<open>n\<close> on.\<close>

fun advance :: "chunk_info list \<Rightarrow> nat \<Rightarrow> nat" where
  "advance [] n = n"
| "advance (c # cs) n = (if ci_state c \<noteq> ChAcked then n else advance cs (Suc n))"

definition mark_acked :: "u32 \<Rightarrow> chunk_tracker \<Rightarrow> bool \<times> chunk_tracker" where
  "mark_acked i t =
    (if i \<in> tk_acked_ids t then (False, t)
     else
       (let t1 = t\<lparr>tk_acked_ids := insert i (tk_acked_ids t)\<rparr> in
        (case chunk_lookup i t1 of
           None \<Rightarrow> (True, t1)
         | Some _ \<Rightarrow>
             (let cs = update_first (\<lambda>c. ci_id c = i) (\<lambda>c. c\<lparr>ci_state := ChAcked\<rparr>) (tk_chunks t1) in
              (True, t1\<lparr>tk_chunks := cs, tk_in_flight := sat_sub (tk_in_flight t1) 1,
                 tk_contiguous := advance (drop (tk_contiguous t1) cs) (tk_contiguous t1)\<rparr>)))))"

definition chunk_sent_at :: "u32 \<Rightarrow> chunk_tracker \<Rightarrow> instant option" where
  "chunk_sent_at i t =
    (case chunk_lookup i t of
       None \<Rightarrow> None
     | Some c \<Rightarrow> (case ci_state c of ChInFlight sent _ \<Rightarrow> Some sent | _ \<Rightarrow> None))"

definition find_timed_out :: "instant \<Rightarrow> duration \<Rightarrow> chunk_tracker \<Rightarrow> u32 list" where
  "find_timed_out now rto t =
    List.map_filter (\<lambda>c. case ci_state c of
        ChInFlight sent _ \<Rightarrow> if now - sent > rto then Some (ci_id c) else None
      | _ \<Rightarrow> None) (tk_chunks t)"

definition has_exhausted_retries :: "u32 \<Rightarrow> chunk_tracker \<Rightarrow> bool" where
  "has_exhausted_retries max_retries t =
    list_ex (\<lambda>c. case ci_state c of ChInFlight _ attempt \<Rightarrow> attempt > max_retries | _ \<Rightarrow> False)
      (tk_chunks t)"

definition next_pending :: "chunk_tracker \<Rightarrow> u32 option" where
  "next_pending t = map_option ci_id (find (\<lambda>c. ci_state c = ChPending) (tk_chunks t))"

definition all_acked :: "chunk_tracker \<Rightarrow> bool" where
  "all_acked t \<longleftrightarrow> tk_contiguous t = length (tk_chunks t)"

definition last_acked_offset :: "chunk_tracker \<Rightarrow> u64" where
  "last_acked_offset t = foldl (\<lambda>offset c. offset + ci_size c) 0 (take (tk_contiguous t) (tk_chunks t))"

definition progress :: "chunk_tracker \<Rightarrow> u64 \<times> u64" where
  "progress t = (last_acked_offset t, tk_total t)"

section \<open>The partition into chunks\<close>

text \<open>The chunk list as a specification: chunk \<open>k\<close> starts at \<open>k * cs\<close>.\<close>

definition chunk_count :: "nat \<Rightarrow> nat \<Rightarrow> nat" where
  "chunk_count cs tot = (tot + cs - 1) div cs"

definition chunk_at :: "nat \<Rightarrow> nat \<Rightarrow> nat \<Rightarrow> chunk_info" where
  "chunk_at cs tot k =
     \<lparr>ci_id = of_nat k, ci_offset = of_nat (k * cs), ci_size = of_nat (min cs (tot - k * cs)),
      ci_state = ChPending, ci_is_retransmit = False\<rparr>"

lemma chunk_count_pos:
  assumes "0 < cs" and "0 < r"
  shows "chunk_count cs r = Suc ((r - 1) div cs)"
proof -
  have "r + cs - 1 = r - 1 + cs" using assms(2) by simp
  then have "chunk_count cs r = (r - 1 + cs) div cs" by (simp only: chunk_count_def)
  also have "\<dots> = (r - 1) div cs + 1" by (rule div_add_self2) (use assms in simp)
  finally show ?thesis by simp
qed

lemma chunk_count_step:
  assumes "0 < cs" and "off < tot"
  shows "chunk_count cs (tot - off) = Suc (chunk_count cs (tot - (off + min (tot - off) cs)))"
proof (cases "tot - off \<le> cs")
  case True
  with assms have "(tot - off - 1) div cs = 0" by simp
  with True assms chunk_count_pos [of cs "tot - off"] show ?thesis by (simp add: chunk_count_def)
next
  case False
  then have "(tot - off - 1) div cs = (tot - (off + cs) - 1 + cs) div cs" by simp
  also have "\<dots> = (tot - (off + cs) - 1) div cs + 1" by (rule div_add_self2) (use assms in simp)
  finally show ?thesis using False assms
    by (simp add: chunk_count_pos [of cs "tot - off"] chunk_count_pos [of cs "tot - (off + cs)"])
qed

lemma new_chunks_stop: "\<not> offset < tot \<Longrightarrow> new_chunks cs tot offset i = Some []"
  by (subst new_chunks.simps) simp

lemma unat_add_min:
  assumes "offset < (tot :: u64)"
  shows "unat (offset + min (tot - offset) cs) = unat offset + min (unat tot - unat offset) (unat cs)"
proof -
  have "unat offset + min (unat tot - unat offset) (unat cs) \<le> unat tot"
    using assms by (simp add: word_less_nat_alt)
  also have "unat tot < 2 ^ LENGTH(64)" by (rule unsigned_less)
  finally have "unat offset + min (unat tot - unat offset) (unat cs) < 2 ^ LENGTH(64)" .
  then show ?thesis using assms
    by (simp add: unat_word_ariths unat_min_word unat_sub less_imp_le)
qed

lemma new_chunks_spec:
  assumes "0 < cs" and "unat offset = min (k * unat cs) (unat tot)"
    and "n = chunk_count (unat cs) (unat tot - unat offset)"
  shows "new_chunks cs tot offset (of_nat k) =
    Some (map (chunk_at (unat cs) (unat tot)) [k..<k + n])"
  using assms(2,3)
proof (induction n arbitrary: offset k)
  case 0
  have cs: "0 < unat cs" using assms(1) by (simp add: unat_gt_0)
  from 0 cs have "unat tot - unat offset = 0"
    by (cases "unat tot - unat offset") (auto simp: chunk_count_def div_eq_0_iff)
  then show ?case by (simp add: new_chunks_stop word_less_nat_alt)
next
  case (Suc n)
  have cs: "0 < unat cs" using assms(1) by (simp add: unat_gt_0)
  have less: "unat offset < unat tot"
  proof (rule ccontr)
    assume "\<not> ?thesis"
    with Suc.prems cs show False by (simp add: chunk_count_def)
  qed
  then have off: "unat offset = k * unat cs" using Suc.prems(1) by (simp add: min_def split: if_splits)
  let ?size = "min (tot - offset) cs"
  have next': "unat (offset + ?size) = min (Suc k * unat cs) (unat tot)"
    unfolding unat_add_min [OF less [folded word_less_nat_alt]] using less off by simp
  have n: "n = chunk_count (unat cs) (unat tot - unat (offset + ?size))"
    using Suc.prems(2) chunk_count_step [OF cs less] less by (simp add: unat_add_min word_less_nat_alt)
  have "offset = of_nat (k * unat cs)" using off [symmetric] by simp
  moreover have "?size = of_nat (min (unat cs) (unat tot - k * unat cs))"

  proof -
    have "unat (tot - offset) = unat tot - k * unat cs"
      using less off by (simp add: unat_sub word_le_nat_alt)
    then have "unat ?size = min (unat cs) (unat tot - k * unat cs)"
      by (simp add: unat_min_word min.commute)
    then show ?thesis by (metis of_nat_unat ucast_id)
  qed
  moreover have "new_chunks cs tot (offset + ?size) (of_nat (Suc k)) =
      Some (map (chunk_at (unat cs) (unat tot)) [Suc k..<Suc k + n])"
    by (rule Suc.IH [OF next' n])
  ultimately show ?case using less
    by (subst new_chunks.simps)
      (simp add: Let_def word_less_nat_alt chunk_at_def upt_conv_Cons add.commute del: upt_Suc)
qed

lemma new_chunks_zero:
  assumes "new_chunks cs tot offset i = Some ys"
  shows "cs = 0 \<longrightarrow> \<not> offset < tot"
  by (rule new_chunks.raw_induct
      [where P = "\<lambda>cs tot offset i ys. cs = 0 \<longrightarrow> \<not> offset < tot", OF _ assms])
    (auto simp: Option.bind_eq_Some_conv split: if_splits)

text \<open>The bytes of a chunk: \<^verbatim>\<open>&data[info.offset as usize..(info.offset as usize + info.size)]\<close>.\<close>

definition chunk_data :: "bytes \<Rightarrow> chunk_info \<Rightarrow> bytes" where
  "chunk_data data c = take (unat (ci_size c)) (drop (unat (ci_offset c)) data)"

text \<open>What never changes of a chunk.\<close>

definition chunk_key :: "chunk_info \<Rightarrow> u32 \<times> u64 \<times> u64" where
  "chunk_key c = (ci_id c, ci_offset c, ci_size c)"

lemma chunk_key_state [simp]: "chunk_key (c\<lparr>ci_state := x\<rparr>) = chunk_key c"
  "chunk_key (c\<lparr>ci_is_retransmit := r\<rparr>) = chunk_key c"
  by (simp_all add: chunk_key_def)

lemma chunk_key_eqD:
  assumes "chunk_key c = chunk_key d"
  shows "ci_id c = ci_id d" "ci_offset c = ci_offset d" "ci_size c = ci_size d"
    "chunk_data data c = chunk_data data d"
  using assms by (simp_all add: chunk_key_def chunk_data_def)

lemma chunk_count_bound:
  assumes "0 < cs"
  shows "k < chunk_count cs n \<longleftrightarrow> k * cs < n"
proof (cases "n = 0")
  case True
  with assms show ?thesis by (simp add: chunk_count_def)
next
  case False
  with assms have "k < chunk_count cs n \<longleftrightarrow> k \<le> (n - 1) div cs" by (simp add: chunk_count_pos less_Suc_eq_le)
  also have "\<dots> \<longleftrightarrow> k * cs \<le> n - 1" using assms by (simp add: less_eq_div_iff_mult_less_eq)
  finally show ?thesis using False by linarith
qed

lemma chunk_at_words:
  assumes "0 < cs" and "n < 2 ^ 64" and "k < chunk_count cs n"
  shows "unat (ci_offset (chunk_at cs n k)) = k * cs"
    and "unat (ci_size (chunk_at cs n k)) = min cs (n - k * cs)"
proof -
  have "k * cs < n" using assms chunk_count_bound by blast
  then show "unat (ci_offset (chunk_at cs n k)) = k * cs"
    using assms(2) by (simp add: chunk_at_def unat_of_nat del: of_nat_mult)
  have "min cs (n - k * cs) < 2 ^ 64" using assms(2) by linarith
  then show "unat (ci_size (chunk_at cs n k)) = min cs (n - k * cs)"
    by (simp add: chunk_at_def unat_of_nat)
qed

lemma concat_chunks_prefix:
  assumes "0 < cs" and "length data < 2 ^ 64" and "m \<le> chunk_count cs (length data)"
  shows "concat (map (chunk_data data) (map (chunk_at cs (length data)) [0..<m])) = take (m * cs) data"
  using assms(3)
proof (induction m)
  case 0
  then show ?case by simp
next
  case (Suc m)
  then have m: "m < chunk_count cs (length data)" by simp
  then have less: "m * cs < length data" using assms(1) chunk_count_bound by blast
  have "chunk_data data (chunk_at cs (length data) m) = take cs (drop (m * cs) data)"
    unfolding chunk_data_def chunk_at_words [OF assms(1,2) m] by (simp add: min_def)
  then show ?case using Suc by (simp add: take_add [symmetric] add.commute)
qed

lemma concat_chunks:
  assumes "0 < cs" and "length data < 2 ^ 64"
  shows "concat (map (chunk_data data)
    (map (chunk_at cs (length data)) [0..<chunk_count cs (length data)])) = data"
proof -
  have "length data \<le> chunk_count cs (length data) * cs"
    using chunk_count_bound [OF assms(1), of "chunk_count cs (length data)" "length data"] by simp
  then show ?thesis
    unfolding concat_chunks_prefix [OF assms order_refl] by (rule take_all)
qed

text \<open>A tracker of the file \<open>data\<close> cut into chunks of \<open>cs\<close> bytes.\<close>

definition tracks :: "nat \<Rightarrow> nat \<Rightarrow> chunk_tracker \<Rightarrow> bool" where
  "tracks cs n t \<longleftrightarrow>
     map chunk_key (tk_chunks t) = map (chunk_key \<circ> chunk_at cs n) [0..<chunk_count cs n]
     \<and> tk_total t = of_nat n"

lemma tracks_length: "tracks cs n t \<Longrightarrow> length (tk_chunks t) = chunk_count cs n"
  by (drule arg_cong [where f = length, OF conjunct1 [OF tracks_def [THEN iffD1]]]) simp

lemma tracks_nth:
  assumes "tracks cs n t" and "k < chunk_count cs n"
  shows "chunk_key (tk_chunks t ! k) = chunk_key (chunk_at cs n k)"
proof -
  have "map chunk_key (tk_chunks t) ! k = map (chunk_key \<circ> chunk_at cs n) [0..<chunk_count cs n] ! k"
    using assms(1) by (simp add: tracks_def)
  with assms tracks_length [OF assms(1)] show ?thesis by simp
qed

lemma tracker_new_spec:
  assumes "0 < cs" and "n < 2 ^ 64"
  shows "tracker_new cs (of_nat n) = Some \<lparr>tk_chunks = map (chunk_at (unat cs) n) [0..<chunk_count (unat cs) n],
    tk_acked_ids = {}, tk_contiguous = 0, tk_total = of_nat n, tk_in_flight = 0, tk_retransmits = 0\<rparr>"
proof -
  have "unat (of_nat n :: u64) = n" using assms(2) by (simp add: unat_of_nat)
  with new_chunks_spec [of cs 0 0 "of_nat n"] assms(1) show ?thesis by (simp add: tracker_new_def)
qed

text \<open>The chunks partition the file: for a positive chunk size the constructor returns, the
  chunks taken in order reassemble exactly the file, chunk \<open>k\<close> has identifier \<open>k\<close>, starts at
  \<open>k * chunk_size\<close> and is neither empty nor longer than the chunk size; with a chunk size of zero
  and a file that is not empty the constructor never returns.\<close>

theorem tracker_new_partition:
  assumes "length data < 2 ^ 64"
  shows "(0 < cs \<longrightarrow> (\<exists>t. tracker_new cs (of_nat (length data)) = Some t
      \<and> concat (map (chunk_data data) (tk_chunks t)) = data
      \<and> (\<forall>k < length (tk_chunks t). ci_id (tk_chunks t ! k) = of_nat k
           \<and> unat (ci_offset (tk_chunks t ! k)) = k * unat cs
           \<and> ci_size (tk_chunks t ! k) \<in> {0<..cs})))
    \<and> (data \<noteq> [] \<longrightarrow> tracker_new 0 (of_nat (length data)) = None)"
proof (intro conjI impI)
  assume cs: "0 < cs"
  then have cs': "0 < unat cs" by (simp add: unat_gt_0)
  let ?t = "\<lparr>tk_chunks = map (chunk_at (unat cs) (length data)) [0..<chunk_count (unat cs) (length data)],
    tk_acked_ids = {}, tk_contiguous = 0, tk_total = of_nat (length data), tk_in_flight = 0,
    tk_retransmits = 0\<rparr>"
  have "ci_id (tk_chunks ?t ! k) = of_nat k \<and> unat (ci_offset (tk_chunks ?t ! k)) = k * unat cs
      \<and> ci_size (tk_chunks ?t ! k) \<in> {0<..cs}" if k: "k < length (tk_chunks ?t)" for k
  proof -
    have k': "k < chunk_count (unat cs) (length data)" using k by simp
    then have "k * unat cs < length data" using cs' chunk_count_bound by blast
    with chunk_at_words [OF cs' assms k'] k' cs' show ?thesis
      by (simp add: word_le_nat_alt word_less_nat_alt) (simp add: chunk_at_def)
  qed
  moreover have "concat (map (chunk_data data) (tk_chunks ?t)) = data"
    using concat_chunks [OF cs' assms] by simp
  ultimately show "\<exists>t. tracker_new cs (of_nat (length data)) = Some t
      \<and> concat (map (chunk_data data) (tk_chunks t)) = data
      \<and> (\<forall>k < length (tk_chunks t). ci_id (tk_chunks t ! k) = of_nat k
           \<and> unat (ci_offset (tk_chunks t ! k)) = k * unat cs
           \<and> ci_size (tk_chunks t ! k) \<in> {0<..cs})"
    using tracker_new_spec [OF cs assms] by blast
next
  assume "data \<noteq> []"
  then have "(0 :: u64) < of_nat (length data)"
    using assms by (simp add: word_less_nat_alt unat_of_nat)
  then have "new_chunks 0 (of_nat (length data)) 0 0 = None"
    using new_chunks_zero [of 0 "of_nat (length data)" 0 0] by (cases "new_chunks 0 (of_nat (length data)) 0 0") auto
  then show "tracker_new 0 (of_nat (length data)) = None" by (simp add: tracker_new_def)
qed

theorem tracker_new_partition_witness:
  "tracker_new 0 (of_nat (length [1, 2, 3 :: u8])) = None"
  using tracker_new_partition [of "[1, 2, 3]"] by simp

section \<open>The invariant\<close>

text \<open>The contiguous prefix, and every chunk in the acknowledged state, was acknowledged.\<close>

definition tracker_ok :: "chunk_tracker \<Rightarrow> bool" where
  "tracker_ok t \<longleftrightarrow> tk_contiguous t \<le> length (tk_chunks t)
     \<and> ci_id ` set (take (tk_contiguous t) (tk_chunks t)) \<subseteq> tk_acked_ids t
     \<and> (\<forall>c \<in> set (tk_chunks t). ci_state c = ChAcked \<longrightarrow> ci_id c \<in> tk_acked_ids t)"

lemma advance_takeWhile: "advance cs n = n + length (takeWhile (\<lambda>c. ci_state c = ChAcked) cs)"
  by (induction cs n rule: advance.induct) auto

lemma chunk_key_update_first:
  "(\<And>c. chunk_key (f c) = chunk_key c) \<Longrightarrow> map chunk_key (update_first p f cs) = map chunk_key cs"
  by (rule map_update_first)

lemma ci_id_map: "map ci_id cs = map fst (map chunk_key cs)"
  by (simp add: chunk_key_def)

lemma set_update_first: "set (update_first p f xs) \<subseteq> set xs \<union> f ` {x \<in> set xs. p x}"
  by (induction xs) auto

lemma mark_in_flight_chunks:
  "map chunk_key (tk_chunks (mark_in_flight now i a t)) = map chunk_key (tk_chunks t)"
  "tk_acked_ids (mark_in_flight now i a t) = tk_acked_ids t"
  "tk_contiguous (mark_in_flight now i a t) = tk_contiguous t"
  "tk_total (mark_in_flight now i a t) = tk_total t"
  by (auto simp: mark_in_flight_def chunk_key_def split: option.splits intro!: map_update_first)

lemma mark_acked_chunks:
  "map chunk_key (tk_chunks (snd (mark_acked i t))) = map chunk_key (tk_chunks t)"
  "tk_acked_ids (snd (mark_acked i t)) = insert i (tk_acked_ids t)"
  "tk_total (snd (mark_acked i t)) = tk_total t"
  by (auto simp: mark_acked_def Let_def split: option.splits intro!: chunk_key_update_first)

lemma mark_acked_reports: "fst (mark_acked i t) \<longleftrightarrow> i \<notin> tk_acked_ids t"
  by (auto simp: mark_acked_def Let_def split: option.splits)

lemma mark_acked_duplicate: "i \<in> tk_acked_ids t \<Longrightarrow> snd (mark_acked i t) = t"
  by (simp add: mark_acked_def)

lemma mark_acked_contiguous: "tk_contiguous t \<le> tk_contiguous (snd (mark_acked i t))"
  by (auto simp: mark_acked_def Let_def advance_takeWhile split: option.splits)

lemma tracks_mark_in_flight: "tracks cs n t \<Longrightarrow> tracks cs n (mark_in_flight now i a t)"
  by (simp add: tracks_def mark_in_flight_chunks)

lemma tracks_mark_acked: "tracks cs n t \<Longrightarrow> tracks cs n (snd (mark_acked i t))"
  by (simp add: tracks_def mark_acked_chunks)

lemma take_ci_id: "map chunk_key cs = map chunk_key ds \<Longrightarrow> ci_id ` set (take n cs) = ci_id ` set (take n ds)"
proof -
  assume "map chunk_key cs = map chunk_key ds"
  then have "map ci_id (take n cs) = map ci_id (take n ds)" by (simp only: take_map [symmetric] ci_id_map)
  then show ?thesis by (metis set_map)
qed

lemma tracker_ok_mark_in_flight:
  assumes "tracker_ok t"
  shows "tracker_ok (mark_in_flight now i a t)"
proof -
  have "length (tk_chunks (mark_in_flight now i a t)) = length (tk_chunks t)"
    using arg_cong [OF mark_in_flight_chunks(1), of length] by simp
  moreover have "ci_id c \<in> tk_acked_ids t"
    if "c \<in> set (tk_chunks (mark_in_flight now i a t))" "ci_state c = ChAcked" for c
    using that assms set_update_first
    by (fastforce simp: mark_in_flight_def tracker_ok_def split: option.splits)
  ultimately show ?thesis using assms
    by (simp add: tracker_ok_def mark_in_flight_chunks take_ci_id [OF mark_in_flight_chunks(1)])
qed

lemma acked_prefix_advance:
  assumes "n \<le> length cs" and "ci_id ` set (take n cs) \<subseteq> A"
    and "\<And>c. c \<in> set cs \<Longrightarrow> ci_state c = ChAcked \<Longrightarrow> ci_id c \<in> A"
  shows "advance (drop n cs) n \<le> length cs \<and> ci_id ` set (take (advance (drop n cs) n) cs) \<subseteq> A"
proof -
  let ?w = "takeWhile (\<lambda>c. ci_state c = ChAcked) (drop n cs)"
  have adv: "advance (drop n cs) n = n + length ?w" by (simp add: advance_takeWhile)
  have "length ?w \<le> length cs - n" using length_takeWhile_le [of _ "drop n cs"] by simp
  moreover have "take (n + length ?w) cs = take n cs @ ?w"
    by (simp add: take_add takeWhile_eq_take [symmetric])
  moreover have "ci_id c \<in> A" if "c \<in> set ?w" for c
    using that assms(3) by (auto dest: set_takeWhileD in_set_dropD)
  ultimately show ?thesis using assms(1,2) unfolding adv by auto
qed

lemma tracker_ok_mark_acked:
  assumes "tracker_ok t"
  shows "tracker_ok (snd (mark_acked i t))"
proof (cases "i \<in> tk_acked_ids t \<or> chunk_lookup i (t\<lparr>tk_acked_ids := insert i (tk_acked_ids t)\<rparr>) = None")
  case True
  with assms show ?thesis by (elim disjE) (auto simp: mark_acked_def tracker_ok_def Let_def)
next
  case False
  let ?cs = "update_first (\<lambda>c. ci_id c = i) (\<lambda>c. c\<lparr>ci_state := ChAcked\<rparr>) (tk_chunks t)"
  have keys: "map chunk_key ?cs = map chunk_key (tk_chunks t)" by (rule chunk_key_update_first) simp
  have acked: "ci_id c \<in> insert i (tk_acked_ids t)" if "c \<in> set ?cs" "ci_state c = ChAcked" for c
    using that assms set_update_first [of "\<lambda>c. ci_id c = i"] by (fastforce simp: tracker_ok_def)
  have "advance (drop (tk_contiguous t) ?cs) (tk_contiguous t) \<le> length ?cs
    \<and> ci_id ` set (take (advance (drop (tk_contiguous t) ?cs) (tk_contiguous t)) ?cs)
      \<subseteq> insert i (tk_acked_ids t)"
    by (rule acked_prefix_advance [OF _ _ acked])
      (use assms take_ci_id [OF keys] in \<open>auto simp: tracker_ok_def\<close>)
  moreover have "\<forall>c \<in> set ?cs. ci_state c = ChAcked \<longrightarrow> ci_id c \<in> insert i (tk_acked_ids t)"
    using acked by blast
  moreover obtain c where "i \<notin> tk_acked_ids t"
      "chunk_lookup i (t\<lparr>tk_acked_ids := insert i (tk_acked_ids t)\<rparr>) = Some c"
    using False by auto
  ultimately show ?thesis
    by (simp add: mark_acked_def Let_def tracker_ok_def del: insert_iff)
qed

lemma all_acked_ids:
  assumes "tracker_ok t" and "all_acked t" and "c \<in> set (tk_chunks t)"
  shows "ci_id c \<in> tk_acked_ids t"
  using assms by (auto simp: tracker_ok_def all_acked_def)

text \<open>The progress counter: the bytes of the contiguous prefix.\<close>

lemma foldl_sizes: "foldl (\<lambda>off c. off + ci_size c) x cs = x + sum_list (map ci_size cs)"
  by (induction cs arbitrary: x) (auto simp: add.assoc)

lemma sum_chunk_sizes:
  assumes "0 < cs" and "n < 2 ^ 64" and "m \<le> chunk_count cs n"
  shows "sum_list (map (ci_size \<circ> chunk_at cs n) [0..<m]) = of_nat (min (m * cs) n)"
  using assms(3)
proof (induction m)
  case 0
  then show ?case by simp
next
  case (Suc m)
  then have "m * cs < n" using assms(1) chunk_count_bound [of cs m n] by simp
  then have "min (Suc m * cs) n = min (m * cs) n + min cs (n - m * cs)" by simp
  with Suc show ?case by (simp add: chunk_at_def add.commute flip: of_nat_add)
qed

lemma last_acked_offset_value:
  assumes "tracks cs n t" and "0 < cs" and "n < 2 ^ 64" and "tk_contiguous t \<le> length (tk_chunks t)"
  shows "unat (last_acked_offset t) = min (tk_contiguous t * cs) n"
proof -
  let ?m = "tk_contiguous t"
  have m: "?m \<le> chunk_count cs n" using assms(4) tracks_length [OF assms(1)] by simp
  have "map ci_size (take ?m (tk_chunks t)) = map (snd \<circ> snd) (take ?m (map chunk_key (tk_chunks t)))"
    by (simp add: take_map chunk_key_def o_def)
  also have "\<dots> = map (ci_size \<circ> chunk_at cs n) [0..<?m]"
    using assms(1) m by (simp add: tracks_def take_map chunk_key_def o_def)
  finally have "last_acked_offset t = of_nat (min (?m * cs) n)"
    using sum_chunk_sizes [OF assms(2,3) m] by (simp add: last_acked_offset_def foldl_sizes)
  moreover have "min (?m * cs) n < 2 ^ 64" using assms(3) by linarith
  ultimately show ?thesis by (simp add: unat_of_nat)
qed

text \<open>What a sequence of transmissions and acknowledgements does to a tracker.\<close>

datatype tracker_op = OpSend instant u32 u32 | OpAck u32

fun apply_op :: "tracker_op \<Rightarrow> chunk_tracker \<Rightarrow> chunk_tracker" where
  "apply_op (OpSend now i attempt) t = mark_in_flight now i attempt t"
| "apply_op (OpAck i) t = snd (mark_acked i t)"

lemma fold_apply_op:
  assumes "tracker_ok t" and "tracks cs n t"
  shows "tracker_ok (fold apply_op ops t) \<and> tracks cs n (fold apply_op ops t)
    \<and> tk_acked_ids (fold apply_op ops t) = tk_acked_ids t \<union> {i. OpAck i \<in> set ops}"
  using assms
proof (induction ops arbitrary: t)
  case Nil
  then show ?case by simp
next
  case (Cons x ops)
  then have "tracker_ok (apply_op x t) \<and> tracks cs n (apply_op x t)"
    by (cases x) (simp_all add: tracker_ok_mark_in_flight tracker_ok_mark_acked tracks_mark_in_flight
        tracks_mark_acked)
  with Cons.IH show ?case
    by (cases x) (auto simp: mark_in_flight_chunks mark_acked_chunks)
qed

lemma new_chunks_pending:
  assumes "new_chunks cs tot offset i = Some ys"
  shows "\<forall>c \<in> set ys. ci_state c = ChPending"
  by (rule new_chunks.raw_induct
      [where P = "\<lambda>cs tot offset i ys. \<forall>c \<in> set ys. ci_state c = ChPending", OF _ assms])
    (auto simp: Option.bind_eq_Some_conv split: if_splits)

lemma tracker_new_ok: "tracker_new cs n = Some t \<Longrightarrow> tracker_ok t"
  using new_chunks_pending by (fastforce simp: tracker_new_def tracker_ok_def split: option.splits)

lemma tracker_new_tracks:
  assumes "0 < cs" and "n < 2 ^ 64" and "tracker_new cs (of_nat n) = Some t"
  shows "tracks (unat cs) n t"
  using tracker_new_spec [OF assms(1,2)] assms(3) by (auto simp: tracks_def)

text \<open>Reported progress is sound: after any sequence of transmissions, retransmissions,
  acknowledgements and duplicate acknowledgements, the reported offset is the length of a prefix of
  whole chunks (capped by the file) each of which has been acknowledged, and \<^verbatim>\<open>all_acked\<close> implies
  that the reported offset is the size of the file.\<close>

theorem tracker_progress_sound:
  assumes "0 < cs" and "n < 2 ^ 64" and "tracker_new cs (of_nat n) = Some t0"
    and "t = fold apply_op ops t0"
  shows "unat (fst (progress t)) = min (tk_contiguous t * unat cs) n
    \<and> snd (progress t) = of_nat n
    \<and> (\<forall>k < tk_contiguous t. OpAck (of_nat k) \<in> set ops)
    \<and> (all_acked t \<longrightarrow> fst (progress t) = of_nat n)"
proof -
  have cs: "0 < unat cs" using assms(1) by (simp add: unat_gt_0)
  have t: "tracker_ok t" "tracks (unat cs) n t" "tk_acked_ids t = {i. OpAck i \<in> set ops}"
    using fold_apply_op [OF tracker_new_ok [OF assms(3)] tracker_new_tracks [OF assms(1-3)], of ops]
      tracker_new_spec [OF assms(1,2)] assms(3,4) by auto
  then have le: "tk_contiguous t \<le> length (tk_chunks t)" by (simp add: tracker_ok_def)
  have val: "unat (last_acked_offset t) = min (tk_contiguous t * unat cs) n"
    by (rule last_acked_offset_value [OF t(2) cs assms(2) le])
  have "OpAck (of_nat k) \<in> set ops" if "k < tk_contiguous t" for k
  proof -
    have k: "k < chunk_count (unat cs) n" using that le tracks_length [OF t(2)] by simp
    have "tk_chunks t ! k \<in> set (take (tk_contiguous t) (tk_chunks t))"
      using that le by (metis in_set_conv_nth length_take min.absorb2 nth_take)
    moreover have "ci_id (tk_chunks t ! k) = of_nat k"
      using tracks_nth [OF t(2) k] by (simp add: chunk_key_def chunk_at_def)
    ultimately show ?thesis using t(1,3) by (auto simp: tracker_ok_def)
  qed
  moreover have "last_acked_offset t = of_nat n" if "all_acked t"
  proof -
    have "tk_contiguous t = chunk_count (unat cs) n" using that tracks_length [OF t(2)] by (simp add: all_acked_def)
    moreover have "n \<le> chunk_count (unat cs) n * unat cs"
      using chunk_count_bound [OF cs, of "chunk_count (unat cs) n" n] by simp
    ultimately have "unat (last_acked_offset t) = n" using val by simp
    then show ?thesis by (metis of_nat_unat ucast_id)
  qed
  ultimately show ?thesis using val t(2) by (simp add: progress_def tracks_def)
qed

definition demo_tracker :: chunk_tracker where
  "demo_tracker = \<lparr>tk_chunks = map (chunk_at 2 3) [0..<2], tk_acked_ids = {}, tk_contiguous = 0,
     tk_total = 3, tk_in_flight = 0, tk_retransmits = 0\<rparr>"

lemma demo_tracker_new: "tracker_new 2 (of_nat 3) = Some demo_tracker"
  using tracker_new_spec [of 2 3] by (simp add: demo_tracker_def chunk_count_def)

theorem tracker_progress_sound_witness:
  "unat (fst (progress (fold apply_op [OpSend 0 0 1, OpAck 0] demo_tracker))) =
    min (tk_contiguous (fold apply_op [OpSend 0 0 1, OpAck 0] demo_tracker) * 2) 3"
  using tracker_progress_sound [OF _ _ demo_tracker_new refl, of "[OpSend 0 0 1, OpAck 0]"] by simp

end
