(* ===== verification/Frames.thy ===== *)
theory Frames
  imports Rust_Strings
begin

text \<open>
  The binary frames of \<^verbatim>\<open>crates/transfer_engine/src/reliable.rs\<close>: the encoders, the payload length
  table and the frame reader, with the round trip of every frame type except NACK and the
  desynchronisation a NACK causes.
\<close>

section \<open>Encoding\<close>

definition FRAME_DATA :: u8 where "FRAME_DATA = 0"
definition FRAME_ACK :: u8 where "FRAME_ACK = 1"
definition FRAME_NACK :: u8 where "FRAME_NACK = 2"
definition FRAME_FIN :: u8 where "FRAME_FIN = 3"
definition FRAME_FINACK :: u8 where "FRAME_FINACK = 4"
definition FRAME_BPRES :: u8 where "FRAME_BPRES = 5"
definition FRAME_CANCEL :: u8 where "FRAME_CANCEL = 6"

lemmas frame_types = FRAME_DATA_def FRAME_ACK_def FRAME_NACK_def FRAME_FIN_def FRAME_FINACK_def
  FRAME_BPRES_def FRAME_CANCEL_def

definition encode_data_frame :: "u32 \<Rightarrow> u64 \<Rightarrow> bytes \<Rightarrow> bytes" where
  "encode_data_frame chunk_id offset data =
     FRAME_DATA # to_be 4 chunk_id @ to_be 8 offset @ to_be 4 (of_nat (length data) :: u32) @ data"

definition encode_ack :: "u32 \<Rightarrow> u64 \<Rightarrow> bytes" where
  "encode_ack chunk_id acked_offset = FRAME_ACK # to_be 4 chunk_id @ to_be 8 acked_offset"

definition encode_nack :: "u32 \<Rightarrow> u64 \<Rightarrow> u8 \<Rightarrow> bytes" where
  "encode_nack chunk_id expected_offset reason =
     FRAME_NACK # to_be 4 chunk_id @ to_be 8 expected_offset @ [reason]"

definition encode_fin :: "u32 \<Rightarrow> u64 \<Rightarrow> bytes" where
  "encode_fin chunk_id total_bytes = FRAME_FIN # to_be 4 chunk_id @ to_be 8 total_bytes"

definition encode_finack :: "u32 \<Rightarrow> bytes" where
  "encode_finack chunk_id = FRAME_FINACK # to_be 4 chunk_id"

definition encode_cancel :: "string \<Rightarrow> bytes" where
  "encode_cancel reason =
     (let reason_bytes = as_bytes reason in
      FRAME_CANCEL # to_be 2 (of_nat (length reason_bytes) :: u16) @ reason_bytes)"

definition encode_bpres :: "u64 \<Rightarrow> u64 \<Rightarrow> bytes" where
  "encode_bpres queue_depth_us processing_delay_us =
     FRAME_BPRES # to_be 8 queue_depth_us @ to_be 8 processing_delay_us"

section \<open>Reading\<close>

definition frame_payload_len :: "u8 \<Rightarrow> nat option" where
  "frame_payload_len ty =
    (if ty = FRAME_DATA then None
     else if ty = FRAME_ACK then Some 12
     else if ty = FRAME_NACK then Some 12
     else if ty = FRAME_FIN then Some 12
     else if ty = FRAME_FINACK then Some 4
     else if ty = FRAME_BPRES then Some 16
     else None)"

datatype io_error = UnexpectedEof | InvalidData string | TimedOut string | ConnectionAborted string
  | BrokenPipe

text \<open>\<^verbatim>\<open>read_exact\<close> with its error.\<close>

definition read_exact_io :: "nat \<Rightarrow> bytes \<Rightarrow> io_error + bytes \<times> bytes" where
  "read_exact_io n s = (case read_exact n s of None \<Rightarrow> Inl UnexpectedEof | Some r \<Rightarrow> Inr r)"

text \<open>The frame type, the payload, and the bytes after the frame.\<close>

definition read_frame :: "bytes \<Rightarrow> io_error + (u8 \<times> bytes) \<times> bytes" where
  "read_frame s =
    (case read_exact_io 1 s of Inl e \<Rightarrow> Inl e | Inr (type_buf, s1) \<Rightarrow>
     (let ty = hd type_buf in
      if ty = FRAME_DATA then
        (case read_exact_io 16 s1 of Inl e \<Rightarrow> Inl e | Inr (header, s2) \<Rightarrow>
         (let data_len = unat (from_be (take 4 (drop 12 header)) :: u32) in
          (case read_exact_io data_len s2 of Inl e \<Rightarrow> Inl e | Inr (data, s3) \<Rightarrow>
             Inr ((ty, take 12 header @ data), s3))))
      else if ty = FRAME_CANCEL then
        (case read_exact_io 2 s1 of Inl e \<Rightarrow> Inl e | Inr (len_buf, s2) \<Rightarrow>
         (let reason_len = unat (from_be len_buf :: u16) in
          (case read_exact_io reason_len s2 of Inl e \<Rightarrow> Inl e | Inr (reason, s3) \<Rightarrow>
             Inr ((ty, reason), s3))))
      else
        (case frame_payload_len ty of
           Some n \<Rightarrow>
             (case read_exact_io n s1 of Inl e \<Rightarrow> Inl e | Inr (payload, s2) \<Rightarrow>
                Inr ((ty, payload), s2))
         | None \<Rightarrow> Inl (InvalidData ''unknown frame type''))))"

text \<open>The decoders of the fixed-width fields of a payload.\<close>

definition payload_id :: "bytes \<Rightarrow> u32" where
  "payload_id payload = from_be (take 4 payload)"

definition payload_offset :: "bytes \<Rightarrow> u64" where
  "payload_offset payload = from_be (take 8 (drop 4 payload))"

section \<open>Round trips\<close>

text \<open>The frames as data.\<close>

datatype frame = Data u32 u64 bytes | Ack u32 u64 | Nack u32 u64 u8 | Fin_frame u32 u64
  | Finack u32 | Bpres u64 u64 | Cancel string

fun encode_frame :: "frame \<Rightarrow> bytes" where
  "encode_frame (Data i off d) = encode_data_frame i off d"
| "encode_frame (Ack i off) = encode_ack i off"
| "encode_frame (Nack i off r) = encode_nack i off r"
| "encode_frame (Fin_frame i n) = encode_fin i n"
| "encode_frame (Finack i) = encode_finack i"
| "encode_frame (Bpres q d) = encode_bpres q d"
| "encode_frame (Cancel reason) = encode_cancel reason"

text \<open>Lengths must fit the length fields; a NACK is excluded.\<close>

fun frame_ok :: "frame \<Rightarrow> bool" where
  "frame_ok (Data _ _ d) \<longleftrightarrow> length d < 2 ^ 32"
| "frame_ok (Cancel reason) \<longleftrightarrow> length reason < 2 ^ 16"
| "frame_ok (Nack _ _ _) \<longleftrightarrow> False"
| "frame_ok _ \<longleftrightarrow> True"

fun frame_view :: "frame \<Rightarrow> u8 \<times> bytes" where
  "frame_view (Data i off d) = (FRAME_DATA, to_be 4 i @ to_be 8 off @ d)"
| "frame_view (Ack i off) = (FRAME_ACK, to_be 4 i @ to_be 8 off)"
| "frame_view (Nack i off r) = (FRAME_NACK, to_be 4 i @ to_be 8 off)"
| "frame_view (Fin_frame i n) = (FRAME_FIN, to_be 4 i @ to_be 8 n)"
| "frame_view (Finack i) = (FRAME_FINACK, to_be 4 i)"
| "frame_view (Bpres q d) = (FRAME_BPRES, to_be 8 q @ to_be 8 d)"
| "frame_view (Cancel reason) = (FRAME_CANCEL, as_bytes reason)"

lemma read_exact_io_append [simp]:
  "length xs = n \<Longrightarrow> read_exact_io n (xs @ ys) = Inr (xs, ys)"
  by (simp add: read_exact_io_def)

lemma read_exact_io_append3 [simp]:
  "length a + length b = n \<Longrightarrow> read_exact_io n (a @ b @ ys) = Inr (a @ b, ys)"
  using read_exact_io_append [of "a @ b" n ys] by simp

lemma read_exact_io_append4 [simp]:
  "length a + length b + length c = n \<Longrightarrow> read_exact_io n (a @ b @ c @ ys) = Inr (a @ b @ c, ys)"
  using read_exact_io_append [of "a @ b @ c" n ys] by simp

lemma read_exact_io_one [simp]: "read_exact_io (Suc 0) (x # ys) = Inr ([x], ys)"
  using read_exact_io_append [of "[x]" 1 ys] by simp

lemma payload_fields [simp]:
  "payload_id (to_be 4 i @ rest) = i"
  "payload_offset (to_be 4 i @ to_be 8 off @ rest) = off"
  by (simp_all add: payload_id_def payload_offset_def)

lemma payload_fields_end [simp]:
  "payload_id (to_be 4 i) = i" "payload_offset (to_be 4 i @ to_be 8 off) = off"
  using payload_fields(1) [of i "[]"] payload_fields(2) [of i off "[]"] by simp_all

lemma read_data_frame:
  assumes "length d < 2 ^ 32"
  shows "read_frame (encode_data_frame i off d @ rest) = Inr ((FRAME_DATA, to_be 4 i @ to_be 8 off @ d), rest)"
proof -
  have "unat (of_nat (length d) :: u32) = length d" using assms by (simp add: unat_of_nat)
  then show ?thesis by (simp add: read_frame_def encode_data_frame_def frame_types)
qed

lemma read_cancel_frame:
  assumes "length reason < 2 ^ 16"
  shows "read_frame (encode_cancel reason @ rest) = Inr ((FRAME_CANCEL, as_bytes reason), rest)"
proof -
  have "length (as_bytes reason) = length reason" by (simp add: as_bytes_def)
  moreover have "unat (of_nat (length reason) :: u16) = length reason" using assms by (simp add: unat_of_nat)
  ultimately show ?thesis by (simp add: read_frame_def encode_cancel_def frame_types)
qed

lemma read_fixed_frame:
  assumes "frame_payload_len ty = Some n" and "length p = n"
  shows "read_frame (ty # p @ rest) = Inr ((ty, p), rest)"
  using assms by (auto simp: read_frame_def frame_payload_len_def frame_types split: if_splits)

lemma read_encoded_frame:
  assumes "frame_ok f"
  shows "read_frame (encode_frame f @ rest) = Inr (frame_view f, rest)"
  using assms
  by (cases f) (auto simp: read_data_frame read_cancel_frame encode_ack_def encode_fin_def
      encode_finack_def encode_bpres_def frame_payload_len_def frame_types
      intro!: read_fixed_frame [where p = "_ @ _", simplified] read_fixed_frame [where p = "to_be _ _"])

definition read_frame_opt :: "bytes \<Rightarrow> ((u8 \<times> bytes) \<times> bytes) option" where
  "read_frame_opt s = (case read_frame s of Inl _ \<Rightarrow> None | Inr r \<Rightarrow> Some r)"

lemma read_frame_end: "read_frame [] = Inl UnexpectedEof"
  by (simp add: read_frame_def read_exact_io_def read_exact_def)

interpretation fr: framed_codec encode_frame read_frame_opt frame_ok frame_view
  by unfold_locales
    (simp_all add: read_frame_opt_def read_encoded_frame read_frame_end)

text \<open>C29. Frame round trip: a stream of encoded frames of any type but NACK, with data shorter than
  4 GiB and cancellation reasons shorter than 64 KiB, is read back frame by frame with the fields
  that were encoded and with nothing left over, and read errors only occur at the end of it.\<close>

theorem frame_stream_roundtrip:
  assumes "list_all frame_ok fs"
  shows "decode_many (length fs) read_frame_opt (concat (map encode_frame fs)) = (map frame_view fs, [])
    \<and> read_frame (concat (map encode_frame fs)) =
        (case fs of [] \<Rightarrow> Inl UnexpectedEof
         | f # fs' \<Rightarrow> Inr (frame_view f, concat (map encode_frame fs')))"
proof
  show "decode_many (length fs) read_frame_opt (concat (map encode_frame fs)) = (map frame_view fs, [])"
    by (rule fr.decode_many_stream [OF assms order_refl])
qed (use assms in \<open>auto simp: read_frame_end read_encoded_frame split: list.splits\<close>)

theorem frame_stream_roundtrip_witness:
  "decode_many (length [Data 1 2 [7, 8], Ack 1 4]) read_frame_opt
      (concat (map encode_frame [Data 1 2 [7, 8], Ack 1 4])) =
    (map frame_view [Data 1 2 [7, 8], Ack 1 4], [])"
  by (rule conjunct1 [OF frame_stream_roundtrip]) simp

text \<open>A NACK desynchronises the stream: the encoder writes a reason byte that the reader's
  payload length does not include, so the reader returns the NACK and leaves the reason in the
  stream as the type byte of the next frame. With the only reason ever sent (1) the next frame is
  read as an ACK made of the following frame's first twelve bytes.\<close>

theorem nack_desynchronises:
  assumes "12 \<le> length rest"
  shows "read_frame (encode_nack i off reason @ rest) =
      Inr ((FRAME_NACK, to_be 4 i @ to_be 8 off), reason # rest)
    \<and> read_frame (1 # rest) = Inr ((FRAME_ACK, take 12 rest), drop 12 rest)"
proof -
  have "read_frame (encode_nack i off reason @ rest) =
      Inr ((FRAME_NACK, to_be 4 i @ to_be 8 off), reason # rest)"
    using read_fixed_frame [of FRAME_NACK 12 "to_be 4 i @ to_be 8 off" "reason # rest"]
    by (simp add: encode_nack_def frame_payload_len_def frame_types)
  moreover have "read_frame (1 # rest) = Inr ((FRAME_ACK, take 12 rest), drop 12 rest)"
    using read_fixed_frame [of FRAME_ACK 12 "take 12 rest" "drop 12 rest"] assms
    by (simp add: frame_payload_len_def frame_types)
  ultimately show ?thesis ..
qed

theorem nack_desynchronises_witness:
  "read_frame (1 # encode_ack 5 6) = Inr ((FRAME_ACK, take 12 (encode_ack 5 6)), drop 12 (encode_ack 5 6))"
  using nack_desynchronises [of "encode_ack 5 6" 5 0 1] by (simp add: encode_ack_def)

end
