(* ===== verification/Reliable.thy ===== *)
theory Reliable
  imports Chunk_Tracker Frames
begin

text \<open>
  The reliable sender and receiver of \<^verbatim>\<open>crates/transfer_engine/src/reliable.rs\<close> over a byte stream.

  The connection is the bytes written so far and the number of writes that still succeed before the
  peer is gone. One iteration of the sender's loop gets a \<open>sender_input\<close>: the time, what the control
  loop reports (\<open>None\<close> where there is no control loop), the duration of the batch write, the outcome
  of the read with its 50 ms timeout, and the outcome of the read after FIN. All clock readings of
  one iteration are the same instant. A run is the list of these inputs, so a loop that has not
  returned when the list ends is still running. The observability print is not modelled.
\<close>

section \<open>Connection\<close>

record conn =
  so_out :: bytes
  so_writes_left :: nat

definition write_all :: "bytes \<Rightarrow> conn \<Rightarrow> io_error + conn" where
  "write_all bs c =
    (if so_writes_left c = 0 then Inl BrokenPipe
     else Inr (c\<lparr>so_out := so_out c @ bs, so_writes_left := so_writes_left c - 1\<rparr>))"

datatype read_event = ReadTimeout | ReadResult "io_error + u8 \<times> bytes"

section \<open>Sender\<close>

definition DEFAULT_RTO :: duration where "DEFAULT_RTO = 500"
definition MAX_RETRIES :: u32 where "MAX_RETRIES = 5"
definition RECEIVER_IDLE_TIMEOUT :: duration where "RECEIVER_IDLE_TIMEOUT = 30000"
definition BPRES_INTERVAL :: u32 where "BPRES_INTERVAL = 16"
definition DATA_HEADER_LEN :: u64 where "DATA_HEADER_LEN = 17"

record reliability_config =
  rcf_rto :: duration
  rcf_max_retries :: u32
  rcf_window_size :: u32

definition reliability_default :: reliability_config where
  "reliability_default =
     \<lparr>rcf_rto = DEFAULT_RTO, rcf_max_retries = MAX_RETRIES, rcf_window_size = 4\<rparr>"

record control_in =
  cin_rtt_ms :: "fl option"
  cin_parallel_streams :: u64

record sender_input =
  si_now :: instant
  si_control :: "control_in option"
  si_write_us :: u64
  si_event :: read_event
  si_fin_event :: read_event

text \<open>The calls on the control loop.\<close>

datatype control_call = RecordWrite u64 u64 bool | RecordRtt fl

record sender =
  sd_tracker :: chunk_tracker
  sd_rto :: duration
  sd_config :: reliability_config
  sd_conn :: conn
  sd_calls :: "control_call list"

definition control_call :: "control_in option \<Rightarrow> control_call \<Rightarrow> sender \<Rightarrow> sender" where
  "control_call ctl call s =
    (case ctl of None \<Rightarrow> s | Some _ \<Rightarrow> s\<lparr>sd_calls := sd_calls s @ [call]\<rparr>)"

fun fl_double :: "fl \<Rightarrow> fl" where
  "fl_double (Fin q) = Fin (q * 2)"
| "fl_double x = x"

text \<open>Step 1: retransmission timeout and window from the control loop.\<close>

definition apply_control :: "control_in option \<Rightarrow> sender \<Rightarrow> sender" where
  "apply_control ctl s =
    (case ctl of
       None \<Rightarrow> s
     | Some c \<Rightarrow>
        (let rto = (case cin_rtt_ms c of
               Some rtt \<Rightarrow> max (unat (fl_as_u64 (fl_double rtt))) 100
             | None \<Rightarrow> sd_rto s) in
         s\<lparr>sd_rto := rto, sd_config := (sd_config s)
             \<lparr>rcf_window_size := ucast (max (cin_parallel_streams c) 1), rcf_rto := rto\<rparr>\<rparr>))"

text \<open>Send one chunk again: the body of step 3 and the answer to a NACK.\<close>

definition retransmit :: "control_in option \<Rightarrow> instant \<Rightarrow> bytes \<Rightarrow> u32 \<Rightarrow> sender \<Rightarrow> io_error + sender" where
  "retransmit ctl now data i s =
    (case chunk_lookup i (sd_tracker s) of
       None \<Rightarrow> Inr s
     | Some info \<Rightarrow>
        (let attempt = (case ci_state info of ChInFlight _ a \<Rightarrow> a + 1 | _ \<Rightarrow> 1);
             frame = encode_data_frame i (ci_offset info) (chunk_data data info) in
         bind_res (write_all frame (sd_conn s)) (\<lambda>c.
           Inr (control_call ctl (RecordWrite (ci_size info) 0 True)
             (s\<lparr>sd_conn := c, sd_tracker := mark_in_flight now i attempt (sd_tracker s)\<rparr>)))))"

fun retransmit_all ::
  "control_in option \<Rightarrow> instant \<Rightarrow> bytes \<Rightarrow> u32 list \<Rightarrow> sender \<Rightarrow> io_error + sender" where
  "retransmit_all ctl now data [] s = Inr s"
| "retransmit_all ctl now data (i # is) s =
     bind_res (retransmit ctl now data i s) (retransmit_all ctl now data is)"

text \<open>Step 4, the batching loop; every iteration sends one pending chunk, so the number of chunks
  is enough fuel (\<open>fill_loop_fuel\<close>).\<close>

fun fill_loop ::
  "nat \<Rightarrow> bytes \<Rightarrow> instant \<Rightarrow> u32 \<Rightarrow> bytes \<times> u32 \<times> chunk_tracker \<Rightarrow> bytes \<times> u32 \<times> chunk_tracker" where
  "fill_loop 0 data now window st = st"
| "fill_loop (Suc fuel) data now window (batch, batched, t) =
    (if tk_in_flight t + batched < window then
       (case next_pending t of
          None \<Rightarrow> (batch, batched, t)
        | Some i \<Rightarrow>
           (case chunk_lookup i t of
              None \<Rightarrow> fill_loop fuel data now window (batch, batched, t)
            | Some info \<Rightarrow>
                fill_loop fuel data now window
                  (batch @ encode_data_frame i (ci_offset info) (chunk_data data info),
                   batched + 1, mark_in_flight now i 1 t)))
     else (batch, batched, t))"

definition fill_window ::
  "control_in option \<Rightarrow> instant \<Rightarrow> u64 \<Rightarrow> bytes \<Rightarrow> sender \<Rightarrow> io_error + sender" where
  "fill_window ctl now write_us data s =
    (let w = rcf_window_size (sd_config s) in
     if tk_in_flight (sd_tracker s) < w then
       (let (batch, batched, t) =
          fill_loop (Suc (length (tk_chunks (sd_tracker s)))) data now w ([], 0, sd_tracker s);
            s1 = s\<lparr>sd_tracker := t\<rparr> in
        if batch \<noteq> [] then
          bind_res (write_all batch (sd_conn s1)) (\<lambda>c.
            Inr (control_call ctl
              (RecordWrite (of_nat (length batch) - ucast batched * DATA_HEADER_LEN) write_us False)
              (s1\<lparr>sd_conn := c\<rparr>)))
        else Inr s1)
     else Inr s)"

text \<open>Step 5: one frame from the receiver, or the timeout.\<close>

definition handle_event ::
  "control_in option \<Rightarrow> instant \<Rightarrow> bytes \<Rightarrow> read_event \<Rightarrow> sender \<Rightarrow> io_error + sender" where
  "handle_event ctl now data ev s =
    (case ev of
       ReadTimeout \<Rightarrow> Inr s
     | ReadResult (Inl e) \<Rightarrow> Inl e
     | ReadResult (Inr (ty, payload)) \<Rightarrow>
        (if ty = FRAME_ACK then
           (let i = payload_id payload;
                measured = (case chunk_sent_at i (sd_tracker s) of
                    Some sent \<Rightarrow> Fin (of_nat (now - sent)) | None \<Rightarrow> Fin 0);
                s1 = s\<lparr>sd_tracker := snd (mark_acked i (sd_tracker s))\<rparr> in
            Inr (if fl_less (Fin 0) measured then control_call ctl (RecordRtt measured) s1 else s1))
         else if ty = FRAME_NACK then retransmit ctl now data (payload_id payload) s
         else if ty = FRAME_BPRES then
           (let queue_depth_us = (from_be (take 8 payload) :: u64);
                w = rcf_window_size (sd_config s) in
            Inr (s\<lparr>sd_config := (sd_config s)\<lparr>rcf_window_size :=
              (if queue_depth_us > 50000 then max (sat_sub w 1) 1
               else if queue_depth_us < 10000 \<and> w < 8 then w + 1 else w)\<rparr>\<rparr>))
         else if ty = FRAME_CANCEL then
           Inl (ConnectionAborted (''transfer cancelled by peer: '' @ from_utf8_lossy payload))
         else Inr s))"

text \<open>Step 6: FIN, and FIN again where the answer is another frame.\<close>

definition finish :: "u64 \<Rightarrow> read_event \<Rightarrow> sender \<Rightarrow> io_error + sender \<times> (u64 \<times> u64)" where
  "finish tot ev s =
    bind_res (write_all (encode_fin 0 tot) (sd_conn s)) (\<lambda>c.
     bind_res
      (case ev of
         ReadResult (Inr (ty, _)) \<Rightarrow>
           if ty = FRAME_FINACK then Inr c else write_all (encode_fin 0 tot) c
       | _ \<Rightarrow> Inr c) (\<lambda>c'.
     Inr (s\<lparr>sd_conn := c'\<rparr>, (tot, last_acked_offset (sd_tracker s)))))"

definition send_iteration ::
  "bytes \<Rightarrow> sender_input \<Rightarrow> sender \<Rightarrow> io_error + sender \<times> (u64 \<times> u64) option" where
  "send_iteration data x s =
    (let ctl = si_control x; now = si_now x; s1 = apply_control ctl s in
     if has_exhausted_retries (rcf_max_retries (sd_config s1)) (sd_tracker s1) then
       Inl (TimedOut ''max retries exceeded for one or more chunks'')
     else
       bind_res (retransmit_all ctl now data (find_timed_out now (sd_rto s1) (sd_tracker s1)) s1) (\<lambda>s2.
       bind_res (fill_window ctl now (si_write_us x) data s2) (\<lambda>s3.
       bind_res (handle_event ctl now data (si_event x) s3) (\<lambda>s4.
       if all_acked (sd_tracker s4) then
         bind_res (finish (of_nat (length data)) (si_fin_event x) s4) (\<lambda>(s5, r). Inr (s5, Some r))
       else Inr (s4, None)))))"

fun send_loop ::
  "bytes \<Rightarrow> sender_input list \<Rightarrow> sender \<Rightarrow> io_error + sender \<times> (u64 \<times> u64) option" where
  "send_loop data [] s = Inr (s, None)"
| "send_loop data (x # xs) s =
    bind_res (send_iteration data x s) (\<lambda>(s', r).
      case r of None \<Rightarrow> send_loop data xs s' | Some _ \<Rightarrow> Inr (s', r))"

definition sender_start :: "chunk_tracker \<Rightarrow> conn \<Rightarrow> sender" where
  "sender_start t c = \<lparr>sd_tracker = t, sd_rto = DEFAULT_RTO, sd_config = reliability_default,
     sd_conn = c, sd_calls = []\<rparr>"

text \<open>\<open>None\<close> where the tracker's constructor does not return.\<close>

definition send_file_reliable ::
  "bytes \<Rightarrow> u64 \<Rightarrow> sender_input list \<Rightarrow> conn \<Rightarrow> (io_error + sender \<times> (u64 \<times> u64) option) option" where
  "send_file_reliable data chunk_size xs c =
    (case tracker_new chunk_size (of_nat (length data)) of
       None \<Rightarrow> None
     | Some t \<Rightarrow> Some (send_loop data xs (sender_start t c)))"

section \<open>Receiver\<close>

record receiver =
  rv_chunks :: "(u32, u64 \<times> bytes) hmap"
  rv_chunk_count :: u32
  rv_last_activity :: instant
  rv_conn :: conn

definition receiver_start :: "instant \<Rightarrow> conn \<Rightarrow> receiver" where
  "receiver_start now c =
     \<lparr>rv_chunks = [], rv_chunk_count = 0, rv_last_activity = now, rv_conn = c\<rparr>"

text \<open>The file from the received chunks: sorted by offset (stable), concatenated, truncated.\<close>

definition assemble :: "(u32, u64 \<times> bytes) hmap \<Rightarrow> u64 \<Rightarrow> bytes" where
  "assemble chunks total_bytes =
     take (unat total_bytes) (concat (map (\<lambda>(_, _, data). data)
       (sort_key (\<lambda>(_, offset, _). offset) chunks)))"

text \<open>A DATA frame: remember it, ACK it, and NACK it where it is a duplicate.\<close>

definition receive_data :: "instant \<Rightarrow> bytes \<Rightarrow> receiver \<Rightarrow> io_error + receiver" where
  "receive_data now payload r =
    (let i = payload_id payload; offset = payload_offset payload; data = drop 12 payload;
         is_duplicate = hm_get (rv_chunks r) i \<noteq> None;
         r1 = r\<lparr>rv_last_activity := now, rv_chunks := hm_insert i (offset, data) (rv_chunks r),
                rv_chunk_count := rv_chunk_count r + 1\<rparr> in
     bind_res (write_all (encode_ack i (offset + of_nat (length data))) (rv_conn r1)) (\<lambda>c.
     bind_res (if is_duplicate then write_all (encode_nack i offset 1) c else Inr c) (\<lambda>c'.
     Inr (r1\<lparr>rv_conn := c'\<rparr>))))"

definition bpres_due :: "receiver \<Rightarrow> bool" where
  "bpres_due r \<longleftrightarrow> rv_chunk_count r > 0 \<and> rv_chunk_count r mod BPRES_INTERVAL = 0"

text \<open>The receive loop on the bytes of the stream. Every iteration takes one clock reading; \<open>None\<close>
  where the readings run out before the loop returns. \<^verbatim>\<open>expected_size\<close> only sizes the buffer.\<close>

fun receive_loop :: "instant list \<Rightarrow> bytes \<Rightarrow> receiver \<Rightarrow> (io_error + bytes \<times> receiver) option" where
  "receive_loop [] s r = None"
| "receive_loop (now # ts) s r =
    (if now - rv_last_activity r > RECEIVER_IDLE_TIMEOUT then
       Some (Inl (TimedOut (''receiver idle timeout '' @ [CHR 0xE2, CHR 0x80, CHR 0x94]
         @ '' sender may have disconnected'')))
     else
       (case (if bpres_due r then write_all (encode_bpres 0 0) (rv_conn r) else Inr (rv_conn r)) of
          Inl e \<Rightarrow> Some (Inl e)
        | Inr c \<Rightarrow>
           (case read_frame s of
              Inl e \<Rightarrow> Some (Inl e)
            | Inr ((ty, payload), s') \<Rightarrow>
               (if ty = FRAME_DATA then
                  (case receive_data now payload (r\<lparr>rv_conn := c\<rparr>) of
                     Inl e \<Rightarrow> Some (Inl e)
                   | Inr r' \<Rightarrow> receive_loop ts s' r')
                else if ty = FRAME_FIN then
                  Some (bind_res (write_all (encode_finack 0) c) (\<lambda>c'.
                    Inr (assemble (rv_chunks r) (payload_offset payload), r\<lparr>rv_conn := c'\<rparr>)))
                else if ty = FRAME_CANCEL then
                  Some (Inl (ConnectionAborted (''transfer cancelled: '' @ from_utf8_lossy payload)))
                else receive_loop ts s' (r\<lparr>rv_conn := c\<rparr>)))))"

section \<open>What the sender writes\<close>

definition chunk_frame :: "bytes \<Rightarrow> nat \<Rightarrow> nat \<Rightarrow> frame" where
  "chunk_frame data cs k =
     (let c = chunk_at cs (length data) k in Data (ci_id c) (ci_offset c) (chunk_data data c))"

definition frames_of :: "bytes \<Rightarrow> nat \<Rightarrow> nat list \<Rightarrow> bytes" where
  "frames_of data cs ks = concat (map (encode_frame \<circ> chunk_frame data cs) ks)"

lemma frames_of_simps [simp]:
  "frames_of data cs [] = []"
  "frames_of data cs (k # ks) = encode_frame (chunk_frame data cs k) @ frames_of data cs ks"
  "frames_of data cs (ks @ ls) = frames_of data cs ks @ frames_of data cs ls"
  by (simp_all add: frames_of_def)

definition chunk_bytes :: "bytes \<Rightarrow> nat \<Rightarrow> bytes \<Rightarrow> bool" where
  "chunk_bytes data cs bs \<longleftrightarrow>
     (\<exists>ks. set ks \<subseteq> {..<chunk_count cs (length data)} \<and> bs = frames_of data cs ks)"

lemma chunk_bytes_Nil [simp]: "chunk_bytes data cs []"
  by (auto simp: chunk_bytes_def intro: exI [of _ "[]"])

lemma chunk_bytes_append: "chunk_bytes data cs a \<Longrightarrow> chunk_bytes data cs b \<Longrightarrow> chunk_bytes data cs (a @ b)"
  unfolding chunk_bytes_def by (metis Un_least frames_of_simps(3) set_append)

lemma lookup_frame:
  assumes "tracks cs (length data) t" and "chunk_lookup i t = Some info"
  shows "chunk_bytes data cs (encode_data_frame i (ci_offset info) (chunk_data data info))"
proof -
  have info: "info \<in> set (tk_chunks t)" "ci_id info = i"
    using assms(2) find_Some_mem unfolding chunk_lookup_def by fastforce+
  then obtain k where k: "k < length (tk_chunks t)" "info = tk_chunks t ! k" by (metis in_set_conv_nth)
  then have key: "chunk_key info = chunk_key (chunk_at cs (length data) k)"
    using tracks_nth [OF assms(1)] tracks_length [OF assms(1)] by simp
  have "encode_data_frame i (ci_offset info) (chunk_data data info) = frames_of data cs [k]"
    using chunk_key_eqD(1,2) [OF key] chunk_key_eqD(4) [OF key, of data] info(2) by (simp add: chunk_frame_def Let_def)
  then show ?thesis using k(1) tracks_length [OF assms(1)]
    by (auto simp: chunk_bytes_def intro!: exI [of _ "[k]"])
qed

text \<open>The sender's invariant: a tracker of this file, acknowledgements within \<open>A\<close>, and only chunk
  frames of this file written.\<close>

definition sender_inv :: "bytes \<Rightarrow> nat \<Rightarrow> bytes \<Rightarrow> u32 set \<Rightarrow> sender \<Rightarrow> bool" where
  "sender_inv data cs out0 A s \<longleftrightarrow> tracker_ok (sd_tracker s) \<and> tracks cs (length data) (sd_tracker s)
     \<and> tk_acked_ids (sd_tracker s) \<subseteq> A
     \<and> (\<exists>bs. chunk_bytes data cs bs \<and> so_out (sd_conn s) = out0 @ bs)"

lemma sender_inv_cong:
  "sd_tracker s' = sd_tracker s \<Longrightarrow> sd_conn s' = sd_conn s \<Longrightarrow>
   sender_inv data cs out0 A s' = sender_inv data cs out0 A s"
  by (simp add: sender_inv_def)

lemma sender_inv_write:
  assumes "sender_inv data cs out0 A s" and "chunk_bytes data cs bs" and "write_all bs (sd_conn s) = Inr c"
    and "tracker_ok t" and "tracks cs (length data) t" and "tk_acked_ids t \<subseteq> A"
    and "sd_tracker s' = t" and "sd_conn s' = c"
  shows "sender_inv data cs out0 A s'"
proof -
  from assms(1) obtain b where b: "chunk_bytes data cs b" "so_out (sd_conn s) = out0 @ b"
    by (auto simp: sender_inv_def)
  have "so_out c = out0 @ (b @ bs)" using assms(3) b(2) by (auto simp: write_all_def split: if_splits)
  with chunk_bytes_append [OF b(1) assms(2)] assms(4-8) show ?thesis
    unfolding sender_inv_def by blast
qed

lemma control_call_fields [simp]:
  "sd_tracker (control_call ctl call s) = sd_tracker s"
  "sd_conn (control_call ctl call s) = sd_conn s"
  "sd_config (control_call ctl call s) = sd_config s"
  "sd_rto (control_call ctl call s) = sd_rto s"
  by (simp_all add: control_call_def split: option.splits)

lemma apply_control_fields [simp]:
  "sd_tracker (apply_control ctl s) = sd_tracker s"
  "sd_conn (apply_control ctl s) = sd_conn s"
  by (simp_all add: apply_control_def Let_def split: option.splits)

lemma retransmit_inv:
  assumes "sender_inv data cs out0 A s" and "retransmit ctl now data i s = Inr s'"
  shows "sender_inv data cs out0 A s'"
proof (cases "chunk_lookup i (sd_tracker s)")
  case None
  with assms show ?thesis by (simp add: retransmit_def)
next
  case (Some info)
  have inv: "tracker_ok (sd_tracker s)" "tracks cs (length data) (sd_tracker s)"
    "tk_acked_ids (sd_tracker s) \<subseteq> A" using assms(1) by (auto simp: sender_inv_def)
  let ?a = "case ci_state info of ChInFlight _ a \<Rightarrow> a + 1 | _ \<Rightarrow> 1"
  from assms(2) Some obtain c where w: "write_all (encode_data_frame i (ci_offset info)
      (chunk_data data info)) (sd_conn s) = Inr c" "sd_conn s' = c"
    and t: "sd_tracker s' = mark_in_flight now i ?a (sd_tracker s)"
    by (auto simp: retransmit_def Let_def bind_res_eq_Inr)
  with inv w show ?thesis
    by (intro sender_inv_write [OF assms(1) lookup_frame [OF inv(2) Some] w(1)])
      (auto simp: tracker_ok_mark_in_flight tracks_mark_in_flight mark_in_flight_chunks)
qed

lemma retransmit_all_inv:
  "sender_inv data cs out0 A s \<Longrightarrow> retransmit_all ctl now data is s = Inr s' \<Longrightarrow> sender_inv data cs out0 A s'"
  by (induction "is" arbitrary: s) (auto simp: bind_res_eq_Inr intro: retransmit_inv)

lemma fill_loop_inv:
  assumes "fill_loop fuel data now w (batch, k, t) = (batch', k', t')"
    and "tracker_ok t" and "tracks cs (length data) t" and "chunk_bytes data cs batch"
  shows "tracker_ok t' \<and> tracks cs (length data) t' \<and> tk_acked_ids t' = tk_acked_ids t
    \<and> chunk_bytes data cs batch'"
  using assms
proof (induction fuel arbitrary: batch k t)
  case 0
  then show ?case by simp
next
  case (Suc fuel)
  show ?case
  proof (cases "tk_in_flight t + k < w \<and> next_pending t \<noteq> None")
    case False
    with Suc.prems show ?thesis by (auto split: if_splits option.splits)
  next
    case True
    then obtain i where less: "tk_in_flight t + k < w" and i: "next_pending t = Some i" by auto
    show ?thesis
    proof (cases "chunk_lookup i t")
      case None
      with Suc less i show ?thesis by simp
    next
      case (Some info)
      from Suc.prems(1) less i Some have "fill_loop fuel data now w (batch @ encode_data_frame i
          (ci_offset info) (chunk_data data info), k + 1, mark_in_flight now i 1 t) = (batch', k', t')"
        by simp
      from Suc.IH [OF this] Suc.prems show ?thesis
        by (simp add: tracker_ok_mark_in_flight tracks_mark_in_flight mark_in_flight_chunks
            chunk_bytes_append lookup_frame [OF _ Some])
    qed
  qed
qed

lemma fill_window_inv:
  assumes "sender_inv data cs out0 A s" and "fill_window ctl now us data s = Inr s'"
  shows "sender_inv data cs out0 A s'"
proof (cases "tk_in_flight (sd_tracker s) < rcf_window_size (sd_config s)")
  case False
  with assms show ?thesis by (simp add: fill_window_def)
next
  case True
  obtain batch k t where f: "fill_loop (Suc (length (tk_chunks (sd_tracker s)))) data now
      (rcf_window_size (sd_config s)) ([], 0, sd_tracker s) = (batch, k, t)"
    by (metis prod_cases3)
  have inv: "tracker_ok (sd_tracker s)" "tracks cs (length data) (sd_tracker s)"
    "tk_acked_ids (sd_tracker s) \<subseteq> A" using assms(1) by (auto simp: sender_inv_def)
  note t = fill_loop_inv [OF f inv(1,2) chunk_bytes_Nil]
  show ?thesis
  proof (cases "batch = []")
    case True
    with assms f t inv \<open>tk_in_flight _ < _\<close> show ?thesis
      by (auto simp: fill_window_def sender_inv_def simp del: fill_loop.simps)
  next
    case False
    with assms(2) f True obtain c where "write_all batch (sd_conn s) = Inr c" "sd_conn s' = c" "sd_tracker s' = t"
      by (auto simp: fill_window_def bind_res_eq_Inr simp del: fill_loop.simps)
    with t inv show ?thesis by (intro sender_inv_write [OF assms(1), of batch]) auto
  qed
qed

text \<open>The chunk an incoming ACK acknowledges.\<close>

fun acked_by :: "read_event \<Rightarrow> u32 set" where
  "acked_by (ReadResult (Inr (ty, payload))) = (if ty = FRAME_ACK then {payload_id payload} else {})"
| "acked_by _ = {}"

lemma sender_inv_mono: "sender_inv data cs out0 A s \<Longrightarrow> A \<subseteq> B \<Longrightarrow> sender_inv data cs out0 B s"
  by (auto simp: sender_inv_def)

lemma handle_event_inv:
  assumes "sender_inv data cs out0 A s" and "handle_event ctl now data ev s = Inr s'"
  shows "sender_inv data cs out0 (A \<union> acked_by ev) s'"
proof (cases ev)
  case ReadTimeout
  with assms show ?thesis by (simp add: handle_event_def)
next
  case (ReadResult r)
  with assms obtain ty p where r: "r = Inr (ty, p)" by (cases r) (auto simp: handle_event_def)
  consider "ty = FRAME_ACK" | "ty = FRAME_NACK" | "ty = FRAME_BPRES"
    | "ty \<notin> {FRAME_ACK, FRAME_NACK, FRAME_BPRES}" by blast
  then show ?thesis
  proof cases
    case 1
    with assms(2) ReadResult r have "sd_tracker s' = snd (mark_acked (payload_id p) (sd_tracker s))"
      "sd_conn s' = sd_conn s" by (auto simp: handle_event_def Let_def)
    with assms(1) 1 ReadResult r show ?thesis
      by (auto simp: sender_inv_def tracker_ok_mark_acked tracks_mark_acked mark_acked_chunks)
  next
    case 2
    with assms ReadResult r have "retransmit ctl now data (payload_id p) s = Inr s'"
      by (simp add: handle_event_def frame_types)
    from retransmit_inv [OF assms(1) this] show ?thesis by (rule sender_inv_mono) simp
  next
    case 3
    with assms(2) ReadResult r have "sd_tracker s' = sd_tracker s" "sd_conn s' = sd_conn s"
      by (auto simp: handle_event_def Let_def frame_types)
    with assms(1) show ?thesis by (auto simp: sender_inv_def)
  next
    case 4
    with assms(2) ReadResult r have "s' = s" by (auto simp: handle_event_def split: if_splits)
    with assms(1) show ?thesis by (auto intro: sender_inv_mono)
  qed
qed

lemma send_iteration_cases:
  assumes "send_iteration data x s = Inr (s', r)"
  obtains s2 s3 s4 where
    "retransmit_all (si_control x) (si_now x) data (find_timed_out (si_now x)
        (sd_rto (apply_control (si_control x) s)) (sd_tracker s)) (apply_control (si_control x) s) = Inr s2"
    "fill_window (si_control x) (si_now x) (si_write_us x) data s2 = Inr s3"
    "handle_event (si_control x) (si_now x) data (si_event x) s3 = Inr s4"
    "\<not> all_acked (sd_tracker s4) \<longrightarrow> s' = s4 \<and> r = None"
    "all_acked (sd_tracker s4) \<longrightarrow>
       (\<exists>q. finish (of_nat (length data)) (si_fin_event x) s4 = Inr (s', q) \<and> r = Some q)"
  using assms
  by (auto simp: send_iteration_def Let_def bind_res_eq_Inr split: if_splits)

lemma send_iteration_inv:
  assumes "sender_inv data cs out0 A s" and "send_iteration data x s = Inr (s', r)"
  shows "(r = None \<longrightarrow> sender_inv data cs out0 (A \<union> acked_by (si_event x)) s')
    \<and> (\<forall>q. r = Some q \<longrightarrow> (\<exists>t. sender_inv data cs out0 (A \<union> acked_by (si_event x)) t
        \<and> all_acked (sd_tracker t) \<and> finish (of_nat (length data)) (si_fin_event x) t = Inr (s', q)))"
proof -
  have "sender_inv data cs out0 A (apply_control (si_control x) s)"
    using assms(1) by (simp add: sender_inv_def)
  with assms(2) show ?thesis
    by (elim send_iteration_cases) (blast dest: retransmit_all_inv fill_window_inv handle_event_inv)
qed

lemma send_loop_inv:
  assumes "sender_inv data cs out0 A s" and "send_loop data xs s = Inr (s', Some q)"
  shows "\<exists>t x. x \<in> set xs \<and> sender_inv data cs out0 (A \<union> \<Union> ((acked_by \<circ> si_event) ` set xs)) t
    \<and> all_acked (sd_tracker t) \<and> finish (of_nat (length data)) (si_fin_event x) t = Inr (s', q)"
  using assms
proof (induction xs arbitrary: s A)
  case Nil
  then show ?case by simp
next
  case (Cons x xs)
  from Cons.prems(2) obtain s1 r where it: "send_iteration data x s = Inr (s1, r)"
    and r: "(case r of None \<Rightarrow> send_loop data xs s1 | Some _ \<Rightarrow> Inr (s1, r)) = Inr (s', Some q)"
    by (auto simp: bind_res_eq_Inr)
  note inv = send_iteration_inv [OF Cons.prems(1) it]
  show ?case
  proof (cases r)
    case None
    with inv r Cons.IH [of "A \<union> acked_by (si_event x)" s1]
    obtain t y where "y \<in> set xs" "all_acked (sd_tracker t)"
      "sender_inv data cs out0 (A \<union> acked_by (si_event x) \<union> \<Union> ((acked_by \<circ> si_event) ` set xs)) t"
      "finish (of_nat (length data)) (si_fin_event y) t = Inr (s', q)" by auto
    then show ?thesis by (intro exI [of _ t] exI [of _ y]) (simp add: Un_assoc)
  next
    case (Some q')
    with r inv obtain t where "all_acked (sd_tracker t)"
      "sender_inv data cs out0 (A \<union> acked_by (si_event x)) t"
      "finish (of_nat (length data)) (si_fin_event x) t = Inr (s', q)" by auto
    then show ?thesis
      by (intro exI [of _ t] exI [of _ x]) (auto intro: sender_inv_mono)
  qed
qed

lemma finish_result:
  assumes "finish n ev t = Inr (s', q)"
  shows "q = (n, last_acked_offset (sd_tracker t))"
    and "\<exists>f. 1 \<le> f \<and> so_out (sd_conn s') = so_out (sd_conn t) @ concat (replicate f (encode_fin 0 n))"
proof -
  show "q = (n, last_acked_offset (sd_tracker t))"
    using assms by (auto simp: finish_def bind_res_eq_Inr)
  have "so_out (sd_conn s') = so_out (sd_conn t) @ encode_fin 0 n
    \<or> so_out (sd_conn s') = so_out (sd_conn t) @ encode_fin 0 n @ encode_fin 0 n"
    using assms by (auto simp: finish_def bind_res_eq_Inr write_all_def
        split: if_splits read_event.splits sum.splits)
  moreover have "encode_fin 0 n = concat (replicate 1 (encode_fin 0 n))"
    "encode_fin 0 n @ encode_fin 0 n = concat (replicate 2 (encode_fin 0 n))"
    by (simp_all add: numeral_2_eq_2)
  ultimately show "\<exists>f. 1 \<le> f \<and> so_out (sd_conn s') =
      so_out (sd_conn t) @ concat (replicate f (encode_fin 0 n))"
    by (metis order_refl one_le_numeral)
qed

lemma of_nat_length_u64: "length data < 2 ^ 64 \<Longrightarrow> unat (of_nat (length data) :: u64) = length data"
  by (simp add: unat_of_nat)

lemma sender_start_inv:
  assumes "tracker_new cs (of_nat (length data)) = Some t" and "0 < cs" and "length data < 2 ^ 64"
  shows "sender_inv data (unat cs) (so_out c) {} (sender_start t c)"
  using tracker_new_ok [OF assms(1)] tracker_new_tracks [OF assms(2,3,1)]
    tracker_new_spec [OF assms(2,3)] assms(1)
  by (auto simp: sender_inv_def sender_start_def intro: exI [of _ "[]"])

lemma tracked_ids:
  assumes "tracks cs n t" and "k < chunk_count cs n"
  shows "ci_id (tk_chunks t ! k) = of_nat k"
  using tracks_nth [OF assms] by (simp add: chunk_key_def chunk_at_def)

lemma send_file_result:
  assumes "send_file_reliable data cs xs c = Some (Inr (s, Some q))"
    and cs: "0 < cs" and len: "length data < 2 ^ 64"
  shows "q = (of_nat (length data), of_nat (length data))
    \<and> (\<forall>k < chunk_count (unat cs) (length data). \<exists>x \<in> set xs. of_nat k \<in> acked_by (si_event x))
    \<and> (\<exists>ks f. 1 \<le> f \<and> set ks \<subseteq> {..<chunk_count (unat cs) (length data)}
        \<and> so_out (sd_conn s) = so_out c @ frames_of data (unat cs) ks
            @ concat (replicate f (encode_fin 0 (of_nat (length data)))))"
proof -
  let ?n = "length data" and ?A = "\<Union> ((acked_by \<circ> si_event) ` set xs)"
  have cs': "0 < unat cs" using cs by (simp add: unat_gt_0)
  from assms(1) obtain t0 where t0: "tracker_new cs (of_nat ?n) = Some t0"
    and run: "send_loop data xs (sender_start t0 c) = Inr (s, Some q)"
    by (auto simp: send_file_reliable_def split: option.splits)
  from send_loop_inv [OF sender_start_inv [OF t0 cs len] run, unfolded Un_empty_left]
  obtain t and x :: sender_input
    where inv: "sender_inv data (unat cs) (so_out c) ?A t" and all: "all_acked (sd_tracker t)"
    and fin: "finish (of_nat ?n) (si_fin_event x) t = Inr (s, q)" by blast
  from inv obtain bs where ok: "tracker_ok (sd_tracker t)" "tracks (unat cs) ?n (sd_tracker t)"
    and A: "tk_acked_ids (sd_tracker t) \<subseteq> ?A"
    and bs: "chunk_bytes data (unat cs) bs" "so_out (sd_conn t) = so_out c @ bs"
    by (auto simp: sender_inv_def)
  have contig: "tk_contiguous (sd_tracker t) = chunk_count (unat cs) ?n"
    using all tracks_length [OF ok(2)] by (simp add: all_acked_def)
  have "?n \<le> chunk_count (unat cs) ?n * unat cs"
    using chunk_count_bound [OF cs', of "chunk_count (unat cs) ?n" ?n] by simp
  with last_acked_offset_value [OF ok(2) cs' len] contig tracks_length [OF ok(2)]
  have "unat (last_acked_offset (sd_tracker t)) = ?n" by simp
  then have "last_acked_offset (sd_tracker t) = of_nat ?n" by (metis of_nat_unat ucast_id)
  with finish_result(1) [OF fin] have "q = (of_nat ?n, of_nat ?n)" by simp
  moreover have "\<exists>x \<in> set xs. of_nat k \<in> acked_by (si_event x)" if "k < chunk_count (unat cs) ?n" for k
  proof -
    have "tk_chunks (sd_tracker t) ! k \<in> set (tk_chunks (sd_tracker t))"
      using that tracks_length [OF ok(2)] by simp
    from all_acked_ids [OF ok(1) all this] tracked_ids [OF ok(2) that] A show ?thesis by auto
  qed
  moreover from finish_result(2) [OF fin] bs obtain ks f where "1 \<le> f"
    "set ks \<subseteq> {..<chunk_count (unat cs) ?n}"
    "so_out (sd_conn s) = so_out c @ frames_of data (unat cs) ks
        @ concat (replicate f (encode_fin 0 (of_nat ?n)))"
    by (auto simp: chunk_bytes_def)
  ultimately show ?thesis by blast
qed

text \<open>C2. Success of the sender: when the sender returns, it reports the whole file as sent and
  acknowledged, an ACK was read for every chunk of the file, and what it wrote is a sequence of DATA
  frames, each carrying exactly a chunk of the file, followed by FIN frames; whatever the order of
  timeouts, retransmissions, NACKs, window changes and acknowledgements.\<close>

theorem send_success:
  assumes "send_file_reliable data cs xs c = Some (Inr (s, Some q))"
    and "0 < cs" and "length data < 2 ^ 64"
  shows "q = (of_nat (length data), of_nat (length data))
    \<and> (\<forall>k < chunk_count (unat cs) (length data). \<exists>x \<in> set xs. of_nat k \<in> acked_by (si_event x))
    \<and> (\<exists>ks f. 1 \<le> f \<and> set ks \<subseteq> {..<chunk_count (unat cs) (length data)}
        \<and> so_out (sd_conn s) = so_out c @ frames_of data (unat cs) ks
            @ concat (replicate f (encode_fin 0 (of_nat (length data)))))"
  by (rule send_file_result [OF assms])

definition demo_input :: "nat \<Rightarrow> read_event \<Rightarrow> sender_input" where
  "demo_input now ev = \<lparr>si_now = now, si_control = None, si_write_us = 0, si_event = ev,
     si_fin_event = ReadTimeout\<rparr>"

definition ack_event :: "u32 \<Rightarrow> read_event" where
  "ack_event i = ReadResult (Inr (FRAME_ACK, to_be 4 i @ to_be 8 (0 :: u64)))"

definition demo_conn :: conn where
  "demo_conn = \<lparr>so_out = [], so_writes_left = 300\<rparr>"

definition demo_inputs :: "sender_input list" where
  "demo_inputs = [demo_input 1 (ack_event 1), demo_input 2 ReadTimeout, demo_input 3 (ack_event 0)]"

definition demo_sent :: sender where
  "demo_sent = (case send_loop [1, 2, 3] demo_inputs (sender_start demo_tracker demo_conn) of
     Inr (s, _) \<Rightarrow> s | Inl _ \<Rightarrow> sender_start demo_tracker demo_conn)"

lemma demo_run_ok:
  "(case send_loop [1, 2, 3] demo_inputs (sender_start demo_tracker demo_conn) of
     Inr (_, Some q) \<Rightarrow> q = (3, 3) | _ \<Rightarrow> False)"
  by code_simp

lemma demo_run:
  "send_file_reliable [1, 2, 3] 2 demo_inputs demo_conn = Some (Inr (demo_sent, Some (3, 3)))"
  using demo_tracker_new demo_run_ok
  by (auto simp: send_file_reliable_def demo_sent_def split: sum.splits option.splits)

theorem send_success_witness:
  "(\<exists>x \<in> set demo_inputs. 0 \<in> acked_by (si_event x)) \<and> (\<exists>x \<in> set demo_inputs. 1 \<in> acked_by (si_event x))"
proof -
  have all: "\<forall>k < 2. \<exists>x \<in> set demo_inputs. of_nat k \<in> acked_by (si_event x)"
    using send_success [OF demo_run] by (simp add: chunk_count_def numeral_3_eq_3)
  show ?thesis using all [rule_format, of 0] all [rule_format, of 1] by simp
qed

section \<open>What the receiver assembles\<close>

lemma set_hm_insert: "hm_wf m \<Longrightarrow> set (hm_insert k v m) = insert (k, v) {p \<in> set m. fst p \<noteq> k}"
proof (induction m)
  case Nil
  then show ?case by (simp add: hm_insert_def)
next
  case (Cons p m)
  then show ?case by (cases p) (auto simp: hm_insert_def hm_wf_def image_iff)
qed

definition chunk_entry :: "bytes \<Rightarrow> nat \<Rightarrow> nat \<Rightarrow> u32 \<times> u64 \<times> bytes" where
  "chunk_entry data cs k =
     (let c = chunk_at cs (length data) k in (ci_id c, ci_offset c, chunk_data data c))"

definition file_chunks :: "bytes \<Rightarrow> nat \<Rightarrow> bool" where
  "file_chunks data cs \<longleftrightarrow> 0 < cs \<and> cs < 2 ^ 32 \<and> length data < 2 ^ 64
     \<and> chunk_count cs (length data) \<le> 2 ^ 32"

lemma entry_key: "fst (chunk_entry data cs k) = of_nat k"
  by (simp add: chunk_entry_def chunk_at_def Let_def)

lemma of_nat_u32_inj:
  assumes "j < 2 ^ 32" "k < 2 ^ 32" "(of_nat j :: u32) = of_nat k"
  shows "j = k"
  using arg_cong [OF assms(3), of unat] assms(1,2) by (simp add: unat_of_nat)

lemma entry_id_inj:
  assumes "file_chunks data cs" and "j < chunk_count cs (length data)"
    and "k < chunk_count cs (length data)" and "(of_nat j :: u32) = of_nat k"
  shows "j = k"
  using assms by (intro of_nat_u32_inj) (simp_all add: file_chunks_def)

lemma entry_inj:
  assumes "file_chunks data cs"
  shows "inj_on (chunk_entry data cs) {..<chunk_count cs (length data)}"
proof (rule inj_onI)
  fix j k
  assume *: "j \<in> {..<chunk_count cs (length data)}" "k \<in> {..<chunk_count cs (length data)}"
    "chunk_entry data cs j = chunk_entry data cs k"
  then have "(of_nat j :: u32) = of_nat k" by (metis entry_key)
  with * show "j = k" by (intro entry_id_inj [OF assms]) auto
qed

lemma entry_offset:
  assumes "file_chunks data cs" and "k < chunk_count cs (length data)"
  shows "unat (fst (snd (chunk_entry data cs k))) = k * cs"
  using chunk_at_words(1) [OF _ _ assms(2)] assms(1)
  by (simp add: file_chunks_def chunk_entry_def Let_def)

lemma entry_data_short:
  assumes "file_chunks data cs"
  shows "length (snd (snd (chunk_entry data cs k))) < 2 ^ 32"
proof -
  have "unat (ci_size (chunk_at cs (length data) k)) \<le> min cs (length data - k * cs)"
    by (simp only: chunk_at_def chunk_info.simps unat_of_nat mod_less_eq_dividend)
  moreover have "length (snd (snd (chunk_entry data cs k))) \<le> unat (ci_size (chunk_at cs (length data) k))"
    by (simp add: chunk_entry_def chunk_data_def Let_def)
  ultimately show ?thesis using assms by (simp add: file_chunks_def)
qed

lemma sorted_entries:
  assumes "file_chunks data cs"
    and "mset m = mset (map (chunk_entry data cs) [0..<chunk_count cs (length data)])"
  shows "sort_key (\<lambda>(_, offset, _). offset) m =
    map (chunk_entry data cs) [0..<chunk_count cs (length data)]"
proof (rule sort_key_inj_key_eq)
  let ?n = "chunk_count cs (length data)"
  have off: "unat (case chunk_entry data cs k of (_, offset, _) \<Rightarrow> offset) = k * cs" if "k < ?n" for k
    using entry_offset [OF assms(1) that] by (simp add: case_prod_unfold)
  have "set m = chunk_entry data cs ` {..<?n}"
    using arg_cong [OF assms(2), of set_mset] by (simp add: lessThan_atLeast0)
  moreover have "inj_on (\<lambda>(_, offset, _). offset) (chunk_entry data cs ` {..<?n})"
  proof (rule inj_onI, elim imageE, goal_cases)
    case (1 x y j k)
    then have "j * cs = k * cs" using off [of j] off [of k] by (simp add: case_prod_unfold)
    with 1 assms(1) show ?case by (simp add: file_chunks_def)
  qed
  ultimately show "inj_on (\<lambda>(_, offset, _). offset) (set m)" by simp
  show "sorted (map (\<lambda>(_, offset, _). offset) (map (chunk_entry data cs) [0..<?n]))"
    using off by (simp add: sorted_iff_nth_mono word_le_nat_alt)
qed (rule assms(2))

lemma assemble_entries:
  assumes "file_chunks data cs" and "hm_wf m"
    and "set m = chunk_entry data cs ` {..<chunk_count cs (length data)}"
  shows "assemble m (of_nat (length data)) = data"
proof -
  let ?ys = "map (chunk_entry data cs) [0..<chunk_count cs (length data)]"
  have "mset m = mset ?ys"
  proof (rule iffD1 [OF set_eq_iff_mset_eq_distinct])
    show "distinct m" using assms(2) by (auto simp: hm_wf_def distinct_map)
    show "set m = set ?ys" using assms(3) by (simp add: lessThan_atLeast0)
    show "distinct ?ys" using entry_inj [OF assms(1)] by (simp add: distinct_map lessThan_atLeast0)
  qed
  note sorted = sorted_entries [OF assms(1) this]
  have entries: "map (\<lambda>(_, _, d). d) ?ys =
      map (chunk_data data) (map (chunk_at cs (length data)) [0..<chunk_count cs (length data)])"
    by (simp add: chunk_entry_def Let_def)
  show ?thesis
    unfolding assemble_def sorted entries using concat_chunks [of cs data] assms(1)
    by (simp add: unat_of_nat file_chunks_def)
qed

lemma read_chunk_frame:
  assumes "file_chunks data cs" and "chunk_entry data cs k = (i, off, d)"
  shows "read_frame (encode_frame (chunk_frame data cs k) @ rest) =
    Inr ((FRAME_DATA, to_be 4 i @ to_be 8 off @ d), rest)"
  using entry_data_short [OF assms(1), of k] assms(2)
  by (auto simp: chunk_frame_def chunk_entry_def Let_def read_data_frame)

text \<open>The receiver has the chunks \<open>ks\<close>, was last active at \<open>last\<close> and has \<open>w\<close> writes left.\<close>

definition receiver_has :: "bytes \<Rightarrow> nat \<Rightarrow> nat set \<Rightarrow> instant \<Rightarrow> nat \<Rightarrow> receiver \<Rightarrow> bool" where
  "receiver_has data cs K since w r \<longleftrightarrow> hm_wf (rv_chunks r)
     \<and> set (rv_chunks r) = chunk_entry data cs ` K
     \<and> rv_last_activity r = since \<and> w \<le> so_writes_left (rv_conn r)"

lemma write_all_left:
  "0 < so_writes_left c \<Longrightarrow> \<exists>c'. write_all bs c = Inr c' \<and> so_writes_left c' = so_writes_left c - 1"
  by (simp add: write_all_def)

lemma insert_entry:
  assumes "file_chunks data cs" and "hm_wf m" and "set m = chunk_entry data cs ` K"
    and "K \<subseteq> {..<chunk_count cs (length data)}" and "k < chunk_count cs (length data)"
    and "chunk_entry data cs k = (i, v)"
  shows "set (hm_insert i v m) = chunk_entry data cs ` insert k K"
proof -
  have i: "i = of_nat k" using entry_key [of data cs k] assms(6) by simp
  have "p = (i, v)" if "p \<in> set m" "fst p = i" for p
  proof -
    from that(1) assms(3) obtain j where j: "j \<in> K" "p = chunk_entry data cs j" by auto
    with that(2) i have "j = k"
      using assms(4,5) by (intro entry_id_inj [OF assms(1)]) (auto simp: entry_key)
    with j assms(6) show ?thesis by simp
  qed
  then have "set (hm_insert i v m) = insert (i, v) (set m)"
    unfolding set_hm_insert [OF assms(2)] by blast
  with assms(3,6) show ?thesis by simp
qed

lemma receive_data_step:
  assumes "file_chunks data cs" and "receiver_has data cs K since (w + 2) r"
    and "K \<subseteq> {..<chunk_count cs (length data)}" and "k < chunk_count cs (length data)"
    and "chunk_entry data cs k = (i, off, d)"
  shows "\<exists>r'. receive_data now (to_be 4 i @ to_be 8 off @ d) r = Inr r'
    \<and> receiver_has data cs (insert k K) now w r'"
proof -
  have wf: "hm_wf (rv_chunks r)" "set (rv_chunks r) = chunk_entry data cs ` K"
    and left: "w + 2 \<le> so_writes_left (rv_conn r)"
    using assms(2) by (auto simp: receiver_has_def)
  have "set (hm_insert i (off, d) (rv_chunks r)) = chunk_entry data cs ` insert k K"
    by (rule insert_entry [OF assms(1) wf assms(3,4,5)])
  with wf left show ?thesis
    by (auto simp: receive_data_def receiver_has_def write_all_def Let_def)
qed

fun gaps_ok :: "instant \<Rightarrow> instant list \<Rightarrow> bool" where
  "gaps_ok since [] \<longleftrightarrow> True"
| "gaps_ok since (t # ts) \<longleftrightarrow> t - since \<le> RECEIVER_IDLE_TIMEOUT \<and> gaps_ok t ts"

lemma receive_loop_frames:
  assumes "file_chunks data cs"
    and "length ks < length ts" and "gaps_ok since ts"
    and "set ks \<subseteq> {..<chunk_count cs (length data)}" and "K \<subseteq> {..<chunk_count cs (length data)}"
    and "K \<union> set ks = {..<chunk_count cs (length data)}"
    and "receiver_has data cs K since (3 * length ks + 2) r"
  shows "\<exists>r'. receive_loop ts (frames_of data cs ks @ encode_fin 0 (of_nat (length data)) @ rest) r
    = Some (Inr (data, r'))"
  using assms(2-)
proof (induction ks arbitrary: ts K since r)
  case Nil
  then obtain t ts' where ts: "ts = t # ts'" by (cases ts) auto
  have "read_frame (encode_fin 0 (of_nat (length data)) @ rest) =
      Inr ((FRAME_FIN, to_be 4 (0 :: u32) @ to_be 8 (of_nat (length data) :: u64)), rest)"
    using read_encoded_frame [of "Fin_frame 0 (of_nat (length data))" rest] by simp
  with Nil ts assemble_entries [OF assms(1), of "rv_chunks r"] show ?case
    by (auto simp: receiver_has_def write_all_def frame_types)
next
  case (Cons k ks)
  obtain t ts' where ts: "ts = t # ts'" using Cons.prems(1) by (cases ts) auto
  obtain i off d where e: "chunk_entry data cs k = (i, off, d)" by (cases "chunk_entry data cs k")
  from Cons.prems(6) obtain c where
    c: "(if bpres_due r then write_all (encode_bpres 0 0) (rv_conn r) else Inr (rv_conn r)) = Inr c"
      "receiver_has data cs K since (3 * length ks + 2 + 2) (r\<lparr>rv_conn := c\<rparr>)"
    by (cases "bpres_due r") (auto simp: receiver_has_def write_all_def)
  from receive_data_step [OF assms(1) c(2) Cons.prems(4) _ e, of t] Cons.prems(3)
  obtain r' where r': "receive_data t (to_be 4 i @ to_be 8 off @ d) (r\<lparr>rv_conn := c\<rparr>) = Inr r'"
    "receiver_has data cs (insert k K) t (3 * length ks + 2) r'" by auto
  have "receive_loop ts (frames_of data cs (k # ks) @ encode_fin 0 (of_nat (length data)) @ rest) r
      = receive_loop ts' (frames_of data cs ks @ encode_fin 0 (of_nat (length data)) @ rest) r'"
    using Cons.prems(2,6) ts c(1) r'(1) read_chunk_frame [OF assms(1) e]
    by (simp add: receiver_has_def)
  moreover have "\<exists>r''. receive_loop ts' (frames_of data cs ks @ encode_fin 0 (of_nat (length data)) @ rest) r'
      = Some (Inr (data, r''))"
    using Cons.prems ts by (intro Cons.IH [OF _ _ _ _ _ r'(2)]) auto
  ultimately show ?case by simp
qed


lemma receive_all_frames:
  assumes "file_chunks data cs" and "set ks = {..<chunk_count cs (length data)}"
    and "length ks < length ts" and "gaps_ok start ts" and "3 * length ks + 2 \<le> so_writes_left c"
  shows "\<exists>r. receive_loop ts (frames_of data cs ks @ encode_fin 0 (of_nat (length data)) @ rest)
    (receiver_start start c) = Some (Inr (data, r))"
  using assms
  by (intro receive_loop_frames [where K = "{}" and since = start])
    (auto simp: receiver_has_def receiver_start_def)

text \<open>The receiver reassembles the file: whatever the order and the repetitions in which the
  DATA frames of the chunks arrive, as long as every chunk arrives before the first FIN, frames are
  at most 30 seconds apart and its own writes succeed, the receive loop returns exactly the file
  and ignores what follows the FIN.\<close>

theorem receive_reassembles:
  assumes "file_chunks data cs" and "set ks = {..<chunk_count cs (length data)}"
    and "length ks < length ts" and "gaps_ok start ts" and "3 * length ks + 2 \<le> so_writes_left c"
  shows "\<exists>r. receive_loop ts (frames_of data cs ks @ encode_fin 0 (of_nat (length data)) @ rest)
    (receiver_start start c) = Some (Inr (data, r))"
  by (rule receive_all_frames [OF assms])

theorem receive_reassembles_witness:
  "\<exists>r. receive_loop [0, 1, 2, 3] (frames_of [1, 2, 3] 2 [1, 0, 1] @ encode_fin 0 (of_nat (length [1, 2, 3 :: u8])) @ [])
    (receiver_start 0 demo_conn) = Some (Inr ([1, 2, 3], r))"
  by (rule receive_reassembles)
    (auto simp: file_chunks_def chunk_count_def demo_conn_def RECEIVER_IDLE_TIMEOUT_def)

section \<open>End to end\<close>

text \<open>The DATA frames a reader finds in the bytes written.\<close>

definition data_ids_in :: "bytes \<Rightarrow> u32 set" where
  "data_ids_in out = {payload_id p | p.
     (FRAME_DATA, p) \<in> set (fst (decode_many (length out) read_frame_opt out))}"

lemma encode_frame_nonempty: "0 < length (encode_frame f)"
  by (cases f) (simp_all add: encode_data_frame_def encode_ack_def encode_nack_def encode_fin_def
      encode_finack_def encode_cancel_def encode_bpres_def Let_def)

lemma length_encode_frames: "length fs \<le> length (concat (map encode_frame fs))"
proof (induction fs)
  case (Cons f fs)
  then show ?case using encode_frame_nonempty [of f] by (simp del: length_greater_0_conv)
qed simp

lemma chunk_frame_ok: "file_chunks data cs \<Longrightarrow> frame_ok (chunk_frame data cs k)"
  using entry_data_short [of data cs k] by (simp add: chunk_frame_def chunk_entry_def Let_def)

definition chunk_payload :: "bytes \<Rightarrow> nat \<Rightarrow> nat \<Rightarrow> bytes" where
  "chunk_payload data cs k = snd (frame_view (chunk_frame data cs k))"

lemma chunk_payload_simps [simp]:
  "frame_view (chunk_frame data cs k) = (FRAME_DATA, chunk_payload data cs k)"
  "payload_id (chunk_payload data cs k) = of_nat k"
  by (simp_all add: chunk_payload_def chunk_frame_def chunk_at_def Let_def)

lemma sent_frames_decode:
  assumes "file_chunks data cs"
  shows "data_ids_in (frames_of data cs ks @ concat (replicate f (encode_fin 0 len)))
    = of_nat ` set ks"
proof -
  let ?fs = "map (chunk_frame data cs) ks @ replicate f (Fin_frame 0 len)"
  have eq: "frames_of data cs ks @ concat (replicate f (encode_fin 0 len)) = concat (map encode_frame ?fs)"
    by (simp add: frames_of_def map_replicate_const [symmetric] o_def)
  have "decode_many (length (concat (map encode_frame ?fs))) read_frame_opt (concat (map encode_frame ?fs))
      = (map frame_view ?fs, [])"
    by (rule fr.decode_many_stream [OF _ length_encode_frames])
      (use chunk_frame_ok [OF assms(1)] in \<open>auto simp: list_all_iff\<close>)
  then have "data_ids_in (frames_of data cs ks @ concat (replicate f (encode_fin 0 len))) =
      {payload_id p | p. (FRAME_DATA, p) \<in> set (map frame_view ?fs)}"
    unfolding data_ids_in_def eq by simp
  also have "\<dots> = payload_id ` chunk_payload data cs ` set ks"
    by (auto simp: frame_types)
  finally show ?thesis by (simp add: image_image)
qed

text \<open>C1. End-to-end delivery: when the sender returns success, and every ACK it read acknowledged a
  DATA frame that it did write, then a receiver that reads the bytes the sender wrote returns
  exactly the file.\<close>

theorem reliable_delivery:
  assumes sent: "send_file_reliable data cs xs c = Some (Inr (s, Some q))"
    and fc: "file_chunks data (unat cs)" and out: "so_out c = []"
    and honest: "\<forall>x \<in> set xs. acked_by (si_event x) \<subseteq> data_ids_in (so_out (sd_conn s))"
    and recv: "length (so_out (sd_conn s)) \<le> length ts" "gaps_ok start ts"
      "3 * length (so_out (sd_conn s)) \<le> so_writes_left c'"
  shows "\<exists>r. receive_loop ts (so_out (sd_conn s)) (receiver_start start c') = Some (Inr (data, r))"
proof -
  let ?n = "chunk_count (unat cs) (length data)" and ?fin = "encode_fin 0 (of_nat (length data))"
  have cs: "0 < cs" "length data < 2 ^ 64" using fc by (simp_all add: file_chunks_def word_less_nat_alt)
  from send_file_result [OF sent cs] out obtain ks f where f: "1 \<le> f" and ks: "set ks \<subseteq> {..<?n}"
    and bytes: "so_out (sd_conn s) = frames_of data (unat cs) ks @ concat (replicate f ?fin)"
    and acked: "\<forall>k < ?n. \<exists>x \<in> set xs. of_nat k \<in> acked_by (si_event x)" by auto
  have "set ks = {..<?n}"
  proof (intro equalityI subsetI)
    fix k assume k: "k \<in> {..<?n}"
    with acked honest have "of_nat k \<in> data_ids_in (so_out (sd_conn s))" by blast
    then obtain j where "j \<in> set ks" "(of_nat k :: u32) = of_nat j"
      unfolding bytes sent_frames_decode [OF fc] by auto
    with k ks entry_id_inj [OF fc, of k j] show "k \<in> set ks" by auto
  qed (use ks in auto)
  moreover obtain g where g: "f = Suc g" using f by (cases f) auto
  moreover have "length ks < length (so_out (sd_conn s))"
    using length_encode_frames [of "map (chunk_frame data (unat cs)) ks"] g
    by (simp add: bytes frames_of_def encode_fin_def)
  moreover have "3 * length ks + 2 \<le> so_writes_left c'"
    using recv(3) \<open>length ks < _\<close> by linarith
  ultimately show ?thesis
    using receive_all_frames [OF fc, of ks ts start c' "concat (replicate g ?fin)"] recv(1,2)
    by (simp add: bytes)
qed


lemma demo_honest:
  "list_all (\<lambda>x. acked_by (si_event x) \<subseteq> payload_id `
      set (List.map_filter (\<lambda>(ty, p). if ty = FRAME_DATA then Some p else None)
        (fst (decode_many (length (so_out (sd_conn demo_sent))) read_frame_opt (so_out (sd_conn demo_sent))))))
    demo_inputs \<and> length (so_out (sd_conn demo_sent)) \<le> 60"
  by code_simp


lemma data_ids_code: "data_ids_in out = payload_id `
    set (List.map_filter (\<lambda>(ty, p). if ty = FRAME_DATA then Some p else None)
      (fst (decode_many (length out) read_frame_opt out)))"
proof -
  have "{p. \<exists>x \<in> S. (case x of (ty, p) \<Rightarrow> if ty = FRAME_DATA then Some p else None) = Some p}
      = {p. (FRAME_DATA, p) \<in> S}" for S :: "(u8 \<times> bytes) set"
    by (force split: if_splits)
  then have "{payload_id p | p. (FRAME_DATA, p) \<in> S} =
      payload_id ` {p. \<exists>x \<in> S. (case x of (ty, p) \<Rightarrow> if ty = FRAME_DATA then Some p else None) = Some p}"
    for S by auto
  moreover have "set (List.map_filter f xs) = {y. \<exists>x \<in> set xs. f x = Some y}"
    for f :: "u8 \<times> bytes \<Rightarrow> bytes option" and xs
    by (auto simp: List.map_filter_def image_iff) (metis option.sel)
  ultimately show ?thesis by (simp only: data_ids_in_def)
qed

lemma gaps_ok_replicate: "gaps_ok t (replicate n t)"
  by (induction n) simp_all

theorem reliable_delivery_witness:
  "\<exists>r. receive_loop (replicate 60 0) (so_out (sd_conn demo_sent)) (receiver_start 0 demo_conn) =
     Some (Inr ([1, 2, 3], r))"
proof (rule reliable_delivery [OF demo_run])
  show "file_chunks [1, 2, 3] (unat (2 :: u64))" by (simp add: file_chunks_def chunk_count_def)
  show "so_out demo_conn = []" by (simp add: demo_conn_def)
  show "\<forall>x \<in> set demo_inputs. acked_by (si_event x) \<subseteq> data_ids_in (so_out (sd_conn demo_sent))"
    using conjunct1 [OF demo_honest] by (simp only: data_ids_code list_all_iff)
  show "length (so_out (sd_conn demo_sent)) \<le> length (replicate 60 0)" using demo_honest by simp
  show "gaps_ok 0 (replicate 60 0)" by (rule gaps_ok_replicate)
  show "3 * length (so_out (sd_conn demo_sent)) \<le> so_writes_left demo_conn"
    using conjunct2 [OF demo_honest] by (simp add: demo_conn_def)
qed

section \<open>The window and the duplicate\<close>

definition pending_count :: "chunk_tracker \<Rightarrow> nat" where
  "pending_count t = length (filter (\<lambda>c. ci_state c = ChPending) (tk_chunks t))"

lemma next_pending_split:
  assumes "distinct (map ci_id (tk_chunks t))" and "next_pending t = Some i"
  obtains pre c post where "tk_chunks t = pre @ c # post" "ci_id c = i" "ci_state c = ChPending"
    "chunk_lookup i t = Some c"
    "tk_chunks (mark_in_flight now i a t) = pre @ c\<lparr>ci_state := ChInFlight now a,
        ci_is_retransmit := (a > 1 \<or> ci_is_retransmit c)\<rparr> # post"
    "tk_in_flight (mark_in_flight now i a t) = tk_in_flight t + 1"
proof -
  from assms(2) obtain c where c: "find (\<lambda>c. ci_state c = ChPending) (tk_chunks t) = Some c" "ci_id c = i"
    by (auto simp: next_pending_def)
  from c(1) obtain pre post where s: "tk_chunks t = pre @ c # post" "ci_state c = ChPending"
    by (elim find_split) auto
  have "ci_id c \<notin> ci_id ` set pre" using assms(1) s(1) by auto
  then have skip: "\<forall>y \<in> set pre. ci_id y \<noteq> i" using c(2) by (metis image_eqI)
  have look: "chunk_lookup i t = Some c"
    using c(2) by (simp add: chunk_lookup_def s(1) find_append_skip [OF skip])
  show ?thesis
    by (rule that [OF s(1) c(2) s(2) look])
      (simp_all add: mark_in_flight_def look s(1) update_first_append_skip [OF skip] c(2))
qed

lemma pending_pos: "next_pending t \<noteq> None \<longleftrightarrow> 0 < pending_count t"
  by (auto simp: next_pending_def pending_count_def find_None_iff_list filter_empty_conv)

lemma pending_mark:
  assumes "distinct (map ci_id (tk_chunks t))" and "next_pending t = Some i"
  shows "pending_count (mark_in_flight now i a t) = pending_count t - 1"
  using assms by (auto elim!: next_pending_split [where now = now and a = a] simp: pending_count_def)

lemma ids_mark: "map ci_id (tk_chunks (mark_in_flight now i a t)) = map ci_id (tk_chunks t)"
  by (simp only: ci_id_map mark_in_flight_chunks)

lemma half_step:
  "s < w \<Longrightarrow> 0 < P \<Longrightarrow> min P ((w - s + 1) div 2) = Suc (min (P - 1) ((w - (s + 2) + 1) div (2 :: nat)))"
  by (cases "w = Suc s") auto

lemma fill_loop_counts:
  assumes "fill_loop fuel data now w (batch, k, t) = (batch', k', t')"
    and "distinct (map ci_id (tk_chunks t))" and "pending_count t \<le> fuel"
    and "unat (tk_in_flight t) + unat k \<le> unat w + 1" and "unat w < 2 ^ 32 - 1"
  shows "unat (tk_in_flight t') = unat (tk_in_flight t)
      + min (pending_count t) ((unat w - (unat (tk_in_flight t) + unat k) + 1) div 2)"
  using assms(1-4)
proof (induction fuel arbitrary: batch k t)
  case 0
  then show ?case by simp
next
  case (Suc fuel)
  have sum: "unat (tk_in_flight t + k) = unat (tk_in_flight t) + unat k"
    using Suc.prems(4) assms(5) by (intro unat_add_lem [THEN iffD1]) simp
  show ?case
  proof (cases "tk_in_flight t + k < w \<and> next_pending t \<noteq> None")
    case False
    then have stop: "t' = t" using Suc.prems(1) by (auto split: if_splits option.splits)
    show ?thesis
    proof (cases "tk_in_flight t + k < w")
      case True
      with False pending_pos [of t] stop show ?thesis by simp
    next
      case ge: False
      then have "unat w - (unat (tk_in_flight t) + unat k) = 0" by (simp add: word_less_nat_alt sum)
      with stop show ?thesis by simp
    qed
  next
    case True
    then obtain i where less: "tk_in_flight t + k < w" and i: "next_pending t = Some i" by auto
    have lt: "unat (tk_in_flight t) + unat k < unat w" using less by (simp add: word_less_nat_alt sum)
    obtain c where look: "chunk_lookup i t = Some c"
      and fl: "tk_in_flight (mark_in_flight now i 1 t) = tk_in_flight t + 1"
      by (rule next_pending_split [OF Suc.prems(2) i, where now = now and a = 1]) blast
    have u: "unat (tk_in_flight t + 1) = unat (tk_in_flight t) + 1" "unat (k + 1) = unat k + 1"
      using lt assms(5) by (simp_all add: unat_word_ariths)
    from Suc.prems(1) less i look have "fill_loop fuel data now w (batch @ encode_data_frame i
        (ci_offset c) (chunk_data data c), k + 1, mark_in_flight now i 1 t) = (batch', k', t')"
      by simp
    from Suc.IH [OF this, unfolded ids_mark, OF Suc.prems(2)] Suc.prems(3) lt
      pending_mark [OF Suc.prems(2) i] half_step [OF lt, of "pending_count t"] i pending_pos [of t]
    show ?thesis by (simp add: fl u)
  qed
qed


lemma tracks_distinct_ids:
  assumes "tracks cs n t" and "chunk_count cs n \<le> 2 ^ 32"
  shows "distinct (map ci_id (tk_chunks t))"
proof -
  have "map ci_id (tk_chunks t) = map fst (map (chunk_key \<circ> chunk_at cs n) [0..<chunk_count cs n])"
    using assms(1) by (simp only: ci_id_map tracks_def)
  also have "\<dots> = map of_nat [0..<chunk_count cs n]" by (simp add: chunk_key_def chunk_at_def)
  finally show ?thesis
    using assms(2) of_nat_u32_inj by (auto simp: distinct_map inj_on_def)
qed

lemma pending_le_length: "pending_count t \<le> length (tk_chunks t)"
  by (simp add: pending_count_def)

text \<open>The window is only half used: the batching loop counts every chunk of the batch twice,
  once in \<^verbatim>\<open>batched\<close> and once in \<^verbatim>\<open>in_flight\<close>, so filling the window from \<open>f\<close> chunks in flight
  with window \<open>w\<close> and \<open>P\<close> pending chunks sends \<open>min P (\<lceil>(w - f) / 2\<rceil>)\<close> of them; with nothing in
  flight and enough to send, the default window of 4 puts 2 chunks in flight.\<close>

theorem fill_window_half:
  assumes "tracks cs n (sd_tracker s)" and "chunk_count cs n \<le> 2 ^ 32"
    and "unat (rcf_window_size (sd_config s)) < 2 ^ 32 - 1"
    and "fill_window ctl now us data s = Inr s'"
  shows "unat (tk_in_flight (sd_tracker s')) = unat (tk_in_flight (sd_tracker s))
    + min (pending_count (sd_tracker s))
        ((unat (rcf_window_size (sd_config s)) - unat (tk_in_flight (sd_tracker s)) + 1) div 2)"
proof (cases "tk_in_flight (sd_tracker s) < rcf_window_size (sd_config s)")
  case False
  with assms(4) show ?thesis by (simp add: fill_window_def word_less_nat_alt not_less)
next
  case True
  obtain batch k t where f: "fill_loop (Suc (length (tk_chunks (sd_tracker s)))) data now
      (rcf_window_size (sd_config s)) ([], 0, sd_tracker s) = (batch, k, t)"
    by (metis prod_cases3)
  have "sd_tracker s' = t"
    using assms(4) f True
    by (auto simp: fill_window_def Let_def bind_res_eq_Inr simp del: fill_loop.simps split: if_splits)
  with fill_loop_counts [OF f tracks_distinct_ids [OF assms(1,2)] _ _ assms(3)]
    pending_le_length [of "sd_tracker s"] True
  show ?thesis by (simp add: word_less_nat_alt)
qed

theorem fill_window_half_witness:
  "unat (tk_in_flight (sd_tracker (case fill_window None 0 0 [1, 2, 3] (sender_start demo_tracker demo_conn)
      of Inr s \<Rightarrow> s))) = 2"
proof -
  have "tracks 2 3 (sd_tracker (sender_start demo_tracker demo_conn))"
    using tracker_new_tracks [OF _ _ demo_tracker_new] by (simp add: sender_start_def)
  moreover obtain s' where s': "fill_window None 0 0 [1, 2, 3] (sender_start demo_tracker demo_conn) = Inr s'"
  proof -
    have "\<not> isl (fill_window None 0 0 [1, 2, 3] (sender_start demo_tracker demo_conn))" by code_simp
    with that show ?thesis by (metis isl_def sum.exhaust_sel)
  qed
  moreover have "pending_count demo_tracker = 2" by code_simp
  ultimately show ?thesis
    using fill_window_half [of 2 3 "sender_start demo_tracker demo_conn" None 0 0 "[1, 2, 3]" s']
    by (simp add: sender_start_def reliability_default_def demo_tracker_def chunk_count_def)
qed

lemma fill_loop_fuel:
  assumes "distinct (map ci_id (tk_chunks t))" and "pending_count t \<le> fuel"
  shows "fill_loop (fuel + m) data now w (batch, k, t) = fill_loop (Suc fuel) data now w (batch, k, t)"
  using assms
proof (induction fuel arbitrary: batch k t)
  case 0
  then have "next_pending t = None" using pending_pos [of t] by auto
  then show ?case by (cases m) auto
next
  case (Suc fuel)
  show ?case
  proof (cases "next_pending t")
    case None
    then show ?thesis by simp
  next
    case (Some i)
    then obtain c where look: "chunk_lookup i t = Some c"
      by (elim next_pending_split [OF Suc.prems(1), where now = now and a = 1]) blast
    have "pending_count (mark_in_flight now i 1 t) \<le> fuel"
      using pending_mark [OF Suc.prems(1) Some] Suc.prems(2) by simp
    from Suc.IH [OF _ this] Suc.prems(1) Some look show ?thesis by (simp add: ids_mark del: fill_loop.simps(2)) (subst (1 2) fill_loop.simps(2), simp)
  qed
qed

text \<open>A chunk that was acknowledged and is in flight again, beyond the contiguous prefix.\<close>

definition stuck :: "u32 \<Rightarrow> chunk_tracker \<Rightarrow> bool" where
  "stuck i t \<longleftrightarrow> i \<in> tk_acked_ids t \<and> distinct (map ci_id (tk_chunks t))
     \<and> (\<exists>j < length (tk_chunks t). tk_contiguous t \<le> j \<and> ci_id (tk_chunks t ! j) = i
          \<and> ci_state (tk_chunks t ! j) \<noteq> ChAcked)"

lemma stuck_not_all_acked: "stuck i t \<Longrightarrow> \<not> all_acked t"
  by (auto simp: stuck_def all_acked_def)

lemma nth_ci_id:
  assumes "map ci_id cs = map ci_id ds" and "j < length cs"
  shows "ci_id (cs ! j) = ci_id (ds ! j)"
  using assms by (metis length_map nth_map)

lemma stuck_mark_in_flight:
  assumes "stuck i t"
  shows "stuck i (mark_in_flight now m a t)"
proof -
  from assms obtain j where j: "j < length (tk_chunks t)" "tk_contiguous t \<le> j"
    "ci_id (tk_chunks t ! j) = i" "ci_state (tk_chunks t ! j) \<noteq> ChAcked" by (auto simp: stuck_def)
  have len: "length (tk_chunks (mark_in_flight now m a t)) = length (tk_chunks t)"
    using arg_cong [OF ids_mark, of length] by simp
  have "ci_state (tk_chunks (mark_in_flight now m a t) ! j) \<noteq> ChAcked"
    using j by (auto simp: mark_in_flight_def update_first_nth split: option.splits)
  with assms j len nth_ci_id [OF ids_mark, of j] show ?thesis
    unfolding stuck_def mark_in_flight_chunks(2,3) ids_mark by auto
qed

lemma advance_stops:
  assumes "n \<le> j" and "j < length cs" and "ci_state (cs ! j) \<noteq> ChAcked"
  shows "advance (drop n cs) n \<le> j"
proof -
  have "length (takeWhile (\<lambda>c. ci_state c = ChAcked) (drop n cs)) \<le> j - n"
  proof (rule ccontr)
    assume "\<not> ?thesis"
    then have less: "j - n < length (takeWhile (\<lambda>c. ci_state c = ChAcked) (drop n cs))" by simp
    then have "takeWhile (\<lambda>c. ci_state c = ChAcked) (drop n cs) ! (j - n) \<in>
        set (takeWhile (\<lambda>c. ci_state c = ChAcked) (drop n cs))" by (rule nth_mem)
    then have "ci_state (drop n cs ! (j - n)) = ChAcked"
      by (metis (mono_tags, lifting) less set_takeWhileD takeWhile_nth)
    with assms show False by simp
  qed
  with assms(1) show ?thesis by (simp add: advance_takeWhile)
qed

lemma stuck_mark_acked:
  assumes "stuck i t"
  shows "stuck i (snd (mark_acked m t))"
proof (cases "m \<in> tk_acked_ids t \<or> chunk_lookup m t = None")
  case True
  with assms show ?thesis by (auto simp: mark_acked_def stuck_def Let_def chunk_lookup_def)
next
  case False
  let ?cs = "update_first (\<lambda>c. ci_id c = m) (\<lambda>c. c\<lparr>ci_state := ChAcked\<rparr>) (tk_chunks t)"
  from assms obtain j where j: "j < length (tk_chunks t)" "tk_contiguous t \<le> j"
    "ci_id (tk_chunks t ! j) = i" "ci_state (tk_chunks t ! j) \<noteq> ChAcked" by (auto simp: stuck_def)
  have "m \<noteq> i" using assms False by (auto simp: stuck_def)
  with j have nth: "?cs ! j = tk_chunks t ! j" by (simp add: update_first_nth)
  have ids: "map ci_id ?cs = map ci_id (tk_chunks t)" by (rule map_update_first) simp
  have adv: "advance (drop (tk_contiguous t) ?cs) (tk_contiguous t) \<le> j"
    using j nth by (intro advance_stops) auto
  obtain c where c: "chunk_lookup m (t\<lparr>tk_acked_ids := insert m (tk_acked_ids t)\<rparr>) = Some c"
    using False by (auto simp: chunk_lookup_def)
  from False have eq: "snd (mark_acked m t) = t\<lparr>tk_acked_ids := insert m (tk_acked_ids t), tk_chunks := ?cs,
      tk_in_flight := sat_sub (tk_in_flight t) 1,
      tk_contiguous := advance (drop (tk_contiguous t) ?cs) (tk_contiguous t)\<rparr>"
    by (simp add: mark_acked_def Let_def c)
  show ?thesis
    using assms j nth ids adv unfolding stuck_def eq by (auto intro!: exI [of _ j])
qed

lemma stuck_retransmit:
  "stuck i (sd_tracker s) \<Longrightarrow> retransmit ctl now data m s = Inr s' \<Longrightarrow> stuck i (sd_tracker s')"
  by (auto simp: retransmit_def Let_def bind_res_eq_Inr stuck_mark_in_flight split: option.splits)

lemma stuck_retransmit_all:
  "stuck i (sd_tracker s) \<Longrightarrow> retransmit_all ctl now data is s = Inr s' \<Longrightarrow> stuck i (sd_tracker s')"
  by (induction "is" arbitrary: s) (auto simp: bind_res_eq_Inr dest: stuck_retransmit)

lemma stuck_fill_loop:
  "stuck i (snd (snd st)) \<Longrightarrow> stuck i (snd (snd (fill_loop fuel data now w st)))"
  by (induction fuel data now w st rule: fill_loop.induct) (auto simp: stuck_mark_in_flight split: option.splits)

lemma fill_window_tracker:
  assumes "fill_window ctl now us data s = Inr s'"
  shows "sd_tracker s' = sd_tracker s \<or> sd_tracker s' = snd (snd (fill_loop
    (Suc (length (tk_chunks (sd_tracker s)))) data now (rcf_window_size (sd_config s)) ([], 0, sd_tracker s)))"
proof -
  obtain batch k t where f: "fill_loop (Suc (length (tk_chunks (sd_tracker s)))) data now
      (rcf_window_size (sd_config s)) ([], 0, sd_tracker s) = (batch, k, t)"
    by (metis prod_cases3)
  show ?thesis
    using assms unfolding fill_window_def Let_def f by (auto simp: bind_res_eq_Inr split: if_splits)
qed

lemma stuck_fill_window:
  assumes "stuck i (sd_tracker s)" and "fill_window ctl now us data s = Inr s'"
  shows "stuck i (sd_tracker s')"
  using fill_window_tracker [OF assms(2)] stuck_fill_loop assms(1) by (metis snd_conv)

lemma stuck_handle_event:
  "stuck i (sd_tracker s) \<Longrightarrow> handle_event ctl now data ev s = Inr s' \<Longrightarrow> stuck i (sd_tracker s')"
  by (auto simp: handle_event_def Let_def stuck_mark_acked dest: stuck_retransmit
      split: read_event.splits sum.splits if_splits)

lemma stuck_send_loop:
  "stuck i (sd_tracker s) \<Longrightarrow> send_loop data xs s \<noteq> Inr (t, Some q)"
proof (induction xs arbitrary: s)
  case Nil
  then show ?case by simp
next
  case (Cons x xs)
  have "r = None \<and> stuck i (sd_tracker s')" if "send_iteration data x s = Inr (s', r)" for s' r
    using that Cons.prems stuck_not_all_acked
    by (elim send_iteration_cases)
      (metis apply_control_fields(1) stuck_retransmit_all stuck_fill_window stuck_handle_event)
  with Cons.IH show ?case by (fastforce simp: bind_res_eq_Inr)
qed

text \<open>A NACK for an acknowledged chunk blocks the transfer: it puts the chunk in flight again
  while its identifier stays in the set of acknowledged ones, so every further ACK of it counts as a
  duplicate. Where the chunk lies beyond the contiguous prefix the sender can then never return
  success, whatever it reads afterwards. (The receiver NACKs every duplicate it has just ACKed.)\<close>

theorem nack_after_ack_blocks:
  assumes "tracks cs n (sd_tracker s)" and "chunk_count cs n \<le> 2 ^ 32" and "k < chunk_count cs n"
    and "of_nat k \<in> tk_acked_ids (sd_tracker s)" and "tk_contiguous (sd_tracker s) \<le> k"
    and "handle_event ctl now data (ReadResult (Inr (FRAME_NACK, p))) s = Inr s'"
    and "payload_id p = of_nat k"
  shows "send_loop data xs s' \<noteq> Inr (t, Some q)"
proof (rule stuck_send_loop)
  have dist: "distinct (map ci_id (tk_chunks (sd_tracker s)))"
    by (rule tracks_distinct_ids [OF assms(1,2)])
  have k: "k < length (tk_chunks (sd_tracker s))" "ci_id (tk_chunks (sd_tracker s) ! k) = of_nat k"
    using assms(3) tracks_length [OF assms(1)] tracked_ids [OF assms(1,3)] by simp_all
  then have first: "\<forall>j < k. ci_id (tk_chunks (sd_tracker s) ! j) \<noteq> of_nat k"
    using dist by (auto simp: distinct_conv_nth) (metis less_trans nat_neq_iff)
  have "tk_chunks (sd_tracker s) ! k \<in> set (tk_chunks (sd_tracker s))" using k by simp
  then obtain c where look: "chunk_lookup (of_nat k) (sd_tracker s) = Some c"
    using k(2) find_None_iff_list unfolding chunk_lookup_def by fastforce
  then obtain a where s': "sd_tracker s' = mark_in_flight now (of_nat k) a (sd_tracker s)"
    using assms(6,7) by (auto simp: handle_event_def retransmit_def Let_def bind_res_eq_Inr frame_types)
  have "ci_state (tk_chunks (sd_tracker s') ! k) \<noteq> ChAcked"
    using k first look by (simp add: s' mark_in_flight_def update_first_nth)
  with assms(4,5) k dist show "stuck (of_nat k) (sd_tracker s')"
    unfolding s' stuck_def ids_mark mark_in_flight_chunks(2,3)
    using nth_ci_id [OF ids_mark] arg_cong [OF ids_mark, of length]
    by (auto intro!: exI [of _ k])
qed


definition demo_acked :: sender where
  "demo_acked = (sender_start demo_tracker demo_conn)
     \<lparr>sd_tracker := snd (mark_acked 1 (mark_in_flight 0 1 1 demo_tracker))\<rparr>"

definition demo_nacked :: sender where
  "demo_nacked = (case handle_event None 1 [1, 2, 3]
      (ReadResult (Inr (FRAME_NACK, to_be 4 (1 :: u32) @ to_be 8 (0 :: u64)))) demo_acked of
     Inr s \<Rightarrow> s | Inl _ \<Rightarrow> demo_acked)"

lemma demo_nack_event:
  "handle_event None 1 [1, 2, 3]
      (ReadResult (Inr (FRAME_NACK, to_be 4 (1 :: u32) @ to_be 8 (0 :: u64)))) demo_acked = Inr demo_nacked"
proof -
  have "\<not> isl (handle_event None 1 [1, 2, 3]
      (ReadResult (Inr (FRAME_NACK, to_be 4 (1 :: u32) @ to_be 8 (0 :: u64)))) demo_acked)" by code_simp
  then show ?thesis by (auto simp: demo_nacked_def split: sum.splits)
qed

theorem nack_after_ack_blocks_witness:
  "send_loop [1, 2, 3] (replicate 7 (demo_input 2 (ack_event 1))) demo_nacked \<noteq> Inr (demo_nacked, Some (3, 3))"
proof (rule nack_after_ack_blocks [where s = demo_acked and k = 1, OF _ _ _ _ _ demo_nack_event])
  show "tracks 2 3 (sd_tracker demo_acked)"
    using tracker_new_tracks [OF _ _ demo_tracker_new]
    by (simp add: demo_acked_def tracks_mark_acked tracks_mark_in_flight)
  show "chunk_count 2 3 \<le> 2 ^ 32" "1 < chunk_count 2 3" by (simp_all add: chunk_count_def)
  show "of_nat 1 \<in> tk_acked_ids (sd_tracker demo_acked)"
    by (simp add: demo_acked_def mark_acked_chunks)
  show "tk_contiguous (sd_tracker demo_acked) \<le> 1" by code_simp
qed simp

section \<open>Completion\<close>

text \<open>A tracker no chunk of which was sent twice: acknowledged chunks are in the acknowledged state
  and the contiguous prefix is maximal.\<close>

definition calm :: "chunk_tracker \<Rightarrow> bool" where
  "calm t \<longleftrightarrow> distinct (map ci_id (tk_chunks t)) \<and> tk_contiguous t \<le> length (tk_chunks t)
     \<and> (\<forall>c \<in> set (tk_chunks t). ci_id c \<in> tk_acked_ids t \<longrightarrow> ci_state c = ChAcked)
     \<and> (\<forall>c \<in> set (tk_chunks t). \<forall>sent a. ci_state c = ChInFlight sent a \<longrightarrow> a = 1)
     \<and> (tk_contiguous t < length (tk_chunks t) \<longrightarrow>
          ci_state (tk_chunks t ! tk_contiguous t) \<noteq> ChAcked)"

lemma calm_complete:
  assumes "calm t" and "\<And>c. c \<in> set (tk_chunks t) \<Longrightarrow> ci_id c \<in> tk_acked_ids t"
  shows "all_acked t"
proof (rule ccontr)
  assume "\<not> ?thesis"
  then have "tk_contiguous t < length (tk_chunks t)" using assms(1) by (auto simp: calm_def all_acked_def)
  then show False using assms by (auto simp: calm_def)
qed

lemma calm_send:
  assumes "calm t" and "next_pending t = Some i"
  shows "calm (mark_in_flight now i 1 t)"
proof -
  have dist: "distinct (map ci_id (tk_chunks t))" using assms(1) by (simp add: calm_def)
  obtain pre c post where s: "tk_chunks t = pre @ c # post" "ci_id c = i" "ci_state c = ChPending"
    "tk_chunks (mark_in_flight now i 1 t) = pre @ c\<lparr>ci_state := ChInFlight now 1,
        ci_is_retransmit := ((1 :: u32) > 1 \<or> ci_is_retransmit c)\<rparr> # post"
    by (rule next_pending_split [OF dist assms(2), where now = now and a = 1]) blast
  have unacked: "i \<notin> tk_acked_ids t" using assms(1) s by (auto simp: calm_def)
  show ?thesis
    using assms(1) unacked s(2,3) arg_cong [OF ids_mark, of distinct now i 1 t]
    unfolding calm_def mark_in_flight_chunks(2,3) s(4) s(1)
    by (auto simp: nth_append nth_Cons split: nat.splits)
qed

lemma advance_maximal:
  "n \<le> length cs \<Longrightarrow> advance (drop n cs) n < length cs \<Longrightarrow> ci_state (cs ! advance (drop n cs) n) \<noteq> ChAcked"
proof -
  let ?w = "takeWhile (\<lambda>c. ci_state c = ChAcked) (drop n cs)"
  assume n: "n \<le> length cs" and less: "advance (drop n cs) n < length cs"
  then have "length ?w < length (drop n cs)" by (simp add: advance_takeWhile)
  from nth_length_takeWhile [OF this] n less show ?thesis by (simp add: advance_takeWhile)
qed

lemma calm_mark_acked:
  assumes "calm t"
  shows "calm (snd (mark_acked i t))"
proof (cases "i \<in> tk_acked_ids t")
  case True
  with assms show ?thesis by (simp add: mark_acked_def)
next
  case new: False
  let ?t1 = "t\<lparr>tk_acked_ids := insert i (tk_acked_ids t)\<rparr>"
  show ?thesis
  proof (cases "chunk_lookup i ?t1")
    case None
    then have "\<forall>c \<in> set (tk_chunks t). ci_id c \<noteq> i" by (simp add: chunk_lookup_def find_None_iff_list)
    with assms new None show ?thesis by (auto simp: mark_acked_def calm_def)
  next
    case (Some c)
    let ?cs = "update_first (\<lambda>c. ci_id c = i) (\<lambda>c. c\<lparr>ci_state := ChAcked\<rparr>) (tk_chunks t)"
    have ids: "map ci_id ?cs = map ci_id (tk_chunks t)" by (rule map_update_first) simp
    have dist: "distinct (map ci_id (tk_chunks t))" and le: "tk_contiguous t \<le> length ?cs"
      using assms by (simp_all add: calm_def)
    have nth: "?cs ! j = (if ci_id (tk_chunks t ! j) = i then (tk_chunks t ! j)\<lparr>ci_state := ChAcked\<rparr>
        else tk_chunks t ! j)" if "j < length (tk_chunks t)" for j
      using that dist by (auto simp: update_first_nth distinct_conv_nth)
    have "\<forall>c \<in> set ?cs. (ci_id c \<in> insert i (tk_acked_ids t) \<longrightarrow> ci_state c = ChAcked)
        \<and> (\<forall>sent a. ci_state c = ChInFlight sent a \<longrightarrow> a = 1)"
      unfolding all_set_conv_all_nth using assms nth by (auto simp: calm_def dest: nth_mem)
    moreover have "advance (drop (tk_contiguous t) ?cs) (tk_contiguous t) \<le> length ?cs"
      using le length_takeWhile_le [of "\<lambda>c. ci_state c = ChAcked" "drop (tk_contiguous t) ?cs"]
      unfolding advance_takeWhile by simp
    moreover have "snd (mark_acked i t) = ?t1\<lparr>tk_chunks := ?cs, tk_in_flight := sat_sub (tk_in_flight t) 1,
        tk_contiguous := advance (drop (tk_contiguous t) ?cs) (tk_contiguous t)\<rparr>"
      using new Some by (simp add: mark_acked_def Let_def)
    ultimately show ?thesis
      using dist ids advance_maximal [OF le] by (simp add: calm_def del: insert_iff)
  qed
qed


lemma calm_fill_loop: "calm (snd (snd st)) \<Longrightarrow> calm (snd (snd (fill_loop fuel data now w st)))"
  by (induction fuel data now w st rule: fill_loop.induct) (auto simp: calm_send split: option.splits)

lemma calm_not_exhausted: "calm t \<Longrightarrow> 1 \<le> m \<Longrightarrow> \<not> has_exhausted_retries m t"
  by (auto simp: calm_def has_exhausted_retries_def list_ex_iff not_less split: chunk_state.splits)

lemma none_timed_out: "now \<le> rto \<Longrightarrow> find_timed_out now rto t = []"
proof -
  assume "now \<le> rto"
  then have "\<not> rto < now - sent" for sent :: nat by linarith
  then show ?thesis
    by (simp add: find_timed_out_def List.map_filter_def filter_empty_conv split: chunk_state.splits)
qed

fun quiet_event :: "read_event \<Rightarrow> bool" where
  "quiet_event ReadTimeout \<longleftrightarrow> True"
| "quiet_event (ReadResult (Inl _)) \<longleftrightarrow> False"
| "quiet_event (ReadResult (Inr (ty, _))) \<longleftrightarrow> ty \<notin> {FRAME_NACK, FRAME_CANCEL}"

definition calm_sender :: "nat \<Rightarrow> sender \<Rightarrow> bool" where
  "calm_sender w s \<longleftrightarrow> calm (sd_tracker s) \<and> sd_rto s = DEFAULT_RTO
     \<and> rcf_max_retries (sd_config s) = MAX_RETRIES \<and> w \<le> so_writes_left (sd_conn s)"

definition same_file :: "chunk_tracker \<Rightarrow> chunk_tracker \<Rightarrow> bool" where
  "same_file t t' \<longleftrightarrow> map chunk_key (tk_chunks t') = map chunk_key (tk_chunks t)"

lemma same_file_trans: "same_file a b \<Longrightarrow> same_file b c \<Longrightarrow> same_file a c"
  by (simp add: same_file_def)

lemma fill_loop_same:
  "same_file (snd (snd st)) (snd (snd (fill_loop fuel data now w st)))
    \<and> tk_acked_ids (snd (snd (fill_loop fuel data now w st))) = tk_acked_ids (snd (snd st))"
  by (induction fuel data now w st rule: fill_loop.induct)
    (auto simp: same_file_def mark_in_flight_chunks split: option.splits)

lemma calm_fill_window:
  assumes "calm_sender (Suc w) s"
  obtains s' where "fill_window None now us data s = Inr s'" "calm_sender w s'"
    "same_file (sd_tracker s) (sd_tracker s')" "tk_acked_ids (sd_tracker s') = tk_acked_ids (sd_tracker s)"
proof -
  let ?st = "fill_loop (Suc (length (tk_chunks (sd_tracker s)))) data now (rcf_window_size (sd_config s))
    ([], 0, sd_tracker s)"
  obtain batch k t where f: "?st = (batch, k, t)" by (metis prod_cases3)
  have t: "calm t" "same_file (sd_tracker s) t" "tk_acked_ids t = tk_acked_ids (sd_tracker s)"
    using calm_fill_loop [of "([], 0, sd_tracker s)"] fill_loop_same [of "([], 0, sd_tracker s)"] f assms
    by (metis calm_sender_def snd_conv)+
  have left: "Suc w \<le> so_writes_left (sd_conn s)" using assms by (simp add: calm_sender_def)
  show ?thesis
  proof (cases "tk_in_flight (sd_tracker s) < rcf_window_size (sd_config s) \<and> batch \<noteq> []")
    case True
    with f left t assms show ?thesis
      by (intro that [of "s\<lparr>sd_tracker := t, sd_conn := (sd_conn s)\<lparr>so_out := so_out (sd_conn s) @ batch,
          so_writes_left := so_writes_left (sd_conn s) - 1\<rparr>\<rparr>"])
        (auto simp: fill_window_def write_all_def control_call_def calm_sender_def Let_def
          simp del: fill_loop.simps)
  next
    case False
    with f t assms show ?thesis
      by (intro that [of "if tk_in_flight (sd_tracker s) < rcf_window_size (sd_config s)
          then s\<lparr>sd_tracker := t\<rparr> else s"])
        (auto simp: fill_window_def calm_sender_def same_file_def Let_def simp del: fill_loop.simps)
  qed
qed

lemma calm_handle_event:
  assumes "calm_sender w s" and "quiet_event ev"
  obtains s' where "handle_event None now data ev s = Inr s'" "calm_sender w s'"
    "same_file (sd_tracker s) (sd_tracker s')"
    "tk_acked_ids (sd_tracker s') = tk_acked_ids (sd_tracker s) \<union> acked_by ev"
proof -
  have "\<exists>s'. handle_event None now data ev s = Inr s' \<and> calm_sender w s'
      \<and> same_file (sd_tracker s) (sd_tracker s')
      \<and> tk_acked_ids (sd_tracker s') = tk_acked_ids (sd_tracker s) \<union> acked_by ev"
    using assms
    by (cases ev rule: quiet_event.cases)
      (auto simp: handle_event_def Let_def calm_sender_def same_file_def calm_mark_acked
        mark_acked_chunks control_call_def)
  with that show ?thesis by blast
qed

definition calm_input :: "sender_input \<Rightarrow> bool" where
  "calm_input x \<longleftrightarrow> si_control x = None \<and> si_now x \<le> DEFAULT_RTO \<and> quiet_event (si_event x)"

lemma calm_iteration:
  assumes "calm_sender (Suc (Suc (Suc w))) s" and "calm_input x"
  shows "(\<exists>s' q. send_iteration data x s = Inr (s', Some q)) \<or>
    (\<exists>s'. send_iteration data x s = Inr (s', None) \<and> calm_sender (Suc (Suc w)) s'
      \<and> same_file (sd_tracker s) (sd_tracker s') \<and> \<not> all_acked (sd_tracker s')
      \<and> tk_acked_ids (sd_tracker s') = tk_acked_ids (sd_tracker s) \<union> acked_by (si_event x))"
proof -
  have ctl: "si_control x = None" and now: "si_now x \<le> sd_rto s" and q: "quiet_event (si_event x)"
    using assms by (simp_all add: calm_input_def calm_sender_def)
  have fresh: "\<not> has_exhausted_retries (rcf_max_retries (sd_config s)) (sd_tracker s)"
    using assms(1) by (intro calm_not_exhausted) (simp_all add: calm_sender_def MAX_RETRIES_def)
  obtain s3 where s3: "fill_window None (si_now x) (si_write_us x) data s = Inr s3"
    "calm_sender (Suc (Suc w)) s3" "same_file (sd_tracker s) (sd_tracker s3)"
    "tk_acked_ids (sd_tracker s3) = tk_acked_ids (sd_tracker s)"
    by (rule calm_fill_window [OF assms(1)])
  obtain s4 where s4: "handle_event None (si_now x) data (si_event x) s3 = Inr s4"
    "calm_sender (Suc (Suc w)) s4" "same_file (sd_tracker s3) (sd_tracker s4)"
    "tk_acked_ids (sd_tracker s4) = tk_acked_ids (sd_tracker s3) \<union> acked_by (si_event x)"
    by (rule calm_handle_event [OF s3(2) q])
  have "\<exists>s' q. finish (of_nat (length data)) (si_fin_event x) s4 = Inr (s', q)"
    using s4(2) by (auto simp: finish_def write_all_def calm_sender_def split: read_event.splits sum.splits)
  then obtain s5 r where fin: "finish (of_nat (length data)) (si_fin_event x) s4 = Inr (s5, r)" by blast
  have it: "send_iteration data x s = (if all_acked (sd_tracker s4) then Inr (s5, Some r) else Inr (s4, None))"
    using fresh s3(1) s4(1) none_timed_out [OF now]
    by (simp add: send_iteration_def apply_control_def ctl Let_def fin)
  show ?thesis
  proof (cases "all_acked (sd_tracker s4)")
    case True
    then show ?thesis using it by simp
  next
    case False
    have "same_file (sd_tracker s) (sd_tracker s4)" by (rule same_file_trans [OF s3(3) s4(3)])
    then show ?thesis using False it s3(4) s4(2,4) by simp
  qed
qed

lemma same_file_ids: "same_file t t' \<Longrightarrow> ci_id ` set (tk_chunks t') = ci_id ` set (tk_chunks t)"
  unfolding same_file_def by (metis ci_id_map set_map)

lemma calm_loop:
  assumes "calm_sender (length xs + 2) s" and "list_all calm_input xs"
    and "ci_id ` set (tk_chunks (sd_tracker s)) \<subseteq>
      tk_acked_ids (sd_tracker s) \<union> \<Union> ((acked_by \<circ> si_event) ` set xs)"
    and "xs = [] \<longrightarrow> \<not> all_acked (sd_tracker s)"
  shows "\<exists>s' q. send_loop data xs s = Inr (s', Some q)"
  using assms
proof (induction xs arbitrary: s)
  case Nil
  then have "all_acked (sd_tracker s)" by (intro calm_complete) (auto simp: calm_sender_def)
  with Nil show ?case by simp
next
  case (Cons x xs)
  then have x: "calm_input x" "calm_sender (Suc (Suc (Suc (length xs)))) s" by simp_all
  from calm_iteration [OF x(2,1), of data]
  show ?case
  proof (elim disjE exE conjE)
    fix s' assume "send_iteration data x s = Inr (s', None)" "calm_sender (Suc (Suc (length xs))) s'"
      and "same_file (sd_tracker s) (sd_tracker s')" "\<not> all_acked (sd_tracker s')"
      and "tk_acked_ids (sd_tracker s') = tk_acked_ids (sd_tracker s) \<union> acked_by (si_event x)"
    with Cons.prems same_file_ids [of "sd_tracker s" "sd_tracker s'"] Cons.IH [of s']
    show ?thesis by (simp add: Un_assoc)
  qed auto
qed


lemma calm_new:
  assumes "0 < cs" and "n < 2 ^ 64" and "tracker_new cs (of_nat n) = Some t"
    and "chunk_count (unat cs) n \<le> 2 ^ 32"
  shows "calm t"
  using tracker_new_spec [OF assms(1,2)] assms(3)
    tracks_distinct_ids [OF tracker_new_tracks [OF assms(1-3)] assms(4)]
  by (auto simp: calm_def chunk_at_def)

text \<open>C3. Completion: a sender without a control loop, whose writes succeed, that reads an ACK for
  every chunk of the file, in any order, with duplicates and timeouts and pressure frames between
  them, but no NACK, cancellation or error, all within the retransmission timeout of 500 ms, returns
  success and does so within the iterations that read those frames.\<close>

theorem send_completes:
  assumes "file_chunks data (unat cs)" and "xs \<noteq> []" and "list_all calm_input xs"
    and "\<forall>k < chunk_count (unat cs) (length data). \<exists>x \<in> set xs. of_nat k \<in> acked_by (si_event x)"
    and "length xs + 2 \<le> so_writes_left c"
  shows "\<exists>s. send_file_reliable data cs xs c =
    Some (Inr (s, Some (of_nat (length data), of_nat (length data))))"
proof -
  let ?n = "length data"
  have cs: "0 < cs" "?n < 2 ^ 64" "chunk_count (unat cs) ?n \<le> 2 ^ 32"
    using assms(1) by (simp_all add: file_chunks_def word_less_nat_alt)
  obtain t where t: "tracker_new cs (of_nat ?n) = Some t" using tracker_new_spec [OF cs(1,2)] by blast
  have ids: "ci_id ` set (tk_chunks t) = of_nat ` {..<chunk_count (unat cs) ?n}"
    using tracker_new_spec [OF cs(1,2)] t by (force simp: chunk_at_def)
  have "calm_sender (length xs + 2) (sender_start t c)"
    using calm_new [OF cs(1,2) t cs(3)] assms(5)
    by (simp add: calm_sender_def sender_start_def reliability_default_def)
  moreover have "ci_id ` set (tk_chunks (sd_tracker (sender_start t c))) \<subseteq>
      tk_acked_ids (sd_tracker (sender_start t c)) \<union> \<Union> ((acked_by \<circ> si_event) ` set xs)"
    using assms(4) ids by (auto simp: sender_start_def)
  ultimately obtain s q where "send_loop data xs (sender_start t c) = Inr (s, Some q)"
    using calm_loop [OF _ assms(3)] assms(2) by metis
  with t have "send_file_reliable data cs xs c = Some (Inr (s, Some q))"
    by (simp add: send_file_reliable_def)
  with send_file_result [OF this cs(1,2)] show ?thesis by blast
qed

theorem send_completes_witness:
  "\<exists>s. send_file_reliable [1, 2, 3] 2 demo_inputs demo_conn =
    Some (Inr (s, Some (of_nat (length [1, 2, 3 :: u8]), of_nat (length [1, 2, 3 :: u8]))))"
proof (rule send_completes)
  show "file_chunks [1, 2, 3] (unat (2 :: u64))" by (simp add: file_chunks_def chunk_count_def)
  show "demo_inputs \<noteq> []" by (simp add: demo_inputs_def)
  show "list_all calm_input demo_inputs" by code_simp
  show "\<forall>k < chunk_count (unat (2 :: u64)) (length [1, 2, 3 :: u8]).
      \<exists>x \<in> set demo_inputs. of_nat k \<in> acked_by (si_event x)"
    using send_file_result [OF demo_run] by simp
  show "length demo_inputs + 2 \<le> so_writes_left demo_conn" by (simp add: demo_inputs_def demo_conn_def)
qed

end
