(* ===== verification/Rust_Text.thy ===== *)
theory Rust_Text
  imports Rust_Strings
begin

text \<open>
  More of Rust's \<^verbatim>\<open>str\<close> API: \<^verbatim>\<open>find\<close>, \<^verbatim>\<open>split\<close>, \<^verbatim>\<open>lines\<close>, \<^verbatim>\<open>rsplit_once\<close>, \<^verbatim>\<open>chars\<close>, and the
  hexadecimal digits of \<^verbatim>\<open>format!\<close>.
\<close>

section \<open>Searching and splitting\<close>

text \<open>\<^verbatim>\<open>str::find\<close> of a string pattern: the byte index of its first occurrence.\<close>

fun str_find :: "string \<Rightarrow> string \<Rightarrow> nat option" where
  "str_find pat [] = (if pat = [] then Some 0 else None)"
| "str_find pat (c # cs) = (if prefix pat (c # cs) then Some 0 else map_option Suc (str_find pat cs))"

lemma str_find_Some:
  "str_find pat s = Some i \<Longrightarrow> i + length pat \<le> length s \<and> take (length pat) (drop i s) = pat"
proof (induction s arbitrary: i)
  case Nil
  then show ?case by (auto split: if_splits)
next
  case (Cons c s)
  then show ?case
    by (auto split: if_splits dest: prefix_length_le) (auto simp: prefix_def)
qed

text \<open>\<^verbatim>\<open>s.split(c)\<close> for a one-byte character; \<^verbatim>\<open>split\<close> of the empty string is one empty part.\<close>

fun str_split :: "char \<Rightarrow> string \<Rightarrow> string list" where
  "str_split c [] = [[]]"
| "str_split c (x # xs) =
     (if x = c then [] # str_split c xs
      else (case str_split c xs of [] \<Rightarrow> [[x]] | p # ps \<Rightarrow> (x # p) # ps))"

lemma str_split_nonempty [simp]: "str_split c s \<noteq> []"
  by (induction s) (auto split: list.splits)

lemma str_split_no_sep: "c \<notin> set s \<Longrightarrow> str_split c s = [s]"
  by (induction s) auto

lemma str_split_append: "c \<notin> set a \<Longrightarrow> str_split c (a @ c # b) = a # str_split c b"
  by (induction a) auto

text \<open>\<^verbatim>\<open>str::lines\<close>: split at newlines, drop a final empty part, strip one carriage return.\<close>

definition strip_cr :: "string \<Rightarrow> string" where
  "strip_cr l = (if l \<noteq> [] \<and> last l = CHR 0x0D then butlast l else l)"

definition str_lines :: "string \<Rightarrow> string list" where
  "str_lines s = (let ps = str_split (CHR 0x0A) s in
     map strip_cr (if last ps = [] then butlast ps else ps))"

text \<open>\<^verbatim>\<open>rsplit_once(c)\<close>: the parts before and after the last occurrence.\<close>

fun rsplit_once :: "char \<Rightarrow> string \<Rightarrow> (string \<times> string) option" where
  "rsplit_once c [] = None"
| "rsplit_once c (x # xs) =
     (case rsplit_once c xs of
        Some (a, b) \<Rightarrow> Some (x # a, b)
      | None \<Rightarrow> if x = c then Some ([], xs) else None)"

lemma rsplit_once_None: "rsplit_once c s = None \<longleftrightarrow> c \<notin> set s"
  by (induction s) (auto split: option.splits)

lemma rsplit_once_append: "c \<notin> set b \<Longrightarrow> rsplit_once c (a @ c # b) = Some (a, b)"
proof (induction a)
  case Nil
  then show ?case using rsplit_once_None [of c b] by simp
qed simp

lemma rsplit_once_SomeD: "rsplit_once c s = Some (a, b) \<Longrightarrow> s = a @ c # b \<and> c \<notin> set b"
proof (induction s arbitrary: a)
  case Nil
  then show ?case by simp
next
  case (Cons x s)
  then show ?case using rsplit_once_None [of c s]
    by (auto split: option.splits if_splits)
qed

section \<open>Characters\<close>

text \<open>\<^verbatim>\<open>str::chars\<close>: the characters of a string, each as its UTF-8 bytes.\<close>

function char_codes :: "nat list \<Rightarrow> nat list list" where
  "char_codes bs = (if bs = [] then [] else
     (case utf8_step bs of (_, n) \<Rightarrow> take n bs # char_codes (drop n bs)))"
  by pat_completeness auto
termination
  by (relation "measure length") (simp_all add: utf8_step_decr)

declare char_codes.simps [simp del]

definition str_chars :: "string \<Rightarrow> string list" where
  "str_chars s = map (map char_of) (char_codes (map of_char s))"

lemma concat_char_codes: "concat (char_codes bs) = bs"
proof (induction bs rule: char_codes.induct)
  case (1 bs)
  show ?case
  proof (cases "bs = []")
    case True
    then show ?thesis by (simp add: char_codes.simps)
  next
    case False
    obtain v n where "utf8_step bs = (v, n)" by fastforce
    with "1.IH" [OF False] False show ?thesis by (simp add: char_codes.simps [of bs])
  qed
qed

lemma concat_str_chars: "concat (str_chars s) = s"
proof -
  have "concat (str_chars s) = map char_of (concat (char_codes (map of_char s)))"
    by (simp add: str_chars_def map_concat)
  then show ?thesis by (simp add: concat_char_codes o_def)
qed

lemma str_chars_ascii: "\<forall>c \<in> set s. (of_char c :: nat) < 128 \<Longrightarrow> str_chars s = map (\<lambda>c. [c]) s"
proof (induction s)
  case Nil
  then show ?case by (simp add: str_chars_def char_codes.simps)
next
  case (Cons c s)
  then show ?case
    by (simp add: str_chars_def char_codes.simps [of "of_char c # _"] utf8_step_def)
qed

section \<open>Hexadecimal digits\<close>

definition hex_digit :: "nat \<Rightarrow> char" where
  "hex_digit n = char_of (if n < 10 then 48 + n else 87 + n)"

definition hex_digit_upper :: "nat \<Rightarrow> char" where
  "hex_digit_upper n = char_of (if n < 10 then 48 + n else 55 + n)"

text \<open>\<^verbatim>\<open>format!("{:02x}", b)\<close> of every byte.\<close>

definition hex_bytes :: "bytes \<Rightarrow> string" where
  "hex_bytes bs = concat (map (\<lambda>b. [hex_digit (unat b div 16), hex_digit (unat b mod 16)]) bs)"

lemma hex_digit_inj: "m < 16 \<Longrightarrow> n < 16 \<Longrightarrow> hex_digit m = hex_digit n \<longleftrightarrow> m = n"
proof -
  assume b: "m < 16" "n < 16"
  have "of_char (hex_digit k) = (if k < 10 then 48 + k else 87 + k)" if "k < 16" for k :: nat
    using that by (simp add: hex_digit_def)
  then have "m = n" if "hex_digit m = hex_digit n"
    using arg_cong [OF that, of "of_char :: char \<Rightarrow> nat"] b by (simp split: if_splits)
  then show ?thesis by blast
qed

lemma length_hex_bytes [simp]: "length (hex_bytes bs) = 2 * length bs"
  by (induction bs) (simp_all add: hex_bytes_def)

end
