(* ===== verification/Transfer_Error.thy ===== *)
theory Transfer_Error
  imports Rust_Text
begin

text \<open>
  The user-facing errors of \<^verbatim>\<open>crates/transfer_engine/src/error.rs\<close>, their constructors, the
  classification of internal errors, and the messages shown to users (\<^verbatim>\<open>user_message\<close> of
  \<^verbatim>\<open>lib.rs\<close>). An internal \<^verbatim>\<open>anyhow::Error\<close> is its printed text; Unicode lower-casing is an
  argument.
\<close>

type_synonym anyhow = string

datatype error_kind = PeerUnreachable | NetworkUnstable | TimeoutKind | CancelledKind | FileNotFound
  | StorageError | IncompatiblePeer | ResourceExhausted | FeatureNotSupported | ChecksumMismatch
  | InternalKind

record transfer_error =
  te_kind :: error_kind
  te_message :: string
  te_cause :: "string option"

definition transfer_error_to_string :: "transfer_error \<Rightarrow> string" where
  "transfer_error_to_string e = te_message e"

definition peer_unreachable :: "string \<Rightarrow> transfer_error" where
  "peer_unreachable d = \<lparr>te_kind = PeerUnreachable,
     te_message = ''Peer is not reachable. Make sure both devices are on the same network and the app is running. ('' @ d @ '')'',
     te_cause = Some d\<rparr>"

definition network_unstable :: "string \<Rightarrow> transfer_error" where
  "network_unstable d = \<lparr>te_kind = NetworkUnstable,
     te_message = ''Network connection is unstable. Try switching to a different network or moving closer to the hotspot.'',
     te_cause = Some d\<rparr>"

definition timeout :: "string \<Rightarrow> transfer_error" where
  "timeout d = \<lparr>te_kind = TimeoutKind,
     te_message = ''Connection timed out. The peer took too long to respond.'', te_cause = Some d\<rparr>"

definition cancelled :: "string \<Rightarrow> transfer_error" where
  "cancelled d = \<lparr>te_kind = CancelledKind, te_message = ''Transfer cancelled: '' @ d, te_cause = None\<rparr>"

definition file_not_found :: "string \<Rightarrow> transfer_error" where
  "file_not_found d = \<lparr>te_kind = FileNotFound, te_message = ''File not found: '' @ d, te_cause = None\<rparr>"

definition storage_error :: "string \<Rightarrow> transfer_error" where
  "storage_error d = \<lparr>te_kind = StorageError, te_message = ''Storage error: '' @ d, te_cause = Some d\<rparr>"

definition incompatible :: "string \<Rightarrow> transfer_error" where
  "incompatible d = \<lparr>te_kind = IncompatiblePeer, te_message = ''Peer is incompatible: '' @ d,
     te_cause = Some d\<rparr>"

definition checksum_mismatch :: "string \<Rightarrow> transfer_error" where
  "checksum_mismatch d = \<lparr>te_kind = ChecksumMismatch,
     te_message = ''File integrity check failed. The file may be corrupted.'', te_cause = Some d\<rparr>"

definition internal :: "string \<Rightarrow> transfer_error" where
  "internal d = \<lparr>te_kind = InternalKind,
     te_message = ''An unexpected error occurred. Please try again.'', te_cause = Some d\<rparr>"

lemmas error_constructors = peer_unreachable_def network_unstable_def timeout_def cancelled_def
  file_not_found_def storage_error_def incompatible_def checksum_mismatch_def internal_def

text \<open>\<^verbatim>\<open>lower.contains(...)\<close> is \<open>sublist\<close>.\<close>

definition contains_any :: "string list \<Rightarrow> string \<Rightarrow> bool" where
  "contains_any pats s \<longleftrightarrow> list_ex (\<lambda>p. sublist p s) pats"

definition from_anyhow :: "(string \<Rightarrow> string) \<Rightarrow> anyhow \<Rightarrow> transfer_error" where
  "from_anyhow lower msg =
    (let l = lower msg in
     if contains_any [''connection refused'', ''unreachable'', ''no route to host''] l then peer_unreachable msg
     else if contains_any [''timeout'', ''timed out''] l then timeout msg
     else if contains_any [''cancelled'', ''cancel''] l then cancelled msg
     else if contains_any [''not found'', ''no such file''] l then file_not_found msg
     else if contains_any [''permission denied'', ''disk full'', ''storage''] l then storage_error msg
     else if contains_any [''checksum'', ''integrity'', ''hash mismatch''] l then checksum_mismatch msg
     else if contains_any [''network'', ''connection'', ''reset'', ''broken pipe''] l then network_unstable msg
     else if contains_any [''incompatible'', ''version''] l then incompatible msg
     else internal msg)"

definition user_message :: "transfer_error \<Rightarrow> string" where
  "user_message e = (case te_kind e of
      PeerUnreachable \<Rightarrow> ''Can'' @ [CHR 0x27] @ ''t connect to the other device. Make sure both devices are on the same network.''
    | NetworkUnstable \<Rightarrow> ''Connection is unstable. Try switching to a different network.''
    | TimeoutKind \<Rightarrow> ''Connection timed out. The other device took too long to respond.''
    | CancelledKind \<Rightarrow> ''Transfer was cancelled.''
    | FileNotFound \<Rightarrow> ''File not found. Check the file path and try again.''
    | StorageError \<Rightarrow> ''Storage error. Free up space or check permissions.''
    | IncompatiblePeer \<Rightarrow> ''The other device is running an incompatible version.''
    | ResourceExhausted \<Rightarrow> ''The file is too large or system resources are exhausted.''
    | FeatureNotSupported \<Rightarrow> ''The other device doesn'' @ [CHR 0x27] @ ''t support this feature.''
    | ChecksumMismatch \<Rightarrow> ''File integrity check failed. The file may be corrupted. Try sending again.''
    | InternalKind \<Rightarrow> ''An unexpected error occurred. Please try again.'')"

section \<open>Classification\<close>

lemma contains_anyI: "p \<in> set pats \<Longrightarrow> sublist p s \<Longrightarrow> contains_any pats s"
  by (auto simp: contains_any_def list_ex_iff)

lemma from_anyhow_kinds:
  "te_kind (from_anyhow lower msg) \<notin> {ResourceExhausted, FeatureNotSupported}"
  by (simp add: from_anyhow_def Let_def error_constructors)

lemma from_anyhow_cancelled:
  assumes "sublist ''cancel'' (lower msg)"
    and "\<not> contains_any [''connection refused'', ''unreachable'', ''no route to host'', ''timeout'',
      ''timed out''] (lower msg)"
  shows "from_anyhow lower msg = cancelled msg"
  using assms by (simp add: from_anyhow_def contains_any_def Let_def)

text \<open>The kind of an error kept, and the message that the user gets: re-classifying the message of
  an error of every constructor but \<open>network_unstable\<close> and \<open>timeout\<close> may change its kind, because
  the classification looks at the whole text.\<close>

lemma reclassified_example:
  "te_kind (from_anyhow (map ascii_lower) (te_message (cancelled ''timeout waiting for approval'')))
    = TimeoutKind"
  by code_simp

end
