(* ===== verification/Handshake.thy ===== *)
theory Handshake
  imports Transfer_Error
begin

text \<open>
  Transfer options and the handshake of \<^verbatim>\<open>crates/transfer_engine\<close>: the option types of
  \<^verbatim>\<open>src/lib.rs\<close>, the transport modes of \<^verbatim>\<open>src/transport/mod.rs\<close>, transport selection
  (\<^verbatim>\<open>src/transport/selection.rs\<close>), and capability exchange and negotiation
  (\<^verbatim>\<open>src/handshake.rs\<close>).

  \<^verbatim>\<open>usize\<close> options are \<open>u64\<close>. The cargo feature \<^verbatim>\<open>quic\<close> is a boolean argument (it is off by
  default; the mode \<^verbatim>\<open>Quic\<close> exists only with it). A cancel token is a number naming the token;
  of the progress callback only its presence is kept. JSON and the TCP exchange are arguments.
\<close>

section \<open>Transport modes and options\<close>

datatype transfer_direction = Upload | Download

datatype transport_mode = TcpBuffered | TcpZeroCopy | Quic | UdpCustom

definition transport_mode_name :: "transport_mode \<Rightarrow> string" where
  "transport_mode_name m = (case m of TcpBuffered \<Rightarrow> ''tcp-buffered'' | TcpZeroCopy \<Rightarrow> ''tcp-zerocopy''
     | Quic \<Rightarrow> ''quic'' | UdpCustom \<Rightarrow> ''udp-custom'')"

definition is_reliable :: "transport_mode \<Rightarrow> bool" where
  "is_reliable m = (case m of TcpBuffered \<Rightarrow> True | TcpZeroCopy \<Rightarrow> True | Quic \<Rightarrow> True | UdpCustom \<Rightarrow> False)"

definition supports_multiplexing :: "bool \<Rightarrow> transport_mode \<Rightarrow> bool" where
  "supports_multiplexing quic m = (quic \<and> m = Quic)"

record transfer_options =
  to_parallel :: bool
  to_parallel_streams :: u64
  to_chunk_size :: u64
  to_resume :: bool
  to_zero_copy :: bool
  to_checksum :: bool
  to_compression :: bool
  to_send_buffer_kb :: u64
  to_recv_buffer_kb :: u64
  to_write_batch_size :: u64
  to_throughput_limit_mbps :: "fl option"
  to_reliable :: bool
  to_transport_mode :: transport_mode
  to_resume_offset :: u64
  to_cancel_token :: "nat option"
  to_progress_cb :: bool

definition options_default :: transfer_options where
  "options_default = \<lparr>to_parallel = False, to_parallel_streams = 1, to_chunk_size = 1048576,
     to_resume = False, to_zero_copy = False, to_checksum = True, to_compression = False,
     to_send_buffer_kb = 4096, to_recv_buffer_kb = 4096, to_write_batch_size = 4,
     to_throughput_limit_mbps = None, to_reliable = False, to_transport_mode = TcpBuffered,
     to_resume_offset = 0, to_cancel_token = None, to_progress_cb = False\<rparr>"

section \<open>Capabilities\<close>

record transport_support =
  ts_tcp :: bool
  ts_quic :: bool
  ts_udp_custom :: bool

definition transport_support_default :: "bool \<Rightarrow> transport_support" where
  "transport_support_default quic = \<lparr>ts_tcp = True, ts_quic = quic, ts_udp_custom = False\<rparr>"

record feature_flags =
  ff_parallel_upload :: bool
  ff_parallel_download :: bool
  ff_resume :: bool
  ff_compression :: bool
  ff_checksum :: bool
  ff_zero_copy :: bool
  ff_reliable :: bool

definition feature_flags_default :: feature_flags where
  "feature_flags_default = \<lparr>ff_parallel_upload = True, ff_parallel_download = False, ff_resume = True,
     ff_compression = False, ff_checksum = True, ff_zero_copy = False, ff_reliable = True\<rparr>"

record capability_limits =
  cl_max_chunk_size_bytes :: u64
  cl_min_chunk_size_bytes :: u64
  cl_max_parallel_streams :: u64
  cl_max_throughput_mbps :: "fl option"
  cl_min_throughput_mbps :: "fl option"
  cl_max_send_buffer_kb :: u64

definition capability_limits_default :: capability_limits where
  "capability_limits_default = \<lparr>cl_max_chunk_size_bytes = 2 * 1024 * 1024,
     cl_min_chunk_size_bytes = 16 * 1024, cl_max_parallel_streams = 8,
     cl_max_throughput_mbps = None, cl_min_throughput_mbps = Some (Fin 10),
     cl_max_send_buffer_kb = 8192\<rparr>"

record handshake_payload =
  hp_protocol_version :: string
  hp_node_id :: string
  hp_node_name :: string
  hp_direction :: transfer_direction
  hp_features :: feature_flags
  hp_limits :: capability_limits
  hp_transport_support :: "transport_support option"

definition build_payload ::
  "bool \<Rightarrow> string \<Rightarrow> string \<Rightarrow> transfer_direction \<Rightarrow> transfer_options \<Rightarrow> handshake_payload" where
  "build_payload quic node_id' node_name direction options =
     \<lparr>hp_protocol_version = ''0.1.0'', hp_node_id = node_id', hp_node_name = node_name,
      hp_direction = direction,
      hp_features = \<lparr>ff_parallel_upload = to_parallel options, ff_parallel_download = False,
        ff_resume = to_resume options, ff_compression = to_compression options,
        ff_checksum = to_checksum options, ff_zero_copy = to_zero_copy options,
        ff_reliable = to_reliable options\<rparr>,
      hp_limits = \<lparr>cl_max_chunk_size_bytes = 2 * 1024 * 1024, cl_min_chunk_size_bytes = 16 * 1024,
        cl_max_parallel_streams = min (max (to_parallel_streams options) 1) 8,
        cl_max_throughput_mbps = to_throughput_limit_mbps options,
        cl_min_throughput_mbps = Some (Fin 10),
        cl_max_send_buffer_kb = max (to_send_buffer_kb options) (to_recv_buffer_kb options)\<rparr>,
      hp_transport_support = Some (transport_support_default quic)\<rparr>"

section \<open>Negotiation\<close>

definition negotiate :: "handshake_payload \<Rightarrow> handshake_payload \<Rightarrow> transfer_options" where
  "negotiate local remote =
    (let ll = hp_limits local; rl = hp_limits remote; lf = hp_features local; rf = hp_features remote;
         agreed_chunk = max (min (cl_max_chunk_size_bytes rl) (cl_max_chunk_size_bytes ll))
                            (max (cl_min_chunk_size_bytes rl) (cl_min_chunk_size_bytes ll));
         agreed_parallel = min (cl_max_parallel_streams rl) (cl_max_parallel_streams ll);
         enable_parallel = (ff_parallel_upload lf \<and> ff_parallel_upload rf);
         use_reliable = (ff_reliable lf \<and> ff_reliable rf);
         limit = (case (cl_max_throughput_mbps ll, cl_max_throughput_mbps rl) of
             (Some a, Some b) \<Rightarrow> Some (fl_min a b)
           | (Some a, None) \<Rightarrow> Some a
           | (None, Some b) \<Rightarrow> Some b
           | (None, None) \<Rightarrow> None) in
     options_default\<lparr>
       to_chunk_size := agreed_chunk,
       to_parallel_streams := agreed_parallel,
       to_parallel := (enable_parallel \<and> agreed_parallel > 1),
       to_checksum := (ff_checksum lf \<and> ff_checksum rf),
       to_compression := (ff_compression lf \<and> ff_compression rf),
       to_resume := (ff_resume lf \<and> ff_resume rf),
       to_zero_copy := (ff_zero_copy lf \<and> ff_zero_copy rf),
       to_reliable := use_reliable,
       to_throughput_limit_mbps := limit,
       to_send_buffer_kb := min (cl_max_send_buffer_kb ll) (cl_max_send_buffer_kb rl),
       to_recv_buffer_kb := min (cl_max_send_buffer_kb ll) (cl_max_send_buffer_kb rl)\<rparr>)"

section \<open>Transport selection\<close>

record transport_preference =
  tpf_mode :: transport_mode
  tpf_reason :: string
  tpf_fallback_available :: bool
  tpf_fallback_mode :: "transport_mode option"

definition em_dash :: string where
  "em_dash = [CHR 0xE2, CHR 0x80, CHR 0x94]"

definition extract_transport_support :: "handshake_payload \<Rightarrow> transport_support" where
  "extract_transport_support payload =
     (case hp_transport_support payload of Some t \<Rightarrow> t
      | None \<Rightarrow> \<lparr>ts_tcp = True, ts_quic = False, ts_udp_custom = False\<rparr>)"

definition select_best_transport ::
  "bool \<Rightarrow> handshake_payload \<Rightarrow> handshake_payload \<Rightarrow> transport_preference" where
  "select_best_transport quic local remote =
    (let lt = extract_transport_support local; rt = extract_transport_support remote in
     if quic \<and> ts_quic lt \<and> ts_quic rt then
       \<lparr>tpf_mode = Quic,
        tpf_reason = ''Both peers support QUIC '' @ em_dash @ '' preferred for faster connection and loss recovery'',
        tpf_fallback_available = (ts_tcp lt \<and> ts_tcp rt),
        tpf_fallback_mode = (if ts_tcp lt \<and> ts_tcp rt then Some TcpBuffered else None)\<rparr>
     else if ts_tcp lt \<and> ts_tcp rt then
       \<lparr>tpf_mode = TcpBuffered, tpf_reason = ''TCP selected (QUIC not available on one or both peers)'',
        tpf_fallback_available = False, tpf_fallback_mode = None\<rparr>
     else
       \<lparr>tpf_mode = TcpBuffered, tpf_reason = ''TCP fallback (default)'',
        tpf_fallback_available = False, tpf_fallback_mode = None\<rparr>)"

definition fallback_on_failure :: "bool \<Rightarrow> transport_mode \<Rightarrow> transport_preference" where
  "fallback_on_failure quic failed =
     \<lparr>tpf_mode = TcpBuffered,
      tpf_reason = (if quic \<and> failed = Quic
        then ''QUIC connection failed '' @ em_dash @ '' falling back to TCP''
        else ''Transport failed '' @ em_dash @ '' using TCP''),
      tpf_fallback_available = False, tpf_fallback_mode = None\<rparr>"

section \<open>The HTTP exchange\<close>

definition crlf :: string where
  "crlf = [CHR 0x0D, CHR 0x0A]"

definition handshake_request :: "string \<Rightarrow> u16 \<Rightarrow> string \<Rightarrow> u64 \<Rightarrow> string" where
  "handshake_request host port body resume_offset =
    (let resume_header = (if resume_offset > 0
           then ''X-Resume-Offset: '' @ show_nat (unat resume_offset) @ crlf else []) in
     ''POST /api/handshake HTTP/1.1'' @ crlf
     @ ''Host: '' @ host @ '':'' @ show_nat (unat port) @ crlf
     @ ''Content-Type: application/json'' @ crlf
     @ ''Content-Length: '' @ show_nat (length body) @ crlf
     @ resume_header @ ''Connection: close'' @ crlf
     @ crlf
     @ body)"

text \<open>\<^verbatim>\<open>X-Accepted-Offset\<close>; it is only logged.\<close>

definition accepted_offset :: "(string \<Rightarrow> string) \<Rightarrow> string \<Rightarrow> nat option" where
  "accepted_offset lower resp =
    (case find (\<lambda>l. prefix ''x-accepted-offset:'' (lower l)) (str_lines resp) of
       None \<Rightarrow> None
     | Some l \<Rightarrow>
        (case str_split (CHR '':'') l of
           _ # s # _ \<Rightarrow> parse_unsigned (2 ^ 64) (trim s)
         | _ \<Rightarrow> None))"

definition handshake_response ::
  "(string \<Rightarrow> string + handshake_payload) \<Rightarrow> bytes \<Rightarrow> anyhow + handshake_payload" where
  "handshake_response de buf =
    (let resp = from_utf8_lossy buf;
         failed = Inl (''Handshake failed: '' @ (case str_lines resp of [] \<Rightarrow> ''?'' | l # _ \<Rightarrow> l)) in
     case str_find (crlf @ crlf) resp of
       None \<Rightarrow> failed
     | Some body_start \<Rightarrow>
        (let body = drop (body_start + 4) resp in
         if sublist ''200 OK'' resp then
           (case de body of
              Inr remote \<Rightarrow> Inr remote
            | Inl e \<Rightarrow> Inl (''Handshake parse error: '' @ e @ '' '' @ em_dash @ '' body: ''
                  @ concat (take 200 (str_chars body))))
         else failed))"

text \<open>\<open>exchange\<close> connects, writes the request and reads to the end of the stream.\<close>

definition perform_handshake ::
  "(handshake_payload \<Rightarrow> string + string) \<Rightarrow> (string \<Rightarrow> string + handshake_payload)
     \<Rightarrow> (string \<Rightarrow> u16 \<Rightarrow> bytes \<Rightarrow> anyhow + bytes)
     \<Rightarrow> string \<Rightarrow> u16 \<Rightarrow> handshake_payload \<Rightarrow> u64 \<Rightarrow> anyhow + handshake_payload" where
  "perform_handshake ser de exchange host port our_payload resume_offset =
     bind_res (ser our_payload) (\<lambda>body.
     bind_res (exchange host port (as_bytes (handshake_request host port body resume_offset))) (\<lambda>buf.
     handshake_response de buf))"

section \<open>Agreement\<close>

text \<open>Both sides agree: the two peers compute the same options, whichever of them is the local
  one; a feature is on only where both have it; the number of streams and the buffers stay within
  both limits; the chunk size is at least both minima, and within both maxima unless a minimum
  exceeds a maximum.\<close>

theorem negotiate_agreement:
  "negotiate l r = negotiate r l
   \<and> (to_parallel (negotiate l r) \<longrightarrow> ff_parallel_upload (hp_features l) \<and> ff_parallel_upload (hp_features r)
        \<and> 1 < to_parallel_streams (negotiate l r))
   \<and> (to_resume (negotiate l r) \<longleftrightarrow> ff_resume (hp_features l) \<and> ff_resume (hp_features r))
   \<and> (to_reliable (negotiate l r) \<longleftrightarrow> ff_reliable (hp_features l) \<and> ff_reliable (hp_features r))
   \<and> (\<forall>p \<in> {l, r}. to_parallel_streams (negotiate l r) \<le> cl_max_parallel_streams (hp_limits p)
        \<and> to_send_buffer_kb (negotiate l r) \<le> cl_max_send_buffer_kb (hp_limits p)
        \<and> cl_min_chunk_size_bytes (hp_limits p) \<le> to_chunk_size (negotiate l r)
        \<and> ((\<forall>q \<in> {l, r}. \<forall>q' \<in> {l, r}. cl_min_chunk_size_bytes (hp_limits q) \<le> cl_max_chunk_size_bytes (hp_limits q'))
             \<longrightarrow> to_chunk_size (negotiate l r) \<le> cl_max_chunk_size_bytes (hp_limits p)))"
proof (intro conjI)
  show "negotiate l r = negotiate r l"
    by (auto simp: negotiate_def Let_def min.commute max.commute fl_min_commute conj_ac
        split: option.splits)
qed (auto simp: negotiate_def Let_def le_max_iff_disj)

definition demo_hello :: handshake_payload where
  "demo_hello = build_payload False ''n'' ''Node'' Upload (options_default\<lparr>to_parallel := True, to_parallel_streams := 4\<rparr>)"

theorem negotiate_agreement_witness:
  "to_chunk_size (negotiate demo_hello demo_hello) \<le> cl_max_chunk_size_bytes (hp_limits demo_hello)
    \<and> to_chunk_size (negotiate demo_hello demo_hello) = 2097152"
proof
  have "\<forall>q \<in> {demo_hello, demo_hello}. \<forall>q' \<in> {demo_hello, demo_hello}.
      cl_min_chunk_size_bytes (hp_limits q) \<le> cl_max_chunk_size_bytes (hp_limits q')"
    by (simp add: demo_hello_def build_payload_def)
  with negotiate_agreement [of demo_hello demo_hello]
  show "to_chunk_size (negotiate demo_hello demo_hello) \<le> cl_max_chunk_size_bytes (hp_limits demo_hello)"
    by blast
  show "to_chunk_size (negotiate demo_hello demo_hello) = 2097152" by code_simp
qed

text \<open>What the local side relies on: negotiating its own payload with any remote payload gives
  a chunk size of at least 16 KiB (so the chunk tracker terminates) and at most 8 streams; but a
  remote minimum above the local maximum wins, so the chunk size has no upper bound.\<close>

theorem negotiate_local_bounds:
  "16384 \<le> to_chunk_size (negotiate (build_payload quic i n d opts) remote)
   \<and> to_parallel_streams (negotiate (build_payload quic i n d opts) remote) \<le> 8
   \<and> (cl_min_chunk_size_bytes (hp_limits remote) > 2097152 \<longrightarrow>
        to_chunk_size (negotiate (build_payload quic i n d opts) remote) = cl_min_chunk_size_bytes (hp_limits remote))"
proof (intro conjI impI)
  let ?opts = "negotiate (build_payload quic i n d opts) remote"
  show "16384 \<le> to_chunk_size ?opts" "to_parallel_streams ?opts \<le> 8"
    by (simp_all add: negotiate_def build_payload_def Let_def le_max_iff_disj min_le_iff_disj)
  let ?m = "cl_min_chunk_size_bytes (hp_limits remote)"
  assume big: "2097152 < ?m"
  have "(16384 :: u64) \<le> 2097152" by simp
  then have "16384 \<le> ?m" using big by (meson less_imp_le order.trans)
  moreover have "min (cl_max_chunk_size_bytes (hp_limits remote)) 2097152 \<le> ?m"
    using big by (meson less_imp_le min.coboundedI2)
  ultimately show "to_chunk_size ?opts = ?m"
    by (simp add: negotiate_def build_payload_def Let_def max_absorb1 max_absorb2)
qed

theorem negotiate_local_bounds_witness:
  "to_chunk_size (negotiate demo_hello
     (demo_hello\<lparr>hp_limits := capability_limits_default\<lparr>cl_min_chunk_size_bytes := 4194304\<rparr>\<rparr>)) = 4194304"
  using negotiate_local_bounds [of False "''n''" "''Node''" Upload
      "options_default\<lparr>to_parallel := True, to_parallel_streams := 4\<rparr>"
      "demo_hello\<lparr>hp_limits := capability_limits_default\<lparr>cl_min_chunk_size_bytes := 4194304\<rparr>\<rparr>"]
  by (simp add: demo_hello_def [symmetric])

lemma select_agrees: "tpf_mode (select_best_transport quic l r) = tpf_mode (select_best_transport quic r l)"
  by (auto simp: select_best_transport_def Let_def)

lemma select_quic_iff:
  "tpf_mode (select_best_transport quic l r) = Quic \<longleftrightarrow>
     quic \<and> ts_quic (extract_transport_support l) \<and> ts_quic (extract_transport_support r)"
  by (auto simp: select_best_transport_def Let_def)

lemma select_reliable: "is_reliable (tpf_mode (select_best_transport quic l r))"
  by (simp add: select_best_transport_def Let_def is_reliable_def)

text \<open>A peer that answers with the payload it got completes the handshake.\<close>

lemma handshake_response_ok:
  assumes "utf8_valid (''HTTP/1.1 200 OK'' @ crlf @ crlf @ body)" and "de body = Inr remote"
  shows "handshake_response de (as_bytes (''HTTP/1.1 200 OK'' @ crlf @ crlf @ body)) = Inr remote"
proof -
  have "str_find (crlf @ crlf) (''HTTP/1.1 200 OK'' @ crlf @ crlf @ body) = Some 15"
    by (simp add: crlf_def)
  moreover have "drop (15 + 4) (''HTTP/1.1 200 OK'' @ crlf @ crlf @ body) = body"
    by (simp add: crlf_def)
  moreover have "sublist ''200 OK'' (''HTTP/1.1 200 OK'' @ crlf @ crlf @ body)"
    unfolding sublist_def
    by (rule exI [of _ "''HTTP/1.1 ''"], rule exI [of _ "crlf @ crlf @ body"]) simp
  ultimately show ?thesis
    unfolding handshake_response_def from_utf8_lossy_as_bytes [OF assms(1)] Let_def
    using assms(2) by simp
qed

end
