(* ===== verification/Session.thy ===== *)
theory Session
  imports Handshake Frames
begin

text \<open>
  Transfer sessions: \<^verbatim>\<open>crates/transfer_engine/src/session.rs\<close> and the progress types of
  \<^verbatim>\<open>src/lib.rs\<close>: file metadata and progress, the framed negotiation messages, the session state
  machine and the session manager with its bounded history.

  Sums over \<^verbatim>\<open>u64\<close> wrap. A quotient of two floats is rounded by the argument \<open>rnd\<close>. The lock
  makes every manager method atomic; the clock is an argument.
\<close>

section \<open>Files and progress\<close>

record file_meta =
  fm_file_id :: string
  fm_name :: string
  fm_source_path :: string
  fm_size :: u64
  fm_hash :: "string option"
  fm_direction :: transfer_direction
  fm_bytes_sent :: u64
  fm_completed :: bool
  fm_error :: "string option"

definition file_meta_new ::
  "nat \<Rightarrow> string \<Rightarrow> string \<Rightarrow> u64 \<Rightarrow> transfer_direction \<Rightarrow> file_meta" where
  "file_meta_new now_nanos name source_path size' direction =
     \<lparr>fm_file_id = name @ ''-'' @ show_nat now_nanos, fm_name = name, fm_source_path = source_path,
      fm_size = size', fm_hash = None, fm_direction = direction, fm_bytes_sent = 0,
      fm_completed = False, fm_error = None\<rparr>"

definition clamp01 :: "rat \<Rightarrow> rat" where
  "clamp01 q = (if q < 0 then 0 else if q > 1 then 1 else q)"

definition fraction :: "(rat \<Rightarrow> rat) \<Rightarrow> u64 \<Rightarrow> u64 \<Rightarrow> rat" where
  "fraction rnd a b = clamp01 (rnd (rnd (of_nat (unat a)) / rnd (of_nat (unat b))))"

definition progress_fraction :: "(rat \<Rightarrow> rat) \<Rightarrow> file_meta \<Rightarrow> rat" where
  "progress_fraction rnd f = (if fm_size f = 0 then 1 else fraction rnd (fm_bytes_sent f) (fm_size f))"

record session_progress =
  spr_session_id :: string
  spr_total_bytes :: u64
  spr_bytes_transferred :: u64
  spr_files_completed :: nat
  spr_files_total :: nat
  spr_speed_mbps :: fl
  spr_files :: "file_meta list"
  spr_eta_secs :: "fl option"

definition total_size :: "file_meta list \<Rightarrow> u64" where
  "total_size files = sum_list (map fm_size files)"

definition total_sent :: "file_meta list \<Rightarrow> u64" where
  "total_sent files = sum_list (map fm_bytes_sent files)"

definition session_progress_new :: "string \<Rightarrow> file_meta list \<Rightarrow> session_progress" where
  "session_progress_new i files = \<lparr>spr_session_id = i, spr_total_bytes = total_size files,
     spr_bytes_transferred = 0, spr_files_completed = 0, spr_files_total = length files,
     spr_speed_mbps = Fin 0, spr_files = files, spr_eta_secs = None\<rparr>"

definition recompute :: "session_progress \<Rightarrow> session_progress" where
  "recompute p = p\<lparr>spr_total_bytes := total_size (spr_files p),
     spr_bytes_transferred := total_sent (spr_files p),
     spr_files_completed := length (filter fm_completed (spr_files p)),
     spr_files_total := length (spr_files p)\<rparr>"

definition sp_overall_fraction :: "(rat \<Rightarrow> rat) \<Rightarrow> session_progress \<Rightarrow> rat" where
  "sp_overall_fraction rnd p =
    (if spr_total_bytes p = 0 then (if spr_files_total p = 0 then 0 else 1)
     else fraction rnd (spr_bytes_transferred p) (spr_total_bytes p))"

definition set_file :: "string \<Rightarrow> u64 \<Rightarrow> bool \<Rightarrow> file_meta list \<Rightarrow> file_meta list" where
  "set_file file_id bytes_sent completed files =
     update_first (\<lambda>f. fm_file_id f = file_id)
       (\<lambda>f. f\<lparr>fm_bytes_sent := bytes_sent, fm_completed := completed\<rparr>) files"

definition sp_update_file :: "string \<Rightarrow> u64 \<Rightarrow> bool \<Rightarrow> session_progress \<Rightarrow> session_progress" where
  "sp_update_file file_id bytes_sent completed p =
     recompute (p\<lparr>spr_files := set_file file_id bytes_sent completed (spr_files p)\<rparr>)"

section \<open>Wire protocol\<close>

definition SESSION_MAGIC :: bytes where
  "SESSION_MAGIC = as_bytes ''XYNS''"

datatype session_msg_type = SmRequest | SmAccept | SmReject | SmProgress | SmComplete | SmFailed

fun msg_type_u8 :: "session_msg_type \<Rightarrow> u8" where
  "msg_type_u8 SmRequest = 0x10"
| "msg_type_u8 SmAccept = 0x11"
| "msg_type_u8 SmReject = 0x12"
| "msg_type_u8 SmProgress = 0x13"
| "msg_type_u8 SmComplete = 0x14"
| "msg_type_u8 SmFailed = 0x15"

definition msg_type_from_u8 :: "u8 \<Rightarrow> session_msg_type option" where
  "msg_type_from_u8 v =
    (if v = 0x10 then Some SmRequest else if v = 0x11 then Some SmAccept
     else if v = 0x12 then Some SmReject else if v = 0x13 then Some SmProgress
     else if v = 0x14 then Some SmComplete else if v = 0x15 then Some SmFailed else None)"

record session_msg_header =
  smh_msg_type :: session_msg_type
  smh_payload_len :: u32

definition encode_session_msg :: "session_msg_type \<Rightarrow> bytes \<Rightarrow> bytes" where
  "encode_session_msg ty payload =
     SESSION_MAGIC @ [0x01] @ [msg_type_u8 ty] @ to_be 4 (of_nat (length payload) :: u32) @ payload"

definition decode_session_header :: "bytes \<Rightarrow> session_msg_header option" where
  "decode_session_header buf =
    (if length buf < 10 then None
     else if take 4 buf \<noteq> SESSION_MAGIC then None
     else (case msg_type_from_u8 (buf ! 5) of
        None \<Rightarrow> None
      | Some ty \<Rightarrow> Some \<lparr>smh_msg_type = ty, smh_payload_len = from_be (take 4 (drop 6 buf))\<rparr>))"

definition read_session_msg :: "bytes \<Rightarrow> io_error + (session_msg_header \<times> bytes) \<times> bytes" where
  "read_session_msg s =
    (case read_exact_io 10 s of Inl e \<Rightarrow> Inl e | Inr (header_buf, s1) \<Rightarrow>
     (case decode_session_header header_buf of
        None \<Rightarrow> Inl (InvalidData ''invalid session header'')
      | Some header \<Rightarrow>
         (case read_exact_io (unat (smh_payload_len header)) s1 of Inl e \<Rightarrow> Inl e
          | Inr (payload, s2) \<Rightarrow> Inr ((header, payload), s2))))"

record session_request_payload =
  srq_session_id :: string
  srq_source_device_id :: string
  srq_source_device_name :: string
  srq_files :: "file_meta list"
  srq_protocol_version :: string

record session_accept_payload =
  sac_session_id :: string
  sac_target_device_id :: string
  sac_target_device_name :: string
  sac_accepted_file_ids :: "string list"
  sac_resume_offsets :: "(string, u64) hmap"

record session_reject_payload =
  srj_session_id :: string
  srj_reason :: string

section \<open>Sessions\<close>

datatype session_state = Handshaking | Negotiating | Active | SCompleted | SFailed | SCancelled

fun is_terminal :: "session_state \<Rightarrow> bool" where
  "is_terminal s = (s \<in> {SCompleted, SFailed, SCancelled})"

fun is_active :: "session_state \<Rightarrow> bool" where
  "is_active s = (s \<in> {Handshaking, Negotiating, Active})"

record transfer_progress =
  tpg_bytes_sent :: u64
  tpg_bytes_total :: u64
  tpg_speed_mbps :: fl
  tpg_files_completed :: nat
  tpg_files_total :: nat

definition progress_default :: transfer_progress where
  "progress_default = \<lparr>tpg_bytes_sent = 0, tpg_bytes_total = 0, tpg_speed_mbps = Fin 0,
     tpg_files_completed = 0, tpg_files_total = 0\<rparr>"

record transfer_session =
  ses_id :: string
  ses_peer_id :: string
  ses_peer_name :: string
  ses_state :: session_state
  ses_direction :: transfer_direction
  ses_progress :: transfer_progress
  ses_negotiated_options :: transfer_options
  ses_remote_caps_json :: "string option"
  ses_created_at :: instant
  ses_updated_at :: instant
  ses_error :: "string option"
  ses_files :: "file_meta list"
  ses_session_progress :: "session_progress option"

definition session_new ::
  "instant \<Rightarrow> string \<Rightarrow> string \<Rightarrow> string \<Rightarrow> transfer_direction \<Rightarrow> transfer_options \<Rightarrow> transfer_session" where
  "session_new now i peer_id peer_name direction options =
     \<lparr>ses_id = i, ses_peer_id = peer_id, ses_peer_name = peer_name, ses_state = Handshaking,
      ses_direction = direction, ses_progress = progress_default, ses_negotiated_options = options,
      ses_remote_caps_json = None, ses_created_at = now, ses_updated_at = now, ses_error = None,
      ses_files = [], ses_session_progress = None\<rparr>"

definition with_files :: "file_meta list \<Rightarrow> transfer_session \<Rightarrow> transfer_session" where
  "with_files files s = s\<lparr>ses_files := files,
     ses_progress := progress_default\<lparr>tpg_bytes_sent := 0, tpg_bytes_total := total_size files\<rparr>\<rparr>"

definition ses_update_file_progress ::
  "string \<Rightarrow> u64 \<Rightarrow> bool \<Rightarrow> transfer_session \<Rightarrow> transfer_session" where
  "ses_update_file_progress file_id bytes_sent completed s =
    (let files = set_file file_id bytes_sent completed (ses_files s) in
     s\<lparr>ses_files := files,
       ses_progress := (ses_progress s)
         \<lparr>tpg_bytes_sent := total_sent files, tpg_bytes_total := total_size files\<rparr>,
       ses_session_progress :=
         map_option (sp_update_file file_id bytes_sent completed) (ses_session_progress s)\<rparr>)"

definition ses_overall_fraction :: "(rat \<Rightarrow> rat) \<Rightarrow> transfer_session \<Rightarrow> rat" where
  "ses_overall_fraction rnd s =
    (if tpg_bytes_total (ses_progress s) = 0 then 1
     else fraction rnd (tpg_bytes_sent (ses_progress s)) (tpg_bytes_total (ses_progress s)))"

definition fail_file :: "string \<Rightarrow> string \<Rightarrow> transfer_session \<Rightarrow> transfer_session" where
  "fail_file file_id err s = s\<lparr>ses_files :=
     update_first (\<lambda>f. fm_file_id f = file_id) (\<lambda>f. f\<lparr>fm_error := Some err\<rparr>) (ses_files s)\<rparr>"

definition file_names :: "transfer_session \<Rightarrow> string list" where
  "file_names s = map fm_name (ses_files s)"

section \<open>Session manager\<close>

record session_manager =
  smg_active :: "(string, transfer_session) hmap"
  smg_history :: "transfer_session list"
  smg_max_history :: nat

definition session_manager_new :: "nat \<Rightarrow> session_manager" where
  "session_manager_new max_history = \<lparr>smg_active = [], smg_history = [], smg_max_history = max_history\<rparr>"

definition sm_create :: "transfer_session \<Rightarrow> session_manager \<Rightarrow> session_manager" where
  "sm_create s m = m\<lparr>smg_active := hm_insert (ses_id s) s (smg_active m)\<rparr>"

definition sm_get :: "session_manager \<Rightarrow> string \<Rightarrow> transfer_session option" where
  "sm_get m i = (case hm_get (smg_active m) i of
     Some s \<Rightarrow> Some s | None \<Rightarrow> find (\<lambda>s. ses_id s = i) (smg_history m))"

fun valid_transition :: "session_state \<Rightarrow> session_state \<Rightarrow> bool" where
  "valid_transition Handshaking Negotiating = True"
| "valid_transition Negotiating Active = True"
| "valid_transition Active SCompleted = True"
| "valid_transition Active SFailed = True"
| "valid_transition Active SCancelled = True"
| "valid_transition Handshaking SFailed = True"
| "valid_transition Negotiating SFailed = True"
| "valid_transition Handshaking SCancelled = True"
| "valid_transition Negotiating SCancelled = True"
| "valid_transition _ _ = False"

definition push_history :: "transfer_session \<Rightarrow> session_manager \<Rightarrow> session_manager" where
  "push_history s m = m\<lparr>smg_history := trim_front (smg_max_history m) (smg_history m @ [s])\<rparr>"

definition update_state ::
  "instant \<Rightarrow> string \<Rightarrow> session_state \<Rightarrow> string option \<Rightarrow> session_manager \<Rightarrow> bool \<times> session_manager" where
  "update_state now i st err m =
    (case hm_get (smg_active m) i of
       None \<Rightarrow> (False, m)
     | Some s \<Rightarrow>
        if \<not> valid_transition (ses_state s) st then (False, m)
        else
          (let s' = s\<lparr>ses_state := st, ses_updated_at := now, ses_error := err\<rparr>;
               m1 = m\<lparr>smg_active := hm_insert i s' (smg_active m)\<rparr> in
           (True, if is_terminal st
                  then push_history s' (m1\<lparr>smg_active := hm_remove i (smg_active m1)\<rparr>)
                  else m1)))"

definition sm_modify :: "string \<Rightarrow> (transfer_session \<Rightarrow> transfer_session) \<Rightarrow> session_manager \<Rightarrow> session_manager" where
  "sm_modify i f m = m\<lparr>smg_active := hm_modify i f (smg_active m)\<rparr>"

definition update_progress :: "instant \<Rightarrow> string \<Rightarrow> transfer_progress \<Rightarrow> session_manager \<Rightarrow> session_manager" where
  "update_progress now i p = sm_modify i (\<lambda>s. s\<lparr>ses_progress := p, ses_updated_at := now\<rparr>)"

definition set_remote_caps :: "instant \<Rightarrow> string \<Rightarrow> string \<Rightarrow> session_manager \<Rightarrow> session_manager" where
  "set_remote_caps now i caps =
     sm_modify i (\<lambda>s. s\<lparr>ses_remote_caps_json := Some caps, ses_updated_at := now\<rparr>)"

definition list_active :: "session_manager \<Rightarrow> transfer_session list" where
  "list_active m = hm_values (smg_active m)"

definition list_history :: "session_manager \<Rightarrow> transfer_session list" where
  "list_history m = smg_history m"

definition for_peer :: "string \<Rightarrow> session_manager \<Rightarrow> transfer_session list" where
  "for_peer peer_id m = filter (\<lambda>s. ses_peer_id s = peer_id) (hm_values (smg_active m))
     @ filter (\<lambda>s. ses_peer_id s = peer_id) (smg_history m)"

definition sm_update_file_progress ::
  "instant \<Rightarrow> string \<Rightarrow> string \<Rightarrow> u64 \<Rightarrow> bool \<Rightarrow> session_manager \<Rightarrow> session_manager" where
  "sm_update_file_progress now i file_id bytes_sent completed =
     sm_modify i (\<lambda>s. (ses_update_file_progress file_id bytes_sent completed s)\<lparr>ses_updated_at := now\<rparr>)"

definition set_files :: "instant \<Rightarrow> string \<Rightarrow> file_meta list \<Rightarrow> session_manager \<Rightarrow> session_manager" where
  "set_files now i files =
     sm_modify i (\<lambda>s. (with_files files s)\<lparr>ses_updated_at := now\<rparr>)"

definition sm_session_progress :: "string \<Rightarrow> session_manager \<Rightarrow> session_progress option" where
  "sm_session_progress i m =
     map_option (\<lambda>s. recompute (session_progress_new (ses_id s) (ses_files s))) (hm_get (smg_active m) i)"

section \<open>Messages on the wire\<close>

lemma msg_type_from_to [simp]: "msg_type_from_u8 (msg_type_u8 ty) = Some ty"
  by (cases ty) (simp_all add: msg_type_from_u8_def)

lemma length_session_magic [simp]: "length SESSION_MAGIC = 4"
  by (simp add: SESSION_MAGIC_def)

text \<open>A message with an arbitrary version byte in its header.\<close>

definition session_bytes :: "u8 \<Rightarrow> session_msg_type \<Rightarrow> bytes \<Rightarrow> bytes" where
  "session_bytes version ty payload =
     SESSION_MAGIC @ [version] @ [msg_type_u8 ty] @ to_be 4 (of_nat (length payload) :: u32) @ payload"

lemma encode_session_bytes: "encode_session_msg ty payload = session_bytes 1 ty payload"
  by (simp add: encode_session_msg_def session_bytes_def)

definition session_view :: "session_msg_type \<times> bytes \<Rightarrow> session_msg_header \<times> bytes" where
  "session_view m = (\<lparr>smh_msg_type = fst m, smh_payload_len = of_nat (length (snd m))\<rparr>, snd m)"

lemma read_session_bytes:
  assumes "length payload < 2 ^ 32"
  shows "read_session_msg (session_bytes version ty payload @ rest) = Inr (session_view (ty, payload), rest)"
proof -
  let ?h = "SESSION_MAGIC @ [version] @ [msg_type_u8 ty] @ to_be 4 (of_nat (length payload) :: u32)"
  have len: "length ?h = 10" by simp
  have dec: "decode_session_header ?h =
      Some \<lparr>smh_msg_type = ty, smh_payload_len = of_nat (length payload)\<rparr>"
    by (simp add: decode_session_header_def nth_append)
  have "unat (of_nat (length payload) :: u32) = length payload" using assms by (simp add: unat_of_nat)
  then show ?thesis
    using read_exact_io_append [OF len, of "payload @ rest"] dec
    by (simp add: read_session_msg_def session_bytes_def session_view_def)
qed

definition read_session_opt :: "bytes \<Rightarrow> ((session_msg_header \<times> bytes) \<times> bytes) option" where
  "read_session_opt s = (case read_session_msg s of Inl _ \<Rightarrow> None | Inr r \<Rightarrow> Some r)"

interpretation sw: framed_codec "\<lambda>(ty, payload). encode_session_msg ty payload" read_session_opt
  "\<lambda>(ty, payload). length payload < 2 ^ 32" session_view
proof unfold_locales
  fix m :: "session_msg_type \<times> bytes" and rest
  assume "case m of (ty, payload) \<Rightarrow> length payload < 2 ^ 32"
  then show "read_session_opt ((case m of (ty, payload) \<Rightarrow> encode_session_msg ty payload) @ rest) =
      Some (session_view m, rest)"
    by (cases m) (simp add: read_session_opt_def encode_session_bytes read_session_bytes)
qed (simp add: read_session_opt_def read_session_msg_def read_exact_io_def read_exact_def)

text \<open>Session messages: negotiation messages with payloads below 4 GiB written one after the
  other are read back in order, each with its type and its payload, with nothing left over. The
  version byte of the header is not checked: a message with any other version reads the same.\<close>

theorem session_messages_roundtrip:
  assumes "list_all (\<lambda>(ty, payload). length payload < 2 ^ 32) ms"
  shows "decode_many (length ms) read_session_opt (concat (map (\<lambda>(ty, payload). encode_session_msg ty payload) ms))
      = (map session_view ms, [])
    \<and> (\<forall>(ty, payload) \<in> set ms. \<forall>v rest. read_session_msg (session_bytes v ty payload @ rest) =
        read_session_msg (encode_session_msg ty payload @ rest))"
proof
  show "decode_many (length ms) read_session_opt (concat (map (\<lambda>(ty, payload). encode_session_msg ty payload) ms))
      = (map session_view ms, [])"
    by (rule sw.decode_many_stream [OF assms order_refl])
qed (use assms in \<open>auto simp: list_all_iff encode_session_bytes read_session_bytes\<close>)

theorem session_messages_roundtrip_witness:
  "decode_many (length [(SmRequest, [1, 2 :: u8]), (SmAccept, [])]) read_session_opt
     (concat (map (\<lambda>(ty, payload). encode_session_msg ty payload) [(SmRequest, [1, 2]), (SmAccept, [])])) =
   (map session_view [(SmRequest, [1, 2]), (SmAccept, [])], [])"
  by (rule conjunct1 [OF session_messages_roundtrip]) simp

section \<open>The lifecycle\<close>

fun state_rank :: "session_state \<Rightarrow> nat" where
  "state_rank Handshaking = 0"
| "state_rank Negotiating = 1"
| "state_rank Active = 2"
| "state_rank SCompleted = 3"
| "state_rank SFailed = 4"
| "state_rank SCancelled = 5"

lemma state_rank_inj: "state_rank a = state_rank b \<longleftrightarrow> a = b"
  by (cases a; cases b) simp_all

instantiation session_state :: linorder
begin

definition less_eq_session_state :: "session_state \<Rightarrow> session_state \<Rightarrow> bool" where
  "less_eq_session_state a b \<longleftrightarrow> state_rank a \<le> state_rank b"

definition less_session_state :: "session_state \<Rightarrow> session_state \<Rightarrow> bool" where
  "less_session_state a b \<longleftrightarrow> state_rank a < state_rank b"

instance
  by standard (auto simp: less_eq_session_state_def less_session_state_def state_rank_inj)

end

lemma valid_transition_increases: "valid_transition a b \<Longrightarrow> a < b \<and> is_active a"
  by (induction a b rule: valid_transition.induct) (simp_all add: less_session_state_def)

lemma valid_transition_iff:
  "valid_transition a b \<longleftrightarrow> is_active a \<and> (is_terminal b \<and> (b = SCompleted \<longrightarrow> a = Active)
     \<or> (a, b) \<in> {(Handshaking, Negotiating), (Negotiating, Active)})"
  by (cases a; cases b) simp_all

interpretation hist: bounded_log smg_history push_history smg_max_history
  by unfold_locales (simp_all add: push_history_def trim_front_drop)

text \<open>The operations that change the manager, and the sessions they finish.\<close>

datatype sm_op =
    SmCreate transfer_session
  | SmState instant string session_state "string option"
  | SmUpdateProgress instant string transfer_progress
  | SmCaps instant string string
  | SmFileProgress instant string string u64 bool
  | SmFiles instant string "file_meta list"

fun sm_apply :: "sm_op \<Rightarrow> session_manager \<Rightarrow> session_manager" where
  "sm_apply (SmCreate s) m = sm_create s m"
| "sm_apply (SmState now i st err) m = snd (update_state now i st err m)"
| "sm_apply (SmUpdateProgress now i p) m = update_progress now i p m"
| "sm_apply (SmCaps now i caps) m = set_remote_caps now i caps m"
| "sm_apply (SmFileProgress now i f b c) m = sm_update_file_progress now i f b c m"
| "sm_apply (SmFiles now i fs) m = set_files now i fs m"

fun finished_by :: "sm_op \<Rightarrow> session_manager \<Rightarrow> transfer_session list" where
  "finished_by (SmState now i st err) m =
    (case hm_get (smg_active m) i of
       None \<Rightarrow> []
     | Some s \<Rightarrow> if valid_transition (ses_state s) st \<and> is_terminal st
         then [s\<lparr>ses_state := st, ses_updated_at := now, ses_error := err\<rparr>] else [])"
| "finished_by _ m = []"

fun finished :: "sm_op list \<Rightarrow> session_manager \<Rightarrow> transfer_session list" where
  "finished [] m = []"
| "finished (x # xs) m = finished_by x m @ finished xs (sm_apply x m)"

definition sm_wf :: "session_manager \<Rightarrow> bool" where
  "sm_wf m \<longleftrightarrow> hm_wf (smg_active m)
     \<and> (\<forall>i s. hm_get (smg_active m) i = Some s \<longrightarrow> ses_id s = i \<and> is_active (ses_state s))
     \<and> (\<forall>s \<in> set (smg_history m). is_terminal (ses_state s))
     \<and> length (smg_history m) \<le> smg_max_history m"

fun op_ok :: "sm_op \<Rightarrow> bool" where
  "op_ok (SmCreate s) \<longleftrightarrow> is_active (ses_state s)"
| "op_ok _ \<longleftrightarrow> True"

lemma sm_wf_modify:
  assumes "sm_wf m" and "\<And>s. ses_id (f s) = ses_id s \<and> ses_state (f s) = ses_state s"
  shows "sm_wf (sm_modify i f m)"
  using assms by (auto simp: sm_wf_def sm_modify_def simp del: is_active.simps is_terminal.simps)

lemma active_not_terminal: "is_active s \<longleftrightarrow> \<not> is_terminal s"
  by (cases s) simp_all

lemma smg_active_push [simp]: "smg_active (push_history s m) = smg_active m"
  by (simp add: push_history_def)

lemma set_history_push: "set (smg_history (push_history s m)) \<subseteq> insert s (set (smg_history m))"
  using set_drop_subset [of "length (smg_history m @ [s]) - smg_max_history m" "smg_history m @ [s]"]
  unfolding hist.entries_push by auto

lemma sm_wf_update_state:
  assumes "sm_wf m"
  shows "sm_wf (snd (update_state now i st err m))"
proof (cases "\<exists>s. hm_get (smg_active m) i = Some s \<and> valid_transition (ses_state s) st")
  case False
  with assms show ?thesis by (auto simp: update_state_def split: option.splits)
next
  case True
  then obtain s where s: "hm_get (smg_active m) i = Some s" "valid_transition (ses_state s) st" by auto
  let ?s = "s\<lparr>ses_state := st, ses_updated_at := now, ses_error := err\<rparr>"
  have wf: "hm_wf (smg_active m)" "ses_id s = i"
    "\<And>j u. hm_get (smg_active m) j = Some u \<Longrightarrow> ses_id u = j \<and> is_active (ses_state u)"
    "\<And>u. u \<in> set (smg_history m) \<Longrightarrow> is_terminal (ses_state u)"
    using assms s(1) by (auto simp: sm_wf_def)
  show ?thesis
  proof (cases "is_terminal st")
    case True
    let ?m = "m\<lparr>smg_active := hm_remove i (hm_insert i ?s (smg_active m))\<rparr>"
    have "snd (update_state now i st err m) = push_history ?s ?m"
      using s True by (simp add: update_state_def Let_def)
    moreover have "is_terminal (ses_state u)" if "u \<in> set (smg_history (push_history ?s ?m))" for u
      using subsetD [OF set_history_push that] True wf(4) by auto
    moreover have "length (smg_history (push_history ?s ?m)) \<le> smg_max_history (push_history ?s ?m)"
      using hist.push_bounded [of ?s ?m] by (simp add: hist.cap_push)
    ultimately show ?thesis using wf(1,3) by (simp add: sm_wf_def)
  next
    case False
    with s wf assms show ?thesis
      by (auto simp: update_state_def Let_def sm_wf_def active_not_terminal simp del: is_active.simps is_terminal.simps)
  qed
qed

lemma sm_wf_apply: "sm_wf m \<Longrightarrow> op_ok x \<Longrightarrow> sm_wf (sm_apply x m)"
proof (cases x)
  case (SmCreate s)
  moreover assume "sm_wf m" "op_ok x"
  ultimately show ?thesis by (auto simp: sm_wf_def sm_create_def)
next
  case (SmState now i st err)
  moreover assume "sm_wf m"
  ultimately show ?thesis by (simp add: sm_wf_update_state)
qed (auto intro!: sm_wf_modify simp: update_progress_def set_remote_caps_def sm_update_file_progress_def
    set_files_def ses_update_file_progress_def with_files_def Let_def)


lemma sm_apply_cap: "smg_max_history (sm_apply x m) = smg_max_history m"
  by (cases x) (auto simp: sm_create_def update_state_def Let_def push_history_def update_progress_def
      set_remote_caps_def sm_update_file_progress_def set_files_def sm_modify_def split: option.splits)

lemma sm_apply_history:
  "smg_history (sm_apply x m) = smg_history (foldl (\<lambda>m s. push_history s m) m (finished_by x m))"
  by (cases x) (auto simp: sm_create_def update_state_def Let_def push_history_def update_progress_def
      set_remote_caps_def sm_update_file_progress_def set_files_def sm_modify_def split: option.splits)

lemma history_pushes:
  assumes "length (smg_history m) \<le> smg_max_history m"
  shows "smg_history (foldl (\<lambda>m s. push_history s m) m ss) =
    drop (length (smg_history m @ ss) - smg_max_history m) (smg_history m @ ss)"
  using hist.pushes_suffix [OF assms] by simp

lemma drop_drop_append:
  "drop (length (drop (length as - n) as @ bs) - n) (drop (length as - n) as @ bs) =
    drop (length (as @ bs) - n) (as @ bs)"
proof (cases "length as \<le> n")
  case False
  have "drop (length (as @ bs) - n) (as @ bs) = drop (length bs) (drop (length as - n) (as @ bs))"
    using False by (simp add: drop_drop add.commute)
  with False show ?thesis by simp
qed simp

lemma history_fold:
  assumes "sm_wf m" and "list_all op_ok ops"
  shows "smg_history (fold sm_apply ops m) =
    drop (length (smg_history m @ finished ops m) - smg_max_history m) (smg_history m @ finished ops m)"
  using assms
proof (induction ops arbitrary: m)
  case Nil
  then show ?case by (simp add: sm_wf_def)
next
  case (Cons x ops)
  then have wf: "sm_wf (sm_apply x m)" and le: "length (smg_history m) \<le> smg_max_history m"
    by (auto simp: sm_wf_apply) (simp add: sm_wf_def)
  have h: "smg_history (sm_apply x m) = drop (length (smg_history m @ finished_by x m) - smg_max_history m)
      (smg_history m @ finished_by x m)"
    by (simp only: sm_apply_history history_pushes [OF le])
  have "smg_history (fold sm_apply (x # ops) m) =
      drop (length (smg_history (sm_apply x m) @ finished ops (sm_apply x m)) - smg_max_history m)
        (smg_history (sm_apply x m) @ finished ops (sm_apply x m))"
    using Cons.IH [OF wf] Cons.prems(2) by (simp add: sm_apply_cap)
  then show ?case
    unfolding h using drop_drop_append [of "smg_history m @ finished_by x m"] by simp
qed

lemma sm_wf_fold: "sm_wf m \<Longrightarrow> list_all op_ok ops \<Longrightarrow> sm_wf (fold sm_apply ops m)"
  by (induction ops arbitrary: m) (simp_all add: sm_wf_apply)

lemma sm_wf_new: "sm_wf (session_manager_new n)"
  by (simp add: sm_wf_def session_manager_new_def)

text \<open>C8. The manager's invariant: after any sequence of operations that creates sessions in an
  active state, every session in the active map is filed under its own identifier and in an active
  state, every session in the history is in a terminal state, and the history is exactly the last
  \<^verbatim>\<open>max_history\<close> of the sessions finished so far, in the order in which they finished.\<close>

theorem manager_invariant:
  assumes "list_all op_ok ops"
  shows "(\<forall>i s. hm_get (smg_active (fold sm_apply ops (session_manager_new n))) i = Some s \<longrightarrow>
        ses_id s = i \<and> is_active (ses_state s))
    \<and> (\<forall>s \<in> set (smg_history (fold sm_apply ops (session_manager_new n))). is_terminal (ses_state s))
    \<and> smg_history (fold sm_apply ops (session_manager_new n)) =
        drop (length (finished ops (session_manager_new n)) - n) (finished ops (session_manager_new n))"
  using sm_wf_fold [OF sm_wf_new [of n] assms] history_fold [OF sm_wf_new [of n] assms]
  by (simp add: sm_wf_def session_manager_new_def del: is_active.simps is_terminal.simps)

definition demo_session :: transfer_session where
  "demo_session = session_new 0 ''s1'' ''p'' ''Peer'' Upload options_default"

definition demo_sm_ops :: "sm_op list" where
  "demo_sm_ops = [SmCreate demo_session, SmState 1 ''s1'' Negotiating None, SmState 2 ''s1'' Active None,
     SmState 3 ''s1'' SCompleted None]"

theorem manager_invariant_witness:
  "smg_history (fold sm_apply demo_sm_ops (session_manager_new 2)) = finished demo_sm_ops (session_manager_new 2)
    \<and> length (finished demo_sm_ops (session_manager_new 2)) = 1"
proof -
  have ok: "list_all op_ok demo_sm_ops" by (simp add: demo_sm_ops_def demo_session_def session_new_def)
  have one: "length (finished demo_sm_ops (session_manager_new 2)) = 1" by code_simp
  with manager_invariant [OF ok, of 2] show ?thesis by simp
qed

text \<open>One state update: it succeeds exactly for a session in the active map and a legal
  transition; then the state strictly advances, other sessions are untouched, and where the new state
  is terminal the session leaves the active map and no later update of it succeeds; an illegal
  update changes nothing.\<close>

theorem update_state_spec:
  assumes "update_state now i st err m = (ok, m')"
  shows "(ok \<longleftrightarrow> (\<exists>s. hm_get (smg_active m) i = Some s \<and> valid_transition (ses_state s) st))
    \<and> (\<not> ok \<longrightarrow> m' = m)
    \<and> (\<forall>j. j \<noteq> i \<longrightarrow> hm_get (smg_active m') j = hm_get (smg_active m) j)
    \<and> (\<forall>s. ok \<and> hm_get (smg_active m) i = Some s \<longrightarrow> ses_state s < st
        \<and> hm_get (smg_active m') i = (if is_terminal st then None
            else Some (s\<lparr>ses_state := st, ses_updated_at := now, ses_error := err\<rparr>)))
    \<and> (ok \<and> is_terminal st \<longrightarrow> fst (update_state now' i st' err' m') = False)"
  using assms valid_transition_increases
  by (auto simp: update_state_def Let_def split: option.splits if_splits simp del: is_active.simps is_terminal.simps)

theorem update_state_spec_witness:
  "fst (update_state 3 ''s1'' SFailed None (sm_create demo_session (session_manager_new 2)))
   \<and> \<not> fst (update_state 3 ''s1'' Active None (sm_create demo_session (session_manager_new 2)))"
  using update_state_spec [of 3 "''s1''" SFailed None "sm_create demo_session (session_manager_new 2)"
      "fst (update_state 3 ''s1'' SFailed None (sm_create demo_session (session_manager_new 2)))"
      "snd (update_state 3 ''s1'' SFailed None (sm_create demo_session (session_manager_new 2)))"]
    update_state_spec [of 3 "''s1''" Active None "sm_create demo_session (session_manager_new 2)"
      "fst (update_state 3 ''s1'' Active None (sm_create demo_session (session_manager_new 2)))"
      "snd (update_state 3 ''s1'' Active None (sm_create demo_session (session_manager_new 2)))"]
  by (simp add: sm_create_def session_manager_new_def demo_session_def session_new_def)

section \<open>Progress\<close>

lemma set_file_keeps: "map fm_size (set_file f b c files) = map fm_size files"
  "map fm_file_id (set_file f b c files) = map fm_file_id files"
  unfolding set_file_def by (rule map_update_first, simp)+

definition files_bounded :: "file_meta list \<Rightarrow> bool" where
  "files_bounded files \<longleftrightarrow> sum_list (map (unat \<circ> fm_size) files) < 2 ^ 64
     \<and> (\<forall>f \<in> set files. unat (fm_bytes_sent f) \<le> unat (fm_size f))"

lemma unat_sum_bytes:
  "sum_list (map (unat \<circ> g) files) < 2 ^ 64 \<Longrightarrow>
   unat (sum_list (map g files) :: u64) = sum_list (map (unat \<circ> g) files)"
proof (induction files)
  case (Cons f files)
  then show ?case by (simp add: unat_word_ariths)
qed simp

lemma sum_sent_le:
  "\<forall>f \<in> set files. unat (fm_bytes_sent f) \<le> unat (fm_size f) \<Longrightarrow>
   sum_list (map (unat \<circ> fm_bytes_sent) files) \<le> sum_list (map (unat \<circ> fm_size) files)"
  by (induction files) auto

text \<open>Aggregated progress: updating a file of a session recomputes the session's progress to the
  sums over its files, keeps the sizes and identifiers, and, as long as no file exceeds its size and
  the sizes do not overflow, never reports more bytes than the total, and reports the total exactly
  when every file is sent in full.\<close>

theorem file_progress_consistent:
  assumes "s' = ses_update_file_progress f b c s" and "files_bounded (ses_files s')"
  shows "tpg_bytes_sent (ses_progress s') = total_sent (ses_files s')
    \<and> tpg_bytes_total (ses_progress s') = total_size (ses_files s)
    \<and> map fm_file_id (ses_files s') = map fm_file_id (ses_files s)
    \<and> unat (tpg_bytes_sent (ses_progress s')) \<le> unat (tpg_bytes_total (ses_progress s'))
    \<and> (tpg_bytes_sent (ses_progress s') = tpg_bytes_total (ses_progress s') \<longleftrightarrow>
        (\<forall>g \<in> set (ses_files s'). fm_bytes_sent g = fm_size g))"
proof -
  let ?fs = "ses_files s'"
  have total: "total_size ?fs = total_size (ses_files s)"
    using assms(1) by (simp add: ses_update_file_progress_def total_size_def set_file_keeps Let_def)
  have le: "sum_list (map (unat \<circ> fm_bytes_sent) ?fs) \<le> sum_list (map (unat \<circ> fm_size) ?fs)"
    using assms(2) by (intro sum_sent_le) (simp add: files_bounded_def)
  have sz: "unat (total_size ?fs) = sum_list (map (unat \<circ> fm_size) ?fs)"
    using assms(2) unat_sum_bytes [of fm_size ?fs] by (simp add: total_size_def files_bounded_def)
  have sent: "unat (total_sent ?fs) = sum_list (map (unat \<circ> fm_bytes_sent) ?fs)"
    using assms(2) le unat_sum_bytes [of fm_bytes_sent ?fs] by (simp add: total_sent_def files_bounded_def)
  have eq: "sum_list (map (unat \<circ> fm_bytes_sent) fs) = sum_list (map (unat \<circ> fm_size) fs) \<longleftrightarrow>
      (\<forall>g \<in> set fs. fm_bytes_sent g = fm_size g)"
    if "\<forall>g \<in> set fs. unat (fm_bytes_sent g) \<le> unat (fm_size g)" for fs
    using that
  proof (induction fs)
    case (Cons g fs)
    have add: "x + y = x' + y' \<longleftrightarrow> x = x' \<and> y = y'" if "x \<le> x'" "y \<le> y'" for x y x' y' :: nat
      using that by auto
    have word: "unat x = unat y \<longleftrightarrow> x = y" for x y :: u64 using unsigned_word_eqI by blast
    have "unat (fm_bytes_sent g) \<le> unat (fm_size g)" "sum_list (map (unat \<circ> fm_bytes_sent) fs) \<le>
        sum_list (map (unat \<circ> fm_size) fs)" using Cons.prems sum_sent_le [of fs] by auto
    from add [OF this] Cons word show ?case by (simp add: o_def)
  qed simp
  have "total_sent ?fs = total_size ?fs \<longleftrightarrow> (\<forall>g \<in> set ?fs. fm_bytes_sent g = fm_size g)"
    using eq [of ?fs] assms(2) sz sent by (metis files_bounded_def unsigned_word_eqI)
  with total le sz sent assms(1) show ?thesis
    by (simp add: ses_update_file_progress_def Let_def set_file_keeps)
qed

definition demo_file :: file_meta where
  "demo_file = \<lparr>fm_file_id = ''f'', fm_name = ''a'', fm_source_path = ''/a'', fm_size = 10, fm_hash = None,
     fm_direction = Upload, fm_bytes_sent = 0, fm_completed = False, fm_error = None\<rparr>"

theorem file_progress_consistent_witness:
  "unat (tpg_bytes_sent (ses_progress (ses_update_file_progress ''f'' 4 False (with_files [demo_file] demo_session))))
    \<le> unat (tpg_bytes_total (ses_progress (ses_update_file_progress ''f'' 4 False (with_files [demo_file] demo_session))))"
proof -
  have "files_bounded (ses_files (ses_update_file_progress ''f'' 4 False (with_files [demo_file] demo_session)))"
    by (simp add: files_bounded_def ses_update_file_progress_def with_files_def set_file_def demo_file_def Let_def)
  from file_progress_consistent [OF refl this] show ?thesis by blast
qed

end
