(* ===== verification/Peer.thy ===== *)
theory Peer
  imports Prelude
begin

text \<open>
  The peer registry of \<^verbatim>\<open>crates/transfer_engine/src/peer.rs\<close>: registration, expiry, trust marks.
  The lock makes every method atomic; \<^verbatim>\<open>Instant::now()\<close> is an argument.
\<close>

record peer_info =
  pi_id :: string
  pi_name :: string
  pi_address :: string
  pi_platform :: string
  pi_method :: string
  pi_last_seen :: instant
  pi_trusted :: bool
  pi_version :: string

definition peer_new :: "instant \<Rightarrow> string \<Rightarrow> string \<Rightarrow> string \<Rightarrow> peer_info" where
  "peer_new now i name address = \<lparr>pi_id = i, pi_name = name, pi_address = address, pi_platform = [],
     pi_method = [], pi_last_seen = now, pi_trusted = False, pi_version = []\<rparr>"

record peer_manager =
  pm_peers :: "(string, peer_info) hmap"
  pm_expiry :: duration

definition peer_manager_new :: "duration \<Rightarrow> peer_manager" where
  "peer_manager_new expiry = \<lparr>pm_peers = [], pm_expiry = expiry\<rparr>"

definition peer_register :: "peer_info \<Rightarrow> peer_manager \<Rightarrow> peer_manager" where
  "peer_register p m = m\<lparr>pm_peers := hm_insert (pi_id p) p (pm_peers m)\<rparr>"

definition peer_remove :: "string \<Rightarrow> peer_manager \<Rightarrow> peer_manager" where
  "peer_remove i m = m\<lparr>pm_peers := hm_remove i (pm_peers m)\<rparr>"

definition peer_get :: "peer_manager \<Rightarrow> string \<Rightarrow> peer_info option" where
  "peer_get m i = hm_get (pm_peers m) i"

definition alive :: "instant \<Rightarrow> duration \<Rightarrow> peer_info \<Rightarrow> bool" where
  "alive now expiry p \<longleftrightarrow> now - pi_last_seen p < expiry"

definition list_alive :: "instant \<Rightarrow> peer_manager \<Rightarrow> peer_info list" where
  "list_alive now m = filter (alive now (pm_expiry m)) (hm_values (pm_peers m))"

definition list_all_peers :: "peer_manager \<Rightarrow> peer_info list" where
  "list_all_peers m = hm_values (pm_peers m)"

definition reap_expired :: "instant \<Rightarrow> peer_manager \<Rightarrow> nat \<times> peer_manager" where
  "reap_expired now m =
    (let before = length (pm_peers m);
         kept = hm_retain (\<lambda>_ p. alive now (pm_expiry m) p) (pm_peers m) in
     (before - length kept, m\<lparr>pm_peers := kept\<rparr>))"

definition peer_touch :: "instant \<Rightarrow> string \<Rightarrow> peer_manager \<Rightarrow> peer_manager" where
  "peer_touch now i m = m\<lparr>pm_peers := hm_modify i (\<lambda>p. p\<lparr>pi_last_seen := now\<rparr>) (pm_peers m)\<rparr>"

definition set_trusted :: "string \<Rightarrow> bool \<Rightarrow> peer_manager \<Rightarrow> peer_manager" where
  "set_trusted i b m = m\<lparr>pm_peers := hm_modify i (\<lambda>p. p\<lparr>pi_trusted := b\<rparr>) (pm_peers m)\<rparr>"

definition peer_count :: "peer_manager \<Rightarrow> nat" where
  "peer_count m = length (pm_peers m)"

section \<open>Laws\<close>

lemmas peer_defs = peer_register_def peer_remove_def peer_get_def reap_expired_def peer_touch_def
  set_trusted_def list_alive_def list_all_peers_def

interpretation ps: keyed_store peer_get peer_register peer_remove pi_id
  by unfold_locales (simp_all add: peer_defs)

definition peers_wf :: "peer_manager \<Rightarrow> bool" where
  "peers_wf m \<longleftrightarrow> hm_wf (pm_peers m) \<and> (\<forall>i p. peer_get m i = Some p \<longrightarrow> pi_id p = i)"

lemma peers_wf_ops:
  "peers_wf (peer_manager_new expiry)"
  "peers_wf m \<Longrightarrow> peers_wf (peer_register p m)"
  "peers_wf m \<Longrightarrow> peers_wf (peer_remove i m)"
  "peers_wf m \<Longrightarrow> peers_wf (peer_touch now i m)"
  "peers_wf m \<Longrightarrow> peers_wf (set_trusted i b m)"
  by (auto simp: peers_wf_def peer_manager_new_def peer_defs split: if_splits)

lemma reap_get:
  assumes "hm_wf (pm_peers m)"
  shows "peer_get (snd (reap_expired now m)) i =
    (case peer_get m i of Some p \<Rightarrow> if alive now (pm_expiry m) p then Some p else None | None \<Rightarrow> None)"
  using assms by (simp add: reap_expired_def peer_get_def Let_def hm_get_retain split: option.splits)

lemma peers_wf_reap: "peers_wf m \<Longrightarrow> peers_wf (snd (reap_expired now m))"
  unfolding peers_wf_def
  by (auto simp: reap_get split: option.splits if_splits) (simp add: reap_expired_def Let_def)

lemma hm_values_retain: "hm_values (hm_retain (\<lambda>_ v. q v) m) = filter q (hm_values m)"
  by (induction m) (auto simp: hm_values_def hm_retain_def)

text \<open>Expiry: reaping keeps exactly the peers seen less than the expiry ago, with their
  entries unchanged, reports how many it removed, and leaves nothing but the alive peers; registering
  a peer again replaces its entry without a duplicate, and touching it makes it alive.\<close>

theorem reap_exact:
  assumes "peers_wf m" and "reap_expired now m = (n, m')"
  shows "peer_get m' i = (case peer_get m i of
        Some p \<Rightarrow> if now - pi_last_seen p < pm_expiry m then Some p else None | None \<Rightarrow> None)
    \<and> peer_count m = n + peer_count m'
    \<and> list_all_peers m' = list_alive now m \<and> list_alive now m' = list_alive now m
    \<and> peers_wf m'
    \<and> (peer_get m i \<noteq> None \<and> 0 < pm_expiry m \<longrightarrow> peer_get (snd (reap_expired now (peer_touch now i m))) i \<noteq> None)"
proof (intro conjI impI)
  have m': "m' = snd (reap_expired now m)" using assms(2) by simp
  have wf: "hm_wf (pm_peers m)" using assms(1) by (simp add: peers_wf_def)
  show "peer_get m' i = (case peer_get m i of
      Some p \<Rightarrow> if now - pi_last_seen p < pm_expiry m then Some p else None | None \<Rightarrow> None)"
    using reap_get [OF wf, of now i] by (simp add: m' alive_def split: option.split)
  show "peer_count m = n + peer_count m'"
    using assms(2) length_hm_retain [of _ "pm_peers m"]
    by (auto simp: reap_expired_def peer_count_def Let_def)
  show "list_all_peers m' = list_alive now m" "list_alive now m' = list_alive now m"
    by (auto simp: m' peer_defs Let_def hm_values_retain)
  show "peers_wf m'" using peers_wf_reap [OF assms(1)] by (simp add: m')
  assume "peer_get m i \<noteq> None \<and> 0 < pm_expiry m"
  moreover have "hm_wf (pm_peers (peer_touch now i m))" using wf by (simp add: peer_touch_def)
  ultimately show "peer_get (snd (reap_expired now (peer_touch now i m))) i \<noteq> None"
    by (auto simp: reap_get) (auto simp: peer_touch_def peer_get_def alive_def)
qed

theorem reap_exact_witness:
  "peer_get (peer_register (peer_new 10 ''a'' ''A'' ''h:1'') (peer_manager_new 100)) ''a''
     = Some (peer_new 10 ''a'' ''A'' ''h:1'')
   \<and> peer_get (snd (reap_expired 200 (peer_register (peer_new 10 ''a'' ''A'' ''h:1'') (peer_manager_new 100)))) ''a''
     = None"
  using reap_exact [of "peer_register (peer_new 10 ''a'' ''A'' ''h:1'') (peer_manager_new 100)" 200
      "fst (reap_expired 200 (peer_register (peer_new 10 ''a'' ''A'' ''h:1'') (peer_manager_new 100)))"
      "snd (reap_expired 200 (peer_register (peer_new 10 ''a'' ''A'' ''h:1'') (peer_manager_new 100)))" "''a''"]
  by (simp add: peers_wf_ops ps.lookup_put) (simp add: peer_new_def peer_register_def peer_manager_new_def)

end
