(* ===== verification/Resume.thy ===== *)
theory Resume
  imports Rust_Text
begin

text \<open>
  The persistent resume state of \<^verbatim>\<open>crates/transfer_engine/src/resume.rs\<close>. The state directory is a
  map from file names to contents; a write to a name outside \<open>rm_writable\<close> fails. The JSON
  serialiser and parser, the Unicode class \<^verbatim>\<open>char::is_alphanumeric\<close> (on a character given by its
  UTF-8 bytes) and the wall clock are arguments.
\<close>

record resume_state =
  rst_file_id :: string
  rst_source_path :: string
  rst_file_hash :: string
  rst_total_bytes :: u64
  rst_last_offset :: u64
  rst_chunks :: "(u32, bool) hmap option"
  rst_transport :: string
  rst_updated_at :: u64
  rst_completed :: bool

definition resume_state_new ::
  "u64 \<Rightarrow> string \<Rightarrow> string \<Rightarrow> string \<Rightarrow> u64 \<Rightarrow> string \<Rightarrow> resume_state" where
  "resume_state_new now file_id source_path file_hash total_bytes transport =
     \<lparr>rst_file_id = file_id, rst_source_path = source_path, rst_file_hash = file_hash,
      rst_total_bytes = total_bytes, rst_last_offset = 0, rst_chunks = None,
      rst_transport = transport, rst_updated_at = now, rst_completed = False\<rparr>"

record resume_manager =
  rm_files :: "(string, string) hmap"
  rm_writable :: "string \<Rightarrow> bool"

text \<open>JSON and the character class.\<close>

record resume_env =
  rn_ser :: "resume_state \<Rightarrow> string + string"
  rn_de :: "string \<Rightarrow> string + resume_state"
  rn_alnum :: "string \<Rightarrow> bool"

definition sanitize_id :: "(string \<Rightarrow> bool) \<Rightarrow> string \<Rightarrow> string" where
  "sanitize_id alnum i =
     concat (map (\<lambda>c. if alnum c \<or> c = ''-'' \<or> c = ''_'' then c else ''_'') (str_chars i))"

definition state_path :: "resume_env \<Rightarrow> string \<Rightarrow> string" where
  "state_path env i = sanitize_id (rn_alnum env) i @ ''.json''"

definition resume_load :: "resume_env \<Rightarrow> string \<Rightarrow> resume_manager \<Rightarrow> resume_state option" where
  "resume_load env i m =
    (case hm_get (rm_files m) (state_path env i) of
       None \<Rightarrow> None
     | Some data \<Rightarrow> (case rn_de env data of Inl _ \<Rightarrow> None | Inr s \<Rightarrow> Some s))"

definition resume_save :: "resume_env \<Rightarrow> resume_state \<Rightarrow> resume_manager \<Rightarrow> string + resume_manager" where
  "resume_save env s m =
     bind_res (rn_ser env s) (\<lambda>data.
       if rm_writable m (state_path env (rst_file_id s))
       then Inr (m\<lparr>rm_files := hm_insert (state_path env (rst_file_id s)) data (rm_files m)\<rparr>)
       else Inl ''write failed'')"

definition update_offset ::
  "resume_env \<Rightarrow> u64 \<Rightarrow> string \<Rightarrow> u64 \<Rightarrow> resume_manager \<Rightarrow> string + resume_manager" where
  "update_offset env now i offset m =
    (case resume_load env i m of
       None \<Rightarrow> Inr m
     | Some s \<Rightarrow> resume_save env (s\<lparr>rst_last_offset := offset, rst_updated_at := now\<rparr>) m)"

definition mark_completed ::
  "resume_env \<Rightarrow> u64 \<Rightarrow> string \<Rightarrow> resume_manager \<Rightarrow> string + resume_manager" where
  "mark_completed env now i m =
    (case resume_load env i m of
       None \<Rightarrow> Inr m
     | Some s \<Rightarrow> resume_save env (s\<lparr>rst_completed := True, rst_updated_at := now\<rparr>) m)"

definition resume_remove :: "resume_env \<Rightarrow> string \<Rightarrow> resume_manager \<Rightarrow> resume_manager" where
  "resume_remove env i m = m\<lparr>rm_files := hm_remove (state_path env i) (rm_files m)\<rparr>"

text \<open>\<^verbatim>\<open>path.extension() == Some("json")\<close>\<close>

definition has_json_extension :: "string \<Rightarrow> bool" where
  "has_json_extension name =
    (case rsplit_once (CHR ''.'') name of Some (stem, ext) \<Rightarrow> stem \<noteq> [] \<and> ext = ''json'' | None \<Rightarrow> False)"

definition list_incomplete :: "resume_env \<Rightarrow> resume_manager \<Rightarrow> resume_state list" where
  "list_incomplete env m =
     List.map_filter (\<lambda>(name, data).
       if has_json_extension name then
         (case rn_de env data of
            Inr s \<Rightarrow> if rst_completed s then None else Some s
          | Inl _ \<Rightarrow> None)
       else None) (rm_files m)"

definition can_resume :: "resume_env \<Rightarrow> string \<Rightarrow> string \<Rightarrow> resume_manager \<Rightarrow> u64 option" where
  "can_resume env i file_hash m =
    (case resume_load env i m of
       None \<Rightarrow> None
     | Some s \<Rightarrow>
        if rst_completed s then None
        else if rst_file_hash s \<noteq> file_hash then None
        else if rst_last_offset s \<ge> rst_total_bytes s then None
        else Some (rst_last_offset s))"

section \<open>Saving and resuming\<close>

text \<open>What the code relies on of the serialiser: \<^verbatim>\<open>serde_json\<close> reads back what it wrote.\<close>

definition json_ok :: "resume_env \<Rightarrow> bool" where
  "json_ok env \<longleftrightarrow> (\<forall>s d. rn_ser env s = Inr d \<longrightarrow> rn_de env d = Inr s)"

lemma load_save:
  assumes "json_ok env" and "resume_save env s m = Inr m'"
  shows "resume_load env i m' =
    (if state_path env i = state_path env (rst_file_id s) then Some s else resume_load env i m)"
  using assms
  by (auto simp: resume_save_def resume_load_def json_ok_def bind_res_eq_Inr split: if_splits)

text \<open>Resume offsets: recording an offset for a transfer of \<open>total\<close> bytes with hash \<open>h\<close> makes
  exactly the transfer with that sanitised identifier and that hash resumable, from that offset and
  only while it is below the total; completing it makes it not resumable; other transfers keep their
  state. Identifiers that only differ in replaced characters share one state file.\<close>

theorem resume_offsets:
  assumes "json_ok env" and "resume_save env s m = Inr m1" and "\<not> rst_completed s"
    and "update_offset env now (rst_file_id s) off m1 = Inr m2"
  shows "can_resume env i h m2 =
      (if state_path env i = state_path env (rst_file_id s)
       then (if h = rst_file_hash s \<and> off < rst_total_bytes s then Some off else None)
       else can_resume env i h m)
    \<and> (mark_completed env now' (rst_file_id s) m2 = Inr m3 \<longrightarrow>
        can_resume env (rst_file_id s) h m3 = None)"
proof -
  have l1: "resume_load env (rst_file_id s) m1 = Some s" by (simp add: load_save [OF assms(1,2)])
  have l2: "resume_load env i m2 = (if state_path env i = state_path env (rst_file_id s)
      then Some (s\<lparr>rst_last_offset := off, rst_updated_at := now\<rparr>) else resume_load env i m1)" for i
    using assms(4) l1 load_save [OF assms(1), of "s\<lparr>rst_last_offset := off, rst_updated_at := now\<rparr>" m1 m2]
    by (simp add: update_offset_def)
  have "can_resume env (rst_file_id s) h m3 = None"
    if "mark_completed env now' (rst_file_id s) m2 = Inr m3"
    using that l2 [of "rst_file_id s"] load_save [OF assms(1), of "s\<lparr>rst_last_offset := off,
        rst_completed := True, rst_updated_at := now'\<rparr>" m2 m3]
    by (simp add: mark_completed_def can_resume_def)
  then show ?thesis
    using l2 [of i] load_save [OF assms(1,2), of i] assms(3)
    by (auto simp: can_resume_def not_le)
qed

definition demo_state :: resume_state where
  "demo_state = resume_state_new 1 ''a/b'' ''/a/b'' ''h'' 10 ''tcp-buffered''"

definition demo_offset_state :: resume_state where
  "demo_offset_state = demo_state\<lparr>rst_last_offset := 4, rst_updated_at := 2\<rparr>"

definition demo_resume_env :: resume_env where
  "demo_resume_env =
     \<lparr>rn_ser = (\<lambda>s. if s = demo_state then Inr ''0'' else if s = demo_offset_state then Inr ''4'' else Inl ''''),
      rn_de = (\<lambda>d. if d = ''0'' then Inr demo_state else if d = ''4'' then Inr demo_offset_state else Inl ''''),
      rn_alnum = (\<lambda>c. list_all is_ascii_alphanumeric c)\<rparr>"

definition demo_rm :: resume_manager where
  "demo_rm = \<lparr>rm_files = [], rm_writable = (\<lambda>_. True)\<rparr>"

lemma demo_states: "demo_offset_state \<noteq> demo_state"
  by (simp add: demo_offset_state_def demo_state_def resume_state_new_def)

lemma demo_json_ok: "json_ok demo_resume_env"
  using demo_states by (auto simp: json_ok_def demo_resume_env_def split: if_splits)

theorem resume_offsets_witness:
  "can_resume demo_resume_env ''a_b'' ''h''
    (\<lparr>rm_files = [(''a_b.json'', ''4'')], rm_writable = (\<lambda>_. True)\<rparr>) = Some 4"
proof -
  have path: "state_path demo_resume_env ''a/b'' = ''a_b.json''" "state_path demo_resume_env ''a_b'' = ''a_b.json''"
    by (simp_all add: state_path_def demo_resume_env_def sanitize_id_def str_chars_ascii ascii_defs)
  have s: "resume_save demo_resume_env demo_state demo_rm =
      Inr (\<lparr>rm_files = [(''a_b.json'', ''0'')], rm_writable = (\<lambda>_. True)\<rparr>)"
    using path by (simp add: resume_save_def demo_rm_def demo_state_def resume_state_new_def hm_insert_def)
      (simp add: demo_resume_env_def demo_state_def resume_state_new_def)
  have u: "update_offset demo_resume_env 2 (rst_file_id demo_state) 4
      (\<lparr>rm_files = [(''a_b.json'', ''0'')], rm_writable = (\<lambda>_. True)\<rparr>) =
      Inr (\<lparr>rm_files = [(''a_b.json'', ''4'')], rm_writable = (\<lambda>_. True)\<rparr>)"
  proof -
    have "resume_load demo_resume_env (rst_file_id demo_state)
        \<lparr>rm_files = [(''a_b.json'', ''0'')], rm_writable = (\<lambda>_. True)\<rparr> = Some demo_state"
      using path by (simp add: resume_load_def hm_get_def demo_state_def resume_state_new_def)
        (simp add: demo_resume_env_def demo_state_def resume_state_new_def)
    moreover have "rn_ser demo_resume_env demo_offset_state = Inr ''4''"
      using demo_states by (simp add: demo_resume_env_def)
    ultimately show ?thesis
      using path by (simp add: update_offset_def demo_offset_state_def [symmetric] resume_save_def hm_insert_def)
        (simp add: demo_offset_state_def demo_state_def resume_state_new_def)
  qed
  from resume_offsets [OF demo_json_ok s _ u, of "''a_b''" "''h''"] path show ?thesis
    by (simp add: demo_state_def resume_state_new_def)
qed

end
