(* ===== verification/Pairing.thy ===== *)
theory Pairing
  imports Rust_Text
begin

text \<open>
  Trust on first use (\<^verbatim>\<open>src/transport/tofu.rs\<close> of \<^verbatim>\<open>crates/transfer_engine\<close>) and the pairing
  flow (\<^verbatim>\<open>src/pairing.rs\<close>). The trust file is its content with its modification time; the JSON
  serialiser and parser, SHA-256, the clocks and the fresh request identifiers are arguments. The
  locks make every method atomic.
\<close>

section \<open>Trust store\<close>

record trust_entry =
  te_peer_id :: string
  te_fingerprint :: string
  te_peer_name :: string
  te_trusted_since :: u64

record tofu_store =
  tf_entries :: "(string, trust_entry) hmap"
  tf_file :: "(string \<times> nat) option"
  tf_writable :: bool
  tf_last_mtime :: "nat option"

type_synonym tofu_ser = "(string, trust_entry) hmap \<Rightarrow> string + string"
type_synonym tofu_de = "string \<Rightarrow> string + (string, trust_entry) hmap"

definition tofu_load :: "tofu_de \<Rightarrow> (string \<times> nat) option \<Rightarrow> bool \<Rightarrow> tofu_store" where
  "tofu_load de file' writable =
    (case file' of
       None \<Rightarrow> \<lparr>tf_entries = [], tf_file = None, tf_writable = writable, tf_last_mtime = None\<rparr>
     | Some (s, mtime) \<Rightarrow>
         \<lparr>tf_entries = (case de s of Inr es \<Rightarrow> es | Inl _ \<Rightarrow> []),
          tf_file = file', tf_writable = writable, tf_last_mtime = Some mtime\<rparr>)"

definition reload_if_changed :: "tofu_de \<Rightarrow> tofu_store \<Rightarrow> bool \<times> tofu_store" where
  "reload_if_changed de st =
    (let mtime = map_option snd (tf_file st) in
     if mtime \<noteq> tf_last_mtime st then
       (case tf_file st of
          None \<Rightarrow> (False, st)
        | Some (data, _) \<Rightarrow>
           (case de data of
              Inr es \<Rightarrow> (True, st\<lparr>tf_entries := es, tf_last_mtime := mtime\<rparr>)
            | Inl _ \<Rightarrow> (False, st)))
     else (False, st))"

definition fingerprint :: "(bytes \<Rightarrow> bytes) \<Rightarrow> bytes \<Rightarrow> string" where
  "fingerprint sha256 der = hex_bytes (sha256 der)"

definition tofu_is_trusted :: "string \<Rightarrow> string \<Rightarrow> tofu_store \<Rightarrow> bool" where
  "tofu_is_trusted peer_id fp st =
    (case hm_get (tf_entries st) peer_id of Some e \<Rightarrow> te_fingerprint e = fp | None \<Rightarrow> False)"

text \<open>The clocks of a call: epoch seconds and the modification time a write gets.\<close>

record tofu_env =
  tv_ser :: tofu_ser
  tv_de :: tofu_de
  tv_now_secs :: u64
  tv_mtime :: nat

definition tofu_save :: "tofu_env \<Rightarrow> tofu_store \<Rightarrow> tofu_store" where
  "tofu_save env st =
    (case tv_ser env (tf_entries st) of
       Inl _ \<Rightarrow> st
     | Inr data \<Rightarrow>
        (let f = (if tf_writable st then Some (data, tv_mtime env) else tf_file st) in
         st\<lparr>tf_file := f, tf_last_mtime := map_option snd f\<rparr>))"

definition tofu_trust :: "tofu_env \<Rightarrow> string \<Rightarrow> string \<Rightarrow> string \<Rightarrow> tofu_store \<Rightarrow> tofu_store" where
  "tofu_trust env peer_id fp peer_name st =
    (let e = \<lparr>te_peer_id = peer_id, te_fingerprint = fp, te_peer_name = peer_name,
              te_trusted_since = tv_now_secs env\<rparr> in
     tofu_save env (st\<lparr>tf_entries := hm_insert peer_id e (tf_entries st)\<rparr>))"

definition tofu_fingerprint_for :: "string \<Rightarrow> tofu_store \<Rightarrow> string option" where
  "tofu_fingerprint_for peer_id st = map_option te_fingerprint (hm_get (tf_entries st) peer_id)"

text \<open>The interface the pairing manager uses: what is known of a peer after trusting one.\<close>

locale trust_store =
  fixes known :: "'d \<Rightarrow> 's \<Rightarrow> 'f option" and trust :: "'d \<Rightarrow> 'f \<Rightarrow> 's \<Rightarrow> 's"
    and check :: "'d \<Rightarrow> 'f \<Rightarrow> 's \<Rightarrow> bool"
  assumes known_trust: "known d (trust d' f s) = (if d = d' then Some f else known d s)"
    and check_known: "check d f s \<longleftrightarrow> known d s = Some f"
begin

lemma check_trust: "check d f (trust d' f' s) \<longleftrightarrow> (if d = d' then f = f' else check d f s)"
  by (auto simp: check_known known_trust)

lemma impostor_rejected: "f \<noteq> f' \<Longrightarrow> \<not> check d f (trust d f' s)"
  by (simp add: check_trust)

lemma known_mono: "known d s \<noteq> None \<Longrightarrow> known d (trust d' f s) \<noteq> None"
  by (simp add: known_trust)

end

interpretation tf: trust_store tofu_fingerprint_for "\<lambda>d f. tofu_trust env d f name" tofu_is_trusted
  for env name
  by unfold_locales
    (auto simp: tofu_fingerprint_for_def tofu_trust_def tofu_save_def tofu_is_trusted_def Let_def
      split: sum.splits option.splits)

text \<open>What was saved is what a reload finds.\<close>

lemma save_load:
  assumes "tv_ser env (tf_entries st) = Inr data" and "tv_de env data = Inr (tf_entries st)"
    and "tf_writable st"
  shows "tf_entries (tofu_load (tv_de env) (tf_file (tofu_save env st)) w) = tf_entries st
    \<and> reload_if_changed (tv_de env) (tofu_save env st) = (False, tofu_save env st)"
  using assms by (simp add: tofu_load_def tofu_save_def reload_if_changed_def Let_def)

section \<open>Pairing manager\<close>

definition PAIRING_REQUEST_TTL :: duration where
  "PAIRING_REQUEST_TTL = 120000"

datatype pairing_status = PUnknown | PPending string bool | PTrusted | PBlocked

record pairing_request =
  pr_request_id :: string
  pr_device_id :: string
  pr_device_name :: string
  pr_fingerprint :: string
  pr_is_incoming :: bool
  pr_expires_at :: instant
  pr_created_at :: u64

definition is_expired :: "instant \<Rightarrow> pairing_request \<Rightarrow> bool" where
  "is_expired now r \<longleftrightarrow> now \<ge> pr_expires_at r"

record pairing_request_payload =
  prp_request_id :: string
  prp_device_id :: string
  prp_device_name :: string
  prp_fingerprint :: string
  prp_created_at :: u64

record pairing_confirm_payload =
  pcp_request_id :: string
  pcp_device_id :: string
  pcp_device_name :: string
  pcp_fingerprint :: string
  pcp_accepted :: bool

record pairing_manager =
  pmg_store :: tofu_store
  pmg_pending :: "(string, pairing_request) hmap"
  pmg_blocked :: "string list"

definition pairing_new :: "tofu_store \<Rightarrow> pairing_manager" where
  "pairing_new st = \<lparr>pmg_store = st, pmg_pending = [], pmg_blocked = []\<rparr>"

definition request_pairing ::
  "string \<Rightarrow> instant \<Rightarrow> u64 \<Rightarrow> string \<Rightarrow> string \<Rightarrow> string \<Rightarrow> pairing_manager
     \<Rightarrow> pairing_request_payload \<times> pairing_manager" where
  "request_pairing fresh now secs device_id device_name our_fingerprint m =
    (\<lparr>prp_request_id = fresh, prp_device_id = device_id, prp_device_name = device_name,
      prp_fingerprint = our_fingerprint, prp_created_at = secs\<rparr>,
     m\<lparr>pmg_pending := hm_insert fresh
        \<lparr>pr_request_id = fresh, pr_device_id = device_id, pr_device_name = device_name,
         pr_fingerprint = our_fingerprint, pr_is_incoming = False,
         pr_expires_at = now + PAIRING_REQUEST_TTL, pr_created_at = secs\<rparr> (pmg_pending m)\<rparr>)"

definition incoming_request ::
  "instant \<Rightarrow> pairing_request_payload \<Rightarrow> pairing_manager \<Rightarrow> pairing_request \<times> pairing_manager" where
  "incoming_request now p m =
    (let r = \<lparr>pr_request_id = prp_request_id p, pr_device_id = prp_device_id p,
              pr_device_name = prp_device_name p, pr_fingerprint = prp_fingerprint p,
              pr_is_incoming = True, pr_expires_at = now + PAIRING_REQUEST_TTL,
              pr_created_at = prp_created_at p\<rparr> in
     (r, m\<lparr>pmg_pending := hm_insert (pr_request_id r) r (pmg_pending m)\<rparr>))"

definition confirm_pairing ::
  "tofu_env \<Rightarrow> instant \<Rightarrow> string \<Rightarrow> pairing_manager \<Rightarrow> bool \<times> pairing_manager" where
  "confirm_pairing env now request_id m =
    (case hm_get (pmg_pending m) request_id of
       None \<Rightarrow> (False, m)
     | Some r \<Rightarrow>
        (let m1 = m\<lparr>pmg_pending := hm_remove request_id (pmg_pending m)\<rparr> in
         if is_expired now r then (False, m1)
         else (True, m1\<lparr>pmg_store := tofu_trust env (pr_device_id r) (pr_fingerprint r)
                (pr_device_name r) (pmg_store m1)\<rparr>)))"

definition reject_pairing :: "string \<Rightarrow> pairing_manager \<Rightarrow> bool \<times> pairing_manager" where
  "reject_pairing request_id m =
    (hm_get (pmg_pending m) request_id \<noteq> None, m\<lparr>pmg_pending := hm_remove request_id (pmg_pending m)\<rparr>)"

definition accept_remote_confirmation ::
  "tofu_env \<Rightarrow> pairing_confirm_payload \<Rightarrow> pairing_manager \<Rightarrow> pairing_manager" where
  "accept_remote_confirmation env p m =
    (let m1 = (if pcp_accepted p
               then m\<lparr>pmg_store := tofu_trust env (pcp_device_id p) (pcp_fingerprint p)
                      (pcp_device_name p) (pmg_store m)\<rparr>
               else m) in
     m1\<lparr>pmg_pending := hm_remove (pcp_request_id p) (pmg_pending m1)\<rparr>)"

definition trust_status :: "string \<Rightarrow> pairing_manager \<Rightarrow> pairing_status" where
  "trust_status device_id m =
    (if device_id \<in> set (pmg_blocked m) then PBlocked
     else if tofu_fingerprint_for device_id (pmg_store m) \<noteq> None then PTrusted
     else (case find (\<lambda>r. pr_device_id r = device_id) (hm_values (pmg_pending m)) of
        Some r \<Rightarrow> PPending (pr_request_id r) (pr_is_incoming r)
      | None \<Rightarrow> PUnknown))"

definition pairing_is_trusted :: "string \<Rightarrow> pairing_manager \<Rightarrow> bool" where
  "pairing_is_trusted device_id m \<longleftrightarrow> tofu_fingerprint_for device_id (pmg_store m) \<noteq> None"

definition verify_fingerprint :: "string \<Rightarrow> string \<Rightarrow> pairing_manager \<Rightarrow> bool" where
  "verify_fingerprint device_id fp m = tofu_is_trusted device_id fp (pmg_store m)"

definition pairing_fingerprint_for :: "string \<Rightarrow> pairing_manager \<Rightarrow> string option" where
  "pairing_fingerprint_for device_id m = tofu_fingerprint_for device_id (pmg_store m)"

definition block_peer :: "string \<Rightarrow> pairing_manager \<Rightarrow> pairing_manager" where
  "block_peer device_id m = m\<lparr>pmg_blocked := pmg_blocked m @ [device_id]\<rparr>"

definition unblock_peer :: "string \<Rightarrow> pairing_manager \<Rightarrow> pairing_manager" where
  "unblock_peer device_id m = m\<lparr>pmg_blocked := filter (\<lambda>i. i \<noteq> device_id) (pmg_blocked m)\<rparr>"

definition pairing_reap_expired :: "instant \<Rightarrow> pairing_manager \<Rightarrow> nat \<times> pairing_manager" where
  "pairing_reap_expired now m =
    (let kept = hm_retain (\<lambda>_ r. \<not> is_expired now r) (pmg_pending m) in
     (length (pmg_pending m) - length kept, m\<lparr>pmg_pending := kept\<rparr>))"

definition list_pending :: "pairing_manager \<Rightarrow> pairing_request list" where
  "list_pending m = hm_values (pmg_pending m)"

section \<open>Operations as steps\<close>

datatype pairing_op =
    OpRequest string instant u64 string string string
  | OpIncoming instant pairing_request_payload
  | OpConfirm tofu_env instant string
  | OpReject string
  | OpRemoteConfirm tofu_env pairing_confirm_payload
  | OpBlock string
  | OpUnblock string
  | OpReap instant

fun pairing_apply :: "pairing_op \<Rightarrow> pairing_manager \<Rightarrow> pairing_manager" where
  "pairing_apply (OpRequest fresh now secs d n f) m = snd (request_pairing fresh now secs d n f m)"
| "pairing_apply (OpIncoming now p) m = snd (incoming_request now p m)"
| "pairing_apply (OpConfirm env now i) m = snd (confirm_pairing env now i m)"
| "pairing_apply (OpReject i) m = snd (reject_pairing i m)"
| "pairing_apply (OpRemoteConfirm env p) m = accept_remote_confirmation env p m"
| "pairing_apply (OpBlock d) m = block_peer d m"
| "pairing_apply (OpUnblock d) m = unblock_peer d m"
| "pairing_apply (OpReap now) m = snd (pairing_reap_expired now m)"

text \<open>The operations that make a fingerprint known.\<close>

fun establishes :: "pairing_op \<Rightarrow> pairing_manager \<Rightarrow> string \<Rightarrow> string \<Rightarrow> bool" where
  "establishes (OpConfirm env now i) m d f \<longleftrightarrow>
     (\<exists>r. hm_get (pmg_pending m) i = Some r \<and> \<not> is_expired now r \<and> pr_device_id r = d \<and> pr_fingerprint r = f)"
| "establishes (OpRemoteConfirm env p) m d f \<longleftrightarrow>
     pcp_accepted p \<and> pcp_device_id p = d \<and> pcp_fingerprint p = f"
| "establishes _ _ _ _ \<longleftrightarrow> False"

lemmas pairing_ops = request_pairing_def incoming_request_def confirm_pairing_def reject_pairing_def
  accept_remote_confirmation_def block_peer_def unblock_peer_def pairing_reap_expired_def

lemma pairing_apply_known:
  "pairing_fingerprint_for d (pairing_apply op m) = Some f \<Longrightarrow>
   pairing_fingerprint_for d m = Some f \<or> establishes op m d f"
  by (cases op) (auto simp: pairing_fingerprint_for_def pairing_ops Let_def tf.known_trust
      split: option.splits if_splits)

text \<open>C12. Where trust comes from: a fingerprint that is known for a device after any sequence of
  pairing operations was known before, or was established by confirming a pending, unexpired request
  that carries that device and that fingerprint, or by an accepting confirmation from the remote
  side. Requests, rejections, blocking and reaping never make a device trusted.\<close>

theorem trust_sources:
  assumes "pairing_fingerprint_for d (fold pairing_apply ops m) = Some f"
  shows "pairing_fingerprint_for d m = Some f \<or>
    (\<exists>pre op post. ops = pre @ op # post \<and> establishes op (fold pairing_apply pre m) d f)"
  using assms
proof (induction ops rule: rev_induct)
  case Nil
  then show ?case by simp
next
  case (snoc op ops)
  from snoc.prems have "pairing_fingerprint_for d (pairing_apply op (fold pairing_apply ops m)) = Some f"
    by simp
  from pairing_apply_known [OF this] show ?case
  proof
    assume "establishes op (fold pairing_apply ops m) d f"
    then show ?thesis
      by (intro disjI2 exI [of _ ops] exI [of _ op] exI [of _ "[]"] conjI) simp_all
  next
    assume "pairing_fingerprint_for d (fold pairing_apply ops m) = Some f"
    from snoc.IH [OF this] show ?thesis
    proof
      assume "\<exists>pre op post. ops = pre @ op # post \<and> establishes op (fold pairing_apply pre m) d f"
      then obtain pre op' post where "ops @ [op] = pre @ op' # (post @ [op])"
        "establishes op' (fold pairing_apply pre m) d f" by auto
      then show ?thesis
        by (intro disjI2 exI [of _ pre] exI [of _ op'] exI [of _ "post @ [op]"] conjI)
    qed (rule disjI1)
  qed
qed

definition demo_tofu :: tofu_store where
  "demo_tofu = \<lparr>tf_entries = [], tf_file = None, tf_writable = True, tf_last_mtime = None\<rparr>"

definition demo_tofu_env :: tofu_env where
  "demo_tofu_env = \<lparr>tv_ser = (\<lambda>_. Inr ''{}''), tv_de = (\<lambda>_. Inr []), tv_now_secs = 7, tv_mtime = 1\<rparr>"

definition demo_incoming :: pairing_request_payload where
  "demo_incoming = \<lparr>prp_request_id = ''r1'', prp_device_id = ''phone'', prp_device_name = ''Phone'',
     prp_fingerprint = ''ab'', prp_created_at = 5\<rparr>"

definition demo_pairing_ops :: "pairing_op list" where
  "demo_pairing_ops = [OpIncoming 0 demo_incoming, OpConfirm demo_tofu_env 10 ''r1'']"

lemma demo_paired:
  "pairing_fingerprint_for ''phone'' (fold pairing_apply demo_pairing_ops (pairing_new demo_tofu)) = Some ''ab''"
  by (simp add: demo_pairing_ops_def demo_incoming_def incoming_request_def confirm_pairing_def
      pairing_new_def is_expired_def PAIRING_REQUEST_TTL_def Let_def pairing_fingerprint_for_def tf.known_trust)

theorem trust_sources_witness:
  "\<exists>pre op post. demo_pairing_ops = pre @ op # post \<and>
     establishes op (fold pairing_apply pre (pairing_new demo_tofu)) ''phone'' ''ab''"
proof (rule disjE [OF trust_sources [OF demo_paired]])
  have "pairing_fingerprint_for ''phone'' (pairing_new demo_tofu) = None"
    by (simp add: pairing_fingerprint_for_def pairing_new_def demo_tofu_def tofu_fingerprint_for_def)
  moreover assume "pairing_fingerprint_for ''phone'' (pairing_new demo_tofu) = Some ''ab''"
  ultimately show ?thesis by simp
qed

text \<open>The confirmation window: an incoming request can be confirmed exactly once, within 120
  seconds of its arrival; then the peer's fingerprint is the one of the request, and another
  fingerprint does not verify; later, or after a rejection, the confirmation fails and changes no
  trust.\<close>

theorem confirm_window:
  assumes "(r, m1) = incoming_request now p m" and "(ok, m2) = confirm_pairing env now' (prp_request_id p) m1"
  shows "(ok \<longleftrightarrow> now' < now + 120000)
    \<and> (ok \<longrightarrow> (\<forall>f. verify_fingerprint (prp_device_id p) f m2 \<longleftrightarrow> f = prp_fingerprint p)
          \<and> (\<forall>d f. d \<noteq> prp_device_id p \<longrightarrow> verify_fingerprint d f m2 = verify_fingerprint d f m))
    \<and> (\<not> ok \<longrightarrow> (\<forall>d f. verify_fingerprint d f m2 = verify_fingerprint d f m))
    \<and> \<not> fst (confirm_pairing env now'' (prp_request_id p) m2)
    \<and> \<not> fst (confirm_pairing env now'' (prp_request_id p) (snd (reject_pairing (prp_request_id p) m1)))"
  using assms
  by (auto simp: incoming_request_def confirm_pairing_def reject_pairing_def verify_fingerprint_def
      is_expired_def PAIRING_REQUEST_TTL_def Let_def tf.check_trust split: if_splits)

theorem confirm_window_witness:
  "\<not> fst (confirm_pairing demo_tofu_env 11 ''r1'' (fold pairing_apply demo_pairing_ops (pairing_new demo_tofu)))"
  using confirm_window [of "fst (incoming_request 0 demo_incoming (pairing_new demo_tofu))"
      "snd (incoming_request 0 demo_incoming (pairing_new demo_tofu))" 0 demo_incoming "pairing_new demo_tofu"
      "fst (confirm_pairing demo_tofu_env 10 ''r1'' (snd (incoming_request 0 demo_incoming (pairing_new demo_tofu))))"
      "snd (confirm_pairing demo_tofu_env 10 ''r1'' (snd (incoming_request 0 demo_incoming (pairing_new demo_tofu))))"
      demo_tofu_env 10 11]
  by (simp add: demo_pairing_ops_def demo_incoming_def)

text \<open>Two gaps of the flow. Confirming a request that this device sent itself records its own
  fingerprint as the peer's, so the peer's real fingerprint is refused. And blocking a device changes
  its reported status but neither \<^verbatim>\<open>is_trusted\<close> nor \<^verbatim>\<open>verify_fingerprint\<close>.\<close>

theorem pairing_gaps:
  "(now' < now + 120000 \<and> theirs \<noteq> ours \<longrightarrow>
      (let m1 = snd (request_pairing fresh now secs d n ours m);
           m2 = snd (confirm_pairing env now' fresh m1) in
       verify_fingerprint d ours m2 \<and> \<not> verify_fingerprint d theirs m2))
   \<and> trust_status d (block_peer d m) = PBlocked
   \<and> pairing_is_trusted d (block_peer d m) = pairing_is_trusted d m
   \<and> verify_fingerprint d f (block_peer d m) = verify_fingerprint d f m"
  by (auto simp: request_pairing_def confirm_pairing_def verify_fingerprint_def is_expired_def
      PAIRING_REQUEST_TTL_def Let_def tf.check_trust trust_status_def block_peer_def pairing_is_trusted_def)

theorem pairing_gaps_witness:
  "\<not> verify_fingerprint ''phone'' ''cd'' (snd (confirm_pairing demo_tofu_env 5 ''r2''
     (snd (request_pairing ''r2'' 0 0 ''phone'' ''Phone'' ''ours'' (pairing_new demo_tofu)))))"
  using pairing_gaps [of 5 0 "''cd''" "''ours''" "''r2''" 0 "''phone''" "''Phone''" "pairing_new demo_tofu" demo_tofu_env]
  by (simp add: Let_def)

end
