(* ===== verification/Discovery.thy ===== *)
theory Discovery
  imports Rust_Text Peer
begin

text \<open>
  LAN discovery of \<^verbatim>\<open>crates/transfer_engine/src/discovery.rs\<close>: the datagrams and one step of the
  scanning loop on the peer registry. \<^verbatim>\<open>Uuid::parse_str\<close> and the UUID printer are arguments. A
  decoder that checks \<^verbatim>\<open>buf.len() < offset + n\<close> and then reads \<open>n\<close> bytes is \<open>read_exact\<close> on the
  bytes from \<^verbatim>\<open>offset\<close> on. The scan socket is bound to an IPv4 address, so a peer address prints
  as \<open>ip:port\<close>.
\<close>

section \<open>Messages\<close>

definition DISCOVERY_MAGIC :: bytes where
  "DISCOVERY_MAGIC = as_bytes ''XYNC''"

definition DISCOVERY_VERSION :: u8 where
  "DISCOVERY_VERSION = 1"

definition MAX_MSG_SIZE :: nat where
  "MAX_MSG_SIZE = 1024"

datatype msg_type = MAnnounce | MQuery | MResponse

fun msg_type_byte :: "msg_type \<Rightarrow> u8" where
  "msg_type_byte MAnnounce = 1"
| "msg_type_byte MQuery = 2"
| "msg_type_byte MResponse = 3"

definition disc_msg_type :: "u8 \<Rightarrow> msg_type option" where
  "disc_msg_type v = (if v = 1 then Some MAnnounce else if v = 2 then Some MQuery
     else if v = 3 then Some MResponse else None)"

definition supports :: "u8 \<Rightarrow> u8 \<Rightarrow> bool" where
  "supports flag flags \<longleftrightarrow> and flags flag \<noteq> 0"

definition transport_names :: "u8 \<Rightarrow> string list" where
  "transport_names flags =
     (if supports 1 flags then [''tcp''] else []) @ (if supports 2 flags then [''tls''] else [])
     @ (if supports 4 flags then [''quic''] else []) @ (if supports 8 flags then [''relay''] else [])"

record discovery_query =
  dq_device_id :: string
  dq_device_name :: string

record discovery_announce =
  da_msg_type :: msg_type
  da_device_id :: string
  da_device_name :: string
  da_transport_flags :: u8
  da_transfer_port :: u16
  da_platform :: string
  da_addresses :: "bytes list"

definition uuid_bytes :: "(string \<Rightarrow> uuid option) \<Rightarrow> string \<Rightarrow> bytes" where
  "uuid_bytes uparse i = (case uparse i of Some u \<Rightarrow> to_be 16 u | None \<Rightarrow> replicate 16 0)"

text \<open>A string with a 16-bit length, cut at 65535 bytes; with an 8-bit length, cut at 255.\<close>

definition str16 :: "string \<Rightarrow> bytes" where
  "str16 s = (let b = as_bytes s; n = min (length b) 65535 in to_be 2 (of_nat n :: u16) @ take n b)"

definition str8 :: "string \<Rightarrow> bytes" where
  "str8 s = (let b = as_bytes s; n = min (length b) 255 in [of_nat n] @ take n b)"

definition encode_query :: "(string \<Rightarrow> uuid option) \<Rightarrow> string \<Rightarrow> string \<Rightarrow> bytes" where
  "encode_query uparse device_id device_name =
     DISCOVERY_MAGIC @ [DISCOVERY_VERSION] @ [msg_type_byte MQuery] @ uuid_bytes uparse device_id
     @ str16 device_name"

definition decode_query :: "(uuid \<Rightarrow> string) \<Rightarrow> bytes \<Rightarrow> discovery_query option" where
  "decode_query ustr buf =
    (if length buf < 24 then None
     else if take 4 buf \<noteq> DISCOVERY_MAGIC \<or> buf ! 4 \<noteq> DISCOVERY_VERSION \<or> buf ! 5 \<noteq> msg_type_byte MQuery then None
     else
       (let device_id = ustr (from_be (take 16 (drop 6 buf)));
            name_len = unat (from_be (take 2 (drop 22 buf)) :: u16) in
        if length buf < 24 + name_len then None
        else Some \<lparr>dq_device_id = device_id,
                   dq_device_name = from_utf8_lossy (take name_len (drop 24 buf))\<rparr>))"

definition encode_announce :: "(string \<Rightarrow> uuid option) \<Rightarrow> discovery_announce \<Rightarrow> bytes" where
  "encode_announce uparse msg =
     DISCOVERY_MAGIC @ [DISCOVERY_VERSION] @ [msg_type_byte (da_msg_type msg)]
     @ uuid_bytes uparse (da_device_id msg)
     @ str16 (da_device_name msg)
     @ [da_transport_flags msg] @ to_be 2 (da_transfer_port msg)
     @ str8 (da_platform msg)
     @ [of_nat (min (length (da_addresses msg)) 255)]
     @ concat (map (\<lambda>addr. [of_nat (length addr)] @ addr) (da_addresses msg))"

fun decode_addresses :: "nat \<Rightarrow> bytes \<Rightarrow> (bytes list \<times> bytes) option" where
  "decode_addresses 0 s = Some ([], s)"
| "decode_addresses (Suc n) s =
    (case read_exact 1 s of None \<Rightarrow> None | Some (l, s1) \<Rightarrow>
     (case read_exact (unat (hd l)) s1 of None \<Rightarrow> None | Some (addr, s2) \<Rightarrow>
      (case decode_addresses n s2 of None \<Rightarrow> None | Some (as, s3) \<Rightarrow> Some (addr # as, s3))))"

definition decode_discovery :: "(uuid \<Rightarrow> string) \<Rightarrow> bytes \<Rightarrow> discovery_announce option" where
  "decode_discovery ustr buf =
    (if length buf < 6 then None
     else if take 4 buf \<noteq> DISCOVERY_MAGIC then None
     else if buf ! 4 \<noteq> DISCOVERY_VERSION then None
     else
      (case disc_msg_type (buf ! 5) of None \<Rightarrow> None | Some ty \<Rightarrow>
       if ty \<noteq> MAnnounce \<and> ty \<noteq> MResponse then None
       else
        (case read_exact 16 (drop 6 buf) of None \<Rightarrow> None | Some (ub, s1) \<Rightarrow>
        (case read_exact 2 s1 of None \<Rightarrow> None | Some (nl, s2) \<Rightarrow>
        (case read_exact (unat (from_be nl :: u16)) s2 of None \<Rightarrow> None | Some (name, s3) \<Rightarrow>
        (case read_exact 1 s3 of None \<Rightarrow> None | Some (fl, s4) \<Rightarrow>
        (case read_exact 2 s4 of None \<Rightarrow> None | Some (port, s5) \<Rightarrow>
        (case read_exact 1 s5 of None \<Rightarrow> None | Some (pl, s6) \<Rightarrow>
        (case read_exact (unat (hd pl)) s6 of None \<Rightarrow> None | Some (plat, s7) \<Rightarrow>
        (case read_exact 1 s7 of None \<Rightarrow> None | Some (ac, s8) \<Rightarrow>
        (case decode_addresses (unat (hd ac)) s8 of None \<Rightarrow> None | Some (addrs, _) \<Rightarrow>
          Some \<lparr>da_msg_type = ty, da_device_id = ustr (from_be ub),
                da_device_name = from_utf8_lossy name, da_transport_flags = hd fl,
                da_transfer_port = from_be port, da_platform = from_utf8_lossy plat,
                da_addresses = addrs\<rparr>)))))))))))"

section \<open>Scanning\<close>

datatype trust_status = TUnknown | TTrusted | TBlocked

record device_info =
  di_device_id :: string
  di_name :: string
  di_device_type :: string
  di_trust_status :: trust_status
  di_last_seen :: u64
  di_addresses :: "string list"
  di_transport_flags :: u8
  di_protocol_version :: string

record socket_addr =
  sa_ip :: string
  sa_port :: u16

definition show_addr :: "string \<Rightarrow> u16 \<Rightarrow> string" where
  "show_addr ip port = ip @ '':'' @ show_nat (unat port)"

record scanner =
  sc_peers :: peer_manager
  sc_our :: "discovery_announce option"
  sc_sent :: "(socket_addr \<times> bytes) list"
  sc_found :: "device_info list"

text \<open>The peer entry and the device made from an announcement.\<close>

definition announced_peer :: "instant \<Rightarrow> socket_addr \<Rightarrow> discovery_announce \<Rightarrow> peer_info" where
  "announced_peer now from a =
     (peer_new now (da_device_id a) (da_device_name a) (show_addr (sa_ip from) (sa_port from)))
       \<lparr>pi_method := ''lan'', pi_platform := da_platform a\<rparr>"

definition announced_device :: "u64 \<Rightarrow> socket_addr \<Rightarrow> discovery_announce \<Rightarrow> device_info" where
  "announced_device secs from a =
     \<lparr>di_device_id = da_device_id a, di_name = da_device_name a, di_device_type = da_platform a,
      di_trust_status = TUnknown, di_last_seen = secs,
      di_addresses = [show_addr (sa_ip from) (da_transfer_port a)],
      di_transport_flags = da_transport_flags a, di_protocol_version = ''1.0.0''\<rparr>"

text \<open>One received datagram; the receive buffer holds \<open>MAX_MSG_SIZE\<close> bytes.\<close>

definition scan_datagram ::
  "(string \<Rightarrow> uuid option) \<Rightarrow> (uuid \<Rightarrow> string) \<Rightarrow> instant \<Rightarrow> u64 \<Rightarrow> socket_addr \<Rightarrow> bytes
     \<Rightarrow> scanner \<Rightarrow> scanner" where
  "scan_datagram uparse ustr now secs from packet s =
    (let buf = take MAX_MSG_SIZE packet in
     case decode_query ustr buf of
       Some query \<Rightarrow>
        (case sc_our s of
           None \<Rightarrow> s
         | Some our \<Rightarrow>
            if dq_device_id query \<noteq> da_device_id our
            then s\<lparr>sc_sent := sc_sent s @ [(from, encode_announce uparse (our\<lparr>da_msg_type := MResponse\<rparr>))]\<rparr>
            else s)
     | None \<Rightarrow>
        (case decode_discovery ustr buf of
           None \<Rightarrow> s
         | Some a \<Rightarrow>
            if (case peer_get (sc_peers s) (da_device_id a) of
                  Some p \<Rightarrow> pi_address p = show_addr (sa_ip from) (sa_port from)
                | None \<Rightarrow> False)
            then s
            else s\<lparr>sc_peers := peer_register (announced_peer now from a) (sc_peers s),
                   sc_found := sc_found s @ [announced_device secs from a]\<rparr>))"

definition scan_reap :: "instant \<Rightarrow> scanner \<Rightarrow> scanner" where
  "scan_reap now s = s\<lparr>sc_peers := snd (reap_expired now (sc_peers s))\<rparr>"

section \<open>Round trips\<close>

lemma read_exact_one [simp]: "read_exact (Suc 0) (x # xs) = Some ([x], xs)"
  using read_exact_append [of "[x]" "Suc 0" xs] by simp

lemma decode_addresses_encode:
  "list_all (\<lambda>a. length a < 256) as \<Longrightarrow>
   decode_addresses (length as) (concat (map (\<lambda>addr. of_nat (length addr) # addr) as) @ rest) = Some (as, rest)"
proof (induction as)
  case (Cons a as)
  then have "unat (of_nat (length a) :: u8) = length a" by (simp add: unat_of_nat)
  with Cons show ?case by simp
qed simp

definition announce_ok :: "(string \<Rightarrow> uuid option) \<Rightarrow> (uuid \<Rightarrow> string) \<Rightarrow> discovery_announce \<Rightarrow> bool" where
  "announce_ok uparse ustr m \<longleftrightarrow> da_msg_type m \<noteq> MQuery
     \<and> (\<exists>u. uparse (da_device_id m) = Some u \<and> ustr u = da_device_id m)
     \<and> utf8_valid (da_device_name m) \<and> length (da_device_name m) < 2 ^ 16
     \<and> utf8_valid (da_platform m) \<and> length (da_platform m) < 2 ^ 8
     \<and> length (da_addresses m) < 2 ^ 8 \<and> list_all (\<lambda>a. length a < 256) (da_addresses m)"

lemma read_str16:
  assumes "length s < 2 ^ 16"
  shows "str16 s = to_be 2 (of_nat (length s) :: u16) @ as_bytes s"
    and "unat (of_nat (length s) :: u16) = length s"
  using assms by (simp_all add: str16_def unat_of_nat Let_def min_def)

lemma read_str8:
  assumes "length s < 2 ^ 8"
  shows "str8 s = of_nat (length s) # as_bytes s" and "unat (of_nat (length s) :: u8) = length s"
  using assms by (simp_all add: str8_def unat_of_nat Let_def min_def)

lemma decode_announce_rest:
  assumes "announce_ok uparse ustr m"
  shows "decode_discovery ustr (encode_announce uparse m @ rest) = Some m"
proof -
  obtain u where u: "uparse (da_device_id m) = Some u" "ustr u = da_device_id m"
    using assms by (auto simp: announce_ok_def)
  have ok: "da_msg_type m \<noteq> MQuery" "utf8_valid (da_device_name m)" "length (da_device_name m) < 2 ^ 16"
    "utf8_valid (da_platform m)" "length (da_platform m) < 2 ^ 8" "length (da_addresses m) < 2 ^ 8"
    "list_all (\<lambda>a. length a < 256) (da_addresses m)"
    using assms by (auto simp: announce_ok_def)
  have ty: "disc_msg_type (msg_type_byte (da_msg_type m)) = Some (da_msg_type m)"
    by (cases "da_msg_type m") (simp_all add: disc_msg_type_def)
  have ty': "da_msg_type m = MAnnounce \<or> da_msg_type m = MResponse" using ok(1) by (cases "da_msg_type m") auto
  have cnt: "unat (of_nat (min (length (da_addresses m)) 255) :: u8) = length (da_addresses m)"
    using ok(6) by (simp add: unat_of_nat)
  show ?thesis
    using ty' ty u decode_addresses_encode [OF ok(7), of rest]
    by (auto simp: decode_discovery_def encode_announce_def DISCOVERY_MAGIC_def uuid_bytes_def
        read_str16 [OF ok(3)] read_str8 [OF ok(5)] cnt nth_append from_utf8_lossy_as_bytes ok(2,4))
qed

interpretation da: datagram_codec "encode_announce uparse" "decode_discovery ustr"
  "announce_ok uparse ustr" "\<lambda>m. m" for uparse ustr
  by unfold_locales (use decode_announce_rest [where rest = "[]"] in simp)

lemma decode_query_rest:
  assumes "uparse i = Some u" "ustr u = i" "utf8_valid name" "length name < 2 ^ 16"
  shows "decode_query ustr (encode_query uparse i name @ rest) =
    Some \<lparr>dq_device_id = i, dq_device_name = name\<rparr>"
  using assms(1,2) read_str16 [OF assms(4)]
  by (simp add: decode_query_def encode_query_def DISCOVERY_MAGIC_def uuid_bytes_def nth_append
      from_utf8_lossy_as_bytes assms(3))

lemma announce_not_query:
  assumes "da_msg_type m \<noteq> MQuery"
  shows "decode_query ustr (encode_announce uparse m @ rest) = None"
  using assms by (cases "da_msg_type m")
    (auto simp: decode_query_def encode_announce_def DISCOVERY_MAGIC_def nth_append)

lemma query_not_announce: "decode_discovery ustr (encode_query uparse i name @ rest) = None"
  by (simp add: decode_discovery_def encode_query_def DISCOVERY_MAGIC_def nth_append disc_msg_type_def)

text \<open>Discovery datagrams: an announcement or response with a canonical UUID, at most 65535
  bytes of name, 255 of platform and 255 addresses of at most 255 bytes is decoded to itself, also
  when bytes follow it, and is not taken for a query; a query is decoded to itself and is not taken
  for an announcement.\<close>

theorem discovery_roundtrip:
  assumes "announce_ok uparse ustr m"
  shows "decode_discovery ustr (encode_announce uparse m @ rest) = Some m
    \<and> decode_query ustr (encode_announce uparse m @ rest) = None
    \<and> decode_query ustr (encode_query uparse (da_device_id m) (da_device_name m) @ rest) =
        Some \<lparr>dq_device_id = da_device_id m, dq_device_name = da_device_name m\<rparr>
    \<and> decode_discovery ustr (encode_query uparse (da_device_id m) (da_device_name m) @ rest) = None"
  using assms decode_announce_rest [OF assms] announce_not_query query_not_announce decode_query_rest
  unfolding announce_ok_def by blast

definition demo_uparse :: "string \<Rightarrow> uuid option" where
  "demo_uparse s = (if s = ''id-1'' then Some 1 else if s = ''id-2'' then Some 2 else None)"

definition demo_ustr :: "uuid \<Rightarrow> string" where
  "demo_ustr u = (if u = 1 then ''id-1'' else if u = 2 then ''id-2'' else [])"

definition demo_announce :: discovery_announce where
  "demo_announce = \<lparr>da_msg_type = MAnnounce, da_device_id = ''id-1'', da_device_name = ''Mac'',
     da_transport_flags = 1, da_transfer_port = 8080, da_platform = ''macos'',
     da_addresses = [[10, 0, 0, 1]]\<rparr>"

lemma demo_announce_ok: "announce_ok demo_uparse demo_ustr demo_announce"
  by (auto simp: announce_ok_def demo_announce_def demo_uparse_def demo_ustr_def intro!: utf8_valid_ascii)

theorem discovery_roundtrip_witness:
  "decode_discovery demo_ustr (encode_announce demo_uparse demo_announce @ [9]) = Some demo_announce"
  using discovery_roundtrip [OF demo_announce_ok] by blast

section \<open>Scanning\<close>

lemma scan_announce:
  assumes "decode_query ustr (take MAX_MSG_SIZE packet) = None"
    and "decode_discovery ustr (take MAX_MSG_SIZE packet) = Some a"
  shows "scan_datagram uparse ustr now secs from packet s =
    (if map_option pi_address (peer_get (sc_peers s) (da_device_id a)) = Some (show_addr (sa_ip from) (sa_port from))
     then s
     else s\<lparr>sc_peers := peer_register (announced_peer now from a) (sc_peers s),
            sc_found := sc_found s @ [announced_device secs from a]\<rparr>)"
  using assms by (auto simp: scan_datagram_def Let_def split: option.splits)

definition announces :: "(uuid \<Rightarrow> string) \<Rightarrow> discovery_announce \<Rightarrow> bytes \<Rightarrow> bool" where
  "announces ustr a packet \<longleftrightarrow> decode_query ustr (take MAX_MSG_SIZE packet) = None
     \<and> decode_discovery ustr (take MAX_MSG_SIZE packet) = Some a"

lemma announced_peer_simps [simp]:
  "pi_id (announced_peer now from a) = da_device_id a"
  "pi_address (announced_peer now from a) = show_addr (sa_ip from) (sa_port from)"
  "pi_last_seen (announced_peer now from a) = now"
  by (simp_all add: announced_peer_def peer_new_def)

text \<open>What scanning records: the first announcement of a device registers a peer whose address
  is the source address of the datagram, not the announced transfer port (which only the device list
  gets), and reports the device. Every further announcement from that address is dropped without
  refreshing the entry, so however often the device announces itself, the entry is reaped as soon as
  the expiry has passed since the first announcement.\<close>

theorem scan_never_refreshes:
  assumes "announces ustr a packet" and "peer_get (sc_peers s) (da_device_id a) = None"
    and "hm_wf (pm_peers (sc_peers s))" and "pm_expiry (sc_peers s) \<le> t - now"
    and "s1 = scan_datagram uparse ustr now secs from packet s"
    and "s2 = fold (\<lambda>(now, secs). scan_datagram uparse ustr now secs from packet) times' s1"
  shows "map_option pi_address (peer_get (sc_peers s1) (da_device_id a)) = Some (show_addr (sa_ip from) (sa_port from))
    \<and> sc_found s1 = sc_found s @ [announced_device secs from a]
    \<and> di_addresses (announced_device secs from a) = [show_addr (sa_ip from) (da_transfer_port a)]
    \<and> s2 = s1
    \<and> peer_get (sc_peers (scan_reap t s2)) (da_device_id a) = None"
proof -
  have step: "scan_datagram uparse ustr now' secs' from packet u =
    (if map_option pi_address (peer_get (sc_peers u) (da_device_id a)) = Some (show_addr (sa_ip from) (sa_port from))
     then u
     else u\<lparr>sc_peers := peer_register (announced_peer now' from a) (sc_peers u),
            sc_found := sc_found u @ [announced_device secs' from a]\<rparr>)" for now' secs' u
    using assms(1) unfolding announces_def by (intro scan_announce) auto
  have s1: "s1 = s\<lparr>sc_peers := peer_register (announced_peer now from a) (sc_peers s),
      sc_found := sc_found s @ [announced_device secs from a]\<rparr>"
    using assms(2,5) step by simp
  then have get1: "peer_get (sc_peers s1) (da_device_id a) = Some (announced_peer now from a)"
    by (simp add: ps.lookup_put)
  have s2: "s2 = s1"
    unfolding assms(6) by (induction times') (simp_all add: step get1 case_prod_unfold)
  have wf: "hm_wf (pm_peers (sc_peers s1))" "pm_expiry (sc_peers s1) = pm_expiry (sc_peers s)"
    using assms(3) by (simp_all add: s1 peer_register_def)
  have "peer_get (sc_peers (scan_reap t s2)) (da_device_id a) = None"
    using reap_get [OF wf(1), of t "da_device_id a"] get1 assms(4)
    by (simp add: scan_reap_def s2 wf(2) alive_def)
  then show ?thesis using s1 get1 s2 by (simp add: announced_device_def)
qed

definition demo_scanner :: scanner where
  "demo_scanner = \<lparr>sc_peers = peer_manager_new 120000, sc_our = None, sc_sent = [], sc_found = []\<rparr>"

theorem scan_never_refreshes_witness:
  "peer_get (sc_peers (scan_reap 120005 (fold (\<lambda>(now, secs). scan_datagram demo_uparse demo_ustr now secs
      \<lparr>sa_ip = ''10.0.0.1'', sa_port = 40000\<rparr> (encode_announce demo_uparse demo_announce))
      [(100000, 0), (119999, 0)]
      (scan_datagram demo_uparse demo_ustr 5 0 \<lparr>sa_ip = ''10.0.0.1'', sa_port = 40000\<rparr>
        (encode_announce demo_uparse demo_announce) demo_scanner)))) ''id-1'' = None"
proof -
  have len: "length (encode_announce demo_uparse demo_announce) \<le> MAX_MSG_SIZE"
    by (simp add: encode_announce_def MAX_MSG_SIZE_def DISCOVERY_MAGIC_def uuid_bytes_def str16_def str8_def
        demo_announce_def demo_uparse_def Let_def)
  have ann: "announces demo_ustr demo_announce (encode_announce demo_uparse demo_announce)"
    using len decode_announce_rest [OF demo_announce_ok, of "[]"]
      announce_not_query [of demo_announce demo_ustr demo_uparse "[]"]
    by (simp add: announces_def demo_announce_def)
  have none: "peer_get (sc_peers demo_scanner) (da_device_id demo_announce) = None"
    and wf: "hm_wf (pm_peers (sc_peers demo_scanner))"
    and exp: "pm_expiry (sc_peers demo_scanner) \<le> 120005 - 5"
    by (simp_all add: demo_scanner_def peer_manager_new_def peer_get_def)
  have i: "da_device_id demo_announce = ''id-1''" by (simp add: demo_announce_def)
  show ?thesis
    by (rule scan_never_refreshes [OF ann none wf exp refl refl, unfolded i, THEN conjunct2,
          THEN conjunct2, THEN conjunct2, THEN conjunct2])
qed

text \<open>Queries: another device gets our announcement as a response at its address; our own query and a
  query while we have nothing to announce are ignored; no query changes the registry.\<close>

lemma scan_query:
  assumes "decode_query ustr (take MAX_MSG_SIZE packet) = Some q"
  shows "sc_peers (scan_datagram uparse ustr now secs from packet s) = sc_peers s
    \<and> sc_found (scan_datagram uparse ustr now secs from packet s) = sc_found s
    \<and> sc_sent (scan_datagram uparse ustr now secs from packet s) = sc_sent s @
        (case sc_our s of
           Some our \<Rightarrow> if dq_device_id q \<noteq> da_device_id our
             then [(from, encode_announce uparse (our\<lparr>da_msg_type := MResponse\<rparr>))] else []
         | None \<Rightarrow> [])"
  using assms by (auto simp: scan_datagram_def Let_def split: option.splits)

text \<open>The own announcement is not skipped: it registers this device as its own peer.\<close>

lemma scan_registers_itself:
  assumes "announces ustr our packet" and "sc_our s = Some our" and "peer_get (sc_peers s) (da_device_id our) = None"
  shows "peer_get (sc_peers (scan_datagram uparse ustr now secs from packet s)) (da_device_id our) \<noteq> None"
  using assms scan_announce [of ustr packet our uparse now secs "from" s]
  by (simp add: announces_def ps.lookup_put)

end
