(* ===== verification/Streaming.thy ===== *)
theory Streaming
  imports Session
begin

text \<open>
  The transfer engine: \<^verbatim>\<open>crates/transfer_engine/src/streaming.rs\<close> with the request, target and
  handle types of \<^verbatim>\<open>src/lib.rs\<close>.

  The file system is an argument: the node behind a path. The result of uploading the file at a
  position of the request (\<^verbatim>\<open>http::upload_file\<close>) is an argument too, and so is the fresh identifier.
\<close>

section \<open>Files\<close>

datatype fs_node = FsFile u64 | FsDir "fs_node list" | FsOther

text \<open>A node that is neither a file nor a directory counts for nothing.\<close>

fun dir_total_size :: "fs_node list \<Rightarrow> u64" where
  "dir_total_size [] = 0"
| "dir_total_size (FsFile n # es) = n + dir_total_size es"
| "dir_total_size (FsDir ds # es) = dir_total_size ds + dir_total_size es"
| "dir_total_size (FsOther # es) = dir_total_size es"

type_synonym fs = "string \<Rightarrow> fs_node option"

definition file_size :: "fs \<Rightarrow> string \<Rightarrow> u64 option" where
  "file_size fs path =
    (case fs path of
       Some (FsFile n) \<Rightarrow> Some n
     | Some (FsDir es) \<Rightarrow> Some (dir_total_size es)
     | _ \<Rightarrow> None)"

section \<open>Requests and handles\<close>

datatype remote_target =
    RHttp string u16 "string option" | RTcp string u16 "string option"
  | RUdp string u16 | RQuic string u16 | RLocal string

record transfer_request =
  trq_sources :: "string list"
  trq_destination :: remote_target
  trq_direction :: transfer_direction
  trq_options :: transfer_options

datatype transfer_status = TsIdle | TsRunning | TsPaused | TsCompleted | TsFailed string

record transfer_handle =
  th_id :: string
  th_state :: transfer_status
  th_progress :: transfer_progress

record upload_result =
  ur_bytes_sent :: u64
  ur_bytes_total :: u64
  ur_speed_mbps :: fl

record cancel_token =
  ct_cancelled :: bool
  ct_reason :: "string option"

definition cancel_token_new :: cancel_token where
  "cancel_token_new = \<lparr>ct_cancelled = False, ct_reason = None\<rparr>"

definition token_cancel :: "string \<Rightarrow> cancel_token \<Rightarrow> cancel_token" where
  "token_cancel reason t = t\<lparr>ct_cancelled := True, ct_reason := Some reason\<rparr>"

section \<open>The engine\<close>

type_synonym engine = "(string, transfer_handle) hmap"

text \<open>The transport of one source: only uploads over HTTP or TCP are implemented.\<close>

fun dispatch_source :: "remote_target \<Rightarrow> transfer_direction \<Rightarrow> anyhow + upload_result \<Rightarrow> anyhow + upload_result" where
  "dispatch_source (RHttp _ _ _) Upload r = r"
| "dispatch_source (RHttp _ _ _) Download r = Inl ''Download via HTTP not yet implemented in engine''"
| "dispatch_source (RTcp _ _ _) Upload r = r"
| "dispatch_source (RTcp _ _ _) Download r = Inl ''Download via TCP not yet implemented in engine''"
| "dispatch_source (RUdp _ _) _ r = Inl ''UDP/QUIC transport not yet integrated into engine''"
| "dispatch_source (RQuic _ _) _ r = Inl ''UDP/QUIC transport not yet integrated into engine''"
| "dispatch_source (RLocal _) _ r = Inl ''Local transfers not supported via streaming engine''"

record run_totals =
  rt_bytes_sent :: u64
  rt_bytes_all :: u64
  rt_files_completed :: nat

text \<open>The loop over the sources; it stops at the first error.\<close>

fun run_sources ::
  "fs \<Rightarrow> (nat \<Rightarrow> anyhow + upload_result) \<Rightarrow> remote_target \<Rightarrow> transfer_direction \<Rightarrow> string
     \<Rightarrow> nat \<Rightarrow> string list \<Rightarrow> run_totals \<times> engine \<Rightarrow> anyhow option \<times> run_totals \<times> engine" where
  "run_sources fs upload dest dir i k [] (t, eng) = (None, t, eng)"
| "run_sources fs upload dest dir i k (src # srcs) (t, eng) =
    (let t1 = t\<lparr>rt_bytes_all := rt_bytes_all t + (case file_size fs src of Some n \<Rightarrow> n | None \<Rightarrow> 0)\<rparr> in
     (case dispatch_source dest dir (upload k) of
        Inl e \<Rightarrow> (Some e, t1, eng)
      | Inr s \<Rightarrow>
         (let sent = rt_bytes_sent t1 + ur_bytes_sent s;
              t2 = t1\<lparr>rt_bytes_sent := sent, rt_files_completed := rt_files_completed t1 + 1\<rparr>;
              eng' = hm_modify i (\<lambda>h. h\<lparr>th_progress := (th_progress h)
                 \<lparr>tpg_bytes_sent := sent, tpg_speed_mbps := ur_speed_mbps s\<rparr>\<rparr>) eng in
          run_sources fs upload dest dir i (Suc k) srcs (t2, eng'))))"

definition requested_total :: "fs \<Rightarrow> string list \<Rightarrow> u64" where
  "requested_total fs srcs = sum_list (List.map_filter (file_size fs) srcs)"

definition engine_execute ::
  "string \<Rightarrow> fs \<Rightarrow> (nat \<Rightarrow> anyhow + upload_result) \<Rightarrow> transfer_request \<Rightarrow> engine
     \<Rightarrow> (anyhow + transfer_handle) \<times> engine" where
  "engine_execute fresh fs upload req eng =
    (let srcs = trq_sources req;
         h = \<lparr>th_id = fresh, th_state = TsRunning,
              th_progress = \<lparr>tpg_bytes_sent = 0, tpg_bytes_total = requested_total fs srcs, tpg_speed_mbps = Fin 0,
                 tpg_files_completed = 0, tpg_files_total = length srcs\<rparr>\<rparr>;
         (err, t, eng1) = run_sources fs upload (trq_destination req) (trq_direction req) fresh 0 srcs
           (\<lparr>rt_bytes_sent = 0, rt_bytes_all = 0, rt_files_completed = 0\<rparr>, hm_insert fresh h eng) in
     (case err of
        Some e \<Rightarrow> (Inl e, hm_modify fresh (\<lambda>h. h\<lparr>th_state := TsFailed e\<rparr>) eng1)
      | None \<Rightarrow>
         (Inr \<lparr>th_id = fresh, th_state = TsCompleted,
            th_progress = \<lparr>tpg_bytes_sent = rt_bytes_sent t, tpg_bytes_total = rt_bytes_all t, tpg_speed_mbps = Fin 0,
              tpg_files_completed = rt_files_completed t, tpg_files_total = length srcs\<rparr>\<rparr>,
          hm_modify fresh (\<lambda>h. h\<lparr>th_state := TsCompleted\<rparr>) eng1)))"

text \<open>The same with a cancel token, which is checked before the start.\<close>

definition engine_execute_with_cancel ::
  "string \<Rightarrow> fs \<Rightarrow> (nat \<Rightarrow> anyhow + upload_result) \<Rightarrow> cancel_token \<Rightarrow> transfer_request \<Rightarrow> engine
     \<Rightarrow> (anyhow + transfer_handle) \<times> engine" where
  "engine_execute_with_cancel fresh fs upload tok req eng =
    (if ct_cancelled tok
     then (Inl (''cancelled: '' @ (case ct_reason tok of Some r \<Rightarrow> r | None \<Rightarrow> [])), eng)
     else engine_execute fresh fs upload req eng)"

definition engine_cancel :: "string \<Rightarrow> engine \<Rightarrow> engine" where
  "engine_cancel i eng = hm_remove i eng"

definition engine_status :: "string \<Rightarrow> engine \<Rightarrow> anyhow + transfer_progress" where
  "engine_status i eng =
    (case hm_get eng i of Some h \<Rightarrow> Inr (th_progress h) | None \<Rightarrow> Inl (''Transfer not found: '' @ i))"

section \<open>What a run of the engine does\<close>

definition sent_of :: "anyhow + upload_result \<Rightarrow> u64" where
  "sent_of r = (case r of Inl _ \<Rightarrow> 0 | Inr u \<Rightarrow> ur_bytes_sent u)"

definition size_or_zero :: "fs \<Rightarrow> string \<Rightarrow> u64" where
  "size_or_zero fs path = (case file_size fs path of Some n \<Rightarrow> n | None \<Rightarrow> 0)"

lemma requested_total_sizes: "requested_total fs srcs = sum_list (map (size_or_zero fs) srcs)"
  by (induction srcs)
    (simp_all add: requested_total_def size_or_zero_def List.map_filter_def split: option.splits)

lemma sum_upt_Suc: "sum_list (map f [0..<Suc n]) = (f 0 :: u64) + sum_list (map (\<lambda>j. f (Suc j)) [0..<n])"
  by (simp add: map_upt_Suc del: upt_Suc)

text \<open>The loop: \<open>m\<close> sources are uploaded before it ends, and the stored handle follows.\<close>

lemma run_sources_spec:
  assumes "run_sources fs upload dest dir i k srcs (t, eng) = (err, t', eng')"
    and "hm_get eng i = Some h" and "tpg_bytes_sent (th_progress h) = rt_bytes_sent t"
  obtains m h' where "\<forall>j < m. \<exists>u. dispatch_source dest dir (upload (k + j)) = Inr u"
    "rt_files_completed t' = rt_files_completed t + m"
    "rt_bytes_sent t' = rt_bytes_sent t + sum_list (map (\<lambda>j. sent_of (dispatch_source dest dir (upload (k + j)))) [0..<m])"
    "case err of
       None \<Rightarrow> m = length srcs \<and> rt_bytes_all t' = rt_bytes_all t + sum_list (map (size_or_zero fs) srcs)
     | Some e \<Rightarrow> m < length srcs \<and> dispatch_source dest dir (upload (k + m)) = Inl e"
    "hm_get eng' i = Some h'" "tpg_bytes_sent (th_progress h') = rt_bytes_sent t'"
    "\<forall>j. j \<noteq> i \<longrightarrow> hm_get eng' j = hm_get eng j"
  using assms
proof (induction srcs arbitrary: k t eng h thesis)
  case Nil
  then show ?case by (auto intro!: Nil(1) [of 0])
next
  case (Cons src srcs)
  let ?res = "\<lambda>j. dispatch_source dest dir (upload j)"
  show ?case
  proof (cases "?res k")
    case (Inl e)
    then show ?thesis using Cons.prems by (auto intro!: Cons.prems(1) [of 0])
  next
    case (Inr u)
    let ?t1 = "t\<lparr>rt_bytes_all := rt_bytes_all t + size_or_zero fs src,
      rt_bytes_sent := rt_bytes_sent t + ur_bytes_sent u, rt_files_completed := rt_files_completed t + 1\<rparr>"
    let ?upd = "\<lambda>h. h\<lparr>th_progress := (th_progress h)
      \<lparr>tpg_bytes_sent := rt_bytes_sent t + ur_bytes_sent u, tpg_speed_mbps := ur_speed_mbps u\<rparr>\<rparr>"
    have run: "run_sources fs upload dest dir i (Suc k) srcs (?t1, hm_modify i ?upd eng) = (err, t', eng')"
      using Cons.prems(2) Inr by (simp add: Let_def size_or_zero_def)
    obtain m h' where ih: "\<forall>j < m. \<exists>u. ?res (Suc k + j) = Inr u"
      "rt_files_completed t' = rt_files_completed ?t1 + m"
      "rt_bytes_sent t' = rt_bytes_sent ?t1 + sum_list (map (\<lambda>j. sent_of (?res (Suc k + j))) [0..<m])"
      "case err of
         None \<Rightarrow> m = length srcs \<and> rt_bytes_all t' = rt_bytes_all ?t1 + sum_list (map (size_or_zero fs) srcs)
       | Some e \<Rightarrow> m < length srcs \<and> ?res (Suc k + m) = Inl e"
      "hm_get eng' i = Some h'" "tpg_bytes_sent (th_progress h') = rt_bytes_sent t'"
      "\<forall>j. j \<noteq> i \<longrightarrow> hm_get eng' j = hm_get (hm_modify i ?upd eng) j"
      by (rule Cons.IH [where h = "?upd h", OF _ run]) (use Cons.prems(3) in simp_all)
    have "\<forall>j < Suc m. \<exists>u. ?res (k + j) = Inr u"
      using ih(1) Inr by (auto simp: less_Suc_eq_0_disj)
    then show ?thesis
      by (rule Cons.prems(1) [of "Suc m" h'])
        (use ih Inr in \<open>simp_all add: sum_upt_Suc sent_of_def add.assoc split: option.splits del: upt_Suc\<close>)
  qed
qed

text \<open>C17. What a run of the engine returns: it succeeds exactly when every source is uploaded; a download, or a
  UDP, QUIC or local target, succeeds only where there are no sources. It then reports the sums of the bytes sent and of
  the sizes and every file as completed. Otherwise it returns the first error, nothing after it is
  tried, and the stored handle is failed with that error and shows the bytes of the sources before it.
  Handles of other transfers are untouched, and a token that is already cancelled starts nothing.\<close>

theorem engine_execute_spec:
  assumes "engine_execute fresh fs upload req eng = (r, eng')"
    and "res = (\<lambda>k. dispatch_source (trq_destination req) (trq_direction req) (upload k))"
    and "n = length (trq_sources req)"
  shows "((\<exists>h. r = Inr h) \<longleftrightarrow> (\<forall>k < n. \<exists>u. res k = Inr u))
    \<and> (\<forall>h. r = Inr h \<longrightarrow> th_id h = fresh \<and> th_state h = TsCompleted
          \<and> tpg_bytes_sent (th_progress h) = sum_list (map (sent_of \<circ> res) [0..<n])
          \<and> tpg_bytes_total (th_progress h) = requested_total fs (trq_sources req)
          \<and> tpg_files_completed (th_progress h) = n)
    \<and> (\<forall>e. r = Inl e \<longrightarrow> (\<exists>k < n. res k = Inl e \<and> (\<forall>j < k. \<exists>u. res j = Inr u)
          \<and> map_option th_state (hm_get eng' fresh) = Some (TsFailed e)
          \<and> map_option (tpg_bytes_sent \<circ> th_progress) (hm_get eng' fresh) = Some (sum_list (map (sent_of \<circ> res) [0..<k]))))
    \<and> ((\<nexists>h p path. trq_direction req = Upload \<and> trq_destination req \<in> {RHttp h p path, RTcp h p path})
        \<longrightarrow> (\<exists>h. r = Inr h) = (trq_sources req = []))
    \<and> (i \<noteq> fresh \<longrightarrow> hm_get eng' i = hm_get eng i)
    \<and> (ct_cancelled tok \<longrightarrow> engine_execute_with_cancel fresh fs upload tok req eng =
          (Inl (''cancelled: '' @ (case ct_reason tok of Some why \<Rightarrow> why | None \<Rightarrow> [])), eng))"
proof -
  let ?t0 = "\<lparr>rt_bytes_sent = 0, rt_bytes_all = 0, rt_files_completed = 0\<rparr>"
  let ?h = "\<lparr>th_id = fresh, th_state = TsRunning,
     th_progress = \<lparr>tpg_bytes_sent = 0, tpg_bytes_total = requested_total fs (trq_sources req), tpg_speed_mbps = Fin 0,
       tpg_files_completed = 0, tpg_files_total = length (trq_sources req)\<rparr>\<rparr>"
  obtain err t1 eng1 where run: "run_sources fs upload (trq_destination req) (trq_direction req) fresh 0
      (trq_sources req) (?t0, hm_insert fresh ?h eng) = (err, t1, eng1)"
    by (metis prod_cases3)
  obtain m h' where sp: "\<forall>j < m. \<exists>u. res j = Inr u"
    "rt_files_completed t1 = m" "rt_bytes_sent t1 = sum_list (map (sent_of \<circ> res) [0..<m])"
    "case err of None \<Rightarrow> m = n \<and> rt_bytes_all t1 = requested_total fs (trq_sources req)
       | Some e \<Rightarrow> m < n \<and> res m = Inl e"
    "hm_get eng1 fresh = Some h'" "tpg_bytes_sent (th_progress h') = rt_bytes_sent t1"
    "\<forall>j. j \<noteq> fresh \<longrightarrow> hm_get eng1 j = hm_get eng j"
    by (rule run_sources_spec [OF run, of ?h])
      (auto simp: assms(2,3) requested_total_sizes comp_def split: option.splits)
  have first: "\<not> (\<forall>k < n. \<exists>u. res k = Inr u)" if "err = Some e" for e
    using sp(4) that by (auto dest: spec [of _ m])
  have other: "(\<forall>k < n. \<exists>u. res k = Inr u) = (trq_sources req = [])"
    if "\<nexists>h p path. trq_direction req = Upload \<and> trq_destination req \<in> {RHttp h p path, RTcp h p path}"
    using that assms(2,3) by (cases "(trq_destination req, trq_direction req, Inl [] :: anyhow + upload_result)" rule: dispatch_source.cases) auto
  show ?thesis
  proof (cases err)
    case None
    then show ?thesis using assms(1) run sp other
      by (auto simp: engine_execute_def engine_execute_with_cancel_def Let_def)
  next
    case (Some e)
    have r: "r = Inl e" and eng': "eng' = hm_modify fresh (\<lambda>h. h\<lparr>th_state := TsFailed e\<rparr>) eng1"
      using assms(1) run Some by (simp_all add: engine_execute_def Let_def)
    have "\<exists>k < n. res k = Inl e \<and> (\<forall>j < k. \<exists>u. res j = Inr u)
          \<and> map_option th_state (hm_get eng' fresh) = Some (TsFailed e)
          \<and> map_option (tpg_bytes_sent \<circ> th_progress) (hm_get eng' fresh) = Some (sum_list (map (sent_of \<circ> res) [0..<k]))"
      using sp Some by (intro exI [of _ m]) (simp add: eng')
    then show ?thesis using first [OF Some] sp(7) r other
      by (auto simp: eng' engine_execute_with_cancel_def)
  qed
qed

theorem engine_execute_spec_witness:
  "map_option th_state (hm_get (snd (engine_execute ''t'' (\<lambda>_. Some (FsFile 5))
      (\<lambda>k. if k = 0 then Inr \<lparr>ur_bytes_sent = 5, ur_bytes_total = 5, ur_speed_mbps = Fin 1\<rparr> else Inl ''reset'')
      \<lparr>trq_sources = [''a'', ''b''], trq_destination = RTcp ''h'' 1 None, trq_direction = Upload,
       trq_options = options_default\<rparr> [])) ''t'') = Some (TsFailed ''reset'')"
proof -
  let ?up = "\<lambda>k :: nat. if k = 0 then Inr \<lparr>ur_bytes_sent = 5, ur_bytes_total = 5, ur_speed_mbps = Fin 1\<rparr> else Inl ''reset''"
  let ?req = "\<lparr>trq_sources = [''a'', ''b''], trq_destination = RTcp ''h'' 1 None, trq_direction = Upload,
       trq_options = options_default\<rparr>"
  let ?run = "engine_execute ''t'' (\<lambda>_. Some (FsFile 5)) ?up ?req []"
  have failed: "fst ?run = Inl ''reset''" by (simp add: engine_execute_def Let_def)
  then have run: "?run = (Inl ''reset'', snd ?run)" by (metis prod.collapse)
  show ?thesis
    using engine_execute_spec [OF run refl refl, THEN conjunct2, THEN conjunct2, THEN conjunct1,
        rule_format, OF refl] by blast
qed

text \<open>The identifiers: a handle's identifier is a fresh one of the engine, so cancelling or asking for the
  status of any other identifier finds nothing.\<close>

lemma engine_unknown:
  assumes "hm_get eng i = None"
  shows "engine_cancel i eng = eng" and "engine_status i eng = Inl (''Transfer not found: '' @ i)"
proof -
  have "i \<notin> fst ` set eng" using assms by (simp add: hm_get_def map_of_eq_None_iff)
  then show "engine_cancel i eng = eng" by (simp add: engine_cancel_def hm_remove_def delete_id)
  show "engine_status i eng = Inl (''Transfer not found: '' @ i)" using assms by (simp add: engine_status_def)
qed

end
