(* ===== verification/Identity.thy ===== *)
theory Identity
  imports Rust_Text
begin

text \<open>
  The device identity: \<^verbatim>\<open>crates/transfer_engine/src/identity.rs\<close>.

  The configuration file is its content (\<open>None\<close> where it does not exist) and whether it can be
  written. JSON and SHA-256 are arguments, and so is the identity a first start generates (a random
  UUID, the host name and the platform).
\<close>

record device_identity =
  did_device_id :: string
  did_device_name :: string
  did_device_model :: string
  did_software_version :: string

definition identity_fingerprint :: "(bytes \<Rightarrow> bytes) \<Rightarrow> device_identity \<Rightarrow> string" where
  "identity_fingerprint sha256 d = hex_bytes (sha256 (as_bytes (did_device_id d)))"

record identity_manager =
  im_inner :: device_identity
  im_file :: "string option"
  im_writable :: bool

definition identity_persist :: "(device_identity \<Rightarrow> string + string) \<Rightarrow> identity_manager \<Rightarrow> identity_manager" where
  "identity_persist ser m =
    (case ser (im_inner m) of
       Inl _ \<Rightarrow> m
     | Inr data \<Rightarrow> if im_writable m then m\<lparr>im_file := Some data\<rparr> else m)"

definition identity_new ::
  "(device_identity \<Rightarrow> string + string) \<Rightarrow> (string \<Rightarrow> string + device_identity) \<Rightarrow> device_identity
     \<Rightarrow> string option \<Rightarrow> bool \<Rightarrow> identity_manager" where
  "identity_new ser de generated config writable =
    (case config of
       Some data \<Rightarrow>
         \<lparr>im_inner = (case de data of Inr d \<Rightarrow> d | Inl _ \<Rightarrow> generated),
          im_file = config, im_writable = writable\<rparr>
     | None \<Rightarrow>
         identity_persist ser \<lparr>im_inner = generated, im_file = None, im_writable = writable\<rparr>)"

definition identity_set_name ::
  "(device_identity \<Rightarrow> string + string) \<Rightarrow> string \<Rightarrow> identity_manager \<Rightarrow> identity_manager" where
  "identity_set_name ser name m =
     identity_persist ser (m\<lparr>im_inner := (im_inner m)\<lparr>did_device_name := name\<rparr>\<rparr>)"

text \<open>A restart keeps the identity where the file can be written and JSON round-trips; where the stored
  file cannot be parsed, every start takes a newly generated identity and does not store it.\<close>

lemma identity_restart:
  assumes "ser (im_inner (identity_new ser de g None True)) = Inr data" and "de data = Inr g"
  shows "im_inner (identity_new ser de g' (im_file (identity_new ser de g None True)) True) = g"
proof -
  have "identity_new ser de g None True = \<lparr>im_inner = g, im_file = (case ser g of Inl _ \<Rightarrow> None | Inr d \<Rightarrow> Some d), im_writable = True\<rparr>"
    by (simp add: identity_new_def identity_persist_def split: sum.splits)
  with assms show ?thesis by (simp add: identity_new_def)
qed

lemma identity_corrupt:
  assumes "de data = Inl e"
  shows "im_inner (identity_new ser de g (Some data) w) = g \<and> im_file (identity_new ser de g (Some data) w) = Some data"
  using assms by (simp add: identity_new_def)

lemma identity_rename:
  "did_device_name (im_inner (identity_set_name ser n m)) = n
   \<and> did_device_id (im_inner (identity_set_name ser n m)) = did_device_id (im_inner m)"
  by (simp add: identity_set_name_def identity_persist_def split: sum.splits)

end
