(* ===== verification/Coordinator.thy ===== *)
theory Coordinator
  imports Streaming Identity Resume Pairing Discovery
begin

text \<open>
  The transfer coordinator: \<^verbatim>\<open>TransferCoordinator\<close> and its \<^verbatim>\<open>TransferEngine\<close> implementation in
  \<^verbatim>\<open>crates/transfer_engine/src/lib.rs\<close>.

  Every asynchronous method is a function on the coordinator's state, cut where it waits for the
  network or for another task, so that other operations can happen in between; \<open>co_step\<close> puts the
  pieces together. The broadcast channels are the lists of the values sent on them. JSON, the file
  system, the clock, the network and the results of uploads are arguments.
\<close>

section \<open>State\<close>

datatype transfer_event =
    EvStarted string string u64 | EvProgress string u64 u64 fl | EvCompleted string u64
  | EvFailed string string | EvCancelled string string

datatype session_event =
    SePeerDiscovered device_info
  | SeStarted string string string "string list"
  | SeRequested string string string "string list"
  | SeActive string
  | SeFileProgress string string u64 u64
  | SeProgress string session_progress
  | SeCompleted string u64
  | SeFailed string string
  | SeCancelled string string
  | SePairingRequested string string string
  | SePairingConfirmed string string
  | SePairingRejected string

record transfer_model =
  tmd_id :: string
  tmd_files :: "string list"
  tmd_total_bytes :: u64
  tmd_sent_bytes :: u64
  tmd_speed_mbps :: fl
  tmd_status :: transfer_status
  tmd_peer_id :: string
  tmd_peer_name :: string
  tmd_direction :: transfer_direction
  tmd_created_at :: u64

text \<open>A responder is the sending half of the one-shot channel of a waiting handler; \<open>co_answers\<close> holds
  what has been sent to the handlers.\<close>

record coordinator =
  co_engine :: engine
  co_sessions :: session_manager
  co_peers :: peer_manager
  co_identity :: identity_manager
  co_resume :: resume_manager
  co_tokens :: "(string, cancel_token) hmap"
  co_progress :: "(string, transfer_progress list) hmap"
  co_events :: "(string, transfer_event list) hmap"
  co_states :: "(string, transfer_status) hmap"
  co_transfers :: "(string, transfer_model) hmap"
  co_devices :: "device_info list"
  co_pairing :: pairing_manager
  co_session_events :: "(string, session_event list) hmap"
  co_responders :: "(string, nat) hmap"
  co_answers :: "(nat, string + session_accept_payload) hmap"

definition coordinator_new :: "tofu_store \<Rightarrow> identity_manager \<Rightarrow> resume_manager \<Rightarrow> coordinator" where
  "coordinator_new tofu ident rm = \<lparr>co_engine = [], co_sessions = session_manager_new 100,
     co_peers = peer_manager_new 120000, co_identity = ident, co_resume = rm, co_tokens = [],
     co_progress = [], co_events = [], co_states = [], co_transfers = [], co_devices = [],
     co_pairing = pairing_new tofu, co_session_events = [], co_responders = [], co_answers = []\<rparr>"

text \<open>Serialisation and texts, and what the operating system says.\<close>

record coord_env =
  ce_resume :: resume_env
  ce_lower :: "string \<Rightarrow> string"
  ce_quic :: bool
  ce_hello_ser :: "handshake_payload \<Rightarrow> string + string"
  ce_hello_de :: "string \<Rightarrow> string + handshake_payload"
  ce_request_ser :: "session_request_payload \<Rightarrow> string + bytes"
  ce_request_de :: "bytes \<Rightarrow> string + session_request_payload"
  ce_accept_ser :: "session_accept_payload \<Rightarrow> string + bytes"
  ce_accept_de :: "bytes \<Rightarrow> string + session_accept_payload"
  ce_reject_ser :: "session_reject_payload \<Rightarrow> string + bytes"
  ce_reject_de :: "bytes \<Rightarrow> string + session_reject_payload"
  ce_show_io :: "io_error \<Rightarrow> string"
  ce_sha256 :: "bytes \<Rightarrow> bytes"

record world =
  wd_now :: instant
  wd_secs :: u64
  wd_nanos :: "nat \<Rightarrow> nat"
  wd_meta :: "string \<Rightarrow> u64 option"
  wd_read :: "string \<Rightarrow> bytes option"
  wd_fs :: fs

section \<open>Helpers\<close>

definition emit_event :: "string \<Rightarrow> transfer_event \<Rightarrow> coordinator \<Rightarrow> coordinator" where
  "emit_event i ev c = c\<lparr>co_events := hm_modify i (\<lambda>l. l @ [ev]) (co_events c)\<rparr>"

fun event_channel :: "session_event \<Rightarrow> string option" where
  "event_channel (SePeerDiscovered _) = None"
| "event_channel (SeStarted i _ _ _) = Some i"
| "event_channel (SeRequested i _ _ _) = Some i"
| "event_channel (SeActive i) = Some i"
| "event_channel (SeFileProgress i _ _ _) = Some i"
| "event_channel (SeProgress i _) = Some i"
| "event_channel (SeCompleted i _) = Some i"
| "event_channel (SeFailed i _) = Some i"
| "event_channel (SeCancelled i _) = Some i"
| "event_channel (SePairingRequested _ d _) = Some d"
| "event_channel (SePairingConfirmed d _) = Some d"
| "event_channel (SePairingRejected d) = Some d"

definition emit_session_event :: "session_event \<Rightarrow> coordinator \<Rightarrow> coordinator" where
  "emit_session_event ev c =
    (case event_channel ev of
       None \<Rightarrow> c
     | Some i \<Rightarrow> c\<lparr>co_session_events := hm_modify i (\<lambda>l. l @ [ev]) (co_session_events c)\<rparr>)"

definition parse_addr :: "string \<Rightarrow> anyhow + string \<times> u16" where
  "parse_addr addr =
    (case rsplit_once (CHR '':'') addr of
       Some (host, port_str) \<Rightarrow>
         (case parse_unsigned (2 ^ 16) port_str of
            Some p \<Rightarrow> Inr (host, of_nat p)
          | None \<Rightarrow> Inl (''Invalid port in address: '' @ addr))
     | None \<Rightarrow> Inl (''Invalid peer address (expected host:port): '' @ addr))"

lemma parse_addr_roundtrip: "parse_addr (host @ CHR '':'' # show_nat (unat p)) = Inr (host, p)"
proof -
  have "CHR '':'' \<notin> set (show_nat (unat p))"
    using show_nat_digits [of "unat p"] by (auto simp: list_all_iff is_ascii_digit_def code_def)
  moreover have "unat p < 2 ^ 16" using unsigned_less [of p] by simp
  ultimately show ?thesis by (simp add: parse_addr_def rsplit_once_append parse_show_nat)
qed

definition compute_file_hash :: "coord_env \<Rightarrow> world \<Rightarrow> string \<Rightarrow> string option" where
  "compute_file_hash env w path = map_option (\<lambda>data. hex_bytes (ce_sha256 env data)) (wd_read w path)"

definition hash_or_default :: "coord_env \<Rightarrow> world \<Rightarrow> string \<Rightarrow> string" where
  "hash_or_default env w path = (case compute_file_hash env w path of Some h \<Rightarrow> h | None \<Rightarrow> [])"

definition len_or_zero :: "world \<Rightarrow> string \<Rightarrow> u64" where
  "len_or_zero w path = (case wd_meta w path of Some n \<Rightarrow> n | None \<Rightarrow> 0)"

text \<open>\<^verbatim>\<open>let _ = ...\<close> on a result of the resume manager\<close>

definition resume_ignore :: "(resume_manager \<Rightarrow> string + resume_manager) \<Rightarrow> coordinator \<Rightarrow> coordinator" where
  "resume_ignore f c = (case f (co_resume c) of Inl _ \<Rightarrow> c | Inr m \<Rightarrow> c\<lparr>co_resume := m\<rparr>)"

definition set_state :: "instant \<Rightarrow> string \<Rightarrow> session_state \<Rightarrow> string option \<Rightarrow> coordinator \<Rightarrow> coordinator" where
  "set_state now i st err c = c\<lparr>co_sessions := snd (update_state now i st err (co_sessions c))\<rparr>"

definition set_device_name :: "(device_identity \<Rightarrow> string + string) \<Rightarrow> string \<Rightarrow> coordinator \<Rightarrow> coordinator" where
  "set_device_name ser name c = c\<lparr>co_identity := identity_set_name ser name (co_identity c)\<rparr>"

definition upsert_device :: "device_info \<Rightarrow> coordinator \<Rightarrow> coordinator" where
  "upsert_device d c =
    (if \<exists>x \<in> set (co_devices c). di_device_id x = di_device_id d
     then c\<lparr>co_devices := update_first (\<lambda>x. di_device_id x = di_device_id d)
       (\<lambda>x. x\<lparr>di_last_seen := di_last_seen d, di_addresses := di_addresses d\<rparr>) (co_devices c)\<rparr>
     else c\<lparr>co_devices := co_devices c @ [d]\<rparr>)"

definition discover_peers :: "instant \<Rightarrow> u64 \<Rightarrow> coordinator \<Rightarrow> device_info list" where
  "discover_peers now secs c = map (\<lambda>p.
     \<lparr>di_device_id = pi_id p, di_name = pi_name p, di_device_type = pi_platform p,
      di_trust_status = (case Pairing.trust_status (pi_id p) (co_pairing c) of
          PTrusted \<Rightarrow> TTrusted | PBlocked \<Rightarrow> TBlocked | PPending _ _ \<Rightarrow> TUnknown | PUnknown \<Rightarrow> TUnknown),
      di_last_seen = secs, di_addresses = [pi_address p], di_transport_flags = 0,
      di_protocol_version = pi_version p\<rparr>) (list_alive now (co_peers c))"

section \<open>One transfer\<close>

definition transfer_begin ::
  "world \<Rightarrow> string \<Rightarrow> string \<Rightarrow> string \<Rightarrow> string \<Rightarrow> transfer_options \<Rightarrow> coordinator \<Rightarrow> coordinator" where
  "transfer_begin w fresh peer_addr source file_name options c =
    (let c1 = c\<lparr>co_tokens := hm_insert fresh cancel_token_new (co_tokens c),
           co_progress := hm_insert fresh [] (co_progress c),
           co_events := hm_insert fresh [] (co_events c),
           co_sessions := sm_create (session_new (wd_now w) fresh peer_addr file_name Upload options) (co_sessions c),
           co_states := hm_insert fresh TsRunning (co_states c),
           co_transfers := hm_insert fresh
             \<lparr>tmd_id = fresh, tmd_files = [source], tmd_total_bytes = len_or_zero w source, tmd_sent_bytes = 0,
              tmd_speed_mbps = Fin 0, tmd_status = TsRunning, tmd_peer_id = peer_addr, tmd_peer_name = peer_addr,
              tmd_direction = Upload, tmd_created_at = wd_secs w\<rparr> (co_transfers c)\<rparr> in
     emit_event fresh (EvStarted fresh source (len_or_zero w source)) c1)"

definition transfer_file_id :: "string \<Rightarrow> string \<Rightarrow> string" where
  "transfer_file_id source file_name = from_utf8_lossy (as_bytes source) @ ''-'' @ file_name"

definition transfer_resume_offset ::
  "coord_env \<Rightarrow> world \<Rightarrow> string \<Rightarrow> string \<Rightarrow> transfer_options \<Rightarrow> coordinator \<Rightarrow> u64 option" where
  "transfer_resume_offset env w source file_name options c =
    (if to_resume options
     then can_resume (ce_resume env) (transfer_file_id source file_name) (hash_or_default env w source) (co_resume c)
     else None)"

text \<open>The handshake with the peer; an error leaves the session as it is.\<close>

definition transfer_connect ::
  "coord_env \<Rightarrow> world \<Rightarrow> (string \<Rightarrow> u16 \<Rightarrow> bytes \<Rightarrow> anyhow + bytes) \<Rightarrow> device_identity \<Rightarrow> string \<Rightarrow> string
     \<Rightarrow> string \<Rightarrow> string \<Rightarrow> transfer_options \<Rightarrow> coordinator \<Rightarrow> transfer_error + transfer_request \<times> coordinator" where
  "transfer_connect env w exchange device i peer_addr source file_name options c =
    (let resume_offset = (case transfer_resume_offset env w source file_name options c of Some n \<Rightarrow> n | None \<Rightarrow> 0);
         local_caps = build_payload (ce_quic env) (did_device_id device) (did_device_name device) Upload options in
     (case parse_addr peer_addr of
        Inl e \<Rightarrow> Inl (internal e)
      | Inr (host, port) \<Rightarrow>
         (case perform_handshake (ce_hello_ser env) (ce_hello_de env) exchange host port local_caps resume_offset of
            Inl e \<Rightarrow> Inl (from_anyhow (ce_lower env) e)
          | Inr remote_caps \<Rightarrow>
             (let c1 = c\<lparr>co_sessions := set_remote_caps (wd_now w) i
                     (case ce_hello_ser env remote_caps of Inr s \<Rightarrow> s | Inl _ \<Rightarrow> []) (co_sessions c)\<rparr>;
                  pref = select_best_transport (ce_quic env) local_caps remote_caps;
                  negotiated = (negotiate local_caps remote_caps)
                    \<lparr>to_transport_mode := tpf_mode pref, to_resume_offset := resume_offset,
                     to_cancel_token := Some 0\<rparr>;
                  c2 = set_state (wd_now w) i Active None (set_state (wd_now w) i Negotiating None c1) in
              Inr (\<lparr>trq_sources = [source], trq_destination = RTcp host port (Some file_name),
                    trq_direction = Upload, trq_options = negotiated\<rparr>, c2)))))"

text \<open>\<^verbatim>\<open>execute_with_cancel\<close>: the token before the start, and again when the engine is free.\<close>

definition execute_with_cancel ::
  "coord_env \<Rightarrow> world \<Rightarrow> string \<Rightarrow> (nat \<Rightarrow> anyhow + upload_result) \<Rightarrow> string \<Rightarrow> transfer_request
     \<Rightarrow> cancel_token \<Rightarrow> cancel_token \<Rightarrow> string \<Rightarrow> coordinator \<Rightarrow> (transfer_error + transfer_handle) \<times> coordinator" where
  "execute_with_cancel env w fresh upload i req tok tok' file_id c =
    (let rs = to_resume (trq_options req);
         source = (case trq_sources req of [] \<Rightarrow> [] | s # _ \<Rightarrow> s);
         c1 = (if rs
           then resume_ignore (resume_save (ce_resume env) (resume_state_new (wd_secs w) file_id source
                  (hash_or_default env w source) (len_or_zero w source)
                  (transport_mode_name (to_transport_mode (trq_options req))))) c
           else c) in
     if ct_cancelled tok then (Inl (cancelled ''user cancelled before start''), c1)
     else
       (case engine_execute_with_cancel fresh (wd_fs w) upload tok' req (co_engine c1) of
          (Inr h, eng) \<Rightarrow>
            (let c2 = c1\<lparr>co_engine := eng\<rparr>;
                 c3 = (if rs then resume_ignore (mark_completed (ce_resume env) (wd_secs w) file_id) c2 else c2);
                 c4 = c3\<lparr>co_progress := hm_modify i (\<lambda>l. l @ [th_progress h]) (co_progress c3)\<rparr> in
             (Inr h, emit_event i (EvProgress i (tpg_bytes_sent (th_progress h)) (tpg_bytes_total (th_progress h))
                (tpg_speed_mbps (th_progress h))) c4))
        | (Inl e, eng) \<Rightarrow>
            (let c2 = c1\<lparr>co_engine := eng\<rparr>;
                 c3 = (if rs then resume_ignore (update_offset (ce_resume env) (wd_secs w) file_id 0) c2 else c2) in
             (Inl (from_anyhow (ce_lower env) e), c3))))"

definition set_transfer :: "string \<Rightarrow> (transfer_model \<Rightarrow> transfer_model) \<Rightarrow> coordinator \<Rightarrow> coordinator" where
  "set_transfer i f c = c\<lparr>co_transfers := hm_modify i f (co_transfers c)\<rparr>"

definition transfer_finish :: "instant \<Rightarrow> string \<Rightarrow> transfer_error + transfer_handle \<Rightarrow> coordinator \<Rightarrow> coordinator" where
  "transfer_finish now i result c =
    (case result of
       Inr h \<Rightarrow>
         (let c1 = set_state now i SCompleted None
                (c\<lparr>co_sessions := update_progress now i (th_progress h) (co_sessions c)\<rparr>);
              c2 = c1\<lparr>co_states := hm_insert i TsCompleted (co_states c1)\<rparr>;
              c3 = set_transfer i (\<lambda>t. t\<lparr>tmd_status := TsCompleted, tmd_speed_mbps := tpg_speed_mbps (th_progress h)\<rparr>) c2 in
          emit_event i (EvCompleted i (tpg_bytes_total (th_progress h))) c3)
     | Inl e \<Rightarrow>
         (let (c1, status) = (if te_kind e = CancelledKind
                then (emit_event i (EvCancelled i (te_message e)) c, SCancelled)
                else (emit_event i (EvFailed i (te_message e)) c, SFailed));
              c2 = set_state now i status (Some (te_message e)) c1;
              c3 = c2\<lparr>co_states := hm_insert i (TsFailed (te_message e)) (co_states c2)\<rparr> in
          set_transfer i (\<lambda>t. t\<lparr>tmd_status := TsFailed (te_message e)\<rparr>) c3))"

definition token_of :: "string \<Rightarrow> coordinator \<Rightarrow> cancel_token" where
  "token_of i c = (case hm_get (co_tokens c) i of Some t \<Rightarrow> t | None \<Rightarrow> cancel_token_new)"

text \<open>\<^verbatim>\<open>start_transfer\<close> with nothing else happening in between.\<close>

definition start_transfer ::
  "coord_env \<Rightarrow> world \<Rightarrow> (string \<Rightarrow> u16 \<Rightarrow> bytes \<Rightarrow> anyhow + bytes) \<Rightarrow> string \<Rightarrow> string
     \<Rightarrow> (nat \<Rightarrow> anyhow + upload_result) \<Rightarrow> string \<Rightarrow> string \<Rightarrow> string \<Rightarrow> transfer_options
     \<Rightarrow> coordinator \<Rightarrow> (transfer_error + string) \<times> coordinator" where
  "start_transfer env w exchange fresh fresh' upload peer_addr source file_name options c =
    (let device = im_inner (co_identity c);
         c1 = transfer_begin w fresh peer_addr source file_name options c in
     (case transfer_connect env w exchange device fresh peer_addr source file_name options c1 of
        Inl e \<Rightarrow> (Inl e, c1)
      | Inr (req, c2) \<Rightarrow>
         (let (result, c3) = execute_with_cancel env w fresh' upload fresh req (token_of fresh c2) (token_of fresh c2)
                (transfer_file_id source file_name) c2 in
          (map_sum id (\<lambda>_. fresh) result, transfer_finish (wd_now w) fresh result c3))))"

section \<open>Starting a session\<close>

text \<open>\<^verbatim>\<open>Path::file_name\<close>\<close>

definition path_file_name :: "string \<Rightarrow> string option" where
  "path_file_name p =
    (case rev (filter (\<lambda>x. x \<noteq> [] \<and> x \<noteq> ''.'') (str_split (CHR ''/'') p)) of
       [] \<Rightarrow> None
     | x # _ \<Rightarrow> if x = ''..'' then None else Some x)"

definition file_metas :: "world \<Rightarrow> string list \<Rightarrow> file_meta list" where
  "file_metas w files = map (\<lambda>(k, f).
     file_meta_new (wd_nanos w k)
       (case path_file_name f of Some n \<Rightarrow> if utf8_valid n then n else ''unknown'' | None \<Rightarrow> ''unknown'')
       f (len_or_zero w f) Upload) (enumerate 0 files)"

definition session_open ::
  "world \<Rightarrow> string \<Rightarrow> string \<Rightarrow> string list \<Rightarrow> coordinator
     \<Rightarrow> (transfer_error + string \<times> u16 \<times> file_meta list) \<times> coordinator" where
  "session_open w fresh peer_id files c =
    (case peer_get (co_peers c) peer_id of
       None \<Rightarrow> (Inl (peer_unreachable ''peer not found''), c)
     | Some peer \<Rightarrow>
        (let metas = file_metas w files;
             s = with_files metas (session_new (wd_now w) fresh peer_id (pi_name peer) Upload options_default);
             c1 = set_state (wd_now w) fresh Negotiating None (c\<lparr>co_sessions := sm_create s (co_sessions c)\<rparr>);
             c2 = c1\<lparr>co_session_events := hm_insert fresh [] (co_session_events c1)\<rparr>;
             c3 = emit_session_event (SeStarted fresh peer_id (pi_name peer) (map fm_name metas)) c2 in
         (case parse_addr (pi_address peer) of
            Inl e \<Rightarrow> (Inl (peer_unreachable e), c3)
          | Inr (host, port) \<Rightarrow> (Inr (host, port, metas), c3))))"

text \<open>Connecting, sending the request and reading the answer. \<open>dial\<close> is the error of connecting,
  \<open>talk\<close> the bytes read after the request was written, or the error of writing.\<close>

definition session_exchange ::
  "coord_env \<Rightarrow> (string \<Rightarrow> u16 \<Rightarrow> string option) \<Rightarrow> (string \<Rightarrow> u16 \<Rightarrow> bytes \<Rightarrow> io_error + bytes)
     \<Rightarrow> string \<Rightarrow> string \<Rightarrow> u16 \<Rightarrow> file_meta list \<Rightarrow> device_identity \<Rightarrow> transfer_error + session_msg_header \<times> bytes" where
  "session_exchange env dial talk i host port metas device =
    (case dial host port of
       Some e \<Rightarrow> Inl (peer_unreachable (''failed to connect: '' @ e))
     | None \<Rightarrow>
        (case ce_request_ser env \<lparr>srq_session_id = i, srq_source_device_id = did_device_id device,
             srq_source_device_name = did_device_name device, srq_files = metas, srq_protocol_version = ''1.0.0''\<rparr> of
           Inl e \<Rightarrow> Inl (internal e)
         | Inr json \<Rightarrow>
            (case talk host port (encode_session_msg SmRequest json) of
               Inl e \<Rightarrow> Inl (network_unstable (''failed to write session request: '' @ ce_show_io env e))
             | Inr resp \<Rightarrow>
                (case read_session_msg resp of
                   Inl e \<Rightarrow> Inl (network_unstable (''failed to read response: '' @ ce_show_io env e))
                 | Inr (answer, _) \<Rightarrow> Inr answer))))"

record upload_job =
  uj_session_id :: string
  uj_files :: "file_meta list"
  uj_accepted :: "string list"
  uj_offsets :: "(string, u64) hmap"
  uj_host :: string
  uj_port :: u16

fun msg_type_debug :: "session_msg_type \<Rightarrow> string" where
  "msg_type_debug SmRequest = ''Request''"
| "msg_type_debug SmAccept = ''Accept''"
| "msg_type_debug SmReject = ''Reject''"
| "msg_type_debug SmProgress = ''Progress''"
| "msg_type_debug SmComplete = ''Complete''"
| "msg_type_debug SmFailed = ''Failed''"

definition session_fail :: "instant \<Rightarrow> string \<Rightarrow> string \<Rightarrow> coordinator \<Rightarrow> coordinator" where
  "session_fail now i reason c = emit_session_event (SeFailed i reason) (set_state now i SFailed (Some reason) c)"

text \<open>The answer of the peer; an accepted session leaves an upload job for the background task.\<close>

definition session_reply ::
  "coord_env \<Rightarrow> instant \<Rightarrow> string \<Rightarrow> string \<Rightarrow> u16 \<Rightarrow> file_meta list \<Rightarrow> session_msg_header \<times> bytes \<Rightarrow> coordinator
     \<Rightarrow> (transfer_error + upload_job option) \<times> coordinator" where
  "session_reply env now i host port metas answer c =
    (case smh_msg_type (fst answer) of
       SmAccept \<Rightarrow>
         (case ce_accept_de env (snd answer) of
            Inl e \<Rightarrow> (Inl (internal (''failed to parse accept payload: '' @ e)), c)
          | Inr a \<Rightarrow>
              (Inr (Some \<lparr>uj_session_id = i, uj_files = metas, uj_accepted = sac_accepted_file_ids a,
                  uj_offsets = sac_resume_offsets a, uj_host = host, uj_port = port\<rparr>),
               emit_session_event (SeActive i) (set_state now i Active None c)))
     | SmReject \<Rightarrow>
         (case ce_reject_de env (snd answer) of
            Inl e \<Rightarrow> (Inl (internal (''failed to parse reject payload: '' @ e)), c)
          | Inr r \<Rightarrow> (Inr None, session_fail now i (srj_reason r) c))
     | other \<Rightarrow>
         (let err_msg = ''unexpected response message: '' @ msg_type_debug other in
          (Inl (network_unstable err_msg), session_fail now i err_msg c)))"

definition start_session ::
  "coord_env \<Rightarrow> world \<Rightarrow> (string \<Rightarrow> u16 \<Rightarrow> string option) \<Rightarrow> (string \<Rightarrow> u16 \<Rightarrow> bytes \<Rightarrow> io_error + bytes)
     \<Rightarrow> string \<Rightarrow> string \<Rightarrow> string list \<Rightarrow> coordinator
     \<Rightarrow> (transfer_error + string \<times> upload_job option) \<times> coordinator" where
  "start_session env w dial talk fresh peer_id files c =
    (case session_open w fresh peer_id files c of
       (Inl e, c1) \<Rightarrow> (Inl e, c1)
     | (Inr (host, port, metas), c1) \<Rightarrow>
        (case session_exchange env dial talk fresh host port metas (im_inner (co_identity c1)) of
           Inl e \<Rightarrow> (Inl e, c1)
         | Inr answer \<Rightarrow>
            (case session_reply env (wd_now w) fresh host port metas answer c1 of
               (Inl e, c2) \<Rightarrow> (Inl e, c2)
             | (Inr job, c2) \<Rightarrow> (Inr (fresh, job), c2))))"

section \<open>The upload task of a session\<close>

definition upload_begin :: "upload_job \<Rightarrow> coordinator \<Rightarrow> coordinator" where
  "upload_begin job c = c\<lparr>co_tokens := hm_insert (uj_session_id job) cancel_token_new (co_tokens c)\<rparr>"

record upload_in =
  up_world :: world
  up_transfer_id :: string
  up_fresh :: string
  up_upload :: "nat \<Rightarrow> anyhow + upload_result"
  up_forwarded :: bool

text \<open>One file. The forwarder of progress may or may not have run before it is stopped.\<close>

definition upload_one :: "coord_env \<Rightarrow> upload_in \<Rightarrow> upload_job \<Rightarrow> file_meta \<Rightarrow> coordinator \<Rightarrow> bool \<times> coordinator" where
  "upload_one env u job f c =
    (if uj_accepted job = [] \<or> fm_file_id f \<in> set (uj_accepted job) then
       (let i = uj_session_id job; t = up_transfer_id u; now = wd_now (up_world u);
            opts = (case hm_get (uj_offsets job) (fm_file_id f) of
                Some off \<Rightarrow> options_default\<lparr>to_resume := True, to_resume_offset := off\<rparr>
              | None \<Rightarrow> options_default)\<lparr>to_cancel_token := Some 0\<rparr>;
            c1 = c\<lparr>co_progress := hm_insert t [] (co_progress c)\<rparr>;
            req = \<lparr>trq_sources = [fm_source_path f],
                   trq_destination = RTcp (uj_host job) (uj_port job) (Some (fm_name f)),
                   trq_direction = Upload, trq_options = opts\<rparr>;
            (r, c2) = execute_with_cancel env (up_world u) (up_fresh u) (up_upload u) t req (token_of i c1) (token_of i c1)
                (transfer_file_id (fm_source_path f) (fm_name f)) c1;
            sent = (case hm_get (co_progress c2) t of Some l \<Rightarrow> if up_forwarded u then l else [] | None \<Rightarrow> []);
            c3 = c2\<lparr>co_sessions := fold (\<lambda>p. sm_update_file_progress now i (fm_file_id f) (tpg_bytes_sent p) False)
                   sent (co_sessions c2), co_progress := hm_remove t (co_progress c2)\<rparr> in
        (case r of
           Inr _ \<Rightarrow> (True, c3\<lparr>co_sessions :=
              sm_update_file_progress now i (fm_file_id f) (fm_size f) True (co_sessions c3)\<rparr>)
         | Inl _ \<Rightarrow> (False, c3)))
     else (True, c))"

fun upload_files :: "coord_env \<Rightarrow> upload_job \<Rightarrow> (file_meta \<times> upload_in) list \<Rightarrow> coordinator \<Rightarrow> bool \<times> coordinator" where
  "upload_files env job [] c = (True, c)"
| "upload_files env job ((f, u) # fs) c =
    (case upload_one env u job f c of
       (True, c') \<Rightarrow> upload_files env job fs c'
     | (False, c') \<Rightarrow> (False, c'))"

definition upload_end :: "instant \<Rightarrow> bool \<Rightarrow> upload_job \<Rightarrow> coordinator \<Rightarrow> coordinator" where
  "upload_end now all_succeeded job c =
    (let i = uj_session_id job; stopped = ct_cancelled (token_of i c);
         c1 = (if all_succeeded \<and> \<not> stopped
           then emit_session_event (SeCompleted i (total_size (uj_files job))) (set_state now i SCompleted None c)
           else (let err_msg = (if stopped then ''cancelled'' else ''transfer failed'');
                     st = (if stopped then SCancelled else SFailed) in
             emit_session_event (SeFailed i err_msg) (set_state now i st (Some err_msg) c))) in
     c1\<lparr>co_tokens := hm_remove i (co_tokens c1)\<rparr>)"

definition upload_task :: "coord_env \<Rightarrow> instant \<Rightarrow> upload_job \<Rightarrow> upload_in list \<Rightarrow> coordinator \<Rightarrow> coordinator" where
  "upload_task env now job us c =
    (let (ok, c1) = upload_files env job (zip (uj_files job) us) (upload_begin job c) in
     upload_end now ok job c1)"

section \<open>Incoming sessions\<close>

text \<open>\<^verbatim>\<open>handle_incoming_session\<close> up to the wait for the user. \<open>h\<close> identifies the handler.\<close>

definition incoming_session ::
  "coord_env \<Rightarrow> instant \<Rightarrow> nat \<Rightarrow> bytes \<Rightarrow> coordinator \<Rightarrow> (anyhow + string) \<times> coordinator" where
  "incoming_session env now h stream c =
    (case read_session_msg stream of
       Inl e \<Rightarrow> (Inl (ce_show_io env e), c)
     | Inr ((header, payload), _) \<Rightarrow>
        (if smh_msg_type header \<noteq> SmRequest
         then (Inl (''Invalid message type (expected Request): '' @ msg_type_debug (smh_msg_type header)), c)
         else (case ce_request_de env payload of
            Inl e \<Rightarrow> (Inl e, c)
          | Inr req \<Rightarrow>
             (let i = srq_session_id req;
                  s = with_files (srq_files req) (session_new now i (srq_source_device_id req)
                        (srq_source_device_name req) Download options_default);
                  c1 = c\<lparr>co_sessions := sm_create s (co_sessions c),
                    co_responders := hm_insert i h (co_responders c),
                    co_session_events := hm_insert i [] (co_session_events c)\<rparr> in
              (Inr i, emit_session_event (SeRequested i (srq_source_device_id req) (srq_source_device_name req)
                 (map fm_name (srq_files req))) c1)))))"

text \<open>The wait of the handler, which has lasted \<open>waited\<close> milliseconds: its channel is ready with an answer, or when no responder
  holds the sending end any more; the timer is ready after 60 seconds. With both ready the choice is random, with none the wait goes on.\<close>

definition APPROVAL_TIMEOUT_MS :: nat where
  "APPROVAL_TIMEOUT_MS = 60 * 1000"

definition decision :: "nat \<Rightarrow> nat \<Rightarrow> bool \<Rightarrow> coordinator \<Rightarrow> (string + session_accept_payload) option" where
  "decision h waited timer_first c =
    (let channel = (case hm_get (co_answers c) h of
           Some a \<Rightarrow> Some a
         | None \<Rightarrow> if h \<in> set (hm_values (co_responders c)) then None else Some (Inl ''rejected (internal error)''));
         timer = (if waited \<ge> APPROVAL_TIMEOUT_MS then Some (Inl ''timeout waiting for approval'') else None) in
     if timer_first then (case timer of Some d \<Rightarrow> Some d | None \<Rightarrow> channel)
     else (case channel of Some d \<Rightarrow> Some d | None \<Rightarrow> timer))"

text \<open>The rest of the handler: the answer to the peer. \<open>werr\<close> is the error of writing it.\<close>

definition incoming_finish ::
  "coord_env \<Rightarrow> instant \<Rightarrow> string \<Rightarrow> string + session_accept_payload \<Rightarrow> io_error option \<Rightarrow> coordinator
     \<Rightarrow> (anyhow + bytes) \<times> coordinator" where
  "incoming_finish env now i dec werr c =
    (case (case dec of Inr a \<Rightarrow> map_sum id (encode_session_msg SmAccept) (ce_accept_ser env a)
           | Inl reason \<Rightarrow> map_sum id (encode_session_msg SmReject)
               (ce_reject_ser env \<lparr>srj_session_id = i, srj_reason = reason\<rparr>)) of
       Inl e \<Rightarrow> (Inl e, c)
     | Inr msg \<Rightarrow>
        (case werr of
           Some e \<Rightarrow> (Inl (ce_show_io env e), c)
         | None \<Rightarrow>
            (let c1 = (case dec of
                 Inr _ \<Rightarrow> emit_session_event (SeActive i) (set_state now i Active None c)
               | Inl reason \<Rightarrow> session_fail now i reason c) in
             (Inr msg, c1\<lparr>co_responders := hm_remove i (co_responders c1)\<rparr>))))"

definition answer_handler :: "string \<Rightarrow> string + session_accept_payload \<Rightarrow> coordinator \<Rightarrow> coordinator" where
  "answer_handler i a c =
    (case hm_get (co_responders c) i of
       None \<Rightarrow> c
     | Some h \<Rightarrow> c\<lparr>co_responders := hm_remove i (co_responders c), co_answers := hm_insert h a (co_answers c)\<rparr>)"

definition accept_session :: "instant \<Rightarrow> string \<Rightarrow> coordinator \<Rightarrow> coordinator" where
  "accept_session now i c =
    (let d = im_inner (co_identity c);
         c1 = answer_handler i (Inr \<lparr>sac_session_id = i, sac_target_device_id = did_device_id d,
           sac_target_device_name = did_device_name d, sac_accepted_file_ids = [], sac_resume_offsets = []\<rparr>) c in
     emit_session_event (SeActive i) (set_state now i Active None c1))"

definition reject_session :: "instant \<Rightarrow> string \<Rightarrow> string \<Rightarrow> coordinator \<Rightarrow> coordinator" where
  "reject_session now i reason c = session_fail now i reason (answer_handler i (Inl reason) c)"

definition cancel_session :: "instant \<Rightarrow> string \<Rightarrow> string \<Rightarrow> coordinator \<Rightarrow> coordinator" where
  "cancel_session now i reason c =
    (let c1 = c\<lparr>co_tokens := hm_modify i (token_cancel reason) (co_tokens c)\<rparr> in
     emit_session_event (SeCancelled i reason) (set_state now i SCancelled (Some reason) c1))"

definition co_session_progress :: "string \<Rightarrow> coordinator \<Rightarrow> transfer_error + session_progress" where
  "co_session_progress i c =
    (case sm_session_progress i (co_sessions c) of Some p \<Rightarrow> Inr p | None \<Rightarrow> Inl (internal ''session not found''))"

definition session_event_stream :: "string \<Rightarrow> coordinator \<Rightarrow> coordinator" where
  "session_event_stream i c =
    (case hm_get (co_session_events c) i of
       Some _ \<Rightarrow> c | None \<Rightarrow> c\<lparr>co_session_events := hm_insert i [] (co_session_events c)\<rparr>)"

section \<open>Pairing\<close>

definition co_request_pairing ::
  "coord_env \<Rightarrow> string \<Rightarrow> instant \<Rightarrow> u64 \<Rightarrow> string \<Rightarrow> coordinator \<Rightarrow> string \<times> coordinator" where
  "co_request_pairing env fresh now secs device_id c =
    (let d = im_inner (co_identity c);
         (payload, m) = request_pairing fresh now secs device_id (did_device_name d)
            (identity_fingerprint (ce_sha256 env) d) (co_pairing c) in
     (prp_request_id payload, c\<lparr>co_pairing := m\<rparr>))"

definition co_confirm_pairing ::
  "tofu_env \<Rightarrow> instant \<Rightarrow> string \<Rightarrow> coordinator \<Rightarrow> (transfer_error + unit) \<times> coordinator" where
  "co_confirm_pairing tenv now request_id c =
    (let (ok, m) = confirm_pairing tenv now request_id (co_pairing c) in
     (if ok then Inr () else Inl (internal ''pairing request expired or not found''), c\<lparr>co_pairing := m\<rparr>))"

definition co_reject_pairing :: "string \<Rightarrow> coordinator \<Rightarrow> coordinator" where
  "co_reject_pairing request_id c = c\<lparr>co_pairing := snd (reject_pairing request_id (co_pairing c))\<rparr>"

section \<open>The \<open>TransferEngine\<close> interface\<close>

fun target_peer_id :: "remote_target \<Rightarrow> string" where
  "target_peer_id (RHttp host port _) = host @ '':'' @ show_nat (unat port)"
| "target_peer_id (RTcp host port _) = host @ '':'' @ show_nat (unat port)"
| "target_peer_id (RUdp host port) = host @ '':'' @ show_nat (unat port)"
| "target_peer_id (RQuic host port) = host @ '':'' @ show_nat (unat port)"
| "target_peer_id (RLocal _) = ''local''"

fun direction_debug :: "transfer_direction \<Rightarrow> string" where
  "direction_debug Upload = ''Upload''"
| "direction_debug Download = ''Download''"

definition co_start ::
  "coord_env \<Rightarrow> world \<Rightarrow> string \<Rightarrow> string \<Rightarrow> (nat \<Rightarrow> anyhow + upload_result) \<Rightarrow> transfer_request \<Rightarrow> coordinator
     \<Rightarrow> (transfer_error + transfer_handle) \<times> coordinator" where
  "co_start env w fresh fresh' upload req c =
    (let s = session_new (wd_now w) fresh (target_peer_id (trq_destination req)) (direction_debug (trq_direction req))
               (trq_direction req) (trq_options req);
         c1 = set_state (wd_now w) fresh Active None (c\<lparr>co_sessions := sm_create s (co_sessions c)\<rparr>);
         (r, eng) = engine_execute fresh' (wd_fs w) upload req (co_engine c1);
         c2 = c1\<lparr>co_engine := eng\<rparr> in
     (case r of
        Inl e \<Rightarrow> (Inl (from_anyhow (ce_lower env) e), c2)
      | Inr h \<Rightarrow> (Inr h, set_state (wd_now w) fresh SCompleted None
            (c2\<lparr>co_sessions := update_progress (wd_now w) fresh (th_progress h) (co_sessions c2)\<rparr>))))"

definition co_pause :: "coord_env \<Rightarrow> u64 \<Rightarrow> string \<Rightarrow> coordinator \<Rightarrow> (transfer_error + unit) \<times> coordinator" where
  "co_pause env secs i c =
    (if hm_get (co_states c) i = Some TsRunning
     then (Inr (), set_transfer i (\<lambda>t. t\<lparr>tmd_status := TsPaused\<rparr>)
       (resume_ignore (update_offset (ce_resume env) secs i 0)
         (c\<lparr>co_states := hm_insert i TsPaused (co_states c)\<rparr>)))
     else (Inl (internal ''transfer not active''), c))"

definition co_resume_transfer :: "string \<Rightarrow> coordinator \<Rightarrow> (transfer_error + transfer_handle) \<times> coordinator" where
  "co_resume_transfer i c =
    (case hm_get (co_states c) i of
       Some st \<Rightarrow>
         (if (case st of TsPaused \<Rightarrow> True | TsFailed _ \<Rightarrow> True | _ \<Rightarrow> False)
          then (Inr \<lparr>th_id = i, th_state = TsRunning, th_progress = progress_default\<rparr>,
            set_transfer i (\<lambda>t. t\<lparr>tmd_status := TsRunning\<rparr>)
              (c\<lparr>co_states := hm_insert i TsRunning (co_states c)\<rparr>))
          else (Inl (internal ''transfer cannot be resumed''), c))
     | None \<Rightarrow> (Inl (internal ''transfer cannot be resumed''), c))"

definition co_cancel :: "string \<Rightarrow> string \<Rightarrow> coordinator \<Rightarrow> coordinator" where
  "co_cancel i reason c =
    (let st = TsFailed (''cancelled: '' @ reason);
         c1 = c\<lparr>co_tokens := hm_modify i (token_cancel reason) (co_tokens c),
           co_engine := engine_cancel i (co_engine c), co_states := hm_insert i st (co_states c)\<rparr> in
     emit_event i (EvCancelled i reason) (set_transfer i (\<lambda>t. t\<lparr>tmd_status := st\<rparr>) c1))"

definition co_status :: "coord_env \<Rightarrow> string \<Rightarrow> coordinator \<Rightarrow> transfer_error + transfer_progress" where
  "co_status env i c = map_sum (from_anyhow (ce_lower env)) id (engine_status i (co_engine c))"

end
