(* ===== verification/Coordinator_Steps.thy ===== *)
theory Coordinator_Steps
  imports Coordinator
begin

text \<open>
  The coordinator as a state machine: its pieces as steps (\<open>co_step\<close>), the invariants of the reachable
  states, the outcome of a transfer and the life of an incoming session.
\<close>

section \<open>Steps\<close>

text \<open>Any piece of a method may run in any state. The arguments a method carries from one piece to the next
  are arbitrary here, except that the session of a transfer being connected is not an incoming one: its
  identifier is a random UUID that no peer has seen.\<close>

definition not_incoming :: "string \<Rightarrow> coordinator \<Rightarrow> bool" where
  "not_incoming i c \<longleftrightarrow>
    (case hm_get (smg_active (co_sessions c)) i of None \<Rightarrow> True | Some s \<Rightarrow> ses_direction s = Upload)"

inductive co_step :: "coord_env \<Rightarrow> coordinator \<Rightarrow> coordinator \<Rightarrow> bool" for env where
  begin_transfer: "co_step env c (transfer_begin w fresh addr src name opts c)"
| connect: "not_incoming i c \<Longrightarrow> transfer_connect env w exchange device i addr src name opts c = Inr (req, c')
    \<Longrightarrow> co_step env c c'"
| execute: "co_step env c (snd (execute_with_cancel env w fresh upload i req tok tok' fid c))"
| finish: "co_step env c (transfer_finish now i result c)"
| open_session: "co_step env c (snd (session_open w fresh peer files c))"
| reply: "co_step env c (snd (session_reply env now i host port metas answer c))"
| begin_upload: "co_step env c (upload_begin job c)"
| upload: "co_step env c (snd (upload_one env u job f c))"
| end_upload: "co_step env c (upload_end now ok job c)"
| incoming: "co_step env c (snd (incoming_session env now h stream c))"
| answered: "decision h waited first c = Some d \<Longrightarrow> co_step env c (snd (incoming_finish env now i d werr c))"
| accept: "co_step env c (accept_session now i c)"
| reject: "co_step env c (reject_session now i reason c)"
| cancel_session: "co_step env c (cancel_session now i reason c)"
| subscribe: "co_step env c (session_event_stream i c)"
| start: "co_step env c (snd (co_start env w fresh fresh' upload req c))"
| pause: "co_step env c (snd (co_pause env secs i c))"
| resume: "co_step env c (snd (co_resume_transfer i c))"
| cancel: "co_step env c (co_cancel i reason c)"
| rename: "co_step env c (set_device_name ser name c)"
| device: "co_step env c (upsert_device d c)"
| peers: "co_step env c (c\<lparr>co_peers := p\<rparr>)"
| ask_pairing: "co_step env c (snd (co_request_pairing env fresh now secs d c))"
| confirm_pairing: "co_step env c (snd (co_confirm_pairing tenv now q c))"
| reject_pairing: "co_step env c (co_reject_pairing q c)"

inductive co_reachable :: "coord_env \<Rightarrow> resume_manager \<Rightarrow> coordinator \<Rightarrow> bool" for env rm where
  new: "co_reachable env rm (coordinator_new tofu ident rm)"
| step: "co_reachable env rm c \<Longrightarrow> co_step env c c' \<Longrightarrow> co_reachable env rm c'"

section \<open>What the pieces leave alone\<close>

lemma emit_event_fields [simp]:
  "co_sessions (emit_event i ev c) = co_sessions c" "co_resume (emit_event i ev c) = co_resume c"
  "co_states (emit_event i ev c) = co_states c" "co_tokens (emit_event i ev c) = co_tokens c"
  "co_engine (emit_event i ev c) = co_engine c" "co_transfers (emit_event i ev c) = co_transfers c"
  by (simp_all add: emit_event_def)

lemma emit_session_event_fields [simp]:
  "co_sessions (emit_session_event ev c) = co_sessions c" "co_resume (emit_session_event ev c) = co_resume c"
  "co_tokens (emit_session_event ev c) = co_tokens c" "co_answers (emit_session_event ev c) = co_answers c"
  "co_responders (emit_session_event ev c) = co_responders c" "co_identity (emit_session_event ev c) = co_identity c"
  by (simp_all add: emit_session_event_def split: option.splits)

lemma set_state_fields [simp]:
  "co_sessions (set_state now i st err c) = snd (update_state now i st err (co_sessions c))"
  "co_resume (set_state now i st err c) = co_resume c" "co_tokens (set_state now i st err c) = co_tokens c"
  "co_answers (set_state now i st err c) = co_answers c" "co_responders (set_state now i st err c) = co_responders c"
  "co_session_events (set_state now i st err c) = co_session_events c"
  "co_identity (set_state now i st err c) = co_identity c" "co_states (set_state now i st err c) = co_states c"
  "co_events (set_state now i st err c) = co_events c" "co_transfers (set_state now i st err c) = co_transfers c"
  by (simp_all add: set_state_def)

lemma set_transfer_fields [simp]:
  "co_sessions (set_transfer i f c) = co_sessions c" "co_resume (set_transfer i f c) = co_resume c"
  "co_states (set_transfer i f c) = co_states c" "co_events (set_transfer i f c) = co_events c"
  "co_tokens (set_transfer i f c) = co_tokens c"
  by (simp_all add: set_transfer_def)

lemma resume_ignore_fields [simp]:
  "co_sessions (resume_ignore f c) = co_sessions c" "co_engine (resume_ignore f c) = co_engine c"
  "co_states (resume_ignore f c) = co_states c" "co_tokens (resume_ignore f c) = co_tokens c"
  "co_events (resume_ignore f c) = co_events c" "co_transfers (resume_ignore f c) = co_transfers c"
  "co_progress (resume_ignore f c) = co_progress c"
  by (simp_all add: resume_ignore_def split: sum.splits)

lemma session_fail_fields [simp]:
  "co_sessions (session_fail now i reason c) = snd (update_state now i SFailed (Some reason) (co_sessions c))"
  "co_resume (session_fail now i reason c) = co_resume c" "co_responders (session_fail now i reason c) = co_responders c"
  by (simp_all add: session_fail_def)

lemma answer_handler_fields [simp]:
  "co_sessions (answer_handler i a c) = co_sessions c" "co_resume (answer_handler i a c) = co_resume c"
  "co_session_events (answer_handler i a c) = co_session_events c"
  by (simp_all add: answer_handler_def split: option.splits)

lemma execute_sessions [simp]:
  "co_sessions (snd (execute_with_cancel env w fresh upload i req tok tok' fid c)) = co_sessions c"
  by (simp add: execute_with_cancel_def Let_def split: prod.splits sum.splits)

section \<open>Incoming sessions never become active\<close>

definition waiting :: "transfer_session \<Rightarrow> bool" where
  "waiting s \<longleftrightarrow> (ses_direction s = Download \<longrightarrow> ses_state s = Handshaking)"

definition given_up :: "transfer_session \<Rightarrow> bool" where
  "given_up s \<longleftrightarrow> (ses_direction s = Download \<longrightarrow> ses_state s \<in> {SFailed, SCancelled})"

definition incoming_idle :: "session_manager \<Rightarrow> bool" where
  "incoming_idle m \<longleftrightarrow> (\<forall>i s. hm_get (smg_active m) i = Some s \<longrightarrow> waiting s) \<and> (\<forall>s \<in> set (smg_history m). given_up s)"

lemma incoming_idle_new: "incoming_idle (session_manager_new n)"
  by (simp add: incoming_idle_def session_manager_new_def)

lemma incoming_idle_create: "incoming_idle m \<Longrightarrow> waiting s \<Longrightarrow> incoming_idle (sm_create s m)"
  by (simp add: incoming_idle_def sm_create_def)

lemma incoming_idle_modify:
  assumes "incoming_idle m" and "\<And>s. ses_direction (f s) = ses_direction s \<and> ses_state (f s) = ses_state s"
  shows "incoming_idle (sm_modify i f m)"
  using assms by (auto simp: incoming_idle_def sm_modify_def waiting_def)

lemma incoming_idle_updates [intro]:
  assumes "incoming_idle m"
  shows "incoming_idle (update_progress now i p m)" "incoming_idle (set_remote_caps now i caps m)"
    "incoming_idle (sm_update_file_progress now i f n b m)"
  using assms by (auto intro!: incoming_idle_modify
      simp: update_progress_def set_remote_caps_def sm_update_file_progress_def ses_update_file_progress_def Let_def)

lemma incoming_idle_state:
  assumes "incoming_idle m" and "st = Negotiating \<Longrightarrow> \<forall>s. hm_get (smg_active m) i = Some s \<longrightarrow> ses_direction s = Upload"
  shows "incoming_idle (snd (update_state now i st err m))"
proof (cases "\<exists>s. hm_get (smg_active m) i = Some s \<and> valid_transition (ses_state s) st")
  case False
  with assms(1) show ?thesis by (auto simp: update_state_def split: option.splits)
next
  case True
  then obtain s where s: "hm_get (smg_active m) i = Some s" "valid_transition (ses_state s) st" by auto
  let ?s = "s\<lparr>ses_state := st, ses_updated_at := now, ses_error := err\<rparr>"
  have down: "st \<in> {SFailed, SCancelled}" if "ses_direction s = Download"
  proof -
    have "waiting s" using assms(1) s(1) by (simp add: incoming_idle_def)
    then have "ses_state s = Handshaking" using that by (simp add: waiting_def)
    moreover have "st \<noteq> Negotiating" using assms(2) s(1) that by auto
    ultimately show ?thesis using s(2) by (cases st) auto
  qed
  show ?thesis
  proof (cases "is_terminal st")
    case True
    let ?m = "m\<lparr>smg_active := hm_remove i (hm_insert i ?s (smg_active m))\<rparr>"
    have eq: "snd (update_state now i st err m) = push_history ?s ?m"
      using s True by (simp add: update_state_def Let_def)
    have "given_up u" if "u \<in> set (smg_history (push_history ?s ?m))" for u
      using subsetD [OF set_history_push that] down assms(1) by (auto simp: incoming_idle_def given_up_def)
    moreover have "waiting u" if "hm_get (smg_active (push_history ?s ?m)) j = Some u" for j u
      using that assms(1) by (auto simp: incoming_idle_def split: if_splits)
    ultimately show ?thesis unfolding eq incoming_idle_def by blast
  next
    case False
    then have "ses_direction s \<noteq> Download" using down by auto
    with s False assms(1) show ?thesis
      by (auto simp: update_state_def Let_def incoming_idle_def waiting_def)
  qed
qed

lemma incoming_idle_state' [intro]:
  "incoming_idle m \<Longrightarrow> st \<noteq> Negotiating \<Longrightarrow> incoming_idle (snd (update_state now i st err m))"
  by (rule incoming_idle_state) auto

lemma waiting_new [simp]: "waiting (session_new now i p n d opts)" "waiting (with_files fs (session_new now i p n d opts))"
  by (simp_all add: waiting_def session_new_def with_files_def)

lemma incoming_idle_fold:
  assumes "incoming_idle m"
  shows "incoming_idle (fold (\<lambda>p. sm_update_file_progress now i f (g p) b) ps m)"
  using assms by (induction ps arbitrary: m) (auto intro: incoming_idle_updates)

lemma transfer_connect_sessions:
  assumes "transfer_connect env w exchange device i addr src name opts c = Inr (req, c')"
  obtains caps where "co_sessions c' = snd (update_state (wd_now w) i Active None
      (snd (update_state (wd_now w) i Negotiating None (set_remote_caps (wd_now w) i caps (co_sessions c)))))"
    and "co_resume c' = co_resume c"
  using assms by (auto simp: transfer_connect_def Let_def split: sum.splits prod.splits)

lemma co_step_incoming_idle:
  assumes "co_step env c c'" and "incoming_idle (co_sessions c)"
  shows "incoming_idle (co_sessions c')"
  using assms
proof (cases rule: co_step.cases)
  case (connect i w exchange device addr src name opts req)
  obtain caps where s: "co_sessions c' = snd (update_state (wd_now w) i Active None
      (snd (update_state (wd_now w) i Negotiating None (set_remote_caps (wd_now w) i caps (co_sessions c)))))"
    using transfer_connect_sessions [OF connect(2)] by blast
  have "incoming_idle (snd (update_state (wd_now w) i Negotiating None (set_remote_caps (wd_now w) i caps (co_sessions c))))"
    using assms(2) connect(1)
    by (intro incoming_idle_state incoming_idle_updates)
      (auto simp: not_incoming_def set_remote_caps_def sm_modify_def split: option.splits)
  then show ?thesis unfolding s by (rule incoming_idle_state') simp
next
  case (open_session w fresh peer files)
  have "incoming_idle (snd (update_state (wd_now w) fresh Negotiating None
     (sm_create (with_files fs (session_new (wd_now w) fresh peer n Upload options_default)) (co_sessions c))))" for fs n
    using assms(2)
    by (intro incoming_idle_state incoming_idle_create)
      (auto simp: sm_create_def with_files_def session_new_def waiting_def)
  with assms(2) show ?thesis unfolding open_session
    by (auto simp: session_open_def Let_def split: option.splits sum.splits)
next
  case (start w fresh fresh' upload req)
  let ?m = "sm_create (session_new (wd_now w) fresh (target_peer_id (trq_destination req))
    (direction_debug (trq_direction req)) (trq_direction req) (trq_options req)) (co_sessions c)"
  have "incoming_idle (snd (update_state (wd_now w) fresh Active None ?m))"
    using assms(2) by (intro incoming_idle_state' incoming_idle_create) simp_all
  moreover from this have "incoming_idle (snd (update_state (wd_now w) fresh SCompleted None
      (update_progress (wd_now w) fresh p (snd (update_state (wd_now w) fresh Active None ?m)))))" for p
    by (simp add: incoming_idle_state' incoming_idle_updates)
  ultimately show ?thesis unfolding start
    by (simp add: co_start_def Let_def split: sum.splits prod.splits)
next
  case (upload u job f)
  with assms(2) show ?thesis
    by (auto simp: upload_one_def Let_def intro!: incoming_idle_fold incoming_idle_updates
        split: prod.splits sum.splits dest!: arg_cong [of _ _ "\<lambda>x. co_sessions (snd x)"])
qed (auto simp: transfer_begin_def transfer_finish_def session_reply_def upload_begin_def upload_end_def incoming_session_def
    incoming_finish_def accept_session_def reject_session_def cancel_session_def session_event_stream_def co_start_def
    co_pause_def co_resume_transfer_def co_cancel_def set_device_name_def upsert_device_def co_request_pairing_def
    co_confirm_pairing_def co_reject_pairing_def Let_def intro!: incoming_idle_create
    split: sum.splits option.splits session_msg_type.splits prod.splits transfer_status.splits if_splits)

lemma co_reachable_incoming_idle: "co_reachable env rm c \<Longrightarrow> incoming_idle (co_sessions c)"
proof (induction rule: co_reachable.induct)
  case (new tofu ident)
  then show ?case using incoming_idle_new by (simp add: coordinator_new_def)
qed (blast intro: co_step_incoming_idle)

lemma update_state_illegal:
  assumes "hm_get (smg_active m) i = Some s" and "\<not> valid_transition (ses_state s) st"
  shows "snd (update_state now i st err m) = m"
  using assms by (simp add: update_state_def)

text \<open>An accepted incoming session never becomes active. In every state the coordinator can reach,
  whatever the interleaving of transfers, sessions, answers and cancellations, an incoming session is
  still handshaking while it is in the active map and failed or cancelled once it is in the history; in
  particular accepting it announces that it is active, and leaves it handshaking, because the manager
  has no transition from handshaking to active.\<close>

theorem incoming_never_active:
  assumes "co_reachable env rm c" and "hm_get (smg_active (co_sessions c)) i = Some s"
    and "ses_direction s = Download"
  shows "ses_state s = Handshaking
    \<and> (\<forall>u \<in> set (smg_history (co_sessions c)). ses_direction u = Download \<longrightarrow> ses_state u \<in> {SFailed, SCancelled})
    \<and> hm_get (smg_active (co_sessions (accept_session now i c))) i = Some s
    \<and> hm_get (co_session_events (accept_session now i c)) i =
        map_option (\<lambda>evs. evs @ [SeActive i]) (hm_get (co_session_events c) i)"
proof -
  have idle: "incoming_idle (co_sessions c)" by (rule co_reachable_incoming_idle [OF assms(1)])
  then have st: "ses_state s = Handshaking" using assms(2,3) by (simp add: incoming_idle_def waiting_def)
  have "snd (update_state now i Active None (co_sessions c)) = co_sessions c"
    using update_state_illegal [OF assms(2)] st by simp
  then show ?thesis using idle st assms(2)
    by (auto simp: incoming_idle_def given_up_def accept_session_def Let_def emit_session_event_def)
qed

section \<open>Resuming always starts from zero\<close>

definition zero_offsets :: "resume_env \<Rightarrow> resume_manager \<Rightarrow> bool" where
  "zero_offsets renv m \<longleftrightarrow> (\<forall>i s. resume_load renv i m = Some s \<longrightarrow> rst_last_offset s = 0)"

lemma zero_offsets_save:
  assumes "json_ok renv" and "zero_offsets renv m" and "rst_last_offset s = 0" and "resume_save renv s m = Inr m'"
  shows "zero_offsets renv m'"
  using assms load_save [OF assms(1,4)] by (auto simp: zero_offsets_def split: if_splits)

lemma zero_offsets_ops:
  assumes "json_ok renv" and "zero_offsets renv m"
  shows "update_offset renv now i 0 m = Inr m' \<Longrightarrow> zero_offsets renv m'"
    and "mark_completed renv now i m = Inr m' \<Longrightarrow> zero_offsets renv m'"
proof -
  show "update_offset renv now i 0 m = Inr m' \<Longrightarrow> zero_offsets renv m'"
    using assms(2) by (auto simp: update_offset_def split: option.splits dest: zero_offsets_save [OF assms, rotated])
  show "mark_completed renv now i m = Inr m' \<Longrightarrow> zero_offsets renv m'"
    using assms(2)
    by (auto simp: mark_completed_def split: option.splits dest!: zero_offsets_save [OF assms, rotated])
      (simp add: zero_offsets_def)
qed

lemma zero_offsets_ignore:
  assumes "zero_offsets renv (co_resume c)" and "\<And>m'. f (co_resume c) = Inr m' \<Longrightarrow> zero_offsets renv m'"
  shows "zero_offsets renv (co_resume (resume_ignore f c))"
  using assms by (auto simp: resume_ignore_def split: sum.splits)

lemma zero_offsets_execute:
  assumes "json_ok (ce_resume env)" and "zero_offsets (ce_resume env) (co_resume c)"
  shows "zero_offsets (ce_resume env) (co_resume (snd (execute_with_cancel env w fresh upload i req tok tok' fid c)))"
proof -
  let ?save = "\<lambda>src opts. resume_save (ce_resume env) (resume_state_new (wd_secs w) fid src
    (hash_or_default env w src) (len_or_zero w src) (transport_mode_name (to_transport_mode opts)))"
  have saved: "zero_offsets (ce_resume env) (co_resume (resume_ignore (?save src opts) c))" for src opts
    using assms(2) by (rule zero_offsets_ignore)
      (rule zero_offsets_save [OF assms], simp_all add: resume_state_new_def)
  have later: "zero_offsets (ce_resume env) (co_resume (resume_ignore (mark_completed (ce_resume env) now fid) c'))"
    "zero_offsets (ce_resume env) (co_resume (resume_ignore (update_offset (ce_resume env) now fid 0) c'))"
    if "zero_offsets (ce_resume env) (co_resume c')" for c' now
    using that zero_offsets_ops [OF assms(1) that] by (auto intro!: zero_offsets_ignore)
  show ?thesis using assms(2)
    by (auto simp: execute_with_cancel_def Let_def saved later split: prod.splits sum.splits list.splits)
qed

lemma co_step_zero_offsets:
  assumes "co_step env c c'" and "json_ok (ce_resume env)" and "zero_offsets (ce_resume env) (co_resume c)"
  shows "zero_offsets (ce_resume env) (co_resume c')"
  using assms(1)
proof (cases rule: co_step.cases)
  case (connect i w exchange device addr src name opts req)
  then show ?thesis using assms(3) transfer_connect_sessions [OF connect(2)] by metis
next
  case (execute w fresh upload i req tok tok' fid)
  then show ?thesis using zero_offsets_execute [OF assms(2,3)] by simp
next
  case (upload u job f)
  have key: "zero_offsets (ce_resume env) (co_resume c2)"
    if "execute_with_cancel env w fresh up i req tok tok' fid (c\<lparr>co_progress := x\<rparr>) = (r, c2)"
    for w fresh up i req tok tok' fid x r c2
    using zero_offsets_execute [OF assms(2), of "c\<lparr>co_progress := x\<rparr>" w fresh up i req tok tok' fid] assms(3) that
    by simp
  show ?thesis using assms(3) unfolding upload
    by (auto simp: upload_one_def Let_def split: prod.splits sum.splits dest: key)
next
  case (pause secs i)
  then show ?thesis using assms(2,3) zero_offsets_ops(1) [OF assms(2,3)]
    by (auto simp: co_pause_def intro!: zero_offsets_ignore)
qed (use assms(3) in \<open>auto simp: transfer_begin_def transfer_finish_def session_open_def session_reply_def upload_begin_def
    upload_end_def incoming_session_def incoming_finish_def accept_session_def reject_session_def cancel_session_def
    session_event_stream_def co_start_def co_resume_transfer_def co_cancel_def set_device_name_def upsert_device_def
    co_request_pairing_def co_confirm_pairing_def co_reject_pairing_def Let_def
    split: sum.splits option.splits session_msg_type.splits prod.splits transfer_status.splits if_splits\<close>)

text \<open>C14. Resuming always starts from zero: the coordinator saves a fresh state with offset 0 before every
  transfer, records offset 0 when one fails or is paused, and never any other. So, starting from a
  directory without partial offsets, in every reachable state a transfer is either not resumable or
  resumable from byte 0, and no transfer it connects asks the peer to skip anything.\<close>

theorem resume_always_from_zero:
  assumes "json_ok (ce_resume env)" and "zero_offsets (ce_resume env) rm" and "co_reachable env rm c"
  shows "can_resume (ce_resume env) i h (co_resume c) \<in> {None, Some 0}
    \<and> transfer_resume_offset env w src name opts c \<in> {None, Some 0}
    \<and> (transfer_connect env w exchange device j addr src name opts c = Inr (req, c') \<longrightarrow>
        to_resume_offset (trq_options req) = 0)"
proof -
  from assms(3) have "zero_offsets (ce_resume env) (co_resume c)"
  proof (induction rule: co_reachable.induct)
    case (new tofu ident)
    then show ?case using assms(2) by (simp add: coordinator_new_def)
  qed (rule co_step_zero_offsets [OF _ assms(1)])
  then have can: "can_resume (ce_resume env) i h (co_resume c) \<in> {None, Some 0}" for i h
    by (auto simp: can_resume_def zero_offsets_def split: option.splits)
  then have off: "transfer_resume_offset env w src name opts c \<in> {None, Some 0}"
    by (simp add: transfer_resume_offset_def)
  then have "to_resume_offset (trq_options req) = 0"
    if "transfer_connect env w exchange device j addr src name opts c = Inr (req, c')"
    using that by (auto simp: transfer_connect_def Let_def split: sum.splits prod.splits)
  with can off show ?thesis by blast
qed

section \<open>The outcome of a transfer\<close>

lemma update_state_step:
  assumes "hm_get (smg_active m) i = Some s" and "valid_transition (ses_state s) st"
    and "s' = s\<lparr>ses_state := st, ses_updated_at := now, ses_error := err\<rparr>"
  shows "snd (update_state now i st err m) =
    (if is_terminal st then push_history s' (m\<lparr>smg_active := hm_remove i (hm_insert i s' (smg_active m))\<rparr>)
     else m\<lparr>smg_active := hm_insert i s' (smg_active m)\<rparr>)"
  using assms by (simp add: update_state_def Let_def)

lemma last_push_history:
  assumes "0 < smg_max_history m"
  shows "smg_history (push_history s m) \<noteq> [] \<and> last (smg_history (push_history s m)) = s"
proof -
  have "smg_history (push_history s m) = drop (length (smg_history m @ [s]) - smg_max_history m) (smg_history m @ [s])"
    by (rule hist.entries_push)
  with assms show ?thesis by (simp add: last_drop)
qed

text \<open>One legal update: to a state that is not terminal, and to a terminal one.\<close>

lemma update_state_advance:
  assumes "hm_get (smg_active m) i = Some s" and "valid_transition (ses_state s) st" and "\<not> is_terminal st"
    and "m' = snd (update_state now i st err m)"
  shows "\<exists>s'. hm_get (smg_active m') i = Some s' \<and> ses_state s' = st \<and> ses_id s' = ses_id s"
    and "j \<noteq> i \<Longrightarrow> hm_get (smg_active m') j = hm_get (smg_active m) j"
    and "smg_max_history m' = smg_max_history m"
  using assms by (simp_all add: update_state_step [OF assms(1,2) refl] del: is_terminal.simps)

lemma update_state_finish:
  assumes "hm_get (smg_active m) i = Some s" and "valid_transition (ses_state s) st" and "is_terminal st"
    and "m' = snd (update_state now i st err m)" and "0 < smg_max_history m"
  shows "hm_get (smg_active m') i = None"
    and "ses_id (last (smg_history m')) = ses_id s" and "ses_state (last (smg_history m')) = st"
    and "ses_error (last (smg_history m')) = err"
    and "j \<noteq> i \<Longrightarrow> hm_get (smg_active m') j = hm_get (smg_active m) j"
  using assms by (simp_all add: update_state_step [OF assms(1,2) refl] last_push_history del: is_terminal.simps)

lemma execute_states [simp]:
  "co_states (snd (execute_with_cancel env w fresh upload i req tok tok' fid c)) = co_states c"
  by (simp add: execute_with_cancel_def Let_def split: prod.splits sum.splits)

lemma engine_execute_other:
  assumes "engine_execute_with_cancel fresh fs upload tok req eng = (r, eng')" and "i \<noteq> fresh"
  shows "hm_get eng' i = hm_get eng i"
proof -
  have run: "hm_get (snd (snd (run_sources fs upload dest dir fresh k srcs (t, eng)))) i = hm_get eng i" for dest dir k srcs t eng
    using assms(2) by (induction srcs arbitrary: k t eng) (simp_all add: Let_def split: sum.splits)
  have "hm_get (snd (engine_execute fresh fs upload req eng)) i = hm_get eng i"
  proof -
    let ?run = "run_sources fs upload (trq_destination req) (trq_direction req) fresh 0 (trq_sources req)
      (\<lparr>rt_bytes_sent = 0, rt_bytes_all = 0, rt_files_completed = 0\<rparr>,
       hm_insert fresh \<lparr>th_id = fresh, th_state = TsRunning, th_progress = \<lparr>tpg_bytes_sent = 0,
         tpg_bytes_total = requested_total fs (trq_sources req), tpg_speed_mbps = Fin 0,
         tpg_files_completed = 0, tpg_files_total = length (trq_sources req)\<rparr>\<rparr> eng)"
    obtain err t eng1 where r: "?run = (err, t, eng1)" by (metis prod_cases3)
    have "hm_get (snd (snd ?run)) i = hm_get eng i" using assms(2) by (simp only: run hm_get_insert if_False)
    then have "hm_get eng1 i = hm_get eng i" by (simp add: r)
    then show ?thesis using assms(2) r by (cases err) (simp_all add: engine_execute_def Let_def)
  qed
  then show ?thesis using assms(1) by (cases "ct_cancelled tok") (simp_all add: engine_execute_with_cancel_def)
qed

lemma execute_engine_other:
  "j \<noteq> fresh \<Longrightarrow> hm_get (co_engine (snd (execute_with_cancel env w fresh upload i req tok tok' fid c))) j = hm_get (co_engine c) j"
  using engine_execute_other [of fresh "wd_fs w" upload tok' req "co_engine c" _ _ j]
  by (simp add: execute_with_cancel_def Let_def emit_event_def resume_ignore_fields split: prod.splits sum.splits if_splits)

text \<open>Connecting takes a handshaking session to the active state.\<close>

lemma transfer_connect_active:
  assumes "transfer_connect env w exchange device i addr src name opts c = Inr (req, c')"
    and "hm_get (smg_active (co_sessions c)) i = Some s" and "ses_state s = Handshaking"
  shows "(\<exists>s'. hm_get (smg_active (co_sessions c')) i = Some s' \<and> ses_state s' = Active \<and> ses_id s' = ses_id s)
    \<and> (\<forall>j. j \<noteq> i \<longrightarrow> hm_get (smg_active (co_sessions c')) j = hm_get (smg_active (co_sessions c)) j)
    \<and> smg_max_history (co_sessions c') = smg_max_history (co_sessions c)"
proof -
  obtain caps where s': "co_sessions c' = snd (update_state (wd_now w) i Active None
      (snd (update_state (wd_now w) i Negotiating None (set_remote_caps (wd_now w) i caps (co_sessions c)))))"
    using transfer_connect_sessions [OF assms(1)] by blast
  let ?m0 = "set_remote_caps (wd_now w) i caps (co_sessions c)"
  let ?m1 = "snd (update_state (wd_now w) i Negotiating None ?m0)"
  obtain s0 where m0: "hm_get (smg_active ?m0) i = Some s0" "ses_state s0 = Handshaking" "ses_id s0 = ses_id s"
    "\<forall>j. j \<noteq> i \<longrightarrow> hm_get (smg_active ?m0) j = hm_get (smg_active (co_sessions c)) j"
    "smg_max_history ?m0 = smg_max_history (co_sessions c)"
    using assms(2,3) by (simp add: set_remote_caps_def sm_modify_def)
  have v1: "valid_transition (ses_state s0) Negotiating" using m0(2) by simp
  have nt: "\<not> is_terminal Negotiating" "\<not> is_terminal Active" by simp_all
  note m1 = update_state_advance [OF m0(1) v1 nt(1) refl, where now = "wd_now w" and err = None]
  obtain s1 where s1: "hm_get (smg_active ?m1) i = Some s1" "ses_state s1 = Negotiating" "ses_id s1 = ses_id s0"
    using m1(1) by blast
  have v2: "valid_transition (ses_state s1) Active" using s1(2) by simp
  note m2 = update_state_advance [OF s1(1) v2 nt(2) refl, where now = "wd_now w" and err = None]
  show ?thesis unfolding s' using m2 m1(2,3) m0(3,4,5) s1(3) by auto
qed

lemma transfer_connect_fields:
  assumes "transfer_connect env w exchange device i addr src name opts c = Inr (req, c')"
  shows "co_states c' = co_states c" "co_engine c' = co_engine c"
  using assms by (auto simp: transfer_connect_def Let_def set_state_def split: sum.splits prod.splits)

lemma transfer_finish_fields:
  assumes "hm_get (smg_active (co_sessions c)) i = Some s" and "ses_state s = Active" and "ses_id s = i"
    and "0 < smg_max_history (co_sessions c)"
  shows "hm_get (smg_active (co_sessions (transfer_finish now i r c))) i = None"
    and "ses_id (last (smg_history (co_sessions (transfer_finish now i r c)))) = i"
    and "ses_state (last (smg_history (co_sessions (transfer_finish now i r c)))) =
      (case r of Inr _ \<Rightarrow> SCompleted | Inl e \<Rightarrow> if te_kind e = CancelledKind then SCancelled else SFailed)"
    and "hm_get (co_states (transfer_finish now i r c)) j =
      (if j = i then Some (case r of Inr _ \<Rightarrow> TsCompleted | Inl e \<Rightarrow> TsFailed (te_message e)) else hm_get (co_states c) j)"
    and "j \<noteq> i \<Longrightarrow> hm_get (smg_active (co_sessions (transfer_finish now i r c))) j = hm_get (smg_active (co_sessions c)) j"
    and "co_engine (transfer_finish now i r c) = co_engine c"
proof -
  have prog: "hm_get (smg_active (update_progress now i p (co_sessions c))) i =
      Some (s\<lparr>ses_progress := p, ses_updated_at := now\<rparr>)"
    "smg_max_history (update_progress now i p (co_sessions c)) = smg_max_history (co_sessions c)"
    "j \<noteq> i \<Longrightarrow> hm_get (smg_active (update_progress now i p (co_sessions c))) j = hm_get (smg_active (co_sessions c)) j" for p j
    using assms(1) by (simp_all add: update_progress_def sm_modify_def)
  let ?st = "case r of Inr _ \<Rightarrow> SCompleted | Inl e \<Rightarrow> if te_kind e = CancelledKind then SCancelled else SFailed"
  have fin_st: "is_terminal ?st" "valid_transition Active ?st" by (simp_all split: sum.splits)
  obtain m u err where m: "co_sessions (transfer_finish now i r c) = snd (update_state now i ?st err m)"
    "hm_get (smg_active m) i = Some u" "ses_state u = Active" "ses_id u = i" "0 < smg_max_history m"
    "\<And>j. j \<noteq> i \<Longrightarrow> hm_get (smg_active m) j = hm_get (smg_active (co_sessions c)) j"
  proof (cases r)
    case (Inl e)
    show ?thesis
      by (rule that [where m = "co_sessions c" and u = s and err = "Some (te_message e)"])
        (use assms Inl in \<open>simp_all add: transfer_finish_def Let_def\<close>)
  next
    case (Inr h)
    show ?thesis
      by (rule that [where m = "update_progress now i (th_progress h) (co_sessions c)" and err = None
          and u = "s\<lparr>ses_progress := th_progress h, ses_updated_at := now\<rparr>"])
        (use assms prog Inr in \<open>simp_all add: transfer_finish_def Let_def\<close>)
  qed
  have v: "valid_transition (ses_state u) ?st" using m(3) fin_st(2) by simp
  note fin = update_state_finish [OF m(2) v fin_st(1) m(1) m(5)]
  show "hm_get (smg_active (co_sessions (transfer_finish now i r c))) i = None"
    "ses_id (last (smg_history (co_sessions (transfer_finish now i r c)))) = i"
    "ses_state (last (smg_history (co_sessions (transfer_finish now i r c)))) = ?st"
    "j \<noteq> i \<Longrightarrow> hm_get (smg_active (co_sessions (transfer_finish now i r c))) j = hm_get (smg_active (co_sessions c)) j"
    using fin m(4,6) by simp_all
  show "hm_get (co_states (transfer_finish now i r c)) j =
      (if j = i then Some (case r of Inr _ \<Rightarrow> TsCompleted | Inl e \<Rightarrow> TsFailed (te_message e)) else hm_get (co_states c) j)"
    "co_engine (transfer_finish now i r c) = co_engine c"
    by (simp_all add: transfer_finish_def Let_def set_state_def set_transfer_def split: sum.splits)
qed

lemma transfer_begin_fields:
  "hm_get (smg_active (co_sessions (transfer_begin w fresh addr src name opts c))) j =
    (if j = fresh then Some (session_new (wd_now w) fresh addr name Upload opts) else hm_get (smg_active (co_sessions c)) j)"
  "hm_get (co_states (transfer_begin w fresh addr src name opts c)) j =
    (if j = fresh then Some TsRunning else hm_get (co_states c) j)"
  "smg_max_history (co_sessions (transfer_begin w fresh addr src name opts c)) = smg_max_history (co_sessions c)"
  "co_engine (transfer_begin w fresh addr src name opts c) = co_engine c"
  by (simp_all add: transfer_begin_def Let_def sm_create_def session_new_def)

text \<open>C15. The outcome of a transfer. Where the address is malformed or the handshake fails, the error is
  returned and the session is left handshaking in the active map and its status running. Otherwise the
  session leaves the active map; the newest entry of the history is this session, completed, cancelled or
  failed as the result says; the status follows the result, and a success returns the identifier. The
  session and the status of every other transfer are untouched. The engine knows the transfer under
  another identifier, so asking for its status by the returned one always fails.\<close>

theorem start_transfer_outcome:
  assumes run: "start_transfer env w exchange fresh fresh' upload addr src name opts c = (r, c')"
    and "0 < smg_max_history (co_sessions c)" and "hm_get (co_engine c) fresh = None" and "fresh \<noteq> fresh'"
  shows "(case transfer_connect env w exchange (im_inner (co_identity c)) fresh addr src name opts
        (transfer_begin w fresh addr src name opts c) of
      Inl e \<Rightarrow> r = Inl e
        \<and> map_option ses_state (hm_get (smg_active (co_sessions c')) fresh) = Some Handshaking
        \<and> hm_get (co_states c') fresh = Some TsRunning
    | Inr _ \<Rightarrow> r \<in> insert (Inr fresh) (range Inl)
        \<and> hm_get (smg_active (co_sessions c')) fresh = None
        \<and> ses_id (last (smg_history (co_sessions c'))) = fresh
        \<and> ses_state (last (smg_history (co_sessions c'))) =
            (case r of Inr _ \<Rightarrow> SCompleted | Inl e \<Rightarrow> if te_kind e = CancelledKind then SCancelled else SFailed)
        \<and> hm_get (co_states c') fresh = Some (case r of Inr _ \<Rightarrow> TsCompleted | Inl e \<Rightarrow> TsFailed (te_message e)))
    \<and> (i \<noteq> fresh \<longrightarrow> hm_get (smg_active (co_sessions c')) i = hm_get (smg_active (co_sessions c)) i
        \<and> hm_get (co_states c') i = hm_get (co_states c) i)
    \<and> co_status env fresh c' = Inl (from_anyhow (ce_lower env) (''Transfer not found: '' @ fresh))"
proof -
  let ?c1 = "transfer_begin w fresh addr src name opts c"
  let ?conn = "transfer_connect env w exchange (im_inner (co_identity c)) fresh addr src name opts ?c1"
  let ?s1 = "session_new (wd_now w) fresh addr name Upload opts"
  have s1: "hm_get (smg_active (co_sessions ?c1)) fresh = Some ?s1" "ses_state ?s1 = Handshaking" "ses_id ?s1 = fresh"
    by (simp_all add: transfer_begin_fields session_new_def)
  show ?thesis
  proof (cases ?conn)
    case (Inl e)
    then have "r = Inl e" "c' = ?c1" using run by (simp_all add: start_transfer_def Let_def)
    then show ?thesis using Inl s1 assms(3)
      by (simp add: transfer_begin_fields co_status_def engine_status_def)
  next
    case (Inr q)
    obtain req c2 where q: "?conn = Inr (req, c2)" using Inr by (cases q) simp
    let ?ex = "execute_with_cancel env w fresh' upload fresh req (token_of fresh c2) (token_of fresh c2)
      (transfer_file_id src name) c2"
    obtain res c3 where ex: "?ex = (res, c3)" by fastforce
    have r: "r = map_sum id (\<lambda>_. fresh) res" and c': "c' = transfer_finish (wd_now w) fresh res c3"
      using run q ex by (simp_all add: start_transfer_def Let_def)
    obtain s2 where s2: "hm_get (smg_active (co_sessions c3)) fresh = Some s2" "ses_state s2 = Active" "ses_id s2 = fresh"
      using transfer_connect_active [OF q s1(1,2)] s1(3)
        execute_sessions [of env w fresh' upload fresh req "token_of fresh c2" "token_of fresh c2" "transfer_file_id src name" c2] ex
      by auto
    have others: "smg_max_history (co_sessions c3) = smg_max_history (co_sessions c)"
      "\<And>j. j \<noteq> fresh \<Longrightarrow> hm_get (smg_active (co_sessions c3)) j = hm_get (smg_active (co_sessions c)) j"
      "\<And>j. j \<noteq> fresh \<Longrightarrow> hm_get (co_states c3) j = hm_get (co_states c) j"
      using transfer_connect_active [OF q s1(1,2)] transfer_connect_fields [OF q] ex
        execute_sessions [of env w fresh' upload fresh req "token_of fresh c2" "token_of fresh c2" "transfer_file_id src name" c2]
        execute_states [of env w fresh' upload fresh req "token_of fresh c2" "token_of fresh c2" "transfer_file_id src name" c2]
      by (simp_all add: transfer_begin_fields)
    have eng: "hm_get (co_engine c') fresh = None"
      using execute_engine_other [OF assms(4), of env w upload fresh req "token_of fresh c2" "token_of fresh c2"
          "transfer_file_id src name" c2] ex assms(3) transfer_connect_fields [OF q]
      by (simp add: c' transfer_finish_def transfer_begin_fields Let_def set_state_def set_transfer_def split: sum.splits)
    have hist: "0 < smg_max_history (co_sessions c3)" using others(1) assms(2) by simp
    note fin = transfer_finish_fields [OF s2 hist, where now = "wd_now w" and r = res]
    have "r \<in> insert (Inr fresh) (range Inl)" by (cases res) (simp_all add: r)
    moreover have "co_status env fresh c' = Inl (from_anyhow (ce_lower env) (''Transfer not found: '' @ fresh))"
      using eng by (simp add: co_status_def engine_status_def)
    ultimately show ?thesis
      using fin others(2,3) unfolding q c' r by (cases res) simp_all
  qed
qed

section \<open>The life of an incoming session\<close>

lemma incoming_session_request:
  assumes "length json < 2 ^ 32" and "ce_request_de env json = Inr req"
  shows "\<exists>c1. incoming_session env now h (encode_session_msg SmRequest json @ rest) c = (Inr (srq_session_id req), c1)
    \<and> map_option ses_state (hm_get (smg_active (co_sessions c1)) (srq_session_id req)) = Some Handshaking
    \<and> map_option ses_id (hm_get (smg_active (co_sessions c1)) (srq_session_id req)) = Some (srq_session_id req)
    \<and> hm_get (co_responders c1) (srq_session_id req) = Some h \<and> co_answers c1 = co_answers c
    \<and> co_identity c1 = co_identity c \<and> smg_max_history (co_sessions c1) = smg_max_history (co_sessions c)"
proof -
  have "read_session_msg (encode_session_msg SmRequest json @ rest) = Inr (session_view (SmRequest, json), rest)"
    using read_session_bytes [of json "0x01" SmRequest rest] assms(1) by (simp add: encode_session_bytes)
  then show ?thesis using assms(2)
    by (simp add: incoming_session_def session_view_def Let_def sm_create_def with_files_def session_new_def)
qed

lemma incoming_finish_sessions:
  assumes "ce_reject_ser env \<lparr>srj_session_id = i, srj_reason = reason\<rparr> = Inr json"
  shows "fst (incoming_finish env now i (Inl reason) None c) = Inr (encode_session_msg SmReject json)"
    and "co_sessions (snd (incoming_finish env now i (Inl reason) None c)) =
      snd (update_state now i SFailed (Some reason) (co_sessions c))"
  using assms by (simp_all add: incoming_finish_def Let_def)

lemma update_state_gone:
  "hm_get (smg_active m) i = None \<Longrightarrow> snd (update_state now i st err m) = m"
  by (simp add: update_state_def)

lemma responder_known: "hm_get (co_responders c) i = Some h \<Longrightarrow> h \<in> set (hm_values (co_responders c))"
  by (force simp: hm_get_def hm_values_def dest: map_of_SomeD)

lemma decision_answered:
  assumes "hm_get (co_responders c) i = Some h" "w < 60000"
  shows "decision h w first (session_fail now i why (answer_handler i a c)) = Some a"
    "decision h w first (emit_session_event ev (set_state now i st err (answer_handler i a c))) = Some a"
  using assms by (simp_all add: decision_def session_fail_def answer_handler_def APPROVAL_TIMEOUT_MS_def Let_def)

lemma decision_unanswered:
  assumes "hm_get (co_responders c) i = Some h" "hm_get (co_answers c) h = None"
  shows "decision h w first c = (if w < 60000 then None else Some (Inl ''timeout waiting for approval''))"
  using responder_known [OF assms(1)] assms(2) by (simp add: decision_def APPROVAL_TIMEOUT_MS_def Let_def)

text \<open>A refusal: what the peer gets, and what is left of the session.\<close>

definition refused :: "coord_env \<Rightarrow> instant \<Rightarrow> string \<Rightarrow> bytes \<Rightarrow> string \<Rightarrow> (string + session_accept_payload) option \<Rightarrow> coordinator \<Rightarrow> bool" where
  "refused env t i json why d c2 \<longleftrightarrow>
    (case d of None \<Rightarrow> False | Some dec \<Rightarrow>
       (case incoming_finish env t i dec None c2 of (out, c3) \<Rightarrow>
          out = Inr (encode_session_msg SmReject json)
          \<and> hm_get (smg_active (co_sessions c3)) i = None \<and> hm_get (co_responders c3) i = None
          \<and> ses_id (last (smg_history (co_sessions c3))) = i
          \<and> ses_state (last (smg_history (co_sessions c3))) = SFailed
          \<and> ses_error (last (smg_history (co_sessions c3))) = Some why))"

text \<open>C16. What the peer is told, and when. A session request on a new connection creates a handshaking session and its handler
  waits. In the first 60 seconds it goes on waiting while there is no answer; if the user accepts, the peer gets an Accept
  message with this device's identity, and if the user rejects, a Reject message with the user's reason. After 60 seconds without an
  answer the peer gets a Reject message that tells of the timeout. In both refusals the session ends failed, with that reason, in the
  history, and no responder stays behind.\<close>

theorem incoming_session_answered:
  assumes "length json < 2 ^ 32" and "ce_request_de env json = Inr req" and "i = srq_session_id req"
    and "incoming_session env now h (encode_session_msg SmRequest json @ rest) c = (result, c1)"
    and "0 < smg_max_history (co_sessions c)" and "hm_get (co_answers c) h = None"
    and "\<And>why. ce_reject_ser env \<lparr>srj_session_id = i, srj_reason = why\<rparr> = Inr (rj why)"
  shows "result = Inr i
    \<and> (if waited < 60000
       then decision h waited first c1 = None
         \<and> map_option (\<lambda>d. fst (incoming_finish env t i d None (accept_session t i c1))) (decision h waited first (accept_session t i c1)) =
             Some (map_sum id (encode_session_msg SmAccept) (ce_accept_ser env
               \<lparr>sac_session_id = i, sac_target_device_id = did_device_id (im_inner (co_identity c)),
                sac_target_device_name = did_device_name (im_inner (co_identity c)),
                sac_accepted_file_ids = [], sac_resume_offsets = []\<rparr>))
         \<and> refused env t i (rj reason) reason (decision h waited first (reject_session t i reason c1)) (reject_session t i reason c1)
       else refused env t i (rj ''timeout waiting for approval'') ''timeout waiting for approval'' (decision h waited first c1) c1)"
proof -
  obtain s where c1: "result = Inr i" "hm_get (smg_active (co_sessions c1)) i = Some s" "ses_state s = Handshaking"
    "ses_id s = i" "hm_get (co_responders c1) i = Some h" "co_identity c1 = co_identity c"
    "0 < smg_max_history (co_sessions c1)" "hm_get (co_answers c1) h = None"
    using incoming_session_request [OF assms(1,2), of now h rest c] assms(3-6) by auto
  let ?c2 = "accept_session t i c1"
  have acc: "map_option (\<lambda>d. fst (incoming_finish env t i d None ?c2)) (decision h waited first ?c2) =
        Some (map_sum id (encode_session_msg SmAccept) (ce_accept_ser env
          \<lparr>sac_session_id = i, sac_target_device_id = did_device_id (im_inner (co_identity c)),
           sac_target_device_name = did_device_name (im_inner (co_identity c)),
           sac_accepted_file_ids = [], sac_resume_offsets = []\<rparr>))" if "waited < 60000"
    using c1(5,6) that
    by (simp add: accept_session_def Let_def decision_answered incoming_finish_def split: sum.splits)
  have v: "valid_transition (ses_state s) SFailed" and term_failed: "is_terminal SFailed" using c1(3) by simp_all
  note fin = update_state_finish [OF c1(2) v term_failed refl c1(7), where now = t]
  have one: "refused env t i (rj why) why (Some (Inl why)) c2"
    if "co_sessions c2 = snd (update_state t i SFailed (Some why) (co_sessions c1)) \<or> c2 = c1" for why c2
  proof -
    have "snd (update_state t i SFailed (Some why) (co_sessions c2)) = snd (update_state t i SFailed (Some why) (co_sessions c1))"
      using that fin(1) by (auto simp: update_state_gone)
    then show ?thesis using fin(1) c1(4) fin(2-4) [of "Some why"]
      by (simp add: refused_def incoming_finish_def assms(7) Let_def)
  qed
  have rej: "decision h waited first (reject_session t i reason c1) = Some (Inl reason)" if "waited < 60000"
    using c1(5) that by (simp add: reject_session_def decision_answered)
  show ?thesis
    using acc c1(1) one [of "reject_session t i reason c1" reason] one [of c1 "''timeout waiting for approval''"] rej
      decision_unanswered [OF c1(5,8), of waited first]
    by (simp add: reject_session_def)
qed

section \<open>A concrete coordinator\<close>

definition demo_identity :: identity_manager where
  "demo_identity = \<lparr>im_inner = \<lparr>did_device_id = ''d1'', did_device_name = ''mac'', did_device_model = ''m'',
     did_software_version = ''1''\<rparr>, im_file = None, im_writable = True\<rparr>"

definition demo_session_request :: session_request_payload where
  "demo_session_request = \<lparr>srq_session_id = ''s1'', srq_source_device_id = ''d2'', srq_source_device_name = ''phone'',
     srq_files = [], srq_protocol_version = ''1.0.0''\<rparr>"

definition demo_coord_env :: coord_env where
  "demo_coord_env = \<lparr>ce_resume = demo_resume_env, ce_lower = map ascii_lower, ce_quic = False,
     ce_hello_ser = (\<lambda>_. Inr ''h''), ce_hello_de = (\<lambda>_. Inr demo_hello),
     ce_request_ser = (\<lambda>_. Inr []), ce_request_de = (\<lambda>_. Inr demo_session_request),
     ce_accept_ser = (\<lambda>_. Inr [1]), ce_accept_de = (\<lambda>_. Inl ''''),
     ce_reject_ser = (\<lambda>_. Inr [2]), ce_reject_de = (\<lambda>_. Inl ''''),
     ce_show_io = (\<lambda>_. ''io''), ce_sha256 = id\<rparr>"

definition demo_world :: world where
  "demo_world = \<lparr>wd_now = 5, wd_secs = 0, wd_nanos = id, wd_meta = (\<lambda>_. Some 3), wd_read = (\<lambda>_. Some [1, 2, 3]),
     wd_fs = (\<lambda>_. Some (FsFile 3))\<rparr>"

definition demo_coordinator :: coordinator where
  "demo_coordinator = coordinator_new demo_tofu demo_identity demo_rm"

definition demo_waiting :: coordinator where
  "demo_waiting = snd (incoming_session demo_coord_env 0 7 (encode_session_msg SmRequest []) demo_coordinator)"

definition demo_exchange :: "string \<Rightarrow> u16 \<Rightarrow> bytes \<Rightarrow> anyhow + bytes" where
  "demo_exchange = (\<lambda>_ _ _. Inr (as_bytes (''HTTP/1.1 200 OK'' @ crlf @ crlf @ ''h'')))"

lemma demo_waiting_session:
  "incoming_session demo_coord_env 0 7 (encode_session_msg SmRequest []) demo_coordinator = (Inr ''s1'', demo_waiting)"
  "map_option ses_direction (hm_get (smg_active (co_sessions demo_waiting)) ''s1'') = Some Download"
proof -
  have "read_session_msg (encode_session_msg SmRequest []) = Inr (session_view (SmRequest, []), [])"
    using read_session_bytes [of "[]" 1 SmRequest "[]"] by (simp add: encode_session_bytes)
  then show "incoming_session demo_coord_env 0 7 (encode_session_msg SmRequest []) demo_coordinator = (Inr ''s1'', demo_waiting)"
    "map_option ses_direction (hm_get (smg_active (co_sessions demo_waiting)) ''s1'') = Some Download"
    by (simp_all add: demo_waiting_def incoming_session_def session_view_def demo_coord_env_def demo_session_request_def
        sm_create_def with_files_def session_new_def Let_def)
qed

theorem incoming_never_active_witness:
  "hm_get (smg_active (co_sessions (accept_session 9 ''s1'' demo_waiting))) ''s1'' =
    hm_get (smg_active (co_sessions demo_waiting)) ''s1''"
proof -
  have reach: "co_reachable demo_coord_env demo_rm demo_waiting"
    unfolding demo_waiting_def demo_coordinator_def
    by (rule co_reachable.step [OF co_reachable.new co_step.incoming])
  obtain s where s: "hm_get (smg_active (co_sessions demo_waiting)) ''s1'' = Some s" "ses_direction s = Download"
    using demo_waiting_session(2) by (cases "hm_get (smg_active (co_sessions demo_waiting)) ''s1''") auto
  show ?thesis using incoming_never_active [OF reach s, of 9] s(1) by simp
qed

theorem resume_always_from_zero_witness:
  "can_resume demo_resume_env ''f'' ''h'' (co_resume (snd (execute_with_cancel demo_coord_env demo_world ''e''
     (\<lambda>_. Inl ''reset'') ''t'' \<lparr>trq_sources = [''a''], trq_destination = RTcp ''h'' 1 None, trq_direction = Upload,
       trq_options = options_default\<lparr>to_resume := True\<rparr>\<rparr> cancel_token_new cancel_token_new ''f'' demo_coordinator)))
    \<in> {None, Some 0}"
proof -
  have env: "ce_resume demo_coord_env = demo_resume_env" by (simp add: demo_coord_env_def)
  have "zero_offsets demo_resume_env demo_rm" by (simp add: zero_offsets_def resume_load_def demo_rm_def)
  moreover have "co_reachable demo_coord_env demo_rm (snd (execute_with_cancel demo_coord_env demo_world ''e''
     (\<lambda>_. Inl ''reset'') ''t'' \<lparr>trq_sources = [''a''], trq_destination = RTcp ''h'' 1 None, trq_direction = Upload,
       trq_options = options_default\<lparr>to_resume := True\<rparr>\<rparr> cancel_token_new cancel_token_new ''f'' demo_coordinator))"
    unfolding demo_coordinator_def by (rule co_reachable.step [OF co_reachable.new co_step.execute])
  ultimately show ?thesis
    using resume_always_from_zero [of demo_coord_env demo_rm, unfolded env, OF demo_json_ok, THEN conjunct1] by blast
qed

theorem start_transfer_outcome_witness:
  "hm_get (smg_active (co_sessions (snd (start_transfer demo_coord_env demo_world demo_exchange ''t'' ''e''
     (\<lambda>_. Inl ''reset'') ''10.0.0.1:80'' ''a'' ''a'' options_default demo_coordinator)))) ''t'' = None"
proof -
  let ?run = "start_transfer demo_coord_env demo_world demo_exchange ''t'' ''e''
     (\<lambda>_. Inl ''reset'') ''10.0.0.1:80'' ''a'' ''a'' options_default demo_coordinator"
  let ?conn = "transfer_connect demo_coord_env demo_world demo_exchange (im_inner (co_identity demo_coordinator)) ''t''
    ''10.0.0.1:80'' ''a'' ''a'' options_default
    (transfer_begin demo_world ''t'' ''10.0.0.1:80'' ''a'' ''a'' options_default demo_coordinator)"
  have "handshake_response (ce_hello_de demo_coord_env) (as_bytes (''HTTP/1.1 200 OK'' @ crlf @ crlf @ ''h'')) = Inr demo_hello"
    by (rule handshake_response_ok) (rule utf8_valid_ascii, simp_all add: crlf_def demo_coord_env_def)
  then have hs: "perform_handshake (ce_hello_ser demo_coord_env) (ce_hello_de demo_coord_env) demo_exchange host port p off
      = Inr demo_hello" for host port p off
    by (simp add: perform_handshake_def demo_exchange_def demo_coord_env_def)
  have "''10.0.0.1'' @ CHR '':'' # show_nat (unat (80 :: u16)) = ''10.0.0.1:80''" by (simp add: show_nat.simps) code_simp
  then have addr: "parse_addr ''10.0.0.1:80'' = Inr (''10.0.0.1'', 80)"
    using parse_addr_roundtrip [of "''10.0.0.1''" 80] by (simp only:)
  obtain q where conn: "?conn = Inr q"
    by (simp add: transfer_connect_def hs addr Let_def)
  have "0 < smg_max_history (co_sessions demo_coordinator)" "hm_get (co_engine demo_coordinator) ''t'' = None"
    by (simp_all add: demo_coordinator_def coordinator_new_def session_manager_new_def)
  note outcome = start_transfer_outcome [OF prod.collapse [symmetric] this, where env = demo_coord_env
      and w = demo_world and exchange = demo_exchange and fresh' = "''e''" and upload = "\<lambda>_. Inl ''reset''"
      and addr = "''10.0.0.1:80''" and src = "''a''" and name = "''a''" and opts = options_default, unfolded conn]
  show ?thesis using outcome by simp
qed

theorem incoming_session_answered_witness:
  "decision 7 59999 True demo_waiting = None
    \<and> refused demo_coord_env 60000 ''s1'' [2] ''timeout waiting for approval'' (decision 7 60000 True demo_waiting) demo_waiting"
proof -
  have de: "ce_request_de demo_coord_env [] = Inr demo_session_request"
    and rj: "\<And>p. ce_reject_ser demo_coord_env p = Inr [2]" and i: "''s1'' = srq_session_id demo_session_request"
    and cap: "0 < smg_max_history (co_sessions demo_coordinator)" and fresh: "hm_get (co_answers demo_coordinator) 7 = None"
    by (simp_all add: demo_coord_env_def demo_session_request_def demo_coordinator_def coordinator_new_def session_manager_new_def)
  have run: "incoming_session demo_coord_env 0 7 (encode_session_msg SmRequest [] @ []) demo_coordinator = (Inr ''s1'', demo_waiting)"
    using demo_waiting_session(1) by simp
  show ?thesis
    using incoming_session_answered [OF _ de i run cap fresh rj, of 59999 True 60000]
      incoming_session_answered [OF _ de i run cap fresh rj, of 60000 True 60000] by simp
qed

end
