(* ===== verification/Coordinator_State.thy ===== *)
theory Coordinator_State
  imports Coordinator_Steps
begin

text \<open>
  The shape of the coordinator's state: the session manager inside a reachable coordinator satisfies the
  invariant of a manager, whatever pieces of methods ran and in whatever order.
\<close>

lemma sm_wf_updates [intro]:
  assumes "sm_wf m"
  shows "sm_wf (update_progress now i p m)" "sm_wf (set_remote_caps now i caps m)"
    "sm_wf (sm_update_file_progress now i f n b m)" "sm_wf (snd (update_state now i st err m))"
  using sm_wf_apply [OF assms, of "SmUpdateProgress now i p"] sm_wf_apply [OF assms, of "SmCaps now i caps"]
    sm_wf_apply [OF assms, of "SmFileProgress now i f n b"] sm_wf_update_state [OF assms] by simp_all

lemma sm_wf_create [intro]:
  "sm_wf m \<Longrightarrow> sm_wf (sm_create (session_new now i p n d opts) m)"
  "sm_wf m \<Longrightarrow> sm_wf (sm_create (with_files fs (session_new now i p n d opts)) m)"
  using sm_wf_apply [of m "SmCreate s" for s] by (simp_all add: session_new_def with_files_def)

lemma sm_wf_fold_files:
  "sm_wf m \<Longrightarrow> sm_wf (fold (\<lambda>p. sm_update_file_progress now i f (g p) b) ps m)"
  by (induction ps arbitrary: m) (auto intro: sm_wf_updates)

lemma co_step_wf:
  assumes "co_step env c c'" and "sm_wf (co_sessions c)"
  shows "sm_wf (co_sessions c')"
  using assms
proof (cases rule: co_step.cases)
  case (connect i w exchange device addr src name opts req)
  then show ?thesis using transfer_connect_sessions [OF connect(2)] assms(2) by (metis sm_wf_updates(2,4))
next
  case (upload u job f)
  with assms(2) show ?thesis
    by (auto simp: upload_one_def Let_def intro!: sm_wf_fold_files
        split: prod.splits sum.splits dest!: arg_cong [of _ _ "\<lambda>x. co_sessions (snd x)"])
qed (auto simp: transfer_begin_def transfer_finish_def session_open_def session_reply_def upload_begin_def upload_end_def
    incoming_session_def incoming_finish_def accept_session_def reject_session_def cancel_session_def
    session_event_stream_def co_start_def co_pause_def co_resume_transfer_def co_cancel_def set_device_name_def
    upsert_device_def co_request_pairing_def co_confirm_pairing_def co_reject_pairing_def Let_def
    split: sum.splits option.splits session_msg_type.splits prod.splits transfer_status.splits if_splits)

text \<open>Every reachable coordinator is well formed: a session in the active map is filed under its own
  identifier and is in an active state, every session of the history is in a terminal state, and the
  history keeps within its limit.\<close>

theorem coordinator_well_formed:
  assumes "co_reachable env rm c"
  shows "hm_wf (smg_active (co_sessions c))
    \<and> (\<forall>i s. hm_get (smg_active (co_sessions c)) i = Some s \<longrightarrow> ses_id s = i \<and> is_active (ses_state s))
    \<and> (\<forall>s \<in> set (smg_history (co_sessions c)). is_terminal (ses_state s))
    \<and> length (smg_history (co_sessions c)) \<le> smg_max_history (co_sessions c)"
proof -
  have "sm_wf (co_sessions c)"
    using assms
  proof (induction rule: co_reachable.induct)
    case (new tofu ident)
    then show ?case using sm_wf_new by (simp add: coordinator_new_def)
  qed (blast intro: co_step_wf)
  then show ?thesis unfolding sm_wf_def .
qed

theorem coordinator_well_formed_witness:
  "map_option ses_id (hm_get (smg_active (co_sessions demo_waiting)) ''s1'') = Some ''s1''"
proof -
  have reach: "co_reachable demo_coord_env demo_rm demo_waiting"
    unfolding demo_waiting_def demo_coordinator_def
    by (rule co_reachable.step [OF co_reachable.new co_step.incoming])
  obtain s where "hm_get (smg_active (co_sessions demo_waiting)) ''s1'' = Some s"
    using demo_waiting_session(2) by (cases "hm_get (smg_active (co_sessions demo_waiting)) ''s1''") auto
  with coordinator_well_formed [OF reach] show ?thesis by simp
qed

section \<open>The outcome of an outgoing session\<close>

lemma execute_keeps [simp]:
  "co_tokens (snd (execute_with_cancel env w fresh upload i req tok tok' fid c)) = co_tokens c"
  "co_session_events (snd (execute_with_cancel env w fresh upload i req tok tok' fid c)) = co_session_events c"
  by (simp_all add: execute_with_cancel_def emit_event_def resume_ignore_def Let_def split: prod.splits sum.splits)

lemma execute_result:
  assumes "\<not> ct_cancelled tok" "trq_sources req = [src]" "trq_destination req = RTcp host port path" "trq_direction req = Upload"
  shows "(\<exists>h. fst (execute_with_cancel env w fresh upload i req tok tok fid c) = Inr h) \<longleftrightarrow> (\<exists>r. upload 0 = Inr r)"
  using assms
  by (simp add: execute_with_cancel_def engine_execute_with_cancel_def engine_execute_def Let_def split: sum.splits prod.splits)

text \<open>The session of a job is being served: it is active, its token is there and not cancelled.\<close>

definition serving :: "string \<Rightarrow> coordinator \<Rightarrow> bool" where
  "serving i c \<longleftrightarrow>
    (\<exists>s. hm_get (smg_active (co_sessions c)) i = Some s \<and> ses_id s = i \<and> ses_state s = Active)
    \<and> 0 < smg_max_history (co_sessions c) \<and> (\<exists>t. hm_get (co_tokens c) i = Some t \<and> \<not> ct_cancelled t)"

definition same_others :: "string \<Rightarrow> coordinator \<Rightarrow> coordinator \<Rightarrow> bool" where
  "same_others i c c' \<longleftrightarrow> (\<forall>j. j \<noteq> i \<longrightarrow> hm_get (smg_active (co_sessions c')) j = hm_get (smg_active (co_sessions c)) j)
    \<and> co_session_events c' = co_session_events c"

text \<open>The files the peer accepted; all, where it named none.\<close>

definition accepted_by :: "upload_job \<Rightarrow> file_meta \<Rightarrow> bool" where
  "accepted_by job f \<longleftrightarrow> uj_accepted job = [] \<or> fm_file_id f \<in> set (uj_accepted job)"

lemma progress_keeps:
  assumes "serving i c"
  shows "serving i (c\<lparr>co_sessions := sm_update_file_progress now i f n b (co_sessions c)\<rparr>)"
    "same_others i c (c\<lparr>co_sessions := sm_update_file_progress now i f n b (co_sessions c)\<rparr>)"
  using assms
  by (auto simp: serving_def same_others_def sm_update_file_progress_def sm_modify_def ses_update_file_progress_def Let_def)

lemma progresses_keep:
  "serving i c \<Longrightarrow> serving i (c\<lparr>co_sessions := fold (\<lambda>p. sm_update_file_progress now i f (g p) b) ps (co_sessions c)\<rparr>)
    \<and> same_others i c (c\<lparr>co_sessions := fold (\<lambda>p. sm_update_file_progress now i f (g p) b) ps (co_sessions c)\<rparr>)"
proof (induction ps arbitrary: c)
  case Nil
  then show ?case by (simp add: same_others_def)
next
  case (Cons p ps)
  from Cons.IH [OF progress_keeps(1) [OF Cons.prems]] progress_keeps(2) [OF Cons.prems]
  show ?case by (simp add: same_others_def)
qed

lemma serving_cong:
  "co_sessions c' = co_sessions c \<Longrightarrow> co_tokens c' = co_tokens c \<Longrightarrow> serving i c' = serving i c"
  by (simp add: serving_def)

lemma upload_one_serves:
  assumes "serving (uj_session_id job) c" "upload_one env u job f c = (ok, c')"
  shows "serving (uj_session_id job) c' \<and> same_others (uj_session_id job) c c'
    \<and> (ok \<longleftrightarrow> (accepted_by job f \<longrightarrow> (\<exists>r. up_upload u 0 = Inr r)))"
proof (cases "accepted_by job f")
  case False
  then show ?thesis using assms by (simp add: upload_one_def accepted_by_def same_others_def)
next
  case True
  let ?i = "uj_session_id job" and ?t = "up_transfer_id u" and ?now = "wd_now (up_world u)"
  let ?opts = "(case hm_get (uj_offsets job) (fm_file_id f) of
      Some off \<Rightarrow> options_default\<lparr>to_resume := True, to_resume_offset := off\<rparr> | None \<Rightarrow> options_default)\<lparr>to_cancel_token := Some 0\<rparr>"
  let ?c1 = "c\<lparr>co_progress := hm_insert ?t [] (co_progress c)\<rparr>"
  let ?req = "\<lparr>trq_sources = [fm_source_path f], trq_destination = RTcp (uj_host job) (uj_port job) (Some (fm_name f)),
      trq_direction = Upload, trq_options = ?opts\<rparr>"
  let ?ex = "execute_with_cancel env (up_world u) (up_fresh u) (up_upload u) ?t ?req (token_of ?i ?c1) (token_of ?i ?c1)
      (transfer_file_id (fm_source_path f) (fm_name f)) ?c1"
  obtain r c2 where ex: "?ex = (r, c2)" by fastforce
  have "co_sessions (snd ?ex) = co_sessions c" "co_tokens (snd ?ex) = co_tokens c" "co_session_events (snd ?ex) = co_session_events c"
    by simp_all
  then have c2: "co_sessions c2 = co_sessions c" "co_tokens c2 = co_tokens c" "co_session_events c2 = co_session_events c"
    unfolding ex by simp_all
  have "\<not> ct_cancelled (token_of ?i ?c1)" using assms(1) by (auto simp: serving_def token_of_def)
  then have "(\<exists>h. fst ?ex = Inr h) \<longleftrightarrow> (\<exists>x. up_upload u 0 = Inr x)" by (rule execute_result) simp_all
  then have r: "(\<exists>h. r = Inr h) \<longleftrightarrow> (\<exists>x. up_upload u 0 = Inr x)" unfolding ex by simp
  let ?sent = "case hm_get (co_progress c2) ?t of Some l \<Rightarrow> if up_forwarded u then l else [] | None \<Rightarrow> []"
  let ?m = "fold (\<lambda>p. sm_update_file_progress ?now ?i (fm_file_id f) (tpg_bytes_sent p) False) ?sent (co_sessions c2)"
  have m: "serving ?i (c2\<lparr>co_sessions := ?m\<rparr>) \<and> same_others ?i c2 (c2\<lparr>co_sessions := ?m\<rparr>)"
    using assms(1) c2 by (intro progresses_keep) (simp add: serving_def)
  let ?c3 = "c2\<lparr>co_sessions := ?m, co_progress := hm_remove ?t (co_progress c2)\<rparr>"
  have c3: "serving ?i ?c3" "same_others ?i c ?c3" using m c2 by (simp_all add: serving_def same_others_def)
  have run: "upload_one env u job f c = (case r of
      Inr _ \<Rightarrow> (True, ?c3\<lparr>co_sessions := sm_update_file_progress ?now ?i (fm_file_id f) (fm_size f) True (co_sessions ?c3)\<rparr>)
    | Inl _ \<Rightarrow> (False, ?c3))"
    using True by (simp only: upload_one_def accepted_by_def Let_def if_True ex split)
  show ?thesis
  proof (cases r)
    case (Inl e)
    then show ?thesis using run assms(2) c3 r True by auto
  next
    case (Inr h)
    with run assms(2) have "ok" "c' = ?c3\<lparr>co_sessions := sm_update_file_progress ?now ?i (fm_file_id f) (fm_size f) True (co_sessions ?c3)\<rparr>"
      by auto
    then show ?thesis
      using progress_keeps [OF c3(1), of ?now "fm_file_id f" "fm_size f" True] c3(2) r Inr by (simp add: same_others_def)
  qed
qed

lemma upload_files_serve:
  "serving (uj_session_id job) c \<Longrightarrow> upload_files env job fs c = (ok, c') \<Longrightarrow>
    serving (uj_session_id job) c' \<and> same_others (uj_session_id job) c c'
    \<and> (ok \<longleftrightarrow> list_all (\<lambda>(f, u). accepted_by job f \<longrightarrow> (\<exists>r. up_upload u 0 = Inr r)) fs)"
proof (induction fs arbitrary: c)
  case Nil
  then show ?case by (simp add: same_others_def)
next
  case (Cons x fs)
  obtain f u where x: "x = (f, u)" by fastforce
  obtain b c1 where one: "upload_one env u job f c = (b, c1)" by fastforce
  note s = upload_one_serves [OF Cons.prems(1) one]
  show ?case
  proof (cases b)
    case True
    then have "upload_files env job fs c1 = (ok, c')" using Cons.prems(2) one x by simp
    from Cons.IH [OF _ this] s True show ?thesis by (simp add: x same_others_def)
  next
    case False
    then show ?thesis using Cons.prems(2) one s x by auto
  qed
qed

text \<open>C13. The outcome of an outgoing session. When the peer accepts a negotiating session, the session becomes active and its files are
  uploaded in the background. When that task has ended with nothing else happening to the session, the session is out of the active map and last in
  the history: completed without an error if every file the peer accepted was uploaded (all files, where it named none), else failed;
  its listeners are told that it is active and then the same outcome, its token is gone, and no other session has changed. If the session is cancelled before the task ends,
  it stays cancelled with the reason that was given, whatever the task found.\<close>

theorem outgoing_session_outcome:
  assumes "hm_get (smg_active (co_sessions c)) i = Some s" "ses_id s = i" "ses_state s = Negotiating"
    and "0 < smg_max_history (co_sessions c)" "hm_get (co_session_events c) i = Some evs"
    and "session_reply env now i host port metas (header, payload) c = (Inr (Some job), c1)"
    and "ce_accept_de env payload = Inr a"
    and "sent_all \<longleftrightarrow> list_all (\<lambda>(f, u). sac_accepted_file_ids a = [] \<or> fm_file_id f \<in> set (sac_accepted_file_ids a)
        \<longrightarrow> (\<exists>r. up_upload u 0 = Inr r)) (zip metas us)"
    and "c2 = upload_task env t job us c1"
  shows "hm_get (smg_active (co_sessions c2)) i = None
    \<and> (let h = last (smg_history (co_sessions c2)) in
         ses_id h = i \<and> ses_state h = (if sent_all then SCompleted else SFailed)
         \<and> ses_error h = (if sent_all then None else Some ''transfer failed''))
    \<and> hm_get (co_session_events c2) i =
        Some (evs @ [SeActive i, if sent_all then SeCompleted i (total_size metas) else SeFailed i ''transfer failed''])
    \<and> hm_get (co_tokens c2) i = None
    \<and> (j \<noteq> i \<longrightarrow> hm_get (smg_active (co_sessions c2)) j = hm_get (smg_active (co_sessions c)) j)
    \<and> (let c3 = upload_end t ok job (cancel_session t' i reason (snd (upload_files env job (zip metas us) (upload_begin job c1))));
           h = last (smg_history (co_sessions c3)) in
         hm_get (smg_active (co_sessions c3)) i = None
         \<and> ses_id h = i \<and> ses_state h = SCancelled \<and> ses_error h = Some reason)"
proof -
  have job: "smh_msg_type header = SmAccept" "uj_session_id job = i" "uj_files job = metas" "uj_accepted job = sac_accepted_file_ids a"
    "c1 = emit_session_event (SeActive i) (set_state now i Active None c)"
    using assms(6,7) by (auto simp: session_reply_def Let_def split: session_msg_type.splits sum.splits)
  have v: "valid_transition (ses_state s) Active" and nt: "\<not> is_terminal Active" using assms(3) by simp_all
  note adv = update_state_advance [OF assms(1) v nt refl, where now = now and err = None]
  let ?b = "upload_begin job c1"
  have b: "serving (uj_session_id job) ?b" "hm_get (co_session_events ?b) i = Some (evs @ [SeActive i])"
    "j \<noteq> i \<Longrightarrow> hm_get (smg_active (co_sessions ?b)) j = hm_get (smg_active (co_sessions c)) j"
    using adv assms(2,4,5) job
    by (auto simp: serving_def upload_begin_def cancel_token_new_def emit_session_event_def)
  obtain ok' c' where run: "upload_files env job (zip metas us) ?b = (ok', c')" by fastforce
  note f = upload_files_serve [OF b(1) run]
  have ok': "ok' = sent_all" using f assms(8) by (simp add: accepted_by_def job)
  obtain s' tok where c': "hm_get (smg_active (co_sessions c')) i = Some s'" "ses_id s' = i" "ses_state s' = Active"
    "0 < smg_max_history (co_sessions c')" "hm_get (co_tokens c') i = Some tok" "\<not> ct_cancelled tok"
    "hm_get (co_session_events c') i = Some (evs @ [SeActive i])"
    "j \<noteq> i \<Longrightarrow> hm_get (smg_active (co_sessions c')) j = hm_get (smg_active (co_sessions c)) j"
    using f b job(2) by (auto simp: serving_def same_others_def)
  have c2: "c2 = upload_end t sent_all job c'" using assms(9) run ok' job(3) by (simp add: upload_task_def)
  have vt: "valid_transition (ses_state s') st" if "st \<in> {SCompleted, SFailed, SCancelled}" for st using c'(3) that by auto
  have tm: "is_terminal SCompleted" "is_terminal SFailed" "is_terminal SCancelled" by simp_all
  note ends = update_state_finish [OF c'(1) vt [of SCompleted] tm(1) refl c'(4), where now = t and err = None, simplified c'(2)]
    update_state_finish [OF c'(1) vt [of SFailed] tm(2) refl c'(4), where now = t and err = "Some ''transfer failed''", simplified c'(2)]
  have live: "\<not> ct_cancelled (token_of i c')" using c'(5,6) by (simp add: token_of_def)
  have first: "hm_get (smg_active (co_sessions c2)) i = None
    \<and> (let h = last (smg_history (co_sessions c2)) in
         ses_id h = i \<and> ses_state h = (if sent_all then SCompleted else SFailed)
         \<and> ses_error h = (if sent_all then None else Some ''transfer failed''))
    \<and> hm_get (co_tokens c2) i = None \<and> (j \<noteq> i \<longrightarrow> hm_get (smg_active (co_sessions c2)) j = hm_get (smg_active (co_sessions c)) j)"
    using ends c'(8) live by (simp add: c2 upload_end_def job Let_def)
  have told: "hm_get (co_session_events c2) i =
        Some (evs @ [SeActive i, if sent_all then SeCompleted i (total_size metas) else SeFailed i ''transfer failed''])"
    using c'(7) live by (simp add: c2 upload_end_def job Let_def emit_session_event_def)
  note cancelled = update_state_finish [OF c'(1) vt [of SCancelled] tm(3) refl c'(4), where now = t' and err = "Some reason", simplified c'(2)]
  have "let c3 = upload_end t ok job (cancel_session t' i reason c'); h = last (smg_history (co_sessions c3)) in
      hm_get (smg_active (co_sessions c3)) i = None \<and> ses_id h = i \<and> ses_state h = SCancelled \<and> ses_error h = Some reason"
    using cancelled by (simp add: upload_end_def cancel_session_def job Let_def update_state_gone)
  then show ?thesis using first told run by simp
qed

text \<open>A session of one file, which is uploaded.\<close>

definition demo_negotiating :: coordinator where
  "demo_negotiating = demo_coordinator\<lparr>
     co_sessions := sm_create ((session_new 0 ''s1'' ''p'' ''phone'' Upload options_default)\<lparr>ses_state := Negotiating\<rparr>) (co_sessions demo_coordinator),
     co_session_events := [(''s1'', [])]\<rparr>"

definition demo_accept_env :: coord_env where
  "demo_accept_env = demo_coord_env\<lparr>ce_accept_de := (\<lambda>_. Inr \<lparr>sac_session_id = ''s1'', sac_target_device_id = ''d2'',
     sac_target_device_name = ''phone'', sac_accepted_file_ids = [], sac_resume_offsets = []\<rparr>)\<rparr>"

definition demo_upload :: upload_in where
  "demo_upload = \<lparr>up_world = demo_world, up_transfer_id = ''t'', up_fresh = ''e'',
     up_upload = (\<lambda>_. Inr \<lparr>ur_bytes_sent = 3, ur_bytes_total = 3, ur_speed_mbps = Fin 1\<rparr>), up_forwarded = False\<rparr>"

theorem outgoing_session_outcome_witness:
  "map_option (\<lambda>job. ses_state (last (smg_history (co_sessions (upload_task demo_accept_env 9 job [demo_upload]
       (snd (session_reply demo_accept_env 8 ''s1'' ''10.0.0.1'' 80 (file_metas demo_world [''a'']) (\<lparr>smh_msg_type = SmAccept, smh_payload_len = 0\<rparr>, []) demo_negotiating)))))))
     (case fst (session_reply demo_accept_env 8 ''s1'' ''10.0.0.1'' 80 (file_metas demo_world [''a'']) (\<lparr>smh_msg_type = SmAccept, smh_payload_len = 0\<rparr>, []) demo_negotiating) of
        Inr job \<Rightarrow> job | Inl _ \<Rightarrow> None) = Some SCompleted"
proof -
  let ?reply = "session_reply demo_accept_env 8 ''s1'' ''10.0.0.1'' 80 (file_metas demo_world [''a'']) (\<lparr>smh_msg_type = SmAccept, smh_payload_len = 0\<rparr>, []) demo_negotiating"
  obtain s where s: "hm_get (smg_active (co_sessions demo_negotiating)) ''s1'' = Some s" "ses_id s = ''s1''" "ses_state s = Negotiating"
    by (simp add: demo_negotiating_def sm_create_def session_new_def)
  have cap: "0 < smg_max_history (co_sessions demo_negotiating)" and evs: "hm_get (co_session_events demo_negotiating) ''s1'' = Some []"
    by (simp_all add: demo_negotiating_def demo_coordinator_def coordinator_new_def session_manager_new_def sm_create_def hm_get_def)
  obtain a where a: "ce_accept_de demo_accept_env [] = Inr a" by (simp add: demo_accept_env_def)
  then obtain job c1 where r: "?reply = (Inr (Some job), c1)" by (simp add: session_reply_def)
  have all: "True \<longleftrightarrow> list_all (\<lambda>(f, u). sac_accepted_file_ids a = [] \<or> fm_file_id f \<in> set (sac_accepted_file_ids a)
      \<longrightarrow> (\<exists>r. up_upload u 0 = Inr r)) (zip (file_metas demo_world [''a'']) [demo_upload])"
    by (auto simp: list_all_iff demo_upload_def dest!: set_zip_rightD)
  show ?thesis using outgoing_session_outcome [OF s cap evs r a all refl, of 9] r by (simp add: Let_def)
qed

end
