(* ===== verification/Float_Model.thy ===== *)
theory Float_Model
  imports Prelude
begin

text \<open>
  Arithmetic of \<^verbatim>\<open>f64\<close>. An operation computes the exact rational result and rounds it; the rounding
  (\<open>rnd\<close>, to the nearest double, or an infinity where that overflows) is an argument of every operation,
  so what is proved holds for any rounding. Decimal literals that are not doubles are rounded too.
  Signed zeros are not distinguished: the quotient of a positive number by zero is \<open>PosInf\<close>; the modelled code
  divides by positive numbers only.
\<close>

type_synonym rounding = "rat \<Rightarrow> fl"

fun fl_neg :: "fl \<Rightarrow> fl" where
  "fl_neg NaN = NaN"
| "fl_neg NegInf = PosInf"
| "fl_neg PosInf = NegInf"
| "fl_neg (Fin q) = Fin (- q)"

fun fl_abs :: "fl \<Rightarrow> fl" where
  "fl_abs NaN = NaN"
| "fl_abs NegInf = PosInf"
| "fl_abs PosInf = PosInf"
| "fl_abs (Fin q) = Fin \<bar>q\<bar>"

fun fl_add :: "rounding \<Rightarrow> fl \<Rightarrow> fl \<Rightarrow> fl" where
  "fl_add rnd (Fin a) (Fin b) = rnd (a + b)"
| "fl_add rnd NaN _ = NaN"
| "fl_add rnd _ NaN = NaN"
| "fl_add rnd PosInf b = (if b = NegInf then NaN else PosInf)"
| "fl_add rnd NegInf b = (if b = PosInf then NaN else NegInf)"
| "fl_add rnd (Fin _) b = b"

definition fl_sub :: "rounding \<Rightarrow> fl \<Rightarrow> fl \<Rightarrow> fl" where
  "fl_sub rnd a b = fl_add rnd a (fl_neg b)"

text \<open>An infinity of the sign of \<open>q\<close>; NaN where \<open>q\<close> is zero.\<close>

definition fl_inf :: "rat \<Rightarrow> fl" where
  "fl_inf q = (if q > 0 then PosInf else if q < 0 then NegInf else NaN)"

fun fl_mul :: "rounding \<Rightarrow> fl \<Rightarrow> fl \<Rightarrow> fl" where
  "fl_mul rnd (Fin a) (Fin b) = rnd (a * b)"
| "fl_mul rnd NaN _ = NaN"
| "fl_mul rnd _ NaN = NaN"
| "fl_mul rnd (Fin a) PosInf = fl_inf a"
| "fl_mul rnd (Fin a) NegInf = fl_inf (- a)"
| "fl_mul rnd PosInf (Fin a) = fl_inf a"
| "fl_mul rnd NegInf (Fin a) = fl_inf (- a)"
| "fl_mul rnd PosInf b = b"
| "fl_mul rnd NegInf b = fl_neg b"

fun fl_div :: "rounding \<Rightarrow> fl \<Rightarrow> fl \<Rightarrow> fl" where
  "fl_div rnd (Fin a) (Fin b) = (if b = 0 then fl_inf a else rnd (a / b))"
| "fl_div rnd NaN _ = NaN"
| "fl_div rnd _ NaN = NaN"
| "fl_div rnd (Fin a) _ = Fin 0"
| "fl_div rnd PosInf (Fin a) = (if a < 0 then NegInf else PosInf)"
| "fl_div rnd NegInf (Fin a) = (if a < 0 then PosInf else NegInf)"
| "fl_div rnd _ _ = NaN"

text \<open>\<^verbatim>\<open>f64::max\<close>: the other argument where one of them is NaN.\<close>

definition fl_max :: "fl \<Rightarrow> fl \<Rightarrow> fl" where
  "fl_max a b = (if a = NaN then b else if b = NaN then a else if fl_less a b then b else a)"

text \<open>\<^verbatim>\<open>f64::clamp\<close>: NaN stays NaN.\<close>

definition fl_clamp :: "fl \<Rightarrow> fl \<Rightarrow> fl \<Rightarrow> fl" where
  "fl_clamp lo hi x = (if fl_less x lo then lo else if fl_less hi x then hi else x)"

definition fl_of_u64 :: "rounding \<Rightarrow> u64 \<Rightarrow> fl" where
  "fl_of_u64 rnd n = rnd (of_nat (unat n))"

definition fl_of_u32 :: "rounding \<Rightarrow> u32 \<Rightarrow> fl" where
  "fl_of_u32 rnd n = rnd (of_nat (unat n))"

text \<open>\<^verbatim>\<open>Duration::as_secs_f64\<close> of a number of milliseconds.\<close>

definition as_secs :: "rounding \<Rightarrow> duration \<Rightarrow> fl" where
  "as_secs rnd d = rnd (of_nat d / 1000)"

text \<open>\<^verbatim>\<open>n.clamp(lo, hi)\<close> of a machine integer.\<close>

definition word_clamp :: "'a::len word \<Rightarrow> 'a word \<Rightarrow> 'a word \<Rightarrow> 'a word" where
  "word_clamp lo hi n = (if n < lo then lo else if n > hi then hi else n)"

section \<open>Facts\<close>

text \<open>In the closed interval between two finite bounds, and so not NaN.\<close>

definition fl_within :: "rat \<Rightarrow> rat \<Rightarrow> fl \<Rightarrow> bool" where
  "fl_within lo hi x = (case x of Fin q \<Rightarrow> lo \<le> q \<and> q \<le> hi | _ \<Rightarrow> False)"

lemma fl_clamp_within: "x \<noteq> NaN \<Longrightarrow> lo \<le> hi \<Longrightarrow> fl_within lo hi (fl_clamp (Fin lo) (Fin hi) x)"
  by (cases x) (auto simp: fl_clamp_def fl_within_def)

lemma fl_within_not_NaN: "fl_within lo hi x \<Longrightarrow> x \<noteq> NaN"
  by (auto simp: fl_within_def)

lemma fl_max_not_NaN: "b \<noteq> NaN \<Longrightarrow> fl_max a b \<noteq> NaN" "a \<noteq> NaN \<Longrightarrow> fl_max a b \<noteq> NaN"
  by (auto simp: fl_max_def)

lemma fl_min_not_NaN: "b \<noteq> NaN \<Longrightarrow> fl_min a b \<noteq> NaN" "a \<noteq> NaN \<Longrightarrow> fl_min a b \<noteq> NaN"
  by (auto simp: fl_min_def)

lemma word_clamp_within: "lo \<le> hi \<Longrightarrow> lo \<le> word_clamp lo hi n \<and> word_clamp lo hi n \<le> hi"
  by (auto simp: word_clamp_def)

lemma word_clamp_idem: "lo \<le> n \<Longrightarrow> n \<le> hi \<Longrightarrow> word_clamp lo hi n = n"
  by (auto simp: word_clamp_def)

end
