(* ===== verification/Control.thy ===== *)
theory Control
  imports Float_Model Handshake
begin

text \<open>
  The adaptive control of a transfer: \<^verbatim>\<open>adaptive.rs\<close> and \<^verbatim>\<open>control/metrics.rs\<close>,
  \<^verbatim>\<open>control/classifier.rs\<close>, \<^verbatim>\<open>control/decision.rs\<close> of \<^verbatim>\<open>crates/transfer_engine/src\<close>.

  The clock is an argument, as are the rounding of floats (\<open>rnd\<close>), the text \<open>fmt d x\<close> of a float with
  \<open>d\<close> decimals and the number of CPUs.
\<close>

section \<open>Tuning configuration\<close>

record tuning_config =
  tn_chunk_size_bytes :: u64
  tn_parallel_streams :: u64
  tn_send_buffer_kb :: u64
  tn_recv_buffer_kb :: u64
  tn_write_batch_size :: u64
  tn_worker_threads :: u64
  tn_throughput_limit_mbps :: "fl option"
  tn_transport_mode :: transport_mode

definition tuning_default :: "u64 \<Rightarrow> tuning_config" where
  "tuning_default cpus =
     \<lparr>tn_chunk_size_bytes = 1048576, tn_parallel_streams = 1, tn_send_buffer_kb = 4096,
      tn_recv_buffer_kb = 4096, tn_write_batch_size = 4, tn_worker_threads = max cpus 2,
      tn_throughput_limit_mbps = None, tn_transport_mode = TcpBuffered\<rparr>"

text \<open>The lock of the configuration is \<open>None\<close> where a writer holds it.\<close>

record adaptive_state =
  ad_current_config :: "tuning_config option"
  ad_running :: bool
  ad_file_size :: u64
  ad_zero_copy_failed :: bool
  ad_udp_handshake_failed :: bool
  ad_packet_loss_pct :: fl
  ad_rtt_variance_ms :: fl

definition adaptive_state_new :: "u64 \<Rightarrow> u64 \<Rightarrow> adaptive_state" where
  "adaptive_state_new cpus file_size =
     \<lparr>ad_current_config = Some (tuning_default cpus), ad_running = True, ad_file_size = file_size,
      ad_zero_copy_failed = False, ad_udp_handshake_failed = False,
      ad_packet_loss_pct = Fin 0, ad_rtt_variance_ms = Fin 0\<rparr>"

definition config_snapshot :: "u64 \<Rightarrow> adaptive_state \<Rightarrow> tuning_config" where
  "config_snapshot cpus s = (case ad_current_config s of Some c \<Rightarrow> c | None \<Rightarrow> tuning_default cpus)"

definition adaptive_stop :: "adaptive_state \<Rightarrow> adaptive_state" where
  "adaptive_stop s = s\<lparr>ad_running := False\<rparr>"

text \<open>The registered state \<^verbatim>\<open>ACTIVE_ADAPTIVE_STATE\<close> is a global variable.\<close>

definition register_active_state :: "adaptive_state \<Rightarrow> adaptive_state option \<Rightarrow> adaptive_state option" where
  "register_active_state s g = Some s"

definition deregister_active_state :: "adaptive_state option \<Rightarrow> adaptive_state option" where
  "deregister_active_state g = None"

definition get_active_config :: "u64 \<Rightarrow> adaptive_state option \<Rightarrow> tuning_config" where
  "get_active_config cpus g = (case g of Some s \<Rightarrow> config_snapshot cpus s | None \<Rightarrow> tuning_default cpus)"

section \<open>Metrics\<close>

record ewma =
  ew_value :: fl
  ew_alpha :: fl
  ew_initialized :: bool

definition ewma_new :: "fl \<Rightarrow> ewma" where
  "ewma_new alpha = \<lparr>ew_value = Fin 0, ew_alpha = alpha, ew_initialized = False\<rparr>"

definition ewma_update :: "rounding \<Rightarrow> fl \<Rightarrow> ewma \<Rightarrow> fl \<times> ewma" where
  "ewma_update rnd sample e =
    (let e' = (if \<not> ew_initialized e then e\<lparr>ew_value := sample, ew_initialized := True\<rparr>
               else e\<lparr>ew_value := fl_add rnd (fl_mul rnd (ew_alpha e) sample)
                   (fl_mul rnd (fl_sub rnd (Fin 1) (ew_alpha e)) (ew_value e))\<rparr>) in
     (ew_value e', e'))"

record network_metrics =
  nm_throughput_mbps :: fl
  nm_rtt_ms :: fl
  nm_packet_loss_pct :: fl
  nm_in_flight_bytes :: u64
  nm_cwnd_bytes :: u64
  nm_retransmits :: u32
  nm_queue_delay_ms :: fl
  nm_cpu_usage_pct :: fl
  nm_timestamp :: instant

definition network_metrics_default :: "instant \<Rightarrow> network_metrics" where
  "network_metrics_default now =
     \<lparr>nm_throughput_mbps = Fin 0, nm_rtt_ms = Fin 50, nm_packet_loss_pct = Fin 0,
      nm_in_flight_bytes = 0, nm_cwnd_bytes = 65535, nm_retransmits = 0, nm_queue_delay_ms = Fin 0,
      nm_cpu_usage_pct = Fin 0, nm_timestamp = now\<rparr>"

record metrics_history =
  mh_samples :: "network_metrics list"
  mh_max_samples :: nat
  mh_window_bytes :: u64
  mh_window_goodput_bytes :: u64
  mh_window_retransmits :: u32
  mh_window_write_us :: u64
  mh_window_write_count :: u64
  mh_window_start :: instant
  mh_last_rtt_ms :: fl
  mh_ewma_throughput :: ewma
  mh_ewma_rtt :: ewma
  mh_ewma_queue_delay :: ewma

definition metrics_new :: "instant \<Rightarrow> nat \<Rightarrow> metrics_history" where
  "metrics_new now max_samples =
     \<lparr>mh_samples = [], mh_max_samples = max_samples, mh_window_bytes = 0, mh_window_goodput_bytes = 0,
      mh_window_retransmits = 0, mh_window_write_us = 0, mh_window_write_count = 0,
      mh_window_start = now, mh_last_rtt_ms = Fin 50, mh_ewma_throughput = ewma_new (Fin (1 / 4)),
      mh_ewma_rtt = ewma_new (Fin (1 / 4)), mh_ewma_queue_delay = ewma_new (Fin (1 / 4))\<rparr>"

definition metrics_clear :: "instant \<Rightarrow> metrics_history \<Rightarrow> metrics_history" where
  "metrics_clear now m = m\<lparr>mh_samples := [], mh_window_bytes := 0, mh_window_goodput_bytes := 0,
     mh_window_retransmits := 0, mh_window_write_us := 0, mh_window_write_count := 0,
     mh_window_start := now, mh_last_rtt_ms := Fin 50, mh_ewma_throughput := ewma_new (Fin (1 / 4)),
     mh_ewma_rtt := ewma_new (Fin (1 / 4)), mh_ewma_queue_delay := ewma_new (Fin (1 / 4))\<rparr>"

definition metrics_record_write :: "u64 \<Rightarrow> u64 \<Rightarrow> bool \<Rightarrow> metrics_history \<Rightarrow> metrics_history" where
  "metrics_record_write n duration_us is_retransmit m =
    (let m1 = m\<lparr>mh_window_bytes := mh_window_bytes m + n\<rparr>;
         m2 = (if \<not> is_retransmit
               then m1\<lparr>mh_window_goodput_bytes := mh_window_goodput_bytes m1 + n\<rparr> else m1);
         m3 = m2\<lparr>mh_window_write_us := mh_window_write_us m2 + duration_us,
                mh_window_write_count := mh_window_write_count m2 + 1\<rparr> in
     if is_retransmit then m3\<lparr>mh_window_retransmits := mh_window_retransmits m3 + 1\<rparr> else m3)"

definition metrics_record_rtt :: "fl \<Rightarrow> metrics_history \<Rightarrow> metrics_history" where
  "metrics_record_rtt rtt_ms m = m\<lparr>mh_last_rtt_ms := rtt_ms\<rparr>"

text \<open>The sample goes to the end of the rolling history, whose oldest samples are dropped.\<close>

definition push_sample :: "network_metrics \<Rightarrow> metrics_history \<Rightarrow> metrics_history" where
  "push_sample s m =
    (let l = mh_samples m @ [s] in m\<lparr>mh_samples := drop (length l - mh_max_samples m) l\<rparr>)"

definition window_throughput :: "rounding \<Rightarrow> instant \<Rightarrow> metrics_history \<Rightarrow> fl" where
  "window_throughput rnd now m =
    (let elapsed_s = fl_max (as_secs rnd (now - mh_window_start m)) (rnd (1 / 1000)) in
     fl_div rnd (fl_mul rnd (fl_of_u64 rnd (max (mh_window_goodput_bytes m) 1)) (Fin 8))
       (fl_mul rnd elapsed_s (Fin 1000000)))"

definition window_queue_delay :: "rounding \<Rightarrow> metrics_history \<Rightarrow> fl" where
  "window_queue_delay rnd m =
    (if mh_window_write_count m > 0
     then fl_div rnd (fl_div rnd (fl_of_u64 rnd (mh_window_write_us m))
            (fl_of_u64 rnd (mh_window_write_count m))) (Fin 1000)
     else Fin 0)"

definition window_loss :: "rounding \<Rightarrow> metrics_history \<Rightarrow> fl" where
  "window_loss rnd m =
    (if mh_window_bytes m > 0
     then fl_div rnd (fl_mul rnd (fl_of_u32 rnd (mh_window_retransmits m)) (Fin 100))
            (fl_div rnd (fl_of_u64 rnd (mh_window_bytes m))
               (fl_of_u64 rnd (max (mh_window_write_count m) 1)))
     else Fin 0)"

definition metrics_snapshot :: "rounding \<Rightarrow> instant \<Rightarrow> metrics_history \<Rightarrow> network_metrics \<times> metrics_history" where
  "metrics_snapshot rnd now m =
    (let (thr, et) = ewma_update rnd (window_throughput rnd now m) (mh_ewma_throughput m);
         (rtt, er) = (if fl_less (Fin 0) (mh_last_rtt_ms m)
                      then ewma_update rnd (mh_last_rtt_ms m) (mh_ewma_rtt m)
                      else (ew_value (mh_ewma_rtt m), mh_ewma_rtt m));
         (que, eq) = ewma_update rnd (window_queue_delay rnd m) (mh_ewma_queue_delay m);
         metrics = \<lparr>nm_throughput_mbps = thr, nm_rtt_ms = rtt,
           nm_packet_loss_pct = fl_min (window_loss rnd m) (Fin 100),
           nm_in_flight_bytes = mh_window_bytes m,
           nm_cwnd_bytes = max (mh_window_bytes m * 2) 65535,
           nm_retransmits = mh_window_retransmits m, nm_queue_delay_ms = que,
           nm_cpu_usage_pct = Fin 0, nm_timestamp = now\<rparr>;
         m1 = push_sample metrics (m\<lparr>mh_ewma_throughput := et, mh_ewma_rtt := er, mh_ewma_queue_delay := eq\<rparr>) in
     (metrics, m1\<lparr>mh_window_bytes := 0, mh_window_goodput_bytes := 0, mh_window_retransmits := 0,
        mh_window_write_us := 0, mh_window_write_count := 0, mh_window_start := now,
        mh_last_rtt_ms := Fin 0\<rparr>))"

text \<open>The newest samples first.\<close>

definition metrics_last_n :: "nat \<Rightarrow> metrics_history \<Rightarrow> network_metrics list" where
  "metrics_last_n n m = take (min n (length (mh_samples m))) (rev (mh_samples m))"

definition metrics_len :: "metrics_history \<Rightarrow> nat" where
  "metrics_len m = length (mh_samples m)"

interpretation mh: bounded_log mh_samples push_sample mh_max_samples
  by unfold_locales (simp_all add: push_sample_def Let_def)

end
