(* ===== verification/Control_Decision.thy ===== *)
theory Control_Decision
  imports Control Rust_Strings
begin

text \<open>
  From measurements to parameters: the classifier (\<^verbatim>\<open>control/classifier.rs\<close>) and the decision engine
  (\<^verbatim>\<open>control/decision.rs\<close>), with the bounds every decision respects.
\<close>

section \<open>Classifier\<close>

datatype bottleneck = NetworkCongestion | ReceiverSlow | CpuBound | ThermalThrottling | LinkLimited | BnUnknown

record classification_result =
  cr_bottleneck :: bottleneck
  cr_confidence :: fl
  cr_reason :: string

record classifier =
  cf_confirmation_threshold :: nat
  cf_thermal_counter :: nat
  cf_link_counter :: nat

definition classifier_new :: classifier where
  "classifier_new = \<lparr>cf_confirmation_threshold = 3, cf_thermal_counter = 0, cf_link_counter = 0\<rparr>"

type_synonym fl_fmt = "nat \<Rightarrow> fl \<Rightarrow> string"

definition arrow_up :: string where "arrow_up = [CHR 0xE2, CHR 0x86, CHR 0x91]"
definition arrow_down :: string where "arrow_down = [CHR 0xE2, CHR 0x86, CHR 0x93]"
definition arrow_right :: string where "arrow_right = [CHR 0xE2, CHR 0x86, CHR 0x92]"

text \<open>The relative change of a positive value.\<close>

definition trend :: "rounding \<Rightarrow> fl \<Rightarrow> fl \<Rightarrow> fl" where
  "trend rnd new old = (if fl_less (Fin 0) old then fl_div rnd (fl_sub rnd new old) old else Fin 0)"

definition has_loss :: "network_metrics \<Rightarrow> bool" where
  "has_loss latest = fl_less (Fin (1 / 2)) (nm_packet_loss_pct latest)"

definition rtt_rising :: "rounding \<Rightarrow> network_metrics \<Rightarrow> network_metrics \<Rightarrow> bool" where
  "rtt_rising rnd latest prev = fl_less (rnd (15 / 100)) (trend rnd (nm_rtt_ms latest) (nm_rtt_ms prev))"

definition cpu_limited :: "rounding \<Rightarrow> network_metrics \<Rightarrow> network_metrics \<Rightarrow> network_metrics \<Rightarrow> bool" where
  "cpu_limited rnd latest prev older =
    (let rtt_trend = trend rnd (nm_rtt_ms latest) (nm_rtt_ms prev);
         short = trend rnd (nm_throughput_mbps latest) (nm_throughput_mbps prev);
         long = trend rnd (nm_throughput_mbps latest) (nm_throughput_mbps older);
         queue_high = fl_less (Fin 5) (nm_queue_delay_ms latest);
         cpu_known = fl_less (Fin 1) (nm_cpu_usage_pct latest);
         cpu_high = (cpu_known \<and> fl_less (Fin 70) (nm_cpu_usage_pct latest));
         cpu_indicated = (fl_less short (fl_neg (rnd (1 / 10))) \<and> \<not> has_loss latest
           \<and> fl_less long (fl_neg (rnd (5 / 100))) \<and> fl_less (fl_abs rtt_trend) (rnd (5 / 100))) in
     (cpu_high \<or> (\<not> cpu_known \<and> cpu_indicated \<and> queue_high))
       \<and> fl_less short (fl_neg (rnd (1 / 10))) \<and> \<not> has_loss latest)"

definition decaying :: "rounding \<Rightarrow> network_metrics \<Rightarrow> network_metrics \<Rightarrow> network_metrics \<Rightarrow> bool" where
  "decaying rnd latest prev older \<longleftrightarrow>
     fl_less (trend rnd (nm_throughput_mbps latest) (nm_throughput_mbps older)) (fl_neg (rnd (5 / 100)))
     \<and> fl_less (fl_abs (trend rnd (nm_rtt_ms latest) (nm_rtt_ms prev))) (rnd (3 / 100))"

definition steady :: "rounding \<Rightarrow> network_metrics \<Rightarrow> network_metrics \<Rightarrow> bool" where
  "steady rnd latest prev \<longleftrightarrow> \<not> has_loss latest \<and> fl_less (nm_rtt_ms latest) (Fin 30)
     \<and> fl_less (fl_abs (trend rnd (nm_throughput_mbps latest) (nm_throughput_mbps prev))) (rnd (5 / 100))"

definition classify_three ::
  "rounding \<Rightarrow> fl_fmt \<Rightarrow> network_metrics \<Rightarrow> network_metrics \<Rightarrow> network_metrics \<Rightarrow> classifier
     \<Rightarrow> classification_result \<times> classifier" where
  "classify_three rnd fmt latest prev older c =
    (let rtt_trend = trend rnd (nm_rtt_ms latest) (nm_rtt_ms prev);
         short = trend rnd (nm_throughput_mbps latest) (nm_throughput_mbps prev);
         long = trend rnd (nm_throughput_mbps latest) (nm_throughput_mbps older);
         percent = (\<lambda>x. fmt 1 (fl_mul rnd x (Fin 100)));
         cpu_known = fl_less (Fin 1) (nm_cpu_usage_pct latest);
         thermal = (if decaying rnd latest prev older then cf_thermal_counter c + 1 else 0);
         link = (if steady rnd latest prev then cf_link_counter c + 1 else 0) in
     if rtt_rising rnd latest prev \<and> fl_less (Fin 2) (nm_packet_loss_pct latest) then
       (\<lparr>cr_bottleneck = NetworkCongestion, cr_confidence = rnd (85 / 100),
         cr_reason = ''RTT '' @ arrow_up @ '' '' @ percent rtt_trend @ ''%, loss ''
           @ fmt 1 (nm_packet_loss_pct latest) @ ''% '' @ em_dash @ '' network saturated''\<rparr>, c)
     else if fl_less (nm_throughput_mbps latest) (Fin 50) \<and> \<not> has_loss latest
         \<and> fl_less (Fin 5) (nm_queue_delay_ms latest) then
       (\<lparr>cr_bottleneck = ReceiverSlow, cr_confidence = rnd (80 / 100),
         cr_reason = ''Throughput '' @ fmt 1 (nm_throughput_mbps latest) @ '' Mbps, loss ~0%, queue ''
           @ fmt 1 (nm_queue_delay_ms latest) @ ''ms '' @ em_dash @ '' receiver can'' @ [CHR 0x27] @ ''t keep up''\<rparr>, c)
     else if cpu_limited rnd latest prev older then
       (\<lparr>cr_bottleneck = CpuBound, cr_confidence = (if cpu_known then Fin (75 / 100) else rnd (55 / 100)),
         cr_reason = ''CPU '' @ (if cpu_known then fmt 0 (nm_cpu_usage_pct latest) @ ''%'' else ''unknown (proxy)'')
           @ '' throughput '' @ arrow_down @ '' '' @ percent short @ ''%, no loss '' @ em_dash @ '' CPU limited''\<rparr>, c)
     else if thermal \<ge> cf_confirmation_threshold c then
       (\<lparr>cr_bottleneck = ThermalThrottling, cr_confidence = rnd (70 / 100),
         cr_reason = ''Throughput decaying over '' @ show_nat (cf_confirmation_threshold c) @ '' windows (''
           @ percent long @ ''%), RTT stable '' @ em_dash @ '' thermal throttling''\<rparr>,
        c\<lparr>cf_thermal_counter := 0\<rparr>)
     else if link \<ge> cf_confirmation_threshold c then
       (\<lparr>cr_bottleneck = LinkLimited, cr_confidence = Fin (75 / 100),
         cr_reason = ''Stable RTT '' @ fmt 1 (nm_rtt_ms latest) @ ''ms, no loss, throughput ''
           @ fmt 1 (nm_throughput_mbps latest) @ '' Mbps '' @ em_dash @ '' link limited''\<rparr>,
        c\<lparr>cf_thermal_counter := thermal, cf_link_counter := 0\<rparr>)
     else
       (\<lparr>cr_bottleneck = BnUnknown, cr_confidence = rnd (3 / 10),
         cr_reason = ''Throughput '' @ fmt 1 (nm_throughput_mbps latest) @ '' Mbps, RTT ''
           @ fmt 1 (nm_rtt_ms latest) @ ''ms, loss '' @ fmt 1 (nm_packet_loss_pct latest) @ ''%, queue ''
           @ fmt 1 (nm_queue_delay_ms latest) @ ''ms '' @ em_dash @ '' insufficient signal''\<rparr>,
        c\<lparr>cf_thermal_counter := thermal, cf_link_counter := link\<rparr>))"

fun classify ::
  "rounding \<Rightarrow> fl_fmt \<Rightarrow> network_metrics list \<Rightarrow> classifier \<Rightarrow> classification_result \<times> classifier" where
  "classify rnd fmt (latest # prev # older # rest) c = classify_three rnd fmt latest prev older c"
| "classify rnd fmt recent c =
    (\<lparr>cr_bottleneck = BnUnknown, cr_confidence = Fin 0,
      cr_reason = ''Not enough samples ('' @ show_nat (length recent) @ '')''\<rparr>, c)"

section \<open>Decisions\<close>

record control_decision =
  cd_new_cwnd :: "u64 option"
  cd_new_chunk_size :: "u64 option"
  cd_parallelism :: "u64 option"
  cd_pacing_rate :: "fl option"
  cd_send_buffer_kb :: "u64 option"
  cd_reason :: string

definition MIN_CHUNK_BYTES :: u64 where "MIN_CHUNK_BYTES = 16 * 1024"
definition MAX_CHUNK_BYTES :: u64 where "MAX_CHUNK_BYTES = 2 * 1024 * 1024"
definition MIN_PARALLELISM :: u64 where "MIN_PARALLELISM = 1"
definition MAX_PARALLELISM :: u64 where "MAX_PARALLELISM = 8"
definition MIN_RATE_MBPS :: fl where "MIN_RATE_MBPS = Fin 10"
definition MAX_RATE_MBPS :: fl where "MAX_RATE_MBPS = Fin 2000"

definition limit_step :: "rounding \<Rightarrow> fl \<Rightarrow> fl \<Rightarrow> fl \<Rightarrow> fl" where
  "limit_step rnd old new max_delta =
    (if fl_less old new then fl_min (fl_add rnd old max_delta) new
     else fl_max (fl_sub rnd old max_delta) new)"

record decision_engine =
  de_cooldown_ms :: u64
  de_last_adjustment :: instant

definition decision_engine_new :: "instant \<Rightarrow> decision_engine" where
  "decision_engine_new now = \<lparr>de_cooldown_ms = 500, de_last_adjustment = now - 500\<rparr>"

text \<open>The current rate, and a target rate limited to steps of 15 percent and to the bounds.\<close>

definition old_rate :: "tuning_config \<Rightarrow> fl" where
  "old_rate cfg = (case tn_throughput_limit_mbps cfg of Some r \<Rightarrow> r | None \<Rightarrow> Fin 1000)"

definition step_rate :: "rounding \<Rightarrow> fl \<Rightarrow> fl \<Rightarrow> fl" where
  "step_rate rnd old new =
     fl_clamp MIN_RATE_MBPS MAX_RATE_MBPS (limit_step rnd old new (fl_mul rnd old (rnd (15 / 100))))"

definition scale_chunk :: "rounding \<Rightarrow> tuning_config \<Rightarrow> fl \<Rightarrow> u64" where
  "scale_chunk rnd cfg factor =
     word_clamp MIN_CHUNK_BYTES MAX_CHUNK_BYTES
       (fl_as_u64 (fl_mul rnd (fl_of_u64 rnd (tn_chunk_size_bytes cfg)) factor))"

definition clamp_parallel :: "u64 \<Rightarrow> u64" where
  "clamp_parallel n = word_clamp MIN_PARALLELISM MAX_PARALLELISM n"

text \<open>The parameters for each bottleneck.\<close>

definition decide_congestion :: "rounding \<Rightarrow> fl_fmt \<Rightarrow> tuning_config \<Rightarrow> control_decision" where
  "decide_congestion rnd fmt cfg =
    (let old = old_rate cfg;
         new_rate = step_rate rnd old (fl_max (fl_mul rnd old (rnd (7 / 10))) (Fin 50));
         new_chunk = scale_chunk rnd cfg (Fin (75 / 100));
         new_parallel = clamp_parallel (fl_as_u64
           (fl_max (fl_sub rnd (fl_of_u64 rnd (tn_parallel_streams cfg)) (Fin 1)) (Fin 1))) in
     \<lparr>cd_new_cwnd = Some (fl_as_u64 (fl_mul rnd new_rate (Fin 1024))),
      cd_new_chunk_size = Some new_chunk, cd_parallelism = Some new_parallel, cd_pacing_rate = Some new_rate,
      cd_send_buffer_kb = Some (fl_as_u64 (fl_mul rnd (fl_of_u64 rnd (tn_send_buffer_kb cfg)) (rnd (8 / 10)))),
      cd_reason = ''Network congestion: reduce chunk '' @ show_nat (unat (tn_chunk_size_bytes cfg div 1024))
        @ arrow_right @ show_nat (unat (new_chunk div 1024)) @ ''KB, pacing '' @ fmt 0 old @ arrow_right
        @ fmt 0 new_rate @ ''Mbps, parallel '' @ show_nat (unat (tn_parallel_streams cfg)) @ arrow_right
        @ show_nat (unat new_parallel)\<rparr>)"

definition decide_receiver_slow :: "rounding \<Rightarrow> fl_fmt \<Rightarrow> tuning_config \<Rightarrow> control_decision" where
  "decide_receiver_slow rnd fmt cfg =
    (let old = old_rate cfg;
         new_rate = step_rate rnd old (fl_max (fl_mul rnd old (rnd (85 / 100))) (Fin 50));
         new_chunk = scale_chunk rnd cfg (rnd (8 / 10));
         new_parallel = clamp_parallel (max (sat_sub (tn_parallel_streams cfg) 1) 1) in
     \<lparr>cd_new_cwnd = None, cd_new_chunk_size = Some new_chunk, cd_parallelism = Some new_parallel,
      cd_pacing_rate = Some new_rate, cd_send_buffer_kb = Some (tn_send_buffer_kb cfg),
      cd_reason = ''Receiver slow: reduce parallelism '' @ show_nat (unat (tn_parallel_streams cfg))
        @ arrow_right @ show_nat (unat new_parallel) @ '', chunk ''
        @ show_nat (unat (tn_chunk_size_bytes cfg div 1024)) @ arrow_right
        @ show_nat (unat (new_chunk div 1024)) @ ''KB, rate '' @ fmt 0 old @ arrow_right @ fmt 0 new_rate @ ''Mbps''\<rparr>)"

definition decide_cpu_bound :: "tuning_config \<Rightarrow> control_decision" where
  "decide_cpu_bound cfg =
    (let new_parallel = clamp_parallel (max 1 (sat_sub (tn_parallel_streams cfg) 2)) in
     \<lparr>cd_new_cwnd = None,
      cd_new_chunk_size = Some (word_clamp MIN_CHUNK_BYTES MAX_CHUNK_BYTES (tn_chunk_size_bytes cfg)),
      cd_parallelism = Some new_parallel, cd_pacing_rate = None, cd_send_buffer_kb = None,
      cd_reason = ''CPU bound: reduce parallelism '' @ show_nat (unat (tn_parallel_streams cfg))
        @ arrow_right @ show_nat (unat new_parallel)\<rparr>)"

definition decide_thermal :: "rounding \<Rightarrow> fl_fmt \<Rightarrow> tuning_config \<Rightarrow> control_decision" where
  "decide_thermal rnd fmt cfg =
    (let old = old_rate cfg;
         new_rate = step_rate rnd old (fl_max (fl_mul rnd old (rnd (9 / 10))) (Fin 50));
         new_chunk = scale_chunk rnd cfg (rnd (9 / 10));
         new_parallel = clamp_parallel (max 1 (sat_sub (tn_parallel_streams cfg) 1)) in
     \<lparr>cd_new_cwnd = None, cd_new_chunk_size = Some new_chunk, cd_parallelism = Some new_parallel,
      cd_pacing_rate = Some new_rate, cd_send_buffer_kb = None,
      cd_reason = ''Thermal throttling: reduce pacing '' @ fmt 0 old @ arrow_right @ fmt 0 new_rate
        @ ''Mbps, chunk '' @ show_nat (unat (tn_chunk_size_bytes cfg div 1024)) @ arrow_right
        @ show_nat (unat (new_chunk div 1024)) @ ''KB, parallel ''
        @ show_nat (unat (tn_parallel_streams cfg)) @ arrow_right @ show_nat (unat new_parallel)\<rparr>)"

definition decide_link_limited :: "rounding \<Rightarrow> fl_fmt \<Rightarrow> tuning_config \<Rightarrow> control_decision" where
  "decide_link_limited rnd fmt cfg =
    (let old = old_rate cfg;
         new_rate = step_rate rnd old (fl_min (fl_mul rnd old (rnd (105 / 100))) MAX_RATE_MBPS);
         new_chunk = scale_chunk rnd cfg (rnd (11 / 10)) in
     \<lparr>cd_new_cwnd = None, cd_new_chunk_size = Some new_chunk,
      cd_parallelism = Some (clamp_parallel (tn_parallel_streams cfg)), cd_pacing_rate = Some new_rate,
      cd_send_buffer_kb = None,
      cd_reason = ''Link limited: gentle increase ''
        @ fmt 0 (case tn_throughput_limit_mbps cfg of Some r \<Rightarrow> r | None \<Rightarrow> Fin 0) @ arrow_right
        @ fmt 0 new_rate @ ''Mbps, chunk '' @ show_nat (unat (tn_chunk_size_bytes cfg div 1024)) @ arrow_right
        @ show_nat (unat (new_chunk div 1024)) @ ''KB''\<rparr>)"

text \<open>The decision by bottleneck, and what the QUIC transport leaves of it.\<close>

fun decision_for :: "rounding \<Rightarrow> fl_fmt \<Rightarrow> tuning_config \<Rightarrow> bottleneck \<Rightarrow> control_decision option" where
  "decision_for rnd fmt cfg NetworkCongestion = Some (decide_congestion rnd fmt cfg)"
| "decision_for rnd fmt cfg ReceiverSlow = Some (decide_receiver_slow rnd fmt cfg)"
| "decision_for rnd fmt cfg CpuBound = Some (decide_cpu_bound cfg)"
| "decision_for rnd fmt cfg ThermalThrottling = Some (decide_thermal rnd fmt cfg)"
| "decision_for rnd fmt cfg LinkLimited = Some (decide_link_limited rnd fmt cfg)"
| "decision_for rnd fmt cfg BnUnknown = None"

definition strip_for_quic :: "control_decision \<Rightarrow> control_decision" where
  "strip_for_quic d = d\<lparr>cd_new_cwnd := None, cd_new_chunk_size := None, cd_send_buffer_kb := None\<rparr>"

definition decide_for_transport ::
  "bool \<Rightarrow> rounding \<Rightarrow> fl_fmt \<Rightarrow> instant \<Rightarrow> classification_result \<Rightarrow> tuning_config
     \<Rightarrow> transport_mode option \<Rightarrow> decision_engine \<Rightarrow> control_decision option \<times> decision_engine" where
  "decide_for_transport quic rnd fmt now cls cfg transport e =
    (if (of_nat (now - de_last_adjustment e) :: u64) < de_cooldown_ms e then (None, e)
     else if fl_less (cr_confidence cls) (rnd (4 / 10)) then (None, e)
     else if cr_bottleneck cls = BnUnknown then (None, e)
     else
       (case decision_for rnd fmt cfg (cr_bottleneck cls) of
          None \<Rightarrow> (None, e)
        | Some d \<Rightarrow>
           (Some (if quic \<and> transport = Some Quic then strip_for_quic d else d),
            e\<lparr>de_last_adjustment := now\<rparr>)))"

definition decide ::
  "bool \<Rightarrow> rounding \<Rightarrow> fl_fmt \<Rightarrow> instant \<Rightarrow> classification_result \<Rightarrow> tuning_config
     \<Rightarrow> decision_engine \<Rightarrow> control_decision option \<times> decision_engine" where
  "decide quic rnd fmt now cls cfg e = decide_for_transport quic rnd fmt now cls cfg None e"

definition apply_decision :: "rounding \<Rightarrow> control_decision \<Rightarrow> tuning_config \<Rightarrow> tuning_config" where
  "apply_decision rnd d c =
    (let c1 = (case cd_new_cwnd d of None \<Rightarrow> c
           | Some cwnd \<Rightarrow>
               c\<lparr>tn_throughput_limit_mbps := Some (fl_clamp MIN_RATE_MBPS MAX_RATE_MBPS
                   (fl_div rnd (fl_div rnd (fl_mul rnd (fl_of_u64 rnd cwnd) (Fin 8)) (Fin 1024)) (Fin 1024)))\<rparr>);
         c2 = (case cd_new_chunk_size d of None \<Rightarrow> c1
           | Some n \<Rightarrow> c1\<lparr>tn_chunk_size_bytes := word_clamp MIN_CHUNK_BYTES MAX_CHUNK_BYTES n\<rparr>);
         c3 = (case cd_parallelism d of None \<Rightarrow> c2
           | Some n \<Rightarrow> c2\<lparr>tn_parallel_streams := clamp_parallel n\<rparr>);
         c4 = (case cd_pacing_rate d of None \<Rightarrow> c3
           | Some r \<Rightarrow> c3\<lparr>tn_throughput_limit_mbps := Some (fl_clamp MIN_RATE_MBPS MAX_RATE_MBPS r)\<rparr>) in
     (case cd_send_buffer_kb d of None \<Rightarrow> c4
      | Some buf \<Rightarrow> c4\<lparr>tn_send_buffer_kb := buf, tn_recv_buffer_kb := buf\<rparr>))"

section \<open>Bounds\<close>

definition tuning_bounded :: "tuning_config \<Rightarrow> bool" where
  "tuning_bounded c \<longleftrightarrow> MIN_CHUNK_BYTES \<le> tn_chunk_size_bytes c \<and> tn_chunk_size_bytes c \<le> MAX_CHUNK_BYTES
     \<and> MIN_PARALLELISM \<le> tn_parallel_streams c \<and> tn_parallel_streams c \<le> MAX_PARALLELISM
     \<and> (case tn_throughput_limit_mbps c of None \<Rightarrow> True | Some r \<Rightarrow> fl_within 10 2000 r)"

lemma tuning_default_bounded: "tuning_bounded (tuning_default cpus)"
  by (simp add: tuning_bounded_def tuning_default_def MIN_CHUNK_BYTES_def MAX_CHUNK_BYTES_def
      MIN_PARALLELISM_def MAX_PARALLELISM_def)

lemma limit_step_not_NaN: "new \<noteq> NaN \<Longrightarrow> limit_step rnd old new d \<noteq> NaN"
  by (simp add: limit_step_def fl_min_not_NaN fl_max_not_NaN)

lemma step_rate_within: "new \<noteq> NaN \<Longrightarrow> fl_within 10 2000 (step_rate rnd old new)"
  by (simp add: step_rate_def MIN_RATE_MBPS_def MAX_RATE_MBPS_def fl_clamp_within limit_step_not_NaN)

lemma chunk_clamped [simp]:
  "MIN_CHUNK_BYTES \<le> word_clamp MIN_CHUNK_BYTES MAX_CHUNK_BYTES n"
  "word_clamp MIN_CHUNK_BYTES MAX_CHUNK_BYTES n \<le> MAX_CHUNK_BYTES"
  using word_clamp_within [of MIN_CHUNK_BYTES MAX_CHUNK_BYTES n]
  by (simp_all add: MIN_CHUNK_BYTES_def MAX_CHUNK_BYTES_def)

lemma clamp_parallel_bounds [simp]:
  "MIN_PARALLELISM \<le> clamp_parallel n" "clamp_parallel n \<le> MAX_PARALLELISM"
  using word_clamp_within [of MIN_PARALLELISM MAX_PARALLELISM n]
  by (simp_all add: clamp_parallel_def MIN_PARALLELISM_def MAX_PARALLELISM_def)

lemma scale_chunk_bounds [simp]:
  "MIN_CHUNK_BYTES \<le> scale_chunk rnd cfg f" "scale_chunk rnd cfg f \<le> MAX_CHUNK_BYTES"
  by (simp_all add: scale_chunk_def)

text \<open>What a decision may contain.\<close>

definition decision_bounded :: "control_decision \<Rightarrow> bool" where
  "decision_bounded d \<longleftrightarrow>
     (case cd_new_chunk_size d of None \<Rightarrow> True | Some n \<Rightarrow> MIN_CHUNK_BYTES \<le> n \<and> n \<le> MAX_CHUNK_BYTES)
     \<and> (case cd_parallelism d of None \<Rightarrow> True | Some n \<Rightarrow> MIN_PARALLELISM \<le> n \<and> n \<le> MAX_PARALLELISM)
     \<and> (case cd_pacing_rate d of None \<Rightarrow> True | Some r \<Rightarrow> fl_within 10 2000 r)
     \<and> (cd_new_cwnd d \<noteq> None \<longrightarrow> cd_pacing_rate d \<noteq> None)"

lemmas decision_defs = decide_congestion_def decide_receiver_slow_def decide_cpu_bound_def
  decide_thermal_def decide_link_limited_def

lemma decision_for_bounded: "decision_for rnd fmt cfg b = Some d \<Longrightarrow> decision_bounded d"
  by (cases b) (auto simp: decision_bounded_def decision_defs Let_def step_rate_within fl_max_not_NaN
      fl_min_not_NaN MAX_RATE_MBPS_def)

lemma fl_clamp_rate: "fl_within 10 2000 r \<Longrightarrow> fl_clamp MIN_RATE_MBPS MAX_RATE_MBPS r = r"
  by (cases r) (auto simp: fl_within_def fl_clamp_def MIN_RATE_MBPS_def MAX_RATE_MBPS_def)

lemma apply_decision_bounded:
  "decision_bounded d \<Longrightarrow> tuning_bounded c \<Longrightarrow> tuning_bounded (apply_decision rnd d c)"
  by (auto simp: decision_bounded_def tuning_bounded_def apply_decision_def Let_def fl_clamp_rate
      split: option.splits)

text \<open>Deciding and applying, as the loop does it.\<close>

fun decide_and_apply ::
  "bool \<Rightarrow> rounding \<Rightarrow> fl_fmt \<Rightarrow> instant \<times> classification_result \<times> transport_mode option
     \<Rightarrow> tuning_config \<times> decision_engine \<Rightarrow> tuning_config \<times> decision_engine" where
  "decide_and_apply quic rnd fmt (now, cls, tr) (cfg, e) =
    (case decide_for_transport quic rnd fmt now cls cfg tr e of
       (None, e') \<Rightarrow> (cfg, e')
     | (Some d, e') \<Rightarrow> (apply_decision rnd d cfg, e'))"

text \<open>Rounding is exact on the integers up to 8.\<close>

definition exact_small :: "rounding \<Rightarrow> bool" where
  "exact_small rnd \<longleftrightarrow> list_all (\<lambda>n. rnd (of_nat n) = Fin (of_nat n)) [0..<9]"

lemma word_upto_8:
  assumes "MIN_PARALLELISM \<le> n" "n \<le> MAX_PARALLELISM"
  shows "n \<in> {1, 2, 3, 4, 5, 6, 7, 8}"
proof -
  have "unat n \<le> 8" "1 \<le> unat n"
    using assms by (simp_all add: MIN_PARALLELISM_def MAX_PARALLELISM_def word_le_nat_alt)
  then have "unat n \<in> {1, 2, 3, 4, 5, 6, 7, 8}" by auto
  then have "(of_nat (unat n) :: u64) \<in> of_nat ` {1, 2, 3, 4, 5, 6, 7, 8}" by (rule imageI)
  then show ?thesis by simp
qed

lemma congestion_parallel:
  assumes "exact_small rnd" "MIN_PARALLELISM \<le> n" "n \<le> MAX_PARALLELISM"
  shows "clamp_parallel (fl_as_u64 (fl_max (fl_sub rnd (fl_of_u64 rnd n) (Fin 1)) (Fin 1))) \<le> n"
proof -
  have e: "rnd 0 = Fin 0" "rnd 1 = Fin 1" "rnd 2 = Fin 2" "rnd 3 = Fin 3" "rnd 4 = Fin 4" "rnd 5 = Fin 5"
      "rnd 6 = Fin 6" "rnd 7 = Fin 7" "rnd 8 = Fin 8"
    using assms(1) by (simp_all add: exact_small_def upt_rec)
  from word_upto_8 [OF assms(2,3)] show ?thesis
    by (elim insertE emptyE) (simp_all add: fl_of_u64_def fl_sub_def fl_max_def e clamp_parallel_def
        word_clamp_def MIN_PARALLELISM_def MAX_PARALLELISM_def)
qed

lemma clamp_parallel_le: "MIN_PARALLELISM \<le> n \<Longrightarrow> m \<le> n \<Longrightarrow> clamp_parallel m \<le> n"
  by (auto simp: clamp_parallel_def word_clamp_def MAX_PARALLELISM_def)

lemma sat_sub_le: "sat_sub a b \<le> a"
  by (simp add: word_le_nat_alt unat_sat_sub)

lemma decision_parallel:
  assumes "exact_small rnd" "tuning_bounded cfg" "decision_for rnd fmt cfg b = Some d"
    "cd_parallelism d = Some p"
  shows "p \<le> tn_parallel_streams cfg"
proof -
  have b: "MIN_PARALLELISM \<le> tn_parallel_streams cfg" "tn_parallel_streams cfg \<le> MAX_PARALLELISM"
    using assms(2) by (simp_all add: tuning_bounded_def)
  then have one: "1 \<le> tn_parallel_streams cfg" by (simp add: MIN_PARALLELISM_def)
  show ?thesis
    using assms(3,4) congestion_parallel [OF assms(1) b] b one
    by (cases b) (auto simp: decision_defs Let_def sat_sub_le intro!: clamp_parallel_le)
qed

lemma apply_parallel:
  assumes "tuning_bounded cfg" "\<And>p. cd_parallelism d = Some p \<Longrightarrow> p \<le> tn_parallel_streams cfg"
  shows "tn_parallel_streams (apply_decision rnd d cfg) \<le> tn_parallel_streams cfg"
  using assms by (auto simp: apply_decision_def Let_def tuning_bounded_def intro!: clamp_parallel_le
      split: option.splits)

lemma decide_Some:
  assumes "decide_for_transport quic rnd fmt now cls cfg tr e = (Some d, e')"
  obtains d0 where "decision_for rnd fmt cfg (cr_bottleneck cls) = Some d0"
    "d = d0 \<or> d = strip_for_quic d0"
    "de_cooldown_ms e \<le> of_nat (now - de_last_adjustment e)" "\<not> fl_less (cr_confidence cls) (rnd (4 / 10))"
    "e' = e\<lparr>de_last_adjustment := now\<rparr>"
  using assms by (auto simp: decide_for_transport_def not_less split: if_splits option.splits)

lemma strip_bounded: "decision_bounded d \<Longrightarrow> decision_bounded (strip_for_quic d)"
  by (auto simp: decision_bounded_def strip_for_quic_def)

lemma decide_and_apply_bounded:
  assumes "exact_small rnd" "tuning_bounded cfg"
  shows "tuning_bounded (fst (decide_and_apply quic rnd fmt x (cfg, e)))
    \<and> tn_parallel_streams (fst (decide_and_apply quic rnd fmt x (cfg, e))) \<le> tn_parallel_streams cfg"
proof -
  obtain now cls tr where x: "x = (now, cls, tr)" by (cases x) auto
  obtain r e' where d: "decide_for_transport quic rnd fmt now cls cfg tr e = (r, e')"
    by (cases "decide_for_transport quic rnd fmt now cls cfg tr e")
  show ?thesis
  proof (cases r)
    case None
    with d x assms(2) show ?thesis by simp
  next
    case (Some d')
    from d [unfolded Some] obtain d0 where d0: "decision_for rnd fmt cfg (cr_bottleneck cls) = Some d0"
      "d' = d0 \<or> d' = strip_for_quic d0" by (rule decide_Some)
    have p: "cd_parallelism d' = cd_parallelism d0" using d0(2) by (auto simp: strip_for_quic_def)
    have b: "decision_bounded d'" using d0 decision_for_bounded strip_bounded by blast
    show ?thesis
      using apply_decision_bounded [OF b assms(2)]
        apply_parallel [OF assms(2), of d' rnd] decision_parallel [OF assms d0(1)] p d x Some by auto
  qed
qed

lemma decide_run_bounded:
  assumes "exact_small rnd" "tuning_bounded cfg"
  shows "tuning_bounded (fst (fold (decide_and_apply quic rnd fmt) xs (cfg, e)))
    \<and> tn_parallel_streams (fst (fold (decide_and_apply quic rnd fmt) xs (cfg, e))) \<le> tn_parallel_streams cfg"
  using assms(2)
proof (induction xs arbitrary: cfg e)
  case (Cons x xs)
  obtain cfg' e' where s: "decide_and_apply quic rnd fmt x (cfg, e) = (cfg', e')"
    by (cases "decide_and_apply quic rnd fmt x (cfg, e)")
  with decide_and_apply_bounded [OF assms(1) Cons.prems, of quic fmt x e]
  have "tuning_bounded cfg'" "tn_parallel_streams cfg' \<le> tn_parallel_streams cfg" by simp_all
  with Cons.IH [of cfg' e'] s show ?case by auto
qed simp

text \<open>C27. Bounds of the adaptive control, for any rounding that is exact on the integers up to 8: whatever is
  classified, and however often, the configuration keeps a chunk size between 16 KiB and 2 MiB, 1 to 8 streams
  and a rate of 10 to 2000 Mbps that is never NaN; a decision is only taken with enough confidence in a known
  bottleneck and after the cooldown; and no decision ever raises the number of streams.\<close>

theorem decision_bounds:
  assumes "exact_small rnd" "tuning_bounded cfg"
  shows "tuning_bounded (fst (fold (decide_and_apply quic rnd fmt) xs (cfg, e)))
    \<and> tn_parallel_streams (fst (fold (decide_and_apply quic rnd fmt) xs (cfg, e))) \<le> tn_parallel_streams cfg
    \<and> (case decide_for_transport quic rnd fmt now cls cfg tr e of
         (None, e') \<Rightarrow> e' = e
       | (Some d, e') \<Rightarrow> decision_bounded d \<and> cr_bottleneck cls \<noteq> BnUnknown
           \<and> \<not> fl_less (cr_confidence cls) (rnd (4 / 10))
           \<and> de_cooldown_ms e \<le> of_nat (now - de_last_adjustment e) \<and> de_last_adjustment e' = now)"
proof -
  have "tuning_bounded (fst (fold (decide_and_apply quic rnd fmt) xs (cfg, e)))
      \<and> tn_parallel_streams (fst (fold (decide_and_apply quic rnd fmt) xs (cfg, e))) \<le> tn_parallel_streams cfg"
    by (rule decide_run_bounded [OF assms])
  moreover obtain r e' where d: "decide_for_transport quic rnd fmt now cls cfg tr e = (r, e')"
    by (cases "decide_for_transport quic rnd fmt now cls cfg tr e")
  moreover have "r = None \<Longrightarrow> e' = e"
    using d by (auto simp: decide_for_transport_def split: if_splits option.splits)
  moreover have "decision_bounded d \<and> cr_bottleneck cls \<noteq> BnUnknown
      \<and> \<not> fl_less (cr_confidence cls) (rnd (4 / 10))
      \<and> de_cooldown_ms e \<le> of_nat (now - de_last_adjustment e) \<and> de_last_adjustment e' = now" if "r = Some d" for d
    using d [unfolded that] by (elim decide_Some) (auto intro: decision_for_bounded strip_bounded)
  ultimately show ?thesis by (auto split: option.splits)
qed

definition demo_congested :: classification_result where
  "demo_congested = \<lparr>cr_bottleneck = CpuBound, cr_confidence = Fin (3 / 4), cr_reason = []\<rparr>"

theorem decision_bounds_witness:
  "tuning_bounded (fst (fold (decide_and_apply False Fin (\<lambda>_ _. [])) [(900, demo_congested, None)]
      (tuning_default 4\<lparr>tn_parallel_streams := 4\<rparr>, decision_engine_new 500)))
   \<and> tn_parallel_streams (fst (fold (decide_and_apply False Fin (\<lambda>_ _. [])) [(900, demo_congested, None)]
      (tuning_default 4\<lparr>tn_parallel_streams := 4\<rparr>, decision_engine_new 500))) \<le> 4
   \<and> fst (decide_for_transport False Fin (\<lambda>_ _. []) 900 demo_congested
      (tuning_default 4\<lparr>tn_parallel_streams := 4\<rparr>) None (decision_engine_new 500)) \<noteq> None"
proof -
  have e: "exact_small Fin" by (simp add: exact_small_def list_all_iff)
  have t: "tuning_bounded (tuning_default 4\<lparr>tn_parallel_streams := 4\<rparr>)"
    by (simp add: tuning_bounded_def tuning_default_def MIN_CHUNK_BYTES_def MAX_CHUNK_BYTES_def
        MIN_PARALLELISM_def MAX_PARALLELISM_def)
  show ?thesis
    using decision_bounds [OF e t, where quic = False and fmt = "\<lambda>_ _. []"
        and xs = "[(900, demo_congested, None)]" and e = "decision_engine_new 500"]
    by (simp add: decide_for_transport_def demo_congested_def decision_engine_new_def)
qed

end
