(* ===== verification/Control_Loop.thy ===== *)
theory Control_Loop
  imports Control_Decision Reliable
begin

text \<open>
  The control loop (\<^verbatim>\<open>control/loop.rs\<close>): the shared state, the background task and the calls of the
  streaming task, as steps that interleave.

  The task holds no lock between its phases, so every phase is a step of its own: \<open>loop_pc\<close> is where
  the task waits, with the local variables it carries. Time only enters as the argument \<open>now\<close> of a step. The
  log lines are not modelled.
\<close>

section \<open>State and operations\<close>

record control_loop =
  cl_metrics :: metrics_history
  cl_config :: tuning_config
  cl_classifier :: classifier
  cl_decision_engine :: decision_engine
  cl_running :: bool
  cl_last_decision :: instant
  cl_cooldown :: duration
  cl_transport_mode :: "transport_mode option"

definition control_loop_new :: "u64 \<Rightarrow> instant \<Rightarrow> control_loop" where
  "control_loop_new cpus now =
     \<lparr>cl_metrics = metrics_new now 30, cl_config = tuning_default cpus, cl_classifier = classifier_new,
      cl_decision_engine = decision_engine_new now, cl_running = False, cl_last_decision = now - 500,
      cl_cooldown = 500, cl_transport_mode = None\<rparr>"

definition loop_stop :: "control_loop \<Rightarrow> control_loop" where
  "loop_stop c = c\<lparr>cl_running := False\<rparr>"

definition loop_record_write :: "u64 \<Rightarrow> u64 \<Rightarrow> bool \<Rightarrow> control_loop \<Rightarrow> control_loop" where
  "loop_record_write n us re c = c\<lparr>cl_metrics := metrics_record_write n us re (cl_metrics c)\<rparr>"

definition loop_record_rtt :: "fl \<Rightarrow> control_loop \<Rightarrow> control_loop" where
  "loop_record_rtt rtt c = c\<lparr>cl_metrics := metrics_record_rtt rtt (cl_metrics c)\<rparr>"

definition latest_metrics :: "control_loop \<Rightarrow> network_metrics option" where
  "latest_metrics c = (case metrics_last_n 1 (cl_metrics c) of [] \<Rightarrow> None | m # _ \<Rightarrow> Some m)"

definition current_config :: "control_loop \<Rightarrow> tuning_config" where
  "current_config c = cl_config c"

definition set_transport :: "transport_mode \<Rightarrow> control_loop \<Rightarrow> control_loop" where
  "set_transport mode c = c\<lparr>cl_transport_mode := Some mode\<rparr>"

definition reset_for_resume :: "u64 \<Rightarrow> instant \<Rightarrow> control_loop \<Rightarrow> control_loop" where
  "reset_for_resume cpus now c =
     c\<lparr>cl_metrics := metrics_clear now (cl_metrics c), cl_config := tuning_default cpus\<rparr>"

section \<open>The background task\<close>

datatype loop_pc =
    PcTick
  | PcSnapshot
  | PcRecent
  | PcClassify "network_metrics list"
  | PcConfig classification_result
  | PcTransport classification_result tuning_config
  | PcCooldown classification_result tuning_config "transport_mode option"
  | PcDecide classification_result tuning_config "transport_mode option"
  | PcApply control_decision
  | PcStopped

text \<open>One phase of \<^verbatim>\<open>spawn\<close>'s loop body; \<^verbatim>\<open>continue\<close> is the return to \<open>PcTick\<close>.\<close>

fun loop_task ::
  "bool \<Rightarrow> rounding \<Rightarrow> fl_fmt \<Rightarrow> instant \<Rightarrow> loop_pc \<Rightarrow> control_loop \<Rightarrow> loop_pc \<times> control_loop" where
  "loop_task quic rnd fmt now PcTick c = (if cl_running c then PcSnapshot else PcStopped, c)"
| "loop_task quic rnd fmt now PcSnapshot c =
    (if metrics_len (cl_metrics c) = 0 then (PcTick, c)
     else (PcRecent, c\<lparr>cl_metrics := snd (metrics_snapshot rnd now (cl_metrics c))\<rparr>))"
| "loop_task quic rnd fmt now PcRecent c =
    (let recent = metrics_last_n 5 (cl_metrics c) in
     (if recent = [] then PcTick else PcClassify recent, c))"
| "loop_task quic rnd fmt now (PcClassify recent) c =
    (let (cls, cf) = classify rnd fmt recent (cl_classifier c) in
     (PcConfig cls, c\<lparr>cl_classifier := cf\<rparr>))"
| "loop_task quic rnd fmt now (PcConfig cls) c = (PcTransport cls (cl_config c), c)"
| "loop_task quic rnd fmt now (PcTransport cls cfg) c = (PcCooldown cls cfg (cl_transport_mode c), c)"
| "loop_task quic rnd fmt now (PcCooldown cls cfg tr) c =
    (if now - cl_last_decision c < cl_cooldown c then (PcTick, c) else (PcDecide cls cfg tr, c))"
| "loop_task quic rnd fmt now (PcDecide cls cfg tr) c =
    (let (d, e) = decide_for_transport quic rnd fmt now cls cfg tr (cl_decision_engine c) in
     (case d of None \<Rightarrow> PcTick | Some d' \<Rightarrow> PcApply d', c\<lparr>cl_decision_engine := e\<rparr>))"
| "loop_task quic rnd fmt now (PcApply d) c =
    (PcTick, c\<lparr>cl_config := apply_decision rnd d (cl_config c), cl_last_decision := now\<rparr>)"
| "loop_task quic rnd fmt now PcStopped c = (PcStopped, c)"

text \<open>The loop and its spawned tasks (every call of \<^verbatim>\<open>spawn\<close> starts one).\<close>

record loop_system =
  ls_loop :: control_loop
  ls_tasks :: "loop_pc list"

definition loop_spawn :: "loop_system \<Rightarrow> loop_system" where
  "loop_spawn s = s\<lparr>ls_loop := (ls_loop s)\<lparr>cl_running := True\<rparr>, ls_tasks := ls_tasks s @ [PcTick]\<rparr>"

definition run_task ::
  "bool \<Rightarrow> rounding \<Rightarrow> fl_fmt \<Rightarrow> instant \<Rightarrow> nat \<Rightarrow> loop_system \<Rightarrow> loop_system" where
  "run_task quic rnd fmt now k s =
    (if k < length (ls_tasks s)
     then (let (pc, c) = loop_task quic rnd fmt now (ls_tasks s ! k) (ls_loop s) in
           s\<lparr>ls_loop := c, ls_tasks := (ls_tasks s)[k := pc]\<rparr>)
     else s)"

text \<open>The calls other code makes, and a phase of one of the tasks.\<close>

datatype loop_event =
    LeSpawn | LeStop | LeWrite u64 u64 bool | LeRtt fl | LeTransport transport_mode | LeReset instant | LeSeed tuning_config
  | LeTask instant nat

fun loop_step :: "bool \<Rightarrow> rounding \<Rightarrow> fl_fmt \<Rightarrow> u64 \<Rightarrow> loop_event \<Rightarrow> loop_system \<Rightarrow> loop_system" where
  "loop_step quic rnd fmt cpus LeSpawn s = loop_spawn s"
| "loop_step quic rnd fmt cpus LeStop s = s\<lparr>ls_loop := loop_stop (ls_loop s)\<rparr>"
| "loop_step quic rnd fmt cpus (LeWrite n us re) s = s\<lparr>ls_loop := loop_record_write n us re (ls_loop s)\<rparr>"
| "loop_step quic rnd fmt cpus (LeRtt r) s = s\<lparr>ls_loop := loop_record_rtt r (ls_loop s)\<rparr>"
| "loop_step quic rnd fmt cpus (LeTransport m) s = s\<lparr>ls_loop := set_transport m (ls_loop s)\<rparr>"
| "loop_step quic rnd fmt cpus (LeReset now) s = s\<lparr>ls_loop := reset_for_resume cpus now (ls_loop s)\<rparr>"
| "loop_step quic rnd fmt cpus (LeSeed cfg) s = s\<lparr>ls_loop := (ls_loop s)\<lparr>cl_config := cfg\<rparr>\<rparr>"
| "loop_step quic rnd fmt cpus (LeTask now k) s = run_task quic rnd fmt now k s"

definition loop_run :: "bool \<Rightarrow> rounding \<Rightarrow> fl_fmt \<Rightarrow> u64 \<Rightarrow> loop_event list \<Rightarrow> loop_system \<Rightarrow> loop_system" where
  "loop_run quic rnd fmt cpus es s = fold (loop_step quic rnd fmt cpus) es s"

definition loop_system_new :: "u64 \<Rightarrow> instant \<Rightarrow> loop_system" where
  "loop_system_new cpus now = \<lparr>ls_loop = control_loop_new cpus now, ls_tasks = []\<rparr>"

text \<open>What the sender of a reliable transfer reads from the loop.\<close>

definition control_input :: "control_loop \<Rightarrow> control_in" where
  "control_input c = \<lparr>cin_rtt_ms = map_option nm_rtt_ms (latest_metrics c),
     cin_parallel_streams = tn_parallel_streams (current_config c)\<rparr>"

section \<open>The loop never acts\<close>

text \<open>The task has not got past the test of its first phase.\<close>

definition idle_pc :: "loop_pc \<Rightarrow> bool" where
  "idle_pc pc \<longleftrightarrow> (case pc of PcTick \<Rightarrow> True | PcSnapshot \<Rightarrow> True | PcStopped \<Rightarrow> True | _ \<Rightarrow> False)"

definition loop_inert :: "tuning_config \<Rightarrow> loop_system \<Rightarrow> bool" where
  "loop_inert cfg s \<longleftrightarrow> mh_samples (cl_metrics (ls_loop s)) = [] \<and> cl_config (ls_loop s) = cfg
     \<and> list_all idle_pc (ls_tasks s)"

text \<open>The configuration the callers have set last.\<close>

fun set_config :: "u64 \<Rightarrow> loop_event \<Rightarrow> tuning_config \<Rightarrow> tuning_config" where
  "set_config cpus (LeSeed cfg) c = cfg"
| "set_config cpus (LeReset now) c = tuning_default cpus"
| "set_config cpus _ c = c"

lemma record_write_samples [simp]: "mh_samples (metrics_record_write n us re m) = mh_samples m"
  by (simp add: metrics_record_write_def Let_def)

lemma record_rtt_samples [simp]: "mh_samples (metrics_record_rtt r m) = mh_samples m"
  by (simp add: metrics_record_rtt_def)

lemma loop_task_inert:
  assumes "mh_samples (cl_metrics c) = []" "idle_pc pc" "loop_task quic rnd fmt now pc c = (pc', c')"
  shows "c' = c" "idle_pc pc'"
  using assms by (cases pc; auto simp: metrics_len_def idle_pc_def)+

lemma list_all_update: "list_all P xs \<Longrightarrow> P x \<Longrightarrow> list_all P (xs[k := x])"
  by (induction xs arbitrary: k) (auto split: nat.splits)

lemma run_task_inert: "loop_inert cfg s \<Longrightarrow> loop_inert cfg (run_task quic rnd fmt now k s)"
proof (cases "k < length (ls_tasks s)")
  case True
  assume i: "loop_inert cfg s"
  then have pc: "idle_pc (ls_tasks s ! k)" using True by (simp add: loop_inert_def list_all_length)
  obtain pc' c where t: "loop_task quic rnd fmt now (ls_tasks s ! k) (ls_loop s) = (pc', c)"
    by (cases "loop_task quic rnd fmt now (ls_tasks s ! k) (ls_loop s)")
  with loop_task_inert [OF _ pc t] i have "c = ls_loop s" "idle_pc pc'" by (auto simp: loop_inert_def)
  with i True t show ?thesis by (simp add: run_task_def loop_inert_def list_all_update)
qed (simp add: run_task_def)

lemma loop_step_inert: "loop_inert cfg s \<Longrightarrow> loop_inert (set_config cpus e cfg) (loop_step quic rnd fmt cpus e s)"
proof (cases e)
  case (LeTask now k)
  assume "loop_inert cfg s"
  then show ?thesis by (simp add: LeTask run_task_inert)
qed (simp_all add: loop_inert_def loop_spawn_def loop_stop_def loop_record_write_def
      loop_record_rtt_def set_transport_def reset_for_resume_def metrics_clear_def idle_pc_def)

lemma loop_run_inert:
  "loop_inert cfg s \<Longrightarrow> loop_inert (fold (set_config cpus) es cfg) (loop_run quic rnd fmt cpus es s)"
proof (induction es arbitrary: s cfg)
  case (Cons e es)
  from Cons.IH [OF loop_step_inert [OF Cons.prems, of cpus e quic rnd fmt]] show ?case
    by (simp add: loop_run_def)
qed (simp add: loop_run_def)

lemma loop_new_inert: "loop_inert (tuning_default cpus) (loop_system_new cpus now)"
  by (simp add: loop_inert_def loop_system_new_def control_loop_new_def metrics_new_def)

text \<open>C26. The adaptive control never acts. The task skips its round while there is no sample, and only the
  snapshot behind that test ever adds one. So whatever is recorded, spawned, seeded, reset and run, in any
  interleaving, the loop has no metrics to report and the configuration is the one its callers set last; and a
  reliable sender that reads the loop keeps its retransmission timeout and works with a window of as many
  chunks as that configuration has streams, whatever window it was configured with.\<close>

theorem control_loop_inert:
  "let c = ls_loop (loop_run quic rnd fmt cpus es (loop_system_new cpus now));
       cfg = fold (set_config cpus) es (tuning_default cpus) in
   latest_metrics c = None \<and> current_config c = cfg
   \<and> sd_rto (apply_control (Some (control_input c)) s) = sd_rto s
   \<and> rcf_window_size (sd_config (apply_control (Some (control_input c)) s))
       = ucast (max (tn_parallel_streams cfg) 1)"
proof -
  have "loop_inert (fold (set_config cpus) es (tuning_default cpus))
      (loop_run quic rnd fmt cpus es (loop_system_new cpus now))"
    by (intro loop_run_inert loop_new_inert)
  then show ?thesis
    by (simp add: loop_inert_def latest_metrics_def metrics_last_n_def current_config_def control_input_def
        apply_control_def Let_def)
qed

end
