(* ===== verification/Window.thy ===== *)
theory Window
  imports Prelude
begin

text \<open>
  The flow window (\<^verbatim>\<open>crates/transfer_engine/src/window.rs\<close>): a semaphore of bytes with a counter.

  Acquiring takes the permits and then adds to the counter; dropping a permit subtracts from the counter and
  then returns the permits. Other tasks run in between, so the four halves are steps of their own, and a permit
  is where it stands between them (\<open>permit_pc\<close>). \<^verbatim>\<open>Semaphore::new\<close> panics above \<open>2 ^ 61 - 1\<close> permits
  (\<^verbatim>\<open>usize::MAX >> 3\<close>).
\<close>

record flow_window =
  fw_permits :: nat
  fw_max_bytes :: u64
  fw_in_flight :: u64

definition flow_window_new :: "u64 \<Rightarrow> flow_window option" where
  "flow_window_new max_bytes =
    (let m = max max_bytes 65536 in
     if unat m \<ge> 2 ^ 61 then None
     else Some \<lparr>fw_permits = unat m, fw_max_bytes = m, fw_in_flight = 0\<rparr>)"

definition flow_window_default :: "flow_window option" where
  "flow_window_default = flow_window_new (4 * 1024 * 1024)"

definition acquired :: "u64 \<Rightarrow> flow_window \<Rightarrow> u32" where
  "acquired n_bytes w = ucast (min n_bytes (fw_max_bytes w))"

definition in_flight_bytes :: "flow_window \<Rightarrow> u64" where
  "in_flight_bytes w = fw_in_flight w"

datatype permit_pc = Taken u32 | Counted u64 | Uncounted u32

text \<open>\<^verbatim>\<open>acquire\<close> up to the \<^verbatim>\<open>await\<close> (\<open>None\<close>: it waits for permits) and after it.\<close>

definition acquire_take :: "u64 \<Rightarrow> flow_window \<Rightarrow> (permit_pc \<times> flow_window) option" where
  "acquire_take n_bytes w =
    (if unat (acquired n_bytes w) \<le> fw_permits w
     then Some (Taken (acquired n_bytes w), w\<lparr>fw_permits := fw_permits w - unat (acquired n_bytes w)\<rparr>)
     else None)"

definition acquire_count :: "u32 \<Rightarrow> flow_window \<Rightarrow> permit_pc \<times> flow_window" where
  "acquire_count n w = (Counted (ucast n), w\<lparr>fw_in_flight := fw_in_flight w + ucast n\<rparr>)"

text \<open>\<^verbatim>\<open>release\<close>, called by \<^verbatim>\<open>drop\<close>, and the drop of the semaphore's own permit.\<close>

definition window_release :: "u64 \<Rightarrow> flow_window \<Rightarrow> permit_pc \<times> flow_window" where
  "window_release n_bytes w = (Uncounted (ucast n_bytes), w\<lparr>fw_in_flight := fw_in_flight w - n_bytes\<rparr>)"

definition drop_permit :: "u32 \<Rightarrow> flow_window \<Rightarrow> flow_window" where
  "drop_permit n w = w\<lparr>fw_permits := fw_permits w + unat n\<rparr>"

inductive window_step :: "flow_window \<times> permit_pc list \<Rightarrow> flow_window \<times> permit_pc list \<Rightarrow> bool" where
  take: "acquire_take n_bytes w = Some (p, w') \<Longrightarrow> window_step (w, ps) (w', p # ps)"
| counted: "acquire_count n w = (p, w') \<Longrightarrow> window_step (w, ps @ Taken n # qs) (w', ps @ p # qs)"
| release: "window_release n w = (p, w') \<Longrightarrow> window_step (w, ps @ Counted n # qs) (w', ps @ p # qs)"
| dropped: "window_step (w, ps @ Uncounted n # qs) (drop_permit n w, ps @ qs)"

inductive_cases window_step_cases: "window_step (w, ps) (w', ps')"

fun held :: "permit_pc \<Rightarrow> nat" where
  "held (Taken n) = unat n"
| "held (Counted n) = unat n"
| "held (Uncounted n) = unat n"

fun counted_bytes :: "permit_pc \<Rightarrow> nat" where
  "counted_bytes (Counted n) = unat n"
| "counted_bytes _ = 0"

fun narrow :: "permit_pc \<Rightarrow> bool" where
  "narrow (Counted n) = (unat n < 2 ^ 32)"
| "narrow _ = True"

definition window_inv :: "u64 \<Rightarrow> flow_window \<times> permit_pc list \<Rightarrow> bool" where
  "window_inv m s \<longleftrightarrow> (case s of (w, ps) \<Rightarrow>
     fw_max_bytes w = m \<and> list_all narrow ps
     \<and> fw_permits w + sum_list (map held ps) = unat m
     \<and> unat (fw_in_flight w) = sum_list (map counted_bytes ps))"

lemma counted_le_held: "sum_list (map counted_bytes ps) \<le> sum_list (map held ps)"
proof (induction ps)
  case (Cons p ps)
  then show ?case by (cases p) auto
qed simp

lemma unat_ucast_32_64 [simp]: "unat (ucast (n :: u32) :: u64) = unat n"
  by (simp add: unsigned_ucast_eq take_bit_nat_eq_self order.strict_trans [OF unsigned_less])

lemma ucast_narrow: "unat (n :: u64) < 2 ^ 32 \<Longrightarrow> unat (ucast n :: u32) = unat n"
  by (simp add: unsigned_ucast_eq take_bit_nat_eq_self)

lemma unat_add_small:
  assumes "unat (a :: u64) + unat b \<le> unat (m :: u64)"
  shows "unat (a + b) = unat a + unat b"
proof -
  have "unat m < 2 ^ LENGTH(64)" by (rule unsigned_less)
  with assms show ?thesis by (simp add: unat_word_ariths)
qed

lemma window_step_inv:
  assumes "window_step s s'" "window_inv m s"
  shows "window_inv m s'"
  using assms
proof (induction rule: window_step.induct)
  case (take n_bytes w p w' ps)
  then show ?case
    by (auto simp: window_inv_def acquire_take_def split: if_splits)
next
  case (counted n w p w' ps qs)
  let ?rest = "sum_list (map counted_bytes ps) + sum_list (map counted_bytes qs)"
  have "?rest \<le> sum_list (map held ps) + sum_list (map held qs)"
    using counted_le_held [of ps] counted_le_held [of qs] by simp
  with counted have "unat (fw_in_flight w) + unat (ucast n :: u64) \<le> unat m" by (simp add: window_inv_def)
  then have "unat (fw_in_flight w + ucast n) = unat (fw_in_flight w) + unat n"
    by (simp add: unat_add_small)
  with counted show ?case
    using unsigned_less [of n] by (auto simp: window_inv_def acquire_count_def)
next
  case (release n w p w' ps qs)
  then have "n \<le> fw_in_flight w" by (simp add: window_inv_def word_le_nat_alt)
  then have "unat (fw_in_flight w - n) = unat (fw_in_flight w) - unat n" by (simp add: unat_sub)
  with release show ?case by (auto simp: window_inv_def window_release_def ucast_narrow)
next
  case (dropped w ps n qs)
  then show ?case by (auto simp: window_inv_def drop_permit_def)
qed

lemma window_reachable_inv:
  assumes "window_step\<^sup>*\<^sup>* (w, []) s" "flow_window_new n = Some w"
  shows "window_inv (max n 65536) s"
  using assms(1)
proof (induction rule: rtranclp_induct)
  case base
  show ?case using assms(2) by (auto simp: window_inv_def flow_window_new_def Let_def split: if_splits)
next
  case (step s s')
  then show ?case using window_step_inv by blast
qed

text \<open>The flow window is respected: in every reachable state, whatever the interleaving of the halves of
  acquisitions and releases, the permits left and those held are the maximum, the counter is the number of
  bytes of the completed acquisitions, and it never exceeds the maximum; when all permits are dropped the
  window is as new. The maximum is the requested one, but at least 64 KiB.\<close>

theorem flow_window_bounded:
  assumes "flow_window_new n = Some w" "window_step\<^sup>*\<^sup>* (w, []) (w', ps)"
  shows "fw_permits w' + sum_list (map held ps) = unat (max n 65536)
    \<and> unat (in_flight_bytes w') = sum_list (map counted_bytes ps)
    \<and> in_flight_bytes w' \<le> max n 65536
    \<and> (ps = [] \<longrightarrow> w' = w)"
proof -
  have i: "window_inv (max n 65536) (w', ps)" by (rule window_reachable_inv [OF assms(2,1)])
  have "unat (fw_in_flight w') \<le> unat (max n 65536)"
    using i counted_le_held [of ps] by (simp add: window_inv_def)
  moreover have "w' = w" if "ps = []"
    using i that assms(1) by (auto simp: window_inv_def flow_window_new_def Let_def unat_eq_0 split: if_splits)
  ultimately show ?thesis using i by (simp add: window_inv_def in_flight_bytes_def word_le_nat_alt)
qed

definition demo_window :: flow_window where
  "demo_window = \<lparr>fw_permits = 65536, fw_max_bytes = 65536, fw_in_flight = 0\<rparr>"

lemma demo_window_runs:
  "window_step\<^sup>*\<^sup>* (demo_window, []) (demo_window\<lparr>fw_permits := 65024, fw_in_flight := 512\<rparr>, [Counted 512])"
proof -
  have "window_step (demo_window, []) (demo_window\<lparr>fw_permits := 65024\<rparr>, [Taken 512])"
    by (rule take [where n_bytes = 512]) (simp add: acquire_take_def acquired_def demo_window_def)
  moreover have "window_step (demo_window\<lparr>fw_permits := 65024\<rparr>, [] @ Taken 512 # [])
      (demo_window\<lparr>fw_permits := 65024, fw_in_flight := 512\<rparr>, [] @ Counted 512 # [])"
    by (rule counted) (simp add: acquire_count_def demo_window_def)
  ultimately show ?thesis by simp
qed

theorem flow_window_bounded_witness:
  "fw_permits (demo_window\<lparr>fw_permits := 65024, fw_in_flight := 512\<rparr>) + 512 = 65536"
proof -
  have "flow_window_new 512 = Some demo_window"
    by (simp add: flow_window_new_def demo_window_def)
  from flow_window_bounded [OF this demo_window_runs] show ?thesis by simp
qed

text \<open>The number of permits is 32 bits wide: on a window of 4 GiB a request for 4 GiB takes none.\<close>

lemma wide_window_unbounded:
  assumes "fw_max_bytes w = 2 ^ 32" "2 ^ 32 \<le> n_bytes"
  shows "acquired n_bytes w = 0"
proof -
  have "min n_bytes (fw_max_bytes w) = 2 ^ 32" using assms by (simp add: min_def)
  then show ?thesis by (simp add: acquired_def)
qed

end
