(* ===== verification/Nat_Traversal.thy ===== *)
theory Nat_Traversal
  imports Float_Model Rust_Text Transfer_Error
begin

text \<open>
  NAT traversal (\<^verbatim>\<open>crates/transfer_engine/src/nat.rs\<close>): STUN requests and responses, the NAT test, the
  exchange of endpoints, hole punching, and the choice of a transport.

  Sockets, the clock and the random transaction identifiers are arguments: the outcome of each call in the order
  in which the code makes them. The text of an IPv6 address and its parser are arguments too.
\<close>

section \<open>Socket addresses\<close>

datatype ip_addr = IpV4 u8 u8 u8 u8 | IpV6 bytes

record sock_addr =
  sk_ip :: ip_addr
  sk_port :: u16

text \<open>\<^verbatim>\<open>SocketAddr::from_str\<close>: four decimal octets without leading zeros and a port; IPv6 in brackets.\<close>

definition parse_octet :: "string \<Rightarrow> u8 option" where
  "parse_octet s =
    (if s = [] \<or> 3 < length s \<or> \<not> list_all is_ascii_digit s \<or> (1 < length s \<and> hd s = CHR ''0'')
        \<or> 256 \<le> digits_value s then None
     else Some (of_nat (digits_value s)))"

definition parse_port :: "string \<Rightarrow> u16 option" where
  "parse_port s = (if s = [] \<or> \<not> list_all is_ascii_digit s \<or> 65536 \<le> digits_value s then None
     else Some (of_nat (digits_value s)))"

definition parse_ipv4 :: "string \<Rightarrow> ip_addr option" where
  "parse_ipv4 s =
    (case map parse_octet (str_split (CHR ''.'') s) of
       [Some a, Some b, Some c, Some d] \<Rightarrow> Some (IpV4 a b c d)
     | _ \<Rightarrow> None)"

definition parse_socket_v4 :: "string \<Rightarrow> sock_addr option" where
  "parse_socket_v4 s =
    (case str_split (CHR '':'') s of
       [ip, port] \<Rightarrow>
         (case (parse_ipv4 ip, parse_port port) of
            (Some i, Some p) \<Rightarrow> Some \<lparr>sk_ip = i, sk_port = p\<rparr>
          | _ \<Rightarrow> None)
     | _ \<Rightarrow> None)"

definition parse_socket_addr :: "(string \<Rightarrow> sock_addr option) \<Rightarrow> string \<Rightarrow> anyhow + sock_addr" where
  "parse_socket_addr v6 s =
    (case parse_socket_v4 s of
       Some a \<Rightarrow> Inr a
     | None \<Rightarrow>
        (case (if s \<noteq> [] \<and> hd s = CHR ''['' then v6 s else None) of
           Some a \<Rightarrow> Inr a
         | None \<Rightarrow> Inl ''invalid socket address syntax''))"

fun show_ip :: "(bytes \<Rightarrow> string) \<Rightarrow> ip_addr \<Rightarrow> string" where
  "show_ip show6 (IpV4 a b c d) = show_nat (unat a) @ ''.'' @ show_nat (unat b) @ ''.'' @ show_nat (unat c)
     @ ''.'' @ show_nat (unat d)"
| "show_ip show6 (IpV6 bs) = show6 bs"

section \<open>STUN messages\<close>

datatype nat_type = NoNat | FullCone | RestrictedCone | PortRestrictedCone | Symmetric | NatUnknown

record stun_result =
  sn_public_addr :: sock_addr
  sn_nat_type :: nat_type
  sn_rtt_ms :: fl

definition STUN_SERVERS :: "string list" where
  "STUN_SERVERS = [''stun.l.google.com:19302'', ''stun1.l.google.com:19302'', ''stun.ekiga.net:3478'']"

definition MAGIC_COOKIE :: u32 where
  "MAGIC_COOKIE = 0x2112A442"

definition build_stun_request :: "bytes \<Rightarrow> bytes" where
  "build_stun_request tx_id =
     to_be 2 (0x0001 :: u16) @ to_be 2 (0x0000 :: u16) @ to_be 4 MAGIC_COOKIE @ tx_id"

text \<open>Byte by byte exclusive or.\<close>

definition xor_bytes :: "bytes \<Rightarrow> bytes \<Rightarrow> bytes" where
  "xor_bytes = map2 (\<lambda>a b. xor a b)"

definition slice :: "nat \<Rightarrow> nat \<Rightarrow> bytes \<Rightarrow> bytes" where
  "slice a b data = take (b - a) (drop a data)"

text \<open>The value of an XOR-MAPPED-ADDRESS attribute at \<open>offset\<close>: \<open>Some (Some a)\<close> is an address,
  \<open>Some None\<close> an unknown family, \<open>None\<close> the panic of slicing beyond the end.\<close>

definition mapped_address :: "bytes \<Rightarrow> bytes \<Rightarrow> nat \<Rightarrow> sock_addr option option" where
  "mapped_address data tx_id offset =
    (let family = data ! (offset + 1);
         port = xor (from_be (slice (offset + 2) (offset + 4) data) :: u16) 0x2112 in
     if family = 0x01 then
       (case xor_bytes (slice (offset + 4) (offset + 8) data) [0x21, 0x12, 0xA4, 0x42] of
          [a, b, c, d] \<Rightarrow> Some (Some \<lparr>sk_ip = IpV4 a b c d, sk_port = port\<rparr>)
        | _ \<Rightarrow> None)
     else if family = 0x02 then
       (if length data < offset + 20 then None
        else Some (Some \<lparr>sk_ip = IpV6 (xor_bytes (slice (offset + 4) (offset + 20) data)
               (to_be 4 MAGIC_COOKIE @ tx_id)), sk_port = port\<rparr>))
     else Some None)"

definition padded :: "nat \<Rightarrow> nat" where
  "padded n = n + (if n mod 4 \<noteq> 0 then 4 - n mod 4 else 0)"

function stun_attributes :: "bytes \<Rightarrow> bytes \<Rightarrow> nat \<Rightarrow> (anyhow + sock_addr) option" where
  "stun_attributes data tx_id offset =
    (if offset + 4 \<le> length data then
       (let attr_type = (from_be (slice offset (offset + 2) data) :: u16);
            attr_len = unat (from_be (slice (offset + 2) (offset + 4) data) :: u16);
            offset = offset + 4 in
        if length data < offset + attr_len then Some (Inl ''no XOR-MAPPED-ADDRESS in STUN response'')
        else if attr_type = 0x0020 \<and> 8 \<le> attr_len then
          (case mapped_address data tx_id offset of
             None \<Rightarrow> None
           | Some (Some a) \<Rightarrow> Some (Inr a)
           | Some None \<Rightarrow> stun_attributes data tx_id (offset + padded attr_len))
        else stun_attributes data tx_id (offset + padded attr_len))
     else Some (Inl ''no XOR-MAPPED-ADDRESS in STUN response''))"
  by pat_completeness auto

termination by (relation "measure (\<lambda>(data, _, offset). length data - offset)") (auto simp: Let_def)

declare stun_attributes.simps [simp del]

text \<open>\<open>None\<close> is a panic.\<close>

definition parse_stun_response :: "bytes \<Rightarrow> bytes \<Rightarrow> (anyhow + sock_addr) option" where
  "parse_stun_response data tx_id =
    (if length data < 20 then
       Some (Inl (''STUN response too short: '' @ show_nat (length data) @ '' bytes''))
     else if (from_be (slice 4 8 data) :: u32) \<noteq> MAGIC_COOKIE then Some (Inl ''invalid STUN magic cookie'')
     else if slice 8 20 data \<noteq> tx_id then Some (Inl ''STUN transaction ID mismatch'')
     else stun_attributes data tx_id 20)"

section \<open>Queries\<close>

text \<open>The socket of a query: the error of binding it and setting its timeouts, the random transaction
  identifier, the error of sending, and the datagram received. A datagram is cut to the buffer of 512 bytes.\<close>

record stun_io =
  so_setup :: "anyhow option"
  so_tx_id :: "anyhow + bytes"
  so_send :: "anyhow option"
  so_recv :: "anyhow + bytes"

text \<open>The transaction identifier and the request that was sent.\<close>

definition stun_exchange :: "stun_io \<Rightarrow> anyhow + bytes \<times> bytes" where
  "stun_exchange io =
    bind_res (so_tx_id io) (\<lambda>tx_id.
      case so_send io of Some e \<Rightarrow> Inl e | None \<Rightarrow> Inr (tx_id, build_stun_request tx_id))"

definition second_server :: "(string \<Rightarrow> sock_addr option) \<Rightarrow> sock_addr \<Rightarrow> sock_addr" where
  "second_server v6 server =
    (case (if 1 < length STUN_SERVERS then Some (STUN_SERVERS ! 1) else None) of
       None \<Rightarrow> server
     | Some s \<Rightarrow> (case parse_socket_addr v6 s of Inr a \<Rightarrow> a | Inl _ \<Rightarrow> server))"

text \<open>The NAT type with the datagrams sent; \<open>None\<close> is a panic.\<close>

definition detect_nat_type ::
  "(string \<Rightarrow> sock_addr option) \<Rightarrow> stun_io \<Rightarrow> sock_addr \<Rightarrow> sock_addr
     \<Rightarrow> (anyhow + nat_type \<times> (sock_addr \<times> bytes) list) option" where
  "detect_nat_type v6 io server public_addr =
    (let second = second_server v6 server in
     case so_setup io of
       Some e \<Rightarrow> Some (Inl e)
     | None \<Rightarrow>
        (case stun_exchange io of
           Inl e \<Rightarrow> Some (Inl e)
         | Inr (tx_id2, req2) \<Rightarrow>
            (case so_recv io of
               Inl _ \<Rightarrow> Some (Inr (NatUnknown, [(second, req2)]))
             | Inr data \<Rightarrow>
                (case parse_stun_response (take 512 data) tx_id2 of
                   None \<Rightarrow> None
                 | Some (Inl _) \<Rightarrow> Some (Inr (NatUnknown, [(second, req2)]))
                 | Some (Inr addr2) \<Rightarrow>
                     Some (Inr (if sk_port addr2 \<noteq> sk_port public_addr then Symmetric
                       else if sk_ip addr2 \<noteq> sk_ip public_addr then Symmetric else NatUnknown,
                       [(second, req2)]))))))"

definition stun_query ::
  "rounding \<Rightarrow> (string \<Rightarrow> sock_addr option) \<Rightarrow> stun_io \<Rightarrow> stun_io \<Rightarrow> duration \<Rightarrow> string
     \<Rightarrow> (anyhow + stun_result) option" where
  "stun_query rnd v6 io io2 rtt server =
    (case so_setup io of
       Some e \<Rightarrow> Some (Inl e)
     | None \<Rightarrow>
        (case parse_socket_addr v6 server of
           Inl e \<Rightarrow> Some (Inl e)
         | Inr remote \<Rightarrow>
            (case stun_exchange io of
               Inl e \<Rightarrow> Some (Inl e)
             | Inr (tx_id, request) \<Rightarrow>
                (case so_recv io of
                   Inl e \<Rightarrow> Some (Inl e)
                 | Inr data \<Rightarrow>
                    (case parse_stun_response (take 512 data) tx_id of
                       None \<Rightarrow> None
                     | Some (Inl e) \<Rightarrow> Some (Inl e)
                     | Some (Inr public_addr) \<Rightarrow>
                        (case detect_nat_type v6 io2 remote public_addr of
                           None \<Rightarrow> None
                         | Some (Inl e) \<Rightarrow> Some (Inl e)
                         | Some (Inr (nat_type, _)) \<Rightarrow>
                             Some (Inr \<lparr>sn_public_addr = public_addr, sn_nat_type = nat_type,
                               sn_rtt_ms = fl_mul rnd (as_secs rnd rtt) (Fin 1000)\<rparr>)))))))"

section \<open>Reaching the peer\<close>

record nat_traversal_result =
  nt_success :: bool
  nt_mapped_addr :: "sock_addr option"
  nt_nat_type :: nat_type
  nt_recommended_transport :: string

definition analyze_connectivity :: "stun_result \<Rightarrow> stun_result \<Rightarrow> nat_traversal_result" where
  "analyze_connectivity local_nat peer_nat =
    (if sn_nat_type local_nat = Symmetric \<and> sn_nat_type peer_nat = Symmetric then
       \<lparr>nt_success = False, nt_mapped_addr = None, nt_nat_type = sn_nat_type local_nat,
        nt_recommended_transport = ''relay''\<rparr>
     else if sn_nat_type local_nat = Symmetric \<or> sn_nat_type peer_nat = Symmetric then
       \<lparr>nt_success = True, nt_mapped_addr = Some (sn_public_addr local_nat),
        nt_nat_type = sn_nat_type local_nat, nt_recommended_transport = ''tcp''\<rparr>
     else
       \<lparr>nt_success = True, nt_mapped_addr = Some (sn_public_addr local_nat),
        nt_nat_type = sn_nat_type local_nat, nt_recommended_transport = ''quic''\<rparr>)"

text \<open>The line sent to the peer, and the peer's line.\<close>

definition endpoint_line :: "(bytes \<Rightarrow> string) \<Rightarrow> sock_addr \<Rightarrow> string" where
  "endpoint_line show6 a = show_ip show6 (sk_ip a) @ '':'' @ show_nat (unat (sk_port a)) @ [CHR 0x0A]"

definition parse_endpoint :: "(string \<Rightarrow> sock_addr option) \<Rightarrow> string \<Rightarrow> anyhow + sock_addr" where
  "parse_endpoint v6 line =
    (case parse_socket_addr v6 (trim line) of
       Inr a \<Rightarrow> Inr a
     | Inl e \<Rightarrow> Inl (''invalid peer endpoint: '' @ e))"

text \<open>\<open>dial\<close> is the error of connecting or writing, \<open>line\<close> the line read or its error.\<close>

definition exchange_endpoints ::
  "(string \<Rightarrow> sock_addr option) \<Rightarrow> (bytes \<Rightarrow> string) \<Rightarrow> anyhow option \<Rightarrow> anyhow + string \<Rightarrow> string \<Rightarrow> sock_addr
     \<Rightarrow> anyhow + sock_addr \<times> string" where
  "exchange_endpoints v6 show6 dial line peer_addr my_public =
    bind_res (parse_socket_addr v6 peer_addr) (\<lambda>_.
      case dial of
        Some e \<Rightarrow> Inl e
      | None \<Rightarrow> bind_res line (\<lambda>l. bind_res (parse_endpoint v6 l) (\<lambda>a. Inr (a, endpoint_line show6 my_public))))"

record punch_result =
  pu_success :: bool
  pu_peer_public :: "sock_addr option"
  pu_rtt_ms :: fl
  pu_quic_success :: bool

text \<open>One round of the loop reads the clock, the cancellation flag, whether the datagram was sent and the
  sender of a datagram that arrived within 100 ms. The state is what was sent and received and the delay.\<close>

record punch_input =
  px_now :: instant
  px_cancelled :: bool
  px_sent :: bool
  px_received :: "sock_addr option"

record punch_state =
  ph_sent :: bool
  ph_received :: bool
  ph_delay :: duration

fun punch_loop :: "instant \<Rightarrow> sock_addr \<Rightarrow> punch_input list \<Rightarrow> punch_state \<Rightarrow> punch_state option" where
  "punch_loop deadline peer [] s = None"
| "punch_loop deadline peer (x # xs) s =
    (if deadline \<le> px_now x then Some s
     else if px_cancelled x then Some s
     else
       (let s1 = (if px_sent x then s\<lparr>ph_sent := True\<rparr> else s) in
        case px_received x of
          Some addr \<Rightarrow>
            (let s2 = s1\<lparr>ph_received := True\<rparr> in
             if addr = peer then Some s2 else punch_loop deadline peer xs s2)
        | None \<Rightarrow> punch_loop deadline peer xs (s1\<lparr>ph_delay := min (ph_delay s1 * 2) 1000\<rparr>)))"

definition punch_hole ::
  "rounding \<Rightarrow> bool \<Rightarrow> bool \<Rightarrow> duration \<Rightarrow> instant \<Rightarrow> sock_addr \<Rightarrow> bool \<Rightarrow> punch_input list \<Rightarrow> punch_result option" where
  "punch_hole rnd quic handshake elapsed start peer_public try_quic xs =
    map_option (\<lambda>s.
      \<lparr>pu_success = (ph_sent s \<and> ph_received s), pu_peer_public = Some peer_public,
       pu_rtt_ms = fl_mul rnd (as_secs rnd elapsed) (Fin 1000),
       pu_quic_success = (try_quic \<and> ph_sent s \<and> ph_received s \<and> quic \<and> handshake)\<rparr>)
     (punch_loop (start + 5000) peer_public xs \<lparr>ph_sent = False, ph_received = False, ph_delay = 50\<rparr>)"

section \<open>STUN responses round-trip\<close>

text \<open>Responses as a server builds them: attributes are padded to multiples of four bytes.\<close>

definition stun_attr :: "u16 \<Rightarrow> bytes \<Rightarrow> bytes" where
  "stun_attr ty body = to_be 2 ty @ to_be 2 (of_nat (length body) :: u16) @ body
     @ replicate (padded (length body) - length body) 0"

fun xor_mapped :: "bytes \<Rightarrow> sock_addr \<Rightarrow> bytes" where
  "xor_mapped tx_id a =
    (let port = to_be 2 (xor (sk_port a) 0x2112) in
     case sk_ip a of
       IpV4 i j k l \<Rightarrow> [0, 1] @ port @ xor_bytes [i, j, k, l] [0x21, 0x12, 0xA4, 0x42]
     | IpV6 bs \<Rightarrow> [0, 2] @ port @ xor_bytes bs (to_be 4 MAGIC_COOKIE @ tx_id))"

definition stun_header :: "u16 \<Rightarrow> u16 \<Rightarrow> bytes \<Rightarrow> bytes" where
  "stun_header ty n tx_id = to_be 2 ty @ to_be 2 n @ to_be 4 MAGIC_COOKIE @ tx_id"

definition other_attribute :: "u16 \<times> bytes \<Rightarrow> bool" where
  "other_attribute x \<longleftrightarrow> fst x \<noteq> 0x0020 \<and> length (snd x) < 65536"

definition ip_ok :: "ip_addr \<Rightarrow> bool" where
  "ip_ok i = (case i of IpV6 bs \<Rightarrow> length bs = 16 | _ \<Rightarrow> True)"

lemma slice_append [simp]: "slice (length a + i) (length a + j) (a @ b) = slice i j b"
  by (simp add: slice_def)

lemma slice_0_append [simp]: "slice (length a) (length a + j) (a @ b) = slice 0 j b"
  using slice_append [of a 0 j b] by simp

lemma slice_front: "length x = n \<Longrightarrow> slice 0 n (x @ y) = x"
  by (simp add: slice_def)

lemma slice_second: "length x = i \<Longrightarrow> j = i + length y \<Longrightarrow> slice i j (x @ y @ z) = y"
  by (simp add: slice_def)

lemma padded_ge: "n \<le> padded n"
  by (simp add: padded_def)

lemma length_stun_attr [simp]: "length (stun_attr ty body) = 4 + padded (length body)"
  using padded_ge [of "length body"] by (simp add: stun_attr_def)

lemma stun_attr_step:
  assumes "length body < 65536" and D_def: "D = pre @ stun_attr ty body @ rest" and p_def: "p = length pre"
  shows "stun_attributes D tx_id p =
    (if ty = 0x0020 \<and> 8 \<le> length body then
       (case mapped_address D tx_id (p + 4) of
          None \<Rightarrow> None
        | Some (Some a) \<Rightarrow> Some (Inr a)
        | Some None \<Rightarrow> stun_attributes D tx_id (p + 4 + padded (length body)))
     else stun_attributes D tx_id (p + 4 + padded (length body)))"
proof -
  have "slice p (p + 2) D = to_be 2 ty"
    by (simp add: D_def p_def stun_attr_def slice_def)
  then have ty: "from_be (slice p (p + 2) D) = ty" by simp
  have "slice (p + 2) (p + 4) D = to_be 2 (of_nat (length body) :: u16)"
    by (simp add: D_def p_def stun_attr_def slice_def)
  then have n: "unat (from_be (slice (p + 2) (p + 4) D) :: u16) = length body"
    using assms(1) by (simp add: unsigned_of_nat take_bit_nat_eq_self)
  have l: "p + 4 \<le> length D" "p + 4 + length body \<le> length D"
    using padded_ge [of "length body"] by (simp_all add: D_def p_def)
  show ?thesis
    unfolding stun_attributes.simps [of D tx_id p] Let_def ty n using l by simp
qed

lemma stun_skip:
  assumes "other_attribute (ty, body)"
  shows "stun_attributes (pre @ stun_attr ty body @ rest) tx_id (length pre) =
    stun_attributes (pre @ stun_attr ty body @ rest) tx_id (length pre + length (stun_attr ty body))"
  using assms stun_attr_step [of body _ pre ty rest _ tx_id, OF _ refl refl] by (simp add: other_attribute_def add.assoc)

lemma stun_skip_all:
  assumes "list_all other_attribute others"
  shows "stun_attributes (pre @ concat (map (case_prod stun_attr) others) @ rest) tx_id (length pre) =
    stun_attributes (pre @ concat (map (case_prod stun_attr) others) @ rest) tx_id
      (length (pre @ concat (map (case_prod stun_attr) others)))"
  using assms
proof (induction others arbitrary: pre)
  case (Cons x others)
  obtain ty body where x: "x = (ty, body)" by (cases x)
  with Cons.prems Cons.IH [of "pre @ stun_attr ty body"]
    stun_skip [of ty body pre "concat (map (case_prod stun_attr) others) @ rest" tx_id]
  show ?case by (simp del: length_stun_attr)
qed simp

lemma xor_twice [simp]: "xor (xor (a :: 'a::len word) b) b = a"
  by (simp add: xor.assoc)

lemma xor_bytes_twice: "length a = length b \<Longrightarrow> xor_bytes (xor_bytes a b) b = a"
  by (induction a b rule: list_induct2) (simp_all add: xor_bytes_def)

lemma length_xor_bytes [simp]: "length (xor_bytes a b) = min (length a) (length b)"
  by (simp add: xor_bytes_def)

lemma length_xor_mapped:
  assumes "length tx_id = 12" "ip_ok (sk_ip a)"
  shows "length (xor_mapped tx_id a) = (case sk_ip a of IpV4 _ _ _ _ \<Rightarrow> 8 | IpV6 _ \<Rightarrow> 20)"
  using assms by (auto simp: ip_ok_def Let_def split: ip_addr.splits)

lemma mapped_address_roundtrip:
  assumes "length tx_id = 12" "ip_ok (sk_ip a)"
  shows "mapped_address (pre @ xor_mapped tx_id a @ rest) tx_id (length pre) = Some (Some a)"
proof -
  let ?p = "to_be 2 (xor (sk_port a) 0x2112) :: bytes"
  have port: "slice 2 4 (0 # f # ?p @ r) = ?p" for f r
    by (simp add: slice_def eval_nat_numeral)
  show ?thesis
  proof (cases "sk_ip a")
    case (IpV4 i j k l)
    have "slice 4 8 (0 # 1 # ?p @ xor_bytes [i, j, k, l] [0x21, 0x12, 0xA4, 0x42] @ rest)
        = xor_bytes [i, j, k, l] [0x21, 0x12, 0xA4, 0x42]" for rest
      using slice_second [of "0 # 1 # ?p" 4 8 "xor_bytes [i, j, k, l] [0x21, 0x12, 0xA4, 0x42]" rest] by simp
    with IpV4 port show ?thesis
      by (simp add: mapped_address_def nth_append Let_def xor_bytes_def del: add_2_eq_Suc')
  next
    case (IpV6 bs)
    let ?k = "to_be 4 MAGIC_COOKIE @ tx_id :: bytes"
    have l: "length bs = length ?k" using assms IpV6 by (simp add: ip_ok_def)
    have "slice 4 20 (0 # 2 # ?p @ xor_bytes bs ?k @ rest) = xor_bytes bs ?k" for rest
      using slice_second [of "0 # 2 # ?p" 4 20 "xor_bytes bs ?k" rest] l assms by simp
    with IpV6 port l assms show ?thesis
      by (simp add: mapped_address_def nth_append Let_def xor_bytes_twice del: add_2_eq_Suc')
  qed
qed

lemma stun_found:
  assumes "length tx_id = 12" "ip_ok (sk_ip a)"
  shows "stun_attributes (pre @ stun_attr 0x0020 (xor_mapped tx_id a) @ rest) tx_id (length pre) = Some (Inr a)"
proof -
  let ?x = "xor_mapped tx_id a"
  have l: "8 \<le> length ?x" "length ?x < 65536"
    using length_xor_mapped [OF assms] by (auto split: ip_addr.splits)
  have d: "pre @ stun_attr 0x0020 ?x @ rest
      = (pre @ to_be 2 (0x0020 :: u16) @ to_be 2 (of_nat (length ?x) :: u16)) @ ?x
        @ (replicate (padded (length ?x) - length ?x) 0 @ rest)"
    by (simp add: stun_attr_def)
  have "mapped_address (pre @ stun_attr 0x0020 ?x @ rest) tx_id (length pre + 4) = Some (Some a)"
    unfolding d using mapped_address_roundtrip [OF assms,
        of "pre @ to_be 2 (0x0020 :: u16) @ to_be 2 (of_nat (length ?x) :: u16)"
           "replicate (padded (length ?x) - length ?x) 0 @ rest"] by simp
  then show ?thesis
    using l stun_attr_step [of ?x _ pre "0x0020" rest _ tx_id, OF _ refl refl] by (simp del: xor_mapped.simps)
qed

lemma stun_end: "stun_attributes data tx_id (length data) = Some (Inl ''no XOR-MAPPED-ADDRESS in STUN response'')"
  by (subst stun_attributes.simps) simp

lemma parse_after_header:
  assumes "length tx_id = 12"
  shows "parse_stun_response (stun_header ty n tx_id @ rest) tx_id
    = stun_attributes (stun_header ty n tx_id @ rest) tx_id (length (stun_header ty n tx_id))"
proof -
  have "slice 4 8 (stun_header ty n tx_id @ rest) = to_be 4 MAGIC_COOKIE"
    using slice_second [of "to_be 2 ty @ to_be 2 n" 4 8 "to_be 4 MAGIC_COOKIE" "tx_id @ rest"]
    by (simp add: stun_header_def)
  moreover have "slice 8 20 (stun_header ty n tx_id @ rest) = tx_id"
    using slice_second [of "to_be 2 ty @ to_be 2 n @ to_be 4 MAGIC_COOKIE" 8 20 tx_id rest] assms
    by (simp add: stun_header_def)
  ultimately show ?thesis using assms by (simp add: parse_stun_response_def stun_header_def)
qed

text \<open>An IPv6 address attribute that ends the message before its sixteen bytes.\<close>

definition short_ipv6 :: "bytes \<Rightarrow> bool" where
  "short_ipv6 body \<longleftrightarrow> 8 \<le> length body \<and> padded (length body) < 20 \<and> body ! 1 = 2"

lemma stun_short_panics:
  assumes "short_ipv6 body"
  shows "stun_attributes (pre @ stun_attr 0x0020 body) tx_id (length pre) = None"
proof -
  have b: "8 \<le> length body" "padded (length body) < 20" "length body < 65536" "body ! 1 = 2"
    using assms padded_ge [of "length body"] by (simp_all add: short_ipv6_def)
  have d: "pre @ stun_attr 0x0020 body = (pre @ to_be 2 (0x0020 :: u16) @ to_be 2 (of_nat (length body) :: u16))
      @ body @ replicate (padded (length body) - length body) 0"
    by (simp add: stun_attr_def)
  have "(pre @ stun_attr 0x0020 body) ! (length pre + 4 + 1) = 2"
    unfolding d using b by (simp add: nth_append del: append_assoc)
  then have "mapped_address (pre @ stun_attr 0x0020 body) tx_id (length pre + 4) = None"
    using b by (simp add: mapped_address_def Let_def)
  with b stun_attr_step [of body _ pre "0x0020" "[]" _ tx_id, OF _ refl refl] show ?thesis by simp
qed

text \<open>STUN responses. A response that carries the transaction identifier of the request is parsed to the
  mapped address, IPv4 or IPv6, whatever other attributes of whatever padded length come before it and whatever
  follows, and whatever its message type; without such an attribute it is refused. But a response with an IPv6
  address attribute that ends too early makes the parser slice beyond the end and panic.\<close>

theorem stun_response_roundtrip:
  assumes "length tx_id = 12" "ip_ok (sk_ip a)" "list_all other_attribute others" "short_ipv6 body"
  shows "let pre = stun_header ty n tx_id @ concat (map (case_prod stun_attr) others) in
    parse_stun_response (pre @ stun_attr 0x0020 (xor_mapped tx_id a) @ rest) tx_id = Some (Inr a)
    \<and> parse_stun_response pre tx_id = Some (Inl ''no XOR-MAPPED-ADDRESS in STUN response'')
    \<and> parse_stun_response (pre @ stun_attr 0x0020 body) tx_id = None"
proof -
  let ?h = "stun_header ty n tx_id" and ?o = "concat (map (case_prod stun_attr) others)"
  have "parse_stun_response (?h @ ?o @ r) tx_id = stun_attributes ((?h @ ?o) @ r) tx_id (length (?h @ ?o))" for r
    using parse_after_header [OF assms(1), of ty n "?o @ r"] stun_skip_all [OF assms(3), of ?h r tx_id] by simp
  from this [of "stun_attr 0x0020 (xor_mapped tx_id a) @ rest"] this [of "[]"] this [of "stun_attr 0x0020 body"]
  show ?thesis
    using stun_found [OF assms(1,2), of "?h @ ?o" rest] stun_end [of "?h @ ?o" tx_id]
      stun_short_panics [OF assms(4), of "?h @ ?o" tx_id] by (simp add: Let_def)
qed

definition demo_tx :: bytes where
  "demo_tx = [1, 2, 3, 4, 5, 6, 7, 8, 9, 10, 11, 12]"

definition demo_addr :: sock_addr where
  "demo_addr = \<lparr>sk_ip = IpV4 192 0 2 1, sk_port = 4000\<rparr>"

theorem stun_response_roundtrip_witness:
  "let pre = stun_header 0x0101 0 demo_tx @ concat (map (case_prod stun_attr) [(0x8022, [97, 98, 99])]) in
    parse_stun_response (pre @ stun_attr 0x0020 (xor_mapped demo_tx demo_addr) @ [7]) demo_tx = Some (Inr demo_addr)
    \<and> parse_stun_response pre demo_tx = Some (Inl ''no XOR-MAPPED-ADDRESS in STUN response'')
    \<and> parse_stun_response (pre @ stun_attr 0x0020 [0, 2, 0, 0, 0, 0, 0, 0]) demo_tx = None"
  by (rule stun_response_roundtrip)
    (simp_all add: demo_tx_def demo_addr_def ip_ok_def other_attribute_def short_ipv6_def padded_def)

section \<open>What the analysis can tell\<close>

lemma stun_servers_not_addresses:
  "list_all (\<lambda>s. parse_socket_addr v6 s = Inl ''invalid socket address syntax'') STUN_SERVERS"
  by (simp add: STUN_SERVERS_def parse_socket_addr_def parse_socket_v4_def parse_ipv4_def parse_octet_def
      is_ascii_digit_def)

lemma second_server_same: "second_server v6 server = server"
  using stun_servers_not_addresses [of v6] by (simp add: second_server_def STUN_SERVERS_def)

lemma detect_nat_type_result:
  "case detect_nat_type v6 io server a of
     Some (Inr (t, sent)) \<Rightarrow> map fst sent = [server] \<and> (t = Symmetric \<or> t = NatUnknown) | _ \<Rightarrow> True"
  by (simp add: detect_nat_type_def second_server_same Let_def split: option.splits sum.splits)

text \<open>What the NAT analysis can tell. None of the default STUN servers can be queried, since their names
  are not socket addresses; so the second server of the NAT test is always the first one again, and the
  test only knows the answers symmetric and unknown. The address it recommends for the peer is the device's own.
  The relay is recommended exactly where both sides are symmetric. Hole punching
  reports success for a datagram from any sender.\<close>

theorem nat_analysis_limits:
  "list_all (\<lambda>s. stun_query rnd v6 (io\<lparr>so_setup := None\<rparr>) io2 rtt s
       = Some (Inl ''invalid socket address syntax'')) STUN_SERVERS
   \<and> (case detect_nat_type v6 io server a of
        Some (Inr (t, sent)) \<Rightarrow> map fst sent = [server] \<and> (t = Symmetric \<or> t = NatUnknown)
      | _ \<Rightarrow> True)
   \<and> (case nt_mapped_addr (analyze_connectivity l p) of
        None \<Rightarrow> nt_recommended_transport (analyze_connectivity l p) = ''relay''
          \<and> sn_nat_type l = Symmetric \<and> sn_nat_type p = Symmetric
      | Some own \<Rightarrow> own = sn_public_addr l \<and> nt_recommended_transport (analyze_connectivity l p) \<noteq> ''relay'')
   \<and> map_option pu_success (punch_hole rnd quic hs d start peer try_quic
        [\<lparr>px_now = start, px_cancelled = False, px_sent = True, px_received = Some stranger\<rparr>,
         \<lparr>px_now = start + 5000, px_cancelled = False, px_sent = False, px_received = None\<rparr>]) = Some True"
proof (intro conjI)
  show "list_all (\<lambda>s. stun_query rnd v6 (io\<lparr>so_setup := None\<rparr>) io2 rtt s
       = Some (Inl ''invalid socket address syntax'')) STUN_SERVERS"
    using stun_servers_not_addresses [of v6] by (auto simp: list_all_iff stun_query_def)
  show "case detect_nat_type v6 io server a of
        Some (Inr (t, sent)) \<Rightarrow> map fst sent = [server] \<and> (t = Symmetric \<or> t = NatUnknown)
      | _ \<Rightarrow> True"
    by (rule detect_nat_type_result)
qed (auto simp: analyze_connectivity_def punch_hole_def Let_def)

end
