(* ===== verification/Transfer_Relay.thy ===== *)
theory Transfer_Relay
  imports Rust_Strings Transfer_Error Frames
begin

text \<open>
  The fallback relay of the transfer engine (\<^verbatim>\<open>crates/transfer_engine/src/relay.rs\<close>): the server that pairs
  connections by session identifier, the forwarding of a pair, and the client.

  The server is a single loop that awaits \<^verbatim>\<open>handle_peer\<close> before it accepts again, so a run is a fold
  over the connections in the order of their arrival, with the time at which the server gets to each. A connection
  brings the bytes the client wrote and the time the server takes to read them. A session slot is \<open>None\<close>
  where it was emptied by a pairing.
\<close>

definition DEFAULT_RELAY_PORT :: u16 where "DEFAULT_RELAY_PORT = 3479"
definition PEER_TIMEOUT :: duration where "PEER_TIMEOUT = 30000"

record relay_arrival =
  rv_time :: instant
  rv_bytes :: bytes
  rv_reading :: duration

record relay_peer =
  rp_arrival :: relay_arrival
  rp_connected_at :: instant

type_synonym relay_slots = "(string, relay_peer option) hmap"

text \<open>A pairing: the first peer, the second, and when both are told.\<close>

record pairing_event =
  pe_first :: relay_arrival
  pe_second :: relay_arrival
  pe_time :: instant

definition read_session_id :: "bytes \<Rightarrow> string option" where
  "read_session_id stream =
    (case read_exact 4 stream of
       None \<Rightarrow> None
     | Some (len_buf, rest) \<Rightarrow>
        (let id_len = unat (from_be len_buf :: u32) in
         if id_len = 0 \<or> 256 < id_len then None
         else (case read_exact id_len rest of
                 None \<Rightarrow> None
               | Some (session_id_buf, _) \<Rightarrow> Some (from_utf8_lossy session_id_buf))))"

text \<open>\<open>start\<close> is when the server gets to the connection; the result has the time when it is done.\<close>

definition handle_peer ::
  "instant \<Rightarrow> relay_arrival \<Rightarrow> relay_slots \<Rightarrow> instant \<times> relay_slots \<times> pairing_event list" where
  "handle_peer start a slots =
    (let now = start + rv_reading a in
     case read_session_id (rv_bytes a) of
       None \<Rightarrow> (now, slots, [])
     | Some session_id \<Rightarrow>
        (case hm_get slots session_id of
           Some (Some first_peer) \<Rightarrow>
             (now, hm_insert session_id None slots,
              [\<lparr>pe_first = rp_arrival first_peer, pe_second = a, pe_time = now\<rparr>])
         | _ \<Rightarrow>
             (now + PEER_TIMEOUT,
              hm_insert session_id (Some \<lparr>rp_arrival = a, rp_connected_at = now\<rparr>) slots, [])))"

fun relay_run :: "relay_arrival list \<Rightarrow> instant \<Rightarrow> relay_slots \<Rightarrow> pairing_event list" where
  "relay_run [] now slots = []"
| "relay_run (a # as) now slots =
    (let (now', slots', es) = handle_peer (max now (rv_time a)) a slots in es @ relay_run as now' slots')"

text \<open>One direction of a pair: the results of the reads and of the writes.\<close>

fun forward :: "(io_error + bytes) list \<Rightarrow> io_error option list \<Rightarrow> bytes" where
  "forward (Inr bs # rs) (w # ws) =
    (if bs = [] then [] else case w of Some _ \<Rightarrow> [] | None \<Rightarrow> bs @ forward rs ws)"
| "forward _ _ = []"

section \<open>Client\<close>

definition session_id_message :: "string \<Rightarrow> bytes" where
  "session_id_message session_id =
    (let id_bytes = as_bytes session_id in to_be 4 (of_nat (length id_bytes) :: u32) @ id_bytes)"

text \<open>Dialling (\<open>None\<close> where it takes more than 10 s), setting \<^verbatim>\<open>TCP_NODELAY\<close>, and the time from there to the
  answer with the answer or its error.\<close>

definition connect_to_relay ::
  "(anyhow + unit) option \<Rightarrow> anyhow option \<Rightarrow> duration \<times> (anyhow + u8) \<Rightarrow> anyhow + unit" where
  "connect_to_relay dial nodelay answer =
    (case dial of
       None \<Rightarrow> Inl ''Relay connect timed out after 10s''
     | Some (Inl e) \<Rightarrow> Inl (''Relay connect failed: '' @ e)
     | Some (Inr _) \<Rightarrow>
        (case nodelay of
           Some e \<Rightarrow> Inl e
         | None \<Rightarrow>
            (if 5000 < fst answer then Inl ''Relay session pairing timed out after 5s''
             else (case snd answer of
                     Inl e \<Rightarrow> Inl (''Relay session failed: '' @ e)
                   | Inr _ \<Rightarrow> Inr ()))))"

text \<open>A client that dials without error and is told of its pairing at \<open>t\<close>.\<close>

definition client_outcome :: "relay_arrival \<Rightarrow> instant \<Rightarrow> anyhow + unit" where
  "client_outcome a t = connect_to_relay (Some (Inr ())) None (t - rv_time a, Inr 0)"

section \<open>Pairings come too late\<close>

lemma read_session_id_message:
  assumes "utf8_valid s" "0 < length s" "length s \<le> 256"
  shows "read_session_id (session_id_message s @ rest) = Some s"
  using assms
  by (simp add: read_session_id_def session_id_message_def read_exact_def Let_def
      from_utf8_lossy_as_bytes unsigned_of_nat take_bit_nat_eq_self)

definition slots_waited :: "instant \<Rightarrow> relay_slots \<Rightarrow> bool" where
  "slots_waited now slots \<longleftrightarrow> (\<forall>i p. hm_get slots i = Some (Some p) \<longrightarrow>
     rv_time (rp_arrival p) + PEER_TIMEOUT \<le> now)"

lemma handle_peer_waited:
  assumes "slots_waited now slots" "handle_peer (max now (rv_time a)) a slots = (now', slots', es)"
  shows "slots_waited now' slots' \<and> list_all (\<lambda>e. rv_time (pe_first e) + PEER_TIMEOUT \<le> pe_time e) es"
proof -
  define t where "t = max now (rv_time a) + rv_reading a"
  have w: "rv_time (rp_arrival p) + PEER_TIMEOUT \<le> t" if "hm_get slots i = Some (Some p)" for i p
    using assms(1) that by (force simp: slots_waited_def t_def)
  have a: "rv_time a \<le> t" by (simp add: t_def)
  have w': "rv_time (rp_arrival p) \<le> t" if "hm_get slots i = Some (Some p)" for i p
    using w [OF that] by simp
  show ?thesis
  proof (cases "read_session_id (rv_bytes a)")
    case None
    with assms(2) w show ?thesis by (auto simp: handle_peer_def slots_waited_def t_def [symmetric])
  next
    case (Some i)
    show ?thesis
    proof (cases "hm_get slots i")
      case None
      with Some assms(2) w w' a show ?thesis
        by (auto simp: handle_peer_def slots_waited_def t_def [symmetric] intro: trans_le_add1 split: if_splits)
    next
      case i: (Some r)
      show ?thesis
      proof (cases r)
        case None
        with Some i assms(2) w w' a show ?thesis
          by (auto simp: handle_peer_def slots_waited_def t_def [symmetric] intro: trans_le_add1 split: if_splits)
      next
        case (Some p)
        with \<open>read_session_id (rv_bytes a) = Some i\<close> i assms(2) w show ?thesis
          by (auto simp: handle_peer_def slots_waited_def t_def [symmetric] split: if_splits)
      qed
    qed
  qed
qed

lemma relay_run_waited:
  "slots_waited now slots \<Longrightarrow>
     list_all (\<lambda>e. rv_time (pe_first e) + PEER_TIMEOUT \<le> pe_time e) (relay_run rs now slots)"
proof (induction rs arbitrary: now slots)
  case (Cons a rs)
  obtain now' slots' es where h: "handle_peer (max now (rv_time a)) a slots = (now', slots', es)"
    by (cases "handle_peer (max now (rv_time a)) a slots") auto
  from handle_peer_waited [OF Cons.prems h] Cons.IH h show ?case by simp
qed simp

text \<open>What the first client of a pair makes of it: by then its own five seconds are over.\<close>

definition too_late :: "pairing_event \<Rightarrow> bool" where
  "too_late e \<longleftrightarrow> rv_time (pe_first e) + 30000 \<le> pe_time e
     \<and> client_outcome (pe_first e) (pe_time e) = Inl ''Relay session pairing timed out after 5s''"

lemma client_outcome_late:
  "rv_time a + PEER_TIMEOUT \<le> t \<Longrightarrow> client_outcome a t = Inl ''Relay session pairing timed out after 5s''"
  by (simp add: client_outcome_def connect_to_relay_def PEER_TIMEOUT_def)

text \<open>C28. The relay never pairs two live clients. The server waits 30 seconds with the first connection of a
  session before it accepts another one, whereas the client gives up after 5 seconds; so in every run every
  pairing tells the first client after it has timed out. In particular of two clients with the same
  identifier the first always times out, and the second is told that it is paired if it arrives late enough,
  although its partner is gone.\<close>

theorem relay_pairs_too_late:
  assumes "utf8_valid s" "0 < length s" "length s \<le> 256"
    "rv_bytes a = session_id_message s" "rv_bytes b = session_id_message s"
    "rv_time b = rv_time a + gap" "rv_reading a = 0" "rv_reading b = 0"
  shows "list_all too_late (relay_run rs now [])
    \<and> relay_run [a, b] now [] = [\<lparr>pe_first = a, pe_second = b,
        pe_time = max (max now (rv_time a) + 30000) (rv_time b)\<rparr>]
    \<and> (now \<le> rv_time a \<longrightarrow> client_outcome b (max (max now (rv_time a) + 30000) (rv_time b))
        = (if gap < 25000 then Inl ''Relay session pairing timed out after 5s'' else Inr ()))"
proof (intro conjI impI)
  have "list_all (\<lambda>e. rv_time (pe_first e) + PEER_TIMEOUT \<le> pe_time e) (relay_run rs now [])"
    by (rule relay_run_waited) (simp add: slots_waited_def)
  then show "list_all too_late (relay_run rs now [])"
    by (rule list.pred_mono_strong) (simp add: too_late_def client_outcome_late PEER_TIMEOUT_def)
  have "read_session_id (session_id_message s) = Some s"
    using read_session_id_message [OF assms(1-3), of "[]"] by simp
  with assms show "relay_run [a, b] now [] = [\<lparr>pe_first = a, pe_second = b,
        pe_time = max (max now (rv_time a) + 30000) (rv_time b)\<rparr>]"
    by (simp add: handle_peer_def PEER_TIMEOUT_def Let_def)
  assume "now \<le> rv_time a"
  with assms(6) show "client_outcome b (max (max now (rv_time a) + 30000) (rv_time b))
        = (if gap < 25000 then Inl ''Relay session pairing timed out after 5s'' else Inr ())"
    by (auto simp: client_outcome_def connect_to_relay_def max_def)
qed

definition demo_client :: "instant \<Rightarrow> relay_arrival" where
  "demo_client t = \<lparr>rv_time = t, rv_bytes = session_id_message ''room'', rv_reading = 0\<rparr>"

theorem relay_pairs_too_late_witness:
  "relay_run [demo_client 0, demo_client 60000] 0 [] =
     [\<lparr>pe_first = demo_client 0, pe_second = demo_client 60000, pe_time = 60000\<rparr>]
   \<and> client_outcome (demo_client 60000) 60000 = Inr ()"
proof -
  have u: "utf8_valid ''room''" by code_simp
  have d: "rv_bytes (demo_client t) = session_id_message ''room''" "rv_time (demo_client t) = t"
    "rv_reading (demo_client t) = 0" for t by (simp_all add: demo_client_def)
  have h: "list_all too_late (relay_run [demo_client 0, demo_client 60000] 0 [])
    \<and> relay_run [demo_client 0, demo_client 60000] 0 [] =
       [\<lparr>pe_first = demo_client 0, pe_second = demo_client 60000,
         pe_time = max (max 0 (rv_time (demo_client 0)) + 30000) (rv_time (demo_client 60000))\<rparr>]
    \<and> (0 \<le> rv_time (demo_client 0) \<longrightarrow> client_outcome (demo_client 60000)
         (max (max 0 (rv_time (demo_client 0)) + 30000) (rv_time (demo_client 60000)))
       = (if (60000 :: nat) < 25000 then Inl ''Relay session pairing timed out after 5s'' else Inr ()))"
    by (rule relay_pairs_too_late [OF u _ _ d(1) d(1)]) (simp_all add: d)
  then show ?thesis by (simp add: d del: relay_run.simps)
qed

end
