(* ===== verification/Keepalive.thy ===== *)
theory Keepalive
  imports Frames
begin

text \<open>
  Keepalive of transport connections (\<^verbatim>\<open>crates/transfer_engine/src/keepalive.rs\<close>): the idle monitor and the
  stream wrapper that sends PING and PONG frames between the writes of its user.

  The clock is an argument. The underlying writer is a script of poll results with the bytes it took;
  a script at its end is pending. Frames that other tasks queue arrive between two polls.
\<close>

section \<open>Monitor\<close>

record keep_alive =
  ka_last_activity :: instant
  ka_idle_timeout :: duration
  ka_ping_interval :: duration
  ka_stopped :: bool

definition keep_alive_new :: "instant \<Rightarrow> keep_alive" where
  "keep_alive_new now = \<lparr>ka_last_activity = now, ka_idle_timeout = 30000, ka_ping_interval = 10000,
     ka_stopped = False\<rparr>"

definition with_idle_timeout :: "duration \<Rightarrow> keep_alive \<Rightarrow> keep_alive" where
  "with_idle_timeout timeout k = k\<lparr>ka_idle_timeout := timeout\<rparr>"

definition with_ping_interval :: "duration \<Rightarrow> keep_alive \<Rightarrow> keep_alive" where
  "with_ping_interval interval k = k\<lparr>ka_ping_interval := interval\<rparr>"

definition record_activity :: "instant \<Rightarrow> keep_alive \<Rightarrow> keep_alive" where
  "record_activity now k = k\<lparr>ka_last_activity := now\<rparr>"

definition idle_duration :: "instant \<Rightarrow> keep_alive \<Rightarrow> duration" where
  "idle_duration now k = now - ka_last_activity k"

definition is_timed_out :: "keep_alive \<Rightarrow> bool" where
  "is_timed_out k = ka_stopped k"

text \<open>\<^verbatim>\<open>wait_for_timeout\<close>: the state at each turn of the loop; the result is the list of the sleeps, \<open>None\<close>
  where it still waits.\<close>

fun wait_for_timeout :: "(instant \<times> keep_alive) list \<Rightarrow> duration list option" where
  "wait_for_timeout [] = None"
| "wait_for_timeout ((now, k) # turns) =
    (let elapsed = idle_duration now k in
     if ka_idle_timeout k \<le> elapsed then Some []
     else map_option (\<lambda>l. min (ka_idle_timeout k - elapsed) 1000 # l) (wait_for_timeout turns))"

text \<open>A tick of the monitor: whether it goes on and sends a ping. Stopping the handle, or dropping it.\<close>

definition monitor_tick :: "instant \<Rightarrow> keep_alive \<Rightarrow> bool \<times> keep_alive" where
  "monitor_tick now k =
    (if ka_idle_timeout k \<le> idle_duration now k then (False, k\<lparr>ka_stopped := True\<rparr>) else (True, k))"

definition handle_stop :: "keep_alive \<Rightarrow> keep_alive" where
  "handle_stop k = k\<lparr>ka_stopped := True\<rparr>"

definition PING_FRAME :: bytes where "PING_FRAME = [0x50, 0x49, 0x4E, 0x47]"
definition PONG_FRAME :: bytes where "PONG_FRAME = [0x50, 0x4F, 0x4E, 0x47]"

section \<open>Stream wrapper\<close>

datatype 'a poll = PollPending | PollReady "io_error + 'a"

record writer =
  wr_script :: "nat poll list"
  wr_out :: bytes

text \<open>A poll of the underlying writer takes at most the whole buffer.\<close>

definition inner_write :: "bytes \<Rightarrow> writer \<Rightarrow> nat poll \<times> writer" where
  "inner_write buf w =
    (case wr_script w of
       [] \<Rightarrow> (PollPending, w)
     | PollReady (Inr n) # ps \<Rightarrow>
         (PollReady (Inr (min n (length buf))), \<lparr>wr_script = ps, wr_out = wr_out w @ take n buf\<rparr>)
     | p # ps \<Rightarrow> (p, w\<lparr>wr_script := ps\<rparr>))"

record keepalive_stream =
  ks_writer :: writer
  ks_ka :: keep_alive
  ks_ping_rx :: "bytes list"
  ks_pending_ping :: "bytes option"

definition keepalive_stream_new :: "instant \<Rightarrow> writer \<Rightarrow> keepalive_stream" where
  "keepalive_stream_new now w =
     \<lparr>ks_writer = w, ks_ka = keep_alive_new now, ks_ping_rx = [], ks_pending_ping = None\<rparr>"

text \<open>The background reader: a frame of four bytes that arrived, and the monitor's ping.\<close>

definition pong_reader :: "instant \<Rightarrow> bytes \<Rightarrow> keepalive_stream \<Rightarrow> keepalive_stream" where
  "pong_reader now buf s =
    (if buf = PING_FRAME
     then s\<lparr>ks_ping_rx := ks_ping_rx s @ [PONG_FRAME], ks_ka := record_activity now (ks_ka s)\<rparr>
     else s\<lparr>ks_ka := record_activity now (ks_ka s)\<rparr>)"

definition stream_tick :: "instant \<Rightarrow> keepalive_stream \<Rightarrow> keepalive_stream" where
  "stream_tick now s =
    (let (ping, k) = monitor_tick now (ks_ka s) in
     s\<lparr>ks_ka := k, ks_ping_rx := ks_ping_rx s @ (if ping then [PING_FRAME] else [])\<rparr>)"

text \<open>The loop that drains the queued frames before a write or a flush; \<open>None\<close> where all are written. A frame
  that is written in part is pending, and the poll reports that it is pending.\<close>

fun drain_frames ::
  "instant \<Rightarrow> bytes list \<Rightarrow> keepalive_stream \<Rightarrow> io_error poll option \<times> keepalive_stream" where
  "drain_frames now [] s = (None, s\<lparr>ks_pending_ping := None, ks_ping_rx := []\<rparr>)"
| "drain_frames now (p # ps) s =
    (case inner_write p (ks_writer s) of
       (PollPending, w) \<Rightarrow>
         (Some PollPending, s\<lparr>ks_writer := w, ks_pending_ping := Some p, ks_ping_rx := ps\<rparr>)
     | (PollReady (Inl e), w) \<Rightarrow>
         (Some (PollReady (Inl e)), s\<lparr>ks_writer := w, ks_pending_ping := None, ks_ping_rx := ps\<rparr>)
     | (PollReady (Inr n), w) \<Rightarrow>
         (if n < length p
          then (Some PollPending, s\<lparr>ks_writer := w, ks_pending_ping := Some (drop n p), ks_ping_rx := ps\<rparr>)
          else drain_frames now ps (s\<lparr>ks_writer := w, ks_ka := record_activity now (ks_ka s)\<rparr>)))"

definition queued_frames :: "keepalive_stream \<Rightarrow> bytes list" where
  "queued_frames s = (case ks_pending_ping s of Some p \<Rightarrow> [p] | None \<Rightarrow> []) @ ks_ping_rx s"

definition ks_poll_write :: "instant \<Rightarrow> bytes \<Rightarrow> keepalive_stream \<Rightarrow> nat poll \<times> keepalive_stream" where
  "ks_poll_write now buf s =
    (case drain_frames now (queued_frames s) s of
       (Some (PollReady (Inl e)), s1) \<Rightarrow> (PollReady (Inl e), s1)
     | (Some _, s1) \<Rightarrow> (PollPending, s1)
     | (None, s1) \<Rightarrow>
        (case inner_write buf (ks_writer s1) of
           (PollReady (Inr n), w) \<Rightarrow>
             (PollReady (Inr n), s1\<lparr>ks_writer := w, ks_ka := record_activity now (ks_ka s1)\<rparr>)
         | (r, w) \<Rightarrow> (r, s1\<lparr>ks_writer := w\<rparr>)))"

text \<open>The result of flushing the underlying writer is an argument.\<close>

definition ks_poll_flush :: "instant \<Rightarrow> unit poll \<Rightarrow> keepalive_stream \<Rightarrow> unit poll \<times> keepalive_stream" where
  "ks_poll_flush now flush s =
    (case drain_frames now (queued_frames s) s of
       (Some (PollReady (Inl e)), s1) \<Rightarrow> (PollReady (Inl e), s1)
     | (Some _, s1) \<Rightarrow> (PollPending, s1)
     | (None, s1) \<Rightarrow> (flush, s1))"

definition ks_poll_shutdown :: "unit poll \<Rightarrow> keepalive_stream \<Rightarrow> unit poll \<times> keepalive_stream" where
  "ks_poll_shutdown shutdown s = (shutdown, s)"

section \<open>What goes over the wire\<close>

text \<open>The calls on the wrapper and the events of its background tasks; a run collects the bytes the wrapper
  reports as written.\<close>

datatype ks_event =
    KsWrite instant bytes | KsFlush instant "unit poll" | KsTick instant | KsArrived instant bytes

fun ks_step :: "ks_event \<Rightarrow> keepalive_stream \<times> bytes \<Rightarrow> keepalive_stream \<times> bytes" where
  "ks_step (KsWrite now buf) (s, acc) =
    (case ks_poll_write now buf s of
       (PollReady (Inr n), s') \<Rightarrow> (s', acc @ take n buf)
     | (_, s') \<Rightarrow> (s', acc))"
| "ks_step (KsFlush now r) (s, acc) = (snd (ks_poll_flush now r s), acc)"
| "ks_step (KsTick now) (s, acc) = (stream_tick now s, acc)"
| "ks_step (KsArrived now buf) (s, acc) = (pong_reader now buf s, acc)"

datatype segment = SegData bytes | SegControl bytes

fun seg_bytes :: "segment \<Rightarrow> bytes" where
  "seg_bytes (SegData bs) = bs"
| "seg_bytes (SegControl bs) = bs"

fun seg_data :: "segment \<Rightarrow> bytes" where
  "seg_data (SegData bs) = bs"
| "seg_data (SegControl bs) = []"

definition control_frame :: "bytes \<Rightarrow> bool" where
  "control_frame f \<longleftrightarrow> f = PING_FRAME \<or> f = PONG_FRAME"

fun seg_ok :: "segment \<Rightarrow> bool" where
  "seg_ok (SegData bs) = True"
| "seg_ok (SegControl bs) = control_frame bs"

text \<open>The bytes written, with the rest \<open>r\<close> of the frame being written, are segments of data and whole
  frames, and their data is what was reported as written.\<close>

definition wire_ok :: "bytes \<Rightarrow> bytes \<Rightarrow> bytes \<Rightarrow> bool" where
  "wire_ok out r acc \<longleftrightarrow> (\<exists>segs. list_all seg_ok segs \<and> concat (map seg_bytes segs) = out @ r
     \<and> concat (map seg_data segs) = acc)"

definition items_ok :: "bytes \<Rightarrow> bytes \<Rightarrow> bytes list \<Rightarrow> bool" where
  "items_ok out acc fs = (case fs of
     [] \<Rightarrow> wire_ok out [] acc | p # ps \<Rightarrow> wire_ok out p acc \<and> list_all control_frame ps)"

definition no_error :: "nat poll \<Rightarrow> bool" where
  "no_error p = (case p of PollReady (Inl _) \<Rightarrow> False | _ \<Rightarrow> True)"

definition ks_inv :: "keepalive_stream \<times> bytes \<Rightarrow> bool" where
  "ks_inv x \<longleftrightarrow> (case x of (s, acc) \<Rightarrow>
     list_all no_error (wr_script (ks_writer s)) \<and> list_all control_frame (ks_ping_rx s)
     \<and> wire_ok (wr_out (ks_writer s)) (case ks_pending_ping s of Some p \<Rightarrow> p | None \<Rightarrow> []) acc)"

lemma wire_control: "wire_ok out [] acc \<Longrightarrow> control_frame p \<Longrightarrow> wire_ok out p acc"
  unfolding wire_ok_def by (elim exE, rule_tac x = "segs @ [SegControl p]" in exI) simp

lemma wire_data: "wire_ok out [] acc \<Longrightarrow> wire_ok (out @ bs) [] (acc @ bs)"
  unfolding wire_ok_def by (elim exE, rule_tac x = "segs @ [SegData bs]" in exI) simp

lemma wire_progress: "wire_ok out r acc \<Longrightarrow> wire_ok (out @ take n r) (drop n r) acc"
  by (simp add: wire_ok_def)

lemma items_next: "wire_ok out [] acc \<Longrightarrow> list_all control_frame ps \<Longrightarrow> items_ok out acc ps"
  by (cases ps) (simp_all add: items_ok_def wire_control)

lemma inner_write_cases:
  assumes "list_all no_error (wr_script w)" "inner_write buf w = (r, w')"
  obtains "r = PollPending" "wr_out w' = wr_out w" "list_all no_error (wr_script w')"
  | n where "r = PollReady (Inr n)" "n \<le> length buf" "wr_out w' = wr_out w @ take n buf"
      "list_all no_error (wr_script w')"
proof (cases "wr_script w")
  case Nil
  with assms that(1) show ?thesis by (auto simp: inner_write_def)
next
  case (Cons p ps)
  show ?thesis
  proof (cases p)
    case PollPending
    with Cons assms that(1) show ?thesis by (auto simp: inner_write_def)
  next
    case (PollReady x)
    with Cons assms(1) obtain n where x: "x = Inr n" by (cases x) (auto simp: no_error_def)
    with Cons PollReady assms have "r = PollReady (Inr (min n (length buf)))"
      "wr_out w' = wr_out w @ take (min n (length buf)) buf" "list_all no_error (wr_script w')"
      by (auto simp: inner_write_def min_def)
    then show ?thesis using that(2) [of "min n (length buf)"] by simp
  qed
qed

lemma drain_frames_inv:
  assumes "list_all no_error (wr_script (ks_writer s))" "items_ok (wr_out (ks_writer s)) acc fs"
    "drain_frames now fs s = (r, s')"
  shows "ks_inv (s', acc) \<and> (r = None \<longrightarrow> ks_pending_ping s' = None \<and> ks_ping_rx s' = []) \<and> (r \<noteq> None \<longrightarrow> r = Some PollPending)"
  using assms
proof (induction fs arbitrary: s)
  case Nil
  then show ?case by (auto simp: ks_inv_def items_ok_def)
next
  case (Cons p ps)
  obtain q w where i: "inner_write p (ks_writer s) = (q, w)" by (cases "inner_write p (ks_writer s)")
  have wire: "wire_ok (wr_out (ks_writer s)) p acc" "list_all control_frame ps"
    using Cons.prems(2) by (simp_all add: items_ok_def)
  from Cons.prems(1) i show ?case
  proof (cases rule: inner_write_cases)
    case 1
    with Cons.prems(3) i wire show ?thesis by (auto simp: ks_inv_def)
  next
    case (2 n)
    show ?thesis
    proof (cases "n < length p")
      case True
      with 2 Cons.prems(3) i wire wire_progress [OF wire(1), of n] show ?thesis by (auto simp: ks_inv_def)
    next
      case False
      with 2 have "n = length p" by simp
      with 2 wire_progress [OF wire(1), of n] have "wire_ok (wr_out w) [] acc" by simp
      then have "items_ok (wr_out w) acc ps" using wire(2) by (rule items_next)
      with Cons.IH [of "s\<lparr>ks_writer := w, ks_ka := record_activity now (ks_ka s)\<rparr>"] 2 False Cons.prems(3) i
      show ?thesis by simp
    qed
  qed
qed

lemma ks_inv_items: "ks_inv (s, acc) \<Longrightarrow> items_ok (wr_out (ks_writer s)) acc (queued_frames s)"
  by (auto simp: ks_inv_def queued_frames_def items_ok_def intro: items_next [unfolded items_ok_def]
      split: option.splits list.splits dest: wire_control)

lemma ks_step_inv:
  assumes "ks_inv (s, acc)"
  shows "ks_inv (ks_step e (s, acc))"
proof (cases e)
  case (KsWrite now buf)
  obtain r s1 where d: "drain_frames now (queued_frames s) s = (r, s1)"
    by (cases "drain_frames now (queued_frames s) s")
  note i = drain_frames_inv [OF _ ks_inv_items [OF assms] d]
  show ?thesis
  proof (cases r)
    case (Some x)
    with i assms KsWrite d show ?thesis by (auto simp: ks_poll_write_def ks_inv_def)
  next
    case None
    with i assms have s1: "ks_inv (s1, acc)" "ks_pending_ping s1 = None" by (auto simp: ks_inv_def)
    obtain q w where w: "inner_write buf (ks_writer s1) = (q, w)" by (cases "inner_write buf (ks_writer s1)")
    have "list_all no_error (wr_script (ks_writer s1))" using s1 by (simp add: ks_inv_def)
    from this w show ?thesis
    proof (cases rule: inner_write_cases)
      case 1
      with s1 None d w KsWrite show ?thesis by (simp add: ks_poll_write_def ks_inv_def)
    next
      case (2 n)
      with s1 None d w KsWrite wire_data [of "wr_out (ks_writer s1)" acc "take n buf"]
      show ?thesis by (simp add: ks_poll_write_def ks_inv_def)
    qed
  qed
next
  case (KsFlush now r)
  obtain q s1 where d: "drain_frames now (queued_frames s) s = (q, s1)"
    by (cases "drain_frames now (queued_frames s) s")
  note i = drain_frames_inv [OF _ ks_inv_items [OF assms] d]
  with assms KsFlush d show ?thesis
    by (cases q) (auto simp: ks_poll_flush_def ks_inv_def split: option.splits)
qed (use assms in \<open>auto simp: stream_tick_def pong_reader_def ks_inv_def control_frame_def monitor_tick_def\<close>)

lemma ks_run_inv: "ks_inv x \<Longrightarrow> ks_inv (fold ks_step es x)"
proof (induction es arbitrary: x)
  case (Cons e es)
  then show ?case using ks_step_inv [of "fst x" "snd x" e] by simp
qed simp

definition fresh_stream :: "instant \<Rightarrow> nat poll list \<Rightarrow> keepalive_stream \<times> bytes" where
  "fresh_stream now script = (keepalive_stream_new now \<lparr>wr_script = script, wr_out = []\<rparr>, [])"

lemma ping_between_writes:
  assumes "t2 < t1 + 30000"
  shows "wr_out (ks_writer (fst (fold ks_step [KsWrite t1 d1, KsTick t2, KsWrite t3 d2] (fresh_stream now
      [PollReady (Inr (length d1)), PollReady (Inr 4), PollReady (Inr (length d2))])))) = d1 @ PING_FRAME @ d2
    \<and> snd (fold ks_step [KsWrite t1 d1, KsTick t2, KsWrite t3 d2] (fresh_stream now
      [PollReady (Inr (length d1)), PollReady (Inr 4), PollReady (Inr (length d2))])) = d1 @ d2"
proof -
  have "\<not> 30000 \<le> t2 - t1" using assms by simp
  then show ?thesis
    by (simp add: fresh_stream_def keepalive_stream_new_def keep_alive_new_def ks_poll_write_def queued_frames_def
        inner_write_def stream_tick_def monitor_tick_def idle_duration_def record_activity_def PING_FRAME_def)
qed

text \<open>The wrapper keeps its frames whole and mixes them into the data. While no write fails, in every run the
  bytes on the wire, with the rest of a frame that is being written, are segments of data and whole PING or
  PONG frames, and the data segments are exactly what was reported as written. But nothing marks the frames:
  a ping that falls due between two writes is sent between their data, so a peer that reads the stream as
  the data (as the receiver of a file does) gets four bytes too many. And a monitor that was stopped
  cleanly reports a timeout.\<close>

theorem keepalive_wire:
  assumes "list_all no_error script" "t2 < t1 + 30000"
  shows "(case fold ks_step es (fresh_stream now script) of
      (s, acc) \<Rightarrow> wire_ok (wr_out (ks_writer s)) (case ks_pending_ping s of Some p \<Rightarrow> p | None \<Rightarrow> []) acc)
    \<and> wr_out (ks_writer (fst (fold ks_step [KsWrite t1 d1, KsTick t2, KsWrite t3 d2] (fresh_stream now
        [PollReady (Inr (length d1)), PollReady (Inr 4), PollReady (Inr (length d2))])))) = d1 @ PING_FRAME @ d2
    \<and> snd (fold ks_step [KsWrite t1 d1, KsTick t2, KsWrite t3 d2] (fresh_stream now
        [PollReady (Inr (length d1)), PollReady (Inr 4), PollReady (Inr (length d2))])) = d1 @ d2
    \<and> is_timed_out (handle_stop k)"
proof -
  have "ks_inv (fresh_stream now script)"
    using assms(1) by (auto simp: ks_inv_def fresh_stream_def keepalive_stream_new_def wire_ok_def
        intro: exI [of _ "[]"])
  then have "ks_inv (fold ks_step es (fresh_stream now script))" by (rule ks_run_inv)
  then show ?thesis
    using ping_between_writes [OF assms(2)] by (auto simp: ks_inv_def is_timed_out_def handle_stop_def)
qed

theorem keepalive_wire_witness:
  "wr_out (ks_writer (fst (fold ks_step [KsWrite 0 [1, 2], KsTick 10000, KsWrite 10001 [3]] (fresh_stream 0
      [PollReady (Inr 2), PollReady (Inr 4), PollReady (Inr 1)])))) = [1, 2, 0x50, 0x49, 0x4E, 0x47, 3]"
proof -
  have "(10000 :: nat) < 0 + 30000" by simp
  from keepalive_wire [OF _ this, where script = "[]" and ?d1.0 = "[1, 2]" and ?d2.0 = "[3]"
      and ?t3.0 = 10001 and now = 0]
  show ?thesis by (simp add: PING_FRAME_def numeral_2_eq_2 del: fold_simps fold.simps)
qed

end
