(* ===== verification/Http_Send.thy ===== *)
theory Http_Send
  imports Float_Model Reliable Streaming Coordinator
begin

text \<open>
  The sending side of the HTTP transfer (\<^verbatim>\<open>crates/transfer_engine/src/http.rs\<close>) and of the TCP transport
  (\<^verbatim>\<open>transport/core.rs\<close>): connecting, the encoding of names, the request header, and the loops that stream a
  file, a zipped directory and the ranges of a parallel upload.

  A stream is a \<open>conn\<close>: the bytes it took and the number of writes that still succeed. Pauses (back-off, pacing,
  yielding) only take time and are not modelled; pinning to a core and socket options are not either. The name
  lookup, the outcome of dialling, file contents, the zipped bytes, SHA-256 and the text of an I/O error
  (\<open>show_io\<close>) are arguments.
\<close>

section \<open>Connecting\<close>

text \<open>One attempt on an address: no socket could be created, the error text, or a connection.\<close>

datatype attempt = NoSocket | AttemptFailed string | Connected

text \<open>The addresses of one round: the index of the first that connects, and the last error so far.\<close>

fun try_addresses :: "attempt list \<Rightarrow> nat \<Rightarrow> string option \<Rightarrow> nat option \<times> string option" where
  "try_addresses [] k err = (None, err)"
| "try_addresses (Connected # as) k err = (Some k, err)"
| "try_addresses (NoSocket # as) k err = try_addresses as (Suc k) err"
| "try_addresses (AttemptFailed e # as) k err = try_addresses as (Suc k) (Some e)"

fun try_rounds :: "attempt list list \<Rightarrow> string option \<Rightarrow> nat option \<times> string option" where
  "try_rounds [] err = (None, err)"
| "try_rounds (r # rs) err =
    (case try_addresses r 0 err of
       (Some k, e) \<Rightarrow> (Some k, e)
     | (None, e) \<Rightarrow> try_rounds rs e)"

definition contains :: "string \<Rightarrow> string \<Rightarrow> bool" where
  "contains s pat = (str_find pat s \<noteq> None)"

text \<open>The result is the index of the address that connected. The rounds are the three retries.\<close>

definition connect_optimized ::
  "string \<Rightarrow> u16 \<Rightarrow> anyhow option \<Rightarrow> (nat \<Rightarrow> attempt list) \<Rightarrow> anyhow + nat" where
  "connect_optimized host port lookup_error attempts =
    (case lookup_error of
       Some e \<Rightarrow> Inl e
     | None \<Rightarrow>
        (case try_rounds (map attempts [0..<3]) None of
           (Some k, _) \<Rightarrow> Inr k
         | (None, last_err) \<Rightarrow>
            (let msg = (case last_err of Some e \<Rightarrow> e | None \<Rightarrow> []) in
             if contains msg ''timed out'' \<or> contains msg ''Connection refused'' then
               Inl (''Cannot reach '' @ host @ '':'' @ show_nat (unat port)
                 @ ''. Make sure the target device is running and the port is open. ('' @ msg @ '')'')
             else Inl (''Failed to connect to '' @ host @ '':'' @ show_nat (unat port) @ '': '' @ msg))))"

section \<open>Names in headers\<close>

definition unreserved :: "u8 \<Rightarrow> bool" where
  "unreserved b \<longleftrightarrow> 65 \<le> b \<and> b \<le> 90 \<or> 97 \<le> b \<and> b \<le> 122 \<or> 48 \<le> b \<and> b \<le> 57
     \<or> b = 45 \<or> b = 95 \<or> b = 46 \<or> b = 126"

definition urlencode_byte :: "u8 \<Rightarrow> string" where
  "urlencode_byte b =
    (if unreserved b then [char_of (unat b)]
     else if b = 32 then ''+''
     else [CHR ''%'', hex_digit_upper (unat b div 16), hex_digit_upper (unat b mod 16)])"

definition urlencode :: "string \<Rightarrow> string" where
  "urlencode s = concat (map urlencode_byte (as_bytes s))"

text \<open>The name under which a path is sent.\<close>

definition upload_name :: "(string \<Rightarrow> string option) \<Rightarrow> string option \<Rightarrow> string \<Rightarrow> string" where
  "upload_name file_name remote_filename local_path =
    (case remote_filename of
       Some n \<Rightarrow> if n \<noteq> [] then n else (case file_name local_path of Some f \<Rightarrow> f | None \<Rightarrow> ''file.bin'')
     | None \<Rightarrow> (case file_name local_path of Some f \<Rightarrow> f | None \<Rightarrow> ''file.bin''))"

section \<open>The streaming loop\<close>

record http_sender =
  hs_conn :: conn
  hs_hashed :: bytes
  hs_calls :: "control_call list"
  hs_progress :: "(u64 \<times> u64) list"

text \<open>One round: the token when it is tested, the cancellation that comes during the write (the bytes
  written before it, and the reason), and the duration of the write.\<close>

record send_input =
  sx_token :: cancel_token
  sx_during :: "(nat \<times> string option) option"
  sx_write_us :: u64

record send_config =
  sc_show_io :: "io_error \<Rightarrow> anyhow"
  sc_has_token :: bool
  sc_control :: bool
  sc_callback :: bool

definition cancel_reason :: "string option \<Rightarrow> string" where
  "cancel_reason r = (case r of Some x \<Rightarrow> x | None \<Rightarrow> ''cancelled'')"

text \<open>Writing a chunk: the connection after it and the error. With a token the result of the write is
  dropped (\<^verbatim>\<open>_ = stream.write_all(&buf) => Ok(())\<close>).\<close>

definition write_chunk :: "send_config \<Rightarrow> send_input \<Rightarrow> bytes \<Rightarrow> conn \<Rightarrow> anyhow option \<times> conn" where
  "write_chunk cf x buf c =
    (if sc_has_token cf then
       (case sx_during x of
          Some (n, _) \<Rightarrow>
            (Some ''cancelled'', case write_all (take n buf) c of Inr c' \<Rightarrow> c' | Inl _ \<Rightarrow> c)
        | None \<Rightarrow> (None, case write_all buf c of Inr c' \<Rightarrow> c' | Inl _ \<Rightarrow> c))
     else
       (case write_all buf c of Inr c' \<Rightarrow> (None, c') | Inl e \<Rightarrow> (Some (sc_show_io cf e), c)))"

text \<open>The result of a chunk that is not written: a cancellation sends a CANCEL frame, whose error is ignored.\<close>

definition chunk_failed :: "send_config \<Rightarrow> send_input \<Rightarrow> anyhow \<Rightarrow> http_sender \<Rightarrow> anyhow \<times> http_sender" where
  "chunk_failed cf x e s =
    (if e = ''cancelled'' then
       (let reason = cancel_reason (if sc_has_token cf
              then (case sx_during x of Some (_, r) \<Rightarrow> r | None \<Rightarrow> ct_reason (sx_token x)) else None) in
        (''cancelled: '' @ reason,
         s\<lparr>hs_conn := (case write_all (encode_cancel reason) (hs_conn s) of Inr c \<Rightarrow> c | Inl _ \<Rightarrow> hs_conn s)\<rparr>))
     else (e, s))"

text \<open>After a chunk: hash, metrics and progress.\<close>

definition chunk_done ::
  "send_config \<Rightarrow> send_input \<Rightarrow> u64 \<Rightarrow> u64 \<Rightarrow> bytes \<Rightarrow> conn \<Rightarrow> http_sender \<Rightarrow> http_sender" where
  "chunk_done cf x fsize offset buf c s =
    s\<lparr>hs_conn := c, hs_hashed := hs_hashed s @ buf,
      hs_calls := hs_calls s @ (if sc_control cf
        then [RecordWrite (of_nat (length buf)) (sx_write_us x) False] else []),
      hs_progress := hs_progress s @ (if sc_callback cf then [(offset, fsize)] else [])\<rparr>"

text \<open>The loop, from the rest of the file; every round that goes on reads at least one byte of it.\<close>

function send_chunks ::
  "send_config \<Rightarrow> u64 \<Rightarrow> u64 \<Rightarrow> (nat \<Rightarrow> send_input) \<Rightarrow> nat \<Rightarrow> bytes \<Rightarrow> u64 \<Rightarrow> http_sender
     \<Rightarrow> (anyhow + u64) \<times> http_sender" where
  "send_chunks cf fsize cs inputs k rest offset s =
    (let x = inputs k in
     if sc_has_token cf \<and> ct_cancelled (sx_token x) then
       (let reason = cancel_reason (ct_reason (sx_token x)) in
        case write_all (encode_cancel reason) (hs_conn s) of
          Inl e \<Rightarrow> (Inl (sc_show_io cf e), s)
        | Inr c \<Rightarrow> (Inl (''cancelled: '' @ reason), s\<lparr>hs_conn := c\<rparr>))
     else
       (let read_size = min (fsize - offset) cs in
        if read_size = 0 then (Inr offset, s)
        else if length rest < unat read_size then (Inl (sc_show_io cf UnexpectedEof), s)
        else
          (let buf = take (unat read_size) rest in
           case write_chunk cf x buf (hs_conn s) of
             (Some e, c) \<Rightarrow> (let (e', s') = chunk_failed cf x e (s\<lparr>hs_conn := c\<rparr>) in (Inl e', s'))
           | (None, c) \<Rightarrow>
               send_chunks cf fsize cs inputs (Suc k) (drop (unat read_size) rest) (offset + read_size)
                 (chunk_done cf x fsize (offset + read_size) buf c s))))"
  by pat_completeness auto

termination
proof (relation "measure (\<lambda>(_, _, _, _, _, rest, _, _). length rest)")
  fix cf :: send_config and fsize cs :: u64 and inputs :: "nat \<Rightarrow> send_input" and k :: nat
    and rest buf :: bytes and offset read_size :: u64 and s :: http_sender and x :: send_input
    and y :: "anyhow option \<times> conn" and a :: "anyhow option" and c :: conn
  assume "read_size = min (fsize - offset) cs" "read_size \<noteq> 0" "\<not> length rest < unat read_size"
  moreover from this have "0 < unat read_size" by (simp add: unat_gt_0)
  ultimately show "((cf, fsize, cs, inputs, Suc k, drop (unat read_size) rest, offset + read_size,
      chunk_done cf x fsize (offset + read_size) buf c s), cf, fsize, cs, inputs, k, rest, offset, s)
    \<in> measure (\<lambda>(_, _, _, _, _, rest, _, _). length rest)" by simp
qed simp

declare send_chunks.simps [simp del]

text \<open>The bytes a resumed transfer skips are read and hashed in blocks of 64 KiB.\<close>

function skip_hashed :: "nat \<Rightarrow> bytes \<Rightarrow> bytes \<Rightarrow> (bytes \<times> bytes) option" where
  "skip_hashed remaining rest hashed =
    (if remaining = 0 then Some (rest, hashed)
     else
       (let to_read = min remaining 65536 in
        if length rest < to_read then None
        else skip_hashed (remaining - to_read) (drop to_read rest) (hashed @ take to_read rest)))"
  by pat_completeness auto

termination by (relation "measure (\<lambda>(remaining, _, _). remaining)") auto

declare skip_hashed.simps [simp del]

text \<open>The header is only written where nothing is skipped. \<open>shutdown\<close> is the error of closing the stream.\<close>

definition send_streaming ::
  "send_config \<Rightarrow> (bytes \<Rightarrow> bytes) \<Rightarrow> string \<Rightarrow> anyhow + bytes \<Rightarrow> u64 \<Rightarrow> u64 \<Rightarrow> u64 \<Rightarrow> (nat \<Rightarrow> send_input)
     \<Rightarrow> anyhow option \<Rightarrow> http_sender \<Rightarrow> (anyhow + u64 \<times> string) \<times> http_sender" where
  "send_streaming cf sha256 header file_open fsize chunk_size resume_offset inputs shutdown s =
    (case (if resume_offset = 0 then write_all (as_bytes header) (hs_conn s) else Inr (hs_conn s)) of
       Inl e \<Rightarrow> (Inl (sc_show_io cf e), s)
     | Inr c \<Rightarrow>
        (let s1 = s\<lparr>hs_conn := c\<rparr> in
         case file_open of
           Inl e \<Rightarrow> (Inl e, s1)
         | Inr data \<Rightarrow>
            (case skip_hashed (unat resume_offset) data [] of
               None \<Rightarrow> (Inl (sc_show_io cf UnexpectedEof), s1)
             | Some (rest, hashed) \<Rightarrow>
                (let cs = (if chunk_size > 0 then chunk_size else 65536) in
                 case send_chunks cf fsize cs inputs 0 rest resume_offset (s1\<lparr>hs_hashed := hashed\<rparr>) of
                   (Inl e, s2) \<Rightarrow> (Inl e, s2)
                 | (Inr offset, s2) \<Rightarrow>
                    (case shutdown of
                       Some e \<Rightarrow> (Inl e, s2)
                     | None \<Rightarrow> (Inr (offset, hex_bytes (sha256 (hs_hashed s2))), s2))))))"

definition stream_file_send_inner ::
  "send_config \<Rightarrow> (bytes \<Rightarrow> bytes) \<Rightarrow> string \<Rightarrow> anyhow + bytes \<Rightarrow> u64 \<Rightarrow> u64 \<Rightarrow> (nat \<Rightarrow> send_input)
     \<Rightarrow> anyhow option \<Rightarrow> http_sender \<Rightarrow> (anyhow + u64 \<times> string) \<times> http_sender" where
  "stream_file_send_inner cf sha256 header file_open fsize chunk_size inputs shutdown s =
     send_streaming cf sha256 header file_open fsize chunk_size 0 inputs shutdown s"

end
