(* ===== verification/Http_Upload.thy ===== *)
theory Http_Upload
  imports Http_Send Control
begin

text \<open>
  The uploads over HTTP and over the TCP transport (\<^verbatim>\<open>http.rs\<close>, \<^verbatim>\<open>transport/core.rs\<close>), with what holds of
  them. The directory and range loops are \<open>partial_function\<close>s: with a chunk size of zero they do not end.
\<close>

section \<open>Requests\<close>

definition request_head :: "string \<Rightarrow> u16 \<Rightarrow> string \<Rightarrow> string list \<Rightarrow> string" where
  "request_head host port url_encoded extra =
     concat (map (\<lambda>l. l @ crlf)
       ([''POST /api/receive-file HTTP/1.1'', ''Host: '' @ host @ '':'' @ show_nat (unat port),
         ''Content-Type: application/octet-stream'', ''X-Filename: '' @ url_encoded]
        @ extra @ [''Connection: close''])) @ crlf"

definition transfer_speed :: "rounding \<Rightarrow> duration \<Rightarrow> u64 \<Rightarrow> fl" where
  "transfer_speed rnd elapsed sent =
    (let elapsed_s = as_secs rnd elapsed in
     if fl_less (Fin 0) elapsed_s
     then fl_div rnd (fl_mul rnd (fl_of_u64 rnd sent) (Fin 8)) (fl_mul rnd elapsed_s (Fin 1000000))
     else Fin 0)"

text \<open>What an upload meets outside: the size or the error of reading the metadata, the outcome of
  connecting, the file, the rounds of the loop, the error of closing, the time it takes.\<close>

record upload_world =
  uw_size :: "anyhow + u64"
  uw_connect :: "anyhow option"
  uw_file :: "anyhow + bytes"
  uw_inputs :: "nat \<Rightarrow> send_input"
  uw_shutdown :: "anyhow option"
  uw_elapsed :: duration
  uw_conn :: conn

definition fresh_sender :: "conn \<Rightarrow> http_sender" where
  "fresh_sender c = \<lparr>hs_conn = c, hs_hashed = [], hs_calls = [], hs_progress = []\<rparr>"

definition send_config_of :: "(io_error \<Rightarrow> anyhow) \<Rightarrow> transfer_options \<Rightarrow> bool \<Rightarrow> bool \<Rightarrow> send_config" where
  "send_config_of show_io options control callback =
     \<lparr>sc_show_io = show_io, sc_has_token = (to_cancel_token options \<noteq> None), sc_control = control,
      sc_callback = callback\<rparr>"

text \<open>The configuration a single upload puts into its control loop.\<close>

definition seed_config :: "transfer_options \<Rightarrow> tuning_config \<Rightarrow> tuning_config" where
  "seed_config options cfg = cfg\<lparr>tn_chunk_size_bytes := to_chunk_size options,
     tn_throughput_limit_mbps := to_throughput_limit_mbps options,
     tn_send_buffer_kb := to_send_buffer_kb options, tn_recv_buffer_kb := to_recv_buffer_kb options,
     tn_write_batch_size := to_write_batch_size options, tn_parallel_streams := to_parallel_streams options\<rparr>"

definition upload_single_file ::
  "rounding \<Rightarrow> (io_error \<Rightarrow> anyhow) \<Rightarrow> (bytes \<Rightarrow> bytes) \<Rightarrow> upload_world \<Rightarrow> string \<Rightarrow> u16 \<Rightarrow> string
     \<Rightarrow> transfer_options \<Rightarrow> (anyhow + upload_result) \<times> http_sender" where
  "upload_single_file rnd show_io sha256 w host port display_name options =
    (let s = fresh_sender (uw_conn w) in
     case uw_size w of
       Inl e \<Rightarrow> (Inl e, s)
     | Inr n \<Rightarrow>
        (case uw_connect w of
           Some e \<Rightarrow> (Inl e, s)
         | None \<Rightarrow>
            (let header = request_head host port (urlencode display_name)
                   [''Content-Length: '' @ show_nat (unat n)] in
             case stream_file_send_inner (send_config_of show_io options True (to_progress_cb options)) sha256
                 header (uw_file w) n (to_chunk_size options) (uw_inputs w) (uw_shutdown w) s of
               (Inl e, s') \<Rightarrow> (Inl e, s')
             | (Inr (sent, _), s') \<Rightarrow>
                 (Inr \<lparr>ur_bytes_sent = sent, ur_bytes_total = n,
                   ur_speed_mbps = transfer_speed rnd (uw_elapsed w) sent\<rparr>, s'))))"

text \<open>The TCP transport hands the header and the data to its keepalive wrapper. Dialling may time out.\<close>

definition core_parse_addr :: "string \<Rightarrow> anyhow + string \<times> u16" where
  "core_parse_addr addr =
    (case rsplit_once (CHR '':'') addr of
       Some (host, port_str) \<Rightarrow>
         (case parse_unsigned (2 ^ 16) port_str of
            Some p \<Rightarrow> Inr (host, of_nat p)
          | None \<Rightarrow> Inl (''Invalid port in address: '' @ addr))
     | None \<Rightarrow> Inl (''Invalid address (expected host:port): '' @ addr))"

definition tcp_dial :: "anyhow option option \<Rightarrow> anyhow option" where
  "tcp_dial dial = (case dial of None \<Rightarrow> Some ''TCP connect timed out after 10s'' | Some e \<Rightarrow> e)"

definition tcp_upload ::
  "rounding \<Rightarrow> (io_error \<Rightarrow> anyhow) \<Rightarrow> (bytes \<Rightarrow> bytes) \<Rightarrow> upload_world \<Rightarrow> anyhow option option \<Rightarrow> bool
     \<Rightarrow> string \<Rightarrow> string \<Rightarrow> transfer_options \<Rightarrow> (anyhow + upload_result) \<times> http_sender" where
  "tcp_upload rnd show_io sha256 w dial control addr display_name options =
    (let s = fresh_sender (uw_conn w); resume_offset = to_resume_offset options in
     case uw_size w of
       Inl e \<Rightarrow> (Inl e, s)
     | Inr n \<Rightarrow>
        (case core_parse_addr addr of
           Inl e \<Rightarrow> (Inl e, s)
         | Inr (host, port) \<Rightarrow>
            (case tcp_dial dial of
               Some e \<Rightarrow> (Inl e, s)
             | None \<Rightarrow>
                (let header = request_head host port (urlencode display_name)
                       [''Content-Length: '' @ show_nat (unat (sat_sub n resume_offset)),
                        ''X-Resume-Offset: '' @ show_nat (unat resume_offset)] in
                 case send_streaming (send_config_of show_io options control False) sha256
                     header (uw_file w) n (to_chunk_size options) resume_offset (uw_inputs w) (uw_shutdown w) s of
                   (Inl e, s') \<Rightarrow> (Inl e, s')
                 | (Inr (sent, _), s') \<Rightarrow>
                     (Inr \<lparr>ur_bytes_sent = sent, ur_bytes_total = n,
                       ur_speed_mbps = transfer_speed rnd (uw_elapsed w) sent\<rparr>, s')))))"

section \<open>Directories\<close>

text \<open>\<^verbatim>\<open>write_all\<close> of an empty buffer does not reach the peer.\<close>

definition write_bytes :: "bytes \<Rightarrow> conn \<Rightarrow> io_error + conn" where
  "write_bytes bs c = (if bs = [] then Inr c else write_all bs c)"

datatype loop_end = LoopDone | LoopError io_error | LoopPanic

text \<open>The loop over the zipped bytes with the chunk size read in each round; slicing panics where the sum
  of offset and chunk size wraps around.\<close>

partial_function (option) directory_loop ::
  "bytes \<Rightarrow> (nat \<Rightarrow> u64) \<Rightarrow> (nat \<Rightarrow> u64) \<Rightarrow> bool \<Rightarrow> nat \<Rightarrow> u64 \<Rightarrow> http_sender \<Rightarrow> (loop_end \<times> http_sender) option" where
  "directory_loop zip_bytes chunk_sizes write_us callback k offset s =
    (let n = (of_nat (length zip_bytes) :: u64) in
     if offset < n then
       (let end_offset = min (offset + chunk_sizes k) n in
        if end_offset < offset then Some (LoopPanic, s)
        else
          (let len = end_offset - offset;
               buf = take (unat len) (drop (unat offset) zip_bytes) in
           case write_bytes buf (hs_conn s) of
             Inl e \<Rightarrow> Some (LoopError e, s)
           | Inr c \<Rightarrow>
               directory_loop zip_bytes chunk_sizes write_us callback (Suc k) end_offset
                 (s\<lparr>hs_conn := c, hs_calls := hs_calls s @ [RecordWrite len (write_us k) False],
                   hs_progress := hs_progress s @ (if callback then [(end_offset, n)] else [])\<rparr>)))
     else Some (LoopDone, s))"

text \<open>\<open>zipped\<close> is the result of zipping the directory; the outer \<open>None\<close> is a loop that does not end,
  the inner one a panic.\<close>

definition upload_directory ::
  "rounding \<Rightarrow> (io_error \<Rightarrow> anyhow) \<Rightarrow> upload_world \<Rightarrow> anyhow + bytes \<Rightarrow> (nat \<Rightarrow> u64) \<Rightarrow> string \<Rightarrow> u16 \<Rightarrow> string
     \<Rightarrow> transfer_options \<Rightarrow> ((anyhow + upload_result) option \<times> http_sender) option" where
  "upload_directory rnd show_io w zipped chunk_sizes host port display_name options =
    (let s = fresh_sender (uw_conn w); zip_name = display_name @ ''.zip'' in
     case zipped of
       Inl e \<Rightarrow> Some (Some (Inl e), s)
     | Inr zip_bytes \<Rightarrow>
        (let n = (of_nat (length zip_bytes) :: u64) in
         case uw_connect w of
           Some e \<Rightarrow> Some (Some (Inl e), s)
         | None \<Rightarrow>
            (let header = request_head host port (urlencode zip_name) [''Content-Length: '' @ show_nat (unat n)] in
             case write_all (as_bytes header) (hs_conn s) of
               Inl e \<Rightarrow> Some (Some (Inl (show_io e)), s)
             | Inr c \<Rightarrow>
                (case directory_loop zip_bytes chunk_sizes (\<lambda>k. sx_write_us (uw_inputs w k)) (to_progress_cb options)
                    0 0 (s\<lparr>hs_conn := c\<rparr>) of
                   None \<Rightarrow> None
                 | Some (LoopPanic, s') \<Rightarrow> Some (None, s')
                 | Some (LoopError e, s') \<Rightarrow> Some (Some (Inl (show_io e)), s')
                 | Some (LoopDone, s') \<Rightarrow>
                    (case uw_shutdown w of
                       Some e \<Rightarrow> Some (Some (Inl e), s')
                     | None \<Rightarrow> Some (Some (Inr \<lparr>ur_bytes_sent = n, ur_bytes_total = n,
                         ur_speed_mbps = transfer_speed rnd (uw_elapsed w) n\<rparr>), s'))))))"

section \<open>Ranges\<close>

definition clamp_streams :: "u64 \<Rightarrow> u64" where
  "clamp_streams n = min (max n 1) 32"

text \<open>The byte ranges of a parallel upload; empty ranges get no stream.\<close>

definition upload_ranges :: "u64 \<Rightarrow> u64 \<Rightarrow> (u64 \<times> u64) list" where
  "upload_ranges fsize num_streams =
    (let n = clamp_streams num_streams; each = fsize div n in
     filter (\<lambda>(a, b). a < b)
       (map (\<lambda>i. (of_nat i * each,
              if of_nat i = n - 1 then fsize else (of_nat i + 1) * each)) [0..<unat n]))"

text \<open>One stream: the rest of the file from its first byte, in steps of the chunk size.\<close>

partial_function (option) range_loop ::
  "(nat \<Rightarrow> u64) \<Rightarrow> nat \<Rightarrow> bytes \<Rightarrow> u64 \<Rightarrow> u64 \<Rightarrow> conn \<Rightarrow> ((io_error + u64) \<times> conn) option" where
  "range_loop chunk_sizes k rest sent remaining c =
    (if remaining > 0 then
       (let step = min (chunk_sizes k) remaining in
        if length rest < unat step then Some (Inl UnexpectedEof, c)
        else
          (case write_bytes (take (unat step) rest) c of
             Inl e \<Rightarrow> Some (Inl e, c)
           | Inr c' \<Rightarrow>
               range_loop chunk_sizes (Suc k) (drop (unat step) rest) (sent + step) (remaining - step) c'))
     else Some (Inr sent, c))"

text \<open>A stream of the upload: its connection error, the file, the chunk sizes and the error of closing.\<close>

record stream_world =
  rw_connect :: "anyhow option"
  rw_file :: "anyhow + bytes"
  rw_chunk_sizes :: "nat \<Rightarrow> u64"
  rw_shutdown :: "anyhow option"
  rw_conn :: conn

definition upload_range ::
  "(io_error \<Rightarrow> anyhow) \<Rightarrow> string \<Rightarrow> u16 \<Rightarrow> string \<Rightarrow> u64 \<Rightarrow> stream_world \<Rightarrow> u64 \<times> u64
     \<Rightarrow> ((anyhow + u64) \<times> conn) option" where
  "upload_range show_io host port name fsize w r =
    (let stream_len = snd r - fst r in
     case rw_connect w of
       Some e \<Rightarrow> Some (Inl e, rw_conn w)
     | None \<Rightarrow>
        (case write_all (as_bytes (request_head host port name
             [''X-Offset: '' @ show_nat (unat (fst r)), ''X-Total-Size: '' @ show_nat (unat fsize),
              ''Content-Length: '' @ show_nat (unat stream_len)])) (rw_conn w) of
           Inl e \<Rightarrow> Some (Inl (show_io e), rw_conn w)
         | Inr c \<Rightarrow>
            (case rw_file w of
               Inl e \<Rightarrow> Some (Inl e, c)
             | Inr data \<Rightarrow>
                (case range_loop (rw_chunk_sizes w) 0 (drop (unat (fst r)) data) 0 stream_len c of
                   None \<Rightarrow> None
                 | Some (Inl e, c') \<Rightarrow> Some (Inl (show_io e), c')
                 | Some (Inr sent, c') \<Rightarrow>
                    (case rw_shutdown w of Some e \<Rightarrow> Some (Inl e, c') | None \<Rightarrow> Some (Inr sent, c'))))))"

text \<open>The results are awaited in order; the first error or endless stream decides.\<close>

fun await_ranges :: "((anyhow + u64) \<times> conn) option list \<Rightarrow> u64 \<Rightarrow> (anyhow + u64) option" where
  "await_ranges [] tot = Some (Inr tot)"
| "await_ranges (None # rs) tot = None"
| "await_ranges (Some (Inl e, _) # rs) tot = Some (Inl e)"
| "await_ranges (Some (Inr sent, _) # rs) tot = await_ranges rs (tot + sent)"

definition upload_parallel ::
  "rounding \<Rightarrow> (io_error \<Rightarrow> anyhow) \<Rightarrow> anyhow + u64 \<Rightarrow> (nat \<Rightarrow> stream_world) \<Rightarrow> duration \<Rightarrow> string \<Rightarrow> u16 \<Rightarrow> string
     \<Rightarrow> u64 \<Rightarrow> (anyhow + upload_result) option" where
  "upload_parallel rnd show_io fsize ws elapsed host port display_name num_streams =
    (case fsize of
       Inl e \<Rightarrow> Some (Inl e)
     | Inr n \<Rightarrow>
        (let rs = upload_ranges n num_streams;
             results = map (\<lambda>(i, r). upload_range show_io host port (urlencode display_name) n (ws i) r)
               (enumerate 0 rs) in
         case await_ranges results 0 of
           None \<Rightarrow> None
         | Some (Inl e) \<Rightarrow> Some (Inl e)
         | Some (Inr sent) \<Rightarrow> Some (Inr \<lparr>ur_bytes_sent = sent, ur_bytes_total = n,
             ur_speed_mbps = transfer_speed rnd elapsed sent\<rparr>)))"

text \<open>Which upload \<^verbatim>\<open>upload_file\<close> chooses; \<^verbatim>\<open>upload_to\<close> never uploads in parallel.\<close>

datatype upload_kind = UploadDirectory | UploadParallel | UploadSingle

definition upload_file_kind :: "bool \<Rightarrow> transfer_options \<Rightarrow> upload_kind" where
  "upload_file_kind is_dir options =
    (if is_dir then UploadDirectory
     else if to_parallel options \<and> to_parallel_streams options > 1 then UploadParallel else UploadSingle)"

definition upload_to_kind :: "bool \<Rightarrow> upload_kind" where
  "upload_to_kind is_dir = (if is_dir then UploadDirectory else UploadSingle)"

end
