(* ===== verification/Http_Facts.thy ===== *)
theory Http_Facts
  imports Http_Upload
begin

text \<open>
  What holds of the sending side of HTTP: what a file upload writes and reports, the effect of a cancellation
  token on errors, the ranges of a parallel upload, the end of the loops, and the encoding of names.
\<close>

section \<open>The streaming loop\<close>

definition quiet_inputs :: "send_config \<Rightarrow> (nat \<Rightarrow> send_input) \<Rightarrow> bool" where
  "quiet_inputs cf inputs \<longleftrightarrow> (\<forall>k. sc_has_token cf \<longrightarrow>
     \<not> ct_cancelled (sx_token (inputs k)) \<and> sx_during (inputs k) = None)"

definition wrote :: "bytes \<Rightarrow> conn \<Rightarrow> conn \<Rightarrow> bool" where
  "wrote bs c c' \<longleftrightarrow> (length bs \<le> so_writes_left c \<longrightarrow> so_out c' = so_out c @ bs)
     \<and> (so_writes_left c = 0 \<longrightarrow> c' = c)"

lemma write_chunk_quiet:
  assumes "quiet_inputs cf inputs" "sc_has_token cf \<or> 0 < so_writes_left c"
  shows "write_chunk cf (inputs k) buf c =
    (None, if so_writes_left c = 0 then c
           else c\<lparr>so_out := so_out c @ buf, so_writes_left := so_writes_left c - 1\<rparr>)"
  using assms by (auto simp: write_chunk_def quiet_inputs_def write_all_def)

lemma send_chunks_all:
  assumes "quiet_inputs cf inputs" "0 < cs"
  shows "unat offset + length rest = unat fsize \<Longrightarrow> sc_has_token cf \<or> length rest \<le> so_writes_left (hs_conn s) \<Longrightarrow>
    \<exists>s'. send_chunks cf fsize cs inputs k rest offset s = (Inr fsize, s')
      \<and> hs_hashed s' = hs_hashed s @ rest \<and> wrote rest (hs_conn s) (hs_conn s')"
proof (induction "length rest" arbitrary: k rest offset s rule: less_induct)
  case less
  let ?r = "min (fsize - offset) cs"
  have le: "offset \<le> fsize" using less.prems(1) by (simp add: word_le_nat_alt)
  have d: "unat (fsize - offset) = length rest" using less.prems(1) le by (simp add: unat_sub)
  have token: "(sc_has_token cf \<and> ct_cancelled (sx_token (inputs k))) = False"
    using assms(1) by (auto simp: quiet_inputs_def)
  show ?case
  proof (cases "rest = []")
    case True
    with d have "fsize - offset = 0" by (simp add: unat_eq_0)
    then have "fsize = offset" "?r = 0" by simp_all
    with True show ?thesis
      by (subst send_chunks.simps) (simp add: Let_def wrote_def token)
  next
    case False
    have u: "unat ?r = min (length rest) (unat cs)" by (simp add: unat_min_word d)
    have "0 < unat cs" using assms(2) by (simp add: word_less_nat_alt)
    with u False have "0 < unat ?r" by simp
    moreover from this have "?r \<noteq> 0" by (metis unat_0 less_irrefl)
    ultimately have r: "?r \<noteq> 0" "0 < unat ?r" "unat ?r \<le> length rest" using u by simp_all
    have w: "sc_has_token cf \<or> 0 < so_writes_left (hs_conn s)"
      using less.prems(2) False by (cases rest) auto
    let ?c = "if so_writes_left (hs_conn s) = 0 then hs_conn s
      else (hs_conn s)\<lparr>so_out := so_out (hs_conn s) @ take (unat ?r) rest,
             so_writes_left := so_writes_left (hs_conn s) - 1\<rparr>"
    let ?s = "chunk_done cf (inputs k) fsize (offset + ?r) (take (unat ?r) rest) ?c s"
    have step: "send_chunks cf fsize cs inputs k rest offset s =
        send_chunks cf fsize cs inputs (Suc k) (drop (unat ?r) rest) (offset + ?r) ?s"
      using r
      by (subst send_chunks.simps)
        (simp only: Let_def token write_chunk_quiet [OF assms(1) w] if_False not_less [symmetric] prod.case option.case)
    have o: "unat (offset + ?r) = unat offset + unat ?r"
    proof -
      have "unat offset + unat ?r \<le> unat fsize" using r less.prems(1) by simp
      also have "\<dots> < 2 ^ LENGTH(64)" by (rule unsigned_less)
      finally show ?thesis by (simp add: unat_word_ariths)
    qed
    have "\<exists>s'. send_chunks cf fsize cs inputs (Suc k) (drop (unat ?r) rest) (offset + ?r) ?s = (Inr fsize, s')
      \<and> hs_hashed s' = hs_hashed ?s @ drop (unat ?r) rest \<and> wrote (drop (unat ?r) rest) (hs_conn ?s) (hs_conn s')"
    proof (rule less.hyps)
      show "length (drop (unat ?r) rest) < length rest" using r by simp
      show "unat (offset + ?r) + length (drop (unat ?r) rest) = unat fsize" using o r less.prems(1) by simp
      show "sc_has_token cf \<or> length (drop (unat ?r) rest) \<le> so_writes_left (hs_conn ?s)"
        using less.prems(2) r by (auto simp: chunk_done_def)
    qed
    then obtain s' where s': "send_chunks cf fsize cs inputs (Suc k) (drop (unat ?r) rest) (offset + ?r) ?s = (Inr fsize, s')"
      "hs_hashed s' = hs_hashed ?s @ drop (unat ?r) rest" "wrote (drop (unat ?r) rest) (hs_conn ?s) (hs_conn s')"
      by blast
    have "hs_hashed s' = hs_hashed s @ rest" using s'(2) by (simp add: chunk_done_def)
    moreover have "wrote rest (hs_conn s) (hs_conn s')"
      using s'(3) r by (auto simp: wrote_def chunk_done_def)
    ultimately show ?thesis using step s'(1) by simp
  qed
qed

lemma skip_hashed_all:
  "n \<le> length rest \<Longrightarrow> skip_hashed n rest hashed = Some (drop n rest, hashed @ take n rest)"
proof (induction n rest hashed rule: skip_hashed.induct)
  case (1 n rest hashed)
  show ?case
  proof (cases "n = 0")
    case False
    let ?b = "min n 65536"
    have "skip_hashed (n - ?b) (drop ?b rest) (hashed @ take ?b rest) =
        Some (drop (n - ?b) (drop ?b rest), (hashed @ take ?b rest) @ take (n - ?b) (drop ?b rest))"
      using 1 False by simp
    moreover have "take ?b rest @ take (n - ?b) (drop ?b rest) = take n rest"
      by (metis le_add_diff_inverse min.cobounded1 take_add)
    ultimately show ?thesis using 1 False by (subst skip_hashed.simps) (simp add: Let_def)
  qed (simp add: skip_hashed.simps)
qed

text \<open>A run of the whole function without a cancellation and with a file as long as announced.\<close>

lemma send_streaming_all:
  assumes "quiet_inputs cf inputs" "unat fsize = length data" "unat r \<le> length data"
    and "r = 0 \<longrightarrow> 0 < so_writes_left (hs_conn s)"
    and "sc_has_token cf \<or> length data < so_writes_left (hs_conn s)"
  shows "\<exists>s'. send_streaming cf sha256 header (Inr data) fsize chunk_size r inputs None s
      = (Inr (fsize, hex_bytes (sha256 data)), s')
    \<and> wrote (drop (unat r) data) (if r = 0 then (hs_conn s)\<lparr>so_out := so_out (hs_conn s) @ as_bytes header,
        so_writes_left := so_writes_left (hs_conn s) - 1\<rparr> else hs_conn s) (hs_conn s')"
proof -
  let ?c = "if r = 0 then (hs_conn s)\<lparr>so_out := so_out (hs_conn s) @ as_bytes header,
        so_writes_left := so_writes_left (hs_conn s) - 1\<rparr> else hs_conn s"
  let ?s = "s\<lparr>hs_conn := ?c, hs_hashed := take (unat r) data\<rparr>"
  let ?cs = "if chunk_size > 0 then chunk_size else 65536"
  have h: "(if r = 0 then write_all (as_bytes header) (hs_conn s) else Inr (hs_conn s)) = Inr ?c"
    using assms(4) by (auto simp: write_all_def)
  have "\<exists>s'. send_chunks cf fsize ?cs inputs 0 (drop (unat r) data) r ?s = (Inr fsize, s')
      \<and> hs_hashed s' = hs_hashed ?s @ drop (unat r) data \<and> wrote (drop (unat r) data) (hs_conn ?s) (hs_conn s')"
    by (rule send_chunks_all [OF assms(1)]) (use assms(2-5) in auto)
  then obtain s' where s': "send_chunks cf fsize ?cs inputs 0 (drop (unat r) data) r ?s = (Inr fsize, s')"
    "hs_hashed s' = data" "wrote (drop (unat r) data) ?c (hs_conn s')" by auto
  have "send_streaming cf sha256 header (Inr data) fsize chunk_size r inputs None s
      = (Inr (fsize, hex_bytes (sha256 data)), s')"
    using s'(1,2) skip_hashed_all [OF assms(3), of "[]"] h by (simp add: send_streaming_def Let_def)
  with s'(3) show ?thesis by blast
qed

section \<open>What an upload reports\<close>

definition no_cancel :: send_input where
  "no_cancel = \<lparr>sx_token = cancel_token_new, sx_during = None, sx_write_us = 0\<rparr>"

lemma no_cancel_quiet: "quiet_inputs cf (\<lambda>_. no_cancel)"
  by (simp add: quiet_inputs_def no_cancel_def cancel_token_new_def)

text \<open>C18. What the streaming loop delivers. Without a cancellation token and while the writes succeed, the stream
  takes the header and exactly the file, and the result is its size and the hash of the whole file, whatever
  the chunk size. A resumed transfer sends exactly the missing rest and no header at all, so what the
  peer reads does not start with a request.\<close>

theorem http_send_delivers:
  assumes "\<not> sc_has_token cf" "length data < so_writes_left (hs_conn s)" "unat fsize = length data"
    "unat r \<le> length data" "r \<noteq> 0"
  shows "fst (send_streaming cf sha256 header (Inr data) fsize chunk_size 0 inputs None s)
      = Inr (fsize, hex_bytes (sha256 data))
    \<and> so_out (hs_conn (snd (send_streaming cf sha256 header (Inr data) fsize chunk_size 0 inputs None s)))
      = so_out (hs_conn s) @ as_bytes header @ data
    \<and> fst (send_streaming cf sha256 header (Inr data) fsize chunk_size r inputs None s)
      = Inr (fsize, hex_bytes (sha256 data))
    \<and> so_out (hs_conn (snd (send_streaming cf sha256 header (Inr data) fsize chunk_size r inputs None s)))
      = so_out (hs_conn s) @ drop (unat r) data"
proof -
  have q: "quiet_inputs cf inputs" using assms(1) by (simp add: quiet_inputs_def)
  obtain s0 where s0: "send_streaming cf sha256 header (Inr data) fsize chunk_size 0 inputs None s
      = (Inr (fsize, hex_bytes (sha256 data)), s0)"
    "wrote data ((hs_conn s)\<lparr>so_out := so_out (hs_conn s) @ as_bytes header,
        so_writes_left := so_writes_left (hs_conn s) - 1\<rparr>) (hs_conn s0)"
    using send_streaming_all [OF q assms(3), of 0 s sha256 header chunk_size] assms by auto
  obtain s1 where s1: "send_streaming cf sha256 header (Inr data) fsize chunk_size r inputs None s
      = (Inr (fsize, hex_bytes (sha256 data)), s1)" "wrote (drop (unat r) data) (hs_conn s) (hs_conn s1)"
    using send_streaming_all [OF q assms(3,4), of s sha256 header chunk_size] assms by auto
  show ?thesis using s0 s1 assms(2) by (simp add: wrote_def)
qed

definition demo_config :: "bool \<Rightarrow> send_config" where
  "demo_config token = \<lparr>sc_show_io = (\<lambda>_. ''io error''), sc_has_token = token, sc_control = False, sc_callback = False\<rparr>"

definition demo_sender :: "nat \<Rightarrow> http_sender" where
  "demo_sender n = fresh_sender \<lparr>so_out = [], so_writes_left = n\<rparr>"

theorem http_send_delivers_witness:
  "so_out (hs_conn (snd (send_streaming (demo_config False) id ''H'' (Inr [1, 2, 3]) 3 2 1 (\<lambda>_. no_cancel) None
      (demo_sender 9)))) = [2, 3]"
  using http_send_delivers [of "demo_config False" "[1, 2, 3]" "demo_sender 9" 3 1 id "''H''" 2 "\<lambda>_. no_cancel"]
  by (simp add: demo_config_def demo_sender_def fresh_sender_def)

text \<open>A cancellation token hides write errors. With a token that is never cancelled, an upload whose peer
  goes away right after the header, so that no chunk can be written, still reports the whole file as sent, with its
  hash; whereas without a token it fails with the error of the first write.\<close>

theorem token_hides_write_errors:
  assumes "so_writes_left (hs_conn s) = 1" "unat fsize = length data" "data \<noteq> []"
  shows "fst (send_streaming (cf\<lparr>sc_has_token := True\<rparr>) sha256 header (Inr data) fsize chunk_size 0
        (\<lambda>_. no_cancel) None s) = Inr (fsize, hex_bytes (sha256 data))
    \<and> so_out (hs_conn (snd (send_streaming (cf\<lparr>sc_has_token := True\<rparr>) sha256 header (Inr data) fsize chunk_size 0
        (\<lambda>_. no_cancel) None s))) = so_out (hs_conn s) @ as_bytes header
    \<and> (sc_show_io cf BrokenPipe \<noteq> ''cancelled'' \<longrightarrow>
       fst (send_streaming (cf\<lparr>sc_has_token := False\<rparr>) sha256 header (Inr data) fsize chunk_size 0
        (\<lambda>_. no_cancel) None s) = Inl (sc_show_io cf BrokenPipe))"
proof (intro conjI impI)
  let ?cf = "cf\<lparr>sc_has_token := True\<rparr>"
  obtain s' where s': "send_streaming ?cf sha256 header (Inr data) fsize chunk_size 0 (\<lambda>_. no_cancel) None s
      = (Inr (fsize, hex_bytes (sha256 data)), s')"
    "wrote data ((hs_conn s)\<lparr>so_out := so_out (hs_conn s) @ as_bytes header, so_writes_left := 0\<rparr>) (hs_conn s')"
    using send_streaming_all [OF no_cancel_quiet assms(2), of 0 s ?cf sha256 header chunk_size] assms by auto
  then show "fst (send_streaming ?cf sha256 header (Inr data) fsize chunk_size 0
        (\<lambda>_. no_cancel) None s) = Inr (fsize, hex_bytes (sha256 data))"
    "so_out (hs_conn (snd (send_streaming ?cf sha256 header (Inr data) fsize chunk_size 0
        (\<lambda>_. no_cancel) None s))) = so_out (hs_conn s) @ as_bytes header"
    by (auto simp: wrote_def)
  assume e: "sc_show_io cf BrokenPipe \<noteq> ''cancelled''"
  let ?cs = "if chunk_size > 0 then chunk_size else 65536" and ?cf = "cf\<lparr>sc_has_token := False\<rparr>"
  let ?s = "s\<lparr>hs_conn := (hs_conn s)\<lparr>so_out := so_out (hs_conn s) @ as_bytes header, so_writes_left := 0\<rparr>,
    hs_hashed := []\<rparr>"
  have "0 < unat (min fsize ?cs)" "unat (min fsize ?cs) \<le> length data"
    using assms(2,3) by (auto simp: unat_min_word word_less_nat_alt)
  moreover from this have "min fsize ?cs \<noteq> 0" by (metis unat_0 less_irrefl)
  moreover have "write_chunk ?cf no_cancel buf (hs_conn ?s) = (Some (sc_show_io cf BrokenPipe), hs_conn ?s)" for buf
    by (simp add: write_chunk_def write_all_def)
  ultimately have "fst (send_chunks ?cf fsize ?cs (\<lambda>_. no_cancel) 0 data 0 ?s) = Inl (sc_show_io cf BrokenPipe)"
    using e by (subst send_chunks.simps) (simp add: Let_def chunk_failed_def not_less [symmetric])
  then show "fst (send_streaming ?cf sha256 header (Inr data) fsize chunk_size 0 (\<lambda>_. no_cancel) None s)
      = Inl (sc_show_io cf BrokenPipe)"
    using assms(1) by (auto simp: send_streaming_def write_all_def skip_hashed.simps Let_def split: prod.splits)
qed

theorem token_hides_write_errors_witness:
  "fst (send_streaming (demo_config True) id ''H'' (Inr [1, 2, 3]) 3 2 0 (\<lambda>_. no_cancel) None (demo_sender 1))
     = Inr (3, hex_bytes [1, 2, 3])"
  using token_hides_write_errors [of "demo_sender 1" 3 "[1, 2, 3]" "demo_config True" id "''H''" 2]
  by (simp add: demo_config_def demo_sender_def fresh_sender_def)

end
