(* ===== verification/Http_Ranges.thy ===== *)
theory Http_Ranges
  imports Http_Facts
begin

text \<open>
  The parallel upload and the directory upload: the ranges partition the file, the streams deliver them, and the
  loops end exactly where the chunk size is positive. The encoding of names.
\<close>

section \<open>The ranges partition the file\<close>

definition range_bytes :: "bytes \<Rightarrow> u64 \<times> u64 \<Rightarrow> bytes" where
  "range_bytes data r = take (unat (snd r) - unat (fst r)) (drop (unat (fst r)) data)"

lemma unat_times_small:
  assumes "i * unat (e :: u64) \<le> unat (n :: u64)" "i < 2 ^ 64"
  shows "unat (of_nat i * e) = i * unat e"
proof -
  have "unat n < 2 ^ LENGTH(64)" by (rule unsigned_less)
  with assms show ?thesis
    by (simp add: unat_word_ariths unsigned_of_nat take_bit_nat_eq_self)
qed

lemma clamp_streams_bounds: "1 \<le> unat (clamp_streams k)" "unat (clamp_streams k) \<le> 32"
  by (simp_all add: clamp_streams_def unat_min_word unat_max_word)

lemma concat_blocks:
  "concat (map (\<lambda>i. take e (drop (i * e) data)) [0..<m]) = take (m * e) data"
proof (induction m)
  case (Suc m)
  then show ?case by (simp add: take_add [symmetric] add.commute)
qed simp

lemma range_bytes_block:
  assumes "(Suc i) * unat e \<le> unat (n :: u64)" "Suc i < 2 ^ 64"
  shows "range_bytes data (of_nat i * e, (of_nat i + 1) * e) = take (unat e) (drop (i * unat e) data)"
proof -
  have "i * unat e \<le> unat n" using assms(1) by simp
  then have a: "unat (of_nat i * e) = i * unat e" using assms(2) by (intro unat_times_small) simp_all
  have "unat (of_nat (Suc i) * e) = Suc i * unat e" using assms by (rule unat_times_small)
  then have "unat ((of_nat i + 1) * e) = Suc i * unat e" by (simp add: add.commute)
  with a show ?thesis by (simp add: range_bytes_def)
qed

lemma ranges_partition:
  assumes "unat fsize = length data"
  shows "concat (map (range_bytes data) (upload_ranges fsize k)) = data"
proof -
  define n where "n = clamp_streams k"
  define e where "e = fsize div n"
  let ?r = "\<lambda>i. (of_nat i * e, if of_nat i = n - 1 then fsize else (of_nat i + 1) * e)"
  obtain m where m: "unat n = Suc m" "m < 32"
    using clamp_streams_bounds [of k] by (cases "unat n") (auto simp: n_def)
  have "0 < n" using m(1) by (auto simp: word_less_nat_alt)
  have "unat (n - 1) = m" using m(1) \<open>0 < n\<close> by (simp add: unat_sub word_le_nat_alt)
  then have last: "(of_nat i = n - 1) = (i = m)" if "i \<le> m" for i
    using that m(2) by (simp add: word_unat_eq_iff unsigned_of_nat take_bit_nat_eq_self)
  have ue: "unat e = unat fsize div Suc m" by (simp add: e_def unat_div m(1))
  have bound: "i * unat e \<le> unat fsize" if "i \<le> Suc m" for i
    by (metis ue that mult.commute mult_le_mono1 order_trans times_div_less_eq_dividend)
  have "concat (map (range_bytes data) (upload_ranges fsize k)) = concat (map (\<lambda>i. range_bytes data (?r i)) [0..<Suc m])"
  proof -
    have "concat (map (range_bytes data) (filter (\<lambda>(a, b). a < b) rs)) = concat (map (range_bytes data) rs)" for rs
      by (induction rs) (auto simp: range_bytes_def word_le_nat_alt not_less)
    then show ?thesis unfolding upload_ranges_def Let_def n_def [symmetric] e_def m(1) by (simp add: o_def del: upt_Suc)
  qed
  also have "\<dots> = concat (map (\<lambda>i. take (unat e) (drop (i * unat e) data)) [0..<m]) @ range_bytes data (?r m)"
  proof -
    have "range_bytes data (?r i) = take (unat e) (drop (i * unat e) data)" if "i < m" for i
      using that last [of i] range_bytes_block [OF bound [of "Suc i"], of data] m(2) by simp
    then have e: "map (\<lambda>i. range_bytes data (?r i)) [0..<m] = map (\<lambda>i. take (unat e) (drop (i * unat e) data)) [0..<m]"
      by (intro map_cong) auto
    have split: "concat (map f [0..<Suc m]) = concat (map f [0..<m]) @ f m" for f :: "nat \<Rightarrow> bytes" by simp
    show ?thesis unfolding split e ..
  qed
  also have "range_bytes data (?r m) = drop (m * unat e) data"
  proof -
    have "unat (of_nat m * e) = m * unat e"
      using bound [of m] m(2) by (intro unat_times_small) simp_all
    then show ?thesis using last [of m] assms by (simp add: range_bytes_def)
  qed
  finally show ?thesis by (simp add: concat_blocks)
qed

section \<open>The loops end\<close>

lemma range_loop_ends:
  assumes "0 < cs"
  shows "unat remaining \<le> length rest \<Longrightarrow> unat remaining \<le> so_writes_left c \<Longrightarrow>
    \<exists>c'. range_loop (\<lambda>_. cs) k rest sent remaining c = Some (Inr (sent + remaining), c')
      \<and> so_out c' = so_out c @ take (unat remaining) rest"
proof (induction "unat remaining" arbitrary: k rest sent remaining c rule: less_induct)
  case less
  show ?case
  proof (cases "0 < remaining")
    case False
    then have "remaining = 0" by (simp add: word_less_nat_alt unat_eq_0)
    then show ?thesis by (simp add: range_loop.simps)
  next
    case True
    let ?r = "min cs remaining"
    have r: "0 < unat ?r" "unat ?r \<le> unat remaining"
      using True assms by (auto simp: unat_min_word word_less_nat_alt)
    have d: "unat (remaining - ?r) = unat remaining - unat ?r"
      by (rule unat_sub) (simp add: word_le_nat_alt unat_min_word)
    have w: "0 < so_writes_left c" using r less.prems by simp
    let ?c = "c\<lparr>so_out := so_out c @ take (unat ?r) rest, so_writes_left := so_writes_left c - 1\<rparr>"
    have "\<exists>c'. range_loop (\<lambda>_. cs) (Suc k) (drop (unat ?r) rest) (sent + ?r) (remaining - ?r) ?c
        = Some (Inr (sent + ?r + (remaining - ?r)), c')
      \<and> so_out c' = so_out ?c @ take (unat (remaining - ?r)) (drop (unat ?r) rest)"
      by (rule less.hyps) (use r d less.prems in auto)
    then obtain c' where c': "range_loop (\<lambda>_. cs) (Suc k) (drop (unat ?r) rest) (sent + ?r) (remaining - ?r) ?c
        = Some (Inr (sent + remaining), c')"
      "so_out c' = so_out ?c @ take (unat remaining - unat ?r) (drop (unat ?r) rest)" using d by auto
    have "take (unat ?r) rest @ take (unat remaining - unat ?r) (drop (unat ?r) rest) = take (unat remaining) rest"
      using r(2) by (metis le_add_diff_inverse take_add)
    with c'(2) have "so_out c' = so_out c @ take (unat remaining) rest" by simp
    moreover have "\<not> length rest < unat ?r" using r less.prems by simp
    moreover have "write_bytes (take (unat ?r) rest) c = Inr ?c"
      using r w less.prems by (auto simp: write_bytes_def write_all_def)
    ultimately show ?thesis using c'(1) True by (subst range_loop.simps) (simp add: Let_def)
  qed
qed

lemma range_loop_zero:
  assumes "range_loop chunk_sizes k rest sent remaining c = Some y"
  shows "chunk_sizes = (\<lambda>_. 0) \<longrightarrow> remaining = 0"
  by (rule range_loop.raw_induct
      [where P = "\<lambda>chunk_sizes k rest sent remaining c y. chunk_sizes = (\<lambda>_. 0) \<longrightarrow> remaining = 0", OF _ assms])
    (auto simp: Let_def word_less_nat_alt unat_eq_0 write_bytes_def split: if_splits sum.splits)

lemma directory_loop_zero:
  assumes "directory_loop zip_bytes chunk_sizes write_us callback k offset s = Some y"
  shows "chunk_sizes = (\<lambda>_. 0) \<longrightarrow> \<not> offset < of_nat (length zip_bytes)"
  by (rule directory_loop.raw_induct
      [where P = "\<lambda>zip_bytes chunk_sizes write_us callback k offset s y.
         chunk_sizes = (\<lambda>_. 0) \<longrightarrow> \<not> offset < of_nat (length zip_bytes)", OF _ assms])
    (auto simp: Let_def min_def write_bytes_def split: if_splits sum.splits)

lemma directory_loop_ends:
  assumes "0 < cs"
  shows "directory_loop zip_bytes (\<lambda>_. cs) write_us callback k offset s \<noteq> None"
proof (induction "unat (of_nat (length zip_bytes) :: u64) - unat offset" arbitrary: k offset s rule: less_induct)
  case less
  let ?n = "of_nat (length zip_bytes) :: u64" and ?e = "min (offset + cs) (of_nat (length zip_bytes))"
  show ?case
  proof (cases "offset < ?n \<and> \<not> ?e < offset")
    case True
    have "offset + cs \<noteq> offset" using assms by auto
    then have "?e \<noteq> offset" using True by (auto simp: min_def)
    with True have "offset < ?e" by (meson linorder_neqE)
    then have "unat offset < unat ?e" by (simp only: word_less_nat_alt)
    moreover have "unat ?e \<le> unat ?n" by (simp add: word_le_nat_alt [symmetric])
    ultimately have "unat ?n - unat ?e < unat ?n - unat offset" by simp
    from less.hyps [OF this] True show ?thesis
      by (subst directory_loop.simps) (cases callback; simp add: Let_def split: sum.splits)
  next
    case False
    then show ?thesis by (subst directory_loop.simps) (auto simp: Let_def)
  qed
qed

text \<open>The streams of an upload whose connections hold: each writes its request and its range.\<close>

definition open_stream :: "bytes \<Rightarrow> u64 \<Rightarrow> conn \<Rightarrow> stream_world" where
  "open_stream data cs c = \<lparr>rw_connect = None, rw_file = Inr data, rw_chunk_sizes = (\<lambda>_. cs), rw_shutdown = None,
     rw_conn = c\<rparr>"

lemma unat_length: "unat (n :: u64) = length data \<Longrightarrow> length data < 2 ^ 64"
proof -
  assume "unat n = length data"
  moreover have "unat n < 2 ^ LENGTH(64)" by (rule unsigned_less)
  ultimately show ?thesis by simp
qed

lemma range_within:
  assumes "unat fsize = length data" "r \<in> set (upload_ranges fsize k)"
  shows "unat (snd r - fst r) = length (range_bytes data r) \<and> fst r < snd r \<and> snd r \<le> fsize"
proof -
  define n where "n = clamp_streams k"
  have n: "1 \<le> unat n" "unat n \<le> 32" using clamp_streams_bounds [of k] by (simp_all add: n_def)
  from assms(2) obtain i where i: "i < unat n" and r: "fst r < snd r"
    "snd r = (if of_nat i = n - 1 then fsize else (of_nat i + 1) * (fsize div n))"
    by (auto simp: upload_ranges_def Let_def n_def [symmetric])
  have "Suc i * unat (fsize div n) \<le> unat fsize"
    using i by (metis Suc_leI mult_le_mono1 order_trans times_div_less_eq_dividend unat_div mult.commute)
  moreover from this have "unat (of_nat (Suc i) * (fsize div n)) = Suc i * unat (fsize div n)"
    using i n by (intro unat_times_small) simp_all
  ultimately have "unat ((of_nat i + 1) * (fsize div n)) \<le> unat fsize" by (simp add: add.commute)
  with r have le: "snd r \<le> fsize" by (auto simp: word_le_nat_alt)
  moreover have "unat (snd r - fst r) = unat (snd r) - unat (fst r)"
    using r(1) by (simp add: unat_sub)
  ultimately show ?thesis using r(1) assms(1) by (simp add: range_bytes_def word_le_nat_alt word_less_nat_alt)
qed

lemma upload_range_ok:
  assumes "unat fsize = length data" "r \<in> set (upload_ranges fsize k)" "0 < cs" "length data < so_writes_left c"
  shows "\<exists>c'. upload_range show_io host port name fsize (open_stream data cs c) r = Some (Inr (snd r - fst r), c')
    \<and> so_out c' = so_out c @ as_bytes (request_head host port name [''X-Offset: '' @ show_nat (unat (fst r)),
        ''X-Total-Size: '' @ show_nat (unat fsize), ''Content-Length: '' @ show_nat (unat (snd r - fst r))])
        @ range_bytes data r"
proof -
  define h where "h = as_bytes (request_head host port name [''X-Offset: '' @ show_nat (unat (fst r)),
        ''X-Total-Size: '' @ show_nat (unat fsize), ''Content-Length: '' @ show_nat (unat (snd r - fst r))])"
  let ?c = "c\<lparr>so_out := so_out c @ h, so_writes_left := so_writes_left c - 1\<rparr>"
  have w: "unat (snd r - fst r) = length (range_bytes data r)" using range_within [OF assms(1,2)] by simp
  have "fst r \<le> snd r" using range_within [OF assms(1,2)] by (simp add: order_less_imp_le)
  from unat_sub [OF this] have "unat (snd r) - unat (fst r) = unat (snd r - fst r)" ..
  then have b: "take (unat (snd r - fst r)) (drop (unat (fst r)) data) = range_bytes data r" by (simp add: range_bytes_def)
  have l: "unat (snd r - fst r) \<le> length (drop (unat (fst r)) data)"
    using w by (simp add: range_bytes_def)
  then have "unat (snd r - fst r) \<le> so_writes_left ?c" using assms(4) by simp
  from range_loop_ends [OF assms(3) l this, of 0 0] obtain c' where
    "range_loop (\<lambda>_. cs) 0 (drop (unat (fst r)) data) 0 (snd r - fst r) ?c = Some (Inr (snd r - fst r), c')"
    "so_out c' = so_out ?c @ range_bytes data r" unfolding b by auto
  then show ?thesis
    using assms(4) unfolding h_def [symmetric] upload_range_def Let_def
    by (simp add: open_stream_def write_all_def h_def [symmetric])
qed

lemma await_ok:
  assumes "list_all2 (\<lambda>x r. \<exists>c. x = Some (Inr (f r), c)) results rs"
  shows "await_ranges results tot = Some (Inr (tot + sum_list (map f rs)))"
  using assms by (induction results rs arbitrary: tot rule: list_all2_induct) (auto simp: add.assoc)

lemma upload_parallel_ok:
  assumes "unat fsize = length data" "0 < cs" "length data < so_writes_left c"
  shows "upload_parallel rnd show_io (Inr fsize) (\<lambda>_. open_stream data cs c) elapsed host port display_name k
    = Some (Inr \<lparr>ur_bytes_sent = fsize, ur_bytes_total = fsize, ur_speed_mbps = transfer_speed rnd elapsed fsize\<rparr>)"
proof -
  let ?rs = "upload_ranges fsize k"
  let ?f = "\<lambda>(i, r). upload_range show_io host port (urlencode display_name) fsize (open_stream data cs c) r"
  have each: "\<exists>c'. upload_range show_io host port (urlencode display_name) fsize (open_stream data cs c) r
      = Some (Inr (snd r - fst r), c')" if "r \<in> set ?rs" for r
    using upload_range_ok [OF assms(1) that assms(2,3), of show_io host port "urlencode display_name"] by auto
  have "list_all2 (\<lambda>x r. \<exists>c'. x = Some (Inr (snd r - fst r), c')) (map ?f (enumerate 0 ?rs)) ?rs"
    using each by (auto simp: list_all2_conv_all_nth nth_enumerate_eq)
  from await_ok [OF this, of 0]
  have "await_ranges (map ?f (enumerate 0 ?rs)) 0 = Some (Inr (sum_list (map (\<lambda>r. snd r - fst r) ?rs)))" by simp
  moreover have "sum_list (map (\<lambda>r. snd r - fst r) ?rs) = fsize"
  proof -
    have "snd r - fst r = of_nat (length (range_bytes data r))" if "r \<in> set ?rs" for r
      using range_within [OF assms(1) that] by (metis of_nat_unat ucast_id)
    then have "sum_list (map (\<lambda>r. snd r - fst r) ?rs) = sum_list (map (\<lambda>r. of_nat (length (range_bytes data r))) ?rs)"
      by (intro arg_cong [of _ _ sum_list] map_cong) auto
    moreover have "sum_list (map (\<lambda>r. of_nat (length (range_bytes data r))) rs)
        = (of_nat (length (concat (map (range_bytes data) rs))) :: u64)" for rs
      by (induction rs) simp_all
    ultimately have "sum_list (map (\<lambda>r. snd r - fst r) ?rs) = of_nat (length data)"
      using ranges_partition [OF assms(1), of k] by simp
    then show ?thesis using assms(1) by (metis of_nat_unat ucast_id)
  qed
  ultimately show ?thesis by (simp add: upload_parallel_def Let_def)
qed

text \<open>C20. The parallel upload is complete. The ranges, whatever number of streams is asked for (1 to 32 are used),
  partition the file: their parts taken in order are the file. With a positive chunk size and connections that take every byte, each stream sends its request with the offset and
  the length of its range and exactly that part of the file, and the upload reports the size of the file.\<close>

theorem parallel_upload_complete:
  assumes "unat fsize = length data" "0 < cs" "length data < so_writes_left c" "r \<in> set (upload_ranges fsize k)"
  shows "concat (map (range_bytes data) (upload_ranges fsize k)) = data
    \<and> length (upload_ranges fsize k) \<le> 32
    \<and> upload_parallel rnd show_io (Inr fsize) (\<lambda>_. open_stream data cs c) elapsed host port display_name k
        = Some (Inr \<lparr>ur_bytes_sent = fsize, ur_bytes_total = fsize, ur_speed_mbps = transfer_speed rnd elapsed fsize\<rparr>)
    \<and> (\<exists>c'. upload_range show_io host port name fsize (open_stream data cs c) r = Some (Inr (snd r - fst r), c')
        \<and> so_out c' = so_out c @ as_bytes (request_head host port name
            [''X-Offset: '' @ show_nat (unat (fst r)), ''X-Total-Size: '' @ show_nat (unat fsize),
             ''Content-Length: '' @ show_nat (length (range_bytes data r))]) @ range_bytes data r)"
proof -
  have "length (upload_ranges fsize k) \<le> length [0..<unat (clamp_streams k)]"
    unfolding upload_ranges_def Let_def by (rule order_trans [OF length_filter_le]) simp
  then have "length (upload_ranges fsize k) \<le> 32" using clamp_streams_bounds [of k] by simp
  then show ?thesis
    using ranges_partition [OF assms(1)] upload_parallel_ok [OF assms(1-3)]
      upload_range_ok [OF assms(1,4,2,3), of show_io host port name] range_within [OF assms(1,4)] by simp
qed

theorem parallel_upload_complete_witness:
  "concat (map (range_bytes [1, 2, 3, 4, 5]) (upload_ranges 5 2)) = [1, 2, 3, 4, 5] \<and> upload_ranges 5 2 = [(0, 2), (2, 5)]"
proof -
  have r: "upload_ranges 5 2 = [(0, 2), (2, 5)]" by code_simp
  then have "(0, 2) \<in> set (upload_ranges 5 2)" by simp
  from parallel_upload_complete [OF _ _ _ this, of "[1, 2, 3, 4, 5]" 2 "\<lparr>so_out = [], so_writes_left = 9\<rparr>"] r
  show ?thesis by simp
qed

text \<open>C22. When the loops end. The loop of a directory upload and the loop of a range end, with success, an error or
  a panic, exactly where the chunk size is positive or there is nothing to send, for a directory archive of less than 2^64 bytes and for a
  range that the file holds, over a connection that takes every byte; the size is taken from the options without a check, so a chunk size of zero never returns.\<close>

theorem upload_loops_end:
  assumes "unat remaining \<le> length rest" "unat remaining \<le> so_writes_left c" "length zip_bytes < 2 ^ 64"
  shows "(directory_loop zip_bytes (\<lambda>_. cs) write_us callback 0 0 s \<noteq> None \<longleftrightarrow> cs \<noteq> 0 \<or> zip_bytes = [])
    \<and> (range_loop (\<lambda>_. cs) 0 rest 0 remaining c \<noteq> None \<longleftrightarrow> cs \<noteq> 0 \<or> remaining = 0)"
proof (cases "cs = 0")
  case True
  have "directory_loop zip_bytes (\<lambda>_. cs) write_us callback 0 0 s = None" if "zip_bytes \<noteq> []"
  proof (rule ccontr)
    assume "directory_loop zip_bytes (\<lambda>_. cs) write_us callback 0 0 s \<noteq> None"
    then obtain y where "directory_loop zip_bytes (\<lambda>_. cs) write_us callback 0 0 s = Some y" by auto
    with directory_loop_zero [OF this] True have "\<not> 0 < (of_nat (length zip_bytes) :: u64)" by simp
    with that assms(3) show False
      by (auto simp: word_less_nat_alt unsigned_of_nat take_bit_nat_eq_self)
  qed
  moreover have "directory_loop [] (\<lambda>_. cs) write_us callback 0 0 s \<noteq> None"
    by (subst directory_loop.simps) simp
  moreover have "range_loop (\<lambda>_. cs) 0 rest 0 remaining c = None" if "remaining \<noteq> 0"
  proof (rule ccontr)
    assume "range_loop (\<lambda>_. cs) 0 rest 0 remaining c \<noteq> None"
    then obtain y where "range_loop (\<lambda>_. cs) 0 rest 0 remaining c = Some y" by auto
    with range_loop_zero [OF this] True that show False by simp
  qed
  moreover have "range_loop (\<lambda>_. cs) 0 rest 0 0 c \<noteq> None" by (subst range_loop.simps) simp
  ultimately show ?thesis using True by (metis (no_types))
next
  case False
  then have "0 < cs" by (simp add: word_gt_0)
  with directory_loop_ends range_loop_ends [OF _ assms(1,2)] False show ?thesis by fastforce
qed

theorem upload_loops_end_witness:
  "range_loop (\<lambda>_. 0) 0 [1] 0 1 \<lparr>so_out = [], so_writes_left = 9\<rparr> = None
   \<and> range_loop (\<lambda>_. 1) 0 [1] 0 1 \<lparr>so_out = [], so_writes_left = 9\<rparr> \<noteq> None"
  using upload_loops_end [of 1 "[1]" "\<lparr>so_out = [], so_writes_left = 9\<rparr>" "[]" 0 "\<lambda>_. 0" False "demo_sender 0"]
    upload_loops_end [of 1 "[1]" "\<lparr>so_out = [], so_writes_left = 9\<rparr>" "[]" 1 "\<lambda>_. 0" False "demo_sender 0"]
  by (simp del: not_None_eq)

section \<open>Encoded names\<close>

text \<open>Form decoding, as the receiver of a request has to do it.\<close>

definition hex_value :: "char \<Rightarrow> nat" where
  "hex_value c = (let n = of_char c in if n < 65 then n - 48 else n - 55)"

fun form_decode :: "string \<Rightarrow> bytes" where
  "form_decode [] = []"
| "form_decode (c # s) =
    (if c = CHR ''+'' then 32 # form_decode s
     else if c = CHR ''%'' then
       (case s of
          a # b # t \<Rightarrow> of_nat (16 * hex_value a + hex_value b) # form_decode (drop 2 s)
        | _ \<Rightarrow> [])
     else of_nat (of_char c) # form_decode s)"

lemma hex_value_digit: "n < 16 \<Longrightarrow> hex_value (hex_digit_upper n) = n"
  by (simp add: hex_value_def hex_digit_upper_def Let_def)

lemma byte_of_unat: "(of_nat (unat b) :: u8) = b"
  by (metis of_nat_unat ucast_id)

lemma unat_u8: "unat (b :: u8) < 256"
proof -
  have "unat b < 2 ^ LENGTH(8)" by (rule unsigned_less)
  then show ?thesis by simp
qed

lemma form_decode_byte: "form_decode (urlencode_byte b @ s) = b # form_decode s"
proof (cases "unreserved b")
  case True
  have "of_char (char_of (unat b)) = unat b" using unat_u8 [of b] by simp
  moreover have "unat b \<noteq> 43" "unat b \<noteq> 37"
    using True by (auto simp: unreserved_def word_le_nat_alt word_unat_eq_iff)
  moreover have "(of_char (CHR ''+'') :: nat) = 43" "(of_char (CHR ''%'') :: nat) = 37" by simp_all
  ultimately have "char_of (unat b) \<noteq> CHR ''+''" "char_of (unat b) \<noteq> CHR ''%''" by metis+
  then show ?thesis using True unat_u8 [of b] by (simp add: urlencode_byte_def byte_of_unat)
next
  case False
  have "unat b div 16 < 16" using unat_u8 [of b] by simp
  moreover have "16 * of_nat (unat b div 16) + of_nat (unat b mod 16) = (of_nat (unat b) :: u8)"
    by (metis of_nat_add of_nat_mult of_nat_numeral mult_div_mod_eq)
  ultimately show ?thesis
    using False by (simp add: urlencode_byte_def hex_value_digit byte_of_unat)
qed

lemma urlencode_roundtrip: "form_decode (urlencode s) = as_bytes s"
proof -
  have "form_decode (concat (map urlencode_byte bs)) = bs" for bs
    by (induction bs) (simp_all add: form_decode_byte)
  then show ?thesis by (simp add: urlencode_def)
qed

end
