(* ===== verification/Http_Receive.thy ===== *)
theory Http_Receive
  imports Http_Facts
begin

text \<open>
  The receiving side of \<^verbatim>\<open>crates/transfer_engine/src/http.rs\<close>: a stream into a file with a partial file and
  checks, and the unpacking of an archive.

  The file system is a map from paths to contents; the errors of its calls, what the reads of the stream return,
  and SHA-256 are arguments. A path has a file name, so \<^verbatim>\<open>with_extension\<close> appends to it. The archive is
  the list of its entries, as the library gives them.
\<close>

section \<open>Receiving a file\<close>

type_synonym files = "string \<rightharpoonup> bytes"

definition part_path :: "string \<Rightarrow> string" where
  "part_path output_path = output_path @ ''.xync.part''"

text \<open>A read within 30 seconds: the time-out, an error, or bytes (none at the end of the stream).\<close>

datatype recv_event = RecvTimeout | RecvError io_error | RecvBytes bytes

record recv_world =
  rc_create_dir :: "anyhow option"
  rc_create :: "anyhow option"
  rc_write :: "nat \<Rightarrow> anyhow option"
  rc_flush :: "anyhow option"
  rc_rename :: "anyhow option"

text \<open>The loop: the result is the number of bytes and the bytes hashed; \<open>None\<close> where it still reads.\<close>

fun receive_chunks ::
  "(io_error \<Rightarrow> anyhow) \<Rightarrow> recv_world \<Rightarrow> string \<Rightarrow> recv_event list \<Rightarrow> nat \<Rightarrow> u64 \<Rightarrow> bytes \<Rightarrow> files
     \<Rightarrow> ((anyhow + u64 \<times> bytes) \<times> files) option" where
  "receive_chunks show_io w part [] k tot hashed fs = None"
| "receive_chunks show_io w part (RecvTimeout # es) k tot hashed fs =
     Some (Inl ''Receive timed out after 30s of inactivity'', fs)"
| "receive_chunks show_io w part (RecvError e # es) k tot hashed fs =
     Some (Inl (''Receive error: '' @ show_io e), fs)"
| "receive_chunks show_io w part (RecvBytes bs # es) k tot hashed fs =
    (if bs = [] then Some (Inr (tot, hashed), fs)
     else
       (case rc_write w k of
          Some e \<Rightarrow> Some (Inl e, fs)
        | None \<Rightarrow>
            receive_chunks show_io w part es (Suc k) (tot + of_nat (length bs)) (hashed @ bs)
              (fs(part := map_option (\<lambda>old. old @ bs) (fs part)))))"

text \<open>The checks and the rename at the end.\<close>

definition receive_finish ::
  "recv_world \<Rightarrow> string \<Rightarrow> u64 \<Rightarrow> string option \<Rightarrow> u64 \<Rightarrow> string \<Rightarrow> files \<Rightarrow> (anyhow + u64 \<times> string) \<times> files" where
  "receive_finish w output_path expected_size expected_checksum tot hash fs =
    (let part = part_path output_path in
     if expected_checksum \<noteq> None \<and> expected_checksum \<noteq> Some hash then
       (Inl (''Checksum mismatch: expected '' @ the expected_checksum @ '', got '' @ hash
          @ ''. Partial file deleted.''), fs(part := None))
     else if expected_size > 0 \<and> tot \<noteq> expected_size then
       (Inl (''Size mismatch: expected '' @ show_nat (unat expected_size) @ '' bytes, received ''
          @ show_nat (unat tot) @ '' bytes. Partial file deleted.''), fs(part := None))
     else
       (case rc_rename w of
          Some e \<Rightarrow> (Inl (''Failed to rename completed file: '' @ e), fs)
        | None \<Rightarrow> (Inr (tot, hash), (fs(output_path := fs part))(part := None))))"

definition stream_file_receive ::
  "(io_error \<Rightarrow> anyhow) \<Rightarrow> (bytes \<Rightarrow> bytes) \<Rightarrow> recv_world \<Rightarrow> recv_event list \<Rightarrow> string \<Rightarrow> u64 \<Rightarrow> string option
     \<Rightarrow> files \<Rightarrow> ((anyhow + u64 \<times> string) \<times> files) option" where
  "stream_file_receive show_io sha256 w events output_path expected_size expected_checksum fs =
    (let part = part_path output_path in
     case rc_create_dir w of
       Some e \<Rightarrow> Some (Inl e, fs)
     | None \<Rightarrow>
        (case rc_create w of
           Some e \<Rightarrow> Some (Inl (''Failed to create output file: '' @ e), fs)
         | None \<Rightarrow>
            (case receive_chunks show_io w part events 0 0 [] (fs(part := Some [])) of
               None \<Rightarrow> None
             | Some (Inl e, fs') \<Rightarrow> Some (Inl e, fs')
             | Some (Inr (tot, hashed), fs') \<Rightarrow>
                (case rc_flush w of
                   Some e \<Rightarrow> Some (Inl e, fs')
                 | None \<Rightarrow> Some (receive_finish w output_path expected_size expected_checksum tot
                     (hex_bytes (sha256 hashed)) fs')))))"

definition cleanup_partial :: "string \<Rightarrow> files \<Rightarrow> files" where
  "cleanup_partial output_path fs = fs(part_path output_path := None)"

section \<open>Unpacking an archive\<close>

text \<open>\<^verbatim>\<open>Path::join\<close>: an absolute path replaces the base.\<close>

definition path_join :: "string \<Rightarrow> string \<Rightarrow> string" where
  "path_join base p =
    (if p \<noteq> [] \<and> hd p = CHR ''/'' then p
     else if base = [] \<or> last base = CHR ''/'' then base @ p
     else base @ CHR ''/'' # p)"

record zip_entry =
  ze_name :: string
  ze_is_dir :: bool
  ze_content :: bytes

text \<open>\<open>open_error\<close> is the error of opening the archive, \<open>entry_error\<close> that of handling an entry.\<close>

fun unzip_entries ::
  "string \<Rightarrow> (nat \<Rightarrow> anyhow option) \<Rightarrow> nat \<Rightarrow> zip_entry list \<Rightarrow> files \<Rightarrow> (anyhow + unit) \<times> files" where
  "unzip_entries target entry_error k [] fs = (Inr (), fs)"
| "unzip_entries target entry_error k (z # zs) fs =
    (case entry_error k of
       Some e \<Rightarrow> (Inl e, fs)
     | None \<Rightarrow> unzip_entries target entry_error (Suc k) zs
         (if ze_is_dir z then fs else fs(path_join target (ze_name z) \<mapsto> ze_content z)))"

definition unzip_to ::
  "anyhow option \<Rightarrow> (nat \<Rightarrow> anyhow option) \<Rightarrow> zip_entry list \<Rightarrow> string \<Rightarrow> files \<Rightarrow> (anyhow + unit) \<times> files" where
  "unzip_to open_error entry_error archive output_dir fs =
    (case open_error of Some e \<Rightarrow> (Inl e, fs) | None \<Rightarrow> unzip_entries output_dir entry_error 0 archive fs)"

section \<open>What is received\<close>

lemma receive_chunks_Some:
  assumes "receive_chunks show_io w part es k tot hashed fs = Some (r, fs')" "fs part = Some hashed"
  shows "(\<forall>p. p \<noteq> part \<longrightarrow> fs' p = fs p) \<and> fs' part \<noteq> None
    \<and> (\<forall>n h. r = Inr (n, h) \<longrightarrow> fs' part = Some h)"
  using assms
proof (induction show_io w part es k tot hashed fs rule: receive_chunks.induct)
  case (4 show_io w part bs es k tot hashed fs)
  show ?case
  proof (cases "bs = [] \<or> rc_write w k \<noteq> None")
    case True
    with 4(2,3) show ?thesis by (auto split: if_splits)
  next
    case False
    define fs1 where "fs1 = fs(part := map_option (\<lambda>old. old @ bs) (fs part))"
    have f: "fs1 part = Some (hashed @ bs)" "\<And>p. p \<noteq> part \<Longrightarrow> fs1 p = fs p"
      using 4(3) by (simp_all add: fs1_def)
    have "receive_chunks show_io w part es (Suc k) (tot + of_nat (length bs)) (hashed @ bs) fs1 = Some (r, fs')"
      using 4(2) False by (simp add: fs1_def)
    with 4(1) [folded fs1_def] False f show ?thesis by auto
  qed
qed auto

text \<open>The file calls all succeed.\<close>

definition recv_ok :: recv_world where
  "recv_ok = \<lparr>rc_create_dir = None, rc_create = None, rc_write = (\<lambda>_. None), rc_flush = None, rc_rename = None\<rparr>"

lemma receive_chunks_append:
  assumes "list_all (\<lambda>bs. bs \<noteq> []) chunks" "fs part = Some hashed"
  shows "receive_chunks show_io recv_ok part (map RecvBytes chunks @ es) k tot hashed fs =
    receive_chunks show_io recv_ok part es (k + length chunks) (tot + of_nat (length (concat chunks)))
      (hashed @ concat chunks) (fs(part \<mapsto> hashed @ concat chunks))"
  using assms
proof (induction chunks arbitrary: k tot hashed fs)
  case Nil
  then show ?case by (simp add: fun_upd_idem)
next
  case (Cons c chunks)
  define fs1 where "fs1 = fs(part \<mapsto> hashed @ c)"
  have "receive_chunks show_io recv_ok part (map RecvBytes (c # chunks) @ es) k tot hashed fs =
      receive_chunks show_io recv_ok part (map RecvBytes chunks @ es) (Suc k) (tot + of_nat (length c))
        (hashed @ c) fs1" using Cons.prems by (simp add: recv_ok_def fs1_def)
  also have "\<dots> = receive_chunks show_io recv_ok part es (Suc k + length chunks)
      (tot + of_nat (length c) + of_nat (length (concat chunks))) ((hashed @ c) @ concat chunks)
      (fs1(part \<mapsto> (hashed @ c) @ concat chunks))"
    by (rule Cons.IH) (use Cons.prems in \<open>simp_all add: fs1_def\<close>)
  also have "fs1(part \<mapsto> (hashed @ c) @ concat chunks) = fs(part \<mapsto> hashed @ concat (c # chunks))"
    by (simp add: fs1_def)
  finally show ?case by (simp add: add.assoc)
qed

lemma part_path_neq: "part_path p \<noteq> p"
  by (simp add: part_path_def)

text \<open>C19. Receiving is atomic. Whatever the stream delivers and whichever call fails, no file but the output and its
  partial file changes, and the output only changes where the result is a success; then it holds exactly the
  bytes whose hash is reported, that hash is the expected one and the count the expected one where they were given.
  And a file that the sender streamed, arriving in any pieces, is received whole with the sender's hash. But a
  time-out leaves the partial file behind.\<close>

theorem receive_atomic:
  assumes "stream_file_receive show_io sha256 w events path n checksum fs = Some (r, fs')"
    "list_all (\<lambda>bs. bs \<noteq> []) chunks"
  shows "(\<forall>p. p = path \<or> p = part_path path \<or> fs' p = fs p)
    \<and> (case r of
         Inl _ \<Rightarrow> fs' path = fs path
       | Inr (m, hash) \<Rightarrow> fs' (part_path path) = None
           \<and> (\<exists>bs. fs' path = Some bs \<and> hash = hex_bytes (sha256 bs))
           \<and> (checksum = None \<or> checksum = Some hash) \<and> (n = 0 \<or> m = n))
    \<and> (let h = hex_bytes (sha256 (concat chunks)); m = of_nat (length (concat chunks)) in
       stream_file_receive show_io sha256 recv_ok (map RecvBytes chunks @ [RecvBytes []]) path m (Some h) fs
         = Some (Inr (m, h), fs(path \<mapsto> concat chunks, part_path path := None)))
    \<and> stream_file_receive show_io sha256 recv_ok (map RecvBytes chunks @ [RecvTimeout]) path n checksum fs
        = Some (Inl ''Receive timed out after 30s of inactivity'', fs(part_path path \<mapsto> concat chunks))"
proof (intro conjI)
  let ?p = "part_path path"
  have c: "(\<forall>p. p \<noteq> ?p \<longrightarrow> fs'' p = fs p) \<and> fs'' ?p \<noteq> None \<and> (\<forall>n h. q = Inr (n, h) \<longrightarrow> fs'' ?p = Some h)"
    if "receive_chunks show_io w ?p events 0 0 [] (fs(?p := Some [])) = Some (q, fs'')" for q fs''
    using receive_chunks_Some [OF that] by simp
  show "\<forall>p. p = path \<or> p = ?p \<or> fs' p = fs p"
    using assms(1) c part_path_neq [of path]
    by (auto simp: stream_file_receive_def receive_finish_def Let_def split: option.splits sum.splits if_splits; blast)
  show "case r of
         Inl _ \<Rightarrow> fs' path = fs path
       | Inr (m, hash) \<Rightarrow> fs' ?p = None
           \<and> (\<exists>bs. fs' path = Some bs \<and> hash = hex_bytes (sha256 bs))
           \<and> (checksum = None \<or> checksum = Some hash) \<and> (n = 0 \<or> m = n)"
    using assms(1) c part_path_neq [of path]
    by (auto simp: stream_file_receive_def receive_finish_def Let_def word_gt_0 split: option.splits sum.splits if_splits)
  have a: "receive_chunks show_io recv_ok ?p (map RecvBytes chunks @ es) 0 0 [] (fs(?p := Some [])) =
      receive_chunks show_io recv_ok ?p es (length chunks) (of_nat (length (concat chunks))) (concat chunks)
        (fs(?p \<mapsto> concat chunks))" for es
    using receive_chunks_append [OF assms(2), of "fs(?p := Some [])" ?p "[]" show_io es 0 0] by simp
  have r: "rc_create_dir recv_ok = None" "rc_create recv_ok = None" "rc_flush recv_ok = None" "rc_rename recv_ok = None"
    by (simp_all add: recv_ok_def)
  show "let h = hex_bytes (sha256 (concat chunks)); m = of_nat (length (concat chunks)) in
       stream_file_receive show_io sha256 recv_ok (map RecvBytes chunks @ [RecvBytes []]) path m (Some h) fs
         = Some (Inr (m, h), fs(path \<mapsto> concat chunks, ?p := None))"
    using part_path_neq [of path]
    by (simp add: stream_file_receive_def receive_finish_def Let_def a r fun_upd_twist)
  show "stream_file_receive show_io sha256 recv_ok (map RecvBytes chunks @ [RecvTimeout]) path n checksum fs
        = Some (Inl ''Receive timed out after 30s of inactivity'', fs(?p \<mapsto> concat chunks))"
    by (simp add: stream_file_receive_def Let_def a r)
qed

theorem receive_atomic_witness:
  "stream_file_receive (\<lambda>_. []) id recv_ok [RecvBytes [1], RecvBytes [2, 3], RecvBytes []] ''a'' 3
     (Some (hex_bytes [1, 2, 3])) Map.empty = Some (Inr (3, hex_bytes [1, 2, 3]), [''a'' \<mapsto> [1, 2, 3]])"
proof -
  have "stream_file_receive (\<lambda>_. []) id recv_ok [RecvTimeout] ''a'' 0 None Map.empty
      = Some (Inl ''Receive timed out after 30s of inactivity'', [part_path ''a'' \<mapsto> []])"
    by (simp add: stream_file_receive_def recv_ok_def)
  from receive_atomic [OF this, of "[[1], [2, 3]]"] part_path_neq [of "''a''"]
  show ?thesis by (simp add: Let_def fun_upd_twist fun_upd_idem)
qed

text \<open>The names in an archive decide where its files go: an absolute name leaves the target directory.\<close>

lemma unzip_absolute:
  assumes "z = \<lparr>ze_name = CHR ''/'' # p, ze_is_dir = False, ze_content = bs\<rparr>"
  shows "unzip_to None (\<lambda>_. None) [z] dir fs = (Inr (), fs(CHR ''/'' # p \<mapsto> bs))"
  using assms by (simp add: unzip_to_def path_join_def)

end
