(* ===== verification/Relay_Refinement.thy ===== *)
theory Relay_Refinement
  imports Relay
begin

text \<open>
  The relay refines an abstract routing service. The service knows the open connections with their nodes and
  channels, and the route of each node: the connection that registered last, until it leaves. It delivers to
  the sender or along a route. The locale \<open>simulation\<close> carries single steps over to runs.
\<close>

section \<open>Simulations\<close>

locale simulation =
  fixes step :: "'s \<Rightarrow> 's \<Rightarrow> bool" and astep :: "'a \<Rightarrow> 'a \<Rightarrow> bool" and absf :: "'s \<Rightarrow> 'a" and inv :: "'s \<Rightarrow> bool"
  assumes inv_step: "inv s \<Longrightarrow> step s t \<Longrightarrow> inv t"
    and sim_step: "inv s \<Longrightarrow> step s t \<Longrightarrow> astep (absf s) (absf t) \<or> absf t = absf s"
begin

lemma sim_run: "step\<^sup>*\<^sup>* s t \<Longrightarrow> inv s \<Longrightarrow> astep\<^sup>*\<^sup>* (absf s) (absf t) \<and> inv t"
proof (induction rule: rtranclp_induct)
  case (step t u)
  then have "inv t" "astep\<^sup>*\<^sup>* (absf s) (absf t)" by auto
  with step.hyps(2) inv_step sim_step show ?case by (metis rtranclp.rtrancl_into_rtrancl)
qed auto

text \<open>What holds in every reachable state of the service holds, through the abstraction, of the program.\<close>

lemma transfer_invariant:
  assumes "\<And>a. astep\<^sup>*\<^sup>* (absf s) a \<Longrightarrow> P a" "step\<^sup>*\<^sup>* s t" "inv s"
  shows "P (absf t)"
  using sim_run [OF assms(2,3)] assms(1) by blast

end

section \<open>The routing service\<close>

record presence =
  pz_open :: "uuid \<rightharpoonup> node_id \<times> node_tx"
  pz_route :: "node_id \<rightharpoonup> uuid"
  pz_sent :: "node_tx list"

definition presence_init :: presence where
  "presence_init = \<lparr>pz_open = Map.empty, pz_route = Map.empty, pz_sent = []\<rparr>"

inductive route_step :: "presence \<Rightarrow> presence \<Rightarrow> bool" where
  join: "pz_open p c = None \<Longrightarrow>
    route_step p (p\<lparr>pz_open := (pz_open p)(c \<mapsto> (i, tx)), pz_route := (pz_route p)(i \<mapsto> c)\<rparr>)"
| leave: "pz_open p c = Some (i, tx) \<Longrightarrow>
    route_step p (p\<lparr>pz_open := (pz_open p)(c := None),
      pz_route := (if pz_route p i = Some c then (pz_route p)(i := None) else pz_route p)\<rparr>)"
| answer: "pz_open p c = Some (i, tx) \<Longrightarrow> route_step p (p\<lparr>pz_sent := pz_sent p @ [tx]\<rparr>)"
| deliver: "pz_open p c = Some (i, tx) \<Longrightarrow> pz_route p k = Some d \<Longrightarrow> pz_open p d = Some (k, t) \<Longrightarrow>
    route_step p (p\<lparr>pz_sent := pz_sent p @ [t]\<rparr>)"

text \<open>In the service a route always leads to an open connection of its node.\<close>

lemma route_step_open:
  assumes "route_step\<^sup>*\<^sup>* presence_init p" "pz_route p i = Some c"
  shows "\<exists>t. pz_open p c = Some (i, t)"
  using assms
proof (induction arbitrary: i c rule: rtranclp_induct)
  case base
  then show ?case by (simp add: presence_init_def)
next
  case (step p q)
  from step.hyps(2) step.IH step.prems show ?case
    by (cases rule: route_step.cases) (auto split: if_splits, force+)
qed

section \<open>The refinement\<close>

definition relay_abs :: "relay_state \<Rightarrow> presence" where
  "relay_abs s = \<lparr>pz_open = rl_live s, pz_route = (\<lambda>i. map_option snd (node_route (rl_registry s) i)),
     pz_sent = map fst (rl_sent s)\<rparr>"

definition relay_ok :: "relay_state \<Rightarrow> bool" where
  "relay_ok s \<longleftrightarrow> registry_live (rl_registry s) (rl_live s)"

lemma relay_ok_route:
  assumes "relay_ok s" "get_tx i (rl_registry s) = Some t"
  obtains d where "pz_route (relay_abs s) i = Some d" "pz_open (relay_abs s) d = Some (i, t)"
  using assms by (fastforce simp: relay_ok_def registry_live_def get_tx_def relay_abs_def node_route_def)

lemma relay_simulates:
  assumes "relay_step env s t" "relay_ok s"
  shows "route_step (relay_abs s) (relay_abs t) \<or> relay_abs t = relay_abs s"
  using assms(1)
proof (cases rule: relay_step.cases)
  case (connect item tx cid i r)
  obtain nm pl cs p where r: "r = upsert_from_heartbeat i nm pl cs p tx cid (rl_registry s)"
    using connect(2) by (auto elim!: identify_cases)
  have "relay_abs t = (relay_abs s)\<lparr>pz_open := (pz_open (relay_abs s))(cid \<mapsto> (i, tx)),
      pz_route := (pz_route (relay_abs s))(i \<mapsto> cid)\<rparr>"
    by (simp add: relay_abs_def connect(1) r rr.route_register fun_eq_iff)
  with connect(3) show ?thesis using route_step.join [of "relay_abs s" cid i tx] by (simp add: relay_abs_def)
next
  case (refuse item tx cid r)
  then show ?thesis by (auto simp: relay_abs_def elim!: identify_cases)
next
  case (message cid i tx fresh raw r out)
  note d = dispatch_targets [OF message(3)]
  have route: "(\<lambda>k. map_option snd (node_route r k)) = pz_route (relay_abs s)"
    using d(3) by (simp add: relay_abs_def fun_eq_iff)
  have t: "relay_abs t = (relay_abs s)\<lparr>pz_sent := pz_sent (relay_abs s) @ map fst out\<rparr>"
    using route by (simp add: relay_abs_def message(1))
  have o: "pz_open (relay_abs s) cid = Some (i, tx)" using message(2) by (simp add: relay_abs_def)
  show ?thesis
  proof (cases out)
    case Nil
    with t show ?thesis by simp
  next
    case (Cons x xs)
    with d(1) have out: "out = [x]" by simp
    with d(2) consider "fst x = tx" | k where "get_tx k (rl_registry s) = Some (fst x)" by auto
    then show ?thesis
    proof cases
      case 1
      with t out route_step.answer [OF o] show ?thesis by simp
    next
      case 2
      obtain e where "pz_route (relay_abs s) k = Some e" "pz_open (relay_abs s) e = Some (k, fst x)"
        using relay_ok_route [OF assms(2) 2] .
      with t out route_step.deliver [OF o] show ?thesis by simp
    qed
  qed
next
  case (disconnect cid i tx)
  have "relay_abs t = (relay_abs s)\<lparr>pz_open := (pz_open (relay_abs s))(cid := None),
      pz_route := (if pz_route (relay_abs s) i = Some cid then (pz_route (relay_abs s))(i := None)
        else pz_route (relay_abs s))\<rparr>"
    by (auto simp: relay_abs_def disconnect(1) rr.route_unregister fun_eq_iff)
  with disconnect(2) show ?thesis using route_step.leave [of "relay_abs s" cid i tx] by (simp add: relay_abs_def)
qed

interpretation rsim: simulation "relay_step env" route_step relay_abs relay_ok for env
  by unfold_locales (auto simp: relay_ok_def intro: relay_step_live dest: relay_simulates [unfolded relay_ok_def])

lemma relay_reachable_steps: "relay_reachable env s \<Longrightarrow> (relay_step env)\<^sup>*\<^sup>* relay_init s"
  by (induction rule: relay_reachable.induct) (auto intro: rtranclp.rtrancl_into_rtrancl)

lemma relay_abs_init: "relay_abs relay_init = presence_init"
  by (simp add: relay_abs_def relay_init_def presence_init_def registry_new_def node_route_def)

text \<open>C5. The relay refines the routing service: every step of the relay, whatever the interleaving of
  connections, frames and disconnections, is a step of the service or leaves its state alone, and every
  reachable state is the image of a reachable one. The service delivers a message to the sender's own channel or to
  an open connection that is the route of the node, and drops a route only when the connection that
  owns it leaves.\<close>

theorem relay_refines_routing:
  assumes "relay_reachable env s" "relay_step env s t"
  shows "route_step\<^sup>*\<^sup>* presence_init (relay_abs s)
    \<and> (route_step (relay_abs s) (relay_abs t) \<or> relay_abs t = relay_abs s)"
proof -
  have i: "relay_ok relay_init" by (simp add: relay_ok_def relay_init_def registry_new_def registry_live_def)
  from rsim.sim_run [OF relay_reachable_steps [OF assms(1)] this]
  have "route_step\<^sup>*\<^sup>* presence_init (relay_abs s)" "relay_ok s" by (simp_all add: relay_abs_init)
  with rsim.sim_step [OF _ assms(2)] show ?thesis by blast
qed

theorem relay_refines_routing_witness:
  "route_step presence_init (presence_init\<lparr>pz_open := [7 \<mapsto> (NodeId 1, 3)], pz_route := [NodeId 1 \<mapsto> 7]\<rparr>)"
proof -
  have s: "relay_step demo_env relay_init (relay_init\<lparr>rl_registry := upsert_from_heartbeat (NodeId 1)
      ''Mac Node (00000000)'' Mac [Search] demo_payload 3 7 registry_new,
      rl_live := (rl_live relay_init)(7 \<mapsto> (NodeId 1, 3))\<rparr>)" (is "relay_step _ _ ?t")
    by (rule relay_step.connect [where item = "TextFrame ''x''"])
      (simp_all add: relay_init_def demo_identify)
  have "relay_abs ?t = presence_init\<lparr>pz_open := [7 \<mapsto> (NodeId 1, 3)], pz_route := [NodeId 1 \<mapsto> 7]\<rparr>"
    by (simp add: relay_abs_def relay_init_def presence_init_def registry_new_def rr.route_register fun_eq_iff
        node_route_def [of "[]"])
  with relay_refines_routing [OF relay_reachable.start s] show ?thesis
    by (auto simp: relay_abs_init presence_init_def)
qed

end
