(* ===== verification/Proc_Text.thy ===== *)
theory Proc_Text
  imports Http_Send Float_Model
begin

text \<open>
  What the readers of text tables use of Rust's \<^verbatim>\<open>str\<close> and number parsers: \<^verbatim>\<open>split_whitespace\<close>,
  \<^verbatim>\<open>from_str_radix\<close>, \<^verbatim>\<open>str::parse::<f64>\<close>, and the facts on words and lines their round trips need.
\<close>

section \<open>Words\<close>

function ws_parts :: "nat list \<Rightarrow> nat list \<Rightarrow> nat list list" where
  "ws_parts cur bs =
    (if bs = [] then (if cur = [] then [] else [cur])
     else if 0 < ws_len bs then (if cur = [] then [] else [cur]) @ ws_parts [] (drop (ws_len bs) bs)
     else ws_parts (cur @ [hd bs]) (tl bs))"
  by pat_completeness auto
termination
  by (relation "measure (\<lambda>(_, bs). length bs)") auto

declare ws_parts.simps [simp del]

text \<open>\<^verbatim>\<open>split_whitespace().collect()\<close>\<close>

definition words :: "string \<Rightarrow> string list" where
  "words s = map (map char_of) (ws_parts [] (map of_char s))"

text \<open>\<^verbatim>\<open>parts.get(n)\<close>, \<^verbatim>\<open>iter.nth(n)\<close>\<close>

definition nth_opt :: "nat \<Rightarrow> 'a list \<Rightarrow> 'a option" where
  "nth_opt n xs = (if n < length xs then Some (xs ! n) else None)"

section \<open>Numbers\<close>

definition parse_u64 :: "string \<Rightarrow> u64 option" where
  "parse_u64 s = map_option of_nat (parse_unsigned (2 ^ 64) s)"

text \<open>\<^verbatim>\<open>s.parse::<u64>().unwrap_or(d)\<close>\<close>

definition u64_or :: "u64 \<Rightarrow> string \<Rightarrow> u64" where
  "u64_or d s = (case parse_u64 s of Some n \<Rightarrow> n | None \<Rightarrow> d)"

text \<open>\<^verbatim>\<open>line.split_whitespace().nth(1).and_then(|s| s.parse::<u64>().ok()).unwrap_or(0)\<close>\<close>

definition second_u64 :: "string \<Rightarrow> u64" where
  "second_u64 line = (case nth_opt 1 (words line) of Some w \<Rightarrow> u64_or 0 w | None \<Rightarrow> 0)"

text \<open>\<^verbatim>\<open>u64::from_str_radix(s, 16)\<close>\<close>

definition hex_digit_value :: "char \<Rightarrow> nat" where
  "hex_digit_value c = (if is_ascii_digit c then code c - 48
     else if is_ascii_upper c then code c - 55 else code c - 87)"

definition parse_hex_u64 :: "string \<Rightarrow> u64 option" where
  "parse_hex_u64 s =
    (let d = (case s of [] \<Rightarrow> [] | c # cs \<Rightarrow> if c = CHR ''+'' then cs else s);
         v = foldl (\<lambda>a c. a * 16 + hex_digit_value c) 0 d in
     if d = [] \<or> \<not> list_all is_ascii_hexdigit d \<or> v \<ge> 2 ^ 64 then None else Some (of_nat v))"

text \<open>\<^verbatim>\<open>str::parse::<f64>\<close>: an optional sign, then \<^verbatim>\<open>inf\<close>, \<^verbatim>\<open>infinity\<close>, \<^verbatim>\<open>nan\<close> in any case, or digits with an
  optional fraction (one side of the point may be empty) and an optional exponent.\<close>

definition take_digits :: "string \<Rightarrow> string \<times> string" where
  "take_digits s = (takeWhile is_ascii_digit s, dropWhile is_ascii_digit s)"

definition parse_exponent :: "string \<Rightarrow> int option" where
  "parse_exponent s =
    (case s of
       [] \<Rightarrow> Some 0
     | e # r \<Rightarrow>
         (if e = CHR ''e'' \<or> e = CHR ''E'' then
            (let neg = (r \<noteq> [] \<and> hd r = CHR ''-'');
                 d = (if r \<noteq> [] \<and> (hd r = CHR ''-'' \<or> hd r = CHR ''+'') then tl r else r) in
             if d = [] \<or> \<not> list_all is_ascii_digit d then None
             else Some (if neg then - int (digits_value d) else int (digits_value d)))
          else None))"

definition parse_decimal :: "string \<Rightarrow> rat option" where
  "parse_decimal s =
    (let (w, r1) = take_digits s;
         (f, r2) = (case r1 of c # r \<Rightarrow> if c = CHR ''.'' then take_digits r else ([], r1) | [] \<Rightarrow> ([], [])) in
     if w = [] \<and> f = [] then None
     else map_option (\<lambda>e. (of_nat (digits_value (w @ f)) / 10 ^ length f) * (if 0 \<le> e then 10 ^ nat e else 1 / 10 ^ nat (- e)))
       (parse_exponent r2))"

definition parse_f64 :: "rounding \<Rightarrow> string \<Rightarrow> fl option" where
  "parse_f64 rnd s =
    (let neg = (s \<noteq> [] \<and> hd s = CHR ''-'');
         b = (if s \<noteq> [] \<and> (hd s = CHR ''-'' \<or> hd s = CHR ''+'') then tl s else s);
         l = map ascii_lower b in
     if l = ''inf'' \<or> l = ''infinity'' then Some (if neg then NegInf else PosInf)
     else if l = ''nan'' then Some NaN
     else map_option (\<lambda>q. rnd (if neg then - q else q)) (parse_decimal b))"

text \<open>\<^verbatim>\<open>&s[i + 1..]\<close> for the last index \<^verbatim>\<open>i\<close> of a character.\<close>

definition after_last :: "char \<Rightarrow> string \<Rightarrow> string option" where
  "after_last c s = map_option snd (rsplit_once c s)"

section \<open>Facts\<close>

text \<open>A word as the kernel writes them: printable ASCII.\<close>

definition plain_word :: "string \<Rightarrow> bool" where
  "plain_word w \<longleftrightarrow> w \<noteq> [] \<and> list_all (\<lambda>c. 33 \<le> code c \<and> code c \<le> 126) w"

definition unwords :: "string list \<Rightarrow> string" where
  "unwords ws = concat (map (\<lambda>w. CHR '' '' # w) ws)"

lemma ws_len_plain: "33 \<le> b \<Longrightarrow> b \<le> 126 \<Longrightarrow> ws_len (b # r) = 0"
  by (simp add: ws_len_def)

lemma ws_len_space [simp]: "ws_len (32 # r) = 1"
  by (simp add: ws_len_def)

lemma ws_parts_Nil [simp]: "ws_parts cur [] = (if cur = [] then [] else [cur])"
  by (simp add: ws_parts.simps)

lemma ws_parts_space [simp]: "ws_parts cur (32 # bs) = (if cur = [] then [] else [cur]) @ ws_parts [] bs"
  by (simp add: ws_parts.simps [of cur "32 # bs"])

lemma ws_parts_plain:
  "list_all (\<lambda>b. 33 \<le> b \<and> b \<le> 126) w \<Longrightarrow> ws_parts cur (w @ bs) = ws_parts (cur @ w) bs"
proof (induction w arbitrary: cur)
  case (Cons b w)
  then show ?case by (simp add: ws_parts.simps [of cur "b # w @ bs"] ws_len_plain)
qed simp

lemma ws_parts_words:
  "list_all plain_word ws \<Longrightarrow> list_all (\<lambda>b. 33 \<le> b \<and> b \<le> 126) cur
    \<Longrightarrow> ws_parts cur (map of_char (unwords ws)) = (if cur = [] then [] else [cur]) @ map (map of_char) ws"
proof (induction ws arbitrary: cur)
  case Nil
  then show ?case by (simp add: unwords_def)
next
  case (Cons w ws)
  have p: "list_all (\<lambda>b :: nat. 33 \<le> b \<and> b \<le> 126) (map of_char w)" "w \<noteq> []"
    using Cons.prems(1) by (simp_all add: plain_word_def code_def list_all_iff)
  have "ws_parts cur (map of_char (unwords (w # ws))) =
      (if cur = [] then [] else [cur]) @ ws_parts [] (map of_char w @ map of_char (unwords ws))"
    by (simp add: unwords_def)
  also have "ws_parts [] (map of_char w @ map of_char (unwords ws)) = map (map of_char) (w # ws)"
    using Cons.IH [of "map of_char w"] Cons.prems(1) p by (simp add: ws_parts_plain)
  finally show ?case .
qed

lemma words_unwords: "list_all plain_word ws \<Longrightarrow> words (unwords ws) = ws"
  using ws_parts_words [of ws "[]"] by (simp add: words_def comp_def)

lemma words_lead:
  assumes "plain_word w" "list_all plain_word ws"
  shows "words (w @ unwords ws) = w # ws"
  using words_unwords [of "w # ws"] assms unfolding words_def
  by (simp add: unwords_def)

lemma plain_word_show: "plain_word (show_nat n)"
  using show_nat_digits [of n] by (auto simp: plain_word_def list_all_iff is_ascii_digit_def)

lemma trim_start_spaces:
  "33 \<le> b \<Longrightarrow> b \<le> 126 \<Longrightarrow> trim_start_codes (replicate n 32 @ b # bs) = b # bs"
  by (induction n) (simp_all add: trim_start_codes.simps [of "b # bs"] trim_start_codes.simps [of "32 # _"] ws_len_plain)

lemma blank_plain: "plain_word w \<Longrightarrow> \<not> blank w"
  by (cases w) (auto simp: plain_word_def blank_def trim_start_codes.simps [of "_ # _"] ws_len_plain code_def)

lemma trim_end_plain: "list_all (\<lambda>c. 33 \<le> code c \<and> code c \<le> 126) w \<Longrightarrow> trim_end w = w"
proof (induction w)
  case (Cons c w)
  then have "\<not> blank (c # w)" by (intro blank_plain) (simp add: plain_word_def)
  with Cons show ?case by simp
qed simp

lemma trim_padded:
  assumes "plain_word w"
  shows "trim (replicate n (CHR '' '') @ w) = w"
proof -
  obtain c cs where w: "w = c # cs" using assms by (cases w) (auto simp: plain_word_def)
  have "trim_start_codes (map of_char (replicate n (CHR '' '') @ w)) = map of_char w"
    using assms trim_start_spaces [of "of_char c" n "map of_char cs"]
    by (simp add: w plain_word_def code_def map_replicate_const)
  then show ?thesis using assms trim_end_plain [of w] by (simp add: trim_def plain_word_def comp_def)
qed

lemma u64_or_show: "n < 2 ^ 64 \<Longrightarrow> u64_or d (show_nat n) = of_nat n"
  by (simp add: u64_or_def parse_u64_def parse_show_nat)

lemma u64_or_show_word [simp]: "u64_or d (show_nat (unat (x :: u64))) = x"
proof -
  have "unat x < 2 ^ LENGTH(64)" by (rule unsigned_less)
  then show ?thesis by (simp add: u64_or_show)
qed

text \<open>Text made of complete lines.\<close>

definition unlines :: "string list \<Rightarrow> string" where
  "unlines ls = concat (map (\<lambda>l. l @ [CHR 0x0A]) ls)"

definition plain_line :: "string \<Rightarrow> bool" where
  "plain_line l \<longleftrightarrow> CHR 0x0A \<notin> set l \<and> CHR 0x0D \<notin> set l"

lemma str_split_unlines: "list_all plain_line ls \<Longrightarrow> str_split (CHR 0x0A) (unlines ls) = ls @ [[]]"
proof (induction ls)
  case (Cons l ls)
  then show ?case using str_split_append [of "CHR 0x0A" l "unlines ls"]
    by (simp add: unlines_def plain_line_def)
qed (simp add: unlines_def)

lemma str_lines_unlines: "list_all plain_line ls \<Longrightarrow> str_lines (unlines ls) = ls"
proof -
  assume a: "list_all plain_line ls"
  have "map strip_cr ls = ls"
    using a by (induction ls) (auto simp: plain_line_def strip_cr_def dest: last_in_set)
  then show ?thesis by (simp add: str_lines_def str_split_unlines [OF a] Let_def)
qed

lemma plain_line_append [simp]: "plain_line (a @ b) \<longleftrightarrow> plain_line a \<and> plain_line b"
  by (auto simp: plain_line_def)

lemma plain_word_line: "plain_word w \<Longrightarrow> plain_line w"
  by (auto simp: plain_word_def plain_line_def list_all_iff code_def)

lemma plain_line_unwords: "list_all plain_word ws \<Longrightarrow> plain_line (unwords ws)"
  by (induction ws) (auto simp: unwords_def plain_line_def dest: plain_word_line)

lemma parse_f64_show: "parse_f64 rnd (show_nat n) = Some (rnd (of_nat n))"
proof -
  obtain c cs where s: "show_nat n = c # cs" using show_nat_digits [of n] by (cases "show_nat n") auto
  have d: "list_all is_ascii_digit (c # cs)" "digits_value (c # cs) = n" using show_nat_digits [of n] s by simp_all
  then have "take_digits (c # cs) = (c # cs, [])"
    by (auto simp: take_digits_def list_all_iff takeWhile_eq_all_conv dropWhile_eq_Nil_conv
        simp del: takeWhile.simps dropWhile.simps)
  then have "parse_decimal (c # cs) = Some (of_nat n)"
    using d(2) by (simp add: parse_decimal_def parse_exponent_def)
  moreover have "ascii_lower c = c" "c \<noteq> CHR ''-''" "c \<noteq> CHR ''+''" "c \<noteq> CHR ''i''" "c \<noteq> CHR ''n''"
    using d(1) by (auto simp: ascii_defs)
  ultimately show ?thesis by (simp add: s parse_f64_def Let_def)
qed

end
