(* ===== verification/Proc_Files.thy ===== *)
theory Proc_Files
  imports Proc_Text
begin

text \<open>
  The readers of the kernel's text files in the file server of the Android agent
  (\<^verbatim>\<open>agents/android/src/file_server.rs\<close>): network counters, socket details, memory, scheduling. A file
  system is a function from paths to contents, \<open>None\<close> where \<^verbatim>\<open>read_to_string\<close> fails; an index out of
  bounds, where the code has one, is the result \<open>None\<close> of the reader.
\<close>

type_synonym proc_fs = "string \<Rightarrow> string option"

definition proc_lines :: "proc_fs \<Rightarrow> string \<Rightarrow> string list" where
  "proc_lines p path = (case p path of Some s \<Rightarrow> str_lines s | None \<Rightarrow> [])"

section \<open>Tables with a line of names and a line of values\<close>

fun tcp_value :: "u64 \<times> u64 \<times> u64 \<Rightarrow> string \<times> string \<Rightarrow> u64 \<times> u64 \<times> u64" where
  "tcp_value (in_segs, out_segs, retrans) (h, v) =
    (if h = ''InSegs'' then (u64_or 0 v, out_segs, retrans)
     else if h = ''OutSegs'' then (in_segs, u64_or 0 v, retrans)
     else if h = ''RetransSegs'' then (in_segs, out_segs, u64_or 0 v)
     else (in_segs, out_segs, retrans))"

fun tcp_ext_value :: "u64 \<times> u64 \<times> u64 \<Rightarrow> string \<times> string \<Rightarrow> u64 \<times> u64 \<times> u64" where
  "tcp_ext_value (dup, ooo, zero_win) (h, v) =
    (if h = ''TCPDuplicateAcks'' then (u64_or 0 v, ooo, zero_win)
     else if h = ''TCPOFOQueue'' then (dup, u64_or 0 v, zero_win)
     else if h = ''TCPWantZeroWindowAdv'' \<or> h = ''TCPRcvPruned'' then (dup, ooo, zero_win + u64_or 0 v)
     else (dup, ooo, zero_win))"

text \<open>The loop takes a line with the prefix and the line after it.\<close>

fun table_loop :: "string \<Rightarrow> ('s \<Rightarrow> string \<times> string \<Rightarrow> 's) \<Rightarrow> string list \<Rightarrow> 's \<Rightarrow> 's" where
  "table_loop pre f [] s = s"
| "table_loop pre f [l] s = s"
| "table_loop pre f (l # v # ls) s =
    (if prefix pre l then
       table_loop pre f ls
         (if length (words l) = length (words v) then foldl f s (zip (words l) (words v)) else s)
     else table_loop pre f (v # ls) s)"

definition parse_proc_net_snmp :: "proc_fs \<Rightarrow> u64 \<times> u64 \<times> u64" where
  "parse_proc_net_snmp p = table_loop ''Tcp:'' tcp_value (proc_lines p ''/proc/net/snmp'') (0, 0, 0)"

definition parse_proc_net_netstat :: "proc_fs \<Rightarrow> u64 \<times> u64 \<times> u64" where
  "parse_proc_net_netstat p = table_loop ''TcpExt:'' tcp_ext_value (proc_lines p ''/proc/net/netstat'') (0, 0, 0)"

section \<open>Interfaces\<close>

text \<open>The test is for eight columns, the code reads ten.\<close>

definition dev_line :: "u64 \<times> u64 \<times> u64 \<times> u64 \<Rightarrow> string \<Rightarrow> (u64 \<times> u64 \<times> u64 \<times> u64) option" where
  "dev_line s line =
    (if CHR '':'' \<in> set line then
       (let parts = str_split (CHR '':'') line in
        if trim (parts ! 0) = ''lo'' then Some s
        else
          (let st = words (parts ! 1) in
           if length st \<ge> 8 then
             (if length st \<ge> 10 then
                (case s of (rxb, rxp, txb, txp) \<Rightarrow>
                   Some (rxb + u64_or 0 (st ! 0), rxp + u64_or 0 (st ! 1), txb + u64_or 0 (st ! 8), txp + u64_or 0 (st ! 9)))
              else None)
           else Some s))
     else Some s)"

fun dev_loop :: "string list \<Rightarrow> u64 \<times> u64 \<times> u64 \<times> u64 \<Rightarrow> (u64 \<times> u64 \<times> u64 \<times> u64) option" where
  "dev_loop [] s = Some s"
| "dev_loop (l # ls) s = (case dev_line s l of Some t \<Rightarrow> dev_loop ls t | None \<Rightarrow> None)"

definition parse_proc_net_dev :: "proc_fs \<Rightarrow> (u64 \<times> u64 \<times> u64 \<times> u64) option" where
  "parse_proc_net_dev p = dev_loop (proc_lines p ''/proc/net/dev'') (0, 0, 0, 0)"

section \<open>A connection of \<^verbatim>\<open>ss -t -i -n\<close>\<close>

record socket_tcp_info =
  sti_rtt_ms :: fl
  sti_cwnd :: u64
  sti_rcv_space :: u64
  sti_recv_q :: u64
  sti_send_q :: u64

definition word_at :: "nat \<Rightarrow> string \<Rightarrow> string" where
  "word_at i line = (case words (drop i line) of w # _ \<Rightarrow> w | [] \<Rightarrow> [])"

definition f64_or :: "rounding \<Rightarrow> fl \<Rightarrow> string \<Rightarrow> fl" where
  "f64_or rnd d s = (case parse_f64 rnd s of Some x \<Rightarrow> x | None \<Rightarrow> d)"

definition ss_info :: "rounding \<Rightarrow> u64 \<Rightarrow> u64 \<Rightarrow> string \<Rightarrow> socket_tcp_info" where
  "ss_info rnd recv_q send_q info =
    \<lparr>sti_rtt_ms = (case str_find ''rtt:'' info of
        Some i \<Rightarrow> (let s = word_at (i + 4) info in
          f64_or rnd (rnd (1 / 10)) (if CHR ''/'' \<in> set s then hd (str_split (CHR ''/'') s) else s))
      | None \<Rightarrow> rnd (1 / 10)),
     sti_cwnd = (case str_find ''cwnd:'' info of Some i \<Rightarrow> u64_or 10 (word_at (i + 5) info) | None \<Rightarrow> 10),
     sti_rcv_space = (case str_find ''rcvspace:'' info of
        Some i \<Rightarrow> u64_or 14600 (word_at (i + 9) info)
      | None \<Rightarrow> (case str_find ''rcv_space:'' info of
          Some i \<Rightarrow> u64_or 14600 (word_at (i + 10) info) | None \<Rightarrow> 14600)),
     sti_recv_q = recv_q, sti_send_q = send_q\<rparr>"

fun ss_loop :: "rounding \<Rightarrow> string \<Rightarrow> string list \<Rightarrow> socket_tcp_info option" where
  "ss_loop rnd port_str [] = None"
| "ss_loop rnd port_str (l # ls) =
    (if contains l port_str \<and> length (words l) \<ge> 5 then
       (case ls of
          [] \<Rightarrow> None
        | info # _ \<Rightarrow> Some (ss_info rnd (u64_or 0 (words l ! 1)) (u64_or 0 (words l ! 2)) info))
     else ss_loop rnd port_str ls)"

text \<open>The result of running the program: whether it succeeded, and its output.\<close>

definition parse_ss_connection :: "rounding \<Rightarrow> u16 \<Rightarrow> (bool \<times> bytes) option \<Rightarrow> socket_tcp_info option" where
  "parse_ss_connection rnd port run =
    (case run of
       Some (True, stdout) \<Rightarrow> ss_loop rnd ('':'' @ show_nat (unat port)) (str_lines (from_utf8_lossy stdout))
     | _ \<Rightarrow> None)"

section \<open>One value to a line\<close>

text \<open>A loop over the lines that keeps the value of the first name of the list which the line starts with.\<close>

fun key_value :: "string list \<Rightarrow> u64 list \<Rightarrow> string \<Rightarrow> u64 list" where
  "key_value (k # ks) (v # vs) line = (if prefix k line then second_u64 line # vs else v # key_value ks vs line)"
| "key_value _ vs line = vs"

definition key_values :: "string list \<Rightarrow> string list \<Rightarrow> u64 list" where
  "key_values ks ls = foldl (key_value ks) (replicate (length ks) 0) ls"

definition parse_self_io :: "proc_fs \<Rightarrow> u64 \<times> u64 \<times> u64" where
  "parse_self_io p = (let v = key_values [''syscw:'', ''wchar:'', ''write_bytes:''] (proc_lines p ''/proc/self/io'') in
     (v ! 0, v ! 1, v ! 2))"

definition parse_meminfo_fs :: "proc_fs \<Rightarrow> u64 \<times> u64 \<times> u64" where
  "parse_meminfo_fs p =
    (let v = key_values [''Dirty:'', ''Writeback:'', ''Cached:'', ''Buffers:''] (proc_lines p ''/proc/meminfo'') in
     (v ! 0, v ! 1, v ! 2 + v ! 3))"

definition first_value :: "string \<Rightarrow> string list \<Rightarrow> u64" where
  "first_value key ls = (case find (prefix key) ls of Some l \<Rightarrow> second_u64 l | None \<Rightarrow> 0)"

definition parse_vmstat_fs :: "proc_fs \<Rightarrow> u64" where
  "parse_vmstat_fs p = first_value ''nr_written '' (proc_lines p ''/proc/vmstat'')"

definition parse_run_queue_length :: "proc_fs \<Rightarrow> u64" where
  "parse_run_queue_length p = first_value ''procs_running '' (proc_lines p ''/proc/stat'')"

definition parse_self_status_switches :: "proc_fs \<Rightarrow> u64 \<times> u64" where
  "parse_self_status_switches p =
    (let v = key_values [''voluntary_ctxt_switches:'', ''nonvoluntary_ctxt_switches:''] (proc_lines p ''/proc/self/status'') in
     (v ! 0, v ! 1))"

text \<open>The words after the last closing parenthesis of \<^verbatim>\<open>/proc/self/stat\<close>.\<close>

definition stat_words :: "string \<Rightarrow> string list option" where
  "stat_words contents = map_option words (after_last (CHR '')'') contents)"

definition stat_faults :: "string option \<Rightarrow> u64 \<times> u64" where
  "stat_faults contents =
    (case Option.bind contents stat_words of
       Some ps \<Rightarrow> if length ps > 9 then (u64_or 0 (ps ! 7), u64_or 0 (ps ! 9)) else (0, 0)
     | None \<Rightarrow> (0, 0))"

definition parse_self_memory_stats :: "proc_fs \<Rightarrow> u64 \<times> u64 \<times> u64 \<times> u64 \<times> u64 \<times> u64 \<times> u64" where
  "parse_self_memory_stats p =
    (let v = map (\<lambda>kb. kb * 1024)
           (key_values [''VmData:'', ''RssAnon:'', ''RssFile:'', ''VmRSS:'', ''VmSize:''] (proc_lines p ''/proc/self/status''));
         (minor, major) = stat_faults (p ''/proc/self/stat'') in
     (v ! 4, v ! 3, v ! 0, v ! 1, v ! 2, minor, major))"

definition map_pages :: "string \<Rightarrow> u64" where
  "map_pages line =
    (case words line of
       [] \<Rightarrow> 0
     | w # _ \<Rightarrow>
         (case str_split (CHR ''-'') w of
            [a, b] \<Rightarrow> (case (parse_hex_u64 a, parse_hex_u64 b) of
                (Some lo, Some hi) \<Rightarrow> sat_sub hi lo div 4096 | _ \<Rightarrow> 0)
          | _ \<Rightarrow> 0))"

definition parse_self_maps_pages :: "proc_fs \<Rightarrow> u64" where
  "parse_self_maps_pages p = foldl (\<lambda>n l. n + map_pages l) 0 (proc_lines p ''/proc/self/maps'')"

text \<open>\<^verbatim>\<open>line.split(':').nth(1)\<close>\<close>

definition after_colon :: "string \<Rightarrow> string option" where
  "after_colon line = nth_opt 1 (str_split (CHR '':'') line)"

definition migrations :: "string list \<Rightarrow> u64" where
  "migrations ls = foldl (\<lambda>m line.
     if contains line ''nr_migrations'' then
       (case after_colon line of Some v \<Rightarrow> u64_or 0 (trim v) | None \<Rightarrow> m)
     else m) 0 ls"

definition parse_self_sched_migrations :: "proc_fs \<Rightarrow> u64" where
  "parse_self_sched_migrations p = migrations (proc_lines p ''/proc/self/sched'')"

fun wait_sum_loop :: "rounding \<Rightarrow> string list \<Rightarrow> u64" where
  "wait_sum_loop rnd [] = 0"
| "wait_sum_loop rnd (l # ls) =
    (if contains l ''se.statistics.wait_sum'' \<or> contains l ''wait_sum'' then
       (case Option.bind (after_colon l) (\<lambda>v. parse_f64 rnd (trim v)) of
          Some x \<Rightarrow> fl_as_u64 (fl_mul rnd x (Fin 1000000))
        | None \<Rightarrow> wait_sum_loop rnd ls)
     else wait_sum_loop rnd ls)"

definition parse_sched_latency :: "rounding \<Rightarrow> proc_fs \<Rightarrow> u64" where
  "parse_sched_latency rnd p =
    (case Option.bind (p ''/proc/self/schedstat'') (\<lambda>c. Option.bind (nth_opt 1 (words c)) parse_u64) of
       Some ns \<Rightarrow> ns
     | None \<Rightarrow> wait_sum_loop rnd (proc_lines p ''/proc/self/sched''))"

section \<open>The metrics of the kernel before and after a transfer\<close>

record cpu_ticks =
  ct_user :: u64
  ct_nice :: u64
  ct_system :: u64
  ct_idle :: u64
  ct_iowait :: u64
  ct_irq :: u64
  ct_softirq :: u64
  ct_steal :: u64

record linux_metrics =
  lm_raw :: "string list"
  lm_minor_faults :: u64
  lm_major_faults :: u64
  lm_voluntary :: u64
  lm_involuntary :: u64
  lm_bytes_read :: u64
  lm_bytes_written :: u64
  lm_cpu_migrations :: u64
  lm_cpu :: cpu_ticks
  lm_interrupts :: u64

definition no_ticks :: cpu_ticks where
  "no_ticks = \<lparr>ct_user = 0, ct_nice = 0, ct_system = 0, ct_idle = 0, ct_iowait = 0, ct_irq = 0, ct_softirq = 0, ct_steal = 0\<rparr>"

definition tick_line :: "string list \<Rightarrow> cpu_ticks" where
  "tick_line ls =
    (case ls of
       [] \<Rightarrow> no_ticks
     | l # _ \<Rightarrow>
         (let ps = words l; n = (\<lambda>i. u64_or 0 (ps ! i)) in
          if length ps > 8 then
            \<lparr>ct_user = n 1, ct_nice = n 2, ct_system = n 3, ct_idle = n 4, ct_iowait = n 5, ct_irq = n 6,
             ct_softirq = n 7, ct_steal = n 8\<rparr>
          else no_ticks))"

definition text_or_empty :: "proc_fs \<Rightarrow> string \<Rightarrow> string" where
  "text_or_empty p path = (case p path of Some s \<Rightarrow> s | None \<Rightarrow> [])"

definition raw_files :: "string list" where
  "raw_files = [''/proc/self/stat'', ''/proc/self/status'', ''/proc/self/io'', ''/proc/self/sched'', ''/proc/stat'',
     ''/proc/meminfo'', ''/proc/softirqs'', ''/proc/interrupts'']"

text \<open>The flag is \<^verbatim>\<open>cfg(target_os = "linux")\<close>, which does not hold on Android.\<close>

definition collect_linux_metrics :: "bool \<Rightarrow> proc_fs \<Rightarrow> linux_metrics" where
  "collect_linux_metrics linux p =
    (if linux then
       (let (minor, major) = stat_faults (Some (text_or_empty p ''/proc/self/stat''));
            (vol, invol) = parse_self_status_switches p;
            io = key_values [''read_bytes:'', ''write_bytes:''] (proc_lines p ''/proc/self/io'');
            proc_stat = proc_lines p ''/proc/stat'' in
        \<lparr>lm_raw = map (text_or_empty p) raw_files, lm_minor_faults = minor, lm_major_faults = major,
         lm_voluntary = vol, lm_involuntary = invol, lm_bytes_read = io ! 0, lm_bytes_written = io ! 1,
         lm_cpu_migrations = parse_self_sched_migrations p, lm_cpu = tick_line proc_stat,
         lm_interrupts = first_value ''intr '' proc_stat\<rparr>)
     else
       \<lparr>lm_raw = map (\<lambda>_. []) raw_files, lm_minor_faults = 0, lm_major_faults = 0, lm_voluntary = 0, lm_involuntary = 0,
        lm_bytes_read = 0, lm_bytes_written = 0, lm_cpu_migrations = 0, lm_cpu = no_ticks, lm_interrupts = 0\<rparr>)"

end
