(* ===== verification/Proc_Facts.thy ===== *)
theory Proc_Facts
  imports Proc_Files
begin

text \<open>
  What the readers of the kernel's files return on files in the kernel's formats: the writer of each format is
  written out here, and the readers are shown to invert it.
\<close>

section \<open>Tables of counters\<close>

text \<open>\<^verbatim>\<open>/proc/net/snmp\<close> and \<^verbatim>\<open>/proc/net/netstat\<close>: for each table a line of names and a line of values.\<close>

type_synonym counter_table = "string \<times> (string \<times> u64) list"

definition table_lines :: "counter_table \<Rightarrow> string list" where
  "table_lines t = [fst t @ '':'' @ unwords (map fst (snd t)), fst t @ '':'' @ unwords (map (show_nat \<circ> unat \<circ> snd) (snd t))]"

definition kernel_tables :: "counter_table list \<Rightarrow> string" where
  "kernel_tables ts = unlines (concat (map table_lines ts))"

definition table_ok :: "counter_table \<Rightarrow> bool" where
  "table_ok t \<longleftrightarrow> plain_word (fst t) \<and> CHR '':'' \<notin> set (fst t)
     \<and> list_all (\<lambda>c. plain_word (fst c)) (snd t) \<and> distinct (map fst (snd t))"

definition counter :: "counter_table list \<Rightarrow> string \<Rightarrow> string \<Rightarrow> u64" where
  "counter ts tab c = (case map_of ts tab of
     Some cs \<Rightarrow> (case map_of cs c of Some v \<Rightarrow> v | None \<Rightarrow> 0) | None \<Rightarrow> 0)"

lemma prefix_table: "CHR '':'' \<notin> set n \<Longrightarrow> CHR '':'' \<notin> set k \<Longrightarrow> prefix (k @ '':'') (n @ CHR '':'' # r) \<longleftrightarrow> n = k"
proof (induction k arbitrary: n)
  case Nil
  then show ?case by (cases n) auto
next
  case (Cons c k)
  then show ?case by (cases n) auto
qed

lemma plain_word_colon: "plain_word n \<Longrightarrow> plain_word (n @ '':'')"
  by (simp add: plain_word_def code_def)

lemma words_table_lines:
  assumes "table_ok t"
  shows "map words (table_lines t) =
    [(fst t @ '':'') # map fst (snd t), (fst t @ '':'') # map (show_nat \<circ> unat \<circ> snd) (snd t)]"
proof -
  have "list_all plain_word (map fst (snd t))" "list_all plain_word (map (show_nat \<circ> unat \<circ> snd) (snd t))"
    using assms by (auto simp: table_ok_def list_all_iff plain_word_show)
  with words_lead [OF plain_word_colon [of "fst t"]] assms show ?thesis
    by (simp add: table_lines_def table_ok_def)
qed

lemma table_loop_skip: "\<not> prefix pre l \<Longrightarrow> table_loop pre f (l # ls) s = table_loop pre f ls s"
  by (cases ls) simp_all

lemma table_loop_tables:
  assumes "list_all table_ok ts" "CHR '':'' \<notin> set k"
  shows "table_loop (k @ '':'') f (concat (map table_lines ts)) s =
    foldl (\<lambda>s t. foldl f s ((k @ '':'', k @ '':'') # map (\<lambda>(h, v). (h, show_nat (unat v))) (snd t))) s
      (filter (\<lambda>t. fst t = k) ts)"
  using assms(1)
proof (induction ts arbitrary: s)
  case (Cons t ts)
  have ok: "table_ok t" using Cons.prems by simp
  obtain a b where l: "table_lines t = [a, b]" by (simp add: table_lines_def)
  have p: "prefix (k @ '':'') a \<longleftrightarrow> fst t = k" "prefix (k @ '':'') b \<longleftrightarrow> fst t = k"
    using ok assms(2) l by (auto simp: table_lines_def table_ok_def prefix_table)
  have w: "words a = (fst t @ '':'') # map fst (snd t)" "words b = (fst t @ '':'') # map (show_nat \<circ> unat \<circ> snd) (snd t)"
    using words_table_lines [OF ok] unfolding l by simp_all
  have z: "zip (words a) (words b) = (fst t @ '':'', fst t @ '':'') # map (\<lambda>(h, v). (h, show_nat (unat v))) (snd t)"
    by (simp add: w zip_map_map zip_same_conv_map split_def comp_def)
  show ?case
  proof (cases "fst t = k")
    case True
    then show ?thesis using Cons z by (simp add: l p w)
  next
    case False
    with Cons show ?thesis by (simp add: l p table_loop_skip)
  qed
qed simp

lemma plain_tables:
  assumes "list_all table_ok ts"
  shows "list_all plain_line (concat (map table_lines ts))"
proof -
  have "list_all plain_line (table_lines t)" if "table_ok t" for t
    using that plain_word_line [of "fst t"] plain_line_unwords [of "map fst (snd t)"]
      plain_line_unwords [of "map (show_nat \<circ> unat \<circ> snd) (snd t)"]
    by (simp add: table_lines_def table_ok_def list_all_iff plain_word_show) (simp add: plain_line_def)
  with assms show ?thesis by (auto simp: list_all_iff)
qed

lemma filter_key:
  "distinct (map fst ts) \<Longrightarrow> filter (\<lambda>t. fst t = k) ts = (case map_of ts k of Some x \<Rightarrow> [(k, x)] | None \<Rightarrow> [])"
proof (induction ts)
  case (Cons t ts)
  then show ?case by (cases t) (auto simp: map_of_eq_None_iff [symmetric] split: option.splits)
qed simp

text \<open>Reading the columns of one table.\<close>

lemma tcp_values:
  assumes "distinct (map fst cs)"
  shows "foldl tcp_value (a, b, c) (map (\<lambda>(h, v). (h, show_nat (unat (v :: u64)))) cs) =
    (case map_of cs ''InSegs'' of Some v \<Rightarrow> v | None \<Rightarrow> a,
     case map_of cs ''OutSegs'' of Some v \<Rightarrow> v | None \<Rightarrow> b,
     case map_of cs ''RetransSegs'' of Some v \<Rightarrow> v | None \<Rightarrow> c)"
  using assms
proof (induction cs arbitrary: a b c)
  case (Cons x cs)
  obtain h v where x: "x = (h, v)" by (cases x)
  then have none: "map_of cs h = None" using Cons.prems by (simp add: map_of_eq_None_iff)
  consider "h = ''InSegs''" | "h = ''OutSegs''" | "h = ''RetransSegs''" | "h \<notin> {''InSegs'', ''OutSegs'', ''RetransSegs''}" by blast
  then show ?case by cases (use Cons none in \<open>simp_all add: x eq_commute [of _ h]\<close>)
qed simp

lemma tcp_ext_values:
  assumes "distinct (map fst cs)"
  shows "foldl tcp_ext_value (a, b, c) (map (\<lambda>(h, v). (h, show_nat (unat (v :: u64)))) cs) =
    (case map_of cs ''TCPDuplicateAcks'' of Some v \<Rightarrow> v | None \<Rightarrow> a,
     case map_of cs ''TCPOFOQueue'' of Some v \<Rightarrow> v | None \<Rightarrow> b,
     c + (case map_of cs ''TCPWantZeroWindowAdv'' of Some v \<Rightarrow> v | None \<Rightarrow> 0)
       + (case map_of cs ''TCPRcvPruned'' of Some v \<Rightarrow> v | None \<Rightarrow> 0))"
  using assms
proof (induction cs arbitrary: a b c)
  case (Cons x cs)
  obtain h v where x: "x = (h, v)" by (cases x)
  then have none: "map_of cs h = None" using Cons.prems by (simp add: map_of_eq_None_iff)
  consider "h = ''TCPDuplicateAcks''" | "h = ''TCPOFOQueue''" | "h = ''TCPWantZeroWindowAdv''" | "h = ''TCPRcvPruned''" | "h \<notin> {''TCPDuplicateAcks'', ''TCPOFOQueue'', ''TCPWantZeroWindowAdv'', ''TCPRcvPruned''}" by blast
  then show ?case by cases (use Cons none in \<open>simp_all add: x ac_simps eq_commute [of _ h]\<close>)
qed simp

text \<open>The readers of the TCP counters invert the kernel's format: whatever tables a file holds, in
  whatever order and with whatever further columns, the values returned are those of the named columns, 0
  where a column or the table is missing.\<close>

theorem net_tables_roundtrip:
  assumes "list_all table_ok ts" "distinct (map fst ts)"
    and "p ''/proc/net/snmp'' = Some (kernel_tables ts)" "p ''/proc/net/netstat'' = Some (kernel_tables ts)"
  shows "parse_proc_net_snmp p = (counter ts ''Tcp'' ''InSegs'', counter ts ''Tcp'' ''OutSegs'', counter ts ''Tcp'' ''RetransSegs'')
    \<and> parse_proc_net_netstat p = (counter ts ''TcpExt'' ''TCPDuplicateAcks'', counter ts ''TcpExt'' ''TCPOFOQueue'',
        counter ts ''TcpExt'' ''TCPWantZeroWindowAdv'' + counter ts ''TcpExt'' ''TCPRcvPruned'')"
proof -
  have ls: "str_lines (kernel_tables ts) = concat (map table_lines ts)"
    unfolding kernel_tables_def by (rule str_lines_unlines [OF plain_tables [OF assms(1)]])
  have d: "distinct (map fst cs)" if "map_of ts k = Some cs" for k cs
    using assms(1) map_of_SomeD [OF that] by (auto simp: list_all_iff table_ok_def)
  have snmp: "parse_proc_net_snmp p = foldl (\<lambda>s t. foldl tcp_value s ((''Tcp:'', ''Tcp:'') #
      map (\<lambda>(h, v). (h, show_nat (unat v))) (snd t))) (0, 0, 0) (filter (\<lambda>t. fst t = ''Tcp'') ts)"
    using table_loop_tables [OF assms(1), of "''Tcp''" tcp_value "(0, 0, 0)"]
    by (simp add: parse_proc_net_snmp_def proc_lines_def assms(3) ls)
  have netstat: "parse_proc_net_netstat p = foldl (\<lambda>s t. foldl tcp_ext_value s ((''TcpExt:'', ''TcpExt:'') #
      map (\<lambda>(h, v). (h, show_nat (unat v))) (snd t))) (0, 0, 0) (filter (\<lambda>t. fst t = ''TcpExt'') ts)"
    using table_loop_tables [OF assms(1), of "''TcpExt''" tcp_ext_value "(0, 0, 0)"]
    by (simp add: parse_proc_net_netstat_def proc_lines_def assms(4) ls)
  have "parse_proc_net_snmp p = (counter ts ''Tcp'' ''InSegs'', counter ts ''Tcp'' ''OutSegs'', counter ts ''Tcp'' ''RetransSegs'')"
    unfolding snmp filter_key [OF assms(2)]
    by (cases "map_of ts ''Tcp''") (simp_all add: counter_def tcp_values [OF d])
  moreover have "parse_proc_net_netstat p = (counter ts ''TcpExt'' ''TCPDuplicateAcks'', counter ts ''TcpExt'' ''TCPOFOQueue'',
      counter ts ''TcpExt'' ''TCPWantZeroWindowAdv'' + counter ts ''TcpExt'' ''TCPRcvPruned'')"
    unfolding netstat filter_key [OF assms(2)]
    by (cases "map_of ts ''TcpExt''") (simp_all add: counter_def tcp_ext_values [OF d])
  ultimately show ?thesis by blast
qed

definition demo_tables :: "counter_table list" where
  "demo_tables = [(''Ip'', [(''Forwarding'', 1)]), (''Tcp'', [(''OutSegs'', 7), (''InSegs'', 9)])]"

theorem net_tables_roundtrip_witness:
  "parse_proc_net_snmp (\<lambda>_. Some (kernel_tables demo_tables)) = (9, 7, 0)"
proof -
  have "list_all table_ok demo_tables" "distinct (map fst demo_tables)"
    by (simp_all add: demo_tables_def table_ok_def plain_word_def code_def)
  from net_tables_roundtrip [OF this, of "\<lambda>_. Some (kernel_tables demo_tables)"] show ?thesis
    by (simp add: counter_def demo_tables_def)
qed

section \<open>Interfaces\<close>

text \<open>\<^verbatim>\<open>/proc/net/dev\<close>: header lines without a colon, then a line for each interface.\<close>

type_synonym net_interface = "nat \<times> string \<times> u64 list"

fun dev_text :: "net_interface \<Rightarrow> string" where
  "dev_text (pad, name, cs) = replicate pad (CHR '' '') @ name @ '':'' @ unwords (map (show_nat \<circ> unat) cs)"

fun dev_ok :: "net_interface \<Rightarrow> bool" where
  "dev_ok (pad, name, cs) \<longleftrightarrow> plain_word name \<and> CHR '':'' \<notin> set name"

fun dev_short :: "net_interface \<Rightarrow> bool" where
  "dev_short (pad, name, cs) \<longleftrightarrow> name \<noteq> ''lo'' \<and> length cs \<in> {8, 9}"

text \<open>The column \<open>k\<close> summed over the interfaces that count.\<close>

definition dev_sum :: "nat \<Rightarrow> net_interface list \<Rightarrow> u64" where
  "dev_sum k ifs = sum_list (map (\<lambda>(_, _, cs). cs ! k) (filter (\<lambda>(_, name, cs). name \<noteq> ''lo'' \<and> 10 \<le> length cs) ifs))"

lemma list_all_show: "list_all plain_word (map (show_nat \<circ> unat) cs)"
  by (induction cs) (simp_all add: plain_word_show)

lemma show_nat_no_colon: "CHR '':'' \<notin> set (show_nat n)"
  using show_nat_digits [of n] by (auto simp: list_all_iff is_ascii_digit_def code_def)

lemma unwords_no_colon: "CHR '':'' \<notin> set (unwords (map (show_nat \<circ> unat) cs))"
  by (induction cs) (auto simp: unwords_def show_nat_no_colon)

lemma dev_line_text:
  assumes "dev_ok (pad, name, cs)"
  shows "dev_line (rxb, rxp, txb, txp) (dev_text (pad, name, cs)) =
    (if name = ''lo'' \<or> length cs < 8 then Some (rxb, rxp, txb, txp)
     else if length cs < 10 then None
     else Some (rxb + cs ! 0, rxp + cs ! 1, txb + cs ! 8, txp + cs ! 9))"
proof -
  have "str_split (CHR '':'') (dev_text (pad, name, cs)) =
      [replicate pad (CHR '' '') @ name, unwords (map (show_nat \<circ> unat) cs)]"
    using assms str_split_append [of "CHR '':''" "replicate pad (CHR '' '') @ name"] unwords_no_colon [of cs]
    by (auto simp: str_split_no_sep)
  moreover have "words (unwords (map (show_nat \<circ> unat) cs)) = map (show_nat \<circ> unat) cs"
    by (rule words_unwords [OF list_all_show])
  moreover have "trim (replicate pad (CHR '' '') @ name) = name" using assms trim_padded by simp
  moreover have "u64_or 0 (map (show_nat \<circ> unat) cs ! 0) = cs ! 0" if "\<not> length cs < 10"
    using that by (subst nth_map) auto
  ultimately show ?thesis by (simp add: dev_line_def Let_def)
qed

lemma dev_loop_headers: "list_all (\<lambda>l. CHR '':'' \<notin> set l) hs \<Longrightarrow> dev_loop (hs @ ls) s = dev_loop ls s"
  by (induction hs) (simp_all add: dev_line_def)

lemma dev_loop_texts:
  "list_all dev_ok ifs \<Longrightarrow> dev_loop (map dev_text ifs) (a, b, c, d) =
    (if list_ex dev_short ifs then None
     else Some (a + dev_sum 0 ifs, b + dev_sum 1 ifs, c + dev_sum 8 ifs, d + dev_sum 9 ifs))"
proof (induction ifs arbitrary: a b c d)
  case Nil
  then show ?case by (simp add: dev_sum_def)
next
  case (Cons x ifs)
  obtain pad name cs where x: "x = (pad, name, cs)" by (cases x)
  have ok: "dev_ok (pad, name, cs)" using Cons.prems by (simp add: x)
  consider "name = ''lo'' \<or> length cs < 8" | "name \<noteq> ''lo''" "length cs \<in> {8, 9}" | "name \<noteq> ''lo''" "10 \<le> length cs"
    by fastforce
  then show ?case
  proof cases
    case 1
    then have "\<not> dev_short x" "dev_sum k (x # ifs) = dev_sum k ifs" for k by (auto simp: x dev_sum_def)
    with 1 show ?thesis using Cons unfolding x
      by (simp add: dev_line_text [OF ok] del: dev_text.simps dev_short.simps)
  next
    case 2
    then have "length cs < 10" "\<not> length cs < 8" "dev_short x" by (auto simp: x)
    with 2 show ?thesis unfolding x
      by (simp add: dev_line_text [OF ok] del: dev_text.simps dev_short.simps)
  next
    case 3
    then have "\<not> dev_short x" "dev_sum k (x # ifs) = cs ! k + dev_sum k ifs" for k by (auto simp: x dev_sum_def)
    with 3 show ?thesis using Cons unfolding x
      by (simp add: dev_line_text [OF ok] add.assoc del: dev_text.simps dev_short.simps)
  qed
qed

lemma plain_line_dev: "dev_ok x \<Longrightarrow> plain_line (dev_text x)"
proof (cases x)
  case (fields pad name cs)
  assume "dev_ok x"
  then show ?thesis using plain_line_unwords [OF list_all_show [of cs]] plain_word_line [of name]
    by (simp add: fields) (simp add: plain_line_def)
qed

text \<open>Interface traffic: on a file of the kernel's format the reader returns the sums, modulo
  2^64, of received and sent bytes and packets over all interfaces but the loopback one; unless one of them has
  eight or nine columns, where the test for eight lets the code index columns 8 and 9 out of bounds
  and it panics.\<close>

theorem net_dev_sums:
  assumes "list_all (\<lambda>l. CHR '':'' \<notin> set l \<and> plain_line l) hs" "list_all dev_ok ifs"
    and "p ''/proc/net/dev'' = Some (unlines (hs @ map dev_text ifs))"
  shows "parse_proc_net_dev p = (if list_ex dev_short ifs then None
    else Some (dev_sum 0 ifs, dev_sum 1 ifs, dev_sum 8 ifs, dev_sum 9 ifs))"
proof -
  have "list_all plain_line (hs @ map dev_text ifs)"
    using assms(1,2) plain_line_dev by (auto simp: list_all_iff)
  then have "proc_lines p ''/proc/net/dev'' = hs @ map dev_text ifs"
    by (simp add: proc_lines_def assms(3) str_lines_unlines)
  moreover have "list_all (\<lambda>l. CHR '':'' \<notin> set l) hs" using assms(1) by (auto simp: list_all_iff)
  ultimately show ?thesis
    by (simp add: parse_proc_net_dev_def dev_loop_headers dev_loop_texts [OF assms(2)])
qed

theorem net_dev_sums_witness:
  "parse_proc_net_dev (\<lambda>_. Some (unlines ([''Inter-|''] @ map dev_text
      [(1, ''lo'', [1, 2]), (0, ''eth0'', [10, 2, 0, 0, 0, 0, 0, 0, 30, 4])]))) = Some (10, 2, 30, 4)
   \<and> parse_proc_net_dev (\<lambda>_. Some (unlines ([''Inter-|''] @ map dev_text [(0, ''eth0'', [0, 0, 0, 0, 0, 0, 0, 0])]))) = None"
proof -
  have h: "list_all (\<lambda>l. CHR '':'' \<notin> set l \<and> plain_line l) [''Inter-|'']" by (simp add: plain_line_def)
  have o: "dev_ok (0, ''eth0'', cs)" "dev_ok (Suc 0, ''lo'', cs)" for cs by (simp_all add: plain_word_def code_def)
  show ?thesis
    using net_dev_sums [OF h, of "[(1, ''lo'', [1, 2]), (0, ''eth0'', [10, 2, 0, 0, 0, 0, 0, 0, 30, 4])]", OF _ refl]
      net_dev_sums [OF h, of "[(0, ''eth0'', [0, 0, 0, 0, 0, 0, 0, 0])]", OF _ refl]
    by (simp add: o dev_sum_def del: dev_ok.simps dev_text.simps)
qed

section \<open>The process\<close>

text \<open>A line of \<^verbatim>\<open>/proc/self/stat\<close>; the name of the program may hold blanks and parentheses.\<close>

definition stat_line :: "nat \<Rightarrow> string \<Rightarrow> string list \<Rightarrow> string" where
  "stat_line pid name ws = show_nat pid @ '' ('' @ name @ '')'' @ unwords ws"

lemma stat_words_line:
  assumes "list_all plain_word ws" "list_all (\<lambda>w. CHR '')'' \<notin> set w) ws"
  shows "stat_words (stat_line pid name ws) = Some ws"
proof -
  have "CHR '')'' \<notin> set (unwords ws)" using assms(2) by (induction ws) (auto simp: unwords_def)
  then have "rsplit_once (CHR '')'') (stat_line pid name ws) = Some (show_nat pid @ '' ('' @ name, unwords ws)"
    using rsplit_once_append [of "CHR '')''" "unwords ws" "show_nat pid @ '' ('' @ name"]
    by (simp add: stat_line_def)
  then show ?thesis by (simp add: stat_words_def after_last_def words_unwords [OF assms(1)])
qed

end
