(* ===== verification/Receiver_Metrics.thy ===== *)
theory Receiver_Metrics
  imports Proc_Files
begin

text \<open>
  The measurements of the file server of the Android agent (\<^verbatim>\<open>agents/android/src/file_server.rs\<close>): the
  network, file system, hardware and process samples, and one round of the sampling task. The flag \<open>linux\<close> is
  \<^verbatim>\<open>cfg(target_os = "linux")\<close>; it does not hold on Android, where the values of the other branches are
  used. Times are milliseconds; rounding, random numbers, the page size, the figures of the tokio runtime and
  of \<^verbatim>\<open>getrusage\<close> are arguments. A JSON object is a record of its values.
\<close>

section \<open>Network\<close>

record net_metrics =
  nm_segs :: "u64 \<times> u64 \<times> u64"
  nm_stat :: "u64 \<times> u64 \<times> u64"
  nm_dev :: "u64 \<times> u64 \<times> u64 \<times> u64"

text \<open>The counter is that of the invented values; the result \<open>None\<close> is the panic of \<open>parse_proc_net_dev\<close>.\<close>

definition collect_network_metrics :: "bool \<Rightarrow> proc_fs \<Rightarrow> u64 \<Rightarrow> (net_metrics \<times> u64) option" where
  "collect_network_metrics linux p counter_value =
    (if linux then
       map_option (\<lambda>d. (\<lparr>nm_segs = parse_proc_net_snmp p, nm_stat = parse_proc_net_netstat p, nm_dev = d\<rparr>, counter_value))
         (parse_proc_net_dev p)
     else
       Some (if counter_value mod 2 = 0
         then \<lparr>nm_segs = (50000, 45000, 120), nm_stat = (80, 15, 1), nm_dev = (1000000, 1000, 2000000, 2000)\<rparr>
         else \<lparr>nm_segs = (58000, 53000, 135), nm_stat = (98, 22, 2), nm_dev = (26000000, 18000, 52000000, 36000)\<rparr>,
         counter_value + 1))"

record net_sample =
  ns_info :: socket_tcp_info
  ns_rx_bytes :: u64
  ns_rx_packets :: u64
  ns_tx_bytes :: u64
  ns_tx_packets :: u64

definition no_connection :: "rounding \<Rightarrow> socket_tcp_info" where
  "no_connection rnd =
    \<lparr>sti_rtt_ms = rnd (1 / 10), sti_cwnd = 10, sti_rcv_space = 14600, sti_recv_q = 0, sti_send_q = 0\<rparr>"

definition collect_rolling_network_sample ::
  "bool \<Rightarrow> rounding \<Rightarrow> proc_fs \<Rightarrow> (bool \<times> bytes) option \<Rightarrow> u16 \<Rightarrow> u64 \<Rightarrow> net_sample option" where
  "collect_rolling_network_sample linux rnd p ss port elapsed_ms =
    (if linux then
       (let info = (case parse_ss_connection rnd port ss of Some i \<Rightarrow> i | None \<Rightarrow> no_connection rnd) in
        map_option (\<lambda>(rxb, rxp, txb, txp).
          \<lparr>ns_info = info, ns_rx_bytes = rxb, ns_rx_packets = rxp, ns_tx_bytes = txb, ns_tx_packets = txp\<rparr>)
          (parse_proc_net_dev p))
     else
       (let progress = fl_min (fl_div rnd (fl_of_u64 rnd elapsed_ms) (Fin 3000)) (Fin 1);
            amount = (\<lambda>n. fl_as_u64 (fl_mul rnd progress (Fin n))) in
        Some \<lparr>ns_info = \<lparr>
            sti_rtt_ms = fl_add rnd (rnd (2 / 10)) (fl_mul rnd (fl_of_u64 rnd (elapsed_ms mod 1000)) (rnd (1 / 10000))),
            sti_cwnd = fl_as_u64 (fl_add rnd (Fin 40) (fl_mul rnd progress (Fin 80))), sti_rcv_space = 65536,
            sti_recv_q = 0, sti_send_q = (if fl_less progress (rnd (95 / 100)) then 16384 else 0)\<rparr>,
          ns_rx_bytes = amount 25000000, ns_rx_packets = amount 17000,
          ns_tx_bytes = amount 50000000, ns_tx_packets = amount 34000\<rparr>))"

section \<open>File system\<close>

record fs_sample =
  fss_syscw :: u64
  fss_wchar :: u64
  fss_write_bytes :: u64
  fss_dirty_kb :: u64
  fss_writeback_kb :: u64
  fss_cache_kb :: u64
  fss_nr_written :: u64

definition collect_rolling_fs_sample :: "bool \<Rightarrow> proc_fs \<Rightarrow> u64 \<Rightarrow> fs_sample" where
  "collect_rolling_fs_sample linux p elapsed_ms =
    (if linux then
       (let (syscw, wchar, write_bytes) = parse_self_io p; (dirty, writeback, cache) = parse_meminfo_fs p in
        \<lparr>fss_syscw = syscw, fss_wchar = wchar, fss_write_bytes = write_bytes, fss_dirty_kb = dirty,
         fss_writeback_kb = writeback, fss_cache_kb = cache, fss_nr_written = parse_vmstat_fs p\<rparr>)
     else
       (let i = elapsed_ms div 100; k = i mod 15; flushing = k < 3; cycle = i div 15 in
        \<lparr>fss_syscw = i * 64, fss_wchar = i * 1024 * 1024,
         fss_write_bytes = cycle * 15 * 1024 * 1024 + (if flushing then k * 5 * 1024 * 1024 else 0),
         fss_dirty_kb = (if flushing then 15000 - k * 5000 else k * 1024),
         fss_writeback_kb = (if flushing then 16384 else 0),
         fss_cache_kb = 128 * 1024 + (i * 512) mod (1024 * 1024), fss_nr_written = cycle\<rparr>))"

definition collect_fs_metrics :: "bool \<Rightarrow> proc_fs \<Rightarrow> fs_sample" where
  "collect_fs_metrics linux p = collect_rolling_fs_sample linux p 0"

section \<open>Hardware\<close>

record hw_metrics =
  hw_cpu_freq_mhz :: fl
  hw_cpu_governor :: string
  hw_battery_temp_c :: fl
  hw_soc_temp_c :: fl
  hw_thermal_throttle :: u64
  hw_cpu_scaling_pct :: fl

text \<open>The readable numbers of the numbered files \<open>pre @ i @ post\<close>.\<close>

definition numbered :: "proc_fs \<Rightarrow> (string \<Rightarrow> 'a option) \<Rightarrow> string \<Rightarrow> string \<Rightarrow> nat \<Rightarrow> 'a list" where
  "numbered p parse pre post n =
    List.map_filter (\<lambda>i. Option.bind (p (pre @ show_nat i @ post)) (\<lambda>s. parse (trim s))) [0..<n]"

definition cpu_frequency :: "rounding \<Rightarrow> proc_fs \<Rightarrow> fl" where
  "cpu_frequency rnd p =
    (let fs = numbered p parse_u64 ''/sys/devices/system/cpu/cpu'' ''/cpufreq/scaling_cur_freq'' 32;
         n = of_nat (length fs) :: u64 in
     if n > 0 then fl_div rnd (fl_div rnd (fl_of_u64 rnd (sum_list fs)) (fl_of_u64 rnd n)) (Fin 1000)
     else (case Option.bind (p ''/sys/devices/system/cpu/cpu0/cpufreq/cpuinfo_cur_freq'') (\<lambda>s. parse_u64 (trim s)) of
             Some v \<Rightarrow> fl_div rnd (fl_of_u64 rnd v) (Fin 1000)
           | None \<Rightarrow> Fin 1500))"

definition battery_temperature :: "rounding \<Rightarrow> proc_fs \<Rightarrow> fl" where
  "battery_temperature rnd p =
    (case Option.bind (p ''/sys/class/power_supply/battery/temp'') (\<lambda>s. parse_f64 rnd (trim s)) of
       Some t \<Rightarrow> fl_div rnd t (Fin 10) | None \<Rightarrow> Fin 28)"

definition soc_temperature :: "rounding \<Rightarrow> proc_fs \<Rightarrow> fl" where
  "soc_temperature rnd p =
    (let hottest = foldl (\<lambda>m t. let c = (if fl_less (Fin 1000) t then fl_div rnd t (Fin 1000) else t) in
           if fl_less m c then c else m) (Fin 0)
           (numbered p (parse_f64 rnd) ''/sys/class/thermal/thermal_zone'' ''/temp'' 20) in
     if hottest = Fin 0 then Fin 32 else hottest)"

definition throttled :: "rounding \<Rightarrow> proc_fs \<Rightarrow> u64" where
  "throttled rnd p =
    (if list_ex (\<lambda>s. s > 0) (numbered p parse_u64 ''/sys/class/thermal/cooling_device'' ''/cur_state'' 20)
       \<or> fl_less (Fin 75) (soc_temperature rnd p) then 1 else 0)"

definition collect_hardware_metrics :: "rounding \<Rightarrow> proc_fs \<Rightarrow> hw_metrics" where
  "collect_hardware_metrics rnd p =
    (let freq = cpu_frequency rnd p;
         scaling = (case Option.bind (p ''/sys/devices/system/cpu/cpu0/cpufreq/scaling_max_freq'')
             (\<lambda>s. parse_f64 rnd (trim s)) of
           Some m \<Rightarrow> if fl_less (Fin 0) m then fl_mul rnd (fl_div rnd (fl_mul rnd freq (Fin 1000)) m) (Fin 100) else Fin 100
         | None \<Rightarrow> Fin 100) in
     \<lparr>hw_cpu_freq_mhz = freq,
      hw_cpu_governor = trim (case p ''/sys/devices/system/cpu/cpu0/cpufreq/scaling_governor'' of
        Some s \<Rightarrow> s | None \<Rightarrow> ''unknown''),
      hw_battery_temp_c = battery_temperature rnd p, hw_soc_temp_c = soc_temperature rnd p,
      hw_thermal_throttle = throttled rnd p, hw_cpu_scaling_pct = fl_min scaling (Fin 100)\<rparr>)"

section \<open>The process\<close>

type_synonym cpu_mark = "(instant \<times> u64) option"

text \<open>The share of a processor since the last mark, in percent.\<close>

definition cpu_share :: "rounding \<Rightarrow> instant \<Rightarrow> u64 \<Rightarrow> cpu_mark \<Rightarrow> fl" where
  "cpu_share rnd now ticks mark =
    (case mark of
       None \<Rightarrow> Fin 0
     | Some (t, old) \<Rightarrow>
         (let wall = as_secs rnd (now - t) in
          if fl_less (Fin 0) wall then
            fl_mul rnd (fl_div rnd (fl_div rnd (fl_of_u64 rnd (sat_sub ticks old)) (Fin 100)) wall) (Fin 100)
          else Fin 0))"

definition stat_times :: "proc_fs \<Rightarrow> nat \<Rightarrow> (u64 \<times> u64 \<times> string list) option" where
  "stat_times p fewest =
    (case Option.bind (p ''/proc/self/stat'') stat_words of
       None \<Rightarrow> None
     | Some ps \<Rightarrow>
         if length ps \<ge> fewest then
           (case (parse_u64 (ps ! 11), parse_u64 (ps ! 12)) of
              (Some u, Some s) \<Rightarrow> Some (u, s, ps) | _ \<Rightarrow> None)
         else None)"

definition get_process_metrics :: "rounding \<Rightarrow> proc_fs \<Rightarrow> instant \<Rightarrow> cpu_mark \<Rightarrow> (fl \<times> u64) \<times> cpu_mark" where
  "get_process_metrics rnd p now mark =
    (let ram = first_value ''VmRSS:'' (proc_lines p ''/proc/self/status'') div 1024 in
     case stat_times p 13 of
       Some (u, s, _) \<Rightarrow> ((cpu_share rnd now (u + s) mark, ram), Some (now, u + s))
     | None \<Rightarrow> ((Fin 0, ram), mark))"

record process_metrics =
  pr_cpu_pct :: fl
  pr_user_time_sec :: fl
  pr_sys_time_sec :: fl
  pr_rss_bytes :: u64
  pr_vsz_bytes :: u64
  pr_thread_count :: u64
  pr_open_fds :: nat

definition thread_count :: "proc_fs \<Rightarrow> u64" where
  "thread_count p =
    (case Option.bind (p ''/proc/self/stat'') stat_words of
       Some ps \<Rightarrow> if length ps \<ge> 18 then u64_or 0 (ps ! 17) else 0 | None \<Rightarrow> 0)"

definition statm_bytes :: "proc_fs \<Rightarrow> u64 \<Rightarrow> u64 \<times> u64" where
  "statm_bytes p page =
    (case p ''/proc/self/statm'' of
       None \<Rightarrow> (0, 0)
     | Some s \<Rightarrow>
         (case words s of
            v # r # _ \<Rightarrow> (case (parse_u64 v, parse_u64 r) of (Some v', Some r') \<Rightarrow> (r' * page, v' * page) | _ \<Rightarrow> (0, 0))
          | _ \<Rightarrow> (0, 0)))"

definition sample_receiver_process_metrics ::
  "rounding \<Rightarrow> proc_fs \<Rightarrow> instant \<Rightarrow> u64 \<Rightarrow> nat option \<Rightarrow> cpu_mark \<Rightarrow> process_metrics \<times> cpu_mark" where
  "sample_receiver_process_metrics rnd p now page fds mark =
    (let (rss, vsz) = statm_bytes p page; n = (case fds of Some k \<Rightarrow> k | None \<Rightarrow> 0);
         secs = (\<lambda>t. fl_div rnd (fl_of_u64 rnd t) (Fin 100)) in
     case stat_times p 18 of
       Some (u, s, _) \<Rightarrow>
         (\<lparr>pr_cpu_pct = cpu_share rnd now (u + s) mark, pr_user_time_sec = secs u, pr_sys_time_sec = secs s,
           pr_rss_bytes = rss, pr_vsz_bytes = vsz, pr_thread_count = thread_count p, pr_open_fds = n\<rparr>, Some (now, u + s))
     | None \<Rightarrow>
         (\<lparr>pr_cpu_pct = Fin 0, pr_user_time_sec = Fin 0, pr_sys_time_sec = Fin 0, pr_rss_bytes = rss,
           pr_vsz_bytes = vsz, pr_thread_count = thread_count p, pr_open_fds = n\<rparr>, mark))"

section \<open>One round of the sampling task\<close>

text \<open>What a round reads from outside; \<open>ti_workers\<close> holds poll count and busy nanoseconds of each worker.\<close>

record tick_input =
  ti_elapsed_ms :: u64
  ti_now :: instant
  ti_proc :: proc_fs
  ti_page :: u64
  ti_fds :: "nat option"
  ti_ss :: "(bool \<times> bytes) option"
  ti_usage :: "(u64 \<times> u64) option"
  ti_workers :: "(u64 \<times> u64) list"
  ti_blocking :: "u64 \<times> u64"
  ti_random :: "nat \<Rightarrow> fl"

record sampler_flags =
  sfl_linux :: bool
  sfl_tokio_unstable :: bool

record sampler_task =
  tk_port :: u16
  tk_net_bytes :: u64
  tk_net_packets :: u64
  tk_polls :: u64
  tk_busy_ns :: u64
  tk_switches :: "u64 \<times> u64"
  tk_migrations :: u64
  tk_latency_ns :: u64
  tk_base_rss :: u64
  tk_base_faults :: "u64 \<times> u64"

record runtime_sample =
  rs_active :: fl
  rs_idle :: fl
  rs_polls :: u64
  rs_poll_us :: fl
  rs_wakeups :: u64
  rs_blocking :: u64

definition runtime_round ::
  "sampler_flags \<Rightarrow> rounding \<Rightarrow> tick_input \<Rightarrow> fl \<Rightarrow> sampler_task \<Rightarrow> runtime_sample \<times> sampler_task" where
  "runtime_round fl rnd x cpu t =
    (let (active, idle, polls, poll_us, blocking, t') =
       (if sfl_tokio_unstable fl then
          (let n = rnd (of_nat (length (ti_workers x)));
               polls = sum_list (map fst (ti_workers x)); busy = sum_list (map snd (ti_workers x));
               dp = sat_sub polls (tk_polls t); db = sat_sub busy (tk_busy_ns t);
               active = fl_min (fl_div rnd (fl_of_u64 rnd db) (Fin 100000000)) n in
           (active, fl_max (fl_sub rnd n active) (Fin 0), dp,
            (if dp > 0 then fl_div rnd (fl_div rnd (fl_of_u64 rnd db) (Fin 1000)) (fl_of_u64 rnd dp) else Fin 0),
            sat_sub (fst (ti_blocking x)) (snd (ti_blocking x)), t\<lparr>tk_polls := polls, tk_busy_ns := busy\<rparr>))
        else
          (let active = fl_min (fl_div rnd cpu (Fin 100)) (Fin 4);
               polls = fl_as_u64 (fl_mul rnd active (Fin 120)) in
           (active, fl_sub rnd (Fin 4) active, polls,
            (if polls > 0 then fl_add rnd (Fin 250) (fl_mul rnd (ti_random x 0) (Fin 50)) else Fin 0), 0, t))) in
     (\<lparr>rs_active = active, rs_idle = idle, rs_polls = polls, rs_poll_us = poll_us,
       rs_wakeups = polls + (if polls > 0
         then fl_as_u64 (fl_mul rnd (ti_random x 1) (fl_mul rnd (fl_of_u64 rnd polls) (rnd (15 / 100)))) else 0),
       rs_blocking = blocking\<rparr>, t'))"

record sched_sample =
  ss_switches :: u64
  ss_migrations :: u64
  ss_latency_ms :: fl
  ss_run_queue :: u64

definition sched_round ::
  "sampler_flags \<Rightarrow> rounding \<Rightarrow> tick_input \<Rightarrow> process_metrics \<Rightarrow> fl \<Rightarrow> sampler_task \<Rightarrow> sched_sample \<times> sampler_task" where
  "sched_round fl rnd x pm active t =
    (if sfl_linux fl then
       (let p = ti_proc x; (v, i) = parse_self_status_switches p;
            mig = parse_self_sched_migrations p; lat = parse_sched_latency rnd p in
        (\<lparr>ss_switches = sat_sub v (fst (tk_switches t)) + sat_sub i (snd (tk_switches t)),
          ss_migrations = sat_sub mig (tk_migrations t),
          ss_latency_ms = fl_div rnd (fl_of_u64 rnd (sat_sub lat (tk_latency_ns t))) (Fin 1000000),
          ss_run_queue = parse_run_queue_length p\<rparr>,
         t\<lparr>tk_switches := (v, i), tk_migrations := mig, tk_latency_ns := lat\<rparr>))
     else
       (let threads = fl_max (fl_div rnd (fl_of_u64 rnd (pr_thread_count pm)) (Fin 10)) (Fin 1);
            cpu = fl_max (fl_div rnd (pr_cpu_pct pm) (Fin 50)) (rnd (1 / 10)) in
        (\<lparr>ss_switches = fl_as_u64 (fl_mul rnd (fl_mul rnd threads cpu) (Fin 150)),
          ss_migrations = (if fl_less (Fin 10) (pr_cpu_pct pm) then fl_as_u64 (fl_mul rnd cpu (Fin 5)) else 0),
          ss_latency_ms = fl_add rnd (fl_mul rnd (fl_mul rnd cpu threads) (Fin (5 / 2)))
            (fl_mul rnd (ti_random x 2) (rnd (8 / 10))),
          ss_run_queue = fl_as_u64 (fl_add rnd active (fl_mul rnd cpu (Fin 2)))\<rparr>, t)))"

definition mutex_contention :: "rounding \<Rightarrow> fl \<Rightarrow> fl \<Rightarrow> fl" where
  "mutex_contention rnd active latency =
    (if fl_less (Fin 1) active
     then fl_min (fl_add rnd (fl_mul rnd active (Fin 10)) (fl_mul rnd latency (Fin 2))) (Fin 100) else Fin 0)"

definition channel_wait_time :: "rounding \<Rightarrow> fl \<Rightarrow> fl \<Rightarrow> u64 \<Rightarrow> fl" where
  "channel_wait_time rnd active latency polls =
    (if fl_less (Fin 0) active
     then fl_min (fl_add rnd (fl_mul rnd latency (Fin (3 / 2))) (fl_mul rnd (fl_of_u64 rnd polls) (rnd (5 / 1000)))) (Fin 500)
     else Fin 0)"

record memory_sample =
  mms_rss :: u64
  mms_vsz :: u64
  mms_heap :: u64
  mms_anon :: u64
  mms_mapped :: u64
  mms_faults :: "u64 \<times> u64"
  mms_mapped_pages :: u64
  mms_mmap_faults :: u64
  mms_growth :: int

text \<open>\<^verbatim>\<open>i64::saturating_sub\<close>\<close>

definition sat_sub_i64 :: "u64 \<Rightarrow> u64 \<Rightarrow> int" where
  "sat_sub_i64 a b = max (- (2 ^ 63)) (min (2 ^ 63 - 1) (sint a - sint b))"

definition fault_estimate :: "rounding \<Rightarrow> rat \<Rightarrow> u64 \<times> u64 \<Rightarrow> u64 \<times> u64 \<Rightarrow> u64" where
  "fault_estimate rnd share faults base =
    fl_as_u64 (fl_mul rnd (fl_of_u64 rnd (sat_sub (fst faults) (fst base) + sat_sub (snd faults) (snd base))) (rnd share))"

definition memory_round :: "sampler_flags \<Rightarrow> rounding \<Rightarrow> tick_input \<Rightarrow> process_metrics \<Rightarrow> sampler_task \<Rightarrow> memory_sample" where
  "memory_round fl rnd x pm t =
    (if sfl_linux fl then
       (let (vsz, rss, heap, anon, mapped, minor, major) = parse_self_memory_stats (ti_proc x) in
        \<lparr>mms_rss = rss, mms_vsz = vsz, mms_heap = heap, mms_anon = anon, mms_mapped = mapped, mms_faults = (minor, major),
         mms_mapped_pages = parse_self_maps_pages (ti_proc x),
         mms_mmap_faults = fault_estimate rnd (85 / 100) (minor, major) (tk_base_faults t),
         mms_growth = sint (sat_sub rss (tk_base_rss t))\<rparr>)
     else
       (let share = (\<lambda>q. fl_as_u64 (fl_mul rnd (fl_of_u64 rnd (pr_rss_bytes pm)) (rnd q)));
            faults = (case ti_usage x of Some u \<Rightarrow> u | None \<Rightarrow> (0, 0)) in
        \<lparr>mms_rss = pr_rss_bytes pm, mms_vsz = pr_vsz_bytes pm, mms_heap = share (75 / 100), mms_anon = share (60 / 100),
         mms_mapped = share (40 / 100), mms_faults = faults, mms_mapped_pages = share (40 / 100) div 4096,
         mms_mmap_faults = fault_estimate rnd (80 / 100) faults (tk_base_faults t),
         mms_growth = sat_sub_i64 (pr_rss_bytes pm) (tk_base_rss t)\<rparr>))"

record receiver_sample =
  rsm_timestamp_ms :: u64
  rsm_hardware :: hw_metrics
  rsm_process :: process_metrics
  rsm_memory :: memory_sample
  rsm_socket :: socket_tcp_info
  rsm_bytes_per_sec :: u64
  rsm_packets_per_sec :: u64
  rsm_avg_packet_size :: fl
  rsm_fs :: fs_sample
  rsm_runtime :: runtime_sample
  rsm_contention :: fl
  rsm_channel_wait :: fl
  rsm_sched :: sched_sample

text \<open>A round takes a sample and moves the marks; \<open>None\<close> is a panic of the readers, which ends the task.\<close>

definition sample_round ::
  "sampler_flags \<Rightarrow> rounding \<Rightarrow> tick_input \<Rightarrow> cpu_mark \<Rightarrow> sampler_task \<Rightarrow> (receiver_sample \<times> cpu_mark \<times> sampler_task) option" where
  "sample_round fl rnd x mark t =
    (let (pm, mark') = sample_receiver_process_metrics rnd (ti_proc x) (ti_now x) (ti_page x) (ti_fds x) mark in
     case collect_rolling_network_sample (sfl_linux fl) rnd (ti_proc x) (ti_ss x) (tk_port t) (ti_elapsed_ms x) of
       None \<Rightarrow> None
     | Some ns \<Rightarrow>
         (let nbytes = ns_rx_bytes ns + ns_tx_bytes ns; npackets = ns_rx_packets ns + ns_tx_packets ns;
              db = sat_sub nbytes (tk_net_bytes t); dp = sat_sub npackets (tk_net_packets t);
              t1 = t\<lparr>tk_net_bytes := nbytes, tk_net_packets := npackets\<rparr>;
              (rs, t2) = runtime_round fl rnd x (pr_cpu_pct pm) t1;
              (ss, t3) = sched_round fl rnd x pm (rs_active rs) t2;
              per_sec = (\<lambda>d. fl_as_u64 (fl_div rnd (fl_of_u64 rnd d) (rnd (1 / 10)))) in
          Some (\<lparr>rsm_timestamp_ms = ti_elapsed_ms x, rsm_hardware = collect_hardware_metrics rnd (ti_proc x),
              rsm_process = pm, rsm_memory = memory_round fl rnd x pm t3, rsm_socket = ns_info ns,
              rsm_bytes_per_sec = per_sec db, rsm_packets_per_sec = per_sec dp,
              rsm_avg_packet_size = (if dp > 0 then fl_div rnd (fl_of_u64 rnd db) (fl_of_u64 rnd dp) else Fin 0),
              rsm_fs = collect_rolling_fs_sample (sfl_linux fl) (ti_proc x) (ti_elapsed_ms x), rsm_runtime = rs,
              rsm_contention = mutex_contention rnd (rs_active rs) (ss_latency_ms ss),
              rsm_channel_wait = channel_wait_time rnd (rs_active rs) (ss_latency_ms ss) (rs_polls rs),
              rsm_sched = ss\<rparr>, mark', t3)))"

text \<open>The task takes its base values before its first round.\<close>

definition task_start ::
  "sampler_flags \<Rightarrow> rounding \<Rightarrow> u16 \<Rightarrow> tick_input \<Rightarrow> cpu_mark \<Rightarrow> (cpu_mark \<times> sampler_task) option" where
  "task_start fl rnd port x mark =
    (let p = ti_proc x; (pm, mark') = sample_receiver_process_metrics rnd p (ti_now x) (ti_page x) (ti_fds x) mark;
         (_, rss, _, _, _, minor, major) = parse_self_memory_stats p in
     case collect_rolling_network_sample (sfl_linux fl) rnd p (ti_ss x) port 0 of
       None \<Rightarrow> None
     | Some ns \<Rightarrow>
         Some (mark', \<lparr>tk_port = port, tk_net_bytes = ns_rx_bytes ns + ns_tx_bytes ns,
           tk_net_packets = ns_rx_packets ns + ns_tx_packets ns,
           tk_polls = (if sfl_tokio_unstable fl then sum_list (map fst (ti_workers x)) else 0),
           tk_busy_ns = (if sfl_tokio_unstable fl then sum_list (map snd (ti_workers x)) else 0),
           tk_switches = (if sfl_linux fl then parse_self_status_switches p else (0, 0)),
           tk_migrations = (if sfl_linux fl then parse_self_sched_migrations p else 0),
           tk_latency_ns = (if sfl_linux fl then parse_sched_latency rnd p else 0),
           tk_base_rss = (if sfl_linux fl then rss else pr_rss_bytes pm),
           tk_base_faults = (if sfl_linux fl then (minor, major) else (case ti_usage x of Some u \<Rightarrow> u | None \<Rightarrow> (0, 0)))\<rparr>))"

end
