(* ===== verification/Flame_Graph.thy ===== *)
theory Flame_Graph
  imports Proc_Text "HOL-Library.List_Lexorder"
begin

text \<open>
  The profile of a transfer in the file server of the Android agent (\<^verbatim>\<open>agents/android/src/file_server.rs\<close>): the
  report of the profiler is parsed into collapsed call stacks, tallied by kernel function and drawn as a
  flame graph. A frame is a node of a tree, its children a hash map. The output of a slice of a name
  inside a character is a panic, the result \<open>None\<close>.
\<close>

section \<open>The tree\<close>

datatype flame_frame =
  FlameFrame (ff_name: string) (ff_samples: u64) (ff_children: "(string, flame_frame) hmap")

definition flame_frame_new :: "string \<Rightarrow> flame_frame" where
  "flame_frame_new name = FlameFrame name 0 []"

text \<open>\<^verbatim>\<open>entry(name).or_insert_with(..)\<close>\<close>

definition child_or_new :: "string \<Rightarrow> flame_frame \<Rightarrow> flame_frame" where
  "child_or_new p f = (case hm_get (ff_children f) p of Some c \<Rightarrow> c | None \<Rightarrow> flame_frame_new p)"

fun frame_insert :: "string list \<Rightarrow> u64 \<Rightarrow> flame_frame \<Rightarrow> flame_frame" where
  "frame_insert [] n f = FlameFrame (ff_name f) (ff_samples f + n) (ff_children f)"
| "frame_insert (p # ps) n f =
    FlameFrame (ff_name f) (ff_samples f + n) (hm_insert p (frame_insert ps n (child_or_new p f)) (ff_children f))"

fun get_max_depth :: "flame_frame \<Rightarrow> nat" where
  "get_max_depth (FlameFrame name n ch) = fold max (map (\<lambda>c. get_max_depth (snd c)) ch) 0 + 1"

section \<open>The report of the profiler\<close>

text \<open>\<^verbatim>\<open>rfind(c)\<close>\<close>

definition str_rfind :: "char \<Rightarrow> string \<Rightarrow> nat option" where
  "str_rfind c s = map_option (length \<circ> fst) (rsplit_once c s)"

definition symbol_words :: "string \<Rightarrow> string option" where
  "symbol_words s =
    (case str_find ''symbol: '' s of
       Some pos \<Rightarrow> Some (trim (drop (pos + 8) s))
     | None \<Rightarrow>
         (let ws = words s in
          if ws \<noteq> [] \<and> \<not> prefix ''0x'' (last ws) \<and> parse_u64 (last ws) = None then Some (last ws) else None))"

definition parse_symbol_from_line :: "string \<Rightarrow> string option" where
  "parse_symbol_from_line line =
    (let s = trim line in
     if s = [] then None
     else
       (case (str_find ''('' s, str_rfind (CHR '')'') s) of
          (Some i, Some j) \<Rightarrow> if j > i + 1 then Some (drop (i + 1) (take j s)) else symbol_words s
        | _ \<Rightarrow> symbol_words s))"

text \<open>\<^verbatim>\<open>*map.entry(k).or_insert(0) += n\<close>\<close>

definition hm_add :: "'k \<Rightarrow> u64 \<Rightarrow> ('k, u64) hmap \<Rightarrow> ('k, u64) hmap" where
  "hm_add k n m = hm_insert k ((case hm_get m k of Some v \<Rightarrow> v | None \<Rightarrow> 0) + n) m"

text \<open>\<^verbatim>\<open>join(";")\<close>\<close>

fun join_stack :: "string list \<Rightarrow> string" where
  "join_stack [] = []"
| "join_stack [s] = s"
| "join_stack (s # t # ss) = s @ '';'' @ join_stack (t # ss)"

type_synonym report_state = "(string, u64) hmap \<times> string list \<times> bool"

definition flush_stack :: "(string, u64) hmap \<Rightarrow> string list \<Rightarrow> (string, u64) hmap" where
  "flush_stack m stack = (if stack \<noteq> [] then hm_add (join_stack (rev stack)) 1 m else m)"

fun report_line :: "report_state \<Rightarrow> string \<Rightarrow> report_state" where
  "report_line (m, stack, chain) line =
    (let s = trim line in
     if prefix ''sample'' s then (flush_stack m stack, [], False)
     else if prefix ''callchain:'' s then (m, stack, True)
     else if chain then
       (case parse_symbol_from_line s of Some smb \<Rightarrow> (m, stack @ [smb], chain) | None \<Rightarrow> (m, stack, chain))
     else (m, stack, chain))"

definition collapse_report :: "string \<Rightarrow> (string, u64) hmap" where
  "collapse_report stdout = (case foldl report_line ([], [], False) (str_lines stdout) of (m, stack, _) \<Rightarrow> flush_stack m stack)"

text \<open>The tally by function: each frame counts for the first pattern it contains.\<close>

definition target_patterns :: "string list" where
  "target_patterns = [''copy_to_iter'', ''copy_from_user'', ''memcpy'', ''tcp_recvmsg'', ''tcp_sendmsg'', ''schedule'',
     ''finish_task_switch'', ''futex'']"

definition frame_group :: "string \<Rightarrow> string option" where
  "frame_group frame =
    (case find (contains frame) target_patterns of
       Some pat \<Rightarrow> Some pat
     | None \<Rightarrow>
         if list_ex (contains frame) [''ext4'', ''f2fs'', ''vfs_write'', ''sys_write'']
         then Some ''filesystem write functions''
         else if list_ex (contains frame) [''filemap'', ''page_cache'', ''find_get_page'', ''readahead'']
         then Some ''page cache functions''
         else None)"

definition tally_frame :: "u64 \<Rightarrow> (string, u64) hmap \<Rightarrow> string \<Rightarrow> (string, u64) hmap" where
  "tally_frame n t frame = (case frame_group frame of Some g \<Rightarrow> hm_add g n t | None \<Rightarrow> t)"

definition kernel_tally :: "(string, u64) hmap \<Rightarrow> (string, u64) hmap" where
  "kernel_tally m = foldl (\<lambda>t (stack, n). foldl (tally_frame n) t (str_split (CHR '';'') stack)) [] m"

record profile_entry =
  pe_function :: string
  pe_samples :: u64
  pe_percentage :: fl

text \<open>A stable sort by falling percentage.\<close>

fun insert_percentage :: "profile_entry \<Rightarrow> profile_entry list \<Rightarrow> profile_entry list" where
  "insert_percentage e [] = [e]"
| "insert_percentage e (x # xs) =
    (if fl_less (pe_percentage e) (pe_percentage x) then x # insert_percentage e xs else e # x # xs)"

definition profile_entries :: "rounding \<Rightarrow> (string, u64) hmap \<Rightarrow> profile_entry list" where
  "profile_entries rnd m =
    (let total_samples = sum_list (map snd m);
         total_f = (if total_samples = 0 then Fin 1 else fl_of_u64 rnd total_samples) in
     foldr insert_percentage (map (\<lambda>(f, n). \<lparr>pe_function = f, pe_samples = n,
       pe_percentage = fl_mul rnd (fl_div rnd (fl_of_u64 rnd n) total_f) (Fin 100)\<rparr>) (kernel_tally m)) [])"

section \<open>The drawing\<close>

text \<open>Formatting of floats: with a number of decimals, and in full.\<close>

record flame_env =
  fe_round :: rounding
  fe_fixed :: "nat \<Rightarrow> fl \<Rightarrow> string"
  fe_show :: "fl \<Rightarrow> string"

definition name_hash :: "string \<Rightarrow> u32" where
  "name_hash name = foldl (\<lambda>h c. h * 31 + of_nat (code c)) 0 name"

definition frame_color :: "string \<Rightarrow> string" where
  "frame_color name =
    (let h = name_hash name in
     ''hsl('' @ show_nat (unat (10 + h mod 40)) @ '', '' @ show_nat (unat (70 + h mod 25)) @ ''%, ''
       @ show_nat (unat (55 + h mod 20)) @ ''%)'')"

definition frame_share :: "flame_env \<Rightarrow> u64 \<Rightarrow> flame_frame \<Rightarrow> fl" where
  "frame_share e tot f = fl_div (fe_round e) (fl_of_u64 (fe_round e) (ff_samples f)) (fl_of_u64 (fe_round e) tot)"

definition frame_width :: "flame_env \<Rightarrow> u64 \<Rightarrow> flame_frame \<Rightarrow> fl" where
  "frame_width e tot f = fl_mul (fe_round e) (frame_share e tot f) (Fin 1000)"

text \<open>\<^verbatim>\<open>String::truncate\<close> panics inside a character.\<close>

definition truncate_at :: "nat \<Rightarrow> string \<Rightarrow> string option" where
  "truncate_at n s = (if n < length s \<and> 128 \<le> code (s ! n) \<and> code (s ! n) < 192 then None else Some (take n s))"

definition display_name :: "fl \<Rightarrow> rounding \<Rightarrow> string \<Rightarrow> string option" where
  "display_name width rnd name =
    (let max_chars = unat (fl_as_u64 (fl_div rnd width (Fin 6))) in
     if length name > max_chars then
       (if max_chars > 3 then map_option (\<lambda>s. s @ ''...'') (truncate_at (max_chars - 3) name) else Some [])
     else Some name)"

definition quot :: string where
  "quot = [CHR 0x22]"

definition nl :: string where
  "nl = [CHR 0x0A]"

definition attribute :: "string \<Rightarrow> string \<Rightarrow> string" where
  "attribute name v = '' '' @ name @ ''='' @ quot @ v @ quot"

definition frame_rect :: "flame_env \<Rightarrow> u64 \<Rightarrow> flame_frame \<Rightarrow> fl \<Rightarrow> fl \<Rightarrow> string" where
  "frame_rect e tot f x y =
    ''<rect'' @ attribute ''x'' (fe_fixed e 2 x) @ attribute ''y'' (fe_fixed e 2 y)
      @ attribute ''width'' (fe_fixed e 2 (frame_width e tot f))
      @ attribute ''height'' (fe_fixed e 2 (fl_sub (fe_round e) (Fin 20) (Fin 1)))
      @ attribute ''fill'' (frame_color (ff_name f)) @ attribute ''stroke'' ''#ffffff'' @ attribute ''stroke-width'' ''0.5''
      @ ''>'' @ nl @ ''  <title>'' @ ff_name f @ '' ('' @ show_nat (unat (ff_samples f)) @ '' samples, ''
      @ fe_fixed e 2 (fl_mul (fe_round e) (frame_share e tot f) (Fin 100)) @ ''%)</title>'' @ nl @ ''</rect>'' @ nl"

definition frame_label :: "flame_env \<Rightarrow> fl \<Rightarrow> fl \<Rightarrow> fl \<Rightarrow> string \<Rightarrow> string" where
  "frame_label e width x y name =
    ''<text'' @ attribute ''x'' (fe_fixed e 2 (fl_add (fe_round e) x (fl_div (fe_round e) width (Fin 2))))
      @ attribute ''y'' (fe_fixed e 2 (fl_add (fe_round e) y
          (fl_div (fe_round e) (fl_sub (fe_round e) (Fin 20) (Fin 1)) (Fin 2))))
      @ attribute ''font-size'' ''10'' @ attribute ''font-family'' ''monospace'' @ attribute ''fill'' ''#000000''
      @ attribute ''dominant-baseline'' ''middle'' @ attribute ''text-anchor'' ''middle'' @ ''>'' @ name @ ''</text>'' @ nl"

definition frame_box :: "flame_env \<Rightarrow> u64 \<Rightarrow> flame_frame \<Rightarrow> fl \<Rightarrow> fl \<Rightarrow> string option" where
  "frame_box e tot f x y =
    (let width = frame_width e tot f in
     if fl_less (Fin 40) width then
       map_option (\<lambda>s. frame_rect e tot f x y @ (if s = [] then [] else frame_label e width x y s))
         (display_name width (fe_round e) (ff_name f))
     else Some (frame_rect e tot f x y))"

definition sorted_children :: "flame_frame \<Rightarrow> flame_frame list" where
  "sorted_children f = sort_key (\<lambda>c. map code (ff_name c)) (hm_values (ff_children f))"

fun frame_count :: "flame_frame \<Rightarrow> nat" where
  "frame_count (FlameFrame name n ch) = Suc (sum_list (map (\<lambda>c. frame_count (snd c)) ch))"

lemma frame_count_pos [simp]: "0 < frame_count f"
  by (cases f) simp

lemma frame_count_children [simp]: "sum_list (map frame_count (sorted_children f)) < frame_count f"
proof -
  have "mset (map frame_count (sorted_children f)) = mset (map frame_count (hm_values (ff_children f)))"
    by (simp add: sorted_children_def)
  then have "sum_list (map frame_count (sorted_children f)) = sum_list (map frame_count (hm_values (ff_children f)))"
    by (metis sum_mset_sum_list)
  then show ?thesis by (cases f) (simp add: hm_values_def comp_def)
qed

text \<open>\<^verbatim>\<open>render_node\<close> on a list of siblings, from left to right.\<close>

function render_nodes :: "flame_env \<Rightarrow> u64 \<Rightarrow> flame_frame list \<Rightarrow> fl \<Rightarrow> fl \<Rightarrow> string option" where
  "render_nodes e tot [] x y = Some []"
| "render_nodes e tot (f # fs) x y =
    (case (if ff_samples f = 0 \<or> fl_less (frame_width e tot f) (Fin (1 / 2)) then Some []
           else
             (case frame_box e tot f x y of
                None \<Rightarrow> None
              | Some b \<Rightarrow> map_option (\<lambda>c. b @ c)
                  (render_nodes e tot (sorted_children f) x (fl_sub (fe_round e) y (Fin 20))))) of
       None \<Rightarrow> None
     | Some a \<Rightarrow> map_option (\<lambda>b. a @ b) (render_nodes e tot fs (fl_add (fe_round e) x (frame_width e tot f)) y))"
  by pat_completeness auto
termination
  by (relation "measure (\<lambda>(e, tot, fs, x, y). sum_list (map frame_count fs))")
    (auto intro: less_le_trans [OF frame_count_children])

definition collapsed_tree :: "(string, u64) hmap \<Rightarrow> flame_frame" where
  "collapsed_tree m = foldl (\<lambda>t (stack, n). frame_insert (str_split (CHR '';'') stack) n t) (flame_frame_new ''all'') m"

definition generate_flamegraph_svg :: "flame_env \<Rightarrow> (string, u64) hmap \<Rightarrow> string option" where
  "generate_flamegraph_svg e m =
    (if m = [] then Some []
     else
       (let rnd = fe_round e; root = collapsed_tree m;
            height = fl_add rnd (fl_mul rnd (rnd (of_nat (get_max_depth root + 1))) (Fin 20)) (Fin 50);
            root_y = fl_sub rnd (fl_sub rnd height (Fin 20)) (Fin 10) in
        map_option (\<lambda>body.
          ''<svg'' @ attribute ''version'' ''1.1'' @ attribute ''width'' ''100%'' @ attribute ''height'' (fe_show e height)
          @ attribute ''viewBox'' (''0 0 1000 '' @ fe_show e height) @ attribute ''xmlns'' ''http://www.w3.org/2000/svg'' @ ''>'' @ nl
          @ ''<style>'' @ nl @ ''  text { pointer-events: none; }'' @ nl
          @ ''  rect { cursor: pointer; transition: opacity 0.1s; }'' @ nl
          @ ''  rect:hover { opacity: 0.85; }'' @ nl @ ''</style>'' @ nl
          @ ''<rect'' @ attribute ''width'' ''1000'' @ attribute ''height'' (fe_show e height) @ attribute ''fill'' ''#fafafa''
          @ attribute ''rx'' ''4'' @ ''/>'' @ nl
          @ ''<text'' @ attribute ''x'' ''15'' @ attribute ''y'' ''25'' @ attribute ''font-size'' ''14''
          @ attribute ''font-family'' ''sans-serif'' @ attribute ''font-weight'' ''bold'' @ attribute ''fill'' ''#333333''
          @ ''>Kernel Call Graph Flamegraph (simpleperf)</text>'' @ body @ ''</svg>'')
          (render_nodes e (ff_samples root) [root] (Fin 0) root_y)))"

text \<open>The profile, \<open>None\<close> standing for the JSON null, and the drawing; a panic of the drawing is \<open>None\<close> outside.\<close>

definition parse_simpleperf_report_sample ::
  "flame_env \<Rightarrow> string \<Rightarrow> (profile_entry list option \<times> string) option" where
  "parse_simpleperf_report_sample e stdout =
    (let m = collapse_report stdout in
     if m = [] then Some (None, [])
     else map_option (\<lambda>svg. (Some (profile_entries (fe_round e) m), svg)) (generate_flamegraph_svg e m))"

definition mock_entry :: "rounding \<Rightarrow> string \<times> nat \<Rightarrow> profile_entry" where
  "mock_entry rnd p = (case p of (f, n) \<Rightarrow>
     \<lparr>pe_function = f, pe_samples = of_nat n, pe_percentage = rnd (of_nat n / 10)\<rparr>)"

definition mock_profile :: "(string \<times> nat) list" where
  "mock_profile = [(''copy_to_iter'', 324), (''memcpy'', 181), (''copy_from_user'', 125), (''tcp_recvmsg'', 87),
     (''tcp_sendmsg'', 62), (''schedule'', 45), (''finish_task_switch'', 31), (''futex'', 23),
     (''filesystem write functions'', 18), (''page cache functions'', 12)]"

definition mock_stacks :: "(string, u64) hmap" where
  "mock_stacks =
    [(''all;tokio::runtime;run_transfer;tcp_recvmsg;copy_to_iter'', 324), (''all;tokio::runtime;run_transfer;memcpy'', 181),
     (''all;tokio::runtime;run_transfer;tcp_sendmsg;copy_from_user'', 125), (''all;tokio::runtime;run_transfer;tcp_recvmsg'', 87),
     (''all;tokio::runtime;run_transfer;tcp_sendmsg'', 62),
     (''all;tokio::runtime;scheduler;schedule;finish_task_switch'', 45), (''all;tokio::runtime;scheduler;schedule'', 31),
     (''all;tokio::runtime;sync;futex'', 23), (''all;tokio::runtime;run_transfer;vfs_write;ext4_write_iter'', 18),
     (''all;tokio::runtime;run_transfer;find_get_page'', 12)]"

definition generate_mock_simpleperf_data :: "flame_env \<Rightarrow> (profile_entry list option \<times> string) option" where
  "generate_mock_simpleperf_data e =
    map_option (\<lambda>svg. (Some (map (mock_entry (fe_round e)) mock_profile), svg)) (generate_flamegraph_svg e mock_stacks)"

text \<open>The data file is looked for in two places; \<open>run\<close> is the report of the profiler on a data file.\<close>

definition process_simpleperf_data ::
  "flame_env \<Rightarrow> (string \<Rightarrow> bool) \<Rightarrow> (string \<Rightarrow> (bool \<times> bytes) option) \<Rightarrow> (profile_entry list option \<times> string) option" where
  "process_simpleperf_data e exists_path run =
    (let path = (if exists_path ''/data/local/tmp/perf.data'' then ''/data/local/tmp/perf.data'' else ''perf.data'') in
     if exists_path path then
       (case run path of
          Some (True, stdout) \<Rightarrow>
            (if utf8_valid (of_bytes stdout) then
               (case parse_simpleperf_report_sample e (of_bytes stdout) of
                  None \<Rightarrow> None
                | Some (profile, svg) \<Rightarrow> if svg \<noteq> [] then Some (profile, svg) else generate_mock_simpleperf_data e)
             else generate_mock_simpleperf_data e)
        | _ \<Rightarrow> generate_mock_simpleperf_data e)
     else generate_mock_simpleperf_data e)"

end
