(* ===== verification/File_Server.thy ===== *)
theory File_Server
  imports Receiver_Metrics Flame_Graph Http_Upload Http_Receive
begin

text \<open>
  The file server of the Android agent (\<^verbatim>\<open>agents/android/src/file_server.rs\<close>): the state of its sampler, which
  every transfer starts and stops, and the handlers of its routes. The tasks of the sampler are cut where they
  wait. Percent decoding (\<^verbatim>\<open>urlencoding::decode\<close>), the file name of a path, the writes and the files are
  arguments. A panic of an operation is the result \<open>None\<close>.
\<close>

section \<open>The sampler\<close>

text \<open>A task is spawned, looks at the flag, or waits for its next tick with the flag seen.\<close>

datatype task_pc = Spawned | Checking sampler_task | Waiting sampler_task | Ended

record server_state =
  sv_port :: u16
  sv_samples :: "receiver_sample list"
  sv_active :: bool
  sv_tracker :: cpu_mark
  sv_last_cpu :: cpu_mark
  sv_linux_before :: "linux_metrics option"
  sv_linux_after :: "linux_metrics option"
  sv_net_before :: "net_metrics option"
  sv_net_after :: "net_metrics option"
  sv_fs_before :: "fs_sample option"
  sv_fs_after :: "fs_sample option"
  sv_mock_counter :: u64
  sv_child :: bool
  sv_profile :: "profile_entry list option"
  sv_flame :: string
  sv_tasks :: "task_pc list"

definition server_init :: server_state where
  "server_init =
    \<lparr>sv_port = 8080, sv_samples = [], sv_active = False, sv_tracker = None, sv_last_cpu = None,
     sv_linux_before = None, sv_linux_after = None, sv_net_before = None, sv_net_after = None,
     sv_fs_before = None, sv_fs_after = None, sv_mock_counter = 0, sv_child = False, sv_profile = None,
     sv_flame = [], sv_tasks = []\<rparr>"

definition start_server_port :: "u16 \<Rightarrow> server_state \<Rightarrow> server_state" where
  "start_server_port port s = s\<lparr>sv_port := port\<rparr>"

text \<open>What the sampler meets outside: the kernel's files, whether the profiler can be started, its data files and
  its report.\<close>

record sampler_env =
  se_flags :: sampler_flags
  se_flame :: flame_env
  se_proc :: proc_fs
  se_spawns :: bool
  se_exists :: "string \<Rightarrow> bool"
  se_report :: "string \<Rightarrow> (bool \<times> bytes) option"

definition start_sampler :: "sampler_env \<Rightarrow> server_state \<Rightarrow> server_state option" where
  "start_sampler e s =
    (let linux = sfl_linux (se_flags e) in
     case collect_network_metrics linux (se_proc e) (sv_mock_counter s) of
       None \<Rightarrow> None
     | Some (net, k) \<Rightarrow>
         Some (s\<lparr>sv_samples := [], sv_active := True, sv_last_cpu := None,
           sv_linux_before := Some (collect_linux_metrics linux (se_proc e)), sv_net_before := Some net,
           sv_mock_counter := k, sv_fs_before := Some (collect_fs_metrics linux (se_proc e)), sv_profile := None,
           sv_flame := [], sv_child := (if linux \<and> se_spawns e then True else sv_child s),
           sv_tasks := sv_tasks s @ [Spawned]\<rparr>))"

definition stop_sampler :: "sampler_env \<Rightarrow> server_state \<Rightarrow> server_state option" where
  "stop_sampler e s =
    (let linux = sfl_linux (se_flags e) in
     case collect_network_metrics linux (se_proc e) (sv_mock_counter s) of
       None \<Rightarrow> None
     | Some (net, k) \<Rightarrow>
         (case process_simpleperf_data (se_flame e) (se_exists e) (se_report e) of
            None \<Rightarrow> None
          | Some (profile, svg) \<Rightarrow>
              Some (s\<lparr>sv_active := False, sv_linux_after := Some (collect_linux_metrics linux (se_proc e)),
                sv_net_after := Some net, sv_mock_counter := k,
                sv_fs_after := Some (collect_fs_metrics linux (se_proc e)), sv_child := False,
                sv_profile := profile, sv_flame := svg\<rparr>)))"

text \<open>A piece of the task \<open>i\<close>: taking the base values, looking at the flag, a round. A panic ends the task.\<close>

definition run_sampler_task :: "sampler_flags \<Rightarrow> rounding \<Rightarrow> nat \<Rightarrow> tick_input \<Rightarrow> server_state \<Rightarrow> server_state" where
  "run_sampler_task fl rnd i x s =
    (if i < length (sv_tasks s) then
       (case sv_tasks s ! i of
          Spawned \<Rightarrow>
            (case task_start fl rnd (sv_port s) x (sv_last_cpu s) of
               None \<Rightarrow> s\<lparr>sv_tasks := (sv_tasks s)[i := Ended]\<rparr>
             | Some (mark, t) \<Rightarrow> s\<lparr>sv_last_cpu := mark, sv_tasks := (sv_tasks s)[i := Checking t]\<rparr>)
        | Checking t \<Rightarrow> s\<lparr>sv_tasks := (sv_tasks s)[i := if sv_active s then Waiting t else Ended]\<rparr>
        | Waiting t \<Rightarrow>
            (case sample_round fl rnd x (sv_last_cpu s) t of
               None \<Rightarrow> s\<lparr>sv_tasks := (sv_tasks s)[i := Ended]\<rparr>
             | Some (r, mark, t') \<Rightarrow>
                 s\<lparr>sv_last_cpu := mark, sv_samples := sv_samples s @ [r], sv_tasks := (sv_tasks s)[i := Checking t']\<rparr>)
        | Ended \<Rightarrow> s)
     else s)"

section \<open>A stream that reports its end\<close>

text \<open>\<^verbatim>\<open>DropGuard\<close> runs its action when it is dropped, once; the stream drops it at its end or with itself.
  The number counts the actions.\<close>

datatype 'a poll = PollPending | PollItem 'a | PollEnd

definition guard_drop :: "bool \<Rightarrow> nat" where
  "guard_drop armed = (if armed then 1 else 0)"

fun monitored_poll :: "'a poll \<Rightarrow> bool \<times> nat \<Rightarrow> bool \<times> nat" where
  "monitored_poll PollEnd (armed, n) = (False, n + guard_drop armed)"
| "monitored_poll _ (armed, n) = (armed, n)"

definition monitored_drop :: "bool \<times> nat \<Rightarrow> nat" where
  "monitored_drop g = snd g + guard_drop (fst g)"

section \<open>Handlers\<close>

definition capabilities :: "string \<times> bool \<times> bool \<times> nat \<times> nat" where
  "capabilities = (''1.0'', True, False, 500, 4)"

definition telemetry ::
  "rounding \<Rightarrow> (nat \<Rightarrow> fl \<Rightarrow> string) \<Rightarrow> proc_fs \<Rightarrow> instant \<Rightarrow> server_state \<Rightarrow> (string \<times> string \<times> nat) \<times> server_state" where
  "telemetry rnd fixed p now s =
    (let ((cpu, ram), mark) = get_process_metrics rnd p now (sv_tracker s) in
     ((fixed 1 cpu, show_nat (unat ram), 100), s\<lparr>sv_tracker := mark\<rparr>))"

text \<open>\<^verbatim>\<open>decode(s).unwrap_or_else(|_| s)\<close>\<close>

definition decoded :: "(string \<Rightarrow> string option) \<Rightarrow> string \<Rightarrow> string" where
  "decoded decode s = (case decode s of Some t \<Rightarrow> t | None \<Rightarrow> s)"

datatype status_code = NotFound | BadRequest | InternalServerError

record dir_entry =
  dre_name :: string
  dre_path :: string
  dre_is_dir :: bool
  dre_is_file :: bool
  dre_size :: u64

text \<open>A directory is the list of what \<^verbatim>\<open>next_entry\<close> returns: an error ends it, an entry without metadata is skipped.\<close>

fun readable_entries :: "dir_entry option option list \<Rightarrow> dir_entry list" where
  "readable_entries [] = []"
| "readable_entries (None # es) = []"
| "readable_entries (Some None # es) = readable_entries es"
| "readable_entries (Some (Some d) # es) = d # readable_entries es"

definition list_directory ::
  "(string \<Rightarrow> string option) \<Rightarrow> (string \<Rightarrow> dir_entry option option list option) \<Rightarrow> string option \<Rightarrow> status_code + dir_entry list" where
  "list_directory decode read_dir path =
    (let dir_path = (case path of Some s \<Rightarrow> s | None \<Rightarrow> ''/'') in
     case read_dir (decoded decode dir_path) of
       Some es \<Rightarrow> Inr (readable_entries es)
     | None \<Rightarrow> Inl NotFound)"

text \<open>The answer holds the header \<^verbatim>\<open>Content-Disposition\<close> and the content.\<close>

definition download_path :: "(string \<Rightarrow> string option) \<Rightarrow> string \<Rightarrow> string \<Rightarrow> string" where
  "download_path decode dir filename = path_join dir (decoded decode filename)"

definition download_file ::
  "(string \<Rightarrow> string option) \<Rightarrow> (string \<Rightarrow> string option) \<Rightarrow> string \<Rightarrow> string \<Rightarrow> files \<Rightarrow> status_code + string \<times> bytes" where
  "download_file decode file_name dir filename fs =
    (let path = download_path decode dir filename in
     case fs path of
       Some content \<Rightarrow>
         Inr (''attachment; filename='' @ quot @ (case file_name path of Some n \<Rightarrow> n | None \<Rightarrow> []) @ quot, content)
     | None \<Rightarrow> Inl NotFound)"

text \<open>\<^verbatim>\<open>str::replace\<close> of a pattern that is not empty.\<close>

function str_replace :: "string \<Rightarrow> string \<Rightarrow> string \<Rightarrow> string" where
  "str_replace pat rep s =
    (if s = [] \<or> pat = [] then s
     else if prefix pat s then rep @ str_replace pat rep (drop (length pat) s)
     else hd s # str_replace pat rep (tl s))"
  by pat_completeness auto
termination
  by (relation "measure (\<lambda>(_, _, s). length s)") auto

declare str_replace.simps [simp del]

definition sanitize_name :: "string \<Rightarrow> string" where
  "sanitize_name s =
    str_replace [CHR 0x5C] ''_'' (str_replace ''/'' ''_''
      (str_replace [CHR ''.'', CHR ''.'', CHR 0x5C] [] (str_replace ''../'' [] s)))"

definition receive_path :: "(string \<Rightarrow> string option) \<Rightarrow> string \<Rightarrow> string option \<Rightarrow> string" where
  "receive_path decode dir x_filename =
    path_join dir (sanitize_name (decoded decode (case x_filename of Some n \<Rightarrow> n | None \<Rightarrow> ''received_file'')))"

definition WRITE_BUFFER :: nat where
  "WRITE_BUFFER = 4 * 1024 * 1024"

text \<open>The \<open>k\<close>-th write of the request: \<open>None\<close> when it is complete, else the bytes that reached the file.\<close>

definition append_file :: "(nat \<Rightarrow> nat option) \<Rightarrow> nat \<Rightarrow> string \<Rightarrow> bytes \<Rightarrow> files \<Rightarrow> bool \<times> files" where
  "append_file wr k path buf fs =
    (let put = (\<lambda>bs. fs(path := map_option (\<lambda>old. old @ bs) (fs path))) in
     case wr k of None \<Rightarrow> (True, put buf) | Some n \<Rightarrow> (False, put (take n buf)))"

fun receive_body ::
  "(nat \<Rightarrow> nat option) \<Rightarrow> bool \<Rightarrow> string \<Rightarrow> bytes option list \<Rightarrow> nat \<Rightarrow> bytes \<Rightarrow> u64 \<Rightarrow> files
     \<Rightarrow> (status_code + u64) \<times> files" where
  "receive_body wr sync_ok path [] k buf tot fs =
    (let (ok, fs') = (if buf \<noteq> [] then append_file wr k path buf fs else (True, fs)) in
     (if ok \<and> sync_ok then Inr tot else Inl InternalServerError, fs'))"
| "receive_body wr sync_ok path (None # es) k buf tot fs = (Inl BadRequest, fs)"
| "receive_body wr sync_ok path (Some bs # es) k buf tot fs =
    (let buf' = buf @ bs; tot' = tot + of_nat (length bs) in
     if length buf' \<ge> WRITE_BUFFER then
       (case append_file wr k path buf' fs of
          (True, fs') \<Rightarrow> receive_body wr sync_ok path es (Suc k) [] tot' fs'
        | (False, fs') \<Rightarrow> (Inl InternalServerError, fs'))
     else receive_body wr sync_ok path es k buf' tot' fs)"

definition receive_file ::
  "(string \<Rightarrow> string option) \<Rightarrow> (string \<Rightarrow> bool) \<Rightarrow> (nat \<Rightarrow> nat option) \<Rightarrow> bool \<Rightarrow> string \<Rightarrow> string option
     \<Rightarrow> bytes option list \<Rightarrow> files \<Rightarrow> (status_code + string \<times> u64) \<times> files" where
  "receive_file decode creatable wr sync_ok dir x_filename body fs =
    (let path = receive_path decode dir x_filename in
     if creatable path then
       (case receive_body wr sync_ok path body 0 [] 0 (fs(path \<mapsto> [])) of
          (Inr n, fs') \<Rightarrow> (Inr (path, n), fs')
        | (Inl e, fs') \<Rightarrow> (Inl e, fs'))
     else (Inl InternalServerError, fs))"

text \<open>The report of the sampler: copies of the shared values.\<close>

definition get_benchmark_metrics ::
  "server_state \<Rightarrow> receiver_sample list \<times> (linux_metrics option \<times> linux_metrics option)
     \<times> (net_metrics option \<times> net_metrics option) \<times> (fs_sample option \<times> fs_sample option) \<times> profile_entry list option \<times> string" where
  "get_benchmark_metrics s =
    (sv_samples s, (sv_linux_before s, sv_linux_after s), (sv_net_before s, sv_net_after s),
     (sv_fs_before s, sv_fs_after s), sv_profile s, sv_flame s)"

section \<open>The server in use\<close>

text \<open>Transfers begin and end, tasks run, in any order; an operation that panics leaves no state.\<close>

datatype sv_event = SvBegin sampler_env | SvEnd sampler_env | SvTask rounding nat tick_input | SvTelemetry rounding instant

fun sv_run :: "sampler_flags \<Rightarrow> proc_fs \<Rightarrow> sv_event list \<Rightarrow> server_state \<Rightarrow> server_state option" where
  "sv_run fl p [] s = Some s"
| "sv_run fl p (SvBegin e # es) s = Option.bind (start_sampler e s) (sv_run fl p es)"
| "sv_run fl p (SvEnd e # es) s = Option.bind (stop_sampler e s) (sv_run fl p es)"
| "sv_run fl p (SvTask rnd i x # es) s = sv_run fl p es (run_sampler_task fl rnd i x s)"
| "sv_run fl p (SvTelemetry rnd now # es) s = sv_run fl p es (snd (telemetry rnd (\<lambda>_ _. []) p now s))"

end
