(* ===== verification/Flame_Facts.thy ===== *)
theory Flame_Facts
  imports Flame_Graph
begin

text \<open>
  The flame graph counts what the report holds: the samples of the frame at a path are the samples of the report
  whose call stack begins with that path.
\<close>

section \<open>Counts in the tree\<close>

fun samples_at :: "string list \<Rightarrow> flame_frame \<Rightarrow> u64" where
  "samples_at [] f = ff_samples f"
| "samples_at (p # ps) f = (case hm_get (ff_children f) p of Some c \<Rightarrow> samples_at ps c | None \<Rightarrow> 0)"

lemma samples_at_new [simp]: "samples_at q (flame_frame_new p) = 0"
  by (cases q) (simp_all add: flame_frame_new_def)

lemma samples_at_child: "samples_at q (child_or_new p f) = samples_at (p # q) f"
  by (simp add: child_or_new_def split: option.splits)

lemma samples_at_insert:
  "samples_at q (frame_insert ps n f) = samples_at q f + (if prefix q ps then n else 0)"
proof (induction ps arbitrary: q f)
  case Nil
  show ?case by (cases q) simp_all
next
  case (Cons p ps)
  show ?case
  proof (cases q)
    case (Cons r rs)
    then show ?thesis using Cons.IH [of rs "child_or_new p f"] samples_at_child [of rs p f] by simp
  qed simp
qed

text \<open>The sum of the counts of the keys with a property.\<close>

definition count_where :: "('k \<Rightarrow> bool) \<Rightarrow> ('k, u64) hmap \<Rightarrow> u64" where
  "count_where P m = sum_list (map snd (filter (\<lambda>x. P (fst x)) m))"

lemma count_where_insert:
  "hm_wf m \<Longrightarrow> count_where P (hm_insert k v m) + (if P k then (case hm_get m k of Some w \<Rightarrow> w | None \<Rightarrow> 0) else 0) =
    count_where P m + (if P k then v else 0)"
proof (induction m)
  case Nil
  then show ?case by (simp add: count_where_def hm_insert_def)
next
  case (Cons x m)
  obtain j w where x: "x = (j, w)" by (cases x)
  show ?case
  proof (cases "j = k")
    case True
    then have "hm_get m k = None" using Cons.prems by (simp add: x hm_wf_def hm_get_def map_of_eq_None_iff)
    with True show ?thesis by (simp add: x count_where_def hm_insert_def hm_get_def)
  next
    case False
    then have i: "hm_insert k v (x # m) = x # hm_insert k v m" "hm_get (x # m) k = hm_get m k"
      by (simp_all add: x hm_insert_def hm_get_def)
    have wf: "hm_wf m" using Cons.prems by (simp add: hm_wf_def)
    have "count_where P (x # m') = count_where P m' + (if P j then w else 0)" for m'
      by (simp add: x count_where_def)
    with Cons.IH [OF wf] show ?thesis unfolding i by (simp add: algebra_simps split: if_splits)
  qed
qed

lemma count_where_add:
  "hm_wf m \<Longrightarrow> count_where P (hm_add k n m) = count_where P m + (if P k then n else 0)"
  using count_where_insert [of m P k "(case hm_get m k of Some v \<Rightarrow> v | None \<Rightarrow> 0) + n"]
  by (auto simp: hm_add_def split: if_splits)

lemma hm_wf_add [simp]: "hm_wf m \<Longrightarrow> hm_wf (hm_add k n m)"
  by (simp add: hm_add_def)

lemma samples_collapsed:
  "samples_at q (collapsed_tree m) = count_where (\<lambda>s. prefix q (str_split (CHR '';'') s)) m"
proof -
  have "samples_at q (foldl (\<lambda>t (stack, n). frame_insert (str_split (CHR '';'') stack) n t) f m) =
      samples_at q f + count_where (\<lambda>s. prefix q (str_split (CHR '';'') s)) m" for f
    by (induction m arbitrary: f) (auto simp: count_where_def samples_at_insert split: prod.splits)
  then show ?thesis by (simp add: collapsed_tree_def)
qed

section \<open>The stacks of a report\<close>

text \<open>A sample of the report: the lines before its call chain and the lines of the chain.\<close>

type_synonym sample_text = "string list \<times> string list"

definition sample_lines :: "sample_text \<Rightarrow> string list" where
  "sample_lines r = ''sample:'' # fst r @ ''callchain:'' # snd r"

definition report_text :: "sample_text list \<Rightarrow> string" where
  "report_text rs = unlines (concat (map sample_lines rs))"

definition chain_of :: "sample_text \<Rightarrow> string list" where
  "chain_of r = List.map_filter (\<lambda>l. parse_symbol_from_line (trim l)) (snd r)"

definition detail_line :: "string \<Rightarrow> bool" where
  "detail_line l \<longleftrightarrow> plain_line l \<and> \<not> prefix ''sample'' (trim l) \<and> \<not> prefix ''callchain:'' (trim l)"

definition sample_ok :: "sample_text \<Rightarrow> bool" where
  "sample_ok r \<longleftrightarrow> list_all detail_line (fst r @ snd r) \<and> list_all (\<lambda>s. CHR '';'' \<notin> set s) (chain_of r)"

lemma trim_marks: "trim ''sample:'' = ''sample:''" "trim ''callchain:'' = ''callchain:''"
  using trim_padded [of "''sample:''" 0] trim_padded [of "''callchain:''" 0]
  by (simp_all add: plain_word_def code_def)

lemma header_lines:
  "list_all detail_line ls \<Longrightarrow> foldl report_line (m, stack, False) ls = (m, stack, False)"
  by (induction ls) (simp_all add: detail_line_def Let_def)

lemma chain_lines:
  "list_all detail_line ls \<Longrightarrow> foldl report_line (m, stack, True) ls =
    (m, stack @ List.map_filter (\<lambda>l. parse_symbol_from_line (trim l)) ls, True)"
proof (induction ls arbitrary: stack)
  case Nil
  then show ?case by (simp add: List.map_filter_def)
next
  case (Cons l ls)
  then show ?case
    by (simp add: detail_line_def Let_def List.map_filter_def split: option.split)
qed

lemma report_sample:
  assumes "sample_ok r"
  shows "foldl report_line (m, stack, ch) (sample_lines r) = (flush_stack m stack, chain_of r, True)"
  using assms by (simp add: sample_ok_def sample_lines_def trim_marks header_lines chain_lines chain_of_def Let_def)

lemma report_samples:
  "list_all sample_ok rs \<Longrightarrow>
    (case foldl report_line (m, stack, ch) (concat (map sample_lines rs)) of (m', stack', _) \<Rightarrow> flush_stack m' stack') =
    foldl flush_stack (flush_stack m stack) (map chain_of rs)"
  by (induction rs arbitrary: m stack ch) (simp_all add: report_sample)

lemma collapse_report_text:
  assumes "list_all sample_ok rs"
  shows "collapse_report (report_text rs) = foldl flush_stack [] (map chain_of rs)"
proof -
  have "list_all plain_line (sample_lines r)" if "sample_ok r" for r
    using that by (auto simp: sample_ok_def sample_lines_def detail_line_def list_all_iff plain_line_def)
  then have "list_all plain_line (concat (map sample_lines rs))"
    using assms by (auto simp: list_all_iff)
  then show ?thesis
    using report_samples [OF assms, of "[]" "[]" False]
    by (simp add: collapse_report_def report_text_def str_lines_unlines flush_stack_def)
qed

lemma split_join_stack:
  "ss \<noteq> [] \<Longrightarrow> list_all (\<lambda>s. CHR '';'' \<notin> set s) ss \<Longrightarrow> str_split (CHR '';'') (join_stack ss) = ss"
  by (induction ss rule: join_stack.induct) (simp_all add: str_split_no_sep str_split_append)

lemma count_where_flush:
  assumes "list_all (list_all (\<lambda>s. CHR '';'' \<notin> set s)) stacks" "hm_wf m"
  shows "count_where (\<lambda>s. prefix q (str_split (CHR '';'') s)) (foldl flush_stack m stacks) =
    count_where (\<lambda>s. prefix q (str_split (CHR '';'') s)) m
      + of_nat (length (filter (\<lambda>s. s \<noteq> [] \<and> prefix q (rev s)) stacks))"
  using assms
proof (induction stacks arbitrary: m)
  case (Cons s ss)
  have "str_split (CHR '';'') (join_stack (rev s)) = rev s" if "s \<noteq> []"
    using that Cons.prems(1) by (intro split_join_stack) (auto simp: list_all_iff)
  with Cons show ?case by (auto simp: flush_stack_def count_where_add)
qed simp

text \<open>C25. The flame graph counts the samples of the report: the frame at any path from the root has as many
  samples (modulo 2^64) as there are samples in the report whose call chain, outermost function first,
  begins with that path. So the width of a frame is its share of the samples, and samples with an empty chain count
  nowhere.\<close>

theorem flame_counts:
  assumes "list_all sample_ok rs"
  shows "samples_at q (collapsed_tree (collapse_report (report_text rs))) =
    of_nat (length (filter (\<lambda>r. chain_of r \<noteq> [] \<and> prefix q (rev (chain_of r))) rs))"
proof -
  have "list_all (list_all (\<lambda>s. CHR '';'' \<notin> set s)) (map chain_of rs)"
    using assms by (auto simp: list_all_iff sample_ok_def)
  from count_where_flush [OF this, of "[]" q] show ?thesis
    by (simp add: samples_collapsed collapse_report_text [OF assms] count_where_def filter_map comp_def)
qed

definition demo_report :: "sample_text list" where
  "demo_report = [([''time: 5''], [''(g)'', ''(m)'']), ([], [''(f)'', ''(m)'']), ([], [])]"

theorem flame_counts_witness:
  "samples_at [''m''] (collapsed_tree (collapse_report (report_text demo_report))) = 2
    \<and> samples_at [''m'', ''g''] (collapsed_tree (collapse_report (report_text demo_report))) = 1"
proof -
  have t: "trim ''(g)'' = ''(g)''" "trim ''(m)'' = ''(m)''" "trim ''(f)'' = ''(f)''" "trim ''time: 5'' = ''time: 5''"
    by code_simp+
  have s: "parse_symbol_from_line ''(g)'' = Some ''g''" "parse_symbol_from_line ''(m)'' = Some ''m''"
    "parse_symbol_from_line ''(f)'' = Some ''f''"
    by code_simp+
  have "list_all sample_ok demo_report"
    by (simp add: demo_report_def sample_ok_def detail_line_def chain_of_def t s List.map_filter_def plain_line_def)
  from flame_counts [OF this, of "[''m'']"] flame_counts [OF this, of "[''m'', ''g'']"]
  show ?thesis by (simp add: demo_report_def chain_of_def t s List.map_filter_def)
qed

section \<open>Drawing names of ASCII characters\<close>

definition ascii :: "string \<Rightarrow> bool" where
  "ascii s \<longleftrightarrow> list_all (\<lambda>c. code c < 128) s"

fun ascii_frame :: "flame_frame \<Rightarrow> bool" where
  "ascii_frame (FlameFrame name n ch) \<longleftrightarrow> ascii name \<and> list_all (\<lambda>c. ascii_frame (snd c)) ch"

lemma ascii_frame_iff: "ascii_frame f \<longleftrightarrow> ascii (ff_name f) \<and> list_all ascii_frame (hm_values (ff_children f))"
  by (cases f) (simp add: hm_values_def list_all_iff)

lemma hm_insert_mem: "x \<in> set (hm_insert k v m) \<Longrightarrow> x = (k, v) \<or> x \<in> set m"
  by (induction m) (auto simp: hm_insert_def split: if_splits)

lemma ascii_child: "ascii p \<Longrightarrow> ascii_frame f \<Longrightarrow> ascii_frame (child_or_new p f)"
  by (auto simp: child_or_new_def flame_frame_new_def ascii_frame_iff [of f] list_all_iff hm_values_def hm_get_def
      dest!: map_of_SomeD split: option.split)

lemma ascii_frame_insert: "ascii_frame f \<Longrightarrow> list_all ascii ps \<Longrightarrow> ascii_frame (frame_insert ps n f)"
proof (induction ps arbitrary: f)
  case Nil
  then show ?case by (cases f) simp
next
  case (Cons p ps)
  have "ascii_frame (frame_insert ps n (child_or_new p f))"
    using Cons.IH [OF ascii_child] Cons.prems by simp
  with Cons.prems(1) show ?case
    by (cases f) (auto simp: list_all_iff dest: hm_insert_mem)
qed

lemma ascii_collapsed_tree:
  assumes "list_all (\<lambda>x. list_all ascii (str_split (CHR '';'') (fst x))) m"
  shows "ascii_frame (collapsed_tree m)"
proof -
  have "ascii_frame f \<Longrightarrow> ascii_frame (foldl (\<lambda>t (stack, n). frame_insert (str_split (CHR '';'') stack) n t) f m)" for f
    using assms by (induction m arbitrary: f) (auto simp: ascii_frame_insert)
  moreover have "ascii_frame (flame_frame_new ''all'')" by (simp add: flame_frame_new_def ascii_def code_def)
  ultimately show ?thesis by (simp add: collapsed_tree_def)
qed

lemma frame_box_ascii: "ascii (ff_name f) \<Longrightarrow> frame_box e tot f x y \<noteq> None"
  by (auto simp: frame_box_def display_name_def truncate_at_def ascii_def list_all_length Let_def)

lemma render_ascii: "list_all ascii_frame fs \<Longrightarrow> render_nodes e tot fs x y \<noteq> None"
proof (induction e tot fs x y rule: render_nodes.induct)
  case (2 e tot f fs x y)
  have c: "list_all ascii_frame (sorted_children f)"
    using "2.prems" by (simp add: ascii_frame_iff [of f] sorted_children_def list_all_iff)
  have "frame_box e tot f x y \<noteq> None"
    using "2.prems" by (intro frame_box_ascii) (simp add: ascii_frame_iff [of f])
  then obtain b where b: "frame_box e tot f x y = Some b" by auto
  show ?case
  proof (cases "ff_samples f = 0 \<or> fl_less (frame_width e tot f) (Fin (1 / 2))")
    case True
    with "2.IH"(2) "2.prems" show ?thesis by simp
  next
    case False
    with "2.IH"(1) [OF False b c] "2.IH"(2) "2.prems" b show ?thesis by fastforce
  qed
qed simp

text \<open>A collapsed profile of ASCII symbols is always drawn: the truncation of a label panics only inside a character.\<close>

lemma flamegraph_ascii:
  "list_all (\<lambda>x. list_all ascii (str_split (CHR '';'') (fst x))) m \<Longrightarrow> generate_flamegraph_svg e m \<noteq> None"
  using render_ascii [of "[collapsed_tree m]"] ascii_collapsed_tree [of m]
  by (auto simp: generate_flamegraph_svg_def Let_def)

lemma mock_data_drawn: "generate_mock_simpleperf_data e \<noteq> None"
proof -
  have "list_all (\<lambda>x. list_all ascii (str_split (CHR '';'') (fst x))) mock_stacks" by code_simp
  from flamegraph_ascii [OF this] show ?thesis by (simp add: generate_mock_simpleperf_data_def)
qed

end
