(* ===== verification/File_Server_Facts.thy ===== *)
theory File_Server_Facts
  imports File_Server Flame_Facts
begin

text \<open>
  What holds of the file server: where an upload is written and what it holds, what a download can reach, under which name
  the file of a client of the transfer engine arrives, and what overlapping transfers do to the sampler.
\<close>

section \<open>Names\<close>

lemma str_replace_char: "str_replace [c] [r] s = map (\<lambda>x. if x = c then r else x) s"
proof (induction s)
  case Nil
  then show ?case by (simp add: str_replace.simps)
next
  case (Cons x s)
  then show ?case by (cases "x = c") (simp_all add: str_replace.simps [of "[c]" "[r]" "a # s" for a])
qed

lemma sanitize_name_clean: "CHR ''/'' \<notin> set (sanitize_name s)" "CHR 0x5C \<notin> set (sanitize_name s)"
  unfolding sanitize_name_def str_replace_char by auto

lemma sanitize_plain:
  assumes "CHR ''/'' \<notin> set s" "CHR 0x5C \<notin> set s"
  shows "sanitize_name s = s"
proof -
  have none: "str_replace pat rep s = s" if "c \<in> set pat" "c \<notin> set s" for pat rep c
    using that(2)
  proof (induction s)
    case Nil
    then show ?case by (simp add: str_replace.simps)
  next
    case (Cons x s)
    have "\<not> prefix pat (x # s)" using that(1) Cons.prems set_mono_prefix by blast
    with Cons show ?case by (simp add: str_replace.simps [of pat rep "x # s"])
  qed
  have "str_replace ''../'' [] s = s" "str_replace [CHR ''.'', CHR ''.'', CHR 0x5C] [] s = s"
    by (rule none [of "CHR ''/''"], simp, rule assms(1)) (rule none [of "CHR 0x5C"], simp, rule assms(2))
  moreover have "map (\<lambda>x. if x = c then r else x) s = s" if "c \<notin> set s" for c r :: char
    using that by (intro map_idI) auto
  ultimately show ?thesis using assms by (simp add: sanitize_name_def str_replace_char del: map_map)
qed

text \<open>Percent decoding as its library documents it: an escape is its byte, anything else, the plus sign
  included, is itself, and the result is UTF-8.\<close>

datatype name_piece = Plain char | Escaped u8

fun piece_text :: "name_piece \<Rightarrow> string" where
  "piece_text (Plain c) = [c]"
| "piece_text (Escaped b) = [CHR ''%'', hex_digit_upper (unat b div 16), hex_digit_upper (unat b mod 16)]"

fun piece_char :: "name_piece \<Rightarrow> char" where
  "piece_char (Plain c) = c"
| "piece_char (Escaped b) = char_of_byte b"

definition percent_decoder :: "(string \<Rightarrow> string option) \<Rightarrow> bool" where
  "percent_decoder decode \<longleftrightarrow>
    (\<forall>ps. Plain (CHR ''%'') \<notin> set ps \<and> utf8_valid (map piece_char ps)
      \<longrightarrow> decode (concat (map piece_text ps)) = Some (map piece_char ps))"

definition plus_for_space :: "string \<Rightarrow> string" where
  "plus_for_space s = map (\<lambda>c. if c = CHR '' '' then CHR ''+'' else c) s"

definition pieces :: "string \<Rightarrow> name_piece list" where
  "pieces s = map (\<lambda>c. let b = byte_of_char c in
     if unreserved b then Plain c else if c = CHR '' '' then Plain (CHR ''+'') else Escaped b) s"

lemma byte_is_space: "byte_of_char c = 32 \<longleftrightarrow> c = CHR '' ''"
proof -
  have "byte_of_char (CHR '' '') = 32" by (simp add: byte_of_char_def)
  then show ?thesis by (metis char_of_byte_of_char)
qed

lemma urlencode_pieces: "urlencode s = concat (map piece_text (pieces s))"
proof -
  have "char_of (unat (byte_of_char c)) = c" for c by simp
  then have "urlencode_byte (byte_of_char c) = piece_text (hd (pieces [c]))" for c
    by (simp add: urlencode_byte_def pieces_def Let_def byte_is_space)
  then show ?thesis by (simp add: urlencode_def as_bytes_def pieces_def comp_def Let_def)
qed

lemma reserved_marks: "\<not> unreserved (byte_of_char (CHR '' ''))" "\<not> unreserved (byte_of_char (CHR ''%''))"
  by (simp_all add: unreserved_def byte_of_char_def)

lemma pieces_chars: "map piece_char (pieces s) = plus_for_space s"
  by (induction s) (auto simp: pieces_def plus_for_space_def Let_def reserved_marks)

lemma pieces_percent: "Plain (CHR ''%'') \<notin> set (pieces s)"
  by (auto simp: pieces_def Let_def reserved_marks split: if_splits)

lemma decode_urlencode:
  assumes "percent_decoder decode" "utf8_valid (plus_for_space s)"
  shows "decode (urlencode s) = Some (plus_for_space s)"
  using assms(1) pieces_percent [of s] assms(2)
  unfolding percent_decoder_def urlencode_pieces pieces_chars [symmetric] by blast

section \<open>The body of an upload\<close>

text \<open>The bytes of the body before its first error.\<close>

fun body_bytes :: "bytes option list \<Rightarrow> bytes" where
  "body_bytes [] = []"
| "body_bytes (None # es) = []"
| "body_bytes (Some bs # es) = bs @ body_bytes es"

lemma receive_body_other:
  "receive_body wr sy path es k buf tot fs = (r, fs') \<Longrightarrow> q \<noteq> path \<Longrightarrow> fs' q = fs q"
proof (induction es arbitrary: k buf tot fs)
  case Nil
  then show ?case by (auto simp: append_file_def split: if_splits option.splits)
next
  case (Cons e es)
  then show ?case
    by (cases e) (auto simp: append_file_def Let_def split: if_splits option.splits)
qed

lemma receive_body_ok:
  assumes "receive_body wr sy path es k buf tot fs = (Inr n, fs')" "fs path = Some old"
  shows "None \<notin> set es \<and> fs' path = Some (old @ buf @ body_bytes es) \<and> n = tot + of_nat (length (body_bytes es))"
  using assms
proof (induction es arbitrary: k buf tot fs old)
  case Nil
  then show ?case by (auto simp: append_file_def split: if_splits option.splits)
next
  case (Cons e es)
  then show ?case
    by (cases e) (fastforce simp: append_file_def Let_def algebra_simps split: if_splits option.splits)+
qed

lemma receive_body_answer:
  "(None \<in> set es \<or> \<not> sy \<Longrightarrow> \<exists>e fs'. receive_body wr sy path es k buf tot fs = (Inl e, fs'))"
  "None \<notin> set es \<Longrightarrow> sy \<Longrightarrow> (\<And>k. wr k = None) \<Longrightarrow> \<exists>n fs'. receive_body wr sy path es k buf tot fs = (Inr n, fs')"
proof -
  show "None \<in> set es \<or> \<not> sy \<Longrightarrow> \<exists>e fs'. receive_body wr sy path es k buf tot fs = (Inl e, fs')"
  proof (induction es arbitrary: k buf tot fs)
    case Nil
    then show ?case by (simp add: case_prod_beta)
  next
    case (Cons x es)
    then show ?case by (cases x) (auto simp: Let_def split: prod.splits bool.splits)
  qed
  show "None \<notin> set es \<Longrightarrow> sy \<Longrightarrow> (\<And>k. wr k = None) \<Longrightarrow> \<exists>n fs'. receive_body wr sy path es k buf tot fs = (Inr n, fs')"
  proof (induction es arbitrary: k buf tot fs)
    case Nil
    then show ?case by (simp add: append_file_def case_prod_beta)
  next
    case (Cons x es)
    then show ?case by (cases x) (auto simp: append_file_def Let_def)
  qed
qed

lemma receive_body_prefix:
  assumes "receive_body wr sy path es k buf tot fs = (Inl e, fs')" "fs path = Some old"
  shows "\<exists>m. fs' path = Some (old @ take m (buf @ body_bytes es))"
  using assms
proof (induction es arbitrary: k buf tot fs old)
  case Nil
  then show ?case
    by (auto simp: append_file_def split: if_splits option.splits intro: exI [of _ 0] exI [of _ "length buf"])
next
  case (Cons x es)
  show ?case
  proof (cases x)
    case None
    with Cons.prems show ?thesis by (auto intro: exI [of _ 0])
  next
    case (Some bs)
    show ?thesis
    proof (cases "length (buf @ bs) \<ge> WRITE_BUFFER")
      case False
      then have "receive_body wr sy path es k (buf @ bs) (tot + of_nat (length bs)) fs = (Inl e, fs')"
        using Cons.prems(1) by (simp add: Some Let_def)
      from Cons.IH [OF this Cons.prems(2)] show ?thesis by (simp add: Some)
    next
      case True
      show ?thesis
      proof (cases "wr k")
        case None
        then have "receive_body wr sy path es (Suc k) [] (tot + of_nat (length bs)) (fs(path \<mapsto> old @ buf @ bs)) = (Inl e, fs')"
          using Cons.prems True by (simp add: Some Let_def append_file_def)
        from Cons.IH [OF this, of "old @ buf @ bs"] obtain m where
          "fs' path = Some (old @ (buf @ bs) @ take m (body_bytes es))" by auto
        then have "fs' path = Some (old @ take (length (buf @ bs) + m) (buf @ body_bytes (x # es)))"
          by (simp add: Some take_add)
        then show ?thesis ..
      next
        case (Some n)
        then have "fs' path = Some (old @ take n (buf @ bs))"
          using Cons.prems True \<open>x = Some bs\<close> by (auto simp: Let_def append_file_def)
        also have "take n (buf @ bs) = take (min n (length (buf @ bs))) (buf @ body_bytes (x # es))"
          using \<open>x = Some bs\<close> by (simp add: min_def)
        finally show ?thesis ..
      qed
    qed
  qed
qed

text \<open>C24. What a request can reach. An upload touches no file but the one it names, which lies directly in the
  download directory: its name has no separator. It answers with that path and the size only when it has written the whole
  body, and always does where the file can be created, no part of the body is missing and no call fails; a file that cannot be created, a missing part
  and a failing sync each make the answer an error. After an error the files are as before, or a beginning of the body, up to the whole of it, is under the final name. A download is not
  confined: with an encoded absolute name it returns any file of the system, whatever the directory.\<close>

theorem server_paths:
  assumes "receive_file decode creatable wr sync_ok dir x_filename body fs = (r, fs')"
    and "decode name = Some target" "target \<noteq> []" "hd target = CHR ''/''" "fs target = Some content"
  shows "(\<exists>n. receive_path decode dir x_filename = path_join dir n \<and> CHR ''/'' \<notin> set n \<and> CHR 0x5C \<notin> set n)
    \<and> (\<forall>q. q \<noteq> receive_path decode dir x_filename \<longrightarrow> fs' q = fs q)
    \<and> (case r of
         Inr (q, n) \<Rightarrow> q = receive_path decode dir x_filename \<and> None \<notin> set body
           \<and> fs' q = Some (body_bytes body) \<and> n = of_nat (length (body_bytes body))
       | Inl e \<Rightarrow> fs' = fs \<or> (\<exists>m. fs' (receive_path decode dir x_filename) = Some (take m (body_bytes body))))
    \<and> (let answered = (\<exists>a. r = Inr a); whole = (creatable (receive_path decode dir x_filename) \<and> None \<notin> set body \<and> sync_ok) in
       if whole \<and> (\<forall>k. wr k = None) then answered else if whole then True else \<not> answered)
    \<and> map_option snd (case download_file decode file_name dir name fs of Inr a \<Rightarrow> Some a | Inl _ \<Rightarrow> None) = Some content"
proof -
  let ?p = "receive_path decode dir x_filename"
  have "\<exists>n. ?p = path_join dir n \<and> CHR ''/'' \<notin> set n \<and> CHR 0x5C \<notin> set n"
    unfolding receive_path_def using sanitize_name_clean by blast
  moreover have "fs' q = fs q" if "q \<noteq> ?p" for q
    using assms(1) that receive_body_other [OF _ that]
    by (fastforce simp: receive_file_def Let_def split: if_splits prod.splits sum.splits)
  moreover have "case r of
         Inr (q, n) \<Rightarrow> q = ?p \<and> None \<notin> set body \<and> fs' q = Some (body_bytes body) \<and> n = of_nat (length (body_bytes body))
       | Inl e \<Rightarrow> fs' = fs \<or> (\<exists>m. fs' ?p = Some (take m (body_bytes body)))"
  proof (cases "creatable ?p")
    case False
    with assms(1) show ?thesis by (auto simp: receive_file_def)
  next
    case True
    obtain r1 fs1 where b: "receive_body wr sync_ok ?p body 0 [] 0 (fs(?p \<mapsto> [])) = (r1, fs1)"
      by (cases "receive_body wr sync_ok ?p body 0 [] 0 (fs(?p \<mapsto> []))")
    show ?thesis
    proof (cases r1)
      case (Inl e)
      with b True assms(1) receive_body_prefix [of wr sync_ok ?p body 0 "[]" 0 "fs(?p \<mapsto> [])" e fs1 "[]"]
      show ?thesis by (auto simp: receive_file_def Let_def)
    next
      case (Inr n)
      with b True assms(1) receive_body_ok [of wr sync_ok ?p body 0 "[]" 0 "fs(?p \<mapsto> [])" n fs1 "[]"]
      show ?thesis by (auto simp: receive_file_def Let_def)
    qed
  qed
  moreover have "let answered = (\<exists>a. r = Inr a); whole = (creatable ?p \<and> None \<notin> set body \<and> sync_ok) in
       if whole \<and> (\<forall>k. wr k = None) then answered else if whole then True else \<not> answered"
    using assms(1) receive_body_answer [of body sync_ok wr ?p 0 "[]" 0 "fs(?p \<mapsto> [])"]
    by (fastforce simp: receive_file_def Let_def split: if_splits prod.splits sum.splits)
  moreover have "map_option snd (case download_file decode file_name dir name fs of Inr a \<Rightarrow> Some a | Inl _ \<Rightarrow> None) = Some content"
    using assms(2-5) by (simp add: download_file_def download_path_def decoded_def path_join_def)
  ultimately show ?thesis by blast
qed

theorem server_paths_witness:
  "snd (receive_file Some (\<lambda>_. True) (\<lambda>_. None) True ''/d'' (Some ''../../x'') [Some [1], Some [2]] [''/etc/key'' \<mapsto> [9]])
      ''/etc/key'' = Some [9]
    \<and> receive_path Some ''/d'' (Some ''../../x'') = ''/d/x''"
proof -
  have p: "receive_path Some ''/d'' (Some ''../../x'') = ''/d/x''" by code_simp
  obtain r fs' where
    e: "receive_file Some (\<lambda>_. True) (\<lambda>_. None) True ''/d'' (Some ''../../x'') [Some [1], Some [2]] [''/etc/key'' \<mapsto> [9]] = (r, fs')"
    by fastforce
  have "\<forall>q. q \<noteq> ''/d/x'' \<longrightarrow> fs' q = [''/etc/key'' \<mapsto> [9]] q"
    using server_paths [OF e, of "''/etc/key''" "''/etc/key''" "[9]" "\<lambda>_. None"] unfolding p by simp
  with e p show ?thesis by simp
qed

text \<open>C23. An upload of the transfer engine's HTTP client to this server: the client sends the name of the file in the
  form encoding, where a space is a plus sign, the server decodes percent escapes only. The content
  arrives whole, whatever the chunks it is read in, but every space of its name has become a plus sign.\<close>

theorem uploaded_file_saved:
  assumes "percent_decoder decode" "utf8_valid (plus_for_space name)"
    and "CHR ''/'' \<notin> set name" "CHR 0x5C \<notin> set name"
    and "creatable (path_join dir (plus_for_space name))" "concat chunks = content"
  shows "\<exists>fs'. receive_file decode creatable (\<lambda>_. None) True dir (Some (urlencode name)) (map Some chunks) fs =
      (Inr (path_join dir (plus_for_space name), of_nat (length content)), fs')
    \<and> fs' (path_join dir (plus_for_space name)) = Some content"
proof -
  let ?p = "path_join dir (plus_for_space name)"
  have "CHR ''/'' \<notin> set (plus_for_space name)" "CHR 0x5C \<notin> set (plus_for_space name)"
    using assms(3,4) by (auto simp: plus_for_space_def)
  then have p: "receive_path decode dir (Some (urlencode name)) = ?p"
    by (simp add: receive_path_def decoded_def decode_urlencode [OF assms(1,2)] sanitize_plain)
  have all: "body_bytes (map Some chunks) = content" using assms(6) by (induction chunks arbitrary: content) auto
  have "\<exists>n fs'. receive_body (\<lambda>_. None) True ?p (map Some cs) k buf tot g = (Inr n, fs')" for cs k buf tot g
    by (induction cs arbitrary: k buf tot g) (simp_all add: append_file_def Let_def)
  then obtain n fs' where b: "receive_body (\<lambda>_. None) True ?p (map Some chunks) 0 [] 0 (fs(?p \<mapsto> [])) = (Inr n, fs')"
    by blast
  from receive_body_ok [OF b, of "[]"] have "fs' ?p = Some content" "n = of_nat (length content)" by (simp_all add: all)
  then show ?thesis using b assms(5) by (simp add: receive_file_def p)
qed

text \<open>A decoder of that kind.\<close>

fun percent_decode :: "string \<Rightarrow> string" where
  "percent_decode (c # a # b # s) =
    (if c = CHR ''%'' then char_of (16 * hex_digit_value a + hex_digit_value b) # percent_decode s
     else c # percent_decode (a # b # s))"
| "percent_decode (c # s) = c # percent_decode s"
| "percent_decode [] = []"

lemma hex_digit_value_upper: "n < 16 \<Longrightarrow> hex_digit_value (hex_digit_upper n) = n"
  by (simp add: hex_digit_value_def hex_digit_upper_def ascii_defs)

lemma percent_decode_piece: "p \<noteq> Plain (CHR ''%'') \<Longrightarrow> percent_decode (piece_text p @ s) = piece_char p # percent_decode s"
proof (cases p)
  case (Plain c)
  assume "p \<noteq> Plain (CHR ''%'')"
  with Plain show ?thesis by (cases s rule: percent_decode.cases) auto
next
  case (Escaped b)
  have "unat b < 2 ^ LENGTH(8)" by (rule unsigned_less)
  then have "unat b div 16 < 16" by simp
  then have "16 * hex_digit_value (hex_digit_upper (unat b div 16)) + hex_digit_value (hex_digit_upper (unat b mod 16)) = unat b"
    by (simp add: hex_digit_value_upper)
  then show ?thesis by (simp add: Escaped char_of_byte_def)
qed

lemma percent_decoder_ok: "percent_decoder (\<lambda>s. Some (percent_decode s))"
proof -
  have "Plain (CHR ''%'') \<notin> set ps \<Longrightarrow> percent_decode (concat (map piece_text ps)) = map piece_char ps" for ps
    by (induction ps) (auto simp: percent_decode_piece)
  then show ?thesis by (simp add: percent_decoder_def)
qed

theorem uploaded_file_saved_witness:
  "\<exists>fs'. receive_file (\<lambda>s. Some (percent_decode s)) (\<lambda>_. True) (\<lambda>_. None) True ''/d'' (Some (urlencode ''a b'')) [Some [1], Some [2]] Map.empty =
      (Inr (''/d/a+b'', 2), fs') \<and> fs' ''/d/a+b'' = Some [1, 2]"
proof -
  have "utf8_valid (plus_for_space ''a b'')" by (rule utf8_valid_ascii) (simp add: plus_for_space_def)
  from uploaded_file_saved [OF percent_decoder_ok this, of "\<lambda>_. True" "''/d''" "[[1], [2]]" "[1, 2]" Map.empty] show ?thesis
    by (simp add: path_join_def plus_for_space_def)
qed

section \<open>Overlapping transfers\<close>

fun is_waiting :: "task_pc \<Rightarrow> bool" where
  "is_waiting (Waiting t) = True"
| "is_waiting _ = False"

definition waiting_tasks :: "server_state \<Rightarrow> nat" where
  "waiting_tasks s = length (filter is_waiting (sv_tasks s))"

fun is_begin :: "sv_event \<Rightarrow> bool" where
  "is_begin (SvBegin e) = True"
| "is_begin _ = False"

lemma waiting_update:
  "i < length ts \<Longrightarrow> length (filter is_waiting (ts[i := t])) + (if is_waiting (ts ! i) then 1 else 0) =
    length (filter is_waiting ts) + (if is_waiting t then 1 else 0)"
proof (induction ts arbitrary: i)
  case (Cons a ts)
  then show ?case by (cases i) auto
qed simp

lemma run_task_inactive:
  assumes "\<not> sv_active s"
  shows "\<not> sv_active (run_sampler_task fl rnd i x s)
    \<and> length (sv_samples (run_sampler_task fl rnd i x s)) + waiting_tasks (run_sampler_task fl rnd i x s)
      \<le> length (sv_samples s) + waiting_tasks s"
proof (cases "i < length (sv_tasks s)")
  case True
  have le: "length (filter is_waiting ((sv_tasks s)[i := t])) \<le> length (filter is_waiting (sv_tasks s))"
    if "\<not> is_waiting t" for t
    using waiting_update [OF True, of t] that by simp
  have less: "Suc (length (filter is_waiting ((sv_tasks s)[i := t]))) = length (filter is_waiting (sv_tasks s))"
    if "\<not> is_waiting t" "is_waiting (sv_tasks s ! i)" for t
    using waiting_update [OF True, of t] that by simp
  show ?thesis
  proof (cases "sv_tasks s ! i")
    case (Waiting t)
    have ended: "Suc (length (filter is_waiting ((sv_tasks s)[i := u]))) = length (filter is_waiting (sv_tasks s))"
      if "u = Ended \<or> u = Checking t'" for u t'
      using less [of u] that Waiting by auto
    show ?thesis
    proof (cases "sample_round fl rnd x (sv_last_cpu s) t")
      case None
      with assms True Waiting ended [of Ended] show ?thesis by (simp add: run_sampler_task_def waiting_tasks_def)
    next
      case (Some y)
      obtain r mark t' where y: "y = (r, mark, t')" by (cases y)
      with Some assms True Waiting ended [of "Checking t'" t'] show ?thesis
        by (simp add: run_sampler_task_def waiting_tasks_def)
    qed
  qed (use assms True le in \<open>auto simp: run_sampler_task_def waiting_tasks_def split: option.split\<close>)
qed (simp add: assms run_sampler_task_def)

lemma stop_sampler_fields:
  "stop_sampler e s = Some s' \<Longrightarrow> \<not> sv_active s' \<and> sv_samples s' = sv_samples s \<and> sv_tasks s' = sv_tasks s"
  by (auto simp: stop_sampler_def Let_def split: option.splits prod.splits)

lemma start_sampler_fields:
  "start_sampler e s = Some s' \<Longrightarrow> sv_active s' \<and> sv_samples s' = [] \<and> sv_tasks s' = sv_tasks s @ [Spawned]"
  by (auto simp: start_sampler_def Let_def split: option.splits prod.splits)

lemma run_inactive:
  "sv_run fl p es s = Some s' \<Longrightarrow> \<not> sv_active s \<Longrightarrow> list_all (\<lambda>e. \<not> is_begin e) es
    \<Longrightarrow> length (sv_samples s') + waiting_tasks s' \<le> length (sv_samples s) + waiting_tasks s"
proof (induction es arbitrary: s)
  case (Cons e es)
  show ?case
  proof (cases e)
    case (SvEnd env)
    with Cons.prems obtain s1 where s1: "stop_sampler env s = Some s1" "sv_run fl p es s1 = Some s'"
      by (auto simp: bind_eq_Some_conv)
    from stop_sampler_fields [OF s1(1)] Cons.IH [OF s1(2)] Cons.prems(3) show ?thesis by (simp add: waiting_tasks_def)
  next
    case (SvTask rnd i x)
    with Cons.IH [of "run_sampler_task fl rnd i x s"] Cons.prems run_task_inactive [OF Cons.prems(2), of fl rnd i x]
    show ?thesis by simp
  next
    case (SvTelemetry rnd now)
    with Cons.IH [of "snd (telemetry rnd (\<lambda>_ _. []) p now s)"] Cons.prems show ?thesis
      by (simp add: telemetry_def waiting_tasks_def split: prod.splits)
  qed (use Cons.prems in auto)
qed simp

text \<open>The sampler is shared by all transfers. The end of one ends it for all: however many
  others are open and whatever happens afterwards, until a new transfer begins there is at most one
  more sample for every task that was waiting for its tick. And an end followed by a beginning before the tasks
  have looked at the flag keeps them: every repetition adds a task, all of them sample, and the samples of the
  transfers that are still open are discarded.\<close>

theorem sampler_overlap:
  assumes "stop_sampler e s = Some s1" "list_all (\<lambda>x. \<not> is_begin x) es" "sv_run fl p es s1 = Some s'"
    and "sv_run fl p (concat (replicate n [SvEnd e', SvBegin e'])) s = Some s2" "0 < n"
  shows "length (sv_samples s') \<le> length (sv_samples s) + waiting_tasks s
    \<and> sv_tasks s2 = sv_tasks s @ replicate n Spawned \<and> sv_active s2 \<and> sv_samples s2 = []"
proof -
  have "length (sv_samples s') \<le> length (sv_samples s) + waiting_tasks s"
    using run_inactive [OF assms(3) _ assms(2)] stop_sampler_fields [OF assms(1)] by (simp add: waiting_tasks_def)
  moreover have "sv_run fl p (concat (replicate k [SvEnd e', SvBegin e'])) u = Some v \<Longrightarrow>
    sv_tasks v = sv_tasks u @ replicate k Spawned \<and> (0 < k \<longrightarrow> sv_active v \<and> sv_samples v = [])" for k u v
  proof (induction k arbitrary: u)
    case (Suc k)
    then obtain u1 u2 where u: "stop_sampler e' u = Some u1" "start_sampler e' u1 = Some u2"
      "sv_run fl p (concat (replicate k [SvEnd e', SvBegin e'])) u2 = Some v"
      by (auto simp: bind_eq_Some_conv)
    have "k = 0 \<Longrightarrow> v = u2" using u(3) by simp
    with Suc.IH [OF u(3)] stop_sampler_fields [OF u(1)] start_sampler_fields [OF u(2)] show ?case
      by (cases "k = 0") simp_all
  qed simp
  ultimately show ?thesis using assms(4,5) by blast
qed

text \<open>A server on Android, where the profiler leaves no data file.\<close>

definition demo_android :: sampler_env where
  "demo_android = \<lparr>se_flags = \<lparr>sfl_linux = False, sfl_tokio_unstable = True\<rparr>,
     se_flame = \<lparr>fe_round = Fin, fe_fixed = (\<lambda>_ _. ''1''), fe_show = (\<lambda>_. ''1'')\<rparr>,
     se_proc = (\<lambda>_. None), se_spawns = False, se_exists = (\<lambda>_. False), se_report = (\<lambda>_. None)\<rparr>"

lemma demo_android_runs: "stop_sampler demo_android s \<noteq> None" "start_sampler demo_android s \<noteq> None"
  using mock_data_drawn [of "se_flame demo_android"]
  by (auto simp: stop_sampler_def start_sampler_def demo_android_def collect_network_metrics_def
      process_simpleperf_data_def Let_def split: option.split)

theorem sampler_overlap_witness:
  "\<exists>s2. sv_run (se_flags demo_android) (\<lambda>_. None) (concat (replicate 2 [SvEnd demo_android, SvBegin demo_android])) server_init = Some s2
    \<and> sv_tasks s2 = [Spawned, Spawned] \<and> sv_active s2"
proof -
  obtain s1 where s1: "stop_sampler demo_android server_init = Some s1" using demo_android_runs by auto
  have "sv_run (se_flags demo_android) (\<lambda>_. None) (concat (replicate k [SvEnd demo_android, SvBegin demo_android])) s \<noteq> None" for k s
  proof (induction k arbitrary: s)
    case (Suc k)
    obtain s1 where "stop_sampler demo_android s = Some s1" using demo_android_runs by auto
    moreover obtain s2 where "start_sampler demo_android s1 = Some s2" using demo_android_runs by auto
    ultimately show ?case using Suc by simp
  qed simp
  then obtain s2 where s2: "sv_run (se_flags demo_android) (\<lambda>_. None)
      (concat (replicate 2 [SvEnd demo_android, SvBegin demo_android])) server_init = Some s2" by blast
  have "list_all (\<lambda>x. \<not> is_begin x) []" "(0 :: nat) < 2" by simp_all
  from sampler_overlap [OF s1 this(1) _ s2 this(2)]
  show ?thesis using s2 by (simp add: server_init_def numeral_2_eq_2)
qed

end
