(* ===== verification/Transfer_Scheduler.thy ===== *)
theory Transfer_Scheduler
  imports Float_Model "HOL-Library.Multiset"
begin

text \<open>
  The parts of the command line transfer engine that keep state between transfers
  (\<^verbatim>\<open>cli/src/transfer_engine\<close>): the job scheduler (\<^verbatim>\<open>scheduler.rs\<close>), the buffer pool (\<^verbatim>\<open>buffer.rs\<close>), the stream
  count (\<^verbatim>\<open>stream.rs\<close>), checkpoints (\<^verbatim>\<open>recovery.rs\<close>) and the history of transfers (\<^verbatim>\<open>learning.rs\<close>).
\<close>

section \<open>The scheduler\<close>

datatype priority = High | Medium | Low

record transfer_job =
  tj_id :: string
  tj_src_path :: string
  tj_dst_path :: string
  tj_size :: u64
  tj_priority :: priority
  tj_retry_count :: u8
  tj_max_retries :: u8

record transfer_scheduler =
  sch_high :: "transfer_job list"
  sch_medium :: "transfer_job list"
  sch_low :: "transfer_job list"
  sch_in_flight :: "transfer_job list"
  sch_max_concurrent :: u32

definition scheduler_new :: "u32 \<Rightarrow> transfer_scheduler" where
  "scheduler_new n = \<lparr>sch_high = [], sch_medium = [], sch_low = [], sch_in_flight = [], sch_max_concurrent = n\<rparr>"

definition enqueue :: "transfer_job \<Rightarrow> transfer_scheduler \<Rightarrow> transfer_scheduler" where
  "enqueue j s =
    (case tj_priority j of
       High \<Rightarrow> s\<lparr>sch_high := sch_high s @ [j]\<rparr>
     | Medium \<Rightarrow> s\<lparr>sch_medium := sch_medium s @ [j]\<rparr>
     | Low \<Rightarrow> s\<lparr>sch_low := sch_low s @ [j]\<rparr>)"

text \<open>The first queue that is not empty gives up its oldest job.\<close>

definition pop_job :: "transfer_scheduler \<Rightarrow> (transfer_job \<times> transfer_scheduler) option" where
  "pop_job s =
    (case sch_high s of
       j # js \<Rightarrow> Some (j, s\<lparr>sch_high := js\<rparr>)
     | [] \<Rightarrow>
         (case sch_medium s of
            j # js \<Rightarrow> Some (j, s\<lparr>sch_medium := js\<rparr>)
          | [] \<Rightarrow> (case sch_low s of j # js \<Rightarrow> Some (j, s\<lparr>sch_low := js\<rparr>) | [] \<Rightarrow> None)))"

definition dequeue :: "transfer_scheduler \<Rightarrow> transfer_job option \<times> transfer_scheduler" where
  "dequeue s =
    (if length (sch_in_flight s) \<ge> unat (sch_max_concurrent s) then (None, s)
     else
       (case pop_job s of
          None \<Rightarrow> (None, s)
        | Some (j, s') \<Rightarrow> (Some j, s'\<lparr>sch_in_flight := sch_in_flight s' @ [j]\<rparr>)))"

definition complete_job :: "string \<Rightarrow> transfer_scheduler \<Rightarrow> transfer_scheduler" where
  "complete_job i s = s\<lparr>sch_in_flight := filter (\<lambda>j. tj_id j \<noteq> i) (sch_in_flight s)\<rparr>"

fun remove_first :: "('a \<Rightarrow> bool) \<Rightarrow> 'a list \<Rightarrow> ('a \<times> 'a list) option" where
  "remove_first P [] = None"
| "remove_first P (x # xs) =
    (if P x then Some (x, xs) else map_option (\<lambda>(y, ys). (y, x # ys)) (remove_first P xs))"

definition fail_job :: "string \<Rightarrow> transfer_scheduler \<Rightarrow> transfer_scheduler" where
  "fail_job i s =
    (case remove_first (\<lambda>j. tj_id j = i) (sch_in_flight s) of
       None \<Rightarrow> s
     | Some (j, js) \<Rightarrow>
         (let s' = s\<lparr>sch_in_flight := js\<rparr> in
          if tj_retry_count j < tj_max_retries j
          then enqueue (j\<lparr>tj_retry_count := tj_retry_count j + 1\<rparr>) s' else s'))"

definition jobs_waiting :: "transfer_scheduler \<Rightarrow> nat" where
  "jobs_waiting s = length (sch_high s) + length (sch_medium s) + length (sch_low s)"

section \<open>The buffer pool\<close>

record buffer_pool =
  bp_buffers :: "bytes list"
  bp_chunk_size :: nat
  bp_max_pooled :: nat

definition pool_new :: "nat \<Rightarrow> nat \<Rightarrow> buffer_pool" where
  "pool_new chunk_size max_pooled = \<lparr>bp_buffers = [], bp_chunk_size = chunk_size, bp_max_pooled = max_pooled\<rparr>"

definition pool_acquire :: "buffer_pool \<Rightarrow> bytes \<times> buffer_pool" where
  "pool_acquire p =
    (if bp_buffers p = [] then (replicate (bp_chunk_size p) 0, p)
     else (last (bp_buffers p), p\<lparr>bp_buffers := butlast (bp_buffers p)\<rparr>))"

text \<open>The buffer is cleared before it is pooled.\<close>

definition pool_release :: "bytes \<Rightarrow> buffer_pool \<Rightarrow> buffer_pool" where
  "pool_release buf p =
    (if length (bp_buffers p) < bp_max_pooled p then p\<lparr>bp_buffers := bp_buffers p @ [[]]\<rparr> else p)"

section \<open>The number of streams\<close>

record stream_manager =
  smn_streams :: nat
  smn_target :: u64

definition adjust_stream_count :: "rounding \<Rightarrow> fl \<Rightarrow> fl \<Rightarrow> fl \<Rightarrow> stream_manager \<Rightarrow> u32 \<times> stream_manager" where
  "adjust_stream_count rnd measured expected loss m =
    (let current = (of_nat (smn_streams m) :: u32);
         u = (if fl_less (Fin 0) expected then fl_div rnd measured expected else Fin 0);
         target =
           (if fl_less u (Fin (1 / 2)) \<and> fl_less (Fin 1) loss then min (current * 2) 16
            else if fl_less u (rnd (7 / 10)) \<and> current < 4 then current + 1
            else if fl_less (rnd (95 / 100)) u \<and> current > 1 then current - 1
            else current) in
     (target, m\<lparr>smn_target := ucast target\<rparr>))"

section \<open>Checkpoints\<close>

record checkpoint =
  chp_transfer_id :: string
  chp_src_path :: string
  chp_dst_path :: string
  chp_file_size :: u64
  chp_chunk_size :: u64
  chp_completed :: "u64 list"
  chp_sha256_partial :: "string option"
  chp_timestamp :: string

type_synonym recovery_store = "(string, checkpoint) hmap"

text \<open>Loading and saving; the file of the store is an argument, JSON is the function of its library.\<close>

definition recovery_path :: "string option \<Rightarrow> string" where
  "recovery_path home = (case home of Some h \<Rightarrow> h | None \<Rightarrow> ''/tmp'') @ ''/.pdos/transfer_checkpoints.json''"

definition recovery_load :: "(string \<Rightarrow> recovery_store option) \<Rightarrow> (string \<Rightarrow> string option) \<Rightarrow> string option \<Rightarrow> recovery_store" where
  "recovery_load de read home =
    (case Option.bind (read (recovery_path home)) de of Some st \<Rightarrow> st | None \<Rightarrow> [])"

definition recovery_save ::
  "(recovery_store \<Rightarrow> string option) \<Rightarrow> string option \<Rightarrow> recovery_store \<Rightarrow> (string \<rightharpoonup> string) \<Rightarrow> (string \<rightharpoonup> string)" where
  "recovery_save ser home st files =
    (case ser st of Some t \<Rightarrow> files(recovery_path home \<mapsto> t) | None \<Rightarrow> files)"

definition get_resume_offset :: "string \<Rightarrow> recovery_store \<Rightarrow> u64" where
  "get_resume_offset i st =
    (case hm_get st i of Some cp \<Rightarrow> of_nat (length (chp_completed cp)) * chp_chunk_size cp | None \<Rightarrow> 0)"

definition record_chunk :: "string \<Rightarrow> u64 \<Rightarrow> recovery_store \<Rightarrow> recovery_store" where
  "record_chunk i k st =
    hm_modify i (\<lambda>cp. if k \<in> set (chp_completed cp) then cp else cp\<lparr>chp_completed := chp_completed cp @ [k]\<rparr>) st"

definition recovery_remove :: "string \<Rightarrow> recovery_store \<Rightarrow> recovery_store" where
  "recovery_remove i st = hm_remove i st"

section \<open>The history of transfers\<close>

record transfer_record =
  trc_interface_label :: string
  trc_rtt_ms :: fl
  trc_file_size :: u64
  trc_file_count :: u32
  trc_strategy :: string
  trc_streams :: u32
  trc_buffer_kb :: u32
  trc_achieved_mbps :: fl
  trc_duration_secs :: fl
  trc_success :: bool

record learning_db =
  ldb_records :: "transfer_record list"
  ldb_max :: nat

text \<open>\<open>loaded\<close> is what the file of the history holds, where it can be read.\<close>

definition learning_new :: "transfer_record list option \<Rightarrow> nat \<Rightarrow> learning_db" where
  "learning_new loaded n =
    \<lparr>ldb_records = (case loaded of Some rs \<Rightarrow> take n rs | None \<Rightarrow> []), ldb_max = n\<rparr>"

definition learning_record :: "transfer_record \<Rightarrow> learning_db \<Rightarrow> learning_db" where
  "learning_record r d =
    (let rs = (if length (ldb_records d) \<ge> ldb_max d then tl (ldb_records d) else ldb_records d) in
     d\<lparr>ldb_records := rs @ [r]\<rparr>)"

text \<open>\<^verbatim>\<open>(a as i64 - b as i64).unsigned_abs()\<close>\<close>

definition size_distance :: "u64 \<Rightarrow> u64 \<Rightarrow> nat" where
  "size_distance a b = nat \<bar>sint (a - b)\<bar>"

text \<open>\<^verbatim>\<open>min_by_key\<close> returns the first of the least elements.\<close>

fun min_by :: "('a \<Rightarrow> nat) \<Rightarrow> 'a list \<Rightarrow> 'a option" where
  "min_by f [] = None"
| "min_by f (x # xs) = (case min_by f xs of None \<Rightarrow> Some x | Some y \<Rightarrow> if f y < f x then Some y else Some x)"

definition best_strategy :: "string \<Rightarrow> u64 \<Rightarrow> u32 \<Rightarrow> learning_db \<Rightarrow> string option" where
  "best_strategy label fsize n_files d =
    map_option trc_strategy (min_by (\<lambda>r. size_distance (trc_file_size r) fsize)
      (filter (\<lambda>r. trc_interface_label r = label \<and> trc_file_count r = n_files \<and> trc_success r) (ldb_records d)))"

section \<open>Runs of the scheduler\<close>

datatype sched_op = SoEnqueue transfer_job | SoDequeue | SoComplete string | SoFail string

fun sched_apply :: "sched_op \<Rightarrow> transfer_scheduler \<Rightarrow> transfer_job option \<times> transfer_scheduler" where
  "sched_apply (SoEnqueue j) s = (None, enqueue j s)"
| "sched_apply SoDequeue s = dequeue s"
| "sched_apply (SoComplete i) s = (None, complete_job i s)"
| "sched_apply (SoFail i) s = (None, fail_job i s)"

text \<open>The jobs started by a run, in order, and the final state.\<close>

fun sched_run :: "sched_op list \<Rightarrow> transfer_scheduler \<Rightarrow> transfer_job list \<times> transfer_scheduler" where
  "sched_run [] s = ([], s)"
| "sched_run (x # xs) s =
    (let (r, s') = sched_apply x s; (js, s'') = sched_run xs s' in
     (case r of Some j \<Rightarrow> j # js | None \<Rightarrow> js, s''))"

definition pending_jobs :: "transfer_scheduler \<Rightarrow> transfer_job list" where
  "pending_jobs s = sch_high s @ sch_medium s @ sch_low s"

text \<open>The starts a job has left: one for its next attempt and one for every retry.\<close>

definition attempts_left :: "transfer_job \<Rightarrow> nat" where
  "attempts_left j = unat (tj_max_retries j) - unat (tj_retry_count j)"

definition budget :: "string \<Rightarrow> transfer_scheduler \<Rightarrow> nat" where
  "budget i s = sum_list (map (\<lambda>j. Suc (attempts_left j)) (filter (\<lambda>j. tj_id j = i) (pending_jobs s)))
     + sum_list (map attempts_left (filter (\<lambda>j. tj_id j = i) (sch_in_flight s)))"

definition allowed :: "string \<Rightarrow> sched_op list \<Rightarrow> nat" where
  "allowed i xs = sum_list (map (\<lambda>x. case x of SoEnqueue j \<Rightarrow> if tj_id j = i then Suc (attempts_left j) else 0 | _ \<Rightarrow> 0) xs)"

definition queues_ok :: "transfer_scheduler \<Rightarrow> bool" where
  "queues_ok s \<longleftrightarrow> list_all (\<lambda>j. tj_priority j = High) (sch_high s) \<and> list_all (\<lambda>j. tj_priority j = Medium) (sch_medium s)
     \<and> list_all (\<lambda>j. tj_priority j = Low) (sch_low s) \<and> length (sch_in_flight s) \<le> unat (sch_max_concurrent s)"

lemma remove_first_Some:
  "remove_first P xs = Some (y, ys) \<Longrightarrow> P y \<and> mset xs = add_mset y (mset ys)"
  by (induction xs arbitrary: ys) (auto split: if_splits)

lemma budget_enqueue:
  "budget i (enqueue j s) = budget i s + (if tj_id j = i then Suc (attempts_left j) else 0)"
  by (cases "tj_priority j") (simp_all add: enqueue_def budget_def pending_jobs_def)

lemma pop_job_Some:
  assumes "pop_job s = Some (j, s')"
  shows "mset (pending_jobs s) = add_mset j (mset (pending_jobs s'))" "sch_in_flight s' = sch_in_flight s"
    "sch_max_concurrent s' = sch_max_concurrent s"
  using assms by (auto simp: pop_job_def pending_jobs_def split: list.splits)

lemma sum_filter_mset:
  "mset xs = add_mset y (mset ys) \<Longrightarrow>
    sum_list (map f (filter P xs)) = (if P y then f y else 0) + sum_list (map f (filter P ys))" for f :: "'a \<Rightarrow> nat"
proof -
  assume "mset xs = add_mset y (mset ys)"
  then have "mset (map f (filter P xs)) = mset (map f (filter P (y # ys)))" by simp
  then have "sum_list (map f (filter P xs)) = sum_list (map f (filter P (y # ys)))" by (metis sum_mset_sum_list)
  then show ?thesis by simp
qed

lemma budget_dequeue:
  assumes "dequeue s = (r, s')"
  shows "budget i s = budget i s' + (case r of Some j \<Rightarrow> if tj_id j = i then 1 else 0 | None \<Rightarrow> 0)"
proof (cases "pop_job s")
  case None
  with assms show ?thesis by (auto simp: dequeue_def split: if_splits)
next
  case (Some y)
  obtain j t where y: "y = (j, t)" by (cases y)
  note p = pop_job_Some [OF Some [unfolded y]]
  show ?thesis using assms Some y p(2) sum_filter_mset [OF p(1), of "\<lambda>j. Suc (attempts_left j)" "\<lambda>j. tj_id j = i"]
    by (auto simp: dequeue_def budget_def pending_jobs_def split: if_splits)
qed

lemma budget_complete: "budget i (complete_job k s) \<le> budget i s"
proof -
  have "sum_list (map attempts_left (filter (\<lambda>j. tj_id j = i) (filter (\<lambda>j. tj_id j \<noteq> k) js)))
      \<le> sum_list (map attempts_left (filter (\<lambda>j. tj_id j = i) js))" for js
    by (induction js) auto
  then show ?thesis by (simp add: budget_def complete_job_def pending_jobs_def)
qed

lemma attempts_left_retry:
  assumes "tj_retry_count j < tj_max_retries j"
  shows "Suc (attempts_left (j\<lparr>tj_retry_count := tj_retry_count j + 1\<rparr>)) = attempts_left j"
proof -
  have "unat (tj_retry_count j) < unat (tj_max_retries j)" using assms by (simp add: word_less_nat_alt)
  moreover have "unat (tj_max_retries j) < 2 ^ LENGTH(8)" by (rule unsigned_less)
  ultimately have "unat (tj_retry_count j + 1) = Suc (unat (tj_retry_count j))"
    by (simp add: unat_word_ariths)
  with \<open>unat (tj_retry_count j) < unat (tj_max_retries j)\<close> show ?thesis by (simp add: attempts_left_def)
qed

lemma budget_fail: "budget i (fail_job k s) \<le> budget i s"
proof (cases "remove_first (\<lambda>j. tj_id j = k) (sch_in_flight s)")
  case None
  then show ?thesis by (simp add: fail_job_def)
next
  case (Some y)
  obtain j js where y: "y = (j, js)" by (cases y)
  have m: "mset (sch_in_flight s) = add_mset j (mset js)" using remove_first_Some [OF Some [unfolded y]] by simp
  show ?thesis
    using Some y sum_filter_mset [OF m, of attempts_left "\<lambda>j. tj_id j = i"] attempts_left_retry [of j]
    by (auto simp: fail_job_def Let_def budget_enqueue) (simp_all add: budget_def pending_jobs_def)
qed

lemma sched_run_budget:
  "sched_run xs s = (js, s') \<Longrightarrow>
    length (filter (\<lambda>j. tj_id j = i) js) + budget i s' \<le> budget i s + allowed i xs"
proof (induction xs arbitrary: s js s')
  case Nil
  then show ?case by (simp add: allowed_def)
next
  case (Cons x xs)
  obtain r t where a: "sched_apply x s = (r, t)" by (cases "sched_apply x s")
  obtain ks u where k: "sched_run xs t = (ks, u)" by (cases "sched_run xs t")
  have js: "js = (case r of Some j \<Rightarrow> j # ks | None \<Rightarrow> ks)" "s' = u" using Cons.prems by (simp_all add: a k)
  have step: "(case r of Some j \<Rightarrow> if tj_id j = i then 1 else 0 | None \<Rightarrow> 0) + budget i t \<le> budget i s + allowed i [x]"
    using a budget_complete [of i _ s] budget_fail [of i _ s] budget_dequeue [of s r t i]
    by (cases x) (auto simp: allowed_def budget_enqueue)
  have "allowed i (x # xs) = allowed i [x] + allowed i xs" by (simp add: allowed_def)
  with step Cons.IH [OF k] js show ?case by (auto split: option.splits if_splits)
qed

lemma queues_ok_enqueue: "queues_ok s \<Longrightarrow> queues_ok (enqueue j s)"
  by (auto simp: queues_ok_def enqueue_def split: priority.split)

lemma remove_first_length: "remove_first P xs = Some (y, ys) \<Longrightarrow> length xs = Suc (length ys)"
  using remove_first_Some [of P xs y ys] by (metis size_add_mset size_mset)

lemma queues_ok_apply: "queues_ok s \<Longrightarrow> queues_ok (snd (sched_apply x s))"
proof (cases x)
  case SoDequeue
  assume "queues_ok s"
  with SoDequeue show ?thesis
    by (auto simp: queues_ok_def dequeue_def pop_job_def split: list.splits)
next
  case (SoComplete i)
  assume "queues_ok s"
  with SoComplete show ?thesis
    by (auto simp: queues_ok_def complete_job_def intro: le_trans [OF length_filter_le])
next
  case (SoFail i)
  assume q: "queues_ok s"
  show ?thesis
  proof (cases "remove_first (\<lambda>j. tj_id j = i) (sch_in_flight s)")
    case (Some y)
    obtain j js where y: "y = (j, js)" by (cases y)
    have "queues_ok (s\<lparr>sch_in_flight := js\<rparr>)"
      using q remove_first_length [OF Some [unfolded y]] by (simp add: queues_ok_def)
    then show ?thesis using SoFail Some y by (simp add: fail_job_def Let_def queues_ok_enqueue)
  qed (use SoFail q in \<open>simp add: fail_job_def\<close>)
qed (simp add: queues_ok_enqueue)

lemma queues_ok_run: "sched_run xs s = (js, s') \<Longrightarrow> queues_ok s \<Longrightarrow> queues_ok s'"
proof (induction xs arbitrary: s js)
  case (Cons x xs)
  then show ?case using queues_ok_apply [of s x] by (auto simp: Let_def split: prod.splits)
qed simp

text \<open>The scheduler, in any run from a new one: no more jobs are in flight than allowed; a job is started
  at most once for each time it was enqueued and once more for each retry it had left, however often it is
  reported failed or completed; and a job is only started when no job of a higher priority waits.\<close>

theorem scheduler_runs:
  assumes "sched_run xs (scheduler_new n) = (js, s)"
  shows "length (sch_in_flight s) \<le> unat n
    \<and> length (filter (\<lambda>j. tj_id j = i) js) \<le> allowed i xs
    \<and> (case dequeue s of
         (None, t) \<Rightarrow> t = s \<and> (pending_jobs s = [] \<or> length (sch_in_flight s) = unat n)
       | (Some j, t) \<Rightarrow> mset (pending_jobs s) = add_mset j (mset (pending_jobs t)) \<and> sch_in_flight t = sch_in_flight s @ [j]
           \<and> (tj_priority j = Medium \<longrightarrow> sch_high s = []) \<and> (tj_priority j = Low \<longrightarrow> sch_high s = [] \<and> sch_medium s = []))"
proof -
  have q: "queues_ok s" using queues_ok_run [OF assms] by (simp add: queues_ok_def scheduler_new_def)
  have "sch_max_concurrent (snd (sched_apply x s)) = sch_max_concurrent s" for x s
    by (cases x) (auto simp: enqueue_def dequeue_def pop_job_def complete_job_def fail_job_def Let_def
        split: priority.split list.split option.split)
  then have "sched_run ys t = (ks, u) \<Longrightarrow> sch_max_concurrent u = sch_max_concurrent t" for ys t ks u
    by (induction ys arbitrary: t ks) (auto simp: Let_def split: prod.splits, metis snd_conv)
  from this [OF assms] have n: "sch_max_concurrent s = n" by (simp add: scheduler_new_def)
  have "budget i (scheduler_new n) = 0" by (simp add: budget_def pending_jobs_def scheduler_new_def)
  then have "length (filter (\<lambda>j. tj_id j = i) js) \<le> allowed i xs" using sched_run_budget [OF assms, of i] by simp
  moreover have "length (sch_in_flight s) \<le> unat n" using q n by (simp add: queues_ok_def)
  ultimately show ?thesis using q n
    by (auto simp: dequeue_def pop_job_def pending_jobs_def queues_ok_def split: list.splits)
qed

definition demo_job :: transfer_job where
  "demo_job = \<lparr>tj_id = ''a'', tj_src_path = [], tj_dst_path = [], tj_size = 1, tj_priority = Low,
     tj_retry_count = 0, tj_max_retries = 1\<rparr>"

theorem scheduler_runs_witness:
  "length (filter (\<lambda>j. tj_id j = ''a'') (fst (sched_run [SoEnqueue demo_job, SoDequeue, SoFail ''a'', SoDequeue, SoFail ''a'', SoDequeue]
      (scheduler_new 3)))) \<le> 2"
  using scheduler_runs [of "[SoEnqueue demo_job, SoDequeue, SoFail ''a'', SoDequeue, SoFail ''a'', SoDequeue]" 3
      "fst (sched_run [SoEnqueue demo_job, SoDequeue, SoFail ''a'', SoDequeue, SoFail ''a'', SoDequeue] (scheduler_new 3))"
      "snd (sched_run [SoEnqueue demo_job, SoDequeue, SoFail ''a'', SoDequeue, SoFail ''a'', SoDequeue] (scheduler_new 3))" "''a''"]
  by (simp only: prod.collapse) (simp add: allowed_def attempts_left_def demo_job_def)

section \<open>Buffers, streams, checkpoints\<close>

text \<open>A buffer that comes back from the pool is empty: the code clears it and does not restore its length.\<close>

lemma pooled_buffer_empty:
  assumes "length (bp_buffers p) < bp_max_pooled p"
  shows "fst (pool_acquire (pool_release buf p)) = []"
  using assms by (simp add: pool_acquire_def pool_release_def)

lemma stream_count_bounds:
  assumes "1 \<le> smn_streams m" "smn_streams m \<le> 16"
  shows "1 \<le> fst (adjust_stream_count rnd a b l m) \<and> fst (adjust_stream_count rnd a b l m) \<le> 16"
proof -
  let ?c = "of_nat (smn_streams m) :: u32"
  have u: "unat ?c = smn_streams m" using assms by (simp add: unsigned_of_nat take_bit_nat_eq_self)
  have "unat (?c * 2) = smn_streams m * 2" "unat (?c + 1) = smn_streams m + 1"
    using assms by (simp_all add: unat_word_ariths u)
  moreover have "unat (?c - 1) = smn_streams m - 1" if "1 < ?c"
    using that u by (subst unat_sub) (auto simp: word_less_nat_alt word_le_nat_alt)
  ultimately show ?thesis
    using assms u by (auto simp: adjust_stream_count_def Let_def word_le_nat_alt word_less_nat_alt min_def)
qed

text \<open>Resuming from a checkpoint. The offset counts the chunks that were completed, in whatever
  order; it is the end of what is there exactly when the completed chunks are the first ones. With
  any gap, the bytes before the offset include a chunk that is missing, and resuming skips it.\<close>

theorem resume_offset_gaps:
  assumes "distinct ks" "hm_get st i = Some cp" "chp_completed cp = []"
    and "hm_get (fold (record_chunk i) ks st) i = Some cp'"
  shows "get_resume_offset i (fold (record_chunk i) ks st) = of_nat (length ks) * chp_chunk_size cp
    \<and> ({k. unat k < length ks} \<subseteq> set (chp_completed cp') \<longleftrightarrow> unat ` set ks = {..<length ks})"
proof -
  have "distinct (chp_completed c @ ks) \<Longrightarrow> hm_get t i = Some c \<Longrightarrow>
      hm_get (fold (record_chunk i) ks t) i = Some (c\<lparr>chp_completed := chp_completed c @ ks\<rparr>)" for c t
  proof (induction ks arbitrary: c t)
    case (Cons k ks)
    have "hm_get (record_chunk i k t) i = Some (c\<lparr>chp_completed := chp_completed c @ [k]\<rparr>)"
      using Cons.prems by (simp add: record_chunk_def)
    from Cons.IH [OF _ this] Cons.prems(1) show ?case by simp
  qed simp
  from this [OF _ assms(2)] assms(1,3,4) have cp': "cp' = cp\<lparr>chp_completed := ks\<rparr>" by simp
  have inj: "inj_on unat (set ks)" by (simp add: inj_on_def word_unat_eq_iff)
  have card: "card (unat ` set ks) = length ks"
    using card_image [OF inj] distinct_card [OF assms(1)] by simp
  have "{k. unat k < length ks} \<subseteq> set ks \<longleftrightarrow> unat ` set ks = {..<length ks}"
  proof
    assume sub: "{k :: u64. unat k < length ks} \<subseteq> set ks"
    have "unat x < 2 ^ LENGTH(64)" for x :: u64 by (rule unsigned_less)
    then have "unat ` set ks \<subseteq> {..<2 ^ 64}" by auto
    then have "length ks \<le> 2 ^ 64" using card_mono [of "{..<2 ^ 64}" "unat ` set ks"] card by simp
    have "{..<length ks} \<subseteq> unat ` set ks"
    proof
      fix n assume "n \<in> {..<length ks}"
      then have "unat (of_nat n :: u64) = n" using \<open>length ks \<le> 2 ^ 64\<close> by (simp add: unsigned_of_nat take_bit_nat_eq_self)
      with sub \<open>n \<in> {..<length ks}\<close> show "n \<in> unat ` set ks" by (metis (mono_tags) imageI lessThan_iff mem_Collect_eq subsetD)
    qed
    then show "unat ` set ks = {..<length ks}" using card card_subset_eq [of "unat ` set ks" "{..<length ks}"] by auto
  next
    assume "unat ` set ks = {..<length ks}"
    then have "\<exists>x \<in> set ks. unat k = unat x" if "unat k < length ks" for k :: u64
      using that by (metis (mono_tags) image_iff lessThan_iff)
    then show "{k :: u64. unat k < length ks} \<subseteq> set ks" by (auto simp flip: word_unat_eq_iff)
  qed
  then show ?thesis using assms(4) by (simp add: get_resume_offset_def cp')
qed

definition demo_checkpoint :: checkpoint where
  "demo_checkpoint = \<lparr>chp_transfer_id = ''t'', chp_src_path = [], chp_dst_path = [], chp_file_size = 30, chp_chunk_size = 10,
     chp_completed = [], chp_sha256_partial = None, chp_timestamp = []\<rparr>"

theorem resume_offset_gaps_witness:
  "get_resume_offset ''t'' (fold (record_chunk ''t'') [1, 2] [(''t'', demo_checkpoint)]) = 20
    \<and> \<not> {k. unat k < 2} \<subseteq> set [1, 2 :: u64]"
proof -
  have g: "hm_get (fold (record_chunk ''t'') [1, 2] [(''t'', demo_checkpoint)]) ''t'' =
      Some (demo_checkpoint\<lparr>chp_completed := [1, 2]\<rparr>)"
    by (simp add: record_chunk_def demo_checkpoint_def hm_get_def hm_modify_def hm_insert_def)
  have h: "hm_get [(''t'', demo_checkpoint)] ''t'' = Some demo_checkpoint" by (simp add: hm_get_def)
  have len: "length [1, 2 :: u64] = 2" by simp
  have ne: "unat ` set [1, 2 :: u64] \<noteq> {..<2}" by (auto simp: set_eq_iff)
  have c: "chp_completed (demo_checkpoint\<lparr>chp_completed := [1, 2]\<rparr>) = [1, 2]" by simp
  have "distinct [1, 2 :: u64]" "chp_completed demo_checkpoint = []" by (simp_all add: demo_checkpoint_def)
  note r = resume_offset_gaps [OF this(1) h this(2) g, unfolded len c]
  have "of_nat 2 * chp_chunk_size demo_checkpoint = 20" by (simp add: demo_checkpoint_def)
  with r ne show ?thesis by metis
qed

lemma learning_bounded:
  assumes "0 < ldb_max d" "length (ldb_records d) \<le> ldb_max d"
  shows "length (ldb_records (learning_record r d)) \<le> ldb_max d \<and> ldb_max (learning_record r d) = ldb_max d"
  using assms by (cases "ldb_records d") (auto simp: learning_record_def Let_def)

end
