(* ===== verification/Cli_Classifier.thy ===== *)
theory Cli_Classifier
  imports Float_Model "HOL-Library.Multiset"
begin

text \<open>
  The bottleneck classifier of the command line client (\<^verbatim>\<open>cli/src/adaptive/classifier.rs\<close>): averages over
  telemetry samples, a score in [0, 1] for each category, the winner with its confidence, and the list
  of signals. The scores are kept in a \<^verbatim>\<open>HashMap\<close>, which is walked in an order that differs from run to run:
  that order (\<open>ord\<close>, a permutation of the entries) is an argument, as are the rounding of floats, the square
  root and the text of a float.
\<close>

section \<open>Samples\<close>

text \<open>A number of \<^verbatim>\<open>serde_json\<close>, and a sample as the numbers among its fields.\<close>

datatype json_number = JsPos u64 | JsNeg int | JsFloat fl

fun as_f64 :: "rounding \<Rightarrow> json_number \<Rightarrow> fl" where
  "as_f64 rnd (JsPos n) = fl_of_u64 rnd n"
| "as_f64 rnd (JsNeg i) = rnd (of_int i)"
| "as_f64 rnd (JsFloat x) = x"

fun as_u64 :: "json_number \<Rightarrow> u64 option" where
  "as_u64 (JsPos n) = Some n"
| "as_u64 _ = None"

type_synonym sample = "string \<Rightarrow> json_number option"
type_synonym float_text = "nat \<Rightarrow> fl \<Rightarrow> string"

definition readings :: "rounding \<Rightarrow> sample list \<Rightarrow> string \<Rightarrow> fl list" where
  "readings rnd ss key = List.map_filter (\<lambda>s. map_option (as_f64 rnd) (s key)) ss"

definition fl_total :: "rounding \<Rightarrow> fl list \<Rightarrow> fl" where
  "fl_total rnd xs = foldl (fl_add rnd) (Fin 0) xs"

definition sample_avg :: "rounding \<Rightarrow> sample list \<Rightarrow> string \<Rightarrow> fl" where
  "sample_avg rnd ss key =
    (let vals = readings rnd ss key in
     if vals = [] then Fin 0 else fl_div rnd (fl_total rnd vals) (rnd (of_nat (length vals))))"

definition sample_max :: "rounding \<Rightarrow> sample list \<Rightarrow> string \<Rightarrow> fl" where
  "sample_max rnd ss key = foldl fl_max (Fin 0) (readings rnd ss key)"

definition sample_sum :: "rounding \<Rightarrow> sample list \<Rightarrow> string \<Rightarrow> fl" where
  "sample_sum rnd ss key = fl_total rnd (readings rnd ss key)"

definition sample_last :: "sample list \<Rightarrow> string \<Rightarrow> json_number option" where
  "sample_last ss key = (if ss = [] then None else last ss key)"

section \<open>Aggregates\<close>

record aggregates =
  ag_cpu :: fl
  ag_rtt :: fl
  ag_tp :: fl
  ag_max_rtt :: fl
  ag_retransmissions :: fl
  ag_cwnd :: fl
  ag_dirty_kb :: fl
  ag_writeback_kb :: fl
  ag_rss_growth :: fl
  ag_major_faults :: fl
  ag_run_q :: fl
  ag_ctx_sw :: fl
  ag_sched_latency :: fl
  ag_throttle :: fl
  ag_soc_temp :: fl
  ag_freq_mhz :: fl
  ag_scaling_pct :: fl
  ag_loss :: fl
  ag_rtt_var :: fl
  ag_syscall_rate :: fl

text \<open>Retransmissions are estimated from the context switches where no sample counts any.\<close>

definition sum_retransmissions :: "rounding \<Rightarrow> sample list \<Rightarrow> fl" where
  "sum_retransmissions rnd ss =
    (let r = sample_sum rnd ss ''net_retransmissions'' in
     if fl_less (Fin 0) r then r
     else fl_mul rnd (sample_sum rnd ss ''sched_context_switches'') (rnd (1 / 100)))"

definition throttle_share :: "rounding \<Rightarrow> sample list \<Rightarrow> fl" where
  "throttle_share rnd ss =
    fl_div rnd
      (fl_total rnd (List.map_filter
        (\<lambda>s. map_option (fl_of_u64 rnd) (Option.bind (s ''hw_thermal_throttle'') as_u64)) ss))
      (rnd (of_nat (length ss)))"

definition aggregate :: "rounding \<Rightarrow> sample list \<Rightarrow> aggregates" where
  "aggregate rnd ss =
    \<lparr>ag_cpu = sample_avg rnd ss ''cpu_pct'',
     ag_rtt = sample_avg rnd ss ''rtt_ms'',
     ag_tp = sample_avg rnd ss ''rolling_throughput_mbps'',
     ag_max_rtt = sample_max rnd ss ''rtt_ms'',
     ag_retransmissions = sum_retransmissions rnd ss,
     ag_cwnd = sample_avg rnd ss ''cwnd'',
     ag_dirty_kb = sample_avg rnd ss ''fs_dirty_kb'',
     ag_writeback_kb = sample_avg rnd ss ''fs_writeback_kb'',
     ag_rss_growth = (case sample_last ss ''mem_growth_bytes'' of Some v \<Rightarrow> as_f64 rnd v | None \<Rightarrow> Fin 0),
     ag_major_faults = sample_avg rnd ss ''mem_major_faults'',
     ag_run_q = sample_avg rnd ss ''sched_run_queue_length'',
     ag_ctx_sw = sample_avg rnd ss ''sched_context_switches'',
     ag_sched_latency = sample_avg rnd ss ''sched_latency_ms'',
     ag_throttle = throttle_share rnd ss,
     ag_soc_temp = sample_avg rnd ss ''hw_soc_temp_c'',
     ag_freq_mhz = sample_avg rnd ss ''hw_cpu_freq_mhz'',
     ag_scaling_pct = sample_avg rnd ss ''hw_cpu_scaling_pct'',
     ag_loss = sample_avg rnd ss ''packet_loss_pct'',
     ag_rtt_var = sample_avg rnd ss ''rtt_variance_ms'',
     ag_syscall_rate = fl_div rnd (sample_sum rnd ss ''syscall_rate_per_sec'') (rnd (of_nat (length ss)))\<rparr>"

text \<open>The correlation of throughput and frequency.\<close>

definition pearson :: "rounding \<Rightarrow> (fl \<Rightarrow> fl) \<Rightarrow> aggregates \<Rightarrow> sample list \<Rightarrow> fl" where
  "pearson rnd sqrt_of a ss =
    (let reading = (\<lambda>s key d. case s key of Some v \<Rightarrow> as_f64 rnd v | None \<Rightarrow> d);
         (num, den_tp, den_freq) =
           foldl (\<lambda>(n, x, y) s.
             let dt = fl_sub rnd (reading s ''rolling_throughput_mbps'' (ag_tp a)) (ag_tp a);
                 df = fl_sub rnd (reading s ''hw_cpu_freq_mhz'' (ag_freq_mhz a)) (ag_freq_mhz a) in
             (fl_add rnd n (fl_mul rnd dt df), fl_add rnd x (fl_mul rnd dt dt), fl_add rnd y (fl_mul rnd df df)))
             (Fin 0, Fin 0, Fin 0) ss in
     if fl_less (Fin 0) den_tp \<and> fl_less (Fin 0) den_freq
     then fl_div rnd num (sqrt_of (fl_mul rnd den_tp den_freq)) else Fin 0)"

section \<open>Scores\<close>

definition fl_le :: "fl \<Rightarrow> fl \<Rightarrow> bool" where
  "fl_le a b \<longleftrightarrow> fl_less a b \<or> a = b \<and> a \<noteq> NaN"

definition norm01 :: "rounding \<Rightarrow> fl \<Rightarrow> rat \<Rightarrow> rat \<Rightarrow> fl" where
  "norm01 rnd v lo hi =
    (if fl_le (rnd hi) (rnd lo) then Fin 0
     else fl_clamp (Fin 0) (Fin 1) (fl_div rnd (fl_sub rnd v (rnd lo)) (fl_sub rnd (rnd hi) (rnd lo))))"

text \<open>\<^verbatim>\<open>(1.0 - norm(..)).max(0.0)\<close>\<close>

definition inverse_norm :: "rounding \<Rightarrow> fl \<Rightarrow> rat \<Rightarrow> rat \<Rightarrow> fl" where
  "inverse_norm rnd v lo hi = fl_max (fl_sub rnd (Fin 1) (norm01 rnd v lo hi)) (Fin 0)"

text \<open>\<^verbatim>\<open>s1 * w1 + s2 * w2 + ..\<close>, from the left.\<close>

fun weighted :: "rounding \<Rightarrow> (fl \<times> rat) list \<Rightarrow> fl" where
  "weighted rnd [] = Fin 0"
| "weighted rnd ((s, w) # ps) = foldl (\<lambda>acc (s, w). fl_add rnd acc (fl_mul rnd s (rnd w))) (fl_mul rnd s (rnd w)) ps"

abbreviation cap1 :: "fl \<Rightarrow> fl" where "cap1 x \<equiv> fl_min x (Fin 1)"

definition cpu_score :: "rounding \<Rightarrow> aggregates \<Rightarrow> fl" where
  "cpu_score rnd a =
    (let s1 = norm01 rnd (ag_cpu a) 50 100;
         s2 = inverse_norm rnd (ag_rtt a) 5 150;
         s3 = inverse_norm rnd (ag_retransmissions a) 0 50 in
     cap1 (fl_mul rnd (cap1 (weighted rnd [(s1, 6/10), (s2, 2/10), (s3, 2/10)])) s1))"

definition net_score :: "rounding \<Rightarrow> aggregates \<Rightarrow> fl" where
  "net_score rnd a =
    (let s1 = norm01 rnd (ag_rtt a) 5 200;
         s2 = norm01 rnd (ag_retransmissions a) 0 100;
         s3 = inverse_norm rnd (ag_cwnd a) 5 64;
         s4 = inverse_norm rnd (ag_cpu a) 20 80;
         s5 = norm01 rnd (ag_loss a) 0 15;
         s6 = norm01 rnd (ag_rtt_var a) 0 50;
         raw = cap1 (weighted rnd [(s1, 25/100), (s2, 20/100), (s3, 15/100), (s4, 10/100), (s5, 20/100), (s6, 10/100)]);
         presence = cap1 (fl_add rnd (fl_add rnd s1 s2) s5) in
     cap1 (fl_mul rnd raw presence))"

definition disk_score :: "rounding \<Rightarrow> aggregates \<Rightarrow> fl" where
  "disk_score rnd a =
    cap1 (weighted rnd [(norm01 rnd (ag_dirty_kb a) 8000 64000, 5/10), (norm01 rnd (ag_writeback_kb a) 2000 32000, 5/10)])"

definition mem_score :: "rounding \<Rightarrow> aggregates \<Rightarrow> fl" where
  "mem_score rnd a =
    cap1 (weighted rnd [(norm01 rnd (ag_rss_growth a) (15 * 1024 * 1024) (100 * 1024 * 1024), 6/10),
                        (norm01 rnd (ag_major_faults a) 10 200, 4/10)])"

definition sched_score :: "rounding \<Rightarrow> aggregates \<Rightarrow> fl" where
  "sched_score rnd a =
    cap1 (weighted rnd [(norm01 rnd (ag_run_q a) 4 12, 4/10), (norm01 rnd (ag_ctx_sw a) 200 600, 3/10),
                        (norm01 rnd (ag_sched_latency a) 8 30, 3/10)])"

definition thermal_score :: "rounding \<Rightarrow> aggregates \<Rightarrow> fl \<Rightarrow> fl" where
  "thermal_score rnd a r =
    cap1 (weighted rnd [(norm01 rnd (ag_throttle a) 0 1, 35/100), (norm01 rnd (ag_soc_temp a) 65 90, 25/100),
       (norm01 rnd (fl_sub rnd (Fin 100) (ag_scaling_pct a)) 0 40, 20/100),
       (if fl_less r (rnd (- (2/10))) then norm01 rnd (fl_neg r) (2/10) 1 else Fin 0, 20/100)])"

definition kernel_score :: "rounding \<Rightarrow> aggregates \<Rightarrow> fl" where
  "kernel_score rnd a =
    (let eff = (if fl_less (Fin 5) (ag_cpu a) then fl_div rnd (ag_tp a) (ag_cpu a) else Fin 0) in
     cap1 (weighted rnd [(norm01 rnd (ag_syscall_rate a) 5000 50000, 5/10), (inverse_norm rnd eff (5/10) 5, 5/10)]))"

definition score_table :: "rounding \<Rightarrow> aggregates \<Rightarrow> fl \<Rightarrow> (string \<times> fl) list" where
  "score_table rnd a r =
    [(''CPU_BOUND'', cpu_score rnd a), (''NETWORK_BOUND'', net_score rnd a), (''DISK_BOUND'', disk_score rnd a),
     (''MEMORY_BOUND'', mem_score rnd a), (''SCHEDULER_BOUND'', sched_score rnd a),
     (''THERMAL_THROTTLING'', thermal_score rnd a r), (''KERNEL_COPY_OVERHEAD'', kernel_score rnd a)]"

section \<open>Classification\<close>

datatype cli_bottleneck =
  BnCpu | BnNetwork | BnDisk | BnMemory | BnScheduler | BnThermal | BnKernelCopy | BnHealthy

fun cli_label :: "cli_bottleneck \<Rightarrow> string" where
  "cli_label BnCpu = ''CPU_BOUND''"
| "cli_label BnNetwork = ''NETWORK_BOUND''"
| "cli_label BnDisk = ''DISK_BOUND''"
| "cli_label BnMemory = ''MEMORY_BOUND''"
| "cli_label BnScheduler = ''SCHEDULER_BOUND''"
| "cli_label BnThermal = ''THERMAL_THROTTLING''"
| "cli_label BnKernelCopy = ''KERNEL_COPY_OVERHEAD''"
| "cli_label BnHealthy = ''HEALTHY''"

record bottleneck_report =
  brp_bottleneck :: cli_bottleneck
  brp_confidence :: fl
  brp_signals :: "string list"
  brp_scores :: "(string \<times> fl) list"
  brp_timestamp :: u64

text \<open>\<^verbatim>\<open>max_by\<close>: the last of the largest entries; what cannot be compared counts as equal.\<close>

definition pick_max :: "(string \<times> fl) list \<Rightarrow> string \<times> fl" where
  "pick_max xs = foldl (\<lambda>best x. if fl_less (snd x) (snd best) then best else x) (hd xs) (tl xs)"

definition runner_up :: "string \<Rightarrow> (string \<times> fl) list \<Rightarrow> fl" where
  "runner_up label xs = foldl fl_max (Fin 0) (map snd (filter (\<lambda>x. fst x \<noteq> label) xs))"

definition margin :: "rounding \<Rightarrow> fl \<Rightarrow> fl \<Rightarrow> fl" where
  "margin rnd winner second =
    (if fl_less winner (rnd (5/100)) then Fin 0
     else fl_clamp (Fin 0) (Fin 1) (fl_div rnd (fl_sub rnd winner second) (fl_max winner (rnd (1/100)))))"

definition label_bottleneck :: "string \<Rightarrow> cli_bottleneck" where
  "label_bottleneck l =
    (if l = ''CPU_BOUND'' then BnCpu else if l = ''NETWORK_BOUND'' then BnNetwork
     else if l = ''DISK_BOUND'' then BnDisk else if l = ''MEMORY_BOUND'' then BnMemory
     else if l = ''SCHEDULER_BOUND'' then BnScheduler else if l = ''THERMAL_THROTTLING'' then BnThermal
     else if l = ''KERNEL_COPY_OVERHEAD'' then BnKernelCopy else BnHealthy)"

definition degree_sign :: string where "degree_sign = [CHR 0xC2, CHR 0xB0]"

definition signals :: "rounding \<Rightarrow> float_text \<Rightarrow> aggregates \<Rightarrow> fl \<Rightarrow> string list" where
  "signals rnd fmt a r =
    (let above = (\<lambda>x b t. if fl_less (Fin b) x then [t] else []) in
     above (ag_cpu a) 70 (''high_cpu_utilization ('' @ fmt 0 (ag_cpu a) @ ''%)'')
     @ above (ag_rtt a) 30 (''elevated_rtt ('' @ fmt 1 (ag_rtt a) @ ''ms)'')
     @ above (ag_max_rtt a) 100 (''rtt_spike ('' @ fmt 1 (ag_max_rtt a) @ ''ms peak)'')
     @ above (ag_retransmissions a) 5 (''retransmissions_detected ('' @ fmt 0 (ag_retransmissions a) @ '')'')
     @ above (ag_dirty_kb a) 16000 (''high_dirty_pages ('' @ fmt 0 (ag_dirty_kb a) @ '' KB)'')
     @ above (ag_writeback_kb a) 4000 (''writeback_pressure ('' @ fmt 0 (ag_writeback_kb a) @ '' KB)'')
     @ above (ag_rss_growth a) (20 * 1024 * 1024)
         (''rss_growth ('' @ fmt 1 (fl_div rnd (fl_div rnd (ag_rss_growth a) (Fin 1024)) (Fin 1024)) @ '' MB)'')
     @ above (ag_major_faults a) 20 (''major_page_faults ('' @ fmt 0 (ag_major_faults a) @ '')'')
     @ above (ag_run_q a) 4 (''run_queue_saturation ('' @ fmt 1 (ag_run_q a) @ '')'')
     @ above (ag_ctx_sw a) 300 (''high_context_switches ('' @ fmt 0 (ag_ctx_sw a) @ ''/sample)'')
     @ above (ag_sched_latency a) 10 (''sched_latency ('' @ fmt 1 (ag_sched_latency a) @ ''ms)'')
     @ above (ag_throttle a) 0 (''thermal_throttle_active ('' @ fmt 0 (fl_mul rnd (ag_throttle a) (Fin 100)) @ ''% ticks)'')
     @ above (ag_soc_temp a) 70 (''soc_temperature ('' @ fmt 1 (ag_soc_temp a) @ degree_sign @ ''C)'')
     @ (if fl_less r (rnd (- (3/10))) then [''tp_freq_anticorrelation (r='' @ fmt 2 r @ '')''] else [])
     @ (if fl_less (ag_cpu a) (Fin 20) \<and> fl_less (ag_tp a) (Fin 50) then [''low_cpu_with_low_throughput''] else [])
     @ above (ag_loss a) 1 (''packet_loss_detected ('' @ fmt 2 (ag_loss a) @ ''%)'')
     @ above (ag_rtt_var a) 15 (''rtt_jitter ('' @ fmt 1 (ag_rtt_var a) @ ''ms variance)''))"

definition report_timestamp :: "sample list \<Rightarrow> u64" where
  "report_timestamp ss =
    (case Option.bind (sample_last ss ''timestamp_ms'') as_u64 of Some t \<Rightarrow> t | None \<Rightarrow> 0)"

definition ranked_report ::
  "rounding \<Rightarrow> float_text \<Rightarrow> aggregates \<Rightarrow> fl \<Rightarrow> (string \<times> fl) list \<Rightarrow> u64 \<Rightarrow> bottleneck_report" where
  "ranked_report rnd fmt a r scores t =
    (let (label, w) = pick_max scores in
     \<lparr>brp_bottleneck = (if fl_less w (rnd (8/100)) then BnHealthy else label_bottleneck label),
      brp_confidence = margin rnd w (runner_up label scores),
      brp_signals = signals rnd fmt a r,
      brp_scores = scores,
      brp_timestamp = t\<rparr>)"

definition cli_classify ::
  "rounding \<Rightarrow> float_text \<Rightarrow> (fl \<Rightarrow> fl) \<Rightarrow> ((string \<times> fl) list \<Rightarrow> (string \<times> fl) list) \<Rightarrow> sample list \<Rightarrow> bottleneck_report" where
  "cli_classify rnd fmt sqrt_of ord ss =
    (if length ss < 2
     then \<lparr>brp_bottleneck = BnHealthy, brp_confidence = Fin 0, brp_signals = [''insufficient_samples''],
           brp_scores = [], brp_timestamp = report_timestamp ss\<rparr>
     else
       (let a = aggregate rnd ss; r = pearson rnd sqrt_of a ss in
        ranked_report rnd fmt a r (ord (score_table rnd a r)) (report_timestamp ss)))"

section \<open>Facts\<close>

text \<open>What is used of the rounding of IEEE arithmetic: it is monotone, keeps 0, 1 and 1/128, and is never NaN.\<close>

definition rounds :: "rounding \<Rightarrow> bool" where
  "rounds rnd \<longleftrightarrow> (\<forall>p q. p \<le> q \<longrightarrow> \<not> fl_less (rnd q) (rnd p)) \<and> (\<forall>q. rnd q \<noteq> NaN)
     \<and> rnd 0 = Fin 0 \<and> rnd 1 = Fin 1 \<and> rnd (1/128) = Fin (1/128)"

abbreviation non_neg :: "fl \<Rightarrow> bool" where "non_neg x \<equiv> \<not> fl_less x (Fin 0)"

lemma rounds_non_neg: "rounds rnd \<Longrightarrow> 0 \<le> q \<Longrightarrow> non_neg (rnd q)"
  unfolding rounds_def by metis

lemma rounds_unit:
  assumes "rounds rnd" "0 \<le> q" "q \<le> 1"
  shows "fl_within 0 1 (rnd q)"
proof -
  have "\<not> fl_less (rnd q) (rnd 0)" "\<not> fl_less (rnd 1) (rnd q)" "rnd q \<noteq> NaN" "rnd 0 = Fin 0" "rnd 1 = Fin 1"
    using assms unfolding rounds_def by metis+
  then show ?thesis by (cases "rnd q") (auto simp: fl_within_def)
qed

lemma fl_mul_non_neg: "rounds rnd \<Longrightarrow> non_neg x \<Longrightarrow> non_neg y \<Longrightarrow> non_neg (fl_mul rnd x y)"
  by (cases x; cases y) (auto simp: rounds_non_neg fl_inf_def)

lemma fl_add_non_neg: "rounds rnd \<Longrightarrow> non_neg x \<Longrightarrow> non_neg y \<Longrightarrow> non_neg (fl_add rnd x y)"
  by (cases x; cases y) (auto simp: rounds_non_neg)

lemma fl_max_0_non_neg: "non_neg (fl_max x (Fin 0))"
  by (cases x) (auto simp: fl_max_def)

lemma norm01_non_neg: "non_neg (norm01 rnd v lo hi)"
  by (auto simp: norm01_def fl_clamp_def)

lemma inverse_norm_non_neg: "non_neg (inverse_norm rnd v lo hi)"
  by (simp add: inverse_norm_def fl_max_0_non_neg)

lemma weighted_non_neg:
  assumes "rounds rnd" "\<forall>(s, w) \<in> set ps. non_neg s \<and> 0 \<le> w"
  shows "non_neg (weighted rnd ps)"
proof (cases ps)
  case (Cons p qs)
  have "\<forall>(s, w) \<in> set qs. non_neg s \<and> 0 \<le> w \<Longrightarrow> non_neg acc \<Longrightarrow>
      non_neg (foldl (\<lambda>acc (s, w). fl_add rnd acc (fl_mul rnd s (rnd w))) acc qs)" for acc
    by (induction qs arbitrary: acc) (auto simp: assms(1) fl_add_non_neg fl_mul_non_neg rounds_non_neg)
  with Cons assms show ?thesis by (cases p) (auto simp: fl_mul_non_neg rounds_non_neg)
qed simp

lemma cap1_within: "non_neg x \<Longrightarrow> fl_within 0 1 (cap1 x)"
  by (cases x) (auto simp: fl_min_def fl_within_def)

lemma within_non_neg: "fl_within 0 1 x \<Longrightarrow> non_neg x"
  by (cases x) (auto simp: fl_within_def)

lemmas non_neg_rules = fl_mul_non_neg fl_add_non_neg norm01_non_neg inverse_norm_non_neg weighted_non_neg
  within_non_neg [OF cap1_within]

lemma scores_within:
  assumes "rounds rnd"
  shows "list_all (\<lambda>(k, v). fl_within 0 1 v) (score_table rnd a r)"
  using assms
  by (simp add: score_table_def cpu_score_def net_score_def disk_score_def mem_score_def sched_score_def
      thermal_score_def kernel_score_def Let_def cap1_within non_neg_rules del: weighted.simps)

lemma score_labels: "map fst (score_table rnd a r) =
    map cli_label [BnCpu, BnNetwork, BnDisk, BnMemory, BnScheduler, BnThermal, BnKernelCopy]"
  by (simp add: score_table_def)

lemma distinct_scores: "distinct (map fst (score_table rnd a r))"
  by (simp add: score_labels)

text \<open>The order of floats, NaN aside.\<close>

lemma fl_less_chain: "\<not> fl_less a b \<Longrightarrow> \<not> fl_less b c \<Longrightarrow> b \<noteq> NaN \<Longrightarrow> \<not> fl_less a c"
  by (cases a; cases b; cases c) auto

lemma fl_less_antisym: "\<not> fl_less a b \<Longrightarrow> \<not> fl_less b a \<Longrightarrow> a \<noteq> NaN \<Longrightarrow> b \<noteq> NaN \<Longrightarrow> a = b"
  by (cases a; cases b) auto

lemma fl_less_irrefl [simp]: "\<not> fl_less a a"
  by (cases a) auto

lemma foldl_select:
  assumes "\<And>b y. f b y \<in> {b, y}" "\<And>b y. \<not> fl_less (g (f b y)) (g b)" "\<And>b y. \<not> fl_less (g (f b y)) (g y)"
    and "\<forall>x \<in> insert b (set ys). g x \<noteq> NaN"
  shows "foldl f b ys \<in> insert b (set ys) \<and> (\<forall>x \<in> insert b (set ys). \<not> fl_less (g (foldl f b ys)) (g x))"
  using assms(4)
proof (induction ys arbitrary: b)
  case (Cons y ys)
  let ?c = "f b y"
  have c: "?c \<in> {b, y}" "g ?c \<noteq> NaN" using assms(1) [of b y] Cons.prems by auto
  then have IH: "foldl f ?c ys \<in> insert ?c (set ys)" "\<forall>x \<in> insert ?c (set ys). \<not> fl_less (g (foldl f ?c ys)) (g x)"
    using Cons.IH [of ?c] Cons.prems by simp_all
  then have "\<not> fl_less (g (foldl f ?c ys)) (g b)" "\<not> fl_less (g (foldl f ?c ys)) (g y)"
    using fl_less_chain [OF _ assms(2) c(2)] fl_less_chain [OF _ assms(3) c(2)] by simp_all
  with IH c(1) show ?case by simp metis
qed simp

lemma pick_max_greatest:
  assumes "xs \<noteq> []" "\<forall>x \<in> set xs. snd x \<noteq> NaN"
  shows "pick_max xs \<in> set xs \<and> (\<forall>x \<in> set xs. \<not> fl_less (snd (pick_max xs)) (snd x))"
proof -
  obtain y ys where xs: "xs = y # ys" using assms(1) by (cases xs) auto
  have flip: "\<not> fl_less a b \<or> \<not> fl_less b a" for a b by (cases a; cases b) auto
  show ?thesis unfolding pick_max_def xs list.sel list.set(2)
    by (rule foldl_select) (use flip assms(2) in \<open>auto simp: xs\<close>)
qed

lemma fl_max_greatest:
  assumes "\<forall>v \<in> insert b (set vs). v \<noteq> NaN"
  shows "foldl fl_max b vs \<in> insert b (set vs) \<and> (\<forall>v \<in> insert b (set vs). \<not> fl_less (foldl fl_max b vs) v)"
proof (rule foldl_select [where g = id, unfolded id_def])
  show "fl_max b v \<in> {b, v}" "\<not> fl_less (fl_max b v) b" "\<not> fl_less (fl_max b v) v" for b v
    by (cases b; cases v; auto simp: fl_max_def)+
qed (use assms in simp)

lemma rounds_hundredth:
  assumes "rounds rnd"
  obtains q where "rnd (1/100) = Fin q" "0 < q"
proof -
  have "(1/128 :: rat) \<le> 1/100" by simp
  then have "\<not> fl_less (rnd (1/100)) (Fin (1/128))" using assms unfolding rounds_def by metis
  moreover have "fl_within 0 1 (rnd (1/100))" using assms by (rule rounds_unit) simp_all
  ultimately show ?thesis using that by (cases "rnd (1/100)") (auto simp: fl_within_def)
qed

lemma margin_zero:
  assumes "rounds rnd" "fl_within 0 1 w"
  shows "margin rnd w w = Fin 0"
proof -
  obtain q where q: "rnd (1/100) = Fin q" "0 < q" using rounds_hundredth [OF assms(1)] .
  have "rnd 0 = Fin 0" using assms(1) by (simp add: rounds_def)
  with q assms(2) show ?thesis
    by (cases w) (auto simp: margin_def fl_sub_def fl_clamp_def fl_max_def fl_within_def fl_inf_def)
qed

lemma margin_within:
  assumes "rounds rnd" "fl_within 0 1 w" "fl_within 0 1 v" "\<not> fl_less w v"
  shows "fl_within 0 1 (margin rnd w v)"
proof -
  obtain q where q: "rnd (1/100) = Fin q" "0 < q" using rounds_hundredth [OF assms(1)] .
  obtain a b where ab: "w = Fin a" "v = Fin b" "0 \<le> b" "b \<le> a" "a \<le> 1"
    using assms(2-4) by (cases w; cases v) (auto simp: fl_within_def)
  have "fl_within 0 1 (rnd (a - b))" by (rule rounds_unit [OF assms(1)]) (use ab in simp_all)
  then obtain c where c: "rnd (a - b) = Fin c" by (cases "rnd (a - b)") (auto simp: fl_within_def)
  obtain d where d: "fl_max (Fin a) (Fin q) = Fin d" "0 < d" using q by (cases "a < q") (auto simp: fl_max_def)
  have "rnd (c / d) \<noteq> NaN" using assms(1) by (simp add: rounds_def)
  then show ?thesis
    by (simp add: margin_def ab fl_sub_def c q(1) d fl_clamp_within) (use d(2) in \<open>auto simp: fl_within_def\<close>)
qed

lemma runner_up_between:
  assumes "\<forall>x \<in> set xs. fl_within 0 1 (snd x)" "w \<in> snd ` set xs" "\<forall>x \<in> set xs. \<not> fl_less w (snd x)"
  shows "fl_within 0 1 (runner_up l xs) \<and> \<not> fl_less w (runner_up l xs)
    \<and> (\<forall>x \<in> set xs. fst x \<noteq> l \<longrightarrow> \<not> fl_less (runner_up l xs) (snd x))
    \<and> runner_up l xs \<in> insert (Fin 0) (snd ` {x \<in> set xs. fst x \<noteq> l})"
proof -
  let ?vs = "map snd (filter (\<lambda>x. fst x \<noteq> l) xs)"
  have "\<forall>v \<in> insert (Fin 0) (set ?vs). v \<noteq> NaN" using assms(1) by (auto simp: fl_within_def)
  from fl_max_greatest [OF this]
  have g: "runner_up l xs \<in> insert (Fin 0) (set ?vs)" "\<forall>v \<in> set ?vs. \<not> fl_less (runner_up l xs) v"
    by (simp_all add: runner_up_def)
  then have "fl_within 0 1 (runner_up l xs)" using assms(1) by (auto simp: fl_within_def)
  moreover have "\<not> fl_less w (Fin 0)" using assms(1,2) within_non_neg by auto
  ultimately show ?thesis using g assms(3) by (auto 0 3)
qed

text \<open>The winner's score and its margin do not depend on the order of the entries; the winner can do so only where
  the margin is zero.\<close>

lemma ranking_order:
  assumes "rounds rnd" "set xs = set ys" "xs \<noteq> []" "\<forall>x \<in> set xs. fl_within 0 1 (snd x)"
    and "pick_max xs = (l, w)" "pick_max ys = (m, v)"
  shows "w = v \<and> runner_up l xs = runner_up m ys \<and> (l \<noteq> m \<longrightarrow> runner_up l xs = w)"
proof -
  have nan: "\<forall>x \<in> set xs. snd x \<noteq> NaN" using assms(4) fl_within_not_NaN by blast
  have ys: "ys \<noteq> []" "\<forall>x \<in> set ys. snd x \<noteq> NaN" "\<forall>x \<in> set ys. fl_within 0 1 (snd x)" using assms(2-4) nan by auto
  note px = pick_max_greatest [OF assms(3) nan, unfolded assms(5) snd_conv]
  note py = pick_max_greatest [OF ys(1,2), unfolded assms(6) snd_conv]
  have mem: "(l, w) \<in> set xs" "(m, v) \<in> set xs" "(m, v) \<in> set ys" "(l, w) \<in> set ys" using px py assms(2) by simp_all
  have img: "w \<in> snd ` set xs" "v \<in> snd ` set ys" using mem by force+
  have wv: "w = v" by (rule fl_less_antisym) (use px py mem nan in fastforce)+
  note rx = runner_up_between [OF assms(4) img(1) px [THEN conjunct2], of l]
  note ry = runner_up_between [OF ys(3) img(2) py [THEN conjunct2], of m]
  have nn: "runner_up l xs \<noteq> NaN" "runner_up m ys \<noteq> NaN" "w \<noteq> NaN"
    using rx ry fl_within_not_NaN nan mem(1) by (blast, blast, force)
  show ?thesis
  proof (cases "l = m")
    case True
    have "runner_up l xs = runner_up m ys"
    proof (rule fl_less_antisym [OF _ _ nn(1,2)])
      show "\<not> fl_less (runner_up l xs) (runner_up m ys)"
        using rx ry within_non_neg [of "runner_up l xs"] assms(2) True by auto
      show "\<not> fl_less (runner_up m ys) (runner_up l xs)"
        using rx ry within_non_neg [of "runner_up m ys"] assms(2) True by auto
    qed
    with wv True show ?thesis by simp
  next
    case False
    have "\<not> fl_less (runner_up l xs) v" "\<not> fl_less (runner_up m ys) w" using rx ry mem False by auto
    then have "runner_up l xs = w" "runner_up m ys = w"
      using fl_less_antisym [OF _ _ nn(1,3)] fl_less_antisym [OF _ _ nn(2,3)] rx ry wv by auto
    then show ?thesis using wv by simp
  qed
qed

lemma scored_label:
  assumes "(l, w) \<in> set (score_table rnd a r)"
  shows "label_bottleneck l \<noteq> BnHealthy \<and> cli_label (label_bottleneck l) = l"
proof -
  have "l \<in> set (map fst (score_table rnd a r))" using assms by force
  then show ?thesis unfolding score_labels by (auto simp: label_bottleneck_def)
qed

lemma ranked_report_order:
  assumes "rounds rnd" "set xs = set (score_table rnd a r)" "set ys = set (score_table rnd a r)"
    and "R = ranked_report rnd fmt a r xs t" "R' = ranked_report rnd fmt a r ys t"
  shows "fl_within 0 1 (brp_confidence R)" "list_all (\<lambda>(k, v). fl_within 0 1 v) (brp_scores R)"
    "brp_confidence R = brp_confidence R'" "brp_signals R = brp_signals R'"
    "brp_bottleneck R = brp_bottleneck R' \<or> brp_confidence R = Fin 0"
    "if brp_bottleneck R = BnHealthy then list_all (\<lambda>(k, v). fl_less v (rnd (8/100))) (brp_scores R)
     else \<exists>v. (cli_label (brp_bottleneck R), v) \<in> set (brp_scores R) \<and> list_all (\<lambda>(k, u). \<not> fl_less v u) (brp_scores R)"
proof -
  obtain l w where x: "pick_max xs = (l, w)" by (cases "pick_max xs")
  obtain m v where y: "pick_max ys = (m, v)" by (cases "pick_max ys")
  have u: "\<forall>x \<in> set xs. fl_within 0 1 (snd x)" using scores_within [OF assms(1), of a r] by (simp only: assms(2) list_all_iff case_prod_unfold)
  then have nan: "\<forall>x \<in> set xs. snd x \<noteq> NaN" using fl_within_not_NaN by blast
  have "score_table rnd a r \<noteq> []" by (simp only: score_table_def) simp
  then have ne: "xs \<noteq> []" using assms(2) by (metis set_empty)
  note g = pick_max_greatest [OF ne nan, unfolded x snd_conv]
  have lab: "label_bottleneck l \<noteq> BnHealthy \<and> cli_label (label_bottleneck l) = l"
    by (rule scored_label [of l w rnd a r]) (use g assms(2) in simp)
  have o: "w = v \<and> runner_up l xs = runner_up m ys \<and> (l \<noteq> m \<longrightarrow> runner_up l xs = w)"
    by (rule ranking_order [OF assms(1) _ ne u x y]) (simp add: assms(2,3))
  have w: "fl_within 0 1 w" "w \<in> snd ` set xs" using g u by force+
  note ru = runner_up_between [OF u w(2) g [THEN conjunct2], of l]
  have below: "fl_less u b" if "fl_less w b" "\<not> fl_less w u" "u \<noteq> NaN" for u b
    using that by (cases w; cases u; cases b) auto
  have tie: "l = m \<or> margin rnd w (runner_up l xs) = Fin 0" using o margin_zero [OF assms(1) w(1)] by auto
  have R: "R = \<lparr>brp_bottleneck = (if fl_less w (rnd (8/100)) then BnHealthy else label_bottleneck l),
      brp_confidence = margin rnd w (runner_up l xs), brp_signals = signals rnd fmt a r, brp_scores = xs, brp_timestamp = t\<rparr>"
    by (simp add: assms(4) ranked_report_def x)
  have R': "R' = \<lparr>brp_bottleneck = (if fl_less w (rnd (8/100)) then BnHealthy else label_bottleneck m),
      brp_confidence = margin rnd w (runner_up l xs), brp_signals = signals rnd fmt a r, brp_scores = ys, brp_timestamp = t\<rparr>"
    using o by (simp add: assms(5) ranked_report_def y)
  show "fl_within 0 1 (brp_confidence R)" using margin_within [OF assms(1) w(1)] ru by (simp add: R)
  show "list_all (\<lambda>(k, v). fl_within 0 1 v) (brp_scores R)" using u by (auto simp: R list_all_iff)
  show "brp_confidence R = brp_confidence R'" "brp_signals R = brp_signals R'" by (simp_all add: R R')
  show "brp_bottleneck R = brp_bottleneck R' \<or> brp_confidence R = Fin 0" using tie by (auto simp: R R')
  show "if brp_bottleneck R = BnHealthy then list_all (\<lambda>(k, v). fl_less v (rnd (8/100))) (brp_scores R)
     else \<exists>v. (cli_label (brp_bottleneck R), v) \<in> set (brp_scores R) \<and> list_all (\<lambda>(k, u). \<not> fl_less v u) (brp_scores R)"
  proof (cases "fl_less w (rnd (8/100))")
    case True
    have "\<forall>x \<in> set xs. fl_less (snd x) (rnd (8/100))" using below [OF True] g nan by blast
    with True show ?thesis by (simp add: R list_all_iff case_prod_unfold)
  next
    case False
    with g lab show ?thesis by (simp add: R list_all_iff case_prod_unfold) blast
  qed
qed

text \<open>The classifier, whatever the order in which the map of scores is walked: all scores and the
  confidence lie in [0, 1]; confidence and signals do not depend on the order, and the bottleneck does
  so only where the confidence is zero; the bottleneck has the largest score, and it is
  \<^verbatim>\<open>Healthy\<close> where all scores are below 0.08.\<close>

theorem classifier_order:
  assumes "rounds rnd" "\<And>xs :: (string \<times> fl) list. mset (o1 xs) = mset xs" "\<And>xs :: (string \<times> fl) list. mset (o2 xs) = mset xs"
  shows "(let r = cli_classify rnd fmt sq o1 ss; r' = cli_classify rnd fmt sq o2 ss in
      fl_within 0 1 (brp_confidence r) \<and> list_all (\<lambda>(k, v). fl_within 0 1 v) (brp_scores r)
      \<and> brp_confidence r = brp_confidence r' \<and> brp_signals r = brp_signals r'
      \<and> (brp_bottleneck r = brp_bottleneck r' \<or> brp_confidence r = Fin 0)
      \<and> (if brp_bottleneck r = BnHealthy then list_all (\<lambda>(k, v). fl_less v (rnd (8/100))) (brp_scores r)
         else \<exists>v. (cli_label (brp_bottleneck r), v) \<in> set (brp_scores r) \<and> list_all (\<lambda>(k, u). \<not> fl_less v u) (brp_scores r)))"
proof (cases "length ss < 2")
  case True
  then show ?thesis by (simp add: cli_classify_def fl_within_def)
next
  case False
  let ?a = "aggregate rnd ss" let ?r = "pearson rnd sq (aggregate rnd ss) ss"
  let ?T = "score_table rnd ?a ?r"
  have "set (o1 ?T) = set ?T" "set (o2 ?T) = set ?T" using assms(2,3) mset_eq_setD by blast+
  note K = ranked_report_order [OF assms(1) this refl refl, of fmt "report_timestamp ss"]
  have "cli_classify rnd fmt sq o1 ss = ranked_report rnd fmt ?a ?r (o1 ?T) (report_timestamp ss)"
    "cli_classify rnd fmt sq o2 ss = ranked_report rnd fmt ?a ?r (o2 ?T) (report_timestamp ss)"
    using False by (simp_all only: cli_classify_def Let_def if_False)
  then show ?thesis unfolding Let_def by (simp only:) (intro conjI K)
qed

definition demo_sample :: sample where
  "demo_sample = (\<lambda>k. if k = ''cpu_pct'' then Some (JsFloat (Fin 90)) else None)"

theorem classifier_order_witness:
  "brp_confidence (cli_classify Fin (\<lambda>_ _. []) id id (replicate 2 demo_sample))
    = brp_confidence (cli_classify Fin (\<lambda>_ _. []) id rev (replicate 2 demo_sample))"
proof -
  have "rounds Fin" by (simp add: rounds_def)
  from classifier_order [OF this, of id rev "\<lambda>_ _. []" id "replicate 2 demo_sample"] show ?thesis
    by (simp only: Let_def id_apply mset_rev)
qed

end
