(* ===== verification/Cli_Tuning.thy ===== *)
theory Cli_Tuning
  imports Cli_Classifier Rust_Strings
begin

text \<open>
  Tuning in the command line client: the tuning configuration (\<^verbatim>\<open>cli/src/adaptive/mod.rs\<close>), the decision engine
  that turns a report into a list of changes (\<^verbatim>\<open>decision_engine.rs\<close>) and the hill climber (\<^verbatim>\<open>auto_tuner.rs\<close>). The
  number of processors is an argument; \<^verbatim>\<open>usize\<close> is 64 bits wide.
\<close>

section \<open>Configuration\<close>

datatype cli_transport = ModeBuffered | ModeZeroCopy | ModeQuic | ModeUdp

record cli_config =
  cfg_chunk :: u64
  cfg_streams :: u32
  cfg_send_kb :: u32
  cfg_recv_kb :: u32
  cfg_batch :: u64
  cfg_workers :: u64
  cfg_limit :: "fl option"
  cfg_mode :: cli_transport

definition cli_default :: "u64 \<Rightarrow> cli_config" where
  "cli_default cpus =
    \<lparr>cfg_chunk = 1048576, cfg_streams = 1, cfg_send_kb = 4096, cfg_recv_kb = 4096, cfg_batch = 4,
     cfg_workers = max cpus 2, cfg_limit = None, cfg_mode = ModeBuffered\<rparr>"

section \<open>Actions and plans\<close>

datatype cli_action =
  SetChunkSize u64
| SetParallelStreams u32
| SetSocketBuffer u32 u32
| EnableZeroCopy
| ThrottleThroughput fl
| IncreaseBatchSize u64
| SetWorkerThreads u64
| SwitchToQuic
| SwitchToUdpCustom
| NoOp

definition show_word :: "'a::len word \<Rightarrow> string" where
  "show_word w = show_nat (unat w)"

fun describe_action :: "float_text \<Rightarrow> cli_action \<Rightarrow> string" where
  "describe_action fmt (SetChunkSize b) = ''Set chunk size to '' @ show_word (b div 1024) @ '' KB''"
| "describe_action fmt (SetParallelStreams n) = ''Set parallel streams to '' @ show_word n"
| "describe_action fmt (SetSocketBuffer s r) =
    ''Set socket buffers send='' @ show_word s @ '' KB recv='' @ show_word r @ '' KB''"
| "describe_action fmt EnableZeroCopy = ''Enable zero-copy (mmap/sendfile)''"
| "describe_action fmt (ThrottleThroughput x) = ''Throttle throughput to '' @ fmt 1 x @ '' Mbps''"
| "describe_action fmt (IncreaseBatchSize n) = ''Increase write batch to '' @ show_word n"
| "describe_action fmt (SetWorkerThreads n) = ''Set Tokio worker threads to '' @ show_word n"
| "describe_action fmt SwitchToQuic = ''Switch to user-space QUIC transport''"
| "describe_action fmt SwitchToUdpCustom = ''Switch to user-space custom UDP transport''"
| "describe_action fmt NoOp = ''No action required''"

fun apply_action :: "cli_action \<Rightarrow> cli_config \<Rightarrow> cli_config" where
  "apply_action (SetChunkSize b) c = c\<lparr>cfg_chunk := b\<rparr>"
| "apply_action (SetParallelStreams n) c = c\<lparr>cfg_streams := n\<rparr>"
| "apply_action (SetSocketBuffer s r) c = c\<lparr>cfg_send_kb := s, cfg_recv_kb := r\<rparr>"
| "apply_action EnableZeroCopy c = c\<lparr>cfg_mode := ModeZeroCopy\<rparr>"
| "apply_action (ThrottleThroughput x) c = c\<lparr>cfg_limit := Some x\<rparr>"
| "apply_action (IncreaseBatchSize n) c = c\<lparr>cfg_batch := n\<rparr>"
| "apply_action (SetWorkerThreads n) c = c\<lparr>cfg_workers := n\<rparr>"
| "apply_action SwitchToQuic c = c\<lparr>cfg_mode := ModeQuic\<rparr>"
| "apply_action SwitchToUdpCustom c = c\<lparr>cfg_mode := ModeUdp\<rparr>"
| "apply_action NoOp c = c"

record action_plan =
  pln_actions :: "cli_action list"
  pln_rationale :: string
  pln_target :: cli_bottleneck
  pln_confidence :: fl

definition plan_noop :: "cli_bottleneck \<Rightarrow> action_plan" where
  "plan_noop b =
    \<lparr>pln_actions = [NoOp], pln_rationale = ''System is operating within healthy parameters.'', pln_target = b, pln_confidence = Fin 0\<rparr>"

definition apply_all :: "cli_action list \<Rightarrow> cli_config \<Rightarrow> cli_config" where
  "apply_all as c = foldl (\<lambda>c a. apply_action a c) c as"

fun join_with :: "string \<Rightarrow> string list \<Rightarrow> string" where
  "join_with sep [] = []"
| "join_with sep [x] = x"
| "join_with sep (x # xs) = x @ sep @ join_with sep xs"

definition plan_summary :: "rounding \<Rightarrow> float_text \<Rightarrow> action_plan \<Rightarrow> string" where
  "plan_summary rnd fmt p =
    ''Target: **'' @ cli_label (pln_target p) @ ''** (confidence: '' @ fmt 0 (fl_mul rnd (pln_confidence p) (Fin 100))
     @ ''%) '' @ [CHR 0xE2, CHR 0x86, CHR 0x92] @ '' '' @ join_with ''; '' (map (describe_action fmt) (pln_actions p))"

section \<open>The decision engine\<close>

definition grow_chunk :: "cli_config \<Rightarrow> cli_action list" where
  "grow_chunk c =
    (let target = min (cfg_chunk c * 2) (2 * 1024 * 1024) in if target > cfg_chunk c then [SetChunkSize target] else [])"

definition shrink_chunk :: "u64 \<Rightarrow> cli_config \<Rightarrow> cli_action list" where
  "shrink_chunk least c =
    (let target = max (cfg_chunk c div 2) least in if target < cfg_chunk c then [SetChunkSize target] else [])"

definition single_stream :: "cli_config \<Rightarrow> cli_action list" where
  "single_stream c = (if cfg_streams c > 1 then [SetParallelStreams 1] else [])"

definition plan_network :: "cli_config \<Rightarrow> cli_action list" where
  "plan_network c =
    (let target = min (cfg_streams c + 2) 6;
         as = (if cfg_send_kb c < 4096 then [SetSocketBuffer 4096 4096] else []) @ grow_chunk c
           @ (if target > cfg_streams c then [SetParallelStreams target] else []) in
     if as = [] then [NoOp] else as)"

definition plan_cpu :: "cli_config \<Rightarrow> cli_action list" where
  "plan_cpu c =
    (let target = max (sat_sub (cfg_streams c) 1) 1 in
     shrink_chunk (128 * 1024) c @ [IncreaseBatchSize (min (cfg_batch c + 4) 16)]
     @ (if target < cfg_streams c then [SetParallelStreams target] else []))"

definition plan_disk :: "cli_config \<Rightarrow> cli_action list" where
  "plan_disk c = shrink_chunk (64 * 1024) c @ single_stream c @ [ThrottleThroughput (Fin 200)]"

definition plan_memory :: "cli_config \<Rightarrow> cli_action list" where
  "plan_memory c = shrink_chunk (128 * 1024) c @ single_stream c"

definition plan_scheduler :: "u64 \<Rightarrow> cli_config \<Rightarrow> cli_action list" where
  "plan_scheduler cpus c =
    (let target = min (cfg_workers c + 2) (max cpus 2 * 3) in
     (if target > cfg_workers c then [SetWorkerThreads target] else []) @ grow_chunk c)"

definition plan_thermal :: "rounding \<Rightarrow> cli_config \<Rightarrow> cli_action list" where
  "plan_thermal rnd c =
    (let tp = (case cfg_limit c of Some x \<Rightarrow> x | None \<Rightarrow> Fin 1000) in
     [ThrottleThroughput (fl_max (fl_mul rnd tp (rnd (6/10))) (Fin 50))] @ single_stream c @ grow_chunk c)"

definition plan_kernel_copy :: "cli_config \<Rightarrow> cli_action list" where
  "plan_kernel_copy c = [EnableZeroCopy] @ grow_chunk c"

definition plan_actions :: "rounding \<Rightarrow> u64 \<Rightarrow> cli_bottleneck \<Rightarrow> cli_config \<Rightarrow> cli_action list" where
  "plan_actions rnd cpus b c =
    (case b of
       BnNetwork \<Rightarrow> plan_network c
     | BnCpu \<Rightarrow> plan_cpu c
     | BnDisk \<Rightarrow> plan_disk c
     | BnMemory \<Rightarrow> plan_memory c
     | BnScheduler \<Rightarrow> plan_scheduler cpus c
     | BnThermal \<Rightarrow> plan_thermal rnd c
     | BnKernelCopy \<Rightarrow> plan_kernel_copy c
     | BnHealthy \<Rightarrow> [NoOp])"

fun plan_rationale :: "cli_bottleneck \<Rightarrow> string" where
  "plan_rationale BnNetwork = ''Network bottleneck: enlarging socket buffers and chunk size to saturate available bandwidth; adding parallel streams to hide RTT latency.''"
| "plan_rationale BnCpu = ''CPU bottleneck: reducing chunk size to lower per-iteration CPU cost; batching writes to amortise syscall overhead; reducing parallel streams to avoid CPU over-subscription.''"
| "plan_rationale BnDisk = ''Disk bottleneck: throttling throughput to let the writeback queue drain; reducing chunk size to avoid large dirty-page spikes.''"
| "plan_rationale BnMemory = ''Memory bottleneck: reducing chunk size and parallel streams to lower peak heap allocation and major page-fault rate.''"
| "plan_rationale BnScheduler = ''Scheduler bottleneck: increasing Tokio worker pool to drain run queue; enlarging chunk size to reduce the frequency of async task yields.''"
| "plan_rationale BnThermal = ''Thermal throttling detected: reducing throughput and parallel streams to allow the SoC to cool and restore full CPU frequency.''"
| "plan_rationale BnKernelCopy = ''Kernel copy overhead: enabling zero-copy (mmap/sendfile) and enlarging chunk size to reduce per-MB kernel'' @ [CHR 0xE2, CHR 0x86, CHR 0x94] @ ''user copy count.''"
| "plan_rationale BnHealthy = ''System is operating within healthy parameters.''"

definition cli_plan :: "rounding \<Rightarrow> u64 \<Rightarrow> bottleneck_report \<Rightarrow> cli_config \<Rightarrow> action_plan" where
  "cli_plan rnd cpus rep c =
    (if fl_less (brp_confidence rep) (rnd (15/100)) \<or> brp_bottleneck rep = BnHealthy then plan_noop (brp_bottleneck rep)
     else \<lparr>pln_actions = plan_actions rnd cpus (brp_bottleneck rep) c, pln_rationale = plan_rationale (brp_bottleneck rep),
           pln_target = brp_bottleneck rep, pln_confidence = brp_confidence rep\<rparr>)"

section \<open>The hill climber\<close>

record dimension =
  dim_current :: u64
  dim_min :: u64
  dim_max :: u64
  dim_step :: u64
  dim_direction :: int

definition dimension_new :: "u64 \<Rightarrow> u64 \<Rightarrow> u64 \<Rightarrow> u64 \<Rightarrow> dimension" where
  "dimension_new c lo hi st = \<lparr>dim_current = c, dim_min = lo, dim_max = hi, dim_step = st, dim_direction = 1\<rparr>"

definition step_up :: "dimension \<Rightarrow> u64" where
  "step_up d = min (dim_current d + dim_step d) (dim_max d)"

definition step_down :: "dimension \<Rightarrow> u64" where
  "step_down d = max (sat_sub (dim_current d) (dim_step d)) (dim_min d)"

definition apply_direction :: "dimension \<Rightarrow> u64 \<times> dimension" where
  "apply_direction d =
    (let (v, dir) =
       (if dim_direction d > 0 then
          if step_up d = dim_current d \<and> dim_current d = dim_max d then (step_down d, -1) else (step_up d, dim_direction d)
        else
          if step_down d = dim_current d \<and> dim_current d = dim_min d then (step_up d, 1) else (step_down d, dim_direction d)) in
     (v, d\<lparr>dim_current := v, dim_direction := dir\<rparr>))"

record auto_tuner =
  atn_chunk :: dimension
  atn_stream :: dimension
  atn_buffer :: dimension
  atn_best_tp :: fl
  atn_best :: "cli_config option"
  atn_stale :: u32
  atn_max_stale :: u32
  atn_recent :: "fl list"
  atn_probe :: bool
  atn_probe_config :: "cli_config option"
  atn_pre_tp :: fl

definition tuner_new :: auto_tuner where
  "tuner_new =
    \<lparr>atn_chunk = dimension_new 1048576 16384 1048576 131072, atn_stream = dimension_new 1 1 8 1,
     atn_buffer = dimension_new 4096 256 8192 1024, atn_best_tp = Fin 0, atn_best = None, atn_stale = 0, atn_max_stale = 8,
     atn_recent = [], atn_probe = False, atn_probe_config = None, atn_pre_tp = Fin 0\<rparr>"

definition smooth_tp :: "rounding \<Rightarrow> auto_tuner \<Rightarrow> fl" where
  "smooth_tp rnd t =
    (if atn_recent t = [] then Fin 0 else fl_div rnd (fl_total rnd (atn_recent t)) (rnd (of_nat (length (atn_recent t)))))"

abbreviation flip :: "dimension \<Rightarrow> dimension" where
  "flip d \<equiv> d\<lparr>dim_direction := - dim_direction d\<rparr>"

definition flip_direction :: "auto_tuner \<Rightarrow> auto_tuner" where
  "flip_direction t =
    (let k = unat (atn_stale t) mod 3 in
     if k = 0 then t\<lparr>atn_chunk := flip (atn_chunk t)\<rparr>
     else if k = 1 then t\<lparr>atn_stream := flip (atn_stream t)\<rparr>
     else t\<lparr>atn_buffer := flip (atn_buffer t)\<rparr>)"

definition tuner_restart :: "cli_config \<Rightarrow> auto_tuner \<Rightarrow> auto_tuner" where
  "tuner_restart base t =
    t\<lparr>atn_chunk := (dimension_new (cfg_chunk base) 16384 1048576 131072)\<lparr>dim_direction := -1\<rparr>,
      atn_stream := (dimension_new (ucast (cfg_streams base)) 1 8 1)\<lparr>dim_direction := -1\<rparr>,
      atn_buffer := (dimension_new (ucast (cfg_send_kb base)) 256 8192 1024)\<lparr>dim_direction := -1\<rparr>,
      atn_recent := []\<rparr>"

definition configs_equal :: "cli_config \<Rightarrow> cli_config \<Rightarrow> bool" where
  "configs_equal a b \<longleftrightarrow> cfg_chunk a = cfg_chunk b \<and> cfg_streams a = cfg_streams b \<and> cfg_send_kb a = cfg_send_kb b"

text \<open>The parts of a step: the current values and throughput are taken in, an ongoing probe is judged, the best
  is set where there is none, a stale search starts over, and the next candidate is made.\<close>

definition tuner_observe :: "cli_config \<Rightarrow> fl \<Rightarrow> auto_tuner \<Rightarrow> auto_tuner" where
  "tuner_observe cur tp t =
    (let recent = atn_recent t @ [tp] in
     t\<lparr>atn_chunk := (atn_chunk t)\<lparr>dim_current := cfg_chunk cur\<rparr>,
       atn_stream := (atn_stream t)\<lparr>dim_current := ucast (cfg_streams cur)\<rparr>,
       atn_buffer := (atn_buffer t)\<lparr>dim_current := ucast (cfg_send_kb cur)\<rparr>,
       atn_recent := (if length recent > 5 then tl recent else recent)\<rparr>)"

definition probe_improved :: "rounding \<Rightarrow> fl \<Rightarrow> auto_tuner \<Rightarrow> bool" where
  "probe_improved rnd smooth t = fl_le (fl_mul rnd (atn_pre_tp t) (rnd (102/100))) smooth"

definition tuner_judge :: "rounding \<Rightarrow> cli_config \<Rightarrow> fl \<Rightarrow> auto_tuner \<Rightarrow> auto_tuner" where
  "tuner_judge rnd cur smooth t =
    (if \<not> atn_probe t then t
     else
       (if probe_improved rnd smooth t
        then t\<lparr>atn_best_tp := smooth, atn_best := Some cur, atn_stale := 0\<rparr>
        else flip_direction (t\<lparr>atn_stale := atn_stale t + 1\<rparr>))\<lparr>atn_probe := False, atn_probe_config := None\<rparr>)"

definition tuner_first_best :: "cli_config \<Rightarrow> fl \<Rightarrow> auto_tuner \<Rightarrow> auto_tuner" where
  "tuner_first_best cur smooth t = (if atn_best t = None then t\<lparr>atn_best_tp := smooth, atn_best := Some cur\<rparr> else t)"

definition tuner_unstale :: "cli_config \<Rightarrow> auto_tuner \<Rightarrow> auto_tuner" where
  "tuner_unstale cur t = (if atn_stale t \<ge> atn_max_stale t then (tuner_restart cur t)\<lparr>atn_stale := 0\<rparr> else t)"

definition tuner_candidate :: "cli_config \<Rightarrow> auto_tuner \<Rightarrow> cli_config \<times> auto_tuner" where
  "tuner_candidate cur t =
    (let k = unat (atn_stale t) mod 3 in
     if k = 0 then (let (v, d) = apply_direction (atn_chunk t) in (cur\<lparr>cfg_chunk := v\<rparr>, t\<lparr>atn_chunk := d\<rparr>))
     else if k = 1 then
       (let (v, d) = apply_direction (atn_stream t) in (cur\<lparr>cfg_streams := ucast v\<rparr>, t\<lparr>atn_stream := d\<rparr>))
     else
       (let (v, d) = apply_direction (atn_buffer t) in
        (cur\<lparr>cfg_send_kb := ucast v, cfg_recv_kb := ucast v\<rparr>, t\<lparr>atn_buffer := d\<rparr>)))"

definition tuner_step :: "rounding \<Rightarrow> cli_config \<Rightarrow> fl \<Rightarrow> auto_tuner \<Rightarrow> cli_config option \<times> auto_tuner" where
  "tuner_step rnd cur tp t0 =
    (let t1 = tuner_observe cur tp t0;
         smooth = smooth_tp rnd t1;
         t2 = tuner_unstale cur (tuner_first_best cur smooth (tuner_judge rnd cur smooth t1));
         (cand, t3) = tuner_candidate cur t2 in
     if configs_equal cand cur then (None, t3)
     else (Some cand, t3\<lparr>atn_probe := True, atn_probe_config := Some cand, atn_pre_tp := smooth\<rparr>))"

end
