(* ===== verification/Cli_Feedback.thy ===== *)
theory Cli_Feedback
  imports Cli_Tuning
begin

text \<open>
  The feedback loop of the command line client (\<^verbatim>\<open>cli/src/adaptive/feedback_loop.rs\<close>) with the state it shares
  with a transfer (\<^verbatim>\<open>adaptive/mod.rs\<close>) and the choices of transport (\<^verbatim>\<open>transport_switcher.rs\<close>,
  \<^verbatim>\<open>mode_switcher.rs\<close>). What a cycle reads of the shared state, which other tasks write, is its input:
  the samples before and after the plan is applied, the flags, the loss and the override.
\<close>

section \<open>Shared state\<close>

record tuning_state =
  ads_samples :: "sample list"
  ads_config :: cli_config
  ads_bottlenecks :: "bottleneck_report list"
  ads_actions :: "(action_plan \<times> fl \<times> fl) list"
  ads_running :: bool
  ads_file_size :: u64
  ads_zero_copy_failed :: bool
  ads_udp_failed :: bool
  ads_loss :: fl
  ads_rtt_var :: fl

definition adaptive_new :: "u64 \<Rightarrow> cli_transport option \<Rightarrow> u64 \<Rightarrow> tuning_state" where
  "adaptive_new cpus override fsize =
    \<lparr>ads_samples = [],
     ads_config = (case override of Some m \<Rightarrow> (cli_default cpus)\<lparr>cfg_mode := m\<rparr> | None \<Rightarrow> cli_default cpus),
     ads_bottlenecks = [], ads_actions = [], ads_running = True, ads_file_size = fsize,
     ads_zero_copy_failed = False, ads_udp_failed = False, ads_loss = Fin 0, ads_rtt_var = Fin 0\<rparr>"

definition keep_sample :: "sample \<Rightarrow> tuning_state \<Rightarrow> tuning_state" where
  "keep_sample s st =
    (let q = (if length (ads_samples st) \<ge> 30 then tl (ads_samples st) else ads_samples st) in
     st\<lparr>ads_samples := q @ [s]\<rparr>)"

text \<open>The state registered for the transfer in progress.\<close>

definition active_config :: "u64 \<Rightarrow> tuning_state option \<Rightarrow> cli_config" where
  "active_config cpus active = (case active of Some st \<Rightarrow> ads_config st | None \<Rightarrow> cli_default cpus)"

section \<open>Choice of transport\<close>

definition tcp_choice :: "u64 \<Rightarrow> bool \<Rightarrow> string \<Rightarrow> string \<Rightarrow> cli_transport \<times> string" where
  "tcp_choice fsize zc_failed large small =
    (if \<not> zc_failed \<and> fsize > 4 * 1024 * 1024 then (ModeZeroCopy, large) else (ModeBuffered, small))"

definition select_transport ::
  "bottleneck_report \<Rightarrow> u64 \<Rightarrow> bool \<Rightarrow> bool \<Rightarrow> fl \<Rightarrow> fl \<Rightarrow> cli_transport \<times> string" where
  "select_transport rep fsize zc_failed udp_failed rtt loss =
    (if udp_failed then tcp_choice fsize zc_failed ''udp_failed_fallback_zero_copy'' ''udp_failed_fallback_buffered''
     else if fl_less (Fin 15) loss
     then tcp_choice fsize zc_failed ''packet_loss_fallback_zero_copy'' ''packet_loss_fallback_buffered''
     else if brp_bottleneck rep = BnNetwork then
       (if fl_less (Fin 80) rtt then (ModeQuic, ''network_bound_high_rtt_quic'') else (ModeUdp, ''network_bound_low_rtt_udp''))
     else tcp_choice fsize zc_failed ''healthy_large_file_zero_copy'' ''healthy_standard_buffered'')"

datatype transfer_mode = TmBuffered | TmZeroCopy

text \<open>The mode with the event that is printed: what happened to zero copy, and why.\<close>

definition determine_mode ::
  "bottleneck_report \<Rightarrow> u64 \<Rightarrow> bool \<Rightarrow> transfer_mode \<Rightarrow> transfer_mode \<times> (string \<times> string) option" where
  "determine_mode rep fsize zc_failed cur =
    (let off = (\<lambda>why. (TmBuffered, if cur = TmZeroCopy then Some (''ZERO_COPY_DISABLED'', why) else None)) in
     if zc_failed then off ''syscall_failure''
     else if fsize \<le> 4 * 1024 * 1024 then off ''small_file''
     else
       (case brp_bottleneck rep of
          BnKernelCopy \<Rightarrow>
            (TmZeroCopy, if cur = TmBuffered then Some (''ZERO_COPY_ENABLED'', ''high_kernel_copy_overhead'') else None)
        | BnHealthy \<Rightarrow> (cur, None)
        | _ \<Rightarrow> off ''bottleneck_changed''))"

section \<open>The loop\<close>

record loop_env =
  lpe_rnd :: rounding
  lpe_fmt :: float_text
  lpe_sqrt :: "fl \<Rightarrow> fl"
  lpe_cpus :: u64
  lpe_file_size :: u64

record cycle_input =
  cin_running :: bool
  cin_samples :: "sample list"
  cin_post_samples :: "sample list"
  cin_zero_copy_failed :: bool
  cin_udp_failed :: bool
  cin_loss :: fl
  cin_override :: "cli_transport option"
  cin_order :: "(string \<times> fl) list \<Rightarrow> (string \<times> fl) list"

record loop_state =
  lps_config :: cli_config
  lps_prev_config :: cli_config
  lps_prev_tp :: fl
  lps_cycle :: u32
  lps_interval :: duration
  lps_tuner :: auto_tuner
  lps_reports :: "bottleneck_report list"
  lps_actions :: "(action_plan \<times> fl \<times> fl) list"

definition loop_start :: "cli_config \<Rightarrow> loop_state" where
  "loop_start c =
    \<lparr>lps_config = c, lps_prev_config = c, lps_prev_tp = Fin 0, lps_cycle = 0, lps_interval = 1000, lps_tuner = tuner_new,
     lps_reports = [], lps_actions = []\<rparr>"

text \<open>The mean of the last three readings of throughput, over three or the number of samples.\<close>

definition rolling_tp :: "rounding \<Rightarrow> sample list \<Rightarrow> fl" where
  "rolling_tp rnd ss =
    fl_div rnd (fl_total rnd (take 3 (rev (readings rnd ss ''rolling_throughput_mbps'')))) (fl_min (Fin 3) (rnd (of_nat (length ss))))"

definition target_mode :: "loop_env \<Rightarrow> cycle_input \<Rightarrow> bottleneck_report \<Rightarrow> cli_transport" where
  "target_mode env i rep =
    (let rtt = (case sample_last (cin_samples i) ''rtt_ms'' of Some v \<Rightarrow> as_f64 (lpe_rnd env) v | None \<Rightarrow> Fin 20);
         (m, _) = select_transport rep (lpe_file_size env) (cin_zero_copy_failed i) (cin_udp_failed i) rtt (cin_loss i) in
     case cin_override i of Some o_m \<Rightarrow> o_m | None \<Rightarrow> m)"

fun mode_action :: "cli_transport \<Rightarrow> cli_action list" where
  "mode_action ModeZeroCopy = [EnableZeroCopy]"
| "mode_action ModeQuic = [SwitchToQuic]"
| "mode_action ModeUdp = [SwitchToUdpCustom]"
| "mode_action ModeBuffered = []"

definition has_action :: "action_plan \<Rightarrow> bool" where
  "has_action p \<longleftrightarrow> \<not> (case pln_actions p of NoOp # _ \<Rightarrow> True | _ \<Rightarrow> False)"

definition regressed :: "rounding \<Rightarrow> fl \<Rightarrow> fl \<Rightarrow> bool" where
  "regressed rnd prev_tp post \<longleftrightarrow> fl_less post (fl_mul rnd prev_tp (rnd (98/100))) \<and> fl_less (Fin 0) prev_tp"

text \<open>Phase 2: apply a plan, measure, keep or revert.\<close>

definition run_plan :: "loop_env \<Rightarrow> cycle_input \<Rightarrow> bottleneck_report \<Rightarrow> loop_state \<Rightarrow> loop_state" where
  "run_plan env i rep st =
    (let cur = lps_config st;
         plan = cli_plan (lpe_rnd env) (lpe_cpus env) rep cur;
         mode = target_mode env i rep;
         act = has_action plan \<or> mode \<noteq> cfg_mode cur;
         plan' = (if mode \<noteq> cfg_mode cur then plan\<lparr>pln_actions := pln_actions plan @ mode_action mode\<rparr> else plan) in
     if \<not> act then st
     else
       (let new = (apply_all (pln_actions plan') cur)\<lparr>cfg_mode := mode\<rparr>;
            post = rolling_tp (lpe_rnd env) (cin_post_samples i);
            st' = (if regressed (lpe_rnd env) (lps_prev_tp st) post
                   then st\<lparr>lps_config := lps_prev_config st\<rparr>
                   else st\<lparr>lps_config := new, lps_prev_config := new\<rparr>) in
        st'\<lparr>lps_actions := lps_actions st' @ [(plan', lps_prev_tp st, post)], lps_prev_tp := post\<rparr>))"

text \<open>Phase 3: the tuner, every third cycle.\<close>

definition run_tuner :: "loop_env \<Rightarrow> fl \<Rightarrow> loop_state \<Rightarrow> loop_state" where
  "run_tuner env tp st =
    (if unat (lps_cycle st) mod 3 = 2 then
       (case tuner_step (lpe_rnd env) (lps_config st) tp (lps_tuner st) of
          (Some c, t) \<Rightarrow> st\<lparr>lps_config := c, lps_tuner := t\<rparr>
        | (None, t) \<Rightarrow> st\<lparr>lps_tuner := t\<rparr>)
     else st)"

definition loop_cycle :: "loop_env \<Rightarrow> cycle_input \<Rightarrow> loop_state \<Rightarrow> loop_state" where
  "loop_cycle env i st =
    (if length (cin_samples i) < 3 then st
     else
       (let tp = rolling_tp (lpe_rnd env) (cin_samples i);
            rep = cli_classify (lpe_rnd env) (lpe_fmt env) (lpe_sqrt env) (cin_order i) (cin_samples i);
            st1 = run_plan env i rep (st\<lparr>lps_reports := lps_reports st @ [rep]\<rparr>);
            st2 = run_tuner env tp st1 in
        st2\<lparr>lps_interval := (if brp_bottleneck rep = BnHealthy \<and> fl_less (brp_confidence rep) (lpe_rnd env (2/10)) then 2000 else 1000),
            lps_prev_tp := (if lps_prev_tp st2 = Fin 0 then tp else lps_prev_tp st2),
            lps_cycle := lps_cycle st2 + 1\<rparr>))"

text \<open>The loop runs until it sees that it shall stop.\<close>

fun run_cycles :: "loop_env \<Rightarrow> cycle_input list \<Rightarrow> loop_state \<Rightarrow> loop_state" where
  "run_cycles env [] st = st"
| "run_cycles env (i # is) st = (if cin_running i then run_cycles env is (loop_cycle env i st) else st)"

end
