(* ===== verification/Cli_Feedback_Facts.thy ===== *)
theory Cli_Feedback_Facts
  imports Cli_Feedback
begin

text \<open>
  What the tuning of the command line client guarantees: the ranges every configuration stays in, what a plan does,
  what the hill climber tries after a probe that did not help, and what a cycle of the feedback loop leaves behind.
\<close>

section \<open>Ranges\<close>

definition chunk_range :: "u64 \<Rightarrow> bool" where "chunk_range x \<longleftrightarrow> 16384 \<le> x \<and> x \<le> 2097152"
definition stream_range :: "u32 \<Rightarrow> bool" where "stream_range x \<longleftrightarrow> 1 \<le> x \<and> x \<le> 8"
definition buffer_range :: "u32 \<Rightarrow> bool" where "buffer_range x \<longleftrightarrow> 256 \<le> x \<and> x \<le> 8192"
definition batch_range :: "u64 \<Rightarrow> bool" where "batch_range x \<longleftrightarrow> 4 \<le> x \<and> x \<le> 16"
definition worker_range :: "u64 \<Rightarrow> u64 \<Rightarrow> bool" where "worker_range cpus x \<longleftrightarrow> max cpus 2 \<le> x \<and> x \<le> max cpus 2 * 3"

definition cfg_bounded :: "u64 \<Rightarrow> cli_config \<Rightarrow> bool" where
  "cfg_bounded cpus c \<longleftrightarrow> chunk_range (cfg_chunk c) \<and> stream_range (cfg_streams c) \<and> buffer_range (cfg_send_kb c)
     \<and> buffer_range (cfg_recv_kb c) \<and> batch_range (cfg_batch c) \<and> worker_range cpus (cfg_workers c)
     \<and> (case cfg_limit c of Some x \<Rightarrow> \<not> fl_less x (Fin 50) | None \<Rightarrow> True)"

fun action_bounded :: "u64 \<Rightarrow> cli_action \<Rightarrow> bool" where
  "action_bounded cpus (SetChunkSize b) = chunk_range b"
| "action_bounded cpus (SetParallelStreams n) = stream_range n"
| "action_bounded cpus (SetSocketBuffer s r) = (buffer_range s \<and> buffer_range r)"
| "action_bounded cpus (ThrottleThroughput x) = (\<not> fl_less x (Fin 50))"
| "action_bounded cpus (IncreaseBatchSize n) = batch_range n"
| "action_bounded cpus (SetWorkerThreads n) = worker_range cpus n"
| "action_bounded cpus _ = True"

lemma counter_add_small: "unat a + unat b < 2 ^ LENGTH('a) \<Longrightarrow> unat (a + b) = unat a + unat b" for a b :: "'a::len word"
  by (simp add: unat_word_ariths)

lemma unat_mult_small: "unat a * unat b < 2 ^ LENGTH('a) \<Longrightarrow> unat (a * b) = unat a * unat b" for a b :: "'a::len word"
  by (simp add: unat_word_ariths)

lemmas range_defs = chunk_range_def stream_range_def buffer_range_def batch_range_def worker_range_def

lemma apply_action_bounded: "cfg_bounded cpus c \<Longrightarrow> action_bounded cpus a \<Longrightarrow> cfg_bounded cpus (apply_action a c)"
  by (cases a) (simp_all add: cfg_bounded_def)

lemma apply_all_bounded:
  "list_all (action_bounded cpus) as \<Longrightarrow> cfg_bounded cpus c \<Longrightarrow> cfg_bounded cpus (apply_all as c)"
  unfolding apply_all_def by (induction as arbitrary: c) (simp_all add: apply_action_bounded)

lemma chunk_double:
  assumes "chunk_range x"
  shows "unat (x * 2) = unat x * 2"
  using assms by (subst unat_mult_small) (simp_all add: range_defs word_le_nat_alt)

lemma grow_chunk_bounded: "cfg_bounded cpus c \<Longrightarrow> list_all (action_bounded cpus) (grow_chunk c)"
  using chunk_double [of "cfg_chunk c"]
  by (auto simp: grow_chunk_def Let_def cfg_bounded_def range_defs word_le_nat_alt min_def)

lemma shrink_chunk_bounded:
  "16384 \<le> least \<Longrightarrow> cfg_bounded cpus c \<Longrightarrow> list_all (action_bounded cpus) (shrink_chunk least c)"
  by (auto simp: shrink_chunk_def Let_def cfg_bounded_def range_defs max_def intro: order_trans less_imp_le)

lemma single_stream_bounded: "list_all (action_bounded cpus) (single_stream c)"
  by (simp add: single_stream_def stream_range_def)

lemma stream_change_bounded:
  assumes "stream_range x"
  shows "stream_range (min (x + 2) 6)" "stream_range (max (sat_sub x 1) 1)"
proof -
  have "unat (x + 2) = unat x + 2" using assms by (subst counter_add_small) (simp_all add: range_defs word_le_nat_alt)
  then show "stream_range (min (x + 2) 6)" using assms by (auto simp: range_defs word_le_nat_alt min_def)
  have "unat (sat_sub x 1) = unat x - 1" by (simp add: unat_sat_sub)
  then show "stream_range (max (sat_sub x 1) 1)" using assms by (auto simp: range_defs word_le_nat_alt max_def)
qed

lemma batch_change_bounded:
  assumes "batch_range x"
  shows "batch_range (min (x + 4) 16)"
proof -
  have "unat (x + 4) = unat x + 4" using assms by (subst counter_add_small) (simp_all add: range_defs word_le_nat_alt)
  then show ?thesis using assms by (auto simp: range_defs word_le_nat_alt min_def)
qed

lemma worker_change_bounded:
  assumes "worker_range cpus x" "cpus < 2 ^ 32"
  shows "worker_range cpus (min (x + 2) (max cpus 2 * 3))"
proof -
  have m: "unat (max cpus 2) < 2 ^ 32" using assms(2) by (simp add: max_def word_less_nat_alt)
  then have "unat (max cpus 2 * 3) = unat (max cpus 2) * 3" by (subst unat_mult_small) simp_all
  moreover from this m assms(1) have "unat (x + 2) = unat x + 2"
    by (subst counter_add_small) (simp_all add: worker_range_def word_le_nat_alt)
  ultimately show ?thesis using assms(1) by (auto simp: worker_range_def word_le_nat_alt min_def)
qed

lemma fl_max_50: "\<not> fl_less (fl_max x (Fin 50)) (Fin 50)"
  by (cases x) (auto simp: fl_max_def)

lemma plan_actions_bounded:
  assumes "cfg_bounded cpus c" "cpus < 2 ^ 32"
  shows "list_all (action_bounded cpus) (plan_actions rnd cpus b c)"
proof -
  have r: "stream_range (cfg_streams c)" "batch_range (cfg_batch c)" "worker_range cpus (cfg_workers c)"
    using assms(1) by (simp_all add: cfg_bounded_def)
  note g = grow_chunk_bounded [OF assms(1)] shrink_chunk_bounded [OF _ assms(1)] single_stream_bounded
    stream_change_bounded [OF r(1)] batch_change_bounded [OF r(2)] worker_change_bounded [OF r(3) assms(2)] fl_max_50
  show ?thesis
    by (cases b) (simp_all add: plan_actions_def plan_network_def plan_cpu_def plan_disk_def plan_memory_def
        plan_scheduler_def plan_thermal_def plan_kernel_copy_def Let_def g, simp_all add: buffer_range_def)
qed

lemma cli_plan_bounded:
  assumes "cfg_bounded cpus c" "cpus < 2 ^ 32"
  shows "list_all (action_bounded cpus) (pln_actions (cli_plan rnd cpus rep c))"
  using plan_actions_bounded [OF assms] by (simp add: cli_plan_def plan_noop_def)

section \<open>The hill climber\<close>

definition dim_is :: "u64 \<Rightarrow> u64 \<Rightarrow> u64 \<Rightarrow> dimension \<Rightarrow> bool" where
  "dim_is lo hi st d \<longleftrightarrow> dim_min d = lo \<and> dim_max d = hi \<and> dim_step d = st"

definition tuner_ok :: "auto_tuner \<Rightarrow> bool" where
  "tuner_ok t \<longleftrightarrow> dim_is 16384 1048576 131072 (atn_chunk t) \<and> dim_is 1 8 1 (atn_stream t) \<and> dim_is 256 8192 1024 (atn_buffer t)
     \<and> atn_max_stale t = 8 \<and> atn_stale t < 8"

lemma tuner_new_ok: "tuner_ok tuner_new"
  by (simp add: tuner_ok_def tuner_new_def dimension_new_def dim_is_def)

lemma apply_direction_range:
  assumes "dim_is lo hi st d" "lo \<le> hi" "lo \<le> dim_current d" "unat (dim_current d) + unat st < 2 ^ 64" "apply_direction d = (v, d')"
  shows "lo \<le> v \<and> v \<le> max hi (dim_current d) \<and> dim_is lo hi st d'"
proof -
  have "unat (dim_current d + st) = unat (dim_current d) + unat st" using assms(4) by (subst counter_add_small) simp_all
  then have "lo \<le> min (dim_current d + st) hi" "min (dim_current d + st) hi \<le> max hi (dim_current d)"
    using assms(2,3) by (auto simp: min_def max_def word_le_nat_alt)
  moreover have "lo \<le> max (sat_sub (dim_current d) st) lo" "max (sat_sub (dim_current d) st) lo \<le> max hi (dim_current d)"
    using assms(2,3) unat_sat_sub [of "dim_current d" st] by (auto simp: max_def word_le_nat_alt)
  ultimately show ?thesis using assms(1,5)
    by (auto simp: apply_direction_def step_up_def step_down_def dim_is_def Let_def split: if_splits prod.splits)
qed

text \<open>The tuner before it makes a candidate: its dimensions are in order and at the current values.\<close>

definition tuner_ready :: "cli_config \<Rightarrow> auto_tuner \<Rightarrow> bool" where
  "tuner_ready cur t \<longleftrightarrow> tuner_ok t \<and> dim_current (atn_chunk t) = cfg_chunk cur
     \<and> dim_current (atn_stream t) = ucast (cfg_streams cur) \<and> dim_current (atn_buffer t) = ucast (cfg_send_kb cur)"

definition tuner_prepare :: "rounding \<Rightarrow> cli_config \<Rightarrow> fl \<Rightarrow> auto_tuner \<Rightarrow> auto_tuner" where
  "tuner_prepare rnd cur tp t =
    (let t1 = tuner_observe cur tp t; s = smooth_tp rnd t1 in
     tuner_unstale cur (tuner_first_best cur s (tuner_judge rnd cur s t1)))"

lemma tuner_prepare_ready:
  assumes "tuner_ok t"
  shows "tuner_ready cur (tuner_prepare rnd cur tp t)"
proof -
  let ?t1 = "tuner_observe cur tp t"
  let ?s = "smooth_tp rnd ?t1"
  have one: "tuner_ready cur ?t1"
    using assms by (simp add: tuner_ready_def tuner_ok_def tuner_observe_def dim_is_def Let_def)
  let ?weak = "\<lambda>u. dim_is 16384 1048576 131072 (atn_chunk u) \<and> dim_is 1 8 1 (atn_stream u) \<and> dim_is 256 8192 1024 (atn_buffer u)
     \<and> atn_max_stale u = 8 \<and> dim_current (atn_chunk u) = cfg_chunk cur
     \<and> dim_current (atn_stream u) = ucast (cfg_streams cur) \<and> dim_current (atn_buffer u) = ucast (cfg_send_kb cur)"
  have "?weak (tuner_judge rnd cur ?s ?t1)"
    using one by (simp add: tuner_judge_def tuner_ready_def tuner_ok_def flip_direction_def dim_is_def Let_def)
  then have two: "?weak (tuner_first_best cur ?s (tuner_judge rnd cur ?s ?t1))" by (simp add: tuner_first_best_def)
  have "tuner_ready cur (tuner_unstale cur u)" if "?weak u" for u
    using that by (simp add: tuner_unstale_def tuner_ready_def tuner_ok_def tuner_restart_def dimension_new_def dim_is_def not_le)
  from this [OF two] show ?thesis by (simp add: tuner_prepare_def Let_def)
qed

lemma tuner_step_prepare:
  "tuner_step rnd cur tp t =
    (case tuner_candidate cur (tuner_prepare rnd cur tp t) of
       (cand, u) \<Rightarrow> if configs_equal cand cur then (None, u)
         else (Some cand, u\<lparr>atn_probe := True, atn_probe_config := Some cand, atn_pre_tp := smooth_tp rnd (tuner_observe cur tp t)\<rparr>))"
  by (simp add: tuner_step_def tuner_prepare_def Let_def)

definition one_change :: "cli_config \<Rightarrow> cli_config \<Rightarrow> bool" where
  "one_change cur c \<longleftrightarrow>
    (\<exists>v. c = cur\<lparr>cfg_chunk := v\<rparr> \<and> 16384 \<le> v \<and> v \<le> max 1048576 (cfg_chunk cur))
    \<or> (\<exists>v. c = cur\<lparr>cfg_streams := v\<rparr> \<and> stream_range v)
    \<or> (\<exists>v. c = cur\<lparr>cfg_send_kb := v, cfg_recv_kb := v\<rparr> \<and> buffer_range v)"

lemma counter_narrow: "unat (v :: u64) < 2 ^ 32 \<Longrightarrow> unat (ucast v :: u32) = unat v"
  by (simp add: unsigned_ucast_eq take_bit_nat_eq_self)

lemma ucast_wide: "unat (ucast (v :: u32) :: u64) = unat v"
proof -
  have "unat v < 2 ^ LENGTH(32)" by (rule unsigned_less)
  then show ?thesis by (simp add: unsigned_ucast_eq take_bit_nat_eq_self)
qed

lemma tuner_candidate_spec:
  assumes "tuner_ready cur t" "cfg_bounded cpus cur" "tuner_candidate cur t = (c, u)"
  shows "one_change cur c \<and> tuner_ok u"
proof -
  have ok: "tuner_ok t" using assms(1) by (simp add: tuner_ready_def)
  have b: "chunk_range (cfg_chunk cur)" "stream_range (cfg_streams cur)" "buffer_range (cfg_send_kb cur)"
    using assms(2) by (simp_all add: cfg_bounded_def)
  have chunk: "16384 \<le> v \<and> v \<le> max 1048576 (cfg_chunk cur) \<and> dim_is 16384 1048576 131072 d"
    if "apply_direction (atn_chunk t) = (v, d)" for v d
    using apply_direction_range [OF _ _ _ _ that, of 16384 1048576 131072] assms(1) b(1)
    by (simp add: tuner_ready_def tuner_ok_def range_defs word_le_nat_alt)
  have stream: "stream_range (ucast v) \<and> dim_is 1 8 1 d" if "apply_direction (atn_stream t) = (v, d)" for v d
  proof -
    have "1 \<le> v \<and> v \<le> max 8 (ucast (cfg_streams cur)) \<and> dim_is 1 8 1 d"
      using apply_direction_range [OF _ _ _ _ that, of 1 8 1] assms(1) b(2)
      by (simp add: tuner_ready_def tuner_ok_def range_defs word_le_nat_alt ucast_wide)
    then show ?thesis using b(2) counter_narrow [of v]
      by (auto simp: range_defs word_le_nat_alt max_def ucast_wide split: if_splits)
  qed
  have buffer: "buffer_range (ucast v) \<and> dim_is 256 8192 1024 d" if "apply_direction (atn_buffer t) = (v, d)" for v d
  proof -
    have "256 \<le> v \<and> v \<le> max 8192 (ucast (cfg_send_kb cur)) \<and> dim_is 256 8192 1024 d"
      using apply_direction_range [OF _ _ _ _ that, of 256 8192 1024] assms(1) b(3)
      by (simp add: tuner_ready_def tuner_ok_def range_defs word_le_nat_alt ucast_wide)
    then show ?thesis using b(3) counter_narrow [of v]
      by (auto simp: range_defs word_le_nat_alt max_def ucast_wide split: if_splits)
  qed
  show ?thesis using assms(3) ok chunk stream buffer
    by (auto simp: tuner_candidate_def Let_def one_change_def tuner_ok_def split: if_splits prod.splits)
qed

lemma tuner_step_spec:
  assumes "tuner_ok t" "cfg_bounded cpus cur" "tuner_step rnd cur tp t = (r, u)"
  shows "tuner_ok u \<and> (case r of Some c \<Rightarrow> one_change cur c \<and> \<not> configs_equal c cur | None \<Rightarrow> True)"
proof -
  obtain c v where cv: "tuner_candidate cur (tuner_prepare rnd cur tp t) = (c, v)"
    by (cases "tuner_candidate cur (tuner_prepare rnd cur tp t)")
  from tuner_candidate_spec [OF tuner_prepare_ready [OF assms(1)] assms(2) this] assms(3) cv show ?thesis
    by (auto simp: tuner_step_prepare tuner_ok_def split: if_splits)
qed

lemma one_change_bounded: "cfg_bounded cpus cur \<Longrightarrow> one_change cur c \<Longrightarrow> cfg_bounded cpus c"
  by (auto simp: one_change_def cfg_bounded_def chunk_range_def max_def split: if_splits intro: order_trans)

text \<open>Which dimension a candidate moves: the number of stale steps modulo three.\<close>

lemma tuner_candidate_dim:
  assumes "tuner_candidate cur t = (c, u)"
  shows "atn_stale u = atn_stale t \<and> atn_best u = atn_best t"
    and "unat (atn_stale t) mod 3 \<noteq> 0 \<Longrightarrow> cfg_chunk c = cfg_chunk cur \<and> atn_chunk u = atn_chunk t"
    and "unat (atn_stale t) mod 3 \<noteq> 1 \<Longrightarrow> cfg_streams c = cfg_streams cur \<and> atn_stream u = atn_stream t"
    and "unat (atn_stale t) mod 3 \<noteq> 2 \<Longrightarrow> cfg_send_kb c = cfg_send_kb cur \<and> atn_buffer u = atn_buffer t"
  using assms by (auto simp: tuner_candidate_def Let_def split: if_splits prod.splits)

definition rejected :: "rounding \<Rightarrow> cli_config \<Rightarrow> fl \<Rightarrow> auto_tuner \<Rightarrow> bool" where
  "rejected rnd cur tp t \<longleftrightarrow>
    (let t1 = tuner_observe cur tp t in atn_probe t \<and> \<not> probe_improved rnd (smooth_tp rnd t1) t1)"

lemma stale_next: "(n :: u32) < 8 \<Longrightarrow> unat (n + 1) = Suc (unat n)"
  by (subst counter_add_small) (simp_all add: word_less_nat_alt)

text \<open>After a rejected probe: the next dimension in turn is prepared, with its direction flipped, or, after the
  eighth, the search starts over with the first.\<close>

lemma prepare_rejected:
  assumes "tuner_ok t" "atn_best t \<noteq> None" "rejected rnd cur tp t"
  defines "u \<equiv> tuner_prepare rnd cur tp t"
  shows "atn_best u = atn_best t"
    and "unat (atn_stale u) = (if atn_stale t = 7 then 0 else Suc (unat (atn_stale t)))"
    and "atn_stale t \<noteq> 7 \<Longrightarrow> (unat (atn_stale t) mod 3 = 0 \<longrightarrow> dim_direction (atn_chunk u) = dim_direction (atn_chunk t))
      \<and> (unat (atn_stale t) mod 3 = 1 \<longrightarrow> dim_direction (atn_stream u) = dim_direction (atn_stream t))
      \<and> (unat (atn_stale t) mod 3 = 2 \<longrightarrow> dim_direction (atn_buffer u) = dim_direction (atn_buffer t))"
proof -
  let ?t1 = "tuner_observe cur tp t" let ?s = "smooth_tp rnd (tuner_observe cur tp t)"
  have "\<not> probe_improved rnd ?s ?t1" "atn_probe ?t1" using assms(3) by (simp_all add: rejected_def Let_def tuner_observe_def)
  then have judge: "tuner_judge rnd cur ?s ?t1 =
      (flip_direction (?t1\<lparr>atn_stale := atn_stale t + 1\<rparr>))\<lparr>atn_probe := False, atn_probe_config := None\<rparr>"
    by (simp add: tuner_judge_def) (simp add: tuner_observe_def Let_def)
  have lt: "atn_stale t < 8" and m: "atn_max_stale t = 8" using assms(1) by (simp_all add: tuner_ok_def)
  have n: "unat (atn_stale t + 1) = Suc (unat (atn_stale t))" by (rule stale_next [OF lt])
  have seven: "atn_stale t = 7 \<longleftrightarrow> \<not> atn_stale t + 1 < 8"
    using lt n by (auto simp: word_less_nat_alt word_unat_eq_iff)
  let ?w = "tuner_first_best cur ?s (tuner_judge rnd cur ?s ?t1)"
  have bn: "atn_best (tuner_judge rnd cur ?s ?t1) = atn_best t" "atn_stale (tuner_judge rnd cur ?s ?t1) = atn_stale t + 1"
    "atn_max_stale (tuner_judge rnd cur ?s ?t1) = 8"
    unfolding judge by (simp_all add: flip_direction_def tuner_observe_def Let_def m)
  then have w: "?w = tuner_judge rnd cur ?s ?t1" using assms(2) by (auto simp: tuner_first_best_def)
  have "u = tuner_unstale cur (tuner_judge rnd cur ?s ?t1)" by (simp add: u_def tuner_prepare_def Let_def w)
  then have u: "u = (if atn_stale t = 7 then (tuner_restart cur (tuner_judge rnd cur ?s ?t1))\<lparr>atn_stale := 0\<rparr>
      else tuner_judge rnd cur ?s ?t1)"
    using seven bn by (simp add: tuner_unstale_def not_less)
  show "atn_best u = atn_best t"
    unfolding u judge by (simp add: tuner_restart_def flip_direction_def tuner_observe_def Let_def)
  show "unat (atn_stale u) = (if atn_stale t = 7 then 0 else Suc (unat (atn_stale t)))"
    unfolding u judge by (simp add: tuner_restart_def flip_direction_def tuner_observe_def Let_def n)
  have "Suc k mod 3 = (if k mod 3 = 2 then 0 else Suc (k mod 3))" for k by (simp add: mod_Suc)
  then show "atn_stale t \<noteq> 7 \<Longrightarrow> (unat (atn_stale t) mod 3 = 0 \<longrightarrow> dim_direction (atn_chunk u) = dim_direction (atn_chunk t))
      \<and> (unat (atn_stale t) mod 3 = 1 \<longrightarrow> dim_direction (atn_stream u) = dim_direction (atn_stream t))
      \<and> (unat (atn_stale t) mod 3 = 2 \<longrightarrow> dim_direction (atn_buffer u) = dim_direction (atn_buffer t))"
    unfolding u judge by (simp add: flip_direction_def tuner_observe_def Let_def n)
qed

lemma prepare_best: "atn_best (tuner_prepare rnd cur tp t) \<noteq> None"
  by (simp add: tuner_prepare_def tuner_unstale_def tuner_first_best_def tuner_restart_def Let_def)

text \<open>A probe that did not help. The tuner leaves the setting it tried where it is and moves on to another
  dimension: what it proposes next differs from the rejected configuration, if at all, elsewhere, its best
  configuration is never proposed, and the direction that is flipped is not that of the rejected dimension.\<close>

theorem rejected_probe_kept:
  assumes "tuner_ok t" "cfg_bounded cpus cur" "tuner_step rnd cur tp t = (Some c, t1)"
    and "rejected rnd c tp' t1" "tuner_step rnd c tp' t1 = (r, t2)"
  shows "one_change cur c \<and> atn_best t2 = atn_best t1
    \<and> (let c' = (case r of Some x \<Rightarrow> x | None \<Rightarrow> c) in
        (cfg_chunk c \<noteq> cfg_chunk cur \<longrightarrow> cfg_chunk c' = cfg_chunk c)
        \<and> (cfg_streams c \<noteq> cfg_streams cur \<longrightarrow> cfg_streams c' = cfg_streams c)
        \<and> (cfg_send_kb c \<noteq> cfg_send_kb cur \<longrightarrow> cfg_send_kb c' = cfg_send_kb c))
    \<and> (atn_stale t1 \<noteq> 7 \<longrightarrow>
        (cfg_chunk c \<noteq> cfg_chunk cur \<longrightarrow> dim_direction (atn_chunk t2) = dim_direction (atn_chunk t1))
        \<and> (cfg_streams c \<noteq> cfg_streams cur \<longrightarrow> dim_direction (atn_stream t2) = dim_direction (atn_stream t1))
        \<and> (cfg_send_kb c \<noteq> cfg_send_kb cur \<longrightarrow> dim_direction (atn_buffer t2) = dim_direction (atn_buffer t1)))"
proof -
  note one = tuner_step_spec [OF assms(1-3)]
  let ?p = "tuner_prepare rnd cur tp t" let ?q = "tuner_prepare rnd c tp' t1"
  obtain v where v: "tuner_candidate cur ?p = (c, v)" "t1 = v\<lparr>atn_probe := True, atn_probe_config := Some c,
      atn_pre_tp := smooth_tp rnd (tuner_observe cur tp t)\<rparr>"
    using assms(3) by (auto simp: tuner_step_prepare split: prod.splits if_splits)
  obtain d w where w: "tuner_candidate c ?q = (d, w)" by (cases "tuner_candidate c ?q")
  note dv = tuner_candidate_dim [OF v(1)] and dw = tuner_candidate_dim [OF w]
  have t1: "atn_stale t1 = atn_stale ?p" "atn_best t1 \<noteq> None" using v(2) dv(1) prepare_best by auto
  note q = prepare_rejected [OF one [THEN conjunct1] t1(2) assms(4)]
  have t2: "atn_best t2 = atn_best w" "atn_chunk t2 = atn_chunk w" "atn_stream t2 = atn_stream w" "atn_buffer t2 = atn_buffer w"
    "cfg_chunk (case r of Some x \<Rightarrow> x | None \<Rightarrow> c) = cfg_chunk d" "cfg_streams (case r of Some x \<Rightarrow> x | None \<Rightarrow> c) = cfg_streams d"
    "cfg_send_kb (case r of Some x \<Rightarrow> x | None \<Rightarrow> c) = cfg_send_kb d"
    using assms(5) w by (auto simp: tuner_step_prepare configs_equal_def split: if_splits)
  let ?k = "unat (atn_stale t1) mod 3"
  have k: "unat (atn_stale ?q) mod 3 = (if atn_stale t1 = 7 then 0 else if ?k = 2 then 0 else Suc ?k)"
    using q(2) by (simp add: mod_Suc)
  have seven: "atn_stale t1 = 7 \<Longrightarrow> ?k = 1" by simp
  have dims: "cfg_chunk c \<noteq> cfg_chunk cur \<Longrightarrow> ?k = 0" "cfg_streams c \<noteq> cfg_streams cur \<Longrightarrow> ?k = 1"
    "cfg_send_kb c \<noteq> cfg_send_kb cur \<Longrightarrow> ?k = 2"
    using dv(2-4) t1(1) by metis+
  have ne: "?k = 0 \<Longrightarrow> unat (atn_stale ?q) mod 3 \<noteq> 0" "?k = 1 \<Longrightarrow> unat (atn_stale ?q) mod 3 \<noteq> 1"
    "?k = 2 \<Longrightarrow> unat (atn_stale ?q) mod 3 \<noteq> 2"
    using k seven by (auto split: if_splits)
  have keep: "cfg_chunk c \<noteq> cfg_chunk cur \<Longrightarrow> cfg_chunk d = cfg_chunk c \<and> atn_chunk w = atn_chunk ?q"
    "cfg_streams c \<noteq> cfg_streams cur \<Longrightarrow> cfg_streams d = cfg_streams c \<and> atn_stream w = atn_stream ?q"
    "cfg_send_kb c \<noteq> cfg_send_kb cur \<Longrightarrow> cfg_send_kb d = cfg_send_kb c \<and> atn_buffer w = atn_buffer ?q"
    using dims ne dw(2-4) by metis+
  show ?thesis
    unfolding Let_def t2 using one dims keep dw(1) q(1,3) by simp
qed

lemma cli_default_bounded:
  assumes "cpus < 2 ^ 32"
  shows "cfg_bounded cpus (cli_default cpus)"
proof -
  have "unat (max cpus 2) < 2 ^ 32" using assms by (simp add: max_def word_less_nat_alt)
  then have "unat (max cpus 2 * 3) = unat (max cpus 2) * 3" by (subst unat_mult_small) simp_all
  then show ?thesis by (simp add: cfg_bounded_def cli_default_def range_defs word_le_nat_alt)
qed

lemma demo_rejected: "rejected Fin (the (fst (tuner_step Fin (cli_default 4) (Fin 100) tuner_new))) (Fin 50)
    (snd (tuner_step Fin (cli_default 4) (Fin 100) tuner_new))"
  by code_simp

theorem rejected_probe_kept_witness:
  "cfg_chunk (the (fst (tuner_step Fin (cli_default 4) (Fin 100) tuner_new))) = 917504
    \<and> (let c = the (fst (tuner_step Fin (cli_default 4) (Fin 100) tuner_new)) in
        cfg_chunk (case fst (tuner_step Fin c (Fin 50) (snd (tuner_step Fin (cli_default 4) (Fin 100) tuner_new)))
          of Some x \<Rightarrow> x | None \<Rightarrow> c) = 917504)"
proof -
  let ?s = "tuner_step Fin (cli_default 4) (Fin 100) tuner_new"
  have c: "cfg_chunk (the (fst ?s)) = 917504" by code_simp
  have "fst ?s \<noteq> None" by code_simp
  then have s: "?s = (Some (the (fst ?s)), snd ?s)" by (simp add: prod_eq_iff)
  have b: "cfg_bounded 4 (cli_default 4)" by (rule cli_default_bounded) simp
  have "cfg_chunk (cli_default 4) = 1048576" by (simp add: cli_default_def)
  then have "cfg_chunk (the (fst ?s)) \<noteq> cfg_chunk (cli_default 4)" using c by simp
  with c rejected_probe_kept [OF tuner_new_ok b s demo_rejected prod.collapse [symmetric]] show ?thesis
    unfolding Let_def by metis
qed

section \<open>Plans\<close>

lemma apply_all_append: "apply_all (as @ bs) c = apply_all bs (apply_all as c)"
  by (simp add: apply_all_def)

lemma apply_all_simps: "apply_all [] c = c" "apply_all (a # as) c = apply_all as (apply_action a c)"
  by (simp_all add: apply_all_def)

lemma apply_grow:
  assumes "chunk_range (cfg_chunk c)"
  shows "apply_all (grow_chunk c) d = (if cfg_chunk d = cfg_chunk c then d\<lparr>cfg_chunk := min (cfg_chunk c * 2) 2097152\<rparr>
    else apply_all (grow_chunk c) d)"
proof -
  have "cfg_chunk c \<le> min (cfg_chunk c * 2) 2097152"
    using assms chunk_double [OF assms] by (auto simp: min_def word_le_nat_alt range_defs)
  then show ?thesis by (auto simp: grow_chunk_def Let_def apply_all_simps)
qed

lemma apply_shrink:
  assumes "cfg_chunk d = cfg_chunk c"
  shows "apply_all (shrink_chunk least c) d = d\<lparr>cfg_chunk := min (cfg_chunk c) (max (cfg_chunk c div 2) least)\<rparr>"
proof -
  have "d = d\<lparr>cfg_chunk := cfg_chunk c\<rparr>" using assms by (cases d) simp
  then have "apply_all (if t < cfg_chunk c then [SetChunkSize t] else []) d = d\<lparr>cfg_chunk := min (cfg_chunk c) t\<rparr>" for t
    by (simp add: apply_all_simps min_def not_less)
  then show ?thesis by (simp only: shrink_chunk_def Let_def)
qed

lemma apply_single:
  "cfg_streams d = cfg_streams c \<Longrightarrow> stream_range (cfg_streams c) \<Longrightarrow> apply_all (single_stream c) d = d\<lparr>cfg_streams := 1\<rparr>"
  by (auto simp: single_stream_def apply_all_simps stream_range_def)

lemma apply_streams:
  assumes "cfg_streams d = cfg_streams c"
  shows "apply_all (if cfg_streams c < t then [SetParallelStreams t] else []) d = d\<lparr>cfg_streams := max (cfg_streams c) t\<rparr>"
    and "apply_all (if t < cfg_streams c then [SetParallelStreams t] else []) d = d\<lparr>cfg_streams := min (cfg_streams c) t\<rparr>"
proof -
  have d: "d = d\<lparr>cfg_streams := cfg_streams c\<rparr>" using assms by (cases d) simp
  then show "apply_all (if cfg_streams c < t then [SetParallelStreams t] else []) d = d\<lparr>cfg_streams := max (cfg_streams c) t\<rparr>"
    by (auto simp: apply_all_simps max_def not_less)
  from d show "apply_all (if t < cfg_streams c then [SetParallelStreams t] else []) d = d\<lparr>cfg_streams := min (cfg_streams c) t\<rparr>"
    by (simp add: apply_all_simps min_def not_less)
qed

lemma apply_workers:
  assumes "cfg_workers d = cfg_workers c"
  shows "apply_all (if cfg_workers c < t then [SetWorkerThreads t] else []) d = d\<lparr>cfg_workers := max (cfg_workers c) t\<rparr>"
proof -
  have "d = d\<lparr>cfg_workers := cfg_workers c\<rparr>" using assms by (cases d) simp
  then show ?thesis by (auto simp: apply_all_simps max_def not_less)
qed

text \<open>What a plan does to the configuration it was made for. A confident report of a bottleneck changes exactly these
  settings; a report that is not confident, or healthy, changes nothing. For a CPU bottleneck the chunk is halved,
  so there are more writes, where the comment in the source wants fewer and larger ones.\<close>

theorem plan_effects:
  assumes "cfg_bounded cpus c"
  shows "apply_all (pln_actions (cli_plan rnd cpus rep c)) c =
    (if fl_less (brp_confidence rep) (rnd (15/100)) then c
     else
       (let grown = min (cfg_chunk c * 2) 2097152; shrunk = (\<lambda>least. min (cfg_chunk c) (max (cfg_chunk c div 2) least)) in
        case brp_bottleneck rep of
          BnNetwork \<Rightarrow> c\<lparr>cfg_send_kb := (if cfg_send_kb c < 4096 then 4096 else cfg_send_kb c),
             cfg_recv_kb := (if cfg_send_kb c < 4096 then 4096 else cfg_recv_kb c), cfg_chunk := grown,
             cfg_streams := max (cfg_streams c) (min (cfg_streams c + 2) 6)\<rparr>
        | BnCpu \<Rightarrow> c\<lparr>cfg_chunk := shrunk 131072, cfg_batch := min (cfg_batch c + 4) 16, cfg_streams := max (sat_sub (cfg_streams c) 1) 1\<rparr>
        | BnDisk \<Rightarrow> c\<lparr>cfg_chunk := shrunk 65536, cfg_streams := 1, cfg_limit := Some (Fin 200)\<rparr>
        | BnMemory \<Rightarrow> c\<lparr>cfg_chunk := shrunk 131072, cfg_streams := 1\<rparr>
        | BnScheduler \<Rightarrow> c\<lparr>cfg_chunk := grown, cfg_workers := max (cfg_workers c) (min (cfg_workers c + 2) (max cpus 2 * 3))\<rparr>
        | BnThermal \<Rightarrow> c\<lparr>cfg_chunk := grown, cfg_streams := 1, cfg_limit := Some (fl_max (fl_mul rnd
             (case cfg_limit c of Some x \<Rightarrow> x | None \<Rightarrow> Fin 1000) (rnd (6/10))) (Fin 50))\<rparr>
        | BnKernelCopy \<Rightarrow> c\<lparr>cfg_chunk := grown, cfg_mode := ModeZeroCopy\<rparr>
        | BnHealthy \<Rightarrow> c))"
proof -
  have r: "chunk_range (cfg_chunk c)" "stream_range (cfg_streams c)" using assms by (simp_all add: cfg_bounded_def)
  have grow: "apply_all (grow_chunk c) d = d\<lparr>cfg_chunk := min (cfg_chunk c * 2) 2097152\<rparr>" if "cfg_chunk d = cfg_chunk c" for d
    using apply_grow [OF r(1), of d] that by simp
  have "max (sat_sub (cfg_streams c) 1) 1 \<le> cfg_streams c"
    using r(2) unat_sat_sub [of "cfg_streams c" 1] by (auto simp: stream_range_def word_le_nat_alt max_def)
  then have le: "min (cfg_streams c) (max (sat_sub (cfg_streams c) 1) 1) = max (sat_sub (cfg_streams c) 1) 1"
    by (rule min_absorb2)
  have net: "apply_all (plan_network c) c = apply_all ((if cfg_send_kb c < 4096 then [SetSocketBuffer 4096 4096] else []) @ grow_chunk c
      @ (if cfg_streams c < min (cfg_streams c + 2) 6 then [SetParallelStreams (min (cfg_streams c + 2) 6)] else [])) c"
    by (simp add: plan_network_def Let_def apply_all_simps)
  have send: "apply_all (if cfg_send_kb c < 4096 then [SetSocketBuffer 4096 4096] else []) c
      = c\<lparr>cfg_send_kb := (if cfg_send_kb c < 4096 then 4096 else cfg_send_kb c), cfg_recv_kb := (if cfg_send_kb c < 4096 then 4096 else cfg_recv_kb c)\<rparr>"
    by (cases c) (simp add: apply_all_simps)
  note ops = apply_all_append apply_all_simps grow apply_shrink apply_single r(2) apply_streams apply_workers le send net
  show ?thesis
    by (cases "brp_bottleneck rep")
      (simp_all only: cli_plan_def plan_noop_def plan_actions_def plan_cpu_def plan_disk_def plan_memory_def plan_scheduler_def
        plan_thermal_def plan_kernel_copy_def Let_def cli_bottleneck.case if_cancel,
       simp_all add: ops del: min_less_iff_conj max_less_iff_conj less_max_iff_disj min_less_iff_disj)
qed

theorem plan_effects_witness:
  "apply_all (pln_actions (cli_plan Fin 4 \<lparr>brp_bottleneck = BnCpu, brp_confidence = Fin 1, brp_signals = [], brp_scores = [],
      brp_timestamp = 0\<rparr> (cli_default 4))) (cli_default 4)
    = (cli_default 4)\<lparr>cfg_chunk := 524288, cfg_batch := 8\<rparr>"
proof -
  have b: "cfg_bounded 4 (cli_default 4)" by (rule cli_default_bounded) simp
  show ?thesis unfolding plan_effects [OF b] by code_simp
qed

section \<open>The feedback loop\<close>

definition loop_bounded :: "u64 \<Rightarrow> loop_state \<Rightarrow> bool" where
  "loop_bounded cpus st \<longleftrightarrow> cfg_bounded cpus (lps_config st) \<and> cfg_bounded cpus (lps_prev_config st) \<and> tuner_ok (lps_tuner st)"

lemma run_plan_bounded:
  assumes "loop_bounded cpus st" "cpus < 2 ^ 32" "lpe_cpus env = cpus"
  shows "loop_bounded cpus (run_plan env i rep st)"
proof -
  let ?cur = "lps_config st" let ?m = "target_mode env i rep"
  have cur: "cfg_bounded cpus ?cur" using assms(1) by (simp add: loop_bounded_def)
  note as = cli_plan_bounded [OF cur assms(2)]
  have "list_all (action_bounded cpus) (mode_action m)" for m by (cases m) simp_all
  with as have "cfg_bounded cpus ((apply_all (pln_actions (cli_plan rnd cpus rep ?cur)) ?cur)\<lparr>cfg_mode := m\<rparr>)"
    "cfg_bounded cpus ((apply_all (pln_actions (cli_plan rnd cpus rep ?cur) @ mode_action m') ?cur)\<lparr>cfg_mode := m\<rparr>)" for rnd m m'
    using apply_all_bounded [OF _ cur] by (simp_all add: cfg_bounded_def)
  with assms(1,3) show ?thesis by (simp add: run_plan_def loop_bounded_def Let_def)
qed

lemma run_tuner_bounded:
  assumes "loop_bounded cpus st"
  shows "loop_bounded cpus (run_tuner env tp st)"
proof -
  obtain r t where s: "tuner_step (lpe_rnd env) (lps_config st) tp (lps_tuner st) = (r, t)"
    by (cases "tuner_step (lpe_rnd env) (lps_config st) tp (lps_tuner st)")
  have "tuner_ok t \<and> (case r of Some c \<Rightarrow> one_change (lps_config st) c \<and> \<not> configs_equal c (lps_config st) | None \<Rightarrow> True)"
    by (rule tuner_step_spec [OF _ _ s]) (use assms in \<open>auto simp: loop_bounded_def\<close>)
  with assms show ?thesis
    by (auto simp: run_tuner_def s loop_bounded_def intro: one_change_bounded split: option.splits)
qed

lemma loop_cycle_bounded:
  assumes "loop_bounded cpus st" "cpus < 2 ^ 32" "lpe_cpus env = cpus"
  shows "loop_bounded cpus (loop_cycle env i st)"
proof -
  have ext: "loop_bounded cpus (u\<lparr>lps_interval := a, lps_prev_tp := b, lps_cycle := n\<rparr>) = loop_bounded cpus u"
    "loop_bounded cpus (u\<lparr>lps_reports := rs\<rparr>) = loop_bounded cpus u" for u a b n rs
    by (simp_all add: loop_bounded_def)
  show ?thesis
    unfolding loop_cycle_def Let_def using assms
    by (simp add: ext run_tuner_bounded run_plan_bounded)
qed

text \<open>C37. Whatever the telemetry and the classifications, the configuration of a transfer stays in its ranges: chunks
  of 16 KiB to 2 MiB (twice the documented limit), 1 to 8 streams, buffers of 256 KiB to 8 MiB, batches of 4 to 16,
  the default number of workers to three times the processors (at least two), and no limit below 50 Mbps.\<close>

theorem loop_ranges:
  assumes "lpe_cpus env < 2 ^ 32"
  shows "cfg_bounded (lpe_cpus env)
    (lps_config (run_cycles env is (loop_start (ads_config (adaptive_new (lpe_cpus env) override fsize)))))"
proof -
  have "loop_bounded (lpe_cpus env) st \<Longrightarrow> loop_bounded (lpe_cpus env) (run_cycles env is st)" for st
    by (induction "is" arbitrary: st) (simp_all add: loop_cycle_bounded [OF _ assms refl])
  moreover have "cfg_bounded (lpe_cpus env) (ads_config (adaptive_new (lpe_cpus env) override fsize))"
    using cli_default_bounded [OF assms] by (cases override) (simp_all add: adaptive_new_def cfg_bounded_def)
  then have "loop_bounded (lpe_cpus env) (loop_start (ads_config (adaptive_new (lpe_cpus env) override fsize)))"
    by (simp add: loop_bounded_def loop_start_def tuner_new_ok)
  ultimately show ?thesis by (simp add: loop_bounded_def)
qed

definition demo_loop_env :: loop_env where
  "demo_loop_env = \<lparr>lpe_rnd = Fin, lpe_fmt = (\<lambda>_ _. []), lpe_sqrt = id, lpe_cpus = 4, lpe_file_size = 0\<rparr>"

theorem loop_ranges_witness:
  "cfg_bounded 4 (lps_config (run_cycles demo_loop_env
    [\<lparr>cin_running = True, cin_samples = replicate 3 demo_sample, cin_post_samples = replicate 3 demo_sample,
      cin_zero_copy_failed = False, cin_udp_failed = False, cin_loss = Fin 0, cin_override = Some ModeQuic, cin_order = id\<rparr>]
    (loop_start (ads_config (adaptive_new 4 None 0)))))"
proof -
  have "lpe_cpus demo_loop_env = 4" by (simp add: demo_loop_env_def)
  from loop_ranges [of demo_loop_env, unfolded this] show ?thesis by (simp del: run_cycles.simps)
qed

end
