(* ===== verification/Udp_Transport.thy ===== *)
theory Udp_Transport
  imports Float_Model "HOL-Library.Multiset"
begin

text \<open>
  The custom UDP transport of the command line client (\<^verbatim>\<open>cli/src/udp_transport.rs\<close>): a sender with a
  sliding window over selective acknowledgements, and a receiver that fills a buffer of the expected size. Sender,
  its background task, receiver and the two directions of the network are the parts of a system whose steps are
  those of the code; the network may lose, repeat and reorder datagrams. Time is in milliseconds.
\<close>

section \<open>Frames\<close>

definition FRAME_HANDSHAKE_REQ :: u8 where "FRAME_HANDSHAKE_REQ = 1"
definition FRAME_HANDSHAKE_RESP :: u8 where "FRAME_HANDSHAKE_RESP = 2"
definition UDP_DATA :: u8 where "UDP_DATA = 3"
definition UDP_ACK :: u8 where "UDP_ACK = 4"
definition UDP_FIN :: u8 where "UDP_FIN = 5"
definition UDP_FIN_ACK :: u8 where "UDP_FIN_ACK = 6"
definition UDP_CHUNK_SIZE :: nat where "UDP_CHUNK_SIZE = 8192"

text \<open>The value the background task puts into the channel for a \<^verbatim>\<open>FIN_ACK\<close>.\<close>

definition FIN_MARK :: u64 where "FIN_MARK = 99999999"

definition udp_chunks :: "nat \<Rightarrow> u64" where
  "udp_chunks n = of_nat ((n + UDP_CHUNK_SIZE - 1) div UDP_CHUNK_SIZE)"

definition file_chunk :: "bytes \<Rightarrow> u64 \<Rightarrow> bytes" where
  "file_chunk file k = take UDP_CHUNK_SIZE (drop (unat k * UDP_CHUNK_SIZE) file)"

definition data_packet :: "bytes \<Rightarrow> u64 \<Rightarrow> bytes" where
  "data_packet file k =
    (let c = file_chunk file k in UDP_DATA # to_be 8 k @ to_be 2 (of_nat (length c) :: u16) @ c)"

definition ack_packet :: "u64 \<Rightarrow> bytes" where
  "ack_packet k = UDP_ACK # to_be 8 k"

section \<open>Handshake\<close>

text \<open>What a wait of the handshake ends with: a datagram, an error of the socket, or 300 ms.\<close>

datatype hs_event = HsDatagram bytes | HsError | HsTimeout

text \<open>The requests sent and the outcome; no outcome where the events end first. Only a timeout counts as an attempt.\<close>

fun udp_handshake :: "bytes \<Rightarrow> nat \<Rightarrow> hs_event list \<Rightarrow> bytes list \<times> bool option" where
  "udp_handshake file attempts evs =
    (if attempts \<ge> 5 then ([], Some False)
     else
       (let req = FRAME_HANDSHAKE_REQ # to_be 8 (of_nat (length file) :: u64) in
        case evs of
          [] \<Rightarrow> ([req], None)
        | ev # rest \<Rightarrow>
            (case ev of
               HsDatagram (b # _) \<Rightarrow>
                 (if b = FRAME_HANDSHAKE_RESP then ([req], Some True)
                  else (let (ps, r) = udp_handshake file attempts rest in (req # ps, r)))
             | HsDatagram [] \<Rightarrow> (let (ps, r) = udp_handshake file attempts rest in (req # ps, r))
             | HsError \<Rightarrow> (let (ps, r) = udp_handshake file attempts rest in (req # ps, r))
             | HsTimeout \<Rightarrow> (let (ps, r) = udp_handshake file (attempts + 1) rest in (req # ps, r)))))"

section \<open>The sender\<close>

record udp_sender =
  us_next :: u64
  us_acked :: "u64 list"
  us_sent :: "(u64, instant) hmap"
  us_last :: "(u64, instant) hmap"
  us_cwnd :: u64
  us_rtt :: fl
  us_rtt_var :: fl
  us_retransmits :: u64
  us_total :: u64

definition udp_sender_new :: udp_sender where
  "udp_sender_new =
    \<lparr>us_next = 0, us_acked = [], us_sent = [], us_last = [], us_cwnd = 10, us_rtt = Fin 50, us_rtt_var = Fin 10,
     us_retransmits = 0, us_total = 0\<rparr>"

definition more_to_ack :: "u64 \<Rightarrow> udp_sender \<Rightarrow> bool" where
  "more_to_ack num s \<longleftrightarrow> of_nat (length (us_acked s)) < num"

definition window_open :: "u64 \<Rightarrow> udp_sender \<Rightarrow> bool" where
  "window_open num s \<longleftrightarrow> us_next s < num \<and> us_next s - of_nat (length (us_acked s)) < us_cwnd s"

definition send_next :: "bytes \<Rightarrow> instant \<Rightarrow> udp_sender \<Rightarrow> bytes \<times> udp_sender" where
  "send_next file now s =
    (data_packet file (us_next s),
     s\<lparr>us_sent := hm_insert (us_next s) now (us_sent s), us_last := hm_insert (us_next s) now (us_last s),
       us_total := us_total s + 1, us_next := us_next s + 1\<rparr>)"

definition take_rtt :: "rounding \<Rightarrow> instant \<Rightarrow> u64 \<Rightarrow> udp_sender \<Rightarrow> udp_sender" where
  "take_rtt rnd now k s =
    (case hm_get (us_sent s) k of
       None \<Rightarrow> s
     | Some t \<Rightarrow>
         (let sample = fl_mul rnd (as_secs rnd (now - t)) (Fin 1000);
              diff = fl_abs (fl_sub rnd sample (us_rtt s)) in
          s\<lparr>us_rtt := fl_add rnd (fl_mul rnd (us_rtt s) (Fin (7/8))) (fl_mul rnd sample (Fin (1/8))),
            us_rtt_var := fl_add rnd (fl_mul rnd (us_rtt_var s) (Fin (3/4))) (fl_mul rnd diff (Fin (1/4)))\<rparr>))"

definition take_ack :: "rounding \<Rightarrow> instant \<Rightarrow> u64 \<Rightarrow> udp_sender \<Rightarrow> udp_sender" where
  "take_ack rnd now k s =
    (if k \<in> set (us_acked s) then s
     else (take_rtt rnd now k (s\<lparr>us_acked := us_acked s @ [k]\<rparr>))\<lparr>us_cwnd := us_cwnd s + 1\<rparr>)"

definition due :: "instant \<Rightarrow> udp_sender \<Rightarrow> u64 \<Rightarrow> bool" where
  "due now s k \<longleftrightarrow> (case hm_get (us_last s) k of Some t \<Rightarrow> now - t \<ge> 150 | None \<Rightarrow> True)"

text \<open>The chunks a timeout looks at: from the number of acknowledged chunks to the next one.\<close>

definition outstanding :: "udp_sender \<Rightarrow> u64 list" where
  "outstanding s = map of_nat [length (us_acked s)..<unat (us_next s)]"

definition to_resend :: "instant \<Rightarrow> udp_sender \<Rightarrow> u64 list" where
  "to_resend now s = filter (\<lambda>k. k \<notin> set (us_acked s) \<and> due now s k) (outstanding s)"

definition on_timeout :: "bytes \<Rightarrow> instant \<Rightarrow> udp_sender \<Rightarrow> bytes list \<times> udp_sender" where
  "on_timeout file now s =
    (let ks = to_resend now s in
     (map (data_packet file) ks,
      s\<lparr>us_last := fold (\<lambda>k. hm_insert k now) ks (us_last s),
        us_retransmits := us_retransmits s + of_nat (length ks), us_total := us_total s + of_nat (length ks),
        us_cwnd := max (us_cwnd s div 2) 4\<rparr>))"

record udp_metrics =
  um_rtt :: fl
  um_rtt_var :: fl
  um_loss_pct :: fl
  um_cwnd :: u64
  um_retransmits :: u64

definition sender_metrics :: "rounding \<Rightarrow> udp_sender \<Rightarrow> udp_metrics" where
  "sender_metrics rnd s =
    \<lparr>um_rtt = us_rtt s, um_rtt_var = us_rtt_var s,
     um_loss_pct = (if us_total s > 0
       then fl_mul rnd (fl_div rnd (fl_of_u64 rnd (us_retransmits s)) (fl_of_u64 rnd (us_total s))) (Fin 100) else Fin 0),
     um_cwnd = us_cwnd s, um_retransmits = us_retransmits s\<rparr>"

text \<open>What the background task makes of a datagram (at most 64 bytes are read): values for the channel, and whether
  it goes on.\<close>

definition background_read :: "bytes \<Rightarrow> u64 list \<times> bool" where
  "background_read p =
    (let b = take 64 p in
     if length b \<ge> 9 \<and> hd b = UDP_ACK then ([from_be (take 8 (tl b))], True)
     else if b \<noteq> [] \<and> hd b = UDP_FIN_ACK then ([FIN_MARK], False)
     else ([], True))"

section \<open>The receiver\<close>

record udp_receiver =
  ur_buf :: bytes
  ur_received :: "u64 list"
  ur_done :: bool

definition udp_receiver_new :: "nat \<Rightarrow> udp_receiver" where
  "udp_receiver_new expected = \<lparr>ur_buf = replicate expected 0, ur_received = [], ur_done = False\<rparr>"

definition overwrite :: "nat \<Rightarrow> bytes \<Rightarrow> bytes \<Rightarrow> bytes" where
  "overwrite off c buf = take off buf @ c @ drop (off + length c) buf"

text \<open>A data frame: the reply and the new state, or no value where a slice is out of order (a panic). The offset is computed
  at the width of \<^verbatim>\<open>usize\<close>.\<close>

definition on_data :: "bytes \<Rightarrow> udp_receiver \<Rightarrow> (bytes list \<times> udp_receiver) option" where
  "on_data b r =
    (if length b < 11 then Some ([], r)
     else
       (let k = (from_be (take 8 (drop 1 b)) :: u64);
            len = unat (from_be (take 2 (drop 9 b)) :: u16);
            off = k * of_nat UDP_CHUNK_SIZE;
            stop = off + of_nat len in
        if length b < 11 + len then Some ([], r)
        else if stop \<le> of_nat (length (ur_buf r)) then
          (if off > stop then None
           else Some ([ack_packet k],
             r\<lparr>ur_buf := overwrite (unat off) (take len (drop 11 b)) (ur_buf r), ur_received := List.insert k (ur_received r)\<rparr>))
        else Some ([ack_packet k], r)))"

definition udp_receive :: "nat \<Rightarrow> bytes \<Rightarrow> udp_receiver \<Rightarrow> (bytes list \<times> udp_receiver) option" where
  "udp_receive expected p r =
    (let b = take (UDP_CHUNK_SIZE + 32) p in
     case b of
       [] \<Rightarrow> Some ([], r)
     | t # _ \<Rightarrow>
         if t = FRAME_HANDSHAKE_REQ then Some ([[FRAME_HANDSHAKE_RESP]], r)
         else if t = UDP_DATA then on_data b r
         else if t = UDP_FIN then
           Some ([[UDP_FIN_ACK]], if of_nat (length (ur_received r)) \<ge> udp_chunks expected then r\<lparr>ur_done := True\<rparr> else r)
         else Some ([], r))"

section \<open>The system\<close>

datatype udp_phase = UpLoop | UpFill | UpWait | UpFin nat | UpFinWait nat | UpDone

record udp_system =
  uy_sender :: udp_sender
  uy_phase :: udp_phase
  uy_chan :: "u64 list"
  uy_bg :: bool
  uy_recv :: udp_receiver
  uy_to_recv :: "bytes multiset"
  uy_to_send :: "bytes multiset"

text \<open>After the handshake.\<close>

definition udp_start :: "nat \<Rightarrow> udp_system" where
  "udp_start expected =
    \<lparr>uy_sender = udp_sender_new, uy_phase = UpLoop, uy_chan = [], uy_bg = True, uy_recv = udp_receiver_new expected,
     uy_to_recv = {#}, uy_to_send = {#}\<rparr>"

text \<open>One step of the sender: the time, and whether a wait ends by its timer.\<close>

definition chan_next :: "udp_system \<Rightarrow> u64 option" where
  "chan_next y = (case uy_chan y of [] \<Rightarrow> None | q # _ \<Rightarrow> Some q)"

definition sender_step :: "rounding \<Rightarrow> bytes \<Rightarrow> instant \<Rightarrow> bool \<Rightarrow> udp_system \<Rightarrow> udp_system option" where
  "sender_step rnd file now timer y =
    (let s = uy_sender y; num = udp_chunks (length file) in
     case uy_phase y of
       UpLoop \<Rightarrow> Some (y\<lparr>uy_phase := (if more_to_ack num s then UpFill else UpFin 0)\<rparr>)
     | UpFill \<Rightarrow>
         (if window_open num s
          then (let (p, s') = send_next file now s in Some (y\<lparr>uy_sender := s', uy_to_recv := add_mset p (uy_to_recv y)\<rparr>))
          else Some (y\<lparr>uy_phase := UpWait\<rparr>))
     | UpWait \<Rightarrow>
         (if timer
          then (let (ps, s') = on_timeout file now s in
            Some (y\<lparr>uy_sender := s', uy_phase := UpLoop, uy_to_recv := uy_to_recv y + mset ps\<rparr>))
          else
            (case uy_chan y of
               q # qs \<Rightarrow>
                 (if q = FIN_MARK then Some (y\<lparr>uy_chan := qs, uy_phase := UpFin 0\<rparr>)
                  else Some (y\<lparr>uy_chan := qs, uy_sender := take_ack rnd now q s, uy_phase := UpLoop\<rparr>))
             | [] \<Rightarrow> if uy_bg y then None else Some (y\<lparr>uy_phase := UpLoop\<rparr>)))
     | UpFin n \<Rightarrow>
         (if n < 5 then Some (y\<lparr>uy_phase := UpFinWait n, uy_to_recv := add_mset [UDP_FIN] (uy_to_recv y)\<rparr>)
          else Some (y\<lparr>uy_phase := UpDone\<rparr>))
     | UpFinWait n \<Rightarrow>
         (if timer then Some (y\<lparr>uy_phase := UpFin (n + 1)\<rparr>)
          else
            (case uy_chan y of
               q # qs \<Rightarrow> Some (y\<lparr>uy_chan := qs, uy_phase := (if q = FIN_MARK then UpDone else UpFin n)\<rparr>)
             | [] \<Rightarrow> if uy_bg y then None else Some (y\<lparr>uy_phase := UpFin n\<rparr>)))
     | UpDone \<Rightarrow> None)"

definition background_step :: "bytes \<Rightarrow> udp_system \<Rightarrow> udp_system" where
  "background_step p y =
    (let (qs, go) = background_read p in
     y\<lparr>uy_chan := uy_chan y @ qs, uy_bg := go, uy_to_send := uy_to_send y - {#p#}\<rparr>)"

definition receiver_step :: "nat \<Rightarrow> bytes \<Rightarrow> udp_system \<Rightarrow> udp_system option" where
  "receiver_step expected p y =
    (case udp_receive expected p (uy_recv y) of
       None \<Rightarrow> None
     | Some (replies, r) \<Rightarrow>
         Some (y\<lparr>uy_recv := r, uy_to_recv := uy_to_recv y - {#p#}, uy_to_send := uy_to_send y + mset replies\<rparr>))"

inductive udp_step :: "rounding \<Rightarrow> bytes \<Rightarrow> nat \<Rightarrow> udp_system \<Rightarrow> udp_system \<Rightarrow> bool"
  for rnd :: rounding and data :: bytes and expected :: nat
where
  sender: "sender_step rnd data now timer y = Some y' \<Longrightarrow> udp_step rnd data expected y y'"
| background: "uy_bg y \<Longrightarrow> p \<in># uy_to_send y \<Longrightarrow> udp_step rnd data expected y (background_step p y)"
| background_error: "uy_bg y \<Longrightarrow> udp_step rnd data expected y (y\<lparr>uy_bg := False\<rparr>)"
| receiver: "\<not> ur_done (uy_recv y) \<Longrightarrow> p \<in># uy_to_recv y \<Longrightarrow> receiver_step expected p y = Some y' \<Longrightarrow>
    udp_step rnd data expected y y'"
| lose_data: "p \<in># uy_to_recv y \<Longrightarrow> udp_step rnd data expected y (y\<lparr>uy_to_recv := uy_to_recv y - {#p#}\<rparr>)"
| lose_reply: "p \<in># uy_to_send y \<Longrightarrow> udp_step rnd data expected y (y\<lparr>uy_to_send := uy_to_send y - {#p#}\<rparr>)"
| repeat_data: "p \<in># uy_to_recv y \<Longrightarrow> udp_step rnd data expected y (y\<lparr>uy_to_recv := add_mset p (uy_to_recv y)\<rparr>)"
| repeat_reply: "p \<in># uy_to_send y \<Longrightarrow> udp_step rnd data expected y (y\<lparr>uy_to_send := add_mset p (uy_to_send y)\<rparr>)"

definition udp_reachable :: "rounding \<Rightarrow> bytes \<Rightarrow> nat \<Rightarrow> udp_system \<Rightarrow> bool" where
  "udp_reachable rnd file expected y \<longleftrightarrow> (udp_step rnd file expected)\<^sup>*\<^sup>* (udp_start expected) y"

end
