(* ===== verification/Udp_Facts.thy ===== *)
theory Udp_Facts
  imports Udp_Transport
begin

text \<open>
  The UDP transport, run over a network that loses, repeats and reorders datagrams: what has been sent and received at any
  moment, what has arrived when the sender or the receiver has finished, and a state from which the sender never finishes.
\<close>

section \<open>Chunks and packets\<close>

definition udp_small :: "bytes \<Rightarrow> bool" where
  "udp_small file \<longleftrightarrow> length file < 2 ^ 62 \<and> udp_chunks (length file) \<le> FIN_MARK"

abbreviation n_chunks :: "bytes \<Rightarrow> u64" where "n_chunks file \<equiv> udp_chunks (length file)"

lemma unat_n_chunks: "length file < 2 ^ 62 \<Longrightarrow> unat (n_chunks file) = (length file + 8191) div 8192"
  by (simp add: udp_chunks_def UDP_CHUNK_SIZE_def unsigned_of_nat take_bit_nat_eq_self)

lemma chunk_start:
  assumes "length file < 2 ^ 62" "k < n_chunks file"
  shows "unat k * 8192 < length file" "length (file_chunk file k) = min 8192 (length file - unat k * 8192)"
proof -
  have "unat k < (length file + 8191) div 8192" using assms by (simp add: word_less_nat_alt unat_n_chunks)
  then show "unat k * 8192 < length file" by linarith
  show "length (file_chunk file k) = min 8192 (length file - unat k * 8192)" by (simp add: file_chunk_def UDP_CHUNK_SIZE_def)
qed

lemma overwrite_nth:
  assumes "off + length c \<le> length buf" "i < length buf"
  shows "overwrite off c buf ! i = (if off \<le> i \<and> i < off + length c then c ! (i - off) else buf ! i)"
  using assms by (auto simp: overwrite_def nth_append)

lemma length_overwrite: "off + length c \<le> length buf \<Longrightarrow> length (overwrite off c buf) = length buf"
  by (simp add: overwrite_def)

lemma receive_data:
  assumes "length file < 2 ^ 62" "k < n_chunks file" "length (ur_buf r) = length file"
  shows "udp_receive expected (data_packet file k) r =
    Some ([ack_packet k], r\<lparr>ur_buf := overwrite (unat k * 8192) (file_chunk file k) (ur_buf r), ur_received := List.insert k (ur_received r)\<rparr>)"
proof -
  let ?c = "file_chunk file k"
  have c: "length ?c \<le> 8192" "unat k * 8192 + length ?c \<le> length file" using chunk_start [OF assms(1,2)] by linarith+
  have len: "unat (of_nat (length ?c) :: u16) = length ?c" using c(1) by (simp add: unsigned_of_nat take_bit_nat_eq_self)
  have off: "unat (k * 8192) = unat k * 8192"
    using c(2) assms(1) by (simp add: unat_word_ariths)
  have stop: "unat (k * 8192 + of_nat (length ?c)) = unat k * 8192 + length ?c"
    using c assms(1) by (simp add: unat_word_ariths off unsigned_of_nat take_bit_nat_eq_self)
  have le: "k * 8192 + of_nat (length ?c) \<le> of_nat (length (ur_buf r))" "\<not> k * 8192 > k * 8192 + of_nat (length ?c)"
    using c(2) assms(1,3) by (simp_all add: word_le_nat_alt word_less_nat_alt stop off unsigned_of_nat take_bit_nat_eq_self)
  have short: "length (data_packet file k) = 11 + length ?c" "length ?c \<le> 8192" using c(1) by (simp_all add: data_packet_def Let_def)
  have d: "data_packet file k = UDP_DATA # to_be 8 k @ to_be 2 (of_nat (length ?c) :: u16) @ ?c" by (simp add: data_packet_def Let_def)
  have parts: "take 8 (drop 1 (data_packet file k)) = to_be 8 k" "take 2 (drop 9 (data_packet file k)) = to_be 2 (of_nat (length ?c) :: u16)"
    "drop 11 (data_packet file k) = ?c"
    by (simp_all add: d)
  have "on_data (data_packet file k) r =
    Some ([ack_packet k], r\<lparr>ur_buf := overwrite (unat k * 8192) ?c (ur_buf r), ur_received := List.insert k (ur_received r)\<rparr>)"
    unfolding on_data_def Let_def parts from_be_to_be_64 from_be_to_be_16 len short(1) using le off
    by (simp add: UDP_CHUNK_SIZE_def)
  moreover have "take (UDP_CHUNK_SIZE + 32) (data_packet file k) = data_packet file k"
    using short by (simp add: UDP_CHUNK_SIZE_def)
  ultimately show ?thesis
    unfolding udp_receive_def Let_def by (simp add: d) (simp add: UDP_DATA_def FRAME_HANDSHAKE_REQ_def)
qed

lemma receive_fin:
  "udp_receive expected [UDP_FIN] r =
    Some ([[UDP_FIN_ACK]], if of_nat (length (ur_received r)) \<ge> udp_chunks expected then r\<lparr>ur_done := True\<rparr> else r)"
  by (simp add: udp_receive_def Let_def UDP_CHUNK_SIZE_def UDP_FIN_def UDP_DATA_def FRAME_HANDSHAKE_REQ_def)

lemma background_ack: "background_read (ack_packet k) = ([k], True)"
  by (simp add: background_read_def ack_packet_def Let_def)

lemma background_fin_ack: "background_read [UDP_FIN_ACK] = ([FIN_MARK], False)"
  by (simp add: background_read_def Let_def)

text \<open>A list of distinct numbers below \<open>n\<close> that has \<open>n\<close> members has them all.\<close>

lemma all_below:
  assumes "distinct ks" "list_all (\<lambda>k. k < n) ks" "unat n \<le> length ks" "(k :: u64) < n"
  shows "k \<in> set ks"
proof -
  have inj: "inj_on unat (set ks)" by (simp add: inj_on_def word_unat_eq_iff)
  have sub: "unat ` set ks \<subseteq> {..<unat n}" using assms(2) by (auto simp: list_all_iff word_less_nat_alt)
  have "card (unat ` set ks) = length ks" using card_image [OF inj] distinct_card [OF assms(1)] by simp
  then have "unat ` set ks = {..<unat n}" using card_subset_eq [OF _ sub] card_mono [OF _ sub] assms(3) by simp
  then have "unat k \<in> unat ` set ks" using assms(4) by (simp add: word_less_nat_alt)
  then show ?thesis by (auto simp: word_unat_eq_iff simp flip: word_unat_eq_iff)
qed

section \<open>The invariant\<close>

definition data_phase :: "udp_phase \<Rightarrow> bool" where
  "data_phase ph \<longleftrightarrow> ph = UpLoop \<or> ph = UpFill \<or> ph = UpWait"

definition all_received :: "bytes \<Rightarrow> udp_receiver \<Rightarrow> bool" where
  "all_received file r \<longleftrightarrow> (\<forall>k. k < n_chunks file \<longrightarrow> k \<in> set (ur_received r))"

definition udp_recv_ok :: "bytes \<Rightarrow> udp_receiver \<Rightarrow> bool" where
  "udp_recv_ok file r \<longleftrightarrow> length (ur_buf r) = length file \<and> distinct (ur_received r)
     \<and> list_all (\<lambda>k. k < n_chunks file) (ur_received r)
     \<and> (\<forall>i < length file. of_nat (i div 8192) \<in> set (ur_received r) \<longrightarrow> ur_buf r ! i = file ! i)
     \<and> (ur_done r \<longrightarrow> all_received file r)"

definition net_ok :: "bytes \<Rightarrow> udp_system \<Rightarrow> bool" where
  "net_ok file y \<longleftrightarrow>
     (\<forall>p \<in># uy_to_recv y. p = [UDP_FIN] \<or> (\<exists>k. k < n_chunks file \<and> p = data_packet file k))
     \<and> (\<forall>p \<in># uy_to_send y. p = [UDP_FIN_ACK] \<or> (\<exists>k \<in> set (ur_received (uy_recv y)). p = ack_packet k))
     \<and> (\<forall>q \<in> set (uy_chan y). q = FIN_MARK \<or> q \<in> set (ur_received (uy_recv y)))"

definition no_fin :: "udp_system \<Rightarrow> bool" where
  "no_fin y \<longleftrightarrow> [UDP_FIN] \<notin># uy_to_recv y \<and> [UDP_FIN_ACK] \<notin># uy_to_send y \<and> FIN_MARK \<notin> set (uy_chan y)"

definition sender_ok :: "bytes \<Rightarrow> udp_system \<Rightarrow> bool" where
  "sender_ok file y \<longleftrightarrow> distinct (us_acked (uy_sender y)) \<and> set (us_acked (uy_sender y)) \<subseteq> set (ur_received (uy_recv y))
     \<and> us_next (uy_sender y) \<le> n_chunks file"

definition udp_inv :: "bytes \<Rightarrow> udp_system \<Rightarrow> bool" where
  "udp_inv file y \<longleftrightarrow> udp_recv_ok file (uy_recv y) \<and> net_ok file y \<and> sender_ok file y
     \<and> (if data_phase (uy_phase y) then no_fin y else all_received file (uy_recv y))"

lemmas udp_inv_defs = udp_inv_def udp_recv_ok_def net_ok_def sender_ok_def no_fin_def

lemma packet_heads:
  "data_packet file k \<noteq> [UDP_FIN]" "ack_packet k \<noteq> [UDP_FIN_ACK]" "ack_packet k = ack_packet j \<longleftrightarrow> k = j"
  by (simp_all add: data_packet_def Let_def UDP_DATA_def UDP_FIN_def ack_packet_def UDP_ACK_def UDP_FIN_ACK_def to_be_inject)

lemma below_mark: "udp_small file \<Longrightarrow> list_all (\<lambda>k. k < n_chunks file) ks \<Longrightarrow> FIN_MARK \<notin> set ks"
  by (auto simp: udp_small_def list_all_iff)

lemma take_ack_acked:
  "us_acked (take_ack rnd now k s) = (if k \<in> set (us_acked s) then us_acked s else us_acked s @ [k])"
  "us_next (take_ack rnd now k s) = us_next s"
  by (simp_all add: take_ack_def take_rtt_def Let_def split: option.split)

lemma acked_complete:
  assumes "udp_small file" "udp_inv file y" "\<not> more_to_ack (n_chunks file) (uy_sender y)"
  shows "all_received file (uy_recv y)"
proof -
  have "n_chunks file \<le> of_nat (length (us_acked (uy_sender y)))" using assms(3) by (simp add: more_to_ack_def)
  then have "unat (n_chunks file) \<le> unat (of_nat (length (us_acked (uy_sender y))) :: u64)" by (simp add: word_le_nat_alt)
  also have "\<dots> \<le> length (us_acked (uy_sender y))" by (simp add: unsigned_of_nat take_bit_nat_less_eq_self)
  finally have n: "unat (n_chunks file) \<le> length (us_acked (uy_sender y))" .
  have "list_all (\<lambda>k. k < n_chunks file) (us_acked (uy_sender y))" "distinct (us_acked (uy_sender y))"
    using assms(2) by (auto simp: udp_inv_defs list_all_iff)
  from all_below [OF this(2,1) n] assms(2) show ?thesis by (auto simp: all_received_def udp_inv_defs)
qed

lemma outstanding_below:
  assumes "us_next s \<le> n" "k \<in> set (to_resend now s)"
  shows "k < n"
proof -
  obtain j where j: "k = of_nat j" "j < unat (us_next s)" using assms(2) by (auto simp: to_resend_def outstanding_def)
  have "unat k \<le> j" unfolding j(1) by (simp add: unsigned_of_nat take_bit_nat_less_eq_self)
  with j(2) assms(1) show ?thesis by (simp add: word_less_nat_alt word_le_nat_alt)
qed

lemma window_next:
  assumes "window_open n s"
  shows "us_next s + 1 \<le> n" "us_next s < us_next s + 1"
proof -
  have "unat (us_next s) < unat n" using assms by (simp add: window_open_def word_less_nat_alt)
  moreover have "unat n < 2 ^ LENGTH(64)" by (rule unsigned_less)
  ultimately show "us_next s + 1 \<le> n" "us_next s < us_next s + 1"
    by (simp_all add: word_le_nat_alt word_less_nat_alt unat_word_ariths)
qed

lemma udp_start_inv: "udp_inv file (udp_start (length file))"
  by (simp add: udp_inv_defs udp_start_def udp_receiver_new_def udp_sender_new_def data_phase_def)

text \<open>The receiver's datagrams.\<close>

lemma recv_data_ok:
  assumes "length file < 2 ^ 62" "udp_recv_ok file r" "k < n_chunks file"
  shows "udp_recv_ok file (r\<lparr>ur_buf := overwrite (unat k * 8192) (file_chunk file k) (ur_buf r), ur_received := List.insert k (ur_received r)\<rparr>)"
proof -
  let ?c = "file_chunk file k" let ?o = "unat k * 8192"
  have le: "?o + length ?c \<le> length (ur_buf r)" and c: "length ?c = min 8192 (length file - ?o)"
    using chunk_start [OF assms(1,3)] assms(2) by (auto simp: udp_recv_ok_def)
  have "overwrite ?o ?c (ur_buf r) ! i = file ! i" if i: "i < length file" "of_nat (i div 8192) \<in> insert k (set (ur_received r))" for i
  proof (cases "?o \<le> i \<and> i < ?o + length ?c")
    case True
    then have "overwrite ?o ?c (ur_buf r) ! i = ?c ! (i - ?o)" using overwrite_nth [OF le] assms(2) i(1) by (simp add: udp_recv_ok_def)
    moreover have "i - ?o < 8192" using True c by linarith
    ultimately show ?thesis using True i(1) by (simp add: file_chunk_def UDP_CHUNK_SIZE_def)
  next
    case False
    have u: "unat (of_nat (i div 8192) :: u64) = i div 8192"
      using i(1) assms(1) by (simp add: unsigned_of_nat take_bit_nat_eq_self)
    have "of_nat (i div 8192) \<noteq> k"
    proof
      assume "of_nat (i div 8192) = k"
      then have "unat k = i div 8192" using u by simp
      then have "?o \<le> i" "i < ?o + 8192" by linarith+
      with False c i(1) show False by simp
    qed
    with i assms(2) have "ur_buf r ! i = file ! i" by (simp add: udp_recv_ok_def)
    moreover have "overwrite ?o ?c (ur_buf r) ! i = ur_buf r ! i"
      using overwrite_nth [OF le, of i] assms(2) i(1) unfolding if_not_P [OF False] by (simp add: udp_recv_ok_def)
    ultimately show ?thesis by simp
  qed
  with assms(2,3) le show ?thesis by (simp add: udp_recv_ok_def length_overwrite all_received_def list_all_iff)
qed

lemma recv_fin_ok:
  assumes "length file < 2 ^ 62" "udp_recv_ok file r" "of_nat (length (ur_received r)) \<ge> n_chunks file"
  shows "all_received file r"
proof -
  have "unat (n_chunks file) \<le> unat (of_nat (length (ur_received r)) :: u64)" using assms(3) by (simp add: word_le_nat_alt)
  also have "\<dots> \<le> length (ur_received r)" by (simp add: unsigned_of_nat take_bit_nat_less_eq_self)
  finally show ?thesis using all_below [of "ur_received r" "n_chunks file"] assms(2) by (auto simp: all_received_def udp_recv_ok_def)
qed

lemma recv_inv:
  assumes "udp_small file" "udp_inv file y" "p \<in># uy_to_recv y" "receiver_step (length file) p y = Some y'"
  shows "udp_inv file y'"
proof -
  have small: "length file < 2 ^ 62" using assms(1) by (simp add: udp_small_def)
  have len: "length (ur_buf (uy_recv y)) = length file" using assms(2) by (simp add: udp_inv_defs)
  consider "p = [UDP_FIN]" | k where "k < n_chunks file" "p = data_packet file k"
    using assms(2,3) by (auto simp: udp_inv_defs)
  then show ?thesis
  proof cases
    case 1
    let ?r = "if of_nat (length (ur_received (uy_recv y))) \<ge> n_chunks file then (uy_recv y)\<lparr>ur_done := True\<rparr> else uy_recv y"
    have y': "y' = y\<lparr>uy_recv := ?r, uy_to_recv := uy_to_recv y - {#p#}, uy_to_send := uy_to_send y + {#[UDP_FIN_ACK]#}\<rparr>"
      using assms(4) by (simp add: receiver_step_def 1 receive_fin)
    have r: "udp_recv_ok file (uy_recv y)" using assms(2) by (simp add: udp_inv_def)
    have r': "udp_recv_ok file ?r" "ur_received ?r = ur_received (uy_recv y)"
      using r recv_fin_ok [OF small r] by (auto simp: udp_recv_ok_def all_received_def)
    have "\<not> data_phase (uy_phase y)" using assms(2,3) 1 by (auto simp: udp_inv_defs split: if_splits)
    then show ?thesis unfolding y' using assms(2) r'
      by (auto simp: udp_inv_def net_ok_def sender_ok_def all_received_def dest: in_diffD)
  next
    case 2
    let ?r = "(uy_recv y)\<lparr>ur_buf := overwrite (unat k * 8192) (file_chunk file k) (ur_buf (uy_recv y)),
      ur_received := List.insert k (ur_received (uy_recv y))\<rparr>"
    have y': "y' = y\<lparr>uy_recv := ?r, uy_to_recv := uy_to_recv y - {#p#}, uy_to_send := uy_to_send y + {#ack_packet k#}\<rparr>"
      using assms(4) by (simp add: receiver_step_def 2(2) receive_data [OF small 2(1) len])
    have r: "udp_recv_ok file ?r" using recv_data_ok [OF small _ 2(1)] assms(2) by (simp add: udp_inv_def)
    have set: "set (ur_received ?r) = insert k (set (ur_received (uy_recv y)))" by simp
    show ?thesis unfolding y' using assms(2) r packet_heads(2) [of k]
      by (auto simp: udp_inv_def net_ok_def sender_ok_def no_fin_def all_received_def set dest: in_diffD)
  qed
qed

lemma background_inv:
  assumes "udp_small file" "udp_inv file y" "p \<in># uy_to_send y"
  shows "udp_inv file (background_step p y)"
proof -
  consider "p = [UDP_FIN_ACK]" | k where "k \<in> set (ur_received (uy_recv y))" "p = ack_packet k"
    using assms(2,3) by (auto simp: udp_inv_defs)
  then show ?thesis
  proof cases
    case 1
    then have "\<not> data_phase (uy_phase y)" using assms(2,3) by (auto simp: udp_inv_defs split: if_splits)
    then show ?thesis using assms(2) 1
      by (auto simp: background_step_def background_fin_ack udp_inv_def net_ok_def sender_ok_def dest: in_diffD)
  next
    case 2
    have "k \<noteq> FIN_MARK" using below_mark [OF assms(1), of "ur_received (uy_recv y)"] assms(2) 2(1) by (auto simp: udp_inv_defs)
    then show ?thesis using assms(2) 2
      by (auto simp: background_step_def background_ack udp_inv_def net_ok_def sender_ok_def no_fin_def dest: in_diffD)
  qed
qed

lemma ack_inv:
  assumes "udp_inv file y" "uy_phase y = UpWait" "uy_chan y = q # qs"
  shows "udp_inv file (y\<lparr>uy_chan := qs, uy_sender := take_ack rnd now q (uy_sender y), uy_phase := UpLoop\<rparr>)"
proof -
  have "no_fin y" using assms(1,2) by (simp add: udp_inv_def data_phase_def)
  then have "q \<in> set (ur_received (uy_recv y))" using assms(1,3) by (auto simp: udp_inv_defs)
  then show ?thesis using assms by (auto simp: udp_inv_defs data_phase_def take_ack_acked)
qed

lemma timeout_inv:
  assumes "udp_inv file y" "uy_phase y = UpWait" "on_timeout file now (uy_sender y) = (ps, s')"
  shows "udp_inv file (y\<lparr>uy_sender := s', uy_phase := UpLoop, uy_to_recv := uy_to_recv y + mset ps\<rparr>)"
proof -
  let ?ks = "to_resend now (uy_sender y)"
  have ps: "ps = map (data_packet file) ?ks" "us_acked s' = us_acked (uy_sender y)" "us_next s' = us_next (uy_sender y)"
    using assms(3) by (auto simp: on_timeout_def Let_def)
  have "us_next (uy_sender y) \<le> n_chunks file" using assms(1) by (simp add: udp_inv_defs)
  then have "\<forall>p \<in> set ps. \<exists>k. k < n_chunks file \<and> p = data_packet file k" unfolding ps(1) set_map using outstanding_below by blast
  moreover have "[UDP_FIN] \<notin> set ps" using packet_heads(1) unfolding ps(1) set_map by (metis imageE)
  ultimately show ?thesis using assms(1,2) ps(2,3) by (auto simp: udp_inv_defs data_phase_def)
qed

lemma fill_inv:
  assumes "udp_inv file y" "uy_phase y = UpFill" "window_open (n_chunks file) (uy_sender y)"
    and "send_next file now (uy_sender y) = (p, s')"
  shows "udp_inv file (y\<lparr>uy_sender := s', uy_to_recv := add_mset p (uy_to_recv y)\<rparr>)"
proof -
  have "p = data_packet file (us_next (uy_sender y))" "us_acked s' = us_acked (uy_sender y)" "us_next s' = us_next (uy_sender y) + 1"
    using assms(4) by (auto simp: send_next_def)
  then show ?thesis using assms(1-3) window_next [OF assms(3)] packet_heads(1) [of "file" "us_next (uy_sender y)"]
    by (auto simp: udp_inv_defs data_phase_def window_open_def)
qed

lemma sender_inv:
  assumes "udp_small file" "udp_inv file y" "sender_step rnd file now timer y = Some y'"
  shows "udp_inv file y'"
proof (cases "uy_phase y")
  case UpLoop
  have y': "y' = y\<lparr>uy_phase := (if more_to_ack (n_chunks file) (uy_sender y) then UpFill else UpFin 0)\<rparr>"
    using assms(3) UpLoop by (simp add: sender_step_def Let_def)
  show ?thesis
  proof (cases "more_to_ack (n_chunks file) (uy_sender y)")
    case True
    then show ?thesis unfolding y' using assms(2) UpLoop by (simp add: udp_inv_defs data_phase_def)
  next
    case False
    then show ?thesis unfolding y' using assms(2) acked_complete [OF assms(1,2) False]
      by (simp add: udp_inv_def udp_recv_ok_def net_ok_def sender_ok_def data_phase_def)
  qed
next
  case UpFill
  show ?thesis
  proof (cases "window_open (n_chunks file) (uy_sender y)")
    case True
    obtain q s' where q: "send_next file now (uy_sender y) = (q, s')" by (cases "send_next file now (uy_sender y)")
    show ?thesis using fill_inv [OF assms(2) UpFill True q] assms(3) UpFill True q by (simp add: sender_step_def Let_def)
  next
    case False
    then have "y' = y\<lparr>uy_phase := UpWait\<rparr>" using assms(3) UpFill by (simp add: sender_step_def Let_def)
    then show ?thesis using assms(2) UpFill by (simp add: udp_inv_defs data_phase_def)
  qed
next
  case UpWait
  have fin: "no_fin y" using assms(2) UpWait by (simp add: udp_inv_def data_phase_def)
  consider (timer) "timer" | (ack) q qs where "\<not> timer" "uy_chan y = q # qs" | (closed) "\<not> timer" "uy_chan y = []"
    by (cases timer; cases "uy_chan y") auto
  then show ?thesis
  proof cases
    case timer
    obtain ps s' where q: "on_timeout file now (uy_sender y) = (ps, s')" by (cases "on_timeout file now (uy_sender y)")
    show ?thesis using timeout_inv [OF assms(2) UpWait q] assms(3) UpWait timer q by (simp add: sender_step_def Let_def)
  next
    case ack
    have "q \<noteq> FIN_MARK" using fin ack(2) by (auto simp: no_fin_def)
    then show ?thesis using ack_inv [OF assms(2) UpWait ack(2), of rnd now] assms(3) UpWait ack by (auto simp: sender_step_def Let_def)
  next
    case closed
    then have "y' = y\<lparr>uy_phase := UpLoop\<rparr>" using assms(3) UpWait by (simp add: sender_step_def Let_def split: if_splits)
    then show ?thesis using assms(2) UpWait by (simp add: udp_inv_defs data_phase_def)
  qed
next
  case (UpFin n)
  then have "y' = (if n < 5 then y\<lparr>uy_phase := UpFinWait n, uy_to_recv := add_mset [UDP_FIN] (uy_to_recv y)\<rparr> else y\<lparr>uy_phase := UpDone\<rparr>)"
    using assms(3) by (simp add: sender_step_def Let_def split: if_splits)
  then show ?thesis using assms(2) UpFin by (simp add: udp_inv_def net_ok_def sender_ok_def data_phase_def)
next
  case (UpFinWait n)
  consider (timer) "y' = y\<lparr>uy_phase := UpFin (n + 1)\<rparr>" | (closed) "y' = y\<lparr>uy_phase := UpFin n\<rparr>"
    | (ack) q qs where "uy_chan y = q # qs" "y' = y\<lparr>uy_chan := qs, uy_phase := (if q = FIN_MARK then UpDone else UpFin n)\<rparr>"
    using assms(3) UpFinWait by (cases "uy_chan y") (auto simp: sender_step_def Let_def split: if_splits)
  then show ?thesis using assms(2) UpFinWait by cases (simp_all add: udp_inv_def net_ok_def sender_ok_def data_phase_def)
next
  case UpDone
  then show ?thesis using assms(3) by (simp add: sender_step_def Let_def)
qed

lemma udp_step_inv:
  assumes "udp_small file" "udp_step rnd file (length file) y y'" "udp_inv file y"
  shows "udp_inv file y'"
  using assms(2,3)
proof cases
  case (sender now timer)
  then show ?thesis using sender_inv assms(1,3) by blast
next
  case (background p)
  then show ?thesis using background_inv assms(1,3) by blast
next
  case (receiver p)
  then show ?thesis using recv_inv assms(1,3) by blast
qed (auto simp: udp_inv_defs all_received_def split: if_splits dest: in_diffD)

lemma udp_reachable_inv:
  assumes "udp_small file" "udp_reachable rnd file (length file) y"
  shows "udp_inv file y"
  using assms(2) unfolding udp_reachable_def
  by (induction rule: rtranclp_induct) (auto simp: udp_start_inv intro: udp_step_inv [OF assms(1)])

lemma udp_inv_delivered:
  assumes "udp_small file" "udp_inv file y" "\<not> data_phase (uy_phase y) \<or> ur_done (uy_recv y)"
  shows "ur_buf (uy_recv y) = file"
proof -
  have small: "length file < 2 ^ 62" using assms(1) by (simp add: udp_small_def)
  have all: "all_received file (uy_recv y)" using assms(2,3) by (auto simp: udp_inv_def udp_recv_ok_def)
  have "of_nat (i div 8192) < n_chunks file" if "i < length file" for i
  proof -
    have "unat (of_nat (i div 8192) :: u64) = i div 8192" using that small by (simp add: unsigned_of_nat take_bit_nat_eq_self)
    moreover have "i div 8192 < (length file + 8191) div 8192" using that by linarith
    ultimately show ?thesis using small by (simp add: word_less_nat_alt unat_n_chunks)
  qed
  with all assms(2) show ?thesis by (intro nth_equalityI) (auto simp: udp_inv_def udp_recv_ok_def all_received_def)
qed

text \<open>C30. Whatever the network does to the datagrams, the receiver's buffer is the file once the sender has left its data
  phase, and before the receiver writes it out: a transfer that ends has delivered the file.\<close>

theorem udp_delivers:
  assumes "udp_small file" "udp_reachable rnd file (length file) y"
    and "\<not> data_phase (uy_phase y) \<or> ur_done (uy_recv y)"
  shows "ur_buf (uy_recv y) = file"
  by (rule udp_inv_delivered [OF assms(1) udp_reachable_inv [OF assms(1,2)] assms(3)])

lemma udp_reachable_sender:
  "udp_reachable rnd file n y \<Longrightarrow> sender_step rnd file now timer y = Some y' \<Longrightarrow> udp_reachable rnd file n y'"
  unfolding udp_reachable_def by (rule rtranclp.rtrancl_into_rtrancl) (auto intro: udp_step.sender)

lemma udp_reachable_start: "udp_reachable rnd file n (udp_start n)"
  by (simp add: udp_reachable_def)

text \<open>The sender of an empty file goes straight to its last phase.\<close>

theorem udp_delivers_witness:
  "ur_buf (uy_recv ((udp_start 0)\<lparr>uy_phase := UpFin 0\<rparr>)) = []"
proof (rule udp_delivers [of "[]" Fin])
  have "sender_step Fin [] 0 False (udp_start 0) = Some ((udp_start 0)\<lparr>uy_phase := UpFin 0\<rparr>)"
    by (simp add: sender_step_def udp_start_def more_to_ack_def udp_sender_new_def udp_chunks_def UDP_CHUNK_SIZE_def)
  from udp_reachable_sender [OF udp_reachable_start this]
  show "udp_reachable Fin [] (length ([] :: bytes)) ((udp_start 0)\<lparr>uy_phase := UpFin 0\<rparr>)" by simp
qed (simp_all add: udp_small_def udp_chunks_def UDP_CHUNK_SIZE_def FIN_MARK_def data_phase_def)

section \<open>A chunk that is lost\<close>

text \<open>No copy of the chunk or of its acknowledgement is left, and more chunks than its number are acknowledged.\<close>

definition lost_chunk :: "bytes \<Rightarrow> u64 \<Rightarrow> udp_system \<Rightarrow> bool" where
  "lost_chunk file k y \<longleftrightarrow> data_phase (uy_phase y) \<and> k < us_next (uy_sender y) \<and> unat k < length (us_acked (uy_sender y))
     \<and> k \<notin> set (us_acked (uy_sender y)) \<and> k \<notin> set (uy_chan y)
     \<and> data_packet file k \<notin># uy_to_recv y \<and> ack_packet k \<notin># uy_to_send y"

lemma data_packet_inject: "data_packet file j = data_packet file k \<longleftrightarrow> j = k"
proof
  assume "data_packet file j = data_packet file k"
  then have "take 8 (drop 1 (data_packet file j)) = take 8 (drop 1 (data_packet file k))" by simp
  then show "j = k" by (simp add: data_packet_def Let_def to_be_inject)
qed simp

lemma ack_not_data: "ack_packet k \<noteq> [FRAME_HANDSHAKE_RESP]" "ack_packet k \<noteq> [UDP_FIN_ACK]"
  by (simp_all add: ack_packet_def) (metis length_to_be list.size(3) zero_neq_numeral)+

lemma lost_not_resent:
  assumes "unat k < length (us_acked s)"
  shows "k \<notin> set (to_resend now s)"
proof
  assume "k \<in> set (to_resend now s)"
  then obtain j where j: "k = of_nat j" "length (us_acked s) \<le> j" "j < unat (us_next s)"
    by (auto simp: to_resend_def outstanding_def)
  have "unat (us_next s) < 2 ^ LENGTH(64)" by (rule unsigned_less)
  then have "unat k = j" using j(1,3) by (simp add: unsigned_of_nat take_bit_nat_eq_self)
  with j(2) assms show False by simp
qed

lemma lost_more:
  assumes "udp_inv file y" "lost_chunk file k y"
  shows "more_to_ack (n_chunks file) (uy_sender y)"
proof (rule ccontr)
  let ?as = "us_acked (uy_sender y)"
  assume "\<not> more_to_ack (n_chunks file) (uy_sender y)"
  then have "unat (n_chunks file) \<le> unat (of_nat (length ?as) :: u64)" by (simp add: more_to_ack_def word_le_nat_alt not_less)
  also have "\<dots> \<le> length ?as" by (simp add: unsigned_of_nat take_bit_nat_less_eq_self)
  finally have n: "unat (n_chunks file) \<le> length ?as" .
  have "distinct ?as" "list_all (\<lambda>k. k < n_chunks file) ?as" "k < n_chunks file"
    using assms by (auto simp: udp_inv_defs list_all_iff lost_chunk_def)
  from all_below [OF this(1,2) n this(3)] assms(2) show False by (simp add: lost_chunk_def)
qed

lemma lost_sender:
  assumes "udp_inv file y" "lost_chunk file k y" "sender_step rnd file now timer y = Some y'"
  shows "lost_chunk file k y'"
proof -
  have fin: "no_fin y" using assms(1,2) by (simp add: udp_inv_def lost_chunk_def)
  consider "uy_phase y = UpLoop" | "uy_phase y = UpFill" | "uy_phase y = UpWait"
    using assms(2) by (auto simp: lost_chunk_def data_phase_def)
  then show ?thesis
  proof cases
    case 1
    then show ?thesis using assms(2,3) lost_more [OF assms(1,2)] by (auto simp: sender_step_def lost_chunk_def data_phase_def)
  next
    case 2
    have lt: "k < us_next (uy_sender y)" using assms(2) by (simp add: lost_chunk_def)
    show ?thesis
    proof (cases "window_open (n_chunks file) (uy_sender y)")
      case True
      have "us_next (uy_sender y) < us_next (uy_sender y) + 1"
        by (rule window_next(2) [OF True])
      then have "k < us_next (uy_sender y) + 1" "data_packet file (us_next (uy_sender y)) \<noteq> data_packet file k"
        using lt by (auto simp: data_packet_inject)
      with assms(2,3) 2 True show ?thesis
        by (auto simp: sender_step_def Let_def send_next_def lost_chunk_def data_phase_def)
    next
      case False
      with assms(2,3) 2 show ?thesis by (auto simp: sender_step_def Let_def lost_chunk_def data_phase_def)
    qed
  next
    case 3
    have k: "k \<notin> set (to_resend now (uy_sender y))" using lost_not_resent assms(2) by (simp add: lost_chunk_def)
    consider (timer) "timer" | (ack) q qs where "\<not> timer" "uy_chan y = q # qs" | (closed) "\<not> timer" "uy_chan y = []"
      by (cases timer; cases "uy_chan y") auto
    then show ?thesis
    proof cases
      case timer
      have "data_packet file k \<notin># mset (map (data_packet file) (to_resend now (uy_sender y)))"
        using k by (auto simp: data_packet_inject)
      with timer assms(2,3) 3 show ?thesis
        by (auto simp: sender_step_def Let_def on_timeout_def lost_chunk_def data_phase_def)
    next
      case ack
      have "q \<noteq> FIN_MARK" using fin ack(2) by (auto simp: no_fin_def)
      with ack assms(2,3) 3 show ?thesis
        by (auto simp: sender_step_def Let_def lost_chunk_def data_phase_def take_ack_acked split: if_splits)
    next
      case closed
      with assms(2,3) 3 show ?thesis by (auto simp: sender_step_def Let_def lost_chunk_def data_phase_def split: if_splits)
    qed
  qed
qed

lemma lost_receiver:
  assumes "udp_small file" "udp_inv file y" "lost_chunk file k y" "p \<in># uy_to_recv y" "receiver_step (length file) p y = Some y'"
  shows "lost_chunk file k y'"
proof -
  have "no_fin y" using assms(2,3) by (simp add: udp_inv_def lost_chunk_def)
  then obtain j where j: "j < n_chunks file" "p = data_packet file j"
    using assms(2,4) by (auto simp: udp_inv_defs)
  have small: "length file < 2 ^ 62" using assms(1) by (simp add: udp_small_def)
  have len: "length (ur_buf (uy_recv y)) = length file" using assms(2) by (simp add: udp_inv_defs)
  obtain r where y': "y' = y\<lparr>uy_recv := r, uy_to_recv := uy_to_recv y - {#p#}, uy_to_send := uy_to_send y + {#ack_packet j#}\<rparr>"
    using assms(5) by (auto simp: receiver_step_def j(2) receive_data [OF small j(1) len])
  have "j \<noteq> k" using assms(3,4) j(2) by (auto simp: lost_chunk_def)
  then show ?thesis unfolding y' using assms(3)
    by (auto simp: lost_chunk_def packet_heads(3) dest: in_diffD)
qed

lemma lost_background:
  assumes "udp_inv file y" "lost_chunk file k y" "p \<in># uy_to_send y"
  shows "lost_chunk file k (background_step p y)"
proof -
  have "no_fin y" using assms(1,2) by (simp add: udp_inv_def lost_chunk_def)
  then obtain j where j: "p = ack_packet j" using assms(1,3) by (auto simp: udp_inv_defs)
  have "j \<noteq> k" using assms(2,3) j by (auto simp: lost_chunk_def)
  then show ?thesis using assms(2) j
    by (auto simp: background_step_def background_ack lost_chunk_def dest: in_diffD)
qed

lemma lost_step:
  assumes "udp_small file" "udp_inv file y" "lost_chunk file k y" "udp_step rnd file (length file) y y'"
  shows "lost_chunk file k y'"
  using assms(4)
proof cases
  case (sender now timer)
  then show ?thesis using lost_sender assms(2,3) by blast
next
  case (background p)
  then show ?thesis using lost_background assms(2,3) by blast
next
  case (receiver p)
  then show ?thesis using lost_receiver assms(1-3) by blast
qed (use assms(3) in \<open>auto simp: lost_chunk_def dest: in_diffD\<close>)

lemma lost_forever:
  assumes "udp_small file" "udp_inv file y" "lost_chunk file k y" "(udp_step rnd file (length file))\<^sup>*\<^sup>* y z"
  shows "udp_inv file z \<and> lost_chunk file k z"
  using assms(4)
proof (induction rule: rtranclp_induct)
  case base
  show ?case using assms(2,3) by simp
next
  case (step u v)
  then show ?case using lost_step [OF assms(1)] udp_step_inv [OF assms(1)] by blast
qed

text \<open>How such a state comes about with a file of two chunks: both are sent, the first is lost, the second is acknowledged.\<close>

lemma udp_reachable_step: "udp_reachable rnd file n y \<Longrightarrow> udp_step rnd file n y z \<Longrightarrow> udp_reachable rnd file n z"
  unfolding udp_reachable_def by (rule rtranclp.rtrancl_into_rtrancl)

definition sent_two :: "bytes \<Rightarrow> instant \<Rightarrow> udp_sender" where
  "sent_two file now = snd (send_next file now (snd (send_next file now udp_sender_new)))"

lemma both_sent:
  assumes "n_chunks file = 2"
  shows "udp_reachable rnd file (length file)
    ((udp_start (length file))\<lparr>uy_phase := UpWait, uy_sender := sent_two file now, uy_to_recv := {#data_packet file 0, data_packet file 1#}\<rparr>)"
proof -
  let ?y0 = "udp_start (length file)"
  let ?s1 = "snd (send_next file now udp_sender_new)"
  let ?y1 = "?y0\<lparr>uy_phase := UpFill\<rparr>"
  let ?y2 = "?y1\<lparr>uy_sender := ?s1, uy_to_recv := {#data_packet file 0#}\<rparr>"
  let ?y3 = "?y1\<lparr>uy_sender := sent_two file now, uy_to_recv := {#data_packet file 0, data_packet file 1#}\<rparr>"
  have "sender_step rnd file now False ?y0 = Some ?y1"
    using assms by (simp add: sender_step_def Let_def udp_start_def more_to_ack_def udp_sender_new_def)
  moreover have "sender_step rnd file now False ?y1 = Some ?y2"
    using assms by (simp add: sender_step_def Let_def udp_start_def window_open_def send_next_def udp_sender_new_def)
  moreover have "sender_step rnd file now False ?y2 = Some ?y3"
    using assms by (simp add: sender_step_def Let_def udp_start_def window_open_def send_next_def udp_sender_new_def sent_two_def)
  moreover have "sender_step rnd file now False ?y3 = Some (?y3\<lparr>uy_phase := UpWait\<rparr>)"
    using assms by (simp add: sender_step_def Let_def udp_start_def window_open_def send_next_def udp_sender_new_def sent_two_def)
  ultimately have "udp_reachable rnd file (length file) (?y3\<lparr>uy_phase := UpWait\<rparr>)"
    using udp_reachable_start udp_reachable_sender by metis
  then show ?thesis by (simp add: udp_start_def)
qed

lemma lost_reachable:
  assumes "udp_small file" "n_chunks file = 2"
  obtains y where "udp_reachable rnd file (length file) y" "lost_chunk file 0 y"
proof -
  let ?n = "length file" let ?s = "sent_two file 0"
  let ?y = "(udp_start ?n)\<lparr>uy_phase := UpWait, uy_sender := ?s, uy_to_recv := {#data_packet file 0, data_packet file 1#}\<rparr>"
  let ?y1 = "?y\<lparr>uy_to_recv := {#data_packet file 1#}\<rparr>"
  have small: "length file < 2 ^ 62" using assms(1) by (simp add: udp_small_def)
  have s: "us_acked ?s = []" "us_next ?s = 2" by (simp_all add: sent_two_def send_next_def udp_sender_new_def)
  have len: "length (ur_buf (uy_recv ?y)) = ?n" by (simp add: udp_start_def udp_receiver_new_def)
  have one: "(1 :: u64) < n_chunks file" using assms(2) by simp
  have r1: "udp_reachable rnd file ?n ?y1"
    by (rule udp_reachable_step [OF both_sent [OF assms(2), of rnd 0]])
      (use udp_step.lose_data [of "data_packet file 0" ?y rnd "file" ?n] in simp)
  let ?r = "(uy_recv ?y)\<lparr>ur_buf := overwrite (unat (1 :: u64) * 8192) (file_chunk file 1) (ur_buf (uy_recv ?y)),
    ur_received := List.insert 1 (ur_received (uy_recv ?y))\<rparr>"
  let ?y2 = "?y1\<lparr>uy_recv := ?r, uy_to_recv := {#}, uy_to_send := {#ack_packet 1#}\<rparr>"
  have "receiver_step ?n (data_packet file 1) ?y1 = Some ?y2"
    using receive_data [OF small one len, of ?n] by (simp add: receiver_step_def udp_start_def)
  then have r2: "udp_reachable rnd file ?n ?y2"
    by (rule udp_reachable_step [OF r1 udp_step.receiver, rotated 2])
      (simp_all add: udp_start_def udp_receiver_new_def)
  let ?y3 = "?y2\<lparr>uy_chan := [1], uy_to_send := {#}\<rparr>"
  have "udp_step rnd file ?n ?y2 (background_step (ack_packet 1) ?y2)"
    by (rule udp_step.background) (simp_all add: udp_start_def)
  moreover have "background_step (ack_packet 1) ?y2 = ?y3"
    by (simp add: background_step_def background_ack udp_start_def)
  ultimately have r3: "udp_reachable rnd file ?n ?y3" using udp_reachable_step [OF r2] by simp
  let ?y4 = "?y3\<lparr>uy_chan := [], uy_sender := take_ack rnd 0 1 ?s, uy_phase := UpLoop\<rparr>"
  have "sender_step rnd file 0 False ?y3 = Some ?y4"
    by (simp add: sender_step_def Let_def FIN_MARK_def)
  then have "udp_reachable rnd file ?n ?y4" by (rule udp_reachable_sender [OF r3])
  moreover have "lost_chunk file 0 ?y4"
    by (simp add: lost_chunk_def data_phase_def take_ack_acked s)
  ultimately show ?thesis by (rule that)
qed

text \<open>C31. A file of two chunks whose first chunk is lost once, while the second arrives: the sender never finishes, whatever
  the network does from there. Retransmission starts at the number of acknowledged chunks, not at the first
  that is missing, so the lost chunk is never sent again; and the data phase has no limit of its own.\<close>

theorem udp_never_finishes:
  assumes "udp_small file" "n_chunks file = 2"
  shows "\<exists>y. udp_reachable rnd file (length file) y
    \<and> (\<forall>z. (udp_step rnd file (length file))\<^sup>*\<^sup>* y z \<longrightarrow>
         data_phase (uy_phase z) \<and> 0 \<notin> set (us_acked (uy_sender z)) \<and> data_packet file 0 \<notin># uy_to_recv z)"
proof -
  obtain y where y: "udp_reachable rnd file (length file) y" "lost_chunk file 0 y" using lost_reachable [OF assms] .
  from lost_forever [OF assms(1) udp_reachable_inv [OF assms(1) y(1)] y(2)] y(1) show ?thesis
    unfolding lost_chunk_def by blast
qed

theorem udp_never_finishes_witness:
  "\<exists>y. udp_reachable Fin (replicate 8193 0) 8193 y \<and> data_phase (uy_phase y) \<and> 0 \<notin> set (us_acked (uy_sender y))"
proof -
  have "udp_small (replicate 8193 0)" "n_chunks (replicate 8193 0) = 2"
    by (simp_all add: udp_small_def udp_chunks_def UDP_CHUNK_SIZE_def FIN_MARK_def)
  from udp_never_finishes [OF this, of Fin] show ?thesis by (metis length_replicate rtranclp.rtrancl_refl)
qed

end
