(* ===== verification/Transfer_Profile.thy ===== *)
theory Transfer_Profile
  imports Http_Send Transfer_Scheduler
begin

text \<open>
  How the command line client chooses the parameters of a transfer (\<^verbatim>\<open>cli/src/transfer_engine\<close>): the probe of the network
  (\<^verbatim>\<open>network.rs\<close>), of the system (\<^verbatim>\<open>system.rs\<close>, the part for Linux), the analysis of the files
  (\<^verbatim>\<open>file_analyzer.rs\<close>), the profile (\<^verbatim>\<open>profile.rs\<close>) and the monitor of a running transfer (\<^verbatim>\<open>monitor.rs\<close>).
  What the probes measure, the square root and the lower case of a string are arguments.
\<close>

section \<open>The network\<close>

datatype interface_type =
  Ethernet100M | Ethernet1G | Ethernet10G | Ethernet25G | Ethernet40G | Ethernet100G
| WiFi24GHz | WiFi5GHz | WiFi6 | WiFi7 | Thunderbolt | UsbEthernet | IfVpn | IfWan | IfLoopback | IfUnknown fl

record network_info =
  nwi_interface :: interface_type
  nwi_rtt :: fl
  nwi_bandwidth :: fl
  nwi_jitter :: fl
  nwi_loss :: fl
  nwi_mtu :: u16
  nwi_congested :: bool
  nwi_duplex :: bool

fun interface_label :: "interface_type \<Rightarrow> string" where
  "interface_label Ethernet100M = ''100Mbps Ethernet''"
| "interface_label Ethernet1G = ''1Gbps Ethernet''"
| "interface_label Ethernet10G = ''10Gbps Ethernet''"
| "interface_label Ethernet25G = ''25Gbps Ethernet''"
| "interface_label Ethernet40G = ''40Gbps Ethernet''"
| "interface_label Ethernet100G = ''100Gbps Ethernet''"
| "interface_label WiFi24GHz = ''2.4GHz WiFi''"
| "interface_label WiFi5GHz = ''5GHz WiFi''"
| "interface_label WiFi6 = ''WiFi 6''"
| "interface_label WiFi7 = ''WiFi 7''"
| "interface_label Thunderbolt = ''Thunderbolt''"
| "interface_label UsbEthernet = ''USB Ethernet''"
| "interface_label IfVpn = ''VPN''"
| "interface_label IfWan = ''WAN''"
| "interface_label IfLoopback = ''Loopback''"
| "interface_label (IfUnknown _) = ''Unknown''"

text \<open>\<^verbatim>\<open>f64::MAX\<close>\<close>

definition f64_max :: fl where
  "f64_max = Fin ((2 ^ 53 - 1) * 2 ^ 971)"

fun expected_bandwidth :: "interface_type \<Rightarrow> fl" where
  "expected_bandwidth Ethernet100M = Fin 100"
| "expected_bandwidth Ethernet1G = Fin 1000"
| "expected_bandwidth Ethernet10G = Fin 10000"
| "expected_bandwidth Ethernet25G = Fin 25000"
| "expected_bandwidth Ethernet40G = Fin 40000"
| "expected_bandwidth Ethernet100G = Fin 100000"
| "expected_bandwidth WiFi24GHz = Fin 100"
| "expected_bandwidth WiFi5GHz = Fin 500"
| "expected_bandwidth WiFi6 = Fin 1200"
| "expected_bandwidth WiFi7 = Fin 2400"
| "expected_bandwidth Thunderbolt = Fin 40000"
| "expected_bandwidth UsbEthernet = Fin 1000"
| "expected_bandwidth IfVpn = Fin 50"
| "expected_bandwidth IfWan = Fin 100"
| "expected_bandwidth IfLoopback = f64_max"
| "expected_bandwidth (IfUnknown bw) = bw"

definition classify_interface :: "rounding \<Rightarrow> fl \<Rightarrow> fl \<Rightarrow> interface_type" where
  "classify_interface rnd bw rtt =
    (if fl_less rtt (rnd (1/10)) then IfLoopback
     else if fl_less rtt (Fin 2) then
       (if fl_less (Fin 40000) bw then Thunderbolt
        else if fl_less (Fin 10000) bw then Ethernet10G
        else if fl_less (Fin 1000) bw then Ethernet1G
        else if fl_less (Fin 100) bw then Ethernet1G
        else Ethernet100M)
     else if fl_less rtt (Fin 15) then
       (if fl_less (Fin 2000) bw then WiFi7
        else if fl_less (Fin 1000) bw then WiFi6
        else if fl_less (Fin 400) bw then WiFi5GHz
        else WiFi24GHz)
     else if fl_less bw (Fin 100) then IfWan
     else IfVpn)"

text \<open>One of the five rounds: the connection's time in ms, and the seconds the 64 KiB took on a second one.\<close>

type_synonym probe_round = "(fl \<times> fl option) option"

definition probe_rtts :: "probe_round list \<Rightarrow> fl list" where
  "probe_rtts rounds = List.map_filter (map_option fst) rounds"

definition probe_rates :: "rounding \<Rightarrow> probe_round list \<Rightarrow> fl list" where
  "probe_rates rnd rounds = List.map_filter (\<lambda>r.
     Option.bind r (\<lambda>(_, t). Option.bind t (\<lambda>secs.
       if fl_less (Fin 0) secs then Some (fl_div rnd (fl_div rnd (Fin (65536 * 8)) secs) (Fin 1000000)) else None))) rounds"

definition fl_mean :: "rounding \<Rightarrow> fl list \<Rightarrow> fl" where
  "fl_mean rnd xs = fl_div rnd (foldl (fl_add rnd) (Fin 0) xs) (rnd (of_nat (length xs)))"

definition rtt_deviation :: "rounding \<Rightarrow> (fl \<Rightarrow> fl) \<Rightarrow> fl list \<Rightarrow> fl" where
  "rtt_deviation rnd sqrt_of rtts =
    (if length rtts > 1
     then (let m = fl_mean rnd rtts in sqrt_of (fl_mean rnd (map (\<lambda>v. let d = fl_sub rnd v m in fl_mul rnd d d) rtts)))
     else Fin 0)"

definition probe_network :: "rounding \<Rightarrow> (fl \<Rightarrow> fl) \<Rightarrow> probe_round list \<Rightarrow> network_info" where
  "probe_network rnd sqrt_of rounds =
    (let rtts = probe_rtts rounds; rates = probe_rates rnd rounds in
     if rtts = []
     then \<lparr>nwi_interface = IfUnknown (Fin 0), nwi_rtt = Fin 0, nwi_bandwidth = Fin 0, nwi_jitter = Fin 0, nwi_loss = Fin 0,
           nwi_mtu = 1500, nwi_congested = False, nwi_duplex = True\<rparr>
     else
       (let avg = fl_mean rnd rtts;
            jitter = (if length rates > 1 then (let m = fl_mean rnd rates in fl_mean rnd (map (\<lambda>v. fl_abs (fl_sub rnd v m)) rates))
              else Fin 0);
            bw = foldl fl_min f64_max rates;
            loss = fl_min (fl_div rnd (rtt_deviation rnd sqrt_of rtts) (fl_max avg (Fin 1))) (Fin 10) in
        \<lparr>nwi_interface = classify_interface rnd bw avg, nwi_rtt = avg, nwi_bandwidth = bw, nwi_jitter = jitter, nwi_loss = loss,
         nwi_mtu = 1500, nwi_congested = (fl_less (Fin 2) loss \<or> fl_less (Fin 10) jitter), nwi_duplex = True\<rparr>))"

record remote_capabilities =
  rmc_range :: bool
  rmc_http2 :: bool
  rmc_http3 :: bool
  rmc_quic :: bool
  rmc_max_connections :: u16
  rmc_load :: fl
  rmc_tls :: string

section \<open>The system\<close>

datatype disk_type = DkNvme | DkSsd | DkHdd | DkNetwork | DkUnknown

fun disk_label :: "disk_type \<Rightarrow> string" where
  "disk_label DkNvme = ''NVMe SSD''"
| "disk_label DkSsd = ''SATA SSD''"
| "disk_label DkHdd = ''HDD''"
| "disk_label DkNetwork = ''Network Drive''"
| "disk_label DkUnknown = ''Unknown''"

record system_info =
  syi_cores :: u32
  syi_cpu :: fl
  syi_ram_mb :: u64
  syi_ram_available_mb :: u64
  syi_disk :: disk_type
  syi_read_mbps :: fl
  syi_write_mbps :: fl
  syi_free_gb :: fl
  syi_total_gb :: fl
  syi_queue :: u32
  syi_sendfile :: bool
  syi_splice :: bool

text \<open>What the operating system reports: processors, memory, the rotational flag of the disk, the mounted disks with the
  available and the total space.\<close>

record system_probe =
  spr_cpus :: u64
  spr_memory :: u64
  spr_available :: u64
  spr_rotational :: "string option"
  spr_disks :: "(string \<times> u64 \<times> u64) list"

definition detect_disk_type :: "string option \<Rightarrow> disk_type" where
  "detect_disk_type rotational =
    (let r = trim (case rotational of Some s \<Rightarrow> s | None \<Rightarrow> []) in
     if r = ''0'' then DkSsd else if r = ''1'' then DkHdd else DkUnknown)"

definition free_disk_gb :: "rounding \<Rightarrow> (string \<times> u64 \<times> u64) list \<Rightarrow> fl \<times> fl" where
  "free_disk_gb rnd disks =
    (case find (\<lambda>(m, _). m = ''/'') disks of
       Some (_, avail, space) \<Rightarrow>
         (fl_div rnd (fl_of_u64 rnd avail) (Fin 1000000000), fl_div rnd (fl_of_u64 rnd space) (Fin 1000000000))
     | None \<Rightarrow> (Fin 0, Fin 0))"

definition total_disk_gb :: "rounding \<Rightarrow> (string \<times> u64 \<times> u64) list \<Rightarrow> fl \<times> fl" where
  "total_disk_gb rnd disks = free_disk_gb rnd disks"

definition probe_system :: "rounding \<Rightarrow> system_probe \<Rightarrow> system_info" where
  "probe_system rnd p =
    \<lparr>syi_cores = ucast (spr_cpus p), syi_cpu = Fin 0, syi_ram_mb = spr_memory p div 1024 div 1024,
     syi_ram_available_mb = spr_available p div 1024 div 1024, syi_disk = detect_disk_type (spr_rotational p),
     syi_read_mbps = Fin 0, syi_write_mbps = Fin 0, syi_free_gb = fst (free_disk_gb rnd (spr_disks p)),
     syi_total_gb = fst (total_disk_gb rnd (spr_disks p)), syi_queue = 0, syi_sendfile = True, syi_splice = True\<rparr>"

section \<open>The files\<close>

record file_entry =
  fen_path :: string
  fen_size :: u64
  fen_extension :: string
  fen_compressed :: bool
  fen_sparse :: bool

datatype file_category =
  CatTiny | CatSmall | CatMedium | CatLarge | CatHuge | CatMassive | CatManyTiny | CatManySmall | CatMixed

record file_analysis =
  fan_entries :: "file_entry list"
  fan_count :: u32
  fan_total :: u64
  fan_largest :: u64
  fan_average :: u64
  fan_smallest :: u64
  fan_same_extension :: bool
  fan_primary :: string
  fan_ratio :: fl
  fan_has_compressed :: bool
  fan_category :: file_category

definition COMPRESSED_EXTENSIONS :: "string list" where
  "COMPRESSED_EXTENSIONS =
    [''zip'', ''gz'', ''bz2'', ''xz'', ''zst'', ''7z'', ''rar'', ''tar'',
     ''jpg'', ''jpeg'', ''png'', ''gif'', ''webp'', ''avif'', ''heic'',
     ''mp4'', ''mkv'', ''avi'', ''mov'', ''webm'', ''mp3'', ''aac'', ''flac'', ''ogg'',
     ''pdf'', ''docx'', ''xlsx'', ''pptx'']"

text \<open>What a path leads to: a directory with its entries (up to the first that cannot be read; none where it
  cannot be opened), a regular file or another kind of object, with its length where the metadata can be read.
  Links that lead back are not modelled.\<close>

datatype fs_object = FsDir "(string \<times> fs_object) list" | FsFile "u64 option" | FsOther "u64 option"

record file_scan =
  fsc_entries :: "file_entry list"
  fsc_total :: u64
  fsc_largest :: u64
  fsc_smallest :: u64
  fsc_exts :: "(string, u32) hmap"
  fsc_compressed :: u32

definition scan_new :: file_scan where
  "scan_new = \<lparr>fsc_entries = [], fsc_total = 0, fsc_largest = 0, fsc_smallest = - 1, fsc_exts = [], fsc_compressed = 0\<rparr>"

text \<open>\<^verbatim>\<open>Path::extension\<close> as a string: after the last dot of the name, unless the name starts there.\<close>

definition path_extension :: "string \<Rightarrow> string" where
  "path_extension path =
    (case path_file_name path of
       None \<Rightarrow> []
     | Some n \<Rightarrow>
         (case rsplit_once (CHR ''.'') n of
            Some (a, b) \<Rightarrow> if a = [] \<or> \<not> utf8_valid b then [] else b
          | None \<Rightarrow> []))"

definition collect_file :: "(string \<Rightarrow> string) \<Rightarrow> string \<Rightarrow> u64 option \<Rightarrow> file_scan \<Rightarrow> file_scan" where
  "collect_file lower path meta sc =
    (case meta of
       None \<Rightarrow> sc
     | Some len \<Rightarrow>
         (let ext = lower (path_extension path); zip = ext \<in> set COMPRESSED_EXTENSIONS in
          sc\<lparr>fsc_total := fsc_total sc + len, fsc_largest := max (fsc_largest sc) len, fsc_smallest := min (fsc_smallest sc) len,
             fsc_exts := hm_insert ext ((case hm_get (fsc_exts sc) ext of Some n \<Rightarrow> n | None \<Rightarrow> 0) + 1) (fsc_exts sc),
             fsc_compressed := (if zip then fsc_compressed sc + 1 else fsc_compressed sc),
             fsc_entries := fsc_entries sc @
               [\<lparr>fen_path = from_utf8_lossy (as_bytes path), fen_size = len, fen_extension = ext, fen_compressed = zip, fen_sparse = False\<rparr>]\<rparr>))"

definition join_path :: "string \<Rightarrow> string \<Rightarrow> string" where
  "join_path dir name = dir @ (if dir \<noteq> [] \<and> last dir = CHR ''/'' then [] else ''/'') @ name"

fun collect_dir :: "(string \<Rightarrow> string) \<Rightarrow> string \<Rightarrow> (string \<times> fs_object) list \<Rightarrow> file_scan \<Rightarrow> file_scan" where
  "collect_dir lower dir [] sc = sc"
| "collect_dir lower dir ((name, FsDir es) # rest) sc =
    collect_dir lower dir rest (collect_dir lower (join_path dir name) es sc)"
| "collect_dir lower dir ((name, FsFile m) # rest) sc = collect_dir lower dir rest (collect_file lower (join_path dir name) m sc)"
| "collect_dir lower dir ((name, FsOther m) # rest) sc = collect_dir lower dir rest (collect_file lower (join_path dir name) m sc)"

definition collect_path :: "(string \<Rightarrow> string) \<Rightarrow> (string \<Rightarrow> fs_object option) \<Rightarrow> string \<Rightarrow> file_scan \<Rightarrow> file_scan" where
  "collect_path lower fs p sc =
    (case fs p of
       Some (FsDir es) \<Rightarrow> collect_dir lower p es sc
     | Some (FsFile m) \<Rightarrow> collect_file lower p m sc
     | _ \<Rightarrow> sc)"

definition classify_category :: "u32 \<Rightarrow> u64 \<Rightarrow> u64 \<Rightarrow> u64 \<Rightarrow> file_category" where
  "classify_category n bytes_sum average smallest =
    (if n \<ge> 1000 \<and> average < 10000 then CatManyTiny
     else if n \<ge> 100 \<and> average < 1000000 then CatManySmall
     else if n = 1 then
       (if bytes_sum < 1024 then CatTiny
        else if bytes_sum < 10000000 then CatSmall
        else if bytes_sum < 500000000 then CatMedium
        else if bytes_sum < 5000000000 then CatLarge
        else if bytes_sum < 100000000000 then CatHuge
        else CatMassive)
     else if n > 1 \<and> average < 1024 then CatManyTiny
     else CatMixed)"

text \<open>\<^verbatim>\<open>max_by_key\<close> over the map, in the order \<open>ord\<close> in which it is walked: the last of the largest.\<close>

definition primary_extension :: "((string \<times> u32) list \<Rightarrow> (string \<times> u32) list) \<Rightarrow> (string, u32) hmap \<Rightarrow> string" where
  "primary_extension ord exts =
    (case ord exts of [] \<Rightarrow> [] | x # xs \<Rightarrow> fst (foldl (\<lambda>best y. if snd y < snd best then best else y) x xs))"

definition analysis_of :: "rounding \<Rightarrow> ((string \<times> u32) list \<Rightarrow> (string \<times> u32) list) \<Rightarrow> file_scan \<Rightarrow> file_analysis" where
  "analysis_of rnd ord sc =
    (let n = (of_nat (length (fsc_entries sc)) :: u32) in
     if n = 0
     then \<lparr>fan_entries = fsc_entries sc, fan_count = 0, fan_total = 0, fan_largest = 0, fan_average = 0, fan_smallest = 0,
           fan_same_extension = True, fan_primary = [], fan_ratio = Fin 1, fan_has_compressed = False, fan_category = CatTiny\<rparr>
     else
       (let avg = fsc_total sc div ucast n;
            zipped = fsc_compressed sc > n div 3 in
        \<lparr>fan_entries = fsc_entries sc, fan_count = n, fan_total = fsc_total sc, fan_largest = fsc_largest sc, fan_average = avg,
         fan_smallest = (if fsc_smallest sc = - 1 then 0 else fsc_smallest sc),
         fan_same_extension = (length (fsc_exts sc) \<le> 1), fan_primary = primary_extension ord (fsc_exts sc),
         fan_ratio = (if zipped then rnd (3/10) else Fin 1), fan_has_compressed = zipped,
         fan_category = classify_category n (fsc_total sc) avg (fsc_smallest sc)\<rparr>))"

definition analyze_files ::
  "rounding \<Rightarrow> (string \<Rightarrow> string) \<Rightarrow> ((string \<times> u32) list \<Rightarrow> (string \<times> u32) list) \<Rightarrow> (string \<Rightarrow> fs_object option) \<Rightarrow> string list \<Rightarrow> file_analysis" where
  "analyze_files rnd lower ord fs paths = analysis_of rnd ord (fold (collect_path lower fs) paths scan_new)"

section \<open>The profile\<close>

datatype transfer_strategy = StSingle | StParallel | StBatched | StPipelined
datatype integrity_level = InNone | InFast | InStandard | InFull

record transfer_profile =
  tpf_interface :: interface_type
  tpf_rtt :: fl
  tpf_bandwidth :: fl
  tpf_loss :: fl
  tpf_category :: file_category
  tpf_count :: u32
  tpf_total :: u64
  tpf_disk_label :: string
  tpf_cores :: u32
  tpf_range :: bool
  tpf_http2 :: bool
  tpf_streams :: u32
  tpf_buffer_kb :: u32
  tpf_chunk :: u64
  tpf_socket :: u64
  tpf_strategy :: transfer_strategy
  tpf_integrity :: integrity_level
  tpf_compress :: bool
  tpf_zero_copy :: bool
  tpf_pacing :: u64

definition select_strategy :: "network_info \<Rightarrow> file_analysis \<Rightarrow> remote_capabilities \<Rightarrow> transfer_strategy" where
  "select_strategy net an remote =
    (case fan_category an of
       CatTiny \<Rightarrow> StSingle
     | CatSmall \<Rightarrow> StSingle
     | CatManyTiny \<Rightarrow> StBatched
     | CatManySmall \<Rightarrow> StBatched
     | CatMixed \<Rightarrow> if fan_count an < 10 then StSingle else StBatched
     | _ \<Rightarrow>
         if rmc_range remote \<and> (fl_less (Fin 1) (nwi_loss net) \<or> contains (interface_label (nwi_interface net)) ''WiFi'')
         then StParallel else StSingle)"

definition calc_stream_count :: "network_info \<Rightarrow> transfer_strategy \<Rightarrow> u32" where
  "calc_stream_count net st =
    (case st of
       StParallel \<Rightarrow>
         if fl_less (Fin 5) (nwi_loss net) then 8
         else if fl_less (Fin 2) (nwi_loss net) then 4
         else if nwi_interface net = WiFi24GHz then 4
         else if nwi_interface net = WiFi5GHz then 4
         else if nwi_interface net = WiFi6 then 4
         else if nwi_interface net = WiFi7 then 6
         else 2
     | _ \<Rightarrow> 1)"

definition calc_buffer_size :: "rounding \<Rightarrow> network_info \<Rightarrow> system_info \<Rightarrow> u32" where
  "calc_buffer_size rnd net sys =
    (let bdp = fl_as_u64 (fl_div rnd (fl_mul rnd (fl_div rnd (fl_mul rnd (nwi_bandwidth net) (Fin 1000000)) (Fin 8)) (nwi_rtt net)) (Fin 1000));
         buf = (ucast (min (max (bdp div 1024) 64) 16384) :: u32) in
     if contains (disk_label (syi_disk sys)) ''HDD'' then min buf 512 else buf)"

fun calc_integrity :: "file_category \<Rightarrow> integrity_level" where
  "calc_integrity CatManyTiny = InFast"
| "calc_integrity CatManySmall = InFast"
| "calc_integrity CatMixed = InStandard"
| "calc_integrity _ = InFull"

definition build_profile :: "rounding \<Rightarrow> network_info \<Rightarrow> file_analysis \<Rightarrow> system_info \<Rightarrow> remote_capabilities \<Rightarrow> transfer_profile" where
  "build_profile rnd net an sys remote =
    (let st = select_strategy net an remote;
         kb = calc_buffer_size rnd net sys in
     \<lparr>tpf_interface = nwi_interface net, tpf_rtt = nwi_rtt net, tpf_bandwidth = nwi_bandwidth net, tpf_loss = nwi_loss net,
      tpf_category = fan_category an, tpf_count = fan_count an, tpf_total = fan_total an,
      tpf_disk_label = disk_label (syi_disk sys), tpf_cores = syi_cores sys,
      tpf_range = rmc_range remote, tpf_http2 = rmc_http2 remote,
      tpf_streams = calc_stream_count net st, tpf_buffer_kb = kb,
      tpf_chunk = min (max (ucast kb * 1024) 65536) 16777216,
      tpf_socket = min (max (fl_as_u64 (nwi_bandwidth net) * 1000000 div 8) 65536) 16777216,
      tpf_strategy = st, tpf_integrity = calc_integrity (fan_category an),
      tpf_compress = (fl_less (fan_ratio an) (rnd (8/10)) \<and> fan_total an > 1000000),
      tpf_zero_copy = syi_sendfile sys,
      tpf_pacing = fl_as_u64 (fl_div rnd (fl_mul rnd (syi_write_mbps sys) (Fin 1000000)) (Fin 8))\<rparr>)"

section \<open>The monitor\<close>

record transfer_monitor =
  tmn_start :: instant
  tmn_last :: instant
  tmn_bytes_last :: u64
  tmn_bytes_total :: u64
  tmn_samples :: "fl list"
  tmn_peak :: fl
  tmn_retransmits :: u64
  tmn_loss :: fl
  tmn_running :: bool

definition monitor_new :: "instant \<Rightarrow> transfer_monitor" where
  "monitor_new now =
    \<lparr>tmn_start = now, tmn_last = now, tmn_bytes_last = 0, tmn_bytes_total = 0, tmn_samples = [], tmn_peak = Fin 0,
     tmn_retransmits = 0, tmn_loss = Fin 0, tmn_running = True\<rparr>"

definition record_bytes :: "u64 \<Rightarrow> transfer_monitor \<Rightarrow> transfer_monitor" where
  "record_bytes n m = m\<lparr>tmn_bytes_total := tmn_bytes_total m + n\<rparr>"

definition current_speed :: "transfer_monitor \<Rightarrow> fl" where
  "current_speed m = (if tmn_samples m = [] then Fin 0 else last (tmn_samples m))"

definition sample_speed :: "rounding \<Rightarrow> instant \<Rightarrow> transfer_monitor \<Rightarrow> fl \<times> transfer_monitor" where
  "sample_speed rnd now m =
    (let elapsed = as_secs rnd (now - tmn_last m) in
     if fl_less elapsed (Fin (1/2)) then (current_speed m, m)
     else
       (let delta = sat_sub (tmn_bytes_total m) (tmn_bytes_last m);
            speed = (if fl_less (Fin 0) elapsed
              then fl_div rnd (fl_mul rnd (fl_of_u64 rnd delta) (Fin 8)) (fl_mul rnd elapsed (Fin 1000000)) else Fin 0);
            samples = tmn_samples m @ [speed] in
        (speed, m\<lparr>tmn_bytes_last := tmn_bytes_total m, tmn_last := now,
           tmn_samples := (if length samples > 60 then tl samples else samples),
           tmn_peak := (if fl_less (tmn_peak m) speed then speed else tmn_peak m)\<rparr>)))"

definition average_speed :: "rounding \<Rightarrow> transfer_monitor \<Rightarrow> fl" where
  "average_speed rnd m = (if tmn_samples m = [] then Fin 0 else fl_mean rnd (tmn_samples m))"

definition eta_secs :: "rounding \<Rightarrow> u64 \<Rightarrow> transfer_monitor \<Rightarrow> fl" where
  "eta_secs rnd remaining m =
    (let speed = current_speed m in
     if fl_less speed (Fin 0) \<or> speed = Fin 0 then PosInf
     else fl_div rnd (fl_mul rnd (fl_of_u64 rnd remaining) (Fin 8)) (fl_mul rnd speed (Fin 1000000)))"

record adaptive_hints =
  ahn_chunk :: u64
  ahn_streams :: u32
  ahn_pause :: bool

definition adaptive_hints_of :: "rounding \<Rightarrow> fl \<Rightarrow> fl \<Rightarrow> fl \<Rightarrow> adaptive_hints" where
  "adaptive_hints_of rnd expected avg elapsed =
    (if fl_less (Fin 2) elapsed \<and> fl_less (Fin 0) avg then
       (let u = fl_div rnd avg (fl_max expected (Fin 1)) in
        \<lparr>ahn_chunk = (if fl_less (Fin 500) avg then 8388608 else if fl_less (Fin 200) avg then 4194304
           else if fl_less (Fin 50) avg then 1048576 else 262144),
         ahn_streams = (if fl_less u (Fin (1/2)) then 4 else if fl_less u (rnd (7/10)) then 2 else 1),
         ahn_pause = (fl_less u (rnd (1/10)) \<and> fl_less (Fin 5) elapsed)\<rparr>)
     else \<lparr>ahn_chunk = 1048576, ahn_streams = 1, ahn_pause = False\<rparr>)"

definition adaptive_controller :: "rounding \<Rightarrow> fl \<Rightarrow> instant \<Rightarrow> transfer_monitor \<Rightarrow> adaptive_hints \<times> transfer_monitor" where
  "adaptive_controller rnd expected now m =
    (let m' = snd (sample_speed rnd now m) in
     (adaptive_hints_of rnd expected (average_speed rnd m') (as_secs rnd (now - tmn_start m')), m'))"

section \<open>Facts\<close>

lemma classify_interface_range:
  "classify_interface rnd bw rtt \<in> {IfLoopback, Thunderbolt, Ethernet10G, Ethernet1G, Ethernet100M, WiFi7, WiFi6, WiFi5GHz, WiFi24GHz, IfWan, IfVpn}"
  by (simp add: classify_interface_def)

lemma total_is_free: "syi_total_gb (probe_system rnd p) = syi_free_gb (probe_system rnd p)"
  by (simp add: probe_system_def total_disk_gb_def)

lemma peak_is_kept: "\<not> fl_less (tmn_peak (snd (sample_speed rnd now m))) (tmn_peak m)"
  by (cases "fl_less (tmn_peak m) (fst (sample_speed rnd now m))")
    (auto simp: sample_speed_def Let_def elim: fl_less.elims)

lemma samples_bounded:
  "length (tmn_samples m) \<le> 60 \<Longrightarrow> length (tmn_samples (snd (sample_speed rnd now m))) \<le> 60"
  by (simp add: sample_speed_def Let_def)

text \<open>Regular files below a list of paths, in the order of the walk, with their sizes.\<close>

fun dir_files :: "string \<Rightarrow> (string \<times> fs_object) list \<Rightarrow> (string \<times> u64) list" where
  "dir_files dir [] = []"
| "dir_files dir ((name, FsDir es) # rest) = dir_files (join_path dir name) es @ dir_files dir rest"
| "dir_files dir ((name, FsFile m) # rest) = (case m of Some n \<Rightarrow> [(join_path dir name, n)] | None \<Rightarrow> []) @ dir_files dir rest"
| "dir_files dir ((name, FsOther m) # rest) = (case m of Some n \<Rightarrow> [(join_path dir name, n)] | None \<Rightarrow> []) @ dir_files dir rest"

definition path_files :: "(string \<Rightarrow> fs_object option) \<Rightarrow> string \<Rightarrow> (string \<times> u64) list" where
  "path_files fs p =
    (case fs p of Some (FsDir es) \<Rightarrow> dir_files p es | Some (FsFile (Some n)) \<Rightarrow> [(p, n)] | _ \<Rightarrow> [])"

definition scan_of :: "(string \<Rightarrow> string) \<Rightarrow> (string \<times> u64) list \<Rightarrow> file_scan \<Rightarrow> file_scan" where
  "scan_of lower fs sc = fold (\<lambda>(p, n). collect_file lower p (Some n)) fs sc"

lemma scan_of_append: "scan_of lower (xs @ ys) sc = scan_of lower ys (scan_of lower xs sc)"
  by (simp add: scan_of_def)

lemma collect_dir_files: "collect_dir lower dir es sc = scan_of lower (dir_files dir es) sc"
proof (induction lower dir es sc rule: collect_dir.induct)
  case (3 lower dir name m rest sc)
  then show ?case by (cases m) (simp_all add: scan_of_def collect_file_def)
next
  case (4 lower dir name m rest sc)
  then show ?case by (cases m) (simp_all add: scan_of_def collect_file_def)
qed (simp_all add: scan_of_append, simp add: scan_of_def)

lemma collect_path_files: "collect_path lower fs p sc = scan_of lower (path_files fs p) sc"
  by (auto simp: collect_path_def path_files_def collect_dir_files scan_of_def collect_file_def split: option.split fs_object.split)

lemma fold_collect_files: "fold (collect_path lower fs) ps sc = scan_of lower (concat (map (path_files fs) ps)) sc"
  by (induction ps arbitrary: sc) (simp_all add: collect_path_files scan_of_append, simp add: scan_of_def)

definition scan_sizes :: "file_scan \<Rightarrow> u64 list" where
  "scan_sizes sc = map fen_size (fsc_entries sc)"

lemma scan_of_facts:
  "map fen_size (fsc_entries (scan_of lower fs sc)) = map fen_size (fsc_entries sc) @ map snd fs
   \<and> fsc_total (scan_of lower fs sc) = fsc_total sc + sum_list (map snd fs)
   \<and> fsc_largest (scan_of lower fs sc) = foldl max (fsc_largest sc) (map snd fs)
   \<and> fsc_smallest (scan_of lower fs sc) = foldl min (fsc_smallest sc) (map snd fs)"
  by (induction fs arbitrary: sc) (simp_all add: scan_of_def collect_file_def Let_def add.assoc split: prod.split)

lemma unat_sum_list:
  "(\<Sum>n\<leftarrow>xs. unat n) < 2 ^ LENGTH('a) \<Longrightarrow> unat (sum_list xs) = (\<Sum>n\<leftarrow>xs. unat n)" for xs :: "'a::len word list"
  by (induction xs) (simp_all add: unat_word_ariths)

lemma foldl_max_word: "foldl max a xs \<in> insert a (set xs) \<and> (\<forall>x \<in> insert a (set xs). x \<le> foldl max a xs)" for a :: "'a::linorder"
proof (induction xs arbitrary: a)
  case (Cons x xs)
  show ?case using Cons.IH [of "max a x"] max.bounded_iff [of a x "foldl max (max a x) xs"]
    by (cases "a \<le> x") (auto simp: max_absorb1 max_absorb2)
qed simp

lemma foldl_min_word: "foldl min a xs \<in> insert a (set xs) \<and> (\<forall>x \<in> insert a (set xs). foldl min a xs \<le> x)" for a :: "'a::linorder"
proof (induction xs arbitrary: a)
  case (Cons x xs)
  show ?case using Cons.IH [of "min a x"] min.bounded_iff [of  "foldl min (min a x) xs" a x]
    by (cases "a \<le> x") (auto simp: min_absorb1 min_absorb2)
qed simp

lemma sum_between:
  "\<forall>n \<in> set xs. lo \<le> n \<and> n \<le> hi \<Longrightarrow> length xs * lo \<le> sum_list xs \<and> sum_list xs \<le> length xs * hi" for lo hi :: nat
  by (induction xs) auto

lemma average_between:
  assumes "\<forall>n \<in> set xs. lo \<le> n \<and> n \<le> hi" "xs \<noteq> []"
  shows "lo \<le> sum_list xs div length xs \<and> sum_list xs div length xs \<le> (hi :: nat)"
proof -
  have len: "0 < length xs" using assms(2) by simp
  note s = sum_between [OF assms(1)]
  have "lo \<le> sum_list xs div length xs"
    using s less_eq_div_iff_mult_less_eq [OF len] by (simp add: mult.commute)
  moreover have "sum_list xs div length xs \<le> (length xs * hi) div length xs" using s by (intro div_le_mono) simp
  ultimately show ?thesis using len by simp
qed

text \<open>The analysis of the paths of a transfer: its entries are the regular files below them in the order of the walk, and
  where the sizes add up to less than \<open>2^64 - 1\<close>, total, largest, smallest and average size are those of the files.\<close>

theorem analysis_totals:
  assumes "concat (map (path_files fs) paths) = fls" "fls \<noteq> []" "length fls < 2 ^ 32" "(\<Sum>n\<leftarrow>map snd fls. unat n) < 2 ^ 64 - 1"
    and "analyze_files rnd lower ord fs paths = an"
  shows "map fen_size (fan_entries an) = map snd fls \<and> unat (fan_count an) = length fls
    \<and> unat (fan_total an) = (\<Sum>n\<leftarrow>map snd fls. unat n)
    \<and> fan_largest an = Max (set (map snd fls)) \<and> fan_smallest an = Min (set (map snd fls))
    \<and> unat (fan_average an) = unat (fan_total an) div length fls
    \<and> fan_smallest an \<le> fan_average an \<and> fan_average an \<le> fan_largest an"
proof -
  let ?ns = "map snd fls" let ?sc = "scan_of lower fls scan_new"
  have sc: "map fen_size (fsc_entries ?sc) = ?ns" "fsc_total ?sc = sum_list ?ns"
    "fsc_largest ?sc = foldl max 0 ?ns" "fsc_smallest ?sc = foldl min (- 1) ?ns"
    using scan_of_facts [of lower fls scan_new] by (simp_all add: scan_new_def)
  have len: "length (fsc_entries ?sc) = length fls" using sc(1) by (metis length_map)
  have n: "unat (of_nat (length fls) :: u32) = length fls" using assms(3) by (simp add: unsigned_of_nat take_bit_nat_eq_self)
  then have n0: "(of_nat (length fls) :: u32) \<noteq> 0" using assms(2) by (metis length_0_conv unsigned_0)
  have tot: "unat (sum_list ?ns) = (\<Sum>n\<leftarrow>?ns. unat n)" by (rule unat_sum_list) (use assms(4) in simp)
  have ne: "set ?ns \<noteq> {}" using assms(2) by simp
  have mem: "unat x \<le> (\<Sum>n\<leftarrow>?ns. unat n)" if "x \<in> set ?ns" for x
    by (rule member_le_sum_list) (use imageI [OF that, of unat] in \<open>simp only: set_map\<close>, simp)
  obtain x where x: "x \<in> set ?ns" using ne ex_in_conv by metis
  have "foldl max 0 ?ns \<in> set ?ns"
    using foldl_max_word [of 0 ?ns] x by (metis insertE insertI2 word_le_0_iff)
  then have mx: "foldl max 0 ?ns = Max (set ?ns)"
    using foldl_max_word [of 0 ?ns] by (intro Max_eqI [symmetric]) auto
  have "Max (set ?ns) \<in> set ?ns" using ne by (intro Max_in) simp_all
  have "foldl min (- 1) ?ns \<in> set ?ns"
    using foldl_min_word [of "- 1" ?ns] x by (metis insertE insertI2 word_order.extremum_unique)
  then have mn: "foldl min (- 1) ?ns = Min (set ?ns)"
    using foldl_min_word [of "- 1" ?ns] by (intro Min_eqI [symmetric]) auto
  have min_in: "Min (set ?ns) \<in> set ?ns" using ne by (intro Min_in) simp_all
  then have "unat (Min (set ?ns)) < 2 ^ 64 - 1" using mem assms(4) by fastforce
  moreover have "unat (- 1 :: u64) = 2 ^ 64 - 1" by (simp add: unsigned_minus_1_eq_mask mask_eq_exp_minus_1)
  ultimately have small: "Min (set ?ns) \<noteq> - 1" by auto
  have an: "an = analysis_of rnd ord ?sc" using assms(1,5) by (simp add: analyze_files_def fold_collect_files)
  have avg: "unat (sum_list ?ns div ucast (of_nat (length fls) :: u32)) = (\<Sum>n\<leftarrow>?ns. unat n) div length fls"
    using assms(3) by (simp add: unat_div tot unsigned_ucast_eq n take_bit_nat_eq_self)
  have "unat (Min (set ?ns)) \<le> (\<Sum>n\<leftarrow>?ns. unat n) div length fls \<and> (\<Sum>n\<leftarrow>?ns. unat n) div length fls \<le> unat (Max (set ?ns))"
    using average_between [of "map unat ?ns" "unat (Min (set ?ns))" "unat (Max (set ?ns))"] assms(2)
    by (simp add: word_le_nat_alt [symmetric])
  then show ?thesis
    unfolding an analysis_of_def Let_def len using n0 n tot avg small
    by (simp add: sc mx mn word_le_nat_alt)
qed

theorem analysis_totals_witness:
  "unat (fan_total (analyze_files Fin id id (\<lambda>_. Some (FsDir [(''a'', FsFile (Some 10)), (''b'', FsFile (Some 20))])) [''/d''])) = 30"
  using analysis_totals [of "\<lambda>_. Some (FsDir [(''a'', FsFile (Some 10)), (''b'', FsFile (Some 20))])" "[''/d'']"
      "[(''/d/a'', 10), (''/d/b'', 20)]" Fin id id, OF _ _ _ _ refl]
  by (simp add: path_files_def join_path_def)

text \<open>The bounds of every profile, whatever the probes return: buffers of 64 KiB to 16 MiB, at most 512 KiB on a
  rotating disk, chunks as large as the buffer, socket buffers of 64 KiB to 16 MiB, and 1, 2, 4, 6 or 8
  streams, more than one only for parallel ranges.\<close>

theorem profile_bounds:
  "(let p = build_profile rnd net an sys remote in
     64 \<le> tpf_buffer_kb p \<and> tpf_buffer_kb p \<le> (if syi_disk sys = DkHdd then 512 else 16384) \<and> unat (tpf_chunk p) = unat (tpf_buffer_kb p) * 1024
     \<and> 65536 \<le> tpf_socket p \<and> tpf_socket p \<le> 16777216
     \<and> tpf_streams p \<in> {1, 2, 4, 6, 8} \<and> (tpf_streams p = 1 \<or> tpf_strategy p = StParallel))"
proof -
  let ?kb = "calc_buffer_size rnd net sys"
  let ?b = "\<lambda>x :: u64. min (max (x div 1024) 64) 16384"
  have b: "64 \<le> unat (?b x) \<and> unat (?b x) \<le> 16384" for x
    by (auto simp: unat_min_word unat_max_word)
  have u: "unat (ucast (?b x) :: u32) = unat (?b x)" for x
    using b [of x] by (simp add: unsigned_ucast_eq take_bit_nat_eq_self)
  have kb: "64 \<le> unat ?kb" "unat ?kb \<le> 16384" "syi_disk sys = DkHdd \<Longrightarrow> unat ?kb \<le> 512"
    using b u by (auto simp: calc_buffer_size_def Let_def unat_min_word contains_def)
  have "unat (ucast ?kb * 1024 :: u64) = unat ?kb * 1024"
    using kb(2) by (simp add: unat_word_ariths unsigned_ucast_eq take_bit_nat_eq_self)
  moreover have "tpf_streams (build_profile rnd net an sys remote) \<in> {1, 2, 4, 6, 8}"
    by (cases "select_strategy net an remote") (simp_all add: build_profile_def calc_stream_count_def Let_def)
  moreover have "calc_stream_count net st = 1 \<or> st = StParallel" for st
    by (cases st) (simp_all add: calc_stream_count_def)
  ultimately show ?thesis
    using kb by (simp add: build_profile_def Let_def word_le_nat_alt unat_min_word unat_max_word)
qed

end
