(* ===== verification/Cli_Telemetry.thy ===== *)
theory Cli_Telemetry
  imports Transfer_Profile
begin

text \<open>
  The records of transfers the command line client keeps: the session with its statistics (\<^verbatim>\<open>cli/src/telemetry.rs\<close>) and
  the tracker that fills it during a transfer (\<^verbatim>\<open>cli/src/file.rs\<close>). The texts of times, their parser and the output of
  \<^verbatim>\<open>df\<close> are arguments; times are in milliseconds.
\<close>

section \<open>Sessions\<close>

record phase_record =
  phr_name :: string
  phr_start :: fl
  phr_end :: "fl option"
  phr_duration :: "fl option"

record speed_sample =
  sps_offset :: fl
  sps_mbps :: fl

record network_change =
  nch_time :: string
  nch_interface :: string
  nch_ip :: string
  nch_rssi :: "fl option"
  nch_link :: "fl option"
  nch_event :: string

record protocol_event =
  pev_time :: string
  pev_type :: string
  pev_detail :: string

record cli_session =
  cse_id :: string
  cse_filename :: string
  cse_file_type :: string
  cse_extension :: string
  cse_original :: u64
  cse_compressed :: "u64 option"
  cse_ratio :: "fl option"
  cse_compress_ms :: "u64 option"
  cse_compress_cpu :: "fl option"
  cse_saved :: "u64 option"
  cse_time_saved :: "fl option"
  cse_start :: string
  cse_end :: "string option"
  cse_duration :: "fl option"
  cse_sha256 :: "string option"
  cse_avg :: fl
  cse_peak :: fl
  cse_min :: fl
  cse_median :: fl
  cse_p95 :: fl
  cse_loss :: fl
  cse_retransmissions :: u64
  cse_reconnects :: u32
  cse_disk_read :: fl
  cse_disk_write :: fl
  cse_peak_cpu :: fl
  cse_completed :: bool
  cse_verified :: bool
  cse_resumed :: bool
  cse_interrupted :: bool
  cse_error :: "string option"
  cse_health :: "fl option"
  cse_bottleneck :: "string option"
  cse_recommendation :: "string option"
  cse_phases :: "phase_record list"
  cse_speeds :: "speed_sample list"
  cse_changes :: "network_change list"
  cse_events :: "protocol_event list"

text \<open>Of the fields that nothing in these files reads or sets after the start (round-trip times, queue depth, flush
  latency, buffered bytes, averages of processor and memory) none is modelled.\<close>

definition new_transfer_session :: "string \<Rightarrow> nat \<Rightarrow> string \<Rightarrow> u64 \<Rightarrow> cli_session" where
  "new_transfer_session now counter filename fsize =
    \<lparr>cse_id = ''txn_'' @ show_nat counter, cse_filename = filename, cse_file_type = path_extension filename,
     cse_extension = path_extension filename, cse_original = fsize, cse_compressed = None, cse_ratio = None,
     cse_compress_ms = None, cse_compress_cpu = None, cse_saved = None, cse_time_saved = None, cse_start = now, cse_end = None,
     cse_duration = None, cse_sha256 = None, cse_avg = Fin 0, cse_peak = Fin 0, cse_min = f64_max, cse_median = Fin 0,
     cse_p95 = Fin 0, cse_loss = Fin 0, cse_retransmissions = 0, cse_reconnects = 0, cse_disk_read = Fin 0,
     cse_disk_write = Fin 0, cse_peak_cpu = Fin 0, cse_completed = False, cse_verified = False, cse_resumed = False,
     cse_interrupted = False, cse_error = None, cse_health = None, cse_bottleneck = None, cse_recommendation = None,
     cse_phases = [], cse_speeds = [], cse_changes = [], cse_events = []\<rparr>"

definition clamp_score :: "fl \<Rightarrow> fl" where "clamp_score x = fl_min (fl_max x (Fin 0)) (Fin 100)"

definition compute_health_score :: "rounding \<Rightarrow> cli_session \<Rightarrow> fl" where
  "compute_health_score rnd s =
    (let minus = (\<lambda>c x sc. if c then fl_sub rnd sc x else sc) in
     clamp_score
      (minus (fl_less (Fin 90) (cse_peak_cpu s)) (Fin 5)
      (minus (fl_less (cse_avg s) (Fin 1)) (Fin 10)
      (minus (fl_less (Fin 1) (cse_loss s)) (fl_min (fl_mul rnd (cse_loss s) (Fin 2)) (Fin 15))
      (minus (cse_resumed s) (Fin 5)
      (minus (cse_reconnects s > 0) (fl_mul rnd (fl_of_u32 rnd (cse_reconnects s)) (Fin 5))
      (minus (cse_error s \<noteq> None) (Fin 15)
      (minus (cse_interrupted s) (Fin 20) (Fin 100)))))))))"

definition detect_bottleneck :: "rounding \<Rightarrow> cli_session \<Rightarrow> fl \<Rightarrow> string \<times> string" where
  "detect_bottleneck rnd s mbps =
    (let disk = fl_max (cse_disk_write s) (cse_disk_read s); cpu = cse_peak_cpu s in
     if fl_less (Fin 90) cpu \<and> fl_less disk (fl_mul rnd mbps (Fin (1/2)))
     then (''CPU'', ''High CPU usage is limiting throughput.'')
     else if fl_less disk (fl_mul rnd mbps (rnd (3/10))) \<and> fl_less (Fin 0) disk
     then (''Receiver Disk'', ''Receiver storage is limiting throughput.'')
     else if fl_less (Fin 2) (cse_loss s) then (''Network'', ''High packet loss is degrading performance.'')
     else if cse_retransmissions s > 100 then (''Network'', ''Excessive retransmissions detected.'')
     else if fl_less (Fin 80) cpu then (''CPU'', ''Disable compression for this file type.'')
     else (''Network'', ''Network bandwidth is the limiting factor.''))"

text \<open>\<^verbatim>\<open>sort_by\<close> with \<^verbatim>\<open>partial_cmp\<close>, a stable sort; a NaN makes its \<^verbatim>\<open>unwrap\<close> panic (no value).\<close>

fun fl_insert :: "fl \<Rightarrow> fl list \<Rightarrow> fl list" where
  "fl_insert x [] = [x]"
| "fl_insert x (y # ys) = (if fl_less y x then y # fl_insert x ys else x # y # ys)"

definition fl_sort :: "fl list \<Rightarrow> fl list option" where
  "fl_sort xs = (if length xs > 1 \<and> NaN \<in> set xs then None else Some (foldr fl_insert xs []))"

definition speed_stats :: "rounding \<Rightarrow> cli_session \<Rightarrow> cli_session option" where
  "speed_stats rnd s =
    (let speeds = map sps_mbps (cse_speeds s); n = length speeds in
     if speeds = [] then Some s
     else
       map_option (\<lambda>sorted.
         s\<lparr>cse_avg := fl_mean rnd speeds, cse_peak := foldl fl_max (Fin 0) speeds, cse_min := foldl fl_min f64_max speeds,
           cse_median := sorted ! (n div 2),
           cse_p95 := fl_min (sorted ! (unat (fl_as_u64 (fl_mul rnd (rnd (of_nat n)) (rnd (95/100)))))) (sorted ! (n - 1))\<rparr>)
         (fl_sort speeds))"

definition compression_stats :: "rounding \<Rightarrow> cli_session \<Rightarrow> cli_session" where
  "compression_stats rnd s =
    (case cse_compressed s of
       Some c \<Rightarrow>
         if cse_original s > 0 \<and> c < cse_original s
         then s\<lparr>cse_ratio := Some (fl_div rnd (fl_of_u64 rnd c) (fl_of_u64 rnd (cse_original s))), cse_saved := Some (cse_original s - c)\<rparr>
         else s
     | None \<Rightarrow> s)"

text \<open>\<open>now\<close> is the text of the present; \<open>since\<close> parses a start time as RFC 3339 and gives the milliseconds since.\<close>

definition finalize_session :: "rounding \<Rightarrow> string \<Rightarrow> (string \<Rightarrow> int option) \<Rightarrow> fl \<Rightarrow> cli_session \<Rightarrow> cli_session option" where
  "finalize_session rnd now since mbps s0 =
    (let s1 = s0\<lparr>cse_end := Some now\<rparr>;
         s2 = (case since (cse_start s1) of
             Some ms \<Rightarrow> s1\<lparr>cse_duration := Some (fl_div rnd (rnd (of_int ms)) (Fin 1000))\<rparr> | None \<Rightarrow> s1) in
     map_option (\<lambda>s3.
       let s4 = compression_stats rnd s3; (b, r) = detect_bottleneck rnd s4 mbps;
           s5 = s4\<lparr>cse_bottleneck := Some b, cse_recommendation := Some r\<rparr> in
       s5\<lparr>cse_health := Some (compute_health_score rnd s5)\<rparr>)
       (speed_stats rnd s2))"

record storage_info =
  sti_total :: fl
  sti_free :: fl
  sti_file :: fl
  sti_remaining :: fl
  sti_enough :: bool

text \<open>\<^verbatim>\<open>df -k\<close>: the second and fourth words of the first line after the heading that has four.\<close>

definition get_storage_info :: "rounding \<Rightarrow> (string \<Rightarrow> fl) \<Rightarrow> (string \<Rightarrow> string list) \<Rightarrow> u64 \<Rightarrow> string option \<Rightarrow> storage_info" where
  "get_storage_info rnd f64_or_0 words_of fsize df =
    (let gb = (\<lambda>x. fl_div rnd x (Fin 1000000000)); size_f = fl_of_u64 rnd fsize in
     case Option.bind df (\<lambda>out. find (\<lambda>ws. length ws \<ge> 4) (map words_of (drop 1 (str_lines out)))) of
       Some ws \<Rightarrow>
         (let space = fl_mul rnd (f64_or_0 (ws ! 1)) (Fin 1024); free = fl_mul rnd (f64_or_0 (ws ! 3)) (Fin 1024) in
          \<lparr>sti_total = gb space, sti_free = gb free, sti_file = gb size_f, sti_remaining = gb (fl_sub rnd free size_f),
           sti_enough = fl_less size_f free\<rparr>)
     | None \<Rightarrow> \<lparr>sti_total = Fin 0, sti_free = Fin 0, sti_file = gb size_f, sti_remaining = Fin 0, sti_enough = False\<rparr>)"

section \<open>The tracker\<close>

record transfer_tracker =
  ttr_session :: cli_session
  ttr_start :: instant
  ttr_phase :: string
  ttr_last :: instant
  ttr_bytes :: u64
  ttr_sent :: u64

definition tracker_start :: "instant \<Rightarrow> cli_session \<Rightarrow> transfer_tracker" where
  "tracker_start now s = \<lparr>ttr_session = s, ttr_start = now, ttr_phase = [], ttr_last = now, ttr_bytes = 0, ttr_sent = 0\<rparr>"

definition elapsed_ms :: "rounding \<Rightarrow> instant \<Rightarrow> transfer_tracker \<Rightarrow> fl" where
  "elapsed_ms rnd now t = fl_mul rnd (as_secs rnd (now - ttr_start t)) (Fin 1000)"

definition close_phase :: "rounding \<Rightarrow> fl \<Rightarrow> phase_record list \<Rightarrow> phase_record list" where
  "close_phase rnd now ps =
    (if ps = [] then []
     else butlast ps @ [(last ps)\<lparr>phr_end := Some now, phr_duration := Some (fl_sub rnd now (phr_start (last ps)))\<rparr>])"

definition begin_phase :: "rounding \<Rightarrow> instant \<Rightarrow> string \<Rightarrow> transfer_tracker \<Rightarrow> transfer_tracker" where
  "begin_phase rnd now name t =
    (let ms = elapsed_ms rnd now t;
         ps = (if ttr_phase t \<noteq> [] then close_phase rnd ms (cse_phases (ttr_session t)) else cse_phases (ttr_session t)) in
     t\<lparr>ttr_phase := name,
       ttr_session := (ttr_session t)\<lparr>cse_phases := ps @ [\<lparr>phr_name = name, phr_start = ms, phr_end = None, phr_duration = None\<rparr>]\<rparr>\<rparr>)"

definition end_phase :: "rounding \<Rightarrow> instant \<Rightarrow> transfer_tracker \<Rightarrow> transfer_tracker" where
  "end_phase rnd now t =
    t\<lparr>ttr_phase := [],
      ttr_session := (ttr_session t)\<lparr>cse_phases := close_phase rnd (elapsed_ms rnd now t) (cse_phases (ttr_session t))\<rparr>\<rparr>"

definition record_speed :: "rounding \<Rightarrow> instant \<Rightarrow> u64 \<Rightarrow> transfer_tracker \<Rightarrow> transfer_tracker" where
  "record_speed rnd now n t =
    (let t1 = t\<lparr>ttr_bytes := ttr_bytes t + n, ttr_sent := ttr_sent t + n\<rparr>;
         elapsed = as_secs rnd (now - ttr_last t) in
     if fl_less elapsed (Fin (1/2)) \<or> elapsed = NaN then t1
     else t1\<lparr>ttr_bytes := 0, ttr_last := now,
       ttr_session := (ttr_session t1)\<lparr>cse_speeds := cse_speeds (ttr_session t1) @
         [\<lparr>sps_offset = as_secs rnd (now - ttr_start t),
           sps_mbps = fl_div rnd (fl_mul rnd (fl_of_u64 rnd (ttr_bytes t1)) (Fin 8)) (fl_mul rnd elapsed (Fin 1000000))\<rparr>]\<rparr>\<rparr>)"

definition record_network_change :: "string \<Rightarrow> string \<Rightarrow> string \<Rightarrow> string \<Rightarrow> transfer_tracker \<Rightarrow> transfer_tracker" where
  "record_network_change now ifc ip event t =
    t\<lparr>ttr_session := (ttr_session t)\<lparr>
      cse_changes := cse_changes (ttr_session t) @
        [\<lparr>nch_time = now, nch_interface = ifc, nch_ip = ip, nch_rssi = None, nch_link = None, nch_event = event\<rparr>],
      cse_reconnects := cse_reconnects (ttr_session t) + 1\<rparr>\<rparr>"

definition record_protocol_event :: "string \<Rightarrow> string \<Rightarrow> string \<Rightarrow> transfer_tracker \<Rightarrow> transfer_tracker" where
  "record_protocol_event now ty detail t =
    t\<lparr>ttr_session := (ttr_session t)\<lparr>cse_events := cse_events (ttr_session t) @ [\<lparr>pev_time = now, pev_type = ty, pev_detail = detail\<rparr>]\<rparr>\<rparr>"

definition set_compression_stats :: "rounding \<Rightarrow> u64 \<Rightarrow> u64 \<Rightarrow> u64 \<Rightarrow> fl \<Rightarrow> transfer_tracker \<Rightarrow> transfer_tracker" where
  "set_compression_stats rnd original compressed ms cpu t =
    (let rate = Fin (100 * 1024 * 1024);
         o_time = fl_div rnd (fl_of_u64 rnd original) rate; c_time = fl_div rnd (fl_of_u64 rnd compressed) rate;
         s = ttr_session t in
     t\<lparr>ttr_session := s\<lparr>cse_compressed := Some compressed,
         cse_ratio := Some (fl_div rnd (fl_of_u64 rnd compressed) (fl_of_u64 rnd original)),
         cse_compress_ms := Some ms, cse_compress_cpu := Some cpu,
         cse_saved := (if compressed < original then Some (original - compressed) else cse_saved s),
         cse_time_saved := Some (fl_max (fl_sub rnd o_time c_time) (Fin 0))\<rparr>\<rparr>)"

definition tracker_complete :: "rounding \<Rightarrow> instant \<Rightarrow> string \<Rightarrow> (string \<Rightarrow> int option) \<Rightarrow> fl \<Rightarrow> transfer_tracker \<Rightarrow> cli_session option" where
  "tracker_complete rnd now stamp since mbps t =
    finalize_session rnd stamp since mbps
      ((ttr_session (end_phase rnd now t))\<lparr>cse_completed := True, cse_interrupted := False\<rparr>)"

definition tracker_fail :: "rounding \<Rightarrow> instant \<Rightarrow> string \<Rightarrow> (string \<Rightarrow> int option) \<Rightarrow> string \<Rightarrow> transfer_tracker \<Rightarrow> cli_session option" where
  "tracker_fail rnd now stamp since e t =
    finalize_session rnd stamp since (Fin 0)
      ((ttr_session (end_phase rnd now t))\<lparr>cse_completed := False, cse_interrupted := True, cse_error := Some e\<rparr>)"

definition store_session :: "cli_session \<Rightarrow> cli_session list \<Rightarrow> cli_session list" where
  "store_session s sessions =
    (let ss = sessions @ [s] in if length ss > 100 then tl ss else ss)"

definition no_compress_extensions :: "string list" where
  "no_compress_extensions =
    [''mp4'', ''mp3'', ''zip'', ''gz'', ''bz2'', ''xz'', ''jpg'', ''jpeg'',
     ''png'', ''gif'', ''webp'', ''webm'', ''mkv'', ''avi'', ''mov'',
     ''flac'', ''ogg'', ''m4a'', ''pdf'', ''docx'', ''xlsx'', ''pptx'']"

definition should_compress :: "string \<Rightarrow> bool" where
  "should_compress filename \<longleftrightarrow> path_extension filename \<notin> set no_compress_extensions"

section \<open>Facts\<close>

lemma health_bounded: "clamp_score x = Fin q \<Longrightarrow> 0 \<le> q \<and> q \<le> 100"
  by (cases x) (auto simp: clamp_score_def fl_min_def fl_max_def split: if_splits)

lemma sessions_bounded: "length ss \<le> 100 \<Longrightarrow> length (store_session s ss) \<le> 100"
  by (simp add: store_session_def Let_def)

end
