(* ===== verification/Cli_Engine.thy ===== *)
theory Cli_Engine
  imports Http_Upload Cli_Telemetry Cli_Classifier
begin

text \<open>
  The transfer of the command line client from end to end: the exchange of capabilities (\<^verbatim>\<open>capabilities.rs\<close>, the probes
  of \<^verbatim>\<open>network.rs\<close>), the functions over HTTP (\<^verbatim>\<open>http_transfer.rs\<close>, \<^verbatim>\<open>strategy.rs\<close>) and the engine that picks
  one of them by its profile (\<^verbatim>\<open>transfer_engine/mod.rs\<close>). Connections, their replies, JSON and the clock are
  arguments; the uploads are those of \<open>Http_Upload\<close>, whose result is an argument here.
\<close>

section \<open>Capabilities\<close>

record hardware_capabilities =
  hwc_arch :: string
  hwc_cores :: u32
  hwc_p_cores :: u32
  hwc_e_cores :: u32
  hwc_ram_mb :: u64
  hwc_storage :: string
  hwc_read_mbps :: fl
  hwc_write_mbps :: fl
  hwc_free_gb :: fl

record network_capabilities =
  nwc_interface :: string
  nwc_link_mbps :: fl
  nwc_rtt :: fl
  nwc_bandwidth :: fl
  nwc_mtu :: u16

record dynamic_telemetry =
  dyt_battery :: fl
  dyt_charging :: bool
  dyt_thermal :: string
  dyt_cpu_load :: fl
  dyt_memory :: string
  dyt_disk :: fl

record supported_features =
  sft_zero_copy :: bool
  sft_parallel_upload :: bool
  sft_parallel_download :: bool
  sft_resume :: bool
  sft_directory :: bool
  sft_compression :: "string list"
  sft_integrity :: "string list"
  sft_http2 :: bool
  sft_http3 :: bool

record capability_exchange =
  cex_version :: string
  cex_node :: string
  cex_hardware :: hardware_capabilities
  cex_network :: network_capabilities
  cex_state :: dynamic_telemetry
  cex_features :: supported_features

definition replace_spaces :: "string \<Rightarrow> string" where
  "replace_spaces s = map (\<lambda>c. if c = CHR '' '' then CHR ''_'' else c) s"

text \<open>On Linux the local interface is taken for one of 1 Gbit/s. The node's name is an argument, where it has one.\<close>

definition local_capabilities :: "string \<Rightarrow> system_info \<Rightarrow> dynamic_telemetry \<Rightarrow> string option \<Rightarrow> capability_exchange" where
  "local_capabilities arch sys state node =
    \<lparr>cex_version = ''1.0'', cex_node = (case node of Some i \<Rightarrow> i | None \<Rightarrow> ''unknown''),
     cex_hardware = \<lparr>hwc_arch = arch, hwc_cores = syi_cores sys, hwc_p_cores = syi_cores sys, hwc_e_cores = 0,
       hwc_ram_mb = syi_ram_mb sys, hwc_storage = replace_spaces (map ascii_lower (disk_label (syi_disk sys))),
       hwc_read_mbps = fl_max (syi_read_mbps sys) (Fin 1), hwc_write_mbps = fl_max (syi_write_mbps sys) (Fin 1),
       hwc_free_gb = syi_free_gb sys\<rparr>,
     cex_network = \<lparr>nwc_interface = ''Ethernet1G'', nwc_link_mbps = Fin 1000, nwc_rtt = Fin 0, nwc_bandwidth = Fin 0, nwc_mtu = 1500\<rparr>,
     cex_state = state,
     cex_features = \<lparr>sft_zero_copy = syi_sendfile sys, sft_parallel_upload = True, sft_parallel_download = False, sft_resume = True,
       sft_directory = True, sft_compression = [''none''], sft_integrity = [''sha256''], sft_http2 = False, sft_http3 = False\<rparr>\<rparr>"

definition collect_telemetry :: "string option \<Rightarrow> fl option \<Rightarrow> dynamic_telemetry" where
  "collect_telemetry thermal cpu =
    \<lparr>dyt_battery = Fin 100, dyt_charging = True, dyt_thermal = (case thermal of Some t \<Rightarrow> t | None \<Rightarrow> ''nominal''),
     dyt_cpu_load = (case cpu of Some x \<Rightarrow> x | None \<Rightarrow> Fin 0), dyt_memory = ''low'', dyt_disk = Fin 0\<rparr>"

definition hello_request :: "string \<Rightarrow> u16 \<Rightarrow> string \<Rightarrow> string" where
  "hello_request host port body =
    ''POST /api/handshake HTTP/1.1'' @ crlf @ ''Host: '' @ host @ '':'' @ show_nat (unat port) @ crlf
    @ ''Content-Type: application/json'' @ crlf @ ''Content-Length: '' @ show_nat (length body) @ crlf
    @ ''Connection: close'' @ crlf @ crlf @ body"

text \<open>What follows the first empty line of a response.\<close>

definition response_body :: "string \<Rightarrow> string option" where
  "response_body resp = map_option (\<lambda>i. drop (i + 4) resp) (str_find (crlf @ crlf) resp)"

definition hello_handshake :: "(string \<Rightarrow> string + capability_exchange) \<Rightarrow> (anyhow + bytes) \<Rightarrow> anyhow + capability_exchange" where
  "hello_handshake parse reply =
    bind_res reply (\<lambda>buf.
      let resp = from_utf8_lossy buf;
          failed = Inl (''Handshake failed: '' @ (case str_lines resp of l # _ \<Rightarrow> l | [] \<Rightarrow> ''?'')) in
      case response_body resp of
        Some body \<Rightarrow>
          if contains resp ''200 OK'' then
            (case parse body of
               Inl e \<Rightarrow> Inl (''Handshake parse error: '' @ e @ '' '' @ em_dash @ '' body: '' @ concat (take 200 (str_chars body)))
             | Inr caps \<Rightarrow> Inr caps)
          else failed
      | None \<Rightarrow> failed)"

definition handshake_capabilities :: "capability_exchange \<Rightarrow> remote_capabilities" where
  "handshake_capabilities r =
    \<lparr>rmc_range = sft_resume (cex_features r), rmc_http2 = sft_http2 (cex_features r), rmc_http3 = sft_http3 (cex_features r),
     rmc_quic = sft_http3 (cex_features r), rmc_max_connections = (if sft_parallel_upload (cex_features r) then 8 else 1),
     rmc_load = dyt_cpu_load (cex_state r), rmc_tls = ''handshake''\<rparr>"

text \<open>The capabilities API: the fields of the JSON object in the first 4096 bytes.\<close>

datatype api_value = AvBool bool | AvNumber json_number | AvOther

definition api_capabilities :: "(string \<Rightarrow> api_value option) \<Rightarrow> remote_capabilities" where
  "api_capabilities v =
    (let flag = (\<lambda>k. case v k of Some (AvBool b) \<Rightarrow> b | _ \<Rightarrow> False) in
     \<lparr>rmc_range = flag ''supports_range'', rmc_http2 = flag ''supports_http2'', rmc_http3 = False, rmc_quic = False,
      rmc_max_connections = ucast (case v ''max_parallel_connections'' of
          Some (AvNumber n) \<Rightarrow> (case as_u64 n of Some x \<Rightarrow> x | None \<Rightarrow> 8) | _ \<Rightarrow> 8),
      rmc_load = Fin 0, rmc_tls = ''none''\<rparr>)"

definition fetch_capabilities ::
  "(string \<Rightarrow> (string \<Rightarrow> api_value option) option) \<Rightarrow> bytes option \<Rightarrow> remote_capabilities option" where
  "fetch_capabilities parse first_read =
    Option.bind first_read (\<lambda>buf.
      Option.bind (response_body (from_utf8_lossy (take 4096 buf))) (\<lambda>body. map_option api_capabilities (parse body)))"

definition probe_http_range :: "(string \<Rightarrow> string) \<Rightarrow> bytes option \<Rightarrow> bool" where
  "probe_http_range lower first_read =
    (case first_read of
       Some buf \<Rightarrow> (let resp = lower (from_utf8_lossy (take 4096 buf)) in
          contains resp ''accept-ranges: bytes'' \<or> contains resp ''content-range'')
     | None \<Rightarrow> False)"

definition probe_remote ::
  "(anyhow + capability_exchange) \<Rightarrow> remote_capabilities option \<Rightarrow> bool \<Rightarrow> remote_capabilities" where
  "probe_remote handshake api ranged =
    (case handshake of
       Inr r \<Rightarrow> handshake_capabilities r
     | Inl _ \<Rightarrow>
         (case api of
            Some c \<Rightarrow> c
          | None \<Rightarrow> \<lparr>rmc_range = ranged, rmc_http2 = False, rmc_http3 = False, rmc_quic = False, rmc_max_connections = 8,
               rmc_load = Fin 0, rmc_tls = ''none''\<rparr>))"

section \<open>Transfers over HTTP\<close>

definition shown_name :: "string \<Rightarrow> string option \<Rightarrow> string" where
  "shown_name local_path remote =
    (case remote of
       Some n \<Rightarrow> n
     | None \<Rightarrow> (case path_file_name local_path of Some n \<Rightarrow> if utf8_valid n then n else ''file'' | None \<Rightarrow> ''file''))"

definition upload_options :: "u64 option \<Rightarrow> transfer_options" where
  "upload_options chunk =
    (case chunk of Some c \<Rightarrow> options_default\<lparr>to_chunk_size := c, to_progress_cb := True\<rparr> | None \<Rightarrow> options_default\<lparr>to_progress_cb := True\<rparr>)"

text \<open>The session an upload returns: the default one with these fields.\<close>

definition session_default :: cli_session where
  "session_default =
    (new_transfer_session [] 0 [] 0)\<lparr>cse_id := [], cse_min := Fin 0\<rparr>"

definition upload_session :: "string \<Rightarrow> (anyhow + upload_result) \<Rightarrow> anyhow + cli_session" where
  "upload_session name res =
    bind_res res (\<lambda>r. Inr (session_default\<lparr>cse_filename := name, cse_original := ur_bytes_sent r, cse_avg := ur_speed_mbps r\<rparr>))"

text \<open>The head of a response, read byte by byte: the head and what follows it; an error where the stream ends or
  fails first, or the head grows beyond 64 KiB.\<close>

fun read_head :: "bytes \<Rightarrow> anyhow option \<Rightarrow> bytes \<Rightarrow> anyhow + (bytes \<times> bytes)" where
  "read_head acc fail [] =
    Inl (case fail of Some e \<Rightarrow> e | None \<Rightarrow> ''Connection closed while reading headers'')"
| "read_head acc fail (b # bs) =
    (let acc' = acc @ [b] in
     if drop (length acc' - 4) acc' = as_bytes (crlf @ crlf) then Inr (acc', bs)
     else if length acc' > 65536 then Inl ''Response headers too large''
     else read_head acc' fail bs)"

record download_world =
  dlw_connect :: "anyhow option"
  dlw_request :: "anyhow option"
  dlw_incoming :: bytes
  dlw_fail :: "anyhow option"
  dlw_mkdir :: "anyhow option"
  dlw_create :: "anyhow option"
  dlw_write :: "(nat \<times> anyhow) option"
  dlw_t0 :: instant
  dlw_t1 :: instant
  dlw_stamp0 :: string
  dlw_stamp1 :: string
  dlw_counter :: nat
  dlw_since :: "string \<Rightarrow> int option"

definition get_request :: "string \<Rightarrow> string \<Rightarrow> string" where
  "get_request host path = ''GET '' @ path @ '' HTTP/1.1'' @ crlf @ ''Host: '' @ host @ crlf @ ''Connection: close'' @ crlf @ crlf"

definition status_200 :: "string \<Rightarrow> bool" where
  "status_200 header \<longleftrightarrow> prefix ''HTTP/1.1 200'' header \<or> prefix ''HTTP/1.0 200'' header"

text \<open>The body goes to the file as it comes: what the file holds in the end, and the number of bytes or the error. The content length
  is only shown to the progress callback.\<close>

definition save_body :: "download_world \<Rightarrow> bytes \<Rightarrow> bytes \<times> (anyhow + u64)" where
  "save_body w body =
    (case dlw_write w of
       Some (n, e) \<Rightarrow>
         if n < length body then (take n body, Inl e)
         else (body, case dlw_fail w of Some e' \<Rightarrow> Inl e' | None \<Rightarrow> Inr (of_nat (length body)))
     | None \<Rightarrow> (body, case dlw_fail w of Some e' \<Rightarrow> Inl e' | None \<Rightarrow> Inr (of_nat (length body))))"

definition downloaded_session :: "rounding \<Rightarrow> download_world \<Rightarrow> string \<Rightarrow> u64 \<Rightarrow> cli_session option" where
  "downloaded_session rnd w path n =
    (let name = (case path_file_name path of Some f \<Rightarrow> if utf8_valid f then f else ''downloaded.bin'' | None \<Rightarrow> ''downloaded.bin'');
         t0 = begin_phase rnd (dlw_t0 w) ''Streaming'' (tracker_start (dlw_t0 w) (new_transfer_session (dlw_stamp0 w) (dlw_counter w) name 0));
         t1 = t0\<lparr>ttr_session := (ttr_session t0)\<lparr>cse_original := n\<rparr>\<rparr>;
         t2 = end_phase rnd (dlw_t1 w) (record_speed rnd (dlw_t1 w) n t1);
         t3 = t2\<lparr>ttr_session := (ttr_session t2)\<lparr>cse_verified := True\<rparr>\<rparr> in
     tracker_complete rnd (dlw_t1 w) (dlw_stamp1 w) (dlw_since w) (Fin 0) t3)"

text \<open>The content of the file where one was created, and the result; no value where completing the session panics.\<close>

definition http_download :: "rounding \<Rightarrow> download_world \<Rightarrow> string \<Rightarrow> bytes option \<times> (anyhow + cli_session) option" where
  "http_download rnd w path =
    (case dlw_connect w of
       Some e \<Rightarrow> (None, Some (Inl e))
     | None \<Rightarrow>
    (case dlw_request w of
       Some e \<Rightarrow> (None, Some (Inl e))
     | None \<Rightarrow>
    (case read_head [] (dlw_fail w) (dlw_incoming w) of
       Inl e \<Rightarrow> (None, Some (Inl e))
     | Inr (head, body) \<Rightarrow>
    (if \<not> status_200 (from_utf8_lossy head) then (None, Some (Inl ''Server returned non-200''))
     else
    (case dlw_mkdir w of
       Some e \<Rightarrow> (None, Some (Inl e))
     | None \<Rightarrow>
    (case dlw_create w of
       Some e \<Rightarrow> (None, Some (Inl e))
     | None \<Rightarrow>
    (case save_body w body of
       (content, Inl e) \<Rightarrow> (Some content, Some (Inl e))
     | (content, Inr n) \<Rightarrow> (Some content, map_option Inr (downloaded_session rnd w path n)))))))))"

section \<open>The engine\<close>

record engine_config =
  egc_host :: string
  egc_port :: u16
  egc_src_paths :: "string list"
  egc_base :: string

record cli_engine =
  egn_profile :: transfer_profile
  egn_learning :: learning_db
  egn_config :: engine_config

text \<open>A transfer the engine starts: an upload of a path (name for the peer, chunk size where it is set), or a download of a remote path
  to a local one.\<close>

datatype engine_call = CallUpload string "string option" "u64 option" | CallDownload string string u64

fun strategy_name :: "transfer_strategy \<Rightarrow> string" where
  "strategy_name StSingle = ''SingleStream''"
| "strategy_name StParallel = ''ParallelRanges''"
| "strategy_name StBatched = ''Batched''"
| "strategy_name StPipelined = ''Pipelined''"

definition learned_record :: "transfer_profile \<Rightarrow> transfer_record" where
  "learned_record p =
    \<lparr>trc_interface_label = interface_label (tpf_interface p), trc_rtt_ms = tpf_rtt p, trc_file_size = tpf_total p,
     trc_file_count = tpf_count p, trc_strategy = strategy_name (tpf_strategy p), trc_streams = tpf_streams p,
     trc_buffer_kb = tpf_buffer_kb p, trc_achieved_mbps = Fin 0, trc_duration_secs = Fin 0, trc_success = True\<rparr>"

definition trim_slashes :: "string \<Rightarrow> string" where
  "trim_slashes s = rev (dropWhile (\<lambda>c. c = CHR ''/'') (rev s))"

definition file_name_or :: "string \<Rightarrow> string \<Rightarrow> string" where
  "file_name_or d path = (case path_file_name path of Some n \<Rightarrow> if utf8_valid n then n else d | None \<Rightarrow> d)"

record engine_env =
  eev_is_dir :: bool
  eev_upload :: "anyhow + upload_result"
  eev_download :: "(anyhow + cli_session) option"
  eev_stamp :: string
  eev_counter :: nat

definition execute_single :: "engine_env \<Rightarrow> cli_engine \<Rightarrow> string \<Rightarrow> engine_call list \<times> (anyhow + cli_session) option \<times> cli_engine" where
  "execute_single env e src =
    (if eev_is_dir env \<and> tpf_count (egn_profile e) > 1 then
       (let name = file_name_or ''dir'' src in
        ([CallUpload src (Some name) None], Some (upload_session name (eev_upload env)), e))
     else
       (let res = upload_session (shown_name src None) (eev_upload env) in
        ([CallUpload src None (Some (tpf_chunk (egn_profile e)))], Some res,
         case res of Inr _ \<Rightarrow> e\<lparr>egn_learning := learning_record (learned_record (egn_profile e)) (egn_learning e)\<rparr> | Inl _ \<Rightarrow> e)))"

definition execute_parallel :: "engine_env \<Rightarrow> cli_engine \<Rightarrow> string \<Rightarrow> string \<Rightarrow> engine_call list \<times> (anyhow + cli_session) option \<times> cli_engine" where
  "execute_parallel env e src base =
    ([CallDownload src (trim_slashes base @ ''/'' @ file_name_or ''file'' src) (tpf_chunk (egn_profile e))], eev_download env, e)"

definition execute_batch :: "engine_env \<Rightarrow> cli_engine \<Rightarrow> engine_call list \<times> (anyhow + cli_session) option \<times> cli_engine" where
  "execute_batch env e =
    (let n = tpf_total (egn_profile e) in
     ([], Some (Inr ((new_transfer_session (eev_stamp env) (eev_counter env) ''batch'' n)\<lparr>cse_original := n\<rparr>)), e))"

text \<open>No value in place of the result where there is no path (a panic).\<close>

definition execute_engine :: "engine_env \<Rightarrow> cli_engine \<Rightarrow> engine_call list \<times> (anyhow + cli_session) option \<times> cli_engine" where
  "execute_engine env e =
    (case egc_src_paths (egn_config e) of
       [] \<Rightarrow> ([], None, e)
     | src # _ \<Rightarrow>
         (case tpf_strategy (egn_profile e) of
            StSingle \<Rightarrow> execute_single env e src
          | StPipelined \<Rightarrow> execute_single env e src
          | StParallel \<Rightarrow> execute_parallel env e src (egc_base (egn_config e))
          | StBatched \<Rightarrow> execute_batch env e))"

record transfer_probes =
  tpr_rounds :: "probe_round list"
  tpr_system :: system_probe
  tpr_remote :: remote_capabilities
  tpr_fs :: "string \<Rightarrow> fs_object option"
  tpr_learned :: "transfer_record list option"

text \<open>From the probes to the result. \<open>lower\<close> and \<open>ord\<close> are those of the analysis.\<close>

definition run_transfer ::
  "rounding \<Rightarrow> (fl \<Rightarrow> fl) \<Rightarrow> (string \<Rightarrow> string) \<Rightarrow> ((string \<times> u32) list \<Rightarrow> (string \<times> u32) list) \<Rightarrow> transfer_probes \<Rightarrow> engine_env
     \<Rightarrow> string \<Rightarrow> u16 \<Rightarrow> string \<Rightarrow> string \<Rightarrow> engine_call list \<times> (anyhow + unit) option" where
  "run_transfer rnd sqrt_of lower ord pr env host port src base =
    (let net = probe_network rnd sqrt_of (tpr_rounds pr);
         an = analyze_files rnd lower ord (tpr_fs pr) [src];
         profile = build_profile rnd net an (probe_system rnd (tpr_system pr)) (tpr_remote pr);
         e = \<lparr>egn_profile = profile, egn_learning = learning_new (tpr_learned pr) 1000,
              egn_config = \<lparr>egc_host = host, egc_port = port, egc_src_paths = [src], egc_base = base\<rparr>\<rparr>;
         (calls, res, _) = execute_engine env e in
     (calls, map_option (\<lambda>r. bind_res r (\<lambda>_. Inr ())) res))"

end
