(* ===== verification/Cli_Engine_Facts.thy ===== *)
theory Cli_Engine_Facts
  imports Cli_Engine
begin

text \<open>
  What the engine of the command line client does with a request to send: which requests end without anything
  being sent, which become downloads, and what a download that is cut off reports.
\<close>

section \<open>Downloads\<close>

lemma read_head_split:
  "read_head acc fail bs = Inr (h, rest) \<Longrightarrow>
    \<exists>c. bs = c @ rest \<and> h = acc @ c \<and> (\<forall>r. read_head acc fail (c @ r) = Inr (h, r))"
proof (induction acc fail bs rule: read_head.induct)
  case (2 acc fail b bs)
  let ?acc = "acc @ [b]"
  show ?case
  proof (cases "drop (length ?acc - 4) ?acc = as_bytes (crlf @ crlf)")
    case True
    then have step: "read_head acc fail (b # r) = Inr (?acc, r)" for r
      by (simp only: read_head.simps Let_def simp_thms if_True)
    with "2.prems" show ?thesis by (intro exI [of _ "[b]"]) (simp del: read_head.simps)
  next
    case False
    with "2.prems" have long: "\<not> length ?acc > 65536" and rec: "read_head ?acc fail bs = Inr (h, rest)"
      by (auto simp: Let_def split: if_splits)
    obtain c where c: "bs = c @ rest" "h = ?acc @ c" "\<forall>r. read_head ?acc fail (c @ r) = Inr (h, r)"
      using "2.IH" [OF refl False long rec] by blast
    then show ?thesis using False long by (intro exI [of _ "b # c"]) (simp add: Let_def)
  qed
qed simp

lemma read_head_cut:
  assumes "read_head [] fail bs = Inr (h, rest)"
  shows "read_head [] fail (h @ r) = Inr (h, r)"
  using read_head_split [OF assms] by auto

lemma downloaded_session_Some:
  obtains s where "downloaded_session rnd w path n = Some s" "cse_completed s" "cse_verified s" "cse_original s = n"
proof -
  have fin: "\<exists>s'. finalize_session rnd now since mbps s = Some s' \<and> cse_completed s' = cse_completed s
      \<and> cse_verified s' = cse_verified s \<and> cse_original s' = cse_original s"
    if "length (cse_speeds s) \<le> 1" for now since mbps s
    using that
    by (cases "cse_speeds s")
      (auto simp: finalize_session_def Let_def speed_stats_def fl_sort_def compression_stats_def
        split: option.split prod.split)
  have "\<exists>x. downloaded_session rnd w path n = finalize_session rnd (dlw_stamp1 w) (dlw_since w) (Fin 0) x
      \<and> length (cse_speeds x) \<le> 1 \<and> cse_completed x \<and> cse_verified x \<and> cse_original x = n"
    unfolding downloaded_session_def Let_def tracker_complete_def
    by (intro exI conjI, rule refl)
      (simp_all add: end_phase_def record_speed_def begin_phase_def tracker_start_def new_transfer_session_def Let_def)
  then show ?thesis using fin that by metis
qed

text \<open>C40. A download whose connection ends early. Wherever in the body the peer stops, with whatever content length in the head, the
  download succeeds, the file holds the part that came, and the session is recorded as completed and verified.\<close>

theorem cut_download_verified:
  assumes "dlw_connect w = None" "dlw_request w = None" "dlw_mkdir w = None" "dlw_create w = None" "dlw_write w = None"
    and "dlw_fail w = None" "read_head [] None (dlw_incoming w) = Inr (head, body)" "status_200 (from_utf8_lossy head)"
  shows "\<exists>s. http_download rnd (w\<lparr>dlw_incoming := head @ take k body\<rparr>) path = (Some (take k body), Some (Inr s))
    \<and> cse_completed s \<and> cse_verified s \<and> cse_original s = of_nat (min k (length body))"
proof -
  let ?w = "w\<lparr>dlw_incoming := head @ take k body\<rparr>"
  obtain s where s: "downloaded_session rnd ?w path (of_nat (min (length body) k)) = Some s" "cse_completed s" "cse_verified s"
    "cse_original s = of_nat (min (length body) k)" by (rule downloaded_session_Some)
  have "read_head [] None (head @ take k body) = Inr (head, take k body)" by (rule read_head_cut [OF assms(7)])
  then have "http_download rnd ?w path = (Some (take k body), Some (Inr s))"
    using assms(1-6,8) s(1) by (simp add: http_download_def save_body_def)
  with s(2-4) show ?thesis by (auto simp: min.commute)
qed

definition demo_download :: download_world where
  "demo_download =
    \<lparr>dlw_connect = None, dlw_request = None,
     dlw_incoming = as_bytes (''HTTP/1.1 200'' @ crlf @ crlf @ ''abc''), dlw_fail = None,
     dlw_mkdir = None, dlw_create = None, dlw_write = None, dlw_t0 = 0, dlw_t1 = 10, dlw_stamp0 = [], dlw_stamp1 = [],
     dlw_counter = 1, dlw_since = (\<lambda>_. None)\<rparr>"

theorem cut_download_verified_witness:
  "fst (http_download Fin (demo_download\<lparr>dlw_incoming :=
      as_bytes (''HTTP/1.1 200'' @ crlf @ crlf) @ as_bytes ''ab''\<rparr>) ''/f'')
    = Some (as_bytes ''ab'')"
proof -
  let ?h = "as_bytes (''HTTP/1.1 200'' @ crlf @ crlf)"
  have r: "read_head [] None (dlw_incoming demo_download) = Inr (?h, as_bytes ''abc'')"
    by (simp add: demo_download_def crlf_def as_bytes_def byte_of_char_def)
  have "utf8_valid (''HTTP/1.1 200'' @ crlf @ crlf)" by (rule utf8_valid_ascii) (simp add: crlf_def)
  then have st: "status_200 (from_utf8_lossy ?h)" by (simp add: from_utf8_lossy_as_bytes status_200_def)
  have t: "take 2 (as_bytes ''abc'') = as_bytes ''ab''" by code_simp
  have d: "dlw_connect demo_download = None" "dlw_request demo_download = None" "dlw_mkdir demo_download = None"
    "dlw_create demo_download = None" "dlw_write demo_download = None" "dlw_fail demo_download = None"
    by (simp_all add: demo_download_def)
  from cut_download_verified [OF d r st, of Fin 2 "''/f''"] show ?thesis unfolding t by auto
qed

section \<open>Uploads that are none\<close>

lemma scan_count: "length (fsc_entries (scan_of lower fls scan_new)) = length fls"
  using scan_of_facts [of lower fls scan_new] by (metis append_Nil length_map list.map_disc_iff scan_new_def file_scan.select_convs(1) map_append)

lemma analysis_dir:
  assumes "fs src = Some (FsDir es)" "10 \<le> length (dir_files src es)" "length (dir_files src es) < 2 ^ 32"
    and "analyze_files rnd lower ord fs [src] = an"
  shows "fan_category an \<in> {CatManyTiny, CatManySmall, CatMixed} \<and> 10 \<le> fan_count an"
proof -
  let ?sc = "scan_of lower (dir_files src es) scan_new" and ?n = "of_nat (length (dir_files src es)) :: u32"
  have n: "unat ?n = length (dir_files src es)" using assms(3) by (simp add: unsigned_of_nat take_bit_nat_eq_self)
  have "an = analysis_of rnd ord ?sc"
    using assms(1,4) by (auto simp: analyze_files_def collect_path_files path_files_def)
  moreover have "10 \<le> ?n" "?n \<noteq> 0" "?n \<noteq> 1" using assms(2) n by (auto simp: word_le_nat_alt)
  moreover have "?n > 1" using assms(2) n by (simp add: word_less_nat_alt)
  ultimately show ?thesis by (simp add: analysis_of_def Let_def scan_count classify_category_def)
qed

text \<open>A directory of ten or more files: the request succeeds, and nothing is sent.\<close>

theorem batch_sends_nothing:
  assumes "tpr_fs pr src = Some (FsDir es)" "10 \<le> length (dir_files src es)" "length (dir_files src es) < 2 ^ 32"
  shows "run_transfer rnd sq lower ord pr env host port src base = ([], Some (Inr ()))"
proof -
  let ?an = "analyze_files rnd lower ord (tpr_fs pr) [src]"
  have "select_strategy net ?an remote = StBatched" for net remote
    using analysis_dir [of "tpr_fs pr" src es rnd lower ord ?an] assms by (auto simp: select_strategy_def)
  then show ?thesis by (simp add: run_transfer_def Let_def build_profile_def execute_engine_def execute_batch_def)
qed

text \<open>A file of ten million bytes or more, over a link that is taken for WiFi, to a peer that can resume: the request to send it
  makes the client fetch the path from the peer into the destination directory, here; nothing is uploaded.\<close>

theorem wifi_upload_downloads:
  assumes "tpr_fs pr src = Some (FsFile (Some n))" "10000000 \<le> n" "rmc_range (tpr_remote pr)"
    and "nwi_interface (probe_network rnd sq (tpr_rounds pr)) \<in> {WiFi24GHz, WiFi5GHz, WiFi6, WiFi7}"
  shows "\<exists>chunk. fst (run_transfer rnd sq lower ord pr env host port src base)
    = [CallDownload src (trim_slashes base @ ''/'' @ file_name_or ''file'' src) chunk]"
proof -
  let ?an = "analyze_files rnd lower ord (tpr_fs pr) [src]"
  have an: "?an = analysis_of rnd ord (scan_of lower [(src, n)] scan_new)"
    using assms(1) by (simp add: analyze_files_def collect_path_files path_files_def)
  have sc: "length (fsc_entries (scan_of lower [(src, n)] scan_new)) = 1" "fsc_total (scan_of lower [(src, n)] scan_new) = n"
    using scan_of_facts [of lower "[(src, n)]" scan_new] scan_count [of lower "[(src, n)]"] by (simp_all add: scan_new_def)
  have "\<not> n < 1024" "\<not> n < 10000000" using assms(2) by (auto simp: word_less_nat_alt word_le_nat_alt)
  moreover have "\<not> (100 :: u32) \<le> 1" "\<not> (1000 :: u32) \<le> 1" by (simp_all add: word_le_nat_alt)
  ultimately have "fan_category ?an \<in> {CatMedium, CatLarge, CatHuge, CatMassive}"
    by (simp add: an analysis_of_def Let_def sc classify_category_def)
  moreover have "contains (interface_label (nwi_interface (probe_network rnd sq (tpr_rounds pr)))) ''WiFi''"
    using assms(4) by (auto simp: contains_def)
  ultimately have "select_strategy (probe_network rnd sq (tpr_rounds pr)) ?an (tpr_remote pr) = StParallel"
    using assms(3) by (auto simp: select_strategy_def)
  then show ?thesis by (simp add: run_transfer_def Let_def build_profile_def execute_engine_def execute_parallel_def)
qed

definition demo_remote :: remote_capabilities where
  "demo_remote = \<lparr>rmc_range = True, rmc_http2 = False, rmc_http3 = False, rmc_quic = False, rmc_max_connections = 8, rmc_load = Fin 0,
     rmc_tls = ''handshake''\<rparr>"

definition demo_probes :: "fs_object \<Rightarrow> transfer_probes" where
  "demo_probes obj =
    \<lparr>tpr_rounds = [Some (Fin 5, Some (Fin 1))],
     tpr_system = \<lparr>spr_cpus = 4, spr_memory = 0, spr_available = 0, spr_rotational = None, spr_disks = []\<rparr>,
     tpr_remote = demo_remote, tpr_fs = (\<lambda>_. Some obj), tpr_learned = None\<rparr>"

definition demo_engine_env :: engine_env where
  "demo_engine_env = \<lparr>eev_is_dir = False, eev_upload = Inl ''unused'', eev_download = Some (Inl ''refused''), eev_stamp = [], eev_counter = 1\<rparr>"

lemma replicate_files: "length (dir_files d (replicate n (a, FsFile (Some m)))) = n"
  by (induction n) simp_all

theorem batch_sends_nothing_witness:
  "run_transfer Fin id id id (demo_probes (FsDir (replicate 10 (''a'', FsFile (Some 1))))) demo_engine_env ''h'' 80 ''/d'' ''/out''
    = ([], Some (Inr ()))"
proof (rule batch_sends_nothing)
  show "tpr_fs (demo_probes (FsDir (replicate 10 (''a'', FsFile (Some 1))))) ''/d'' = Some (FsDir (replicate 10 (''a'', FsFile (Some 1))))"
    by (simp add: demo_probes_def)
  show "10 \<le> length (dir_files ''/d'' (replicate 10 (''a'', FsFile (Some 1))))"
    "length (dir_files ''/d'' (replicate 10 (''a'', FsFile (Some 1)))) < 2 ^ 32"
    by (simp_all add: replicate_files)
qed

theorem wifi_upload_downloads_witness:
  "\<exists>chunk. fst (run_transfer Fin id id id (demo_probes (FsFile (Some 10000000))) demo_engine_env ''h'' 80 ''/d/movie'' ''/out'')
    = [CallDownload ''/d/movie'' ''/out/movie'' chunk]"
proof -
  have i: "nwi_interface (probe_network Fin id (tpr_rounds (demo_probes (FsFile (Some 10000000))))) \<in> {WiFi24GHz, WiFi5GHz, WiFi6, WiFi7}"
    by (simp add: demo_probes_def probe_network_def probe_rtts_def probe_rates_def Let_def fl_mean_def classify_interface_def
        List.map_filter_simps fl_min_def f64_max_def)
  have n: "trim_slashes ''/out'' @ ''/'' @ file_name_or ''file'' ''/d/movie'' = ''/out/movie''"
    using utf8_valid_ascii [of "''movie''"] by (simp add: trim_slashes_def file_name_or_def path_file_name_def)
  have fs: "tpr_fs (demo_probes (FsFile (Some 10000000))) ''/d/movie'' = Some (FsFile (Some 10000000))"
    "rmc_range (tpr_remote (demo_probes (FsFile (Some 10000000))))"
    by (simp_all add: demo_probes_def demo_remote_def)
  show ?thesis using wifi_upload_downloads [OF fs(1) order_refl fs(2) i, of id id demo_engine_env "''h''" 80 "''/out''"] unfolding n .
qed

end
