(* ===== verification/Tasks.thy ===== *)
theory Tasks
  imports Protocol Rust_Text
begin

text \<open>
  The tasks a node carries out for others (\<^verbatim>\<open>crates/task_manager\<close>): the kinds of task with their payloads, the registry
  that creates a task from a request, the providers a task acts through, and the execution of a task. The registry and the
  providers of the desktop agent (\<^verbatim>\<open>agents/desktop\<close>) instantiate them; the Android agent registers the same kinds.

  A provider works on the state \<open>'d\<close> of the device. Base64 and gzip belong to other crates and are arguments, as are the
  texts of the errors \<^verbatim>\<open>serde_json\<close> reports.
\<close>

section \<open>JSON values\<close>

text \<open>The variants of \<^verbatim>\<open>serde_json::Value\<close> and the accessors tasks use. No task reads a number.\<close>

datatype jvalue = JNull | JBool bool | JNum int | JStr string | JArr "jvalue list" | JObj "(string \<times> jvalue) list"

definition jget :: "string \<Rightarrow> jvalue \<Rightarrow> jvalue option" where
  "jget k v = (case v of JObj kvs \<Rightarrow> map_of kvs k | _ \<Rightarrow> None)"

definition as_str :: "jvalue \<Rightarrow> string option" where
  "as_str v = (case v of JStr s \<Rightarrow> Some s | _ \<Rightarrow> None)"

definition as_bool :: "jvalue \<Rightarrow> bool option" where
  "as_bool v = (case v of JBool b \<Rightarrow> Some b | _ \<Rightarrow> None)"

definition as_array :: "jvalue \<Rightarrow> jvalue list option" where
  "as_array v = (case v of JArr xs \<Rightarrow> Some xs | _ \<Rightarrow> None)"

definition str_field :: "string \<Rightarrow> jvalue \<Rightarrow> string option" where
  "str_field k v = Option.bind (jget k v) as_str"

definition bool_field :: "string \<Rightarrow> jvalue \<Rightarrow> bool option" where
  "bool_field k v = Option.bind (jget k v) as_bool"

lemmas json_defs = jget_def as_str_def as_bool_def as_array_def str_field_def bool_field_def

section \<open>Errors\<close>

datatype task_error =
    QueueFull | TaskCancelled | ExecutionFailed string | DependencyUnavailable string | InvalidRequest string

fun task_error_to_string :: "task_error \<Rightarrow> string" where
  "task_error_to_string QueueFull = ''task queue is full''"
| "task_error_to_string TaskCancelled = ''task cancelled''"
| "task_error_to_string (ExecutionFailed m) = ''task execution failed: '' @ m"
| "task_error_to_string (DependencyUnavailable m) = ''dependency unavailable: '' @ m"
| "task_error_to_string (InvalidRequest m) = ''invalid request: '' @ m"

definition ok_or :: "'e \<Rightarrow> 'a option \<Rightarrow> 'e + 'a" where
  "ok_or e x = (case x of Some a \<Rightarrow> Inr a | None \<Rightarrow> Inl e)"

lemma ok_or_simps [simp]: "ok_or e None = Inl e" "ok_or e (Some a) = Inr a"
  by (simp_all add: ok_or_def)

section \<open>Providers\<close>

text \<open>The four traits, as operations on the state of the device.\<close>

record 'd providers =
  pv_read :: "string \<Rightarrow> 'd \<Rightarrow> string + bytes"
  pv_write :: "string \<Rightarrow> bytes \<Rightarrow> 'd \<Rightarrow> (string + unit) \<times> 'd"
  pv_get_text :: "'d \<Rightarrow> string + string"
  pv_set_text :: "string \<Rightarrow> 'd \<Rightarrow> (string + unit) \<times> 'd"
  pv_show :: "string \<Rightarrow> string \<Rightarrow> 'd \<Rightarrow> (string + unit) \<times> 'd"
  pv_run :: "string \<Rightarrow> string list \<Rightarrow> 'd \<Rightarrow> (string + string) \<times> 'd"

text \<open>Third-party operations: base64, gzip (nothing where the data is no gzip stream), and the text \<^verbatim>\<open>serde_json\<close> gives for a
  clipboard payload it rejects.\<close>

record task_env =
  tke_encode :: "bytes \<Rightarrow> string"
  tke_decode :: "string \<Rightarrow> string + bytes"
  tke_gunzip :: "bytes \<Rightarrow> bytes option"
  tke_reject :: "jvalue \<Rightarrow> string"

section \<open>Tasks\<close>

datatype clipboard_action = ClipGet | ClipSet string

datatype task_body =
    PingBody | ClipboardBody clipboard_action | NotificationsBody jvalue | TerminalBody jvalue | FileBody jvalue

record task =
  tk_id :: uuid
  tk_body :: task_body

fun task_kind :: "task_body \<Rightarrow> string" where
  "task_kind PingBody = ''ping''"
| "task_kind (ClipboardBody _) = ''clipboard''"
| "task_kind (NotificationsBody _) = ''notifications''"
| "task_kind (TerminalBody _) = ''terminal''"
| "task_kind (FileBody _) = ''file_transfer''"

text \<open>The derived reader of an action: the tag decides, and a \<^verbatim>\<open>set\<close> needs its text.\<close>

definition clipboard_action_of :: "task_env \<Rightarrow> jvalue \<Rightarrow> string + clipboard_action" where
  "clipboard_action_of env v =
    (if str_field ''action'' v = Some ''get'' then Inr ClipGet
     else if str_field ''action'' v = Some ''set'' then
       (case str_field ''content'' v of Some t \<Rightarrow> Inr (ClipSet t) | None \<Rightarrow> Inl (tke_reject env v))
     else Inl (tke_reject env v))"

definition clipboard_task :: "task_env \<Rightarrow> jvalue task_request \<Rightarrow> task_error + task" where
  "clipboard_task env req =
    (case clipboard_action_of env (tq_payload req) of
       Inl e \<Rightarrow> Inl (InvalidRequest (''Invalid clipboard payload: '' @ e))
     | Inr a \<Rightarrow> Inr \<lparr>tk_id = task_uuid (tq_task_id req), tk_body = ClipboardBody a\<rparr>)"

definition ping_task :: "jvalue task_request \<Rightarrow> task_error + task" where
  "ping_task req = Inr \<lparr>tk_id = task_uuid (tq_task_id req), tk_body = PingBody\<rparr>"

definition notifications_task :: "jvalue task_request \<Rightarrow> task_error + task" where
  "notifications_task req = Inr \<lparr>tk_id = task_uuid (tq_task_id req), tk_body = NotificationsBody (tq_payload req)\<rparr>"

definition terminal_task :: "jvalue task_request \<Rightarrow> task_error + task" where
  "terminal_task req = Inr \<lparr>tk_id = task_uuid (tq_task_id req), tk_body = TerminalBody (tq_payload req)\<rparr>"

definition file_task :: "jvalue task_request \<Rightarrow> task_error + task" where
  "file_task req = Inr \<lparr>tk_id = task_uuid (tq_task_id req), tk_body = FileBody (tq_payload req)\<rparr>"

section \<open>Registry\<close>

type_synonym task_registry = "(string, jvalue task_request \<Rightarrow> task_error + task) hmap"

definition task_registry_new :: task_registry where
  "task_registry_new = []"

definition register_kind :: "string \<Rightarrow> (jvalue task_request \<Rightarrow> task_error + task) \<Rightarrow> task_registry \<Rightarrow> task_registry" where
  "register_kind kind factory r = hm_insert kind factory r"

definition create_task :: "jvalue task_request \<Rightarrow> task_registry \<Rightarrow> task_error + task" where
  "create_task req r =
    (case hm_get r (tq_kind req) of
       Some factory \<Rightarrow> factory req
     | None \<Rightarrow> Inl (ExecutionFailed (''No task handler registered for kind: '' @ tq_kind req)))"

definition get_capabilities :: "task_registry \<Rightarrow> capability list" where
  "get_capabilities r = List.map_filter (\<lambda>(k, _). case capability_from_str k of Inr c \<Rightarrow> Some c | Inl _ \<Rightarrow> None) r"

text \<open>What the agents register.\<close>

definition agent_registry :: "task_env \<Rightarrow> task_registry" where
  "agent_registry env =
    register_kind ''file_transfer'' file_task
      (register_kind ''terminal'' terminal_task
        (register_kind ''notifications'' notifications_task
          (register_kind ''clipboard'' (clipboard_task env)
            (register_kind ''ping'' ping_task task_registry_new))))"

section \<open>Execution\<close>

definition success :: "(string \<times> jvalue) list \<Rightarrow> jvalue" where
  "success extra = JObj ((''success'', JBool True) # extra)"

definition execute_clipboard :: "'d providers \<Rightarrow> clipboard_action \<Rightarrow> 'd \<Rightarrow> (task_error + jvalue) \<times> 'd" where
  "execute_clipboard pv a d =
    (case a of
       ClipGet \<Rightarrow>
         (case pv_get_text pv d of
            Inl e \<Rightarrow> (Inl (ExecutionFailed (''Failed to get clipboard text: '' @ e)), d)
          | Inr t \<Rightarrow> (Inr (JObj [(''content'', JStr t)]), d))
     | ClipSet t \<Rightarrow>
         (case pv_set_text pv t d of
            (Inl e, d') \<Rightarrow> (Inl (ExecutionFailed (''Failed to set clipboard text: '' @ e)), d')
          | (Inr _, d') \<Rightarrow> (Inr (success []), d')))"

definition execute_notifications :: "'d providers \<Rightarrow> jvalue \<Rightarrow> 'd \<Rightarrow> (task_error + jvalue) \<times> 'd" where
  "execute_notifications pv p d =
    (let title = (case str_field ''title'' p of Some t \<Rightarrow> t | None \<Rightarrow> ''PDOS Notification'');
         body = (case str_field ''body'' p of Some t \<Rightarrow> t | None \<Rightarrow> []) in
     case pv_show pv title body d of
       (Inl e, d') \<Rightarrow> (Inl (ExecutionFailed (''Notification failed: '' @ e)), d')
     | (Inr _, d') \<Rightarrow> (Inr (success []), d'))"

definition quoted_field :: "string \<Rightarrow> string" where
  "quoted_field k = ''Missing '' @ [CHR 39] @ k @ [CHR 39] @ '' field''"

definition execute_terminal :: "'d providers \<Rightarrow> jvalue \<Rightarrow> 'd \<Rightarrow> (task_error + jvalue) \<times> 'd" where
  "execute_terminal pv p d =
    (case str_field ''command'' p of
       None \<Rightarrow> (Inl (InvalidRequest (quoted_field ''command'')), d)
     | Some cmd \<Rightarrow>
         (let args = (case Option.bind (jget ''args'' p) as_array of Some xs \<Rightarrow> List.map_filter as_str xs | None \<Rightarrow> []) in
          case pv_run pv cmd args d of
            (Inl e, d') \<Rightarrow> (Inl (ExecutionFailed (''Terminal execution failed: '' @ e)), d')
          | (Inr out, d') \<Rightarrow> (Inr (success [(''output'', JStr out)]), d')))"

text \<open>The bytes of a write: what base64 decodes, unpacked where the request says that they are compressed and they can be.\<close>

definition written_bytes :: "task_env \<Rightarrow> jvalue \<Rightarrow> string \<Rightarrow> task_error + bytes" where
  "written_bytes env p content =
    (case tke_decode env content of
       Inl e \<Rightarrow> Inl (InvalidRequest (''Invalid base64 content: '' @ e))
     | Inr data \<Rightarrow>
         (if bool_field ''compressed'' p = Some True
          then Inr (case tke_gunzip env data of Some data' \<Rightarrow> data' | None \<Rightarrow> data)
          else Inr data))"

definition execute_file :: "task_env \<Rightarrow> 'd providers \<Rightarrow> jvalue \<Rightarrow> 'd \<Rightarrow> (task_error + jvalue) \<times> 'd" where
  "execute_file env pv p d =
    (case str_field ''op'' p of
       None \<Rightarrow> (Inl (InvalidRequest (quoted_field ''op'')), d)
     | Some op \<Rightarrow>
    (case str_field ''path'' p of
       None \<Rightarrow> (Inl (InvalidRequest (quoted_field ''path'')), d)
     | Some path \<Rightarrow>
    (if op = ''read'' then
       (case pv_read pv path d of
          Inl e \<Rightarrow> (Inl (ExecutionFailed (''Read failed: '' @ e)), d)
        | Inr data \<Rightarrow> (Inr (success [(''content'', JStr (tke_encode env data))]), d))
     else if op = ''write'' then
       (case str_field ''content'' p of
          None \<Rightarrow> (Inl (InvalidRequest (quoted_field ''content'' @ '' for write'')), d)
        | Some content \<Rightarrow>
            (case written_bytes env p content of
               Inl e \<Rightarrow> (Inl e, d)
             | Inr data \<Rightarrow>
                 (case pv_write pv path data d of
                    (Inl e, d') \<Rightarrow> (Inl (ExecutionFailed (''Write failed: '' @ e)), d')
                  | (Inr _, d') \<Rightarrow> (Inr (success []), d'))))
     else (Inl (InvalidRequest (''Unknown op: '' @ op)), d))))"

fun execute_body :: "task_env \<Rightarrow> 'd providers \<Rightarrow> task_body \<Rightarrow> 'd \<Rightarrow> (task_error + jvalue) \<times> 'd" where
  "execute_body env pv PingBody d = (Inr (success []), d)"
| "execute_body env pv (ClipboardBody a) d = execute_clipboard pv a d"
| "execute_body env pv (NotificationsBody p) d = execute_notifications pv p d"
| "execute_body env pv (TerminalBody p) d = execute_terminal pv p d"
| "execute_body env pv (FileBody p) d = execute_file env pv p d"

end
