(* ===== verification/Agent_Runtime.thy ===== *)
theory Agent_Runtime
  imports Tasks
begin

text \<open>
  The runtime of a node (\<^verbatim>\<open>crates/runtime\<close>) with the queue and the dispatcher of \<^verbatim>\<open>crates/task_manager\<close>: one connection, from the
  first heartbeat to its end. The event loop reads messages and sends heartbeats; the dispatcher starts a task for each
  request it takes from the queue; the tasks run beside each other; a fourth task sends their results. \<open>agent_step\<close> is the step
  relation of these four, labelled with the text the event loop reads, if any.

  A task's execution is one call of a provider, and one step. Connecting and discovering the relay are sockets; the log and the
  printed list of devices are output.
\<close>

fun opt_list :: "'a option \<Rightarrow> 'a list" where
  "opt_list None = []"
| "opt_list (Some x) = [x]"

section \<open>State\<close>

datatype agent_event =
    AgentConnected string | AgentDisconnected | PairingRequested string string | PairingAccepted string
  | PingReceived string | AgentError string

record ('e, 'd) agent_env =
  ae_node :: uuid
  ae_platform :: platform
  ae_version :: string
  ae_listening :: bool
  ae_registry :: task_registry
  ae_tasks :: task_env
  ae_providers :: "'d providers"
  ae_ser :: "jvalue envelope \<Rightarrow> 'e + string"
  ae_de :: "string \<Rightarrow> 'e + jvalue envelope"
  ae_fresh :: "nat \<Rightarrow> uuid"
  ae_ustr :: "uuid \<Rightarrow> string"

type_synonym submitted = "task \<times> uuid option"
type_synonym task_outcome = "uuid \<times> uuid option \<times> (task_error + jvalue)"

text \<open>\<open>ag_blocked\<close> is the task the event loop waits to submit while the queue is full; \<open>ag_out\<close> is what it has sent.\<close>

record 'd agent =
  ag_out :: "string list"
  ag_queue :: "submitted list"
  ag_blocked :: "submitted option"
  ag_running :: "submitted list"
  ag_results :: "task_outcome list"
  ag_last_ack :: int
  ag_events :: "agent_event list"
  ag_device :: 'd
  ag_open :: bool

definition QUEUE_CAPACITY :: nat where "QUEUE_CAPACITY = 100"
definition HEARTBEAT_INTERVAL_SECS :: int where "HEARTBEAT_INTERVAL_SECS = 15"

section \<open>Sending\<close>

definition agent_send :: "('e, 'd) agent_env \<Rightarrow> jvalue message \<Rightarrow> 'd agent \<Rightarrow> 'd agent" where
  "agent_send env m s =
    (case codec_encode (ae_ser env) (envelope_new (ae_fresh env (length (ag_out s))) m) of
       Inr json \<Rightarrow> s\<lparr>ag_out := ag_out s @ [json]\<rparr>
     | Inl _ \<Rightarrow> s)"

definition make_payload :: "('e, 'd) agent_env \<Rightarrow> int \<Rightarrow> heartbeat_payload" where
  "make_payload env now =
    \<lparr>hb_cpu_usage = Fin 0, hb_memory_usage = Fin 0, hb_battery_level = None, hb_platform = ae_platform env,
     hb_version = ae_version env, hb_status = Online, hb_capabilities = get_capabilities (ae_registry env), hb_timestamp = now\<rparr>"

definition heartbeat_of :: "('e, 'd) agent_env \<Rightarrow> int \<Rightarrow> jvalue message" where
  "heartbeat_of env now = heartbeat (NodeId (ae_node env)) (make_payload env now)"

definition emit_ui :: "('e, 'd) agent_env \<Rightarrow> agent_event \<Rightarrow> 'd agent \<Rightarrow> 'd agent" where
  "emit_ui env ev s = (if ae_listening env then s\<lparr>ag_events := ag_events s @ [ev]\<rparr> else s)"

text \<open>The beginning of a connection: an error where the first heartbeat cannot be encoded.\<close>

definition agent_begin :: "('e, 'd) agent_env \<Rightarrow> int \<Rightarrow> 'd \<Rightarrow> 'e protocol_error + 'd agent" where
  "agent_begin env now d =
    (case codec_encode (ae_ser env) (envelope_new (ae_fresh env 0) (heartbeat_of env now)) of
       Inl e \<Rightarrow> Inl e
     | Inr json \<Rightarrow> Inr \<lparr>ag_out = [json], ag_queue = [], ag_blocked = None, ag_running = [], ag_results = [], ag_last_ack = now,
         ag_events = [], ag_device = d, ag_open = True\<rparr>)"

section \<open>Messages\<close>

definition submit_task :: "submitted \<Rightarrow> 'd agent \<Rightarrow> 'd agent" where
  "submit_task x s =
    (if length (ag_queue s) < QUEUE_CAPACITY then s\<lparr>ag_queue := ag_queue s @ [x]\<rparr> else s\<lparr>ag_blocked := Some x\<rparr>)"

definition handle_message :: "('e, 'd) agent_env \<Rightarrow> jvalue message \<Rightarrow> 'd agent \<Rightarrow> 'd agent" where
  "handle_message env m s =
    (case m of
       ErrorMsg c t \<Rightarrow> emit_ui env (AgentError (c @ '': '' @ t)) s
     | PairRequest req \<Rightarrow>
         agent_send env (pair_accept (NodeId (ae_node env)) (pq_from req) ''Android Agent'' ''0000'')
           (emit_ui env (PairingRequested (ae_ustr env (node_uuid (pq_from req))) (pq_pair_code req)) s)
     | TaskRequest req \<Rightarrow>
         (let s1 = (if tq_kind req = ''ping'' then emit_ui env (PingReceived (ae_ustr env (node_uuid (tq_from req)))) s else s) in
          case create_task req (ae_registry env) of
            Inr t \<Rightarrow> submit_task (t, Some (node_uuid (tq_from req))) s1
          | Inl _ \<Rightarrow> s1)
     | _ \<Rightarrow> s)"

definition agent_receive :: "('e, 'd) agent_env \<Rightarrow> int \<Rightarrow> string \<Rightarrow> 'd agent \<Rightarrow> 'd agent" where
  "agent_receive env now text s =
    (case codec_decode (ae_de env) text of
       Inl _ \<Rightarrow> s
     | Inr e \<Rightarrow> (if env_message e = HeartbeatAck then s\<lparr>ag_last_ack := now\<rparr> else handle_message env (env_message e) s))"

text \<open>Whole seconds of a difference in milliseconds, rounded towards zero.\<close>

definition num_seconds :: "int \<Rightarrow> int" where
  "num_seconds ms = (if ms < 0 then - ((- ms) div 1000) else ms div 1000)"

definition agent_tick :: "('e, 'd) agent_env \<Rightarrow> int \<Rightarrow> 'd agent \<Rightarrow> 'd agent" where
  "agent_tick env now s =
    (if num_seconds (now - ag_last_ack s) > HEARTBEAT_INTERVAL_SECS * 2 + 5 then s\<lparr>ag_open := False\<rparr>
     else agent_send env (heartbeat_of env now) s)"

section \<open>Tasks\<close>

text \<open>The dispatcher takes the first task of the queue and starts it; \<open>i\<close> is the place of a running task.\<close>

definition dispatch_task :: "'d agent \<Rightarrow> 'd agent" where
  "dispatch_task s =
    (case ag_queue s of [] \<Rightarrow> s | x # q \<Rightarrow> s\<lparr>ag_queue := q, ag_running := ag_running s @ [x]\<rparr>)"

definition execute_task :: "('e, 'd) agent_env \<Rightarrow> nat \<Rightarrow> 'd agent \<Rightarrow> 'd agent" where
  "execute_task env i s =
    (let (t, origin) = ag_running s ! i;
         (res, d) = execute_body (ae_tasks env) (ae_providers env) (tk_body t) (ag_device s) in
     s\<lparr>ag_running := take i (ag_running s) @ drop (Suc i) (ag_running s), ag_device := d,
       ag_results := ag_results s @ [(tk_id t, origin, res)]\<rparr>)"

definition outcome_json :: "task_error + jvalue \<Rightarrow> jvalue" where
  "outcome_json res = (case res of Inr v \<Rightarrow> v | Inl e \<Rightarrow> JObj [(''error'', JStr (task_error_to_string e))])"

definition result_message :: "('e, 'd) agent_env \<Rightarrow> int \<Rightarrow> task_outcome \<Rightarrow> jvalue message" where
  "result_message env now x =
    (let (i, origin, res) = x in task_result_msg now (NodeId (ae_node env)) (map_option NodeId origin) (TaskId i) (outcome_json res))"

definition forward_result :: "('e, 'd) agent_env \<Rightarrow> int \<Rightarrow> 'd agent \<Rightarrow> 'd agent" where
  "forward_result env now s =
    (case ag_results s of
       [] \<Rightarrow> s
     | x # xs \<Rightarrow> agent_send env (result_message env now x) (s\<lparr>ag_results := xs\<rparr>))"

section \<open>Connections\<close>

text \<open>Reaching the relay: which address is used, the events on the way, and the error. \<open>discovered\<close> is what discovery finds, \<open>dial\<close> the
  error of connecting to an address, if any.\<close>

definition needs_discovery :: "string \<Rightarrow> bool" where
  "needs_discovery url \<longleftrightarrow> url = ''discover'' \<or> str_find ''discover'' url \<noteq> None \<or> url = []"

definition discover_and_dial :: "string option \<Rightarrow> (string \<Rightarrow> string option) \<Rightarrow> string \<Rightarrow> string + string" where
  "discover_and_dial discovered dial failed =
    (case discovered of
       Some a \<Rightarrow> (let url = ''ws://'' @ a in case dial url of Some e \<Rightarrow> Inl e | None \<Rightarrow> Inr url)
     | None \<Rightarrow> Inl failed)"

definition agent_connect :: "string option \<Rightarrow> (string \<Rightarrow> string option) \<Rightarrow> string \<Rightarrow> agent_event list \<times> (string + string)" where
  "agent_connect discovered dial url =
    (let (evs, res) =
       (if needs_discovery url then
          ([AgentError ''Searching for relay...''], discover_and_dial discovered dial ''failed to auto-discover relay'')
        else
          (case dial url of
             None \<Rightarrow> ([], Inr url)
           | Some _ \<Rightarrow> ([AgentError ''Relay offline, searching local network...''],
               discover_and_dial discovered dial (''failed to connect to '' @ url @ '' and discovery failed'')))) in
     (case res of Inr u \<Rightarrow> evs @ [AgentConnected u] | Inl _ \<Rightarrow> evs, res))"

text \<open>The event after a connection, before the pause of five seconds.\<close>

definition connection_over :: "string + unit \<Rightarrow> agent_event" where
  "connection_over res = (case res of Inr _ \<Rightarrow> AgentDisconnected | Inl e \<Rightarrow> AgentError (''Connection error: '' @ e))"

text \<open>The server of the peer-to-peer mode over what its connections bring: one after another; a failed WebSocket handshake ends it.\<close>

datatype incoming = AcceptFailed | HandshakeFailed string | PeerSession "string + unit"

fun serve :: "incoming list \<Rightarrow> nat \<Rightarrow> nat \<times> string option" where
  "serve [] served = (served, None)"
| "serve (AcceptFailed # xs) served = serve xs served"
| "serve (HandshakeFailed e # xs) served = (served, Some e)"
| "serve (PeerSession _ # xs) served = serve xs (Suc served)"

section \<open>Runs\<close>

inductive agent_step :: "('e, 'd) agent_env \<Rightarrow> 'd agent \<Rightarrow> string option \<Rightarrow> 'd agent \<Rightarrow> bool"
  for env :: "('e, 'd) agent_env" where
  read: "ag_open s \<Longrightarrow> ag_blocked s = None \<Longrightarrow> agent_step env s (Some msg) (agent_receive env now msg s)"
| unblock: "ag_open s \<Longrightarrow> ag_blocked s = Some x \<Longrightarrow> length (ag_queue s) < QUEUE_CAPACITY \<Longrightarrow>
     agent_step env s None (s\<lparr>ag_blocked := None, ag_queue := ag_queue s @ [x]\<rparr>)"
| tick: "ag_open s \<Longrightarrow> ag_blocked s = None \<Longrightarrow> agent_step env s None (agent_tick env now s)"
| dispatch: "ag_open s \<Longrightarrow> ag_queue s \<noteq> [] \<Longrightarrow> agent_step env s None (dispatch_task s)"
| execute: "i < length (ag_running s) \<Longrightarrow> agent_step env s None (execute_task env i s)"
| forward: "ag_open s \<Longrightarrow> ag_results s \<noteq> [] \<Longrightarrow> agent_step env s None (forward_result env now s)"
| hangup: "ag_open s \<Longrightarrow> agent_step env s None (s\<lparr>ag_open := False\<rparr>)"

inductive agent_path :: "('e, 'd) agent_env \<Rightarrow> 'd agent \<Rightarrow> string list \<Rightarrow> 'd agent \<Rightarrow> bool"
  for env :: "('e, 'd) agent_env" where
  stay: "agent_path env s [] s"
| move: "agent_path env s msgs t \<Longrightarrow> agent_step env t label u \<Longrightarrow> agent_path env s (msgs @ opt_list label) u"

inductive_cases agent_stepE: "agent_step env s label t"

end
