(* ===== verification/Json_Text.thy ===== *)
theory Json_Text
  imports Tasks "HOL-Library.Countable"
begin

text \<open>
  Messages can be written as text: every type a message is made of is countable, so there are a writer and a reader of envelopes
  which satisfy what the code relies on in \<^verbatim>\<open>serde_json\<close> (what is written can be read back). They serve the witnesses.
\<close>

instance fl :: countable by countable_datatype
instance node_id :: countable by countable_datatype
instance task_id :: countable by countable_datatype
instance capability :: countable by countable_datatype
instance platform :: countable by countable_datatype
instance node_status :: countable by countable_datatype
instance task_status :: countable by countable_datatype
instance jvalue :: countable by countable_datatype

instance heartbeat_payload_ext :: (countable) countable
  by (rule countable_classI [of "\<lambda>r. to_nat (hb_cpu_usage r, hb_memory_usage r, hb_battery_level r, hb_platform r, hb_version r, hb_status r, hb_capabilities r, hb_timestamp r, heartbeat_payload.more r)"]) (auto intro: heartbeat_payload.equality)

instance pair_request_ext :: (countable) countable
  by (rule countable_classI [of "\<lambda>r. to_nat (pq_from r, pq_to r, pq_name r, pq_public_key r, pq_capabilities r, pq_pair_code r, pair_request.more r)"]) (auto intro: pair_request.equality)

instance pair_response_ext :: (countable) countable
  by (rule countable_classI [of "\<lambda>r. to_nat (pp_from r, pp_to r, pp_name r, pp_public_key r, pp_accepted r, pp_reason r, pair_response.more r)"]) (auto intro: pair_response.equality)

instance task_request_ext :: (countable, countable) countable
  by (rule countable_classI [of "\<lambda>r. to_nat (tq_task_id r, tq_from r, tq_to r, tq_kind r, tq_payload r, task_request.more r)"]) (auto intro: task_request.equality)

instance task_result_ext :: (countable, countable) countable
  by (rule countable_classI [of "\<lambda>r. to_nat (tr_task_id r, tr_from r, tr_to r, tr_status r, tr_result r, tr_error r, tr_completed_at r, task_result.more r)"]) (auto intro: task_result.equality)

instance search_request_ext :: (countable) countable
  by (rule countable_classI [of "\<lambda>r. to_nat (sq_request_id r, sq_query r, search_request.more r)"]) (auto intro: search_request.equality)

instance search_result_ext :: (countable) countable
  by (rule countable_classI [of "\<lambda>r. to_nat (sr_node_id r, sr_name r, sr_platform r, sr_status r, sr_capabilities r, sr_version r, sr_score r, search_result.more r)"]) (auto intro: search_result.equality)

instance search_response_ext :: (countable) countable
  by (rule countable_classI [of "\<lambda>r. to_nat (sp_request_id r, sp_results r, search_response.more r)"]) (auto intro: search_response.equality)

instance session_request_ext :: (countable) countable
  by (rule countable_classI [of "\<lambda>r. to_nat (ssq_from r, ssq_to r, ssq_file_name r, ssq_file_size r, ssq_transfer_id r, ssq_chunk_size r, ssq_parallel r, ssq_parallel_streams r, session_request.more r)"]) (auto intro: session_request.equality)

instance session_accept_ext :: (countable) countable
  by (rule countable_classI [of "\<lambda>r. to_nat (ssa_from r, ssa_to r, ssa_session_id r, ssa_chunk_size r, ssa_parallel r, ssa_parallel_streams r, session_accept.more r)"]) (auto intro: session_accept.equality)

instance session_reject_ext :: (countable) countable
  by (rule countable_classI [of "\<lambda>r. to_nat (ssr_from r, ssr_to r, ssr_reason r, session_reject.more r)"]) (auto intro: session_reject.equality)

instance session_progress_msg_ext :: (countable) countable
  by (rule countable_classI [of "\<lambda>r. to_nat (ssp_session_id r, ssp_from r, ssp_bytes_sent r, ssp_bytes_total r, ssp_speed_mbps r, session_progress_msg.more r)"]) (auto intro: session_progress_msg.equality)

instance session_close_ext :: (countable) countable
  by (rule countable_classI [of "\<lambda>r. to_nat (ssc_session_id r, ssc_from r, ssc_reason r, session_close.more r)"]) (auto intro: session_close.equality)

instance device_list_request_ext :: (countable) countable
  by (rule countable_classI [of "\<lambda>r. to_nat (dlq_from r, device_list_request.more r)"]) (auto intro: device_list_request.equality)

instance node_summary_ext :: (countable) countable
  by (rule countable_classI [of "\<lambda>r. to_nat (ns_id r, ns_name r, ns_platform r, ns_status r, ns_last_seen r, ns_capabilities r, node_summary.more r)"]) (auto intro: node_summary.equality)

instance device_list_response_ext :: (countable) countable
  by (rule countable_classI [of "\<lambda>r. to_nat (dlr_nodes r, device_list_response.more r)"]) (auto intro: device_list_response.equality)

instance message :: (countable) countable by countable_datatype

instance envelope_ext :: (countable, countable) countable
  by (rule countable_classI [of "\<lambda>r. to_nat (env_version r, env_message_id r, env_message r, envelope.more r)"]) (auto intro: envelope.equality)

definition write_text :: "jvalue envelope \<Rightarrow> unit + string" where
  "write_text e = Inr (replicate (to_nat e) (CHR ''x''))"

definition read_text :: "string \<Rightarrow> unit + jvalue envelope" where
  "read_text s = Inr (from_nat (length s))"

lemma read_write_text: "\<exists>s. write_text e = Inr s \<and> read_text s = Inr e"
  by (simp add: write_text_def read_text_def)

end
