(* ===== verification/Agent_Facts.thy ===== *)
theory Agent_Facts
  imports Agent_Runtime Json_Text "HOL-Library.Multiset"
begin

text \<open>
  What a node owes to those who send it requests: every request of a kind it knows is answered exactly once, to its sender
  and under its identifier; a request of another kind is dropped without an answer.
\<close>

section \<open>Requests and answers\<close>

text \<open>JSON: what is written can be read back.\<close>

definition agent_json_ok :: "('e, 'd) agent_env \<Rightarrow> bool" where
  "agent_json_ok env \<longleftrightarrow> (\<forall>e. env_version e = PROTOCOL_VERSION \<longrightarrow> (\<exists>s. ae_ser env e = Inr s \<and> ae_de env s = Inr e))"

type_synonym request_key = "uuid \<times> uuid option"

fun task_key :: "submitted \<Rightarrow> request_key" where
  "task_key (t, origin) = (tk_id t, origin)"

fun outcome_key :: "task_outcome \<Rightarrow> request_key" where
  "outcome_key (i, origin, _) = (i, origin)"

definition requested :: "('e, 'd) agent_env \<Rightarrow> jvalue message \<Rightarrow> request_key list" where
  "requested env m =
    (case m of
       TaskRequest req \<Rightarrow>
         (case create_task req (ae_registry env) of Inr t \<Rightarrow> [(tk_id t, Some (node_uuid (tq_from req)))] | Inl _ \<Rightarrow> [])
     | _ \<Rightarrow> [])"

definition request_keys :: "('e, 'd) agent_env \<Rightarrow> string \<Rightarrow> request_key list" where
  "request_keys env text = (case codec_decode (ae_de env) text of Inr e \<Rightarrow> requested env (env_message e) | Inl _ \<Rightarrow> [])"

fun result_key :: "jvalue message \<Rightarrow> request_key list" where
  "result_key (TaskResult r) = [(task_uuid (tr_task_id r), map_option node_uuid (tr_to r))]"
| "result_key _ = []"

definition sent_messages :: "('e, 'd) agent_env \<Rightarrow> 'd agent \<Rightarrow> jvalue message list" where
  "sent_messages env s =
    List.map_filter (\<lambda>t. case codec_decode (ae_de env) t of Inr e \<Rightarrow> Some (env_message e) | Inl _ \<Rightarrow> None) (ag_out s)"

definition answered :: "('e, 'd) agent_env \<Rightarrow> 'd agent \<Rightarrow> request_key list" where
  "answered env s = concat (map result_key (sent_messages env s))"

definition unanswered :: "'d agent \<Rightarrow> request_key list" where
  "unanswered s =
    map task_key (opt_list (ag_blocked s) @ ag_queue s @ ag_running s) @ map outcome_key (ag_results s)"

section \<open>Sending\<close>

lemma agent_send_fields [simp]:
  "ag_queue (agent_send env m s) = ag_queue s" "ag_blocked (agent_send env m s) = ag_blocked s"
  "ag_running (agent_send env m s) = ag_running s" "ag_results (agent_send env m s) = ag_results s"
  "ag_device (agent_send env m s) = ag_device s" "ag_open (agent_send env m s) = ag_open s"
  by (simp_all add: agent_send_def split: sum.splits)

lemma emit_ui_fields [simp]:
  "ag_queue (emit_ui env ev s) = ag_queue s" "ag_blocked (emit_ui env ev s) = ag_blocked s"
  "ag_running (emit_ui env ev s) = ag_running s" "ag_results (emit_ui env ev s) = ag_results s"
  "ag_device (emit_ui env ev s) = ag_device s" "ag_open (emit_ui env ev s) = ag_open s" "ag_out (emit_ui env ev s) = ag_out s"
  by (simp_all add: emit_ui_def)

lemma submit_task_fields [simp]:
  "ag_out (submit_task x s) = ag_out s" "ag_running (submit_task x s) = ag_running s"
  "ag_results (submit_task x s) = ag_results s" "ag_device (submit_task x s) = ag_device s" "ag_open (submit_task x s) = ag_open s"
  by (simp_all add: submit_task_def)

lemma sent_messages_send:
  "agent_json_ok env \<Longrightarrow> sent_messages env (agent_send env m s) = sent_messages env s @ [m]"
proof -
  assume "agent_json_ok env"
  then obtain t where "ae_ser env (envelope_new (ae_fresh env (length (ag_out s))) m) = Inr t"
      "ae_de env t = Inr (envelope_new (ae_fresh env (length (ag_out s))) m)"
    unfolding agent_json_ok_def by (metis envelope_new_def envelope.select_convs(1))
  then show ?thesis
    by (simp add: agent_send_def sent_messages_def codec_encode_def codec_decode_def is_compatible_def envelope_new_def
        List.map_filter_def)
qed

lemma sent_messages_cong: "ag_out s = ag_out t \<Longrightarrow> sent_messages env s = sent_messages env t"
  by (simp add: sent_messages_def)

lemma answered_send: "agent_json_ok env \<Longrightarrow> answered env (agent_send env m s) = answered env s @ result_key m"
  by (simp add: answered_def sent_messages_send)

lemma answered_cong: "ag_out s = ag_out t \<Longrightarrow> answered env s = answered env t"
  by (simp add: answered_def sent_messages_def)

section \<open>Balance\<close>

definition owed :: "('e, 'd) agent_env \<Rightarrow> 'd agent \<Rightarrow> request_key multiset" where
  "owed env s = mset (unanswered s) + mset (answered env s)"

lemma owed_submit: "ag_blocked s = None \<Longrightarrow> owed env (submit_task x s) = owed env s + {#task_key x#}"
  by (simp add: owed_def unanswered_def submit_task_def answered_def sent_messages_def)

lemma owed_send: "agent_json_ok env \<Longrightarrow> result_key m = [] \<Longrightarrow> owed env (agent_send env m s) = owed env s"
  by (simp add: owed_def unanswered_def answered_send)

lemma owed_emit: "owed env (emit_ui env ev s) = owed env s"
  by (simp add: owed_def unanswered_def answered_def sent_messages_def)

lemma owed_handle:
  "agent_json_ok env \<Longrightarrow> ag_blocked s = None \<Longrightarrow> owed env (handle_message env m s) = owed env s + mset (requested env m)"
  by (cases m)
    (auto simp: handle_message_def requested_def owed_emit owed_send owed_submit pair_accept_def Let_def split: sum.splits)

lemma owed_cong:
  "ag_out t = ag_out s \<Longrightarrow> ag_blocked t = ag_blocked s \<Longrightarrow> ag_queue t = ag_queue s \<Longrightarrow> ag_running t = ag_running s \<Longrightarrow>
    ag_results t = ag_results s \<Longrightarrow> owed env t = owed env s"
  by (simp add: owed_def unanswered_def answered_def sent_messages_def)

lemma owed_ack: "owed env (s\<lparr>ag_last_ack := now\<rparr>) = owed env s"
  by (rule owed_cong) simp_all

lemma owed_close: "owed env (s\<lparr>ag_open := False\<rparr>) = owed env s"
  by (rule owed_cong) simp_all

lemma owed_receive:
  "agent_json_ok env \<Longrightarrow> ag_blocked s = None \<Longrightarrow> owed env (agent_receive env now text s) = owed env s + mset (request_keys env text)"
  by (auto simp: agent_receive_def request_keys_def owed_handle owed_ack requested_def split: sum.splits)

lemma mset_take_out: "i < length xs \<Longrightarrow> mset xs = mset (take i xs @ drop (Suc i) xs) + {#xs ! i#}"
  by (metis id_take_nth_drop mset_append mset.simps(2) add_mset_add_single union_assoc union_commute)

lemma owed_execute: "i < length (ag_running s) \<Longrightarrow> owed env (execute_task env i s) = owed env s"
proof -
  assume i: "i < length (ag_running s)"
  obtain t origin where x: "ag_running s ! i = (t, origin)" by (cases "ag_running s ! i")
  obtain res d where r: "execute_body (ae_tasks env) (ae_providers env) (tk_body t) (ag_device s) = (res, d)"
    by (cases "execute_body (ae_tasks env) (ae_providers env) (tk_body t) (ag_device s)")
  have "mset (map task_key (ag_running s))
      = mset (map task_key (take i (ag_running s) @ drop (Suc i) (ag_running s))) + {#(tk_id t, origin)#}"
    using arg_cong [OF mset_take_out [OF i], of "image_mset task_key"] x by simp
  then show ?thesis
    by (simp add: owed_def unanswered_def answered_def sent_messages_def execute_task_def x r Let_def)
qed

lemma owed_forward: "agent_json_ok env \<Longrightarrow> owed env (forward_result env now s) = owed env s"
proof (cases "ag_results s")
  case (Cons x xs)
  moreover have "answered env (s\<lparr>ag_results := xs\<rparr>) = answered env s" by (rule answered_cong) simp
  moreover have "result_key (result_message env now x) = [outcome_key x]"
    by (cases x) (simp add: result_message_def task_result_msg_def option.map_comp option.map_ident comp_def)
  moreover assume "agent_json_ok env"
  ultimately show ?thesis
    by (simp add: forward_result_def owed_def unanswered_def answered_send)
qed (simp add: forward_result_def)

lemma owed_tick: "agent_json_ok env \<Longrightarrow> owed env (agent_tick env now s) = owed env s"
  by (simp add: agent_tick_def owed_send owed_close heartbeat_of_def heartbeat_def)

lemma owed_dispatch: "owed env (dispatch_task s) = owed env s"
  by (cases "ag_queue s") (simp_all add: dispatch_task_def owed_def unanswered_def answered_def sent_messages_def)

lemma owed_unblock: "ag_blocked s = Some x \<Longrightarrow> owed env (s\<lparr>ag_blocked := None, ag_queue := ag_queue s @ [x]\<rparr>) = owed env s"
  by (simp add: owed_def unanswered_def answered_def sent_messages_def)

lemma owed_step:
  assumes "agent_step env s label t" "agent_json_ok env"
  shows "owed env t = owed env s + mset (concat (map (request_keys env) (opt_list label)))"
  using assms
  by cases (simp_all add: owed_receive owed_execute owed_forward owed_tick owed_dispatch owed_unblock owed_close)

lemma owed_path:
  assumes "agent_path env s msgs t" "agent_json_ok env"
  shows "owed env t = owed env s + mset (concat (map (request_keys env) msgs))"
  using assms by induction (simp_all add: owed_step)

lemma agent_begin_owed:
  assumes "agent_json_ok env" "agent_begin env now d = Inr s"
  shows "owed env s = {#}"
proof -
  let ?e = "envelope_new (ae_fresh env 0) (heartbeat_of env now)"
  obtain t where "ae_ser env ?e = Inr t" "ae_de env t = Inr ?e"
    using assms(1) unfolding agent_json_ok_def by (metis envelope_new_def envelope.select_convs(1))
  then show ?thesis
    using assms(2)
    by (auto simp: agent_begin_def codec_encode_def codec_decode_def is_compatible_def envelope_new_def heartbeat_of_def heartbeat_def
        owed_def unanswered_def answered_def sent_messages_def List.map_filter_def)
qed

lemma unknown_kind_dropped:
  "hm_get (ae_registry env) (tq_kind req) = None \<Longrightarrow> tq_kind req \<noteq> ''ping'' \<Longrightarrow> handle_message env (TaskRequest req) s = s"
  by (simp add: handle_message_def create_task_def)

lemma tick_keeps_recent:
  "ag_open (agent_tick env now s) \<Longrightarrow> ag_open s \<Longrightarrow> now - ag_last_ack s < 36000"
  by (auto simp: agent_tick_def num_seconds_def HEARTBEAT_INTERVAL_SECS_def split: if_splits)

lemma serve_stops:
  "\<forall>x \<in> set xs. \<forall>e. x \<noteq> HandshakeFailed e \<Longrightarrow> snd (serve (xs @ HandshakeFailed e # ys) n) = Some e"
proof (induction xs arbitrary: n)
  case (Cons x xs) then show ?case by (cases x) simp_all
qed simp

section \<open>Progress\<close>

lemma agent_path_trans: "agent_path env t ns u \<Longrightarrow> agent_path env s ms t \<Longrightarrow> agent_path env s (ms @ ns) u"
proof (induction rule: agent_path.induct)
  case (move t ns v label u)
  then show ?case using agent_path.move [of env s "ms @ ns" v label u] by simp
qed simp

lemma agent_path_step: "agent_step env s None t \<Longrightarrow> agent_path env t [] u \<Longrightarrow> agent_path env s [] u"
  using agent_path_trans [of env t "[]" u s "[]"] agent_path.move [OF agent_path.stay, of env s None t] by simp

definition work_left :: "'d agent \<Rightarrow> nat" where
  "work_left s = 4 * length (opt_list (ag_blocked s)) + 3 * length (ag_queue s) + 2 * length (ag_running s) + length (ag_results s)"

lemma work_left_0: "work_left s = 0 \<Longrightarrow> unanswered s = []"
  by (simp add: work_left_def unanswered_def)

lemma agent_works:
  assumes "ag_open s" "0 < work_left s"
  shows "\<exists>t. agent_step env s None t \<and> ag_open t \<and> work_left t < work_left s"
proof (cases "ag_results s")
  case (Cons x xs)
  have "agent_step env s None (forward_result env 0 s)" by (rule agent_step.forward) (use assms Cons in auto)
  then show ?thesis using assms Cons by (intro exI [of _ "forward_result env 0 s"]) (auto simp: forward_result_def work_left_def)
next
  case results: Nil
  show ?thesis
  proof (cases "ag_running s")
    case (Cons x xs)
    have "agent_step env s None (execute_task env 0 s)" by (rule agent_step.execute) (use Cons in auto)
    then show ?thesis
      using assms Cons results by (intro exI [of _ "execute_task env 0 s"]) (auto simp: execute_task_def work_left_def split: prod.splits)
  next
    case running: Nil
    show ?thesis
    proof (cases "ag_queue s")
      case (Cons x xs)
      have "agent_step env s None (dispatch_task s)" by (rule agent_step.dispatch) (use assms Cons in auto)
      then show ?thesis using assms Cons by (intro exI [of _ "dispatch_task s"]) (auto simp: dispatch_task_def work_left_def)
    next
      case Nil
      then obtain x where x: "ag_blocked s = Some x" using assms results running by (cases "ag_blocked s") (auto simp: work_left_def)
      have "agent_step env s None (s\<lparr>ag_blocked := None, ag_queue := ag_queue s @ [x]\<rparr>)"
        by (rule agent_step.unblock) (use assms x Nil in \<open>auto simp: QUEUE_CAPACITY_def\<close>)
      then show ?thesis
        using assms x Nil by (intro exI [of _ "s\<lparr>ag_blocked := None, ag_queue := ag_queue s @ [x]\<rparr>"]) (auto simp: work_left_def)
    qed
  qed
qed

lemma agent_drains: "ag_open s \<Longrightarrow> \<exists>t. agent_path env s [] t \<and> ag_open t \<and> unanswered t = []"
proof (induction "work_left s" arbitrary: s rule: less_induct)
  case less
  show ?case
  proof (cases "0 < work_left s")
    case True
    obtain t where t: "agent_step env s None t" "ag_open t" "work_left t < work_left s"
      using agent_works [OF less.prems True] by blast
    then show ?thesis using less.hyps [of t] agent_path_step [OF t(1)] by blast
  next
    case False then show ?thesis using less.prems agent_path.stay [of env s] work_left_0 by blast
  qed
qed

text \<open>C9. A node answers what it is asked, in every interleaving of its event loop, its dispatcher and its tasks: at any time the requests
  read so far that it knows how to carry out are, with their multiplicity, those it has answered (once, to the sender, under the
  identifier of the request) and those it still works on; and while the connection is open it can go on by itself to
  the point where all of them are answered.\<close>

theorem agent_answers:
  assumes "agent_json_ok env" "agent_begin env now d = Inr s0" "agent_path env s0 msgs s"
  shows "mset (concat (map (request_keys env) msgs)) = mset (answered env s) + mset (unanswered s)
    \<and> (if ag_open s then \<exists>t. agent_path env s [] t \<and> mset (answered env t) = mset (concat (map (request_keys env) msgs)) else True)"
proof -
  have "owed env s0 = {#}"
    by (rule agent_begin_owed [OF assms(1,2)])
  then have o: "owed env s = mset (concat (map (request_keys env) msgs))"
    using owed_path [OF assms(3,1)] by simp
  have "\<exists>t. agent_path env s [] t \<and> mset (answered env t) = owed env s" if op: "ag_open s"
  proof -
    obtain t where t: "agent_path env s [] t" "unanswered t = []" using agent_drains [OF op] by blast
    then show ?thesis using owed_path [OF t(1) assms(1)] by (auto simp: owed_def)
  qed
  then show ?thesis using o by (simp add: owed_def add.commute)
qed

definition demo_task_env :: task_env where
  "demo_task_env =
    \<lparr>tke_encode = map char_of_byte, tke_decode = (\<lambda>s. Inr (as_bytes s)), tke_gunzip = (\<lambda>_. None), tke_reject = (\<lambda>_. [])\<rparr>"

definition demo_agent :: "(unit, unit) agent_env" where
  "demo_agent =
    \<lparr>ae_node = 5, ae_platform = Linux, ae_version = ''0.1.0'', ae_listening = False, ae_registry = agent_registry demo_task_env,
     ae_tasks = demo_task_env,
     ae_providers = \<lparr>pv_read = (\<lambda>_ _. Inl []), pv_write = (\<lambda>_ _ d. (Inl [], d)), pv_get_text = (\<lambda>_. Inl []), pv_set_text = (\<lambda>_ d. (Inl [], d)),
       pv_show = (\<lambda>_ _ d. (Inl [], d)), pv_run = (\<lambda>_ _ d. (Inl [], d))\<rparr>,
     ae_ser = write_text, ae_de = read_text, ae_fresh = of_nat, ae_ustr = (\<lambda>_. [])\<rparr>"

definition demo_ping :: string where
  "demo_ping = (case write_text (envelope_new 1 (task_request_msg 7 (NodeId 9) None ''ping'' JNull)) of Inr t \<Rightarrow> t | Inl _ \<Rightarrow> [])"

lemma demo_json: "agent_json_ok demo_agent"
  by (simp add: agent_json_ok_def demo_agent_def read_write_text)

lemma demo_ping_read:
  "codec_decode (ae_de demo_agent) demo_ping = Inr (envelope_new 1 (task_request_msg 7 (NodeId 9) None ''ping'' JNull))"
  by (simp add: demo_ping_def write_text_def read_text_def codec_decode_def demo_agent_def is_compatible_def envelope_new_def)

lemma demo_ping_key: "request_keys demo_agent demo_ping = [(7, Some 9)]"
proof -
  have "ae_registry demo_agent = agent_registry demo_task_env" by (simp add: demo_agent_def)
  then show ?thesis
    unfolding request_keys_def demo_ping_read
    by (simp add: envelope_new_def requested_def task_request_msg_def create_task_def
        agent_registry_def register_kind_def task_registry_new_def ping_task_def)
qed

lemma demo_begin: "\<exists>s0. agent_begin demo_agent 0 () = Inr s0 \<and> ag_open s0 \<and> ag_blocked s0 = None"
  by (simp add: agent_begin_def codec_encode_def demo_agent_def write_text_def)

theorem agent_answers_witness:
  "\<exists>s0 s t. agent_begin demo_agent 0 () = Inr s0 \<and> agent_path demo_agent s0 [demo_ping] s
    \<and> mset (answered demo_agent s) + mset (unanswered s) = {#(7, Some 9)#}
    \<and> agent_path demo_agent s [] t \<and> mset (answered demo_agent t) = {#(7, Some 9)#}"
proof -
  obtain s0 where s0: "agent_begin demo_agent 0 () = Inr s0" "ag_open s0" "ag_blocked s0 = None" using demo_begin by blast
  let ?s = "agent_receive demo_agent 0 demo_ping s0"
  have p: "agent_path demo_agent s0 [demo_ping] ?s"
    using agent_path.move [OF agent_path.stay agent_step.read [OF s0(2,3), of demo_agent demo_ping 0]] by simp
  have "ag_open ?s"
    using s0(2) by (auto simp: agent_receive_def handle_message_def Let_def split: sum.splits message.splits)
  moreover have "mset (answered demo_agent ?s) + mset (unanswered ?s) = {#(7, Some 9)#}"
    using agent_answers [OF demo_json s0(1) p] by (simp add: demo_ping_key)
  moreover obtain t where "agent_path demo_agent ?s [] t" "mset (answered demo_agent t) = {#(7, Some 9)#}"
    using agent_answers [OF demo_json s0(1) p] calculation(1) by (auto simp: demo_ping_key)
  ultimately show ?thesis using s0(1) p by blast
qed

end
