(* ===== verification/Agent_Calls.thy ===== *)
theory Agent_Calls
  imports Agent_Facts
begin

text \<open>
  One request on an idle node: in every interleaving of the node's event loop, dispatcher and tasks it is queued, started,
  executed once on the device and answered once.
\<close>

section \<open>One request\<close>

fun is_heartbeat :: "jvalue message \<Rightarrow> bool" where
  "is_heartbeat (Heartbeat _ _) = True"
| "is_heartbeat _ = False"

text \<open>What an observer of the node sees of it, apart from its heartbeats.\<close>

definition sent_others :: "('e, 'd) agent_env \<Rightarrow> 'd agent \<Rightarrow> jvalue message list" where
  "sent_others env s = filter (\<lambda>m. \<not> is_heartbeat m) (sent_messages env s)"

definition places :: "('e, 'd) agent_env \<Rightarrow> 'd agent
    \<Rightarrow> submitted option \<times> submitted list \<times> submitted list \<times> task_outcome list \<times> 'd \<times> jvalue message list" where
  "places env s = (ag_blocked s, ag_queue s, ag_running s, ag_results s, ag_device s, sent_others env s)"

lemma opt_list_Nil [simp]: "opt_list x = [] \<longleftrightarrow> x = None"
  by (cases x) simp_all

lemma unanswered_Nil:
  "unanswered s = [] \<longleftrightarrow> ag_blocked s = None \<and> ag_queue s = [] \<and> ag_running s = [] \<and> ag_results s = []"
  by (auto simp: unanswered_def)

lemma places_cong:
  "ag_out t = ag_out s \<Longrightarrow> ag_blocked t = ag_blocked s \<Longrightarrow> ag_queue t = ag_queue s \<Longrightarrow> ag_running t = ag_running s \<Longrightarrow>
    ag_results t = ag_results s \<Longrightarrow> ag_device t = ag_device s \<Longrightarrow> places env t = places env s"
  by (simp add: places_def sent_others_def sent_messages_def)

lemma places_tick: "agent_json_ok env \<Longrightarrow> places env (agent_tick env now s) = places env s"
  by (auto simp: agent_tick_def places_def sent_others_def sent_messages_send heartbeat_of_def heartbeat_def)
    (simp_all add: sent_messages_def)

lemma places_close: "places env (s\<lparr>ag_open := False\<rparr>) = places env s"
  by (rule places_cong) simp_all

lemma places_emit: "places env (emit_ui env ev s) = places env s"
  by (rule places_cong) simp_all

text \<open>Where a node can be with one request, from its reading to its answer.\<close>

inductive stage :: "('e, 'd) agent_env \<Rightarrow> submitted \<Rightarrow> 'd \<Rightarrow> jvalue message list \<Rightarrow> bool \<Rightarrow> 'd agent \<Rightarrow> bool"
  for env :: "('e, 'd) agent_env" and x :: submitted and d :: 'd and ms :: "jvalue message list" where
  unread: "places env s = (None, [], [], [], d, ms) \<Longrightarrow> stage env x d ms False s"
| queued: "places env s = (None, [x], [], [], d, ms) \<Longrightarrow> stage env x d ms True s"
| started: "places env s = (None, [], [x], [], d, ms) \<Longrightarrow> stage env x d ms True s"
| executed: "execute_body (ae_tasks env) (ae_providers env) (tk_body (fst x)) d = (res, d') \<Longrightarrow>
    places env s = (None, [], [], [(tk_id (fst x), snd x, res)], d', ms) \<Longrightarrow> stage env x d ms True s"
| answered: "execute_body (ae_tasks env) (ae_providers env) (tk_body (fst x)) d = (res, d') \<Longrightarrow>
    places env s = (None, [], [], [], d', ms @ [result_message env now (tk_id (fst x), snd x, res)]) \<Longrightarrow> stage env x d ms True s"

lemma stage_cong: "stage env x d ms b s \<Longrightarrow> places env t = places env s \<Longrightarrow> stage env x d ms b t"
  by (induction rule: stage.induct) (auto intro: stage.intros)

lemma not_heartbeat_result [simp]: "\<not> is_heartbeat (result_message env now y)"
  by (simp add: result_message_def task_result_msg_def split: prod.splits)

lemma stage_dispatch:
  assumes "stage env x d ms b s" "ag_queue s \<noteq> []"
  shows "stage env x d ms b (dispatch_task s)"
  using assms
proof cases
  case queued
  have "places env (dispatch_task s) = (None, [], [x], [], d, ms)"
    using queued by (simp add: places_def dispatch_task_def sent_others_def sent_messages_def)
  then show ?thesis using queued by (simp add: stage.started)
qed (use assms(2) in \<open>auto simp: places_def\<close>)

lemma stage_execute:
  assumes "stage env x d ms b s" "i < length (ag_running s)"
  shows "stage env x d ms b (execute_task env i s)"
  using assms
proof cases
  case started
  obtain res d' where r: "execute_body (ae_tasks env) (ae_providers env) (tk_body (fst x)) d = (res, d')"
    by (cases "execute_body (ae_tasks env) (ae_providers env) (tk_body (fst x)) d")
  have "places env (execute_task env i s) = (None, [], [], [(tk_id (fst x), snd x, res)], d', ms)"
    using started assms(2) r
    by (cases x) (simp add: places_def execute_task_def sent_others_def sent_messages_def)
  then show ?thesis using started r by (simp add: stage.executed)
qed (use assms(2) in \<open>auto simp: places_def\<close>)

lemma stage_forward:
  assumes "stage env x d ms b s" "ag_results s \<noteq> []" "agent_json_ok env"
  shows "stage env x d ms b (forward_result env now s)"
  using assms(1)
proof cases
  case (executed res d')
  have "places env (forward_result env now s)
      = (None, [], [], [], d', ms @ [result_message env now (tk_id (fst x), snd x, res)])"
    using executed sent_messages_send [OF assms(3)]
    by (auto simp: places_def forward_result_def sent_others_def) (simp_all add: sent_messages_def)
  then show ?thesis using executed by (simp add: stage.answered)
qed (use assms(2) in \<open>auto simp: places_def\<close>)


lemma stage_read:
  assumes "stage env x d ms False s" "codec_decode (ae_de env) req_text = Inr e" "env_message e = TaskRequest req"
    "create_task req (ae_registry env) = Inr (fst x)" "snd x = Some (node_uuid (tq_from req))"
  shows "stage env x d ms True (agent_receive env now req_text s)"
proof -
  have p: "places env s = (None, [], [], [], d, ms)" using assms(1) by cases simp_all
  obtain s1 where s1: "agent_receive env now req_text s = submit_task x s1" "places env s1 = places env s"
    using assms(2-5) by (cases x) (auto simp: agent_receive_def handle_message_def Let_def places_emit)
  have "places env (submit_task x s1) = (None, [x], [], [], d, ms)"
    using p s1(2) by (simp add: places_def submit_task_def QUEUE_CAPACITY_def sent_others_def sent_messages_def)
  then show ?thesis using s1(1) by (simp add: stage.queued)
qed

lemma stage_blocked: "stage env x d ms b s \<Longrightarrow> ag_blocked s = None"
  by (erule stage.cases) (simp_all add: places_def)

lemma stage_step:
  assumes "agent_step env s None t" "stage env x d ms b s" "agent_json_ok env"
  shows "stage env x d ms b t"
  using assms(1)
proof cases
  case (unblock y)
  then show ?thesis using stage_blocked [OF assms(2)] by simp
next
  case (tick now)
  then show ?thesis using stage_cong [OF assms(2) places_tick [OF assms(3)]] by simp
next
  case hangup
  then show ?thesis using stage_cong [OF assms(2) places_close] by simp
qed (use assms(2,3) in \<open>auto intro: stage_dispatch stage_execute stage_forward\<close>)

lemma stage_path:
  assumes "agent_path env s msgs t" "length msgs \<le> 1" "set msgs \<subseteq> {req_text}" "stage env x d ms False s" "agent_json_ok env"
    "codec_decode (ae_de env) req_text = Inr e" "env_message e = TaskRequest req"
    "create_task req (ae_registry env) = Inr (fst x)" "snd x = Some (node_uuid (tq_from req))"
  shows "stage env x d ms (msgs \<noteq> []) t"
  using assms(1-4)
proof induction
  case (move s msgs t label u)
  show ?case
  proof (cases label)
    case None
    then show ?thesis using move stage_step [OF _ _ assms(5)] by (auto simp: opt_list.simps)
  next
    case (Some msg)
    then have "msgs = []" "msg = req_text" using move.prems by simp_all
    moreover have "stage env x d ms False t" using move Some by simp
    ultimately show ?thesis
      using move.hyps(2) Some stage_read [OF _ assms(6-9)] by (auto elim: agent_step.cases)
  qed
qed simp

lemma one_request:
  assumes "agent_path env s [req_text] t" "unanswered s = []" "unanswered t = []" "agent_json_ok env"
    "codec_decode (ae_de env) req_text = Inr e" "env_message e = TaskRequest req"
    "create_task req (ae_registry env) = Inr tk"
    "execute_body (ae_tasks env) (ae_providers env) (tk_body tk) (ag_device s) = (res, d')"
  shows "ag_device t = d' \<and> (\<exists>now. sent_others env t =
    sent_others env s @ [result_message env now (tk_id tk, Some (node_uuid (tq_from req)), res)])"
proof -
  let ?x = "(tk, Some (node_uuid (tq_from req)))"
  have "stage env ?x (ag_device s) (sent_others env s) False s"
    using assms(2) by (intro stage.unread) (simp add: unanswered_Nil places_def)
  then have "stage env ?x (ag_device s) (sent_others env s) True t"
    using stage_path [OF assms(1) _ _ _ assms(4-6), of ?x] assms(7) by simp
  then show ?thesis
    using assms(3,8) by cases (auto simp: places_def unanswered_Nil)
qed

end
