(* ===== verification/Desktop_Providers.thy ===== *)
theory Desktop_Providers
  imports Tasks
begin

text \<open>
  The providers of the desktop agent (\<^verbatim>\<open>agents/desktop/src/providers\<close>) over an explicit device: its files, its clipboard
  and the commands it was made to run. The operating system is the argument: how a path resolves to a file, which reads and
  writes it refuses, what a command answers and does to the files; so is \<^verbatim>\<open>arboard\<close>, with the clipboard \<open>'c\<close> it works on.

  The contract of a file provider is a locale, in which the effect of a file task is proved once; the desktop provider is
  its interpretation.
\<close>

section \<open>The device\<close>

text \<open>What a finished command leaves: whether it succeeded, its output and its error output.\<close>

record process_result =
  pr_success :: bool
  pr_stdout :: bytes
  pr_stderr :: bytes

record 'c device =
  dv_files :: "string \<rightharpoonup> bytes"
  dv_clipboard :: 'c
  dv_commands :: "(string \<times> string list) list"

record 'c desktop_env =
  dke_resolve :: "string \<Rightarrow> string"
  dke_read_denied :: "string \<Rightarrow> string option"
  dke_no_file :: "string \<Rightarrow> string"
  dke_write_denied :: "string \<Rightarrow> string option"
  dke_get_text :: "'c \<Rightarrow> string + string"
  dke_set_text :: "string \<Rightarrow> 'c \<Rightarrow> (string + unit) \<times> 'c"
  dke_run :: "string \<Rightarrow> string list \<Rightarrow> (string \<rightharpoonup> bytes) \<Rightarrow> (string + process_result) \<times> (string \<rightharpoonup> bytes)"

section \<open>Providers\<close>

definition desktop_read :: "'c desktop_env \<Rightarrow> string \<Rightarrow> 'c device \<Rightarrow> string + bytes" where
  "desktop_read env path d =
    (case dke_read_denied env path of
       Some e \<Rightarrow> Inl (''Failed to read file: '' @ e)
     | None \<Rightarrow>
         (case dv_files d (dke_resolve env path) of
            Some b \<Rightarrow> Inr b
          | None \<Rightarrow> Inl (''Failed to read file: '' @ dke_no_file env path)))"

definition desktop_write :: "'c desktop_env \<Rightarrow> string \<Rightarrow> bytes \<Rightarrow> 'c device \<Rightarrow> (string + unit) \<times> 'c device" where
  "desktop_write env path content d =
    (case dke_write_denied env path of
       Some e \<Rightarrow> (Inl (''Failed to write file: '' @ e), d)
     | None \<Rightarrow> (Inr (), d\<lparr>dv_files := (dv_files d)(dke_resolve env path \<mapsto> content)\<rparr>))"

definition desktop_get_text :: "'c desktop_env \<Rightarrow> 'c device \<Rightarrow> string + string" where
  "desktop_get_text env d = dke_get_text env (dv_clipboard d)"

definition desktop_set_text :: "'c desktop_env \<Rightarrow> string \<Rightarrow> 'c device \<Rightarrow> (string + unit) \<times> 'c device" where
  "desktop_set_text env t d =
    (let (res, c) = dke_set_text env t (dv_clipboard d) in (res, d\<lparr>dv_clipboard := c\<rparr>))"

definition run_command :: "'c desktop_env \<Rightarrow> string \<Rightarrow> string list \<Rightarrow> 'c device \<Rightarrow> (string + process_result) \<times> 'c device" where
  "run_command env cmd args d =
    (let (res, files) = dke_run env cmd args (dv_files d) in
     (res, d\<lparr>dv_files := files, dv_commands := dv_commands d @ [(cmd, args)]\<rparr>))"

text \<open>The text a command answers with: its output, and its error output on a new line where there is any. Whether the command
  succeeded is not looked at.\<close>

definition command_text :: "process_result \<Rightarrow> string" where
  "command_text r =
    (let out = from_utf8_lossy (pr_stdout r) in
     if pr_stderr r = [] then out
     else (if out = [] then out else out @ [CHR 10]) @ from_utf8_lossy (pr_stderr r))"

definition desktop_run :: "'c desktop_env \<Rightarrow> string \<Rightarrow> string list \<Rightarrow> 'c device \<Rightarrow> (string + string) \<times> 'c device" where
  "desktop_run env cmd args d =
    (case run_command env cmd args d of
       (Inl e, d') \<Rightarrow> (Inl (''Failed to execute command: '' @ e), d')
     | (Inr r, d') \<Rightarrow> (Inr (command_text r), d'))"

text \<open>AppleScript: double quotes of the arguments become single ones, backslashes stay.\<close>

definition no_quotes :: "string \<Rightarrow> string" where
  "no_quotes s = map (\<lambda>c. if c = CHR 34 then CHR 39 else c) s"

definition dquote :: "string \<Rightarrow> string" where
  "dquote s = CHR 34 # s @ [CHR 34]"

definition banner_script :: "string \<Rightarrow> string \<Rightarrow> string" where
  "banner_script title body =
    ''display notification '' @ dquote (no_quotes body) @ '' with title '' @ dquote (no_quotes title)
      @ '' sound name '' @ dquote ''default''"

definition dialog_script :: "string \<Rightarrow> string \<Rightarrow> string" where
  "dialog_script title body =
    ''display dialog '' @ dquote (no_quotes body) @ '' with title '' @ dquote (no_quotes title)
      @ '' buttons {'' @ dquote ''OK'' @ ''} default button '' @ dquote ''OK'' @ '' with icon note''"

definition desktop_show :: "'c desktop_env \<Rightarrow> string \<Rightarrow> string \<Rightarrow> 'c device \<Rightarrow> (string + unit) \<times> 'c device" where
  "desktop_show env title body d =
    (let (banner, d1) = run_command env ''osascript'' [''-e'', banner_script title body] d in
     if (case banner of Inr r \<Rightarrow> pr_success r | Inl _ \<Rightarrow> False) then (Inr (), d1)
     else
       (case run_command env ''osascript'' [''-e'', dialog_script title body] d1 of
          (Inl e, d2) \<Rightarrow> (Inl (''Failed to execute osascript: '' @ e), d2)
        | (Inr r, d2) \<Rightarrow>
            if pr_success r then (Inr (), d2)
            else (Inl (''osascript failed: '' @ from_utf8_lossy (pr_stderr r)), d2)))"

definition desktop_providers :: "'c desktop_env \<Rightarrow> 'c device providers" where
  "desktop_providers env =
    \<lparr>pv_read = desktop_read env, pv_write = desktop_write env, pv_get_text = desktop_get_text env,
     pv_set_text = desktop_set_text env, pv_show = desktop_show env, pv_run = desktop_run env\<rparr>"

section \<open>The contract of a file provider\<close>

text \<open>A write that succeeds is what the next read of the path returns, unless reads of it are refused; it leaves what reads of
  unrelated paths return.\<close>

locale file_provider =
  fixes env :: task_env
    and pv :: "'d providers"
    and readable :: "string \<Rightarrow> bool"
    and same_file :: "string \<Rightarrow> string \<Rightarrow> bool"
  assumes read_written: "pv_write pv p b d = (Inr (), d') \<Longrightarrow> readable q \<Longrightarrow> same_file p q \<Longrightarrow> pv_read pv q d' = Inr b"
    and read_other: "pv_write pv p b d = (res, d') \<Longrightarrow> \<not> same_file p q \<Longrightarrow> pv_read pv q d' = pv_read pv q d"
begin

lemma write_task_reads:
  assumes w: "execute_file env pv (JObj kvs) d = (Inr v, d')"
    and op: "map_of kvs ''op'' = Some (JStr ''write'')" and path: "map_of kvs ''path'' = Some (JStr p)"
    and content: "map_of kvs ''content'' = Some (JStr c)" and b: "written_bytes env (JObj kvs) c = Inr b"
    and r: "readable q" "same_file p q"
  shows "v = success [] \<and> pv_read pv q d' = Inr b"
proof -
  obtain res where res: "pv_write pv p b d = res" by simp
  show ?thesis
    using w op path content b r res read_written [of p b d d' q]
    by (cases res) (auto simp: execute_file_def json_defs split: sum.splits)
qed

lemma write_task_keeps:
  assumes "execute_file env pv (JObj kvs) d = (res, d')" "map_of kvs ''path'' = Some (JStr p)" "\<not> same_file p q"
  shows "pv_read pv q d' = pv_read pv q d"
  using assms read_other
  by (auto simp: execute_file_def json_defs split: option.splits sum.splits prod.splits if_splits)

lemma read_task_reads:
  assumes "pv_read pv p d = Inr b"
  shows "execute_file env pv (JObj [(''op'', JStr ''read''), (''path'', JStr p)]) d
      = (Inr (success [(''content'', JStr (tke_encode env b))]), d)"
  using assms by (simp add: execute_file_def json_defs)

end

interpretation desktop: file_provider tenv "desktop_providers env" "\<lambda>q. dke_read_denied env q = None"
    "\<lambda>p q. dke_resolve env p = dke_resolve env q" for tenv env
  by unfold_locales (auto simp: desktop_providers_def desktop_read_def desktop_write_def split: option.splits)

end
