(* ===== verification/Remote_Client.thy ===== *)
theory Remote_Client
  imports Tasks Cli_Telemetry
begin

text \<open>
  The commands of the command line client that have another node do something (\<^verbatim>\<open>cli/src/file.rs\<close>, \<^verbatim>\<open>clipboard.rs\<close>, \<^verbatim>\<open>terminal.rs\<close>,
  \<^verbatim>\<open>notify.rs\<close>, \<^verbatim>\<open>ping.rs\<close>, \<^verbatim>\<open>pair.rs\<close>, \<^verbatim>\<open>search.rs\<close>): the request each sends, what it waits for, and what it makes of the result. All
  use the connection of \<^verbatim>\<open>crates/networking\<close> and run their request as the only task of a dispatcher of their own, which hands on
  what the task returns.
\<close>

section \<open>The connection\<close>

text \<open>What reading from the socket yields: a text, another frame, the end, an error. \<open>conn_recv\<close> is one call of \<^verbatim>\<open>recv\<close> with what is left to
  read: nothing where it still waits. The version of an envelope is not looked at.\<close>

datatype ws_item = WsText string | WsOther | WsEnd | WsError string

fun conn_recv :: "(string \<Rightarrow> 'e + jvalue envelope) \<Rightarrow> ws_item list \<Rightarrow> (bool \<times> jvalue message option \<times> ws_item list) option" where
  "conn_recv de [] = None"
| "conn_recv de (WsText t # xs) =
    (case de t of Inr e \<Rightarrow> Some (True, Some (env_message e), xs) | Inl _ \<Rightarrow> Some (False, None, xs))"
| "conn_recv de (WsOther # xs) = conn_recv de xs"
| "conn_recv de (WsEnd # xs) = Some (True, None, xs)"
| "conn_recv de (WsError _ # xs) = Some (False, None, xs)"

lemma conn_recv_shorter: "conn_recv de xs = Some (ok, m, ys) \<Longrightarrow> length ys < length xs"
  by (induction de xs rule: conn_recv.induct) (auto split: sum.splits)

text \<open>The loop of a task that waits for an answer: \<open>pick\<close> decides what a message means to it, if anything; nothing where it still
  waits.\<close>

function await :: "(string \<Rightarrow> 'e + jvalue envelope) \<Rightarrow> (jvalue message \<Rightarrow> (task_error + jvalue) option) \<Rightarrow> ws_item list
    \<Rightarrow> (task_error + jvalue) option" where
  "await de pick xs =
    (case conn_recv de xs of
       None \<Rightarrow> None
     | Some (ok, m, ys) \<Rightarrow>
         (case m of
            Some msg \<Rightarrow> (case pick msg of Some r \<Rightarrow> Some r | None \<Rightarrow> await de pick ys)
          | None \<Rightarrow> Some (Inl (ExecutionFailed ''Connection closed''))))"
  by pat_completeness auto

termination
  by (relation "measure (\<lambda>(_, _, xs). length xs)") (auto dest: conn_recv_shorter)

declare await.simps [simp del]

fun pick_result :: "jvalue message \<Rightarrow> (task_error + jvalue) option" where
  "pick_result (TaskResult res) = Some (Inr (tr_result res))"
| "pick_result (ErrorMsg c m) = Some (Inl (ExecutionFailed (c @ '': '' @ m)))"
| "pick_result _ = None"

text \<open>A client task: the send, with its error if any, and the wait.\<close>

definition client_execute :: "(string \<Rightarrow> 'e + jvalue envelope) \<Rightarrow> (jvalue message \<Rightarrow> (task_error + jvalue) option) \<Rightarrow> string option
    \<Rightarrow> ws_item list \<Rightarrow> (task_error + jvalue) option" where
  "client_execute de pick send_error xs =
    (case send_error of Some e \<Rightarrow> Some (Inl (ExecutionFailed e)) | None \<Rightarrow> await de pick xs)"

section \<open>Requests\<close>

definition file_payload :: "string \<Rightarrow> string \<Rightarrow> string option \<Rightarrow> bool \<Rightarrow> jvalue" where
  "file_payload op path content compressed =
    JObj ([(''op'', JStr op), (''path'', JStr path)]
      @ (case content of Some c \<Rightarrow> [(''content'', JStr c)] | None \<Rightarrow> [])
      @ (if compressed then [(''compressed'', JBool True)] else []))"

definition clipboard_payload :: "string \<Rightarrow> string option \<Rightarrow> jvalue" where
  "clipboard_payload action content =
    (if action = ''get'' then JObj [(''action'', JStr ''get'')]
     else JObj [(''action'', JStr ''set''), (''content'', JStr (case content of Some c \<Rightarrow> c | None \<Rightarrow> []))])"

definition terminal_payload :: "string \<Rightarrow> string list \<Rightarrow> jvalue" where
  "terminal_payload command args = JObj [(''command'', JStr command), (''args'', JArr (map JStr args))]"

definition notify_payload :: "string \<Rightarrow> string \<Rightarrow> jvalue" where
  "notify_payload title body = JObj [(''title'', JStr title), (''body'', JStr body)]"

definition ping_payload :: jvalue where
  "ping_payload = JObj [(''type'', JStr ''ping'')]"

definition client_request :: "uuid \<Rightarrow> node_id \<Rightarrow> node_id \<Rightarrow> string \<Rightarrow> jvalue \<Rightarrow> jvalue message" where
  "client_request fresh cli target kind payload = task_request_msg fresh cli (Some target) kind payload"

text \<open>Pairing and searching wait for messages of their own; \<open>to_json\<close> is the JSON of the answer. Searching ignores errors.\<close>

definition pair_client_request :: "node_id \<Rightarrow> node_id \<Rightarrow> string \<Rightarrow> jvalue message" where
  "pair_client_request cli target pcode = pair_request_msg cli target ''CLI'' ''0000'' [] pcode"

definition pick_pairing :: "(pair_response \<Rightarrow> jvalue) \<Rightarrow> jvalue message \<Rightarrow> (task_error + jvalue) option" where
  "pick_pairing to_json m =
    (case m of
       PairResponse resp \<Rightarrow> Some (Inr (to_json resp))
     | ErrorMsg c t \<Rightarrow> Some (Inl (ExecutionFailed (c @ '': '' @ t)))
     | _ \<Rightarrow> None)"

definition pick_search :: "(search_result list \<Rightarrow> jvalue) \<Rightarrow> jvalue message \<Rightarrow> (task_error + jvalue) option" where
  "pick_search to_json m = (case m of SearchResponse resp \<Rightarrow> Some (Inr (to_json (sp_results resp))) | _ \<Rightarrow> None)"

section \<open>Results\<close>

text \<open>\<open>show_json\<close> is the debug text of a JSON value.\<close>

definition failed_reply :: "string \<Rightarrow> (jvalue \<Rightarrow> string) \<Rightarrow> jvalue \<Rightarrow> string" where
  "failed_reply what show_json v =
    (case str_field ''error'' v of Some e \<Rightarrow> what @ '' error: '' @ e | None \<Rightarrow> ''Invalid response: '' @ show_json v)"

definition clipboard_got :: "(jvalue \<Rightarrow> string) \<Rightarrow> task_error + jvalue \<Rightarrow> string + string" where
  "clipboard_got show_json res =
    (case res of
       Inl e \<Rightarrow> Inl (''Error: '' @ task_error_to_string e)
     | Inr v \<Rightarrow> (case str_field ''content'' v of Some c \<Rightarrow> Inr c | None \<Rightarrow> Inl (failed_reply ''Clipboard'' show_json v)))"

definition done_or_failed :: "string \<Rightarrow> (jvalue \<Rightarrow> string) \<Rightarrow> task_error + jvalue \<Rightarrow> string + unit" where
  "done_or_failed what show_json res =
    (case res of
       Inl e \<Rightarrow> Inl (''Error: '' @ task_error_to_string e)
     | Inr v \<Rightarrow> (if bool_field ''success'' v = Some True then Inr () else Inl (failed_reply what show_json v)))"

definition clipboard_set :: "(jvalue \<Rightarrow> string) \<Rightarrow> task_error + jvalue \<Rightarrow> string + unit" where
  "clipboard_set = done_or_failed ''Clipboard''"

definition notified :: "(jvalue \<Rightarrow> string) \<Rightarrow> task_error + jvalue \<Rightarrow> string + unit" where
  "notified = done_or_failed ''Notification''"

definition terminal_ran :: "(jvalue \<Rightarrow> string) \<Rightarrow> task_error + jvalue \<Rightarrow> string + string" where
  "terminal_ran show_json res =
    bind_res (done_or_failed ''Terminal'' show_json res)
      (\<lambda>_. Inr (case res of Inr v \<Rightarrow> (case str_field ''output'' v of Some t \<Rightarrow> t | None \<Rightarrow> []) | Inl _ \<Rightarrow> []))"

text \<open>Reading a file: the bytes to write to the local path.\<close>

definition file_read_reply :: "task_env \<Rightarrow> (jvalue \<Rightarrow> string) \<Rightarrow> task_error + jvalue \<Rightarrow> string + bytes" where
  "file_read_reply env show_json res =
    (case res of
       Inl e \<Rightarrow> Inl (''Error: '' @ task_error_to_string e)
     | Inr v \<Rightarrow>
         (case (if bool_field ''success'' v = Some True then str_field ''content'' v else None) of
            Some c \<Rightarrow> tke_decode env c
          | None \<Rightarrow>
              (case str_field ''error'' v of
                 Some e \<Rightarrow> Inl (''File read error: '' @ e)
               | None \<Rightarrow> Inl (''Invalid response: '' @ show_json v))))"

definition run_file_read :: "task_env \<Rightarrow> (jvalue \<Rightarrow> string) \<Rightarrow> (string \<Rightarrow> bytes \<Rightarrow> string option) \<Rightarrow> string \<Rightarrow> (task_error + jvalue) option
    \<Rightarrow> (string \<rightharpoonup> bytes) \<Rightarrow> (string \<rightharpoonup> bytes) \<times> (string + unit)" where
  "run_file_read env show_json write_error local_path reply files =
    (case reply of
       None \<Rightarrow> (files, Inl ''No response from file read'')
     | Some res \<Rightarrow>
         (case file_read_reply env show_json res of
            Inl e \<Rightarrow> (files, Inl e)
          | Inr b \<Rightarrow>
              (case write_error local_path b of
                 Some e \<Rightarrow> (files, Inl e)
               | None \<Rightarrow> (files(local_path \<mapsto> b), Inr ()))))"

section \<open>Writing a file\<close>

text \<open>The file name the client decides by, and the request it sends.\<close>

definition local_name :: "string \<Rightarrow> string" where
  "local_name path = (case path_file_name path of Some n \<Rightarrow> if utf8_valid n then n else path | None \<Rightarrow> path)"

definition write_content :: "task_env \<Rightarrow> (bytes \<Rightarrow> bytes) \<Rightarrow> string \<Rightarrow> bytes \<Rightarrow> string" where
  "write_content env gzip name data = tke_encode env (if should_compress name then gzip data else data)"

definition write_payload :: "task_env \<Rightarrow> (bytes \<Rightarrow> bytes) \<Rightarrow> string \<Rightarrow> string \<Rightarrow> bytes \<Rightarrow> jvalue" where
  "write_payload env gzip local_path remote_path data =
    file_payload ''write'' remote_path (Some (write_content env gzip (local_name local_path) data)) (should_compress (local_name local_path))"

text \<open>What a write reads from the clock and the system as it goes on.\<close>

record write_clock =
  wck_start :: instant
  wck_begin :: instant
  wck_packed :: instant
  wck_stream :: instant
  wck_reply :: instant
  wck_verify :: instant
  wck_end :: instant
  wck_stamp :: string
  wck_event_stamp :: string
  wck_stop_stamp :: string
  wck_since :: "string \<Rightarrow> int option"
  wck_counter :: nat
  wck_pack_ms :: u64
  wck_cpu_start :: fl
  wck_cpu_end :: fl

definition write_begun :: "rounding \<Rightarrow> write_clock \<Rightarrow> (bytes \<Rightarrow> bytes) \<Rightarrow> string \<Rightarrow> bytes \<Rightarrow> transfer_tracker" where
  "write_begun rnd ck gzip name data =
    (let n = (of_nat (length data) :: u64);
         t = tracker_start (wck_start ck) (new_transfer_session (wck_stamp ck) (wck_counter ck) name n);
         t1 = (if should_compress name
               then end_phase rnd (wck_packed ck)
                 (set_compression_stats rnd n (of_nat (length (gzip data))) (wck_pack_ms ck)
                   (fl_max (fl_sub rnd (wck_cpu_end ck) (wck_cpu_start ck)) (Fin 0)) (begin_phase rnd (wck_begin ck) ''Compression'' t))
               else t) in
     begin_phase rnd (wck_stream ck) ''Streaming'' t1)"

definition write_sent :: "write_clock \<Rightarrow> string \<Rightarrow> bytes \<Rightarrow> transfer_tracker \<Rightarrow> transfer_tracker" where
  "write_sent ck name data t =
    record_protocol_event (wck_event_stamp ck) ''transfer_sent'' (''file='' @ name @ '',size='' @ show_nat (length data)) t"

definition write_verified :: "rounding \<Rightarrow> write_clock \<Rightarrow> (bytes \<Rightarrow> string) \<Rightarrow> bytes \<Rightarrow> transfer_tracker \<Rightarrow> transfer_tracker" where
  "write_verified rnd ck sha data t =
    (let t1 = end_phase rnd (wck_reply ck) (record_speed rnd (wck_reply ck) (of_nat (length data)) t);
         t2 = begin_phase rnd (wck_verify ck) ''Verification'' t1;
         s = ttr_session t2 in
     end_phase rnd (wck_verify ck) (t2\<lparr>ttr_session := s\<lparr>cse_sha256 := Some (sha data), cse_verified := True\<rparr>\<rparr>))"

text \<open>The end of a write, from the reply: the session that is stored and the result; no value where finalising the session panics.\<close>

definition write_failed :: "rounding \<Rightarrow> write_clock \<Rightarrow> string \<Rightarrow> string \<Rightarrow> transfer_tracker \<Rightarrow> (cli_session \<times> (string + unit)) option" where
  "write_failed rnd ck reason msg t =
    map_option (\<lambda>s. (s, Inl msg)) (tracker_fail rnd (wck_end ck) (wck_stop_stamp ck) (wck_since ck) reason t)"

definition write_ended :: "rounding \<Rightarrow> write_clock \<Rightarrow> (bytes \<Rightarrow> string) \<Rightarrow> bytes \<Rightarrow> (task_error + jvalue) option \<Rightarrow> transfer_tracker
    \<Rightarrow> (cli_session \<times> (string + unit)) option" where
  "write_ended rnd ck sha data reply t =
    (let silent = write_failed rnd ck ''no_response'' ''No response from file write'' t in
     case reply of
       None \<Rightarrow> silent
     | Some (Inl e) \<Rightarrow> write_failed rnd ck (task_error_to_string e) (''Error: '' @ task_error_to_string e) t
     | Some (Inr v) \<Rightarrow>
         (if bool_field ''success'' v = Some True then
            map_option (\<lambda>s. (s, Inr ()))
              (tracker_complete rnd (wck_end ck) (wck_stop_stamp ck) (wck_since ck) (Fin 100) (write_verified rnd ck sha data t))
          else
            (case str_field ''error'' v of
               Some e \<Rightarrow> write_failed rnd ck e (''File write error: '' @ e) t
             | None \<Rightarrow> silent)))"

text \<open>From the local file to the stored session: an error before the connection stands (\<open>link\<close>) leaves no session.\<close>

definition run_file_write :: "rounding \<Rightarrow> write_clock \<Rightarrow> (bytes \<Rightarrow> bytes) \<Rightarrow> (bytes \<Rightarrow> string) \<Rightarrow> string \<Rightarrow> string + bytes \<Rightarrow> string + unit
    \<Rightarrow> (task_error + jvalue) option \<Rightarrow> cli_session list \<Rightarrow> (cli_session list \<times> (string + unit)) option" where
  "run_file_write rnd ck gzip sha local_path contents link reply sessions =
    (case contents of
       Inl e \<Rightarrow> Some (sessions, Inl e)
     | Inr data \<Rightarrow>
         (let name = local_name local_path; t = write_begun rnd ck gzip name data in
          case link of
            Inl e \<Rightarrow> Some (sessions, Inl e)
          | Inr _ \<Rightarrow>
              map_option (\<lambda>(s, r). (store_session s sessions, r)) (write_ended rnd ck sha data reply (write_sent ck name data t))))"

end
