(* ===== verification/Remote_Facts.thy ===== *)
theory Remote_Facts
  imports Agent_Calls Desktop_Providers Remote_Client Relay
begin

text \<open>
  A remote call from end to end: the request of the command line client, the relay that forwards it, the node that carries it out
  in any interleaving of its event loop, dispatcher and tasks, the relay again, and what the client makes of the answer.
\<close>

section \<open>Through the relay\<close>

text \<open>The relay on the texts of one connection, and what it puts on a channel.\<close>

fun relay_texts :: "('j, 'e) relay_env \<Rightarrow> (nat \<Rightarrow> uuid) \<Rightarrow> node_tx \<Rightarrow> string list \<Rightarrow> registry
    \<Rightarrow> registry \<times> (node_tx \<times> string) list" where
  "relay_texts renv fresh tx [] r = (r, [])"
| "relay_texts renv fresh tx (t # ts) r =
    (let (r1, out1) = dispatch renv (fresh (length ts)) t tx r; (r2, out2) = relay_texts renv fresh tx ts r1 in (r2, out1 @ out2))"

definition on_channel :: "node_tx \<Rightarrow> (node_tx \<times> string) list \<Rightarrow> string list" where
  "on_channel tx out = map snd (filter (\<lambda>p. fst p = tx) out)"

definition decoded :: "(string \<Rightarrow> 'e + 'j envelope) \<Rightarrow> string list \<Rightarrow> 'j message list" where
  "decoded de ts = List.map_filter (\<lambda>t. case codec_decode de t of Inr e \<Rightarrow> Some (env_message e) | Inl _ \<Rightarrow> None) ts"

definition wire_ok :: "('j envelope \<Rightarrow> 'e + string) \<Rightarrow> (string \<Rightarrow> 'e + 'j envelope) \<Rightarrow> bool" where
  "wire_ok ser de \<longleftrightarrow> (\<forall>e. env_version e = PROTOCOL_VERSION \<longrightarrow> (\<exists>s. ser e = Inr s \<and> de s = Inr e))"

lemma on_channel_append [simp]: "on_channel tx (xs @ ys) = on_channel tx xs @ on_channel tx ys"
  by (simp add: on_channel_def)

lemma decoded_Cons:
  "decoded de (t # ts) = (case codec_decode de t of Inr e \<Rightarrow> env_message e # decoded de ts | Inl _ \<Rightarrow> decoded de ts)"
  by (simp add: decoded_def List.map_filter_def split: sum.splits)

lemma send_msg_other: "tx \<noteq> tx' \<Longrightarrow> on_channel tx' (send_msg ser f tx m) = []"
  by (simp add: send_msg_def on_channel_def split: sum.splits)

lemma send_msg_wire:
  assumes "wire_ok ser de"
  obtains t where "send_msg ser f tx m = [(tx, t)]" "de t = Inr (envelope_new f m)"
    "codec_decode de t = Inr (envelope_new f m)"
proof -
  obtain t where t: "ser (envelope_new f m) = Inr t" "de t = Inr (envelope_new f m)"
    using assms unfolding wire_ok_def by (metis envelope_new_def envelope.select_convs(1))
  show thesis
    by (rule that [of t]) (use t in \<open>simp_all add: send_msg_def codec_encode_def codec_decode_def is_compatible_def envelope_new_def\<close>)
qed


lemma dispatch_undecoded:
  fixes renv :: "(jvalue, 'e) relay_env"
  assumes "codec_decode (re_de renv) t = Inl e" "dispatch renv f t ta r = (r', out)" "ta \<noteq> tc"
  shows "on_channel tc out = [] \<and> (\<forall>k. get_tx k r' = get_tx k r)"
  using assms by (auto simp: dispatch_def send_error_def send_msg_other)

lemma dispatch_heartbeat:
  fixes renv :: "(jvalue, 'e) relay_env"
  assumes "codec_decode (re_de renv) t = Inr e" "is_heartbeat (env_message e)" "dispatch renv f t ta r = (r', out)" "ta \<noteq> tc"
  shows "on_channel tc out = [] \<and> (\<forall>k. get_tx k r' = get_tx k r)"
  using assms by (cases "env_message e") (auto simp: dispatch_def send_msg_other)

lemma dispatch_result:
  fixes renv :: "(jvalue, 'e) relay_env"
  assumes "codec_decode (re_de renv) t = Inr e" "env_message e = TaskResult res" "tr_to res = Some cli" "get_tx cli r = Some tc"
    "dispatch renv f t ta r = (r', out)" "wire_ok (re_ser renv) (re_de renv)"
  shows "r' = r \<and> (\<exists>t'. out = [(tc, t')] \<and> re_de renv t' = Inr (envelope_new f (TaskResult res)))"
proof -
  obtain t' where "send_msg (re_ser renv) f tc (TaskResult res) = [(tc, t')]"
      "re_de renv t' = Inr (envelope_new f (TaskResult res))"
    by (rule send_msg_wire [OF assms(6), of f tc "TaskResult res"]) blast
  moreover from this have "dispatch renv f t ta r = (r, [(tc, t')])" using assms(1-4) by (simp add: dispatch_def)
  ultimately show ?thesis using assms(5) by simp
qed

lemma relay_quiet:
  fixes renv :: "(jvalue, 'e) relay_env"
  assumes "filter (\<lambda>m. \<not> is_heartbeat m) (decoded (re_de renv) w) = []" "relay_texts renv fresh ta w r = (r', out)" "ta \<noteq> tc"
  shows "on_channel tc out = [] \<and> (\<forall>k. get_tx k r' = get_tx k r)"
  using assms(1,2)
proof (induction w arbitrary: r r' out)
  case Nil then show ?case by (simp add: on_channel_def)
next
  case (Cons t w)
  obtain r1 out1 where d: "dispatch renv (fresh (length w)) t ta r = (r1, out1)"
    by (cases "dispatch renv (fresh (length w)) t ta r")
  obtain r2 out2 where w: "relay_texts renv fresh ta w r1 = (r2, out2)" by (cases "relay_texts renv fresh ta w r1")
  have "on_channel tc out1 = [] \<and> (\<forall>k. get_tx k r1 = get_tx k r)"
  proof (cases "codec_decode (re_de renv) t")
    case Inl then show ?thesis using dispatch_undecoded [OF _ d assms(3)] by blast
  next
    case (Inr e) then show ?thesis
      using Cons.prems(1) dispatch_heartbeat [OF Inr _ d assms(3)] by (auto simp: decoded_Cons split: if_splits)
  qed
  moreover have "on_channel tc out2 = [] \<and> (\<forall>k. get_tx k r2 = get_tx k r1)"
    by (rule Cons.IH [OF _ w]) (use Cons.prems(1) in \<open>auto simp: decoded_Cons split: sum.splits if_splits\<close>)
  moreover have "r' = r2" "out = out1 @ out2" using Cons.prems(2) d w by simp_all
  ultimately show ?case by simp
qed

lemma relay_delivers:
  fixes renv :: "(jvalue, 'e) relay_env"
  assumes "filter (\<lambda>m. \<not> is_heartbeat m) (decoded (re_de renv) w) = [TaskResult res]" "relay_texts renv fresh ta w r = (r', out)"
    "ta \<noteq> tc" "tr_to res = Some cli" "get_tx cli r = Some tc" "wire_ok (re_ser renv) (re_de renv)"
  shows "(\<exists>f t'. on_channel tc out = [t'] \<and> re_de renv t' = Inr (envelope_new f (TaskResult res))) \<and> (\<forall>k. get_tx k r' = get_tx k r)"
  using assms(1,2,5)
proof (induction w arbitrary: r r' out)
  case Nil then show ?case by (simp add: decoded_def List.map_filter_def)
next
  case (Cons t w)
  obtain r1 out1 where d: "dispatch renv (fresh (length w)) t ta r = (r1, out1)"
    by (cases "dispatch renv (fresh (length w)) t ta r")
  obtain r2 out2 where w: "relay_texts renv fresh ta w r1 = (r2, out2)" by (cases "relay_texts renv fresh ta w r1")
  have out: "r' = r2" "out = out1 @ out2" using Cons.prems(2) d w by simp_all
  show ?case
  proof (cases "codec_decode (re_de renv) t")
    case (Inl e)
    then have "on_channel tc out1 = [] \<and> (\<forall>k. get_tx k r1 = get_tx k r)" using dispatch_undecoded [OF _ d assms(3)] by blast
    then show ?thesis using Cons.IH [OF _ w] Cons.prems(1,3) Inl out by (auto simp: decoded_Cons)
  next
    case (Inr e)
    show ?thesis
    proof (cases "is_heartbeat (env_message e)")
      case True
      then have "on_channel tc out1 = [] \<and> (\<forall>k. get_tx k r1 = get_tx k r)" using dispatch_heartbeat [OF Inr _ d assms(3)] by blast
      then show ?thesis using Cons.IH [OF _ w] Cons.prems(1,3) Inr True out by (auto simp: decoded_Cons)
    next
      case False
      then have m: "env_message e = TaskResult res" "filter (\<lambda>m. \<not> is_heartbeat m) (decoded (re_de renv) w) = []"
        using Cons.prems(1) Inr by (auto simp: decoded_Cons)
      show ?thesis
        using dispatch_result [OF Inr m(1) assms(4) Cons.prems(3) d assms(6)] relay_quiet [OF m(2) w assms(3)] out
        by (auto simp: on_channel_def)
    qed
  qed
qed


section \<open>A call\<close>

text \<open>One call: the client's request goes through the relay (connection \<open>tc\<close>) to the node (connection \<open>ta\<close>), which goes on until it owes no answer;
  what it has sent by then goes through the relay, and the client reads its channel.\<close>

record ('e, 'd) remote_world =
  rw_node :: "('e, 'd) agent_env"
  rw_relay :: "(jvalue, 'e) relay_env"
  rw_cli :: node_id
  rw_node_tx :: node_tx
  rw_cli_tx :: node_tx

definition world_ok :: "('e, 'd) remote_world \<Rightarrow> registry \<Rightarrow> bool" where
  "world_ok W r \<longleftrightarrow>
    wire_ok (ae_ser (rw_node W)) (ae_de (rw_node W)) \<and> re_ser (rw_relay W) = ae_ser (rw_node W)
    \<and> re_de (rw_relay W) = ae_de (rw_node W) \<and> rw_node_tx W \<noteq> rw_cli_tx W
    \<and> get_tx (NodeId (ae_node (rw_node W))) r = Some (rw_node_tx W) \<and> get_tx (rw_cli W) r = Some (rw_cli_tx W)"

definition remote_call :: "('e, 'd) remote_world \<Rightarrow> string \<Rightarrow> jvalue \<Rightarrow> registry \<times> 'd agent \<Rightarrow> (task_error + jvalue) option
    \<Rightarrow> registry \<times> 'd agent \<Rightarrow> bool" where
  "remote_call W kind payload before reply after \<longleftrightarrow>
    (\<exists>fresh fresh' fresh'' req_text r1 out1 w out2.
       ae_ser (rw_node W) (envelope_new fresh (client_request fresh' (rw_cli W) (NodeId (ae_node (rw_node W))) kind payload)) = Inr req_text
       \<and> dispatch (rw_relay W) fresh req_text (rw_cli_tx W) (fst before) = (r1, out1)
       \<and> agent_path (rw_node W) (snd before) (on_channel (rw_node_tx W) out1) (snd after)
       \<and> unanswered (snd after) = [] \<and> ag_out (snd after) = ag_out (snd before) @ w
       \<and> relay_texts (rw_relay W) fresh'' (rw_node_tx W) w r1 = (fst after, out2)
       \<and> client_execute (ae_de (rw_node W)) pick_result None (map WsText (on_channel (rw_cli_tx W) out2)) = reply)"

lemma wire_json: "wire_ok (ae_ser env) (ae_de env) = agent_json_ok env"
  by (simp add: wire_ok_def agent_json_ok_def)

lemma agent_send_grows: "\<exists>w. ag_out (agent_send env m s) = ag_out s @ w"
  by (simp add: agent_send_def split: sum.splits)

lemma agent_step_grows: "agent_step env s l t \<Longrightarrow> \<exists>w. ag_out t = ag_out s @ w"
  by (erule agent_step.cases)
    (auto simp: agent_receive_def handle_message_def agent_tick_def dispatch_task_def execute_task_def forward_result_def Let_def agent_send_def
      split: sum.splits message.splits list.splits prod.splits)

lemma agent_path_grows: "agent_path env s ms t \<Longrightarrow> \<exists>w. ag_out t = ag_out s @ w"
  by (induction rule: agent_path.induct) (use agent_step_grows in fastforce)+

lemma sent_others_grow:
  "ag_out t = ag_out s @ w \<Longrightarrow> sent_others env t = sent_others env s @ filter (\<lambda>m. \<not> is_heartbeat m) (decoded (ae_de env) w)"
  by (simp add: sent_others_def sent_messages_def decoded_def List.map_filter_def)

lemma await_result:
  "de t = Inr (envelope_new f (TaskResult res)) \<Longrightarrow> await de pick_result [WsText t] = Some (Inr (tr_result res))"
  by (simp add: await.simps envelope_new_def)


lemma NodeId_uuid [simp]: "NodeId (node_uuid c) = c"
  by (cases c) simp

lemma request_delivered:
  assumes "world_ok W r"
    and "ae_ser (rw_node W) (envelope_new f (client_request i (rw_cli W) (NodeId (ae_node (rw_node W))) kind payload)) = Inr req_text"
    and "dispatch (rw_relay W) f req_text (rw_cli_tx W) r = (r1, out1)"
  shows "r1 = r \<and> (\<exists>t1. on_channel (rw_node_tx W) out1 = [t1] \<and> codec_decode (ae_de (rw_node W)) t1
    = Inr (envelope_new f (client_request i (rw_cli W) (NodeId (ae_node (rw_node W))) kind payload)))"
proof -
  let ?m = "client_request i (rw_cli W) (NodeId (ae_node (rw_node W))) kind payload"
  have w: "wire_ok (re_ser (rw_relay W)) (re_de (rw_relay W))" using assms(1) by (simp add: world_ok_def)
  have "ae_de (rw_node W) req_text = Inr (envelope_new f ?m)"
    using assms(1,2) unfolding world_ok_def wire_ok_def by (metis envelope_new_def envelope.select_convs(1) sum.inject(2))
  then have d: "codec_decode (re_de (rw_relay W)) req_text = Inr (envelope_new f ?m)"
    using assms(1) by (simp add: world_ok_def codec_decode_def is_compatible_def envelope_new_def)
  obtain t1 where t1: "send_msg (re_ser (rw_relay W)) f (rw_node_tx W) ?m = [(rw_node_tx W, t1)]"
      "codec_decode (re_de (rw_relay W)) t1 = Inr (envelope_new f ?m)"
    by (rule send_msg_wire [OF w]) blast
  then have "dispatch (rw_relay W) f req_text (rw_cli_tx W) r = (r, [(rw_node_tx W, t1)])"
    using d assms(1) by (simp add: dispatch_def envelope_new_def client_request_def task_request_msg_def world_ok_def)
  then show ?thesis using assms(1,3) t1(2) by (simp add: on_channel_def world_ok_def)
qed

lemma remote_call_exists:
  assumes "world_ok W r" "ag_open s" "unanswered s = []"
  shows "\<exists>reply r' t. remote_call W kind payload (r, s) reply (r', t) \<and> ag_open t"
proof -
  let ?env = "rw_node W" and ?m = "client_request 0 (rw_cli W) (NodeId (ae_node (rw_node W))) kind payload"
  obtain req_text where ser: "ae_ser ?env (envelope_new 0 ?m) = Inr req_text"
    using assms(1) unfolding world_ok_def wire_ok_def by (metis envelope_new_def envelope.select_convs(1))
  obtain r1 out1 where d: "dispatch (rw_relay W) 0 req_text (rw_cli_tx W) r = (r1, out1)"
    by (cases "dispatch (rw_relay W) 0 req_text (rw_cli_tx W) r")
  obtain t1 where t1: "on_channel (rw_node_tx W) out1 = [t1]" using request_delivered [OF assms(1) ser d] by blast
  let ?s = "agent_receive ?env 0 t1 s"
  have "agent_step ?env s (Some t1) ?s" using assms(2,3) by (intro agent_step.read) (simp_all add: unanswered_Nil)
  then have p: "agent_path ?env s [t1] ?s" using agent_path.move [OF agent_path.stay] by fastforce
  have "ag_open ?s"
    using assms(2) by (auto simp: agent_receive_def handle_message_def Let_def split: sum.splits message.splits)
  then obtain t where t: "agent_path ?env ?s [] t" "ag_open t" "unanswered t = []" using agent_drains by blast
  have path: "agent_path ?env s [t1] t" using agent_path_trans [OF t(1) p] by simp
  obtain w where w: "ag_out t = ag_out s @ w" using agent_path_grows [OF path] by blast
  obtain r2 out2 where r2: "relay_texts (rw_relay W) of_nat (rw_node_tx W) w r1 = (r2, out2)"
    by (cases "relay_texts (rw_relay W) of_nat (rw_node_tx W) w r1")
  show ?thesis
    unfolding remote_call_def using ser d t1 path t(2,3) w r2 by fastforce
qed

text \<open>The tasks a request becomes, whatever its identifier.\<close>

definition carried_out_as :: "('e, 'd) remote_world \<Rightarrow> string \<Rightarrow> jvalue \<Rightarrow> task_body \<Rightarrow> bool" where
  "carried_out_as W kind payload body \<longleftrightarrow>
    (\<forall>i req. client_request i (rw_cli W) (NodeId (ae_node (rw_node W))) kind payload = TaskRequest req \<longrightarrow>
       create_task req (ae_registry (rw_node W)) = Inr \<lparr>tk_id = i, tk_body = body\<rparr>)"

lemma remote_call_done:
  assumes "world_ok W r" "unanswered s = []" "carried_out_as W kind payload body"
    "execute_body (ae_tasks (rw_node W)) (ae_providers (rw_node W)) body (ag_device s) = (res, d')"
    "remote_call W kind payload (r, s) reply (r', t)"
  shows "reply = Some (Inr (outcome_json res)) \<and> ag_device t = d' \<and> unanswered t = [] \<and> (\<forall>k. get_tx k r' = get_tx k r)"
proof -
  let ?env = "rw_node W"
  obtain f i f'' req_text r1 out1 w out2 where
      ser: "ae_ser ?env (envelope_new f (client_request i (rw_cli W) (NodeId (ae_node ?env)) kind payload)) = Inr req_text"
    and d: "dispatch (rw_relay W) f req_text (rw_cli_tx W) r = (r1, out1)"
    and path: "agent_path ?env s (on_channel (rw_node_tx W) out1) t" and t: "unanswered t = []" "ag_out t = ag_out s @ w"
    and relay: "relay_texts (rw_relay W) f'' (rw_node_tx W) w r1 = (r', out2)"
    and reply: "client_execute (ae_de ?env) pick_result None (map WsText (on_channel (rw_cli_tx W) out2)) = reply"
    using assms(5) unfolding remote_call_def by auto
  obtain req where req: "client_request i (rw_cli W) (NodeId (ae_node ?env)) kind payload = TaskRequest req" "tq_from req = rw_cli W"
    by (simp add: client_request_def task_request_msg_def)
  obtain t1 where r1: "r1 = r" and t1: "on_channel (rw_node_tx W) out1 = [t1]"
      "codec_decode (ae_de ?env) t1 = Inr (envelope_new f (TaskRequest req))"
    using request_delivered [OF assms(1) ser d] req(1) by auto
  have json: "agent_json_ok ?env" using assms(1) by (simp add: world_ok_def wire_json)
  have create: "create_task req (ae_registry ?env) = Inr \<lparr>tk_id = i, tk_body = body\<rparr>"
    using assms(3) req(1) by (simp add: carried_out_as_def)
  obtain now where t_dev: "ag_device t = d'" and out: "sent_others ?env t =
      sent_others ?env s @ [result_message ?env now (i, Some (node_uuid (rw_cli W)), res)]"
    using one_request [OF path [unfolded t1(1)] assms(2) t(1) json t1(2) _ create] assms(4) req(2) by (auto simp: envelope_new_def)
  obtain tr where tr: "result_message ?env now (i, Some (node_uuid (rw_cli W)), res) = TaskResult tr" "tr_to tr = Some (rw_cli W)"
      "tr_result tr = outcome_json res"
    by (simp add: result_message_def task_result_msg_def)
  have "filter (\<lambda>m. \<not> is_heartbeat m) (decoded (re_de (rw_relay W)) w) = [TaskResult tr]"
    using sent_others_grow [OF t(2), of ?env] out tr(1) assms(1) by (simp add: world_ok_def)
  then obtain f2 t' where t': "on_channel (rw_cli_tx W) out2 = [t']" "re_de (rw_relay W) t' = Inr (envelope_new f2 (TaskResult tr))"
      and r': "\<forall>k. get_tx k r' = get_tx k r"
    using relay_delivers [OF _ relay _ tr(2)] assms(1) r1 unfolding world_ok_def by metis
  have "ae_de ?env t' = Inr (envelope_new f2 (TaskResult tr))" using t'(2) assms(1) by (simp add: world_ok_def)
  then have "reply = Some (Inr (outcome_json res))"
    using reply t'(1) tr(3) await_result [of "ae_de ?env" t' f2 tr] by (simp add: client_execute_def)
  then show ?thesis using t_dev t(1) r' by simp
qed


section \<open>A concrete world\<close>

definition plain_tasks :: task_env where
  "plain_tasks =
    \<lparr>tke_encode = map char_of_byte, tke_decode = (\<lambda>s. Inr (as_bytes s)), tke_gunzip = Some, tke_reject = (\<lambda>_. [])\<rparr>"

definition open_desktop :: "unit desktop_env" where
  "open_desktop =
    \<lparr>dke_resolve = id, dke_read_denied = (\<lambda>_. None), dke_no_file = (\<lambda>_. ''no such file''), dke_write_denied = (\<lambda>_. None),
     dke_get_text = (\<lambda>_. Inl ''empty''), dke_set_text = (\<lambda>_ c. (Inr (), c)), dke_run = (\<lambda>_ _ fs. (Inl ''no shell'', fs))\<rparr>"

definition demo_world :: "(unit, unit device) remote_world" where
  "demo_world =
    \<lparr>rw_node =
       \<lparr>ae_node = 5, ae_platform = Linux, ae_version = ''0.1.0'', ae_listening = False, ae_registry = agent_registry plain_tasks,
        ae_tasks = plain_tasks, ae_providers = desktop_providers open_desktop, ae_ser = write_text, ae_de = read_text,
        ae_fresh = of_nat, ae_ustr = (\<lambda>_. [])\<rparr>,
     rw_relay = \<lparr>re_ser = write_text, re_de = read_text, re_show = (\<lambda>_. []), re_ustr = (\<lambda>_. []), re_lower = id\<rparr>,
     rw_cli = NodeId 9, rw_node_tx = 1, rw_cli_tx = 2\<rparr>"

definition demo_routes :: registry where
  "demo_routes =
    upsert_from_heartbeat (NodeId 5) ''node'' Linux [] demo_payload 1 11
      (upsert_from_heartbeat (NodeId 9) ''cli'' Linux [] demo_payload 2 12 registry_new)"

definition quiet_node :: "unit device agent" where
  "quiet_node =
    \<lparr>ag_out = [], ag_queue = [], ag_blocked = None, ag_running = [], ag_results = [], ag_last_ack = 0, ag_events = [],
     ag_device = \<lparr>dv_files = Map.empty, dv_clipboard = (), dv_commands = []\<rparr>, ag_open = True\<rparr>"

lemma demo_world_ok: "world_ok demo_world demo_routes"
  by (simp add: world_ok_def demo_world_def wire_ok_def read_write_text get_tx_def demo_routes_def upsert_from_heartbeat_def)

lemma quiet_node_idle: "ag_open quiet_node" "unanswered quiet_node = []"
  by (simp_all add: quiet_node_def unanswered_def)

lemma plain_decode: "tke_decode plain_tasks (tke_encode plain_tasks b) = Inr b"
proof -
  have "byte_of_char (char_of_byte x) = x" for x
    using unsigned_less [of x, where ?'a = nat] by (simp add: byte_of_char_def char_of_byte_def of_char_of unsigned_ucast_eq)
  then show ?thesis by (simp add: plain_tasks_def as_bytes_def comp_def)
qed

lemma plain_gunzip: "tke_gunzip plain_tasks (id b) = Some b"
  by (simp add: plain_tasks_def)

lemma demo_ping_carried: "carried_out_as demo_world ''ping'' ping_payload PingBody"
  by (auto simp: carried_out_as_def client_request_def task_request_msg_def create_task_def agent_registry_def register_kind_def
      task_registry_new_def ping_task_def demo_world_def)

section \<open>Calls\<close>

text \<open>C10. A remote call is carried out exactly once and its answer comes back: on a node that owes nothing, a call through the relay can always be
  completed, whatever the node does besides; and however its event loop, dispatcher and tasks interleave, the client returns the
  outcome of one execution of the task on the device (its value, or its error as a JSON object), the device is left as that
  execution leaves it, the node owes nothing again, and the relay's routes are as they were.\<close>

theorem remote_call_answers:
  assumes "world_ok W r" "ag_open s" "unanswered s = []" "carried_out_as W kind payload body"
    "execute_body (ae_tasks (rw_node W)) (ae_providers (rw_node W)) body (ag_device s) = (res, d')"
  shows "(\<exists>reply r' t. remote_call W kind payload (r, s) reply (r', t) \<and> ag_open t)
    \<and> (\<forall>reply r' t. remote_call W kind payload (r, s) reply (r', t) \<longrightarrow>
         reply = Some (Inr (outcome_json res)) \<and> ag_device t = d' \<and> unanswered t = [] \<and> (\<forall>k. get_tx k r' = get_tx k r))"
  using remote_call_exists [OF assms(1-3)] remote_call_done [OF assms(1,3,4,5)] by blast

theorem remote_call_answers_witness:
  "\<exists>r t. remote_call demo_world ''ping'' ping_payload (demo_routes, quiet_node) (Some (Inr (success []))) (r, t)
    \<and> ag_device t = ag_device quiet_node"
proof -
  have "execute_body (ae_tasks (rw_node demo_world)) (ae_providers (rw_node demo_world)) PingBody (ag_device quiet_node)
      = (Inr (success []), ag_device quiet_node)" by simp
  note call = remote_call_answers [OF demo_world_ok quiet_node_idle demo_ping_carried this]
  obtain reply r t where "remote_call demo_world ''ping'' ping_payload (demo_routes, quiet_node) reply (r, t)"
    using conjunct1 [OF call] by blast
  then show ?thesis using conjunct2 [OF call, rule_format, of reply r t] by (auto simp: outcome_json_def)
qed

section \<open>Files\<close>

lemma file_request_carried_out:
  "ae_registry (rw_node W) = agent_registry env \<Longrightarrow> carried_out_as W ''file_transfer'' payload (FileBody payload)"
  by (auto simp: carried_out_as_def client_request_def task_request_msg_def create_task_def agent_registry_def register_kind_def
      task_registry_new_def file_task_def)

lemma write_payload_written:
  assumes "\<And>b. tke_decode env (tke_encode env b) = Inr b" "\<And>b. tke_gunzip env (gzip b) = Some b"
  shows "written_bytes env (write_payload env gzip local_path remote_path data)
    (write_content env gzip (local_name local_path) data) = Inr data"
  using assms by (simp add: written_bytes_def write_payload_def write_content_def file_payload_def json_defs)

lemma write_executes:
  assumes "\<And>b. tke_decode tenv (tke_encode tenv b) = Inr b" "\<And>b. tke_gunzip tenv (gzip b) = Some b" "dke_write_denied env q = None"
  shows "execute_file tenv (desktop_providers env) (write_payload tenv gzip p q data) d
    = (Inr (success []), d\<lparr>dv_files := (dv_files d)(dke_resolve env q \<mapsto> data)\<rparr>)"
proof -
  have "execute_file tenv (desktop_providers env) (write_payload tenv gzip p q data) d =
      (case written_bytes tenv (write_payload tenv gzip p q data) (write_content tenv gzip (local_name p) data) of
         Inl e \<Rightarrow> (Inl e, d)
       | Inr b \<Rightarrow> (Inr (success []), d\<lparr>dv_files := (dv_files d)(dke_resolve env q \<mapsto> b)\<rparr>))"
    using assms(3)
    by (simp add: execute_file_def write_payload_def file_payload_def json_defs desktop_providers_def desktop_write_def split: sum.splits)
  then show ?thesis using write_payload_written [OF assms(1,2)] by simp
qed

text \<open>C11. A file sent to a node is the file fetched from it, end to end: on a desktop node that owes nothing, where base64 and gzip invert what they
  wrote and the path may be written and read, a completed write call of the client answers success and leaves the device with
  exactly the bytes of the local file under the path (packed on the way where its name asks for it) and its other files as they
  were; and a completed read call after it stores exactly these bytes under the local path and changes nothing on the
  device.\<close>

theorem remote_file_roundtrip:
  assumes "world_ok W r" "unanswered s = []" "ae_registry (rw_node W) = agent_registry tenv"
    "ae_tasks (rw_node W) = tenv" "ae_providers (rw_node W) = desktop_providers denv"
    "\<And>b. tke_decode tenv (tke_encode tenv b) = Inr b" "\<And>b. tke_gunzip tenv (gzip b) = Some b"
    "dke_write_denied denv q = None" "dke_read_denied denv q = None" "write_error dst_path data = None"
    "remote_call W ''file_transfer'' (write_payload tenv gzip src_path q data) (r, s) reply1 (r1, s1)"
    "remote_call W ''file_transfer'' (file_payload ''read'' q None False) (r1, s1) reply2 (r2, s2)"
  shows "reply1 = Some (Inr (success []))
    \<and> ag_device s1 = (ag_device s)\<lparr>dv_files := (dv_files (ag_device s))(dke_resolve denv q \<mapsto> data)\<rparr>
    \<and> run_file_read tenv show_json write_error dst_path reply2 files = (files(dst_path \<mapsto> data), Inr ()) \<and> ag_device s2 = ag_device s1"
proof -
  let ?d = "(ag_device s)\<lparr>dv_files := (dv_files (ag_device s))(dke_resolve denv q \<mapsto> data)\<rparr>"
  let ?read = "file_payload ''read'' q None False"
  have carried: "carried_out_as W ''file_transfer'' payload (FileBody payload)" for payload
    by (rule file_request_carried_out [OF assms(3)])
  have one: "reply1 = Some (Inr (outcome_json (Inr (success [])))) \<and> ag_device s1 = ?d \<and> unanswered s1 = [] \<and> (\<forall>k. get_tx k r1 = get_tx k r)"
    by (rule remote_call_done [OF assms(1,2) carried _ assms(11)]) (simp add: assms(4,5) write_executes [OF assms(6,7,8)])
  have world: "world_ok W r1" using assms(1) one by (simp add: world_ok_def)
  have "pv_read (desktop_providers denv) q ?d = Inr data"
    by (rule desktop.read_written [where p = q and b = data and d = "ag_device s"])
      (use assms(8,9) in \<open>simp_all add: desktop_providers_def desktop_write_def\<close>)
  then have "execute_file tenv (desktop_providers denv) ?read ?d = (Inr (success [(''content'', JStr (tke_encode tenv data))]), ?d)"
    using desktop.read_task_reads [where p = q and b = data and d = ?d] by (simp add: file_payload_def)
  then have "reply2 = Some (Inr (outcome_json (Inr (success [(''content'', JStr (tke_encode tenv data))])))) \<and> ag_device s2 = ?d
      \<and> unanswered s2 = [] \<and> (\<forall>k. get_tx k r2 = get_tx k r1)"
    using one by (intro remote_call_done [OF world _ carried _ assms(12)]) (simp_all add: assms(4,5))
  then show ?thesis
    using one assms(6,10) by (simp add: outcome_json_def run_file_read_def file_read_reply_def success_def json_defs)
qed


theorem remote_file_roundtrip_witness:
  "\<exists>reply1 r1 s1 reply2 r2 s2.
    remote_call demo_world ''file_transfer'' (write_payload plain_tasks id ''a.txt'' ''/b'' [1, 2, 3]) (demo_routes, quiet_node) reply1 (r1, s1)
    \<and> remote_call demo_world ''file_transfer'' (file_payload ''read'' ''/b'' None False) (r1, s1) reply2 (r2, s2)
    \<and> reply1 = Some (Inr (success [])) \<and> dv_files (ag_device s1) ''/b'' = Some [1, 2, 3]
    \<and> fst (run_file_read plain_tasks (\<lambda>_. []) (\<lambda>_ _. None) ''c'' reply2 Map.empty) ''c'' = Some [1, 2, 3]"
proof -
  let ?w = "write_payload plain_tasks id ''a.txt'' ''/b'' [1, 2, 3]" and ?r = "file_payload ''read'' ''/b'' None False"
  have env: "ae_registry (rw_node demo_world) = agent_registry plain_tasks" "ae_tasks (rw_node demo_world) = plain_tasks"
    "ae_providers (rw_node demo_world) = desktop_providers open_desktop" "dke_write_denied open_desktop ''/b'' = None"
    "dke_read_denied open_desktop ''/b'' = None"
    by (simp_all add: demo_world_def open_desktop_def)
  obtain reply1 r1 s1 where w: "remote_call demo_world ''file_transfer'' ?w (demo_routes, quiet_node) reply1 (r1, s1)" "ag_open s1"
    using remote_call_exists [OF demo_world_ok quiet_node_idle] by blast
  obtain res d' where e: "execute_body (ae_tasks (rw_node demo_world)) (ae_providers (rw_node demo_world)) (FileBody ?w)
      (ag_device quiet_node) = (res, d')" by fastforce
  have u: "unanswered s1 = []" "world_ok demo_world r1"
    using remote_call_done [OF demo_world_ok quiet_node_idle(2) file_request_carried_out [OF env(1)] e w(1)] demo_world_ok
    by (simp_all add: world_ok_def)
  obtain reply2 r2 s2 where r: "remote_call demo_world ''file_transfer'' ?r (r1, s1) reply2 (r2, s2)"
    using remote_call_exists [OF u(2) w(2) u(1)] by blast
  show ?thesis
    using remote_file_roundtrip [OF demo_world_ok quiet_node_idle(2) env(1-3) plain_decode plain_gunzip env(4,5) _ w(1) r,
        where write_error = "\<lambda>_ _. None" and dst_path = "''c''" and show_json = "\<lambda>_. []" and files = Map.empty] w(1) r
    by (intro exI [of _ reply1] exI [of _ r1] exI [of _ s1] exI [of _ reply2] exI [of _ r2] exI [of _ s2])
      (simp add: open_desktop_def)
qed

end
