(* ===== verification/Quic_Transport.thy ===== *)
theory Quic_Transport
  imports Udp_Facts
begin

text \<open>
  The transport the command line client calls QUIC (\<^verbatim>\<open>cli/src/quic_transport.rs\<close>): the machinery of its UDP transport with
  frame types of its own and the number of a stream in every data frame, which nobody reads. The states of the UDP model are
  those of this transport, too; what is proved here is that every run of it is a run of the UDP transport in which the stream numbers are
  taken out.
\<close>

section \<open>Frames\<close>

definition QUIC_FRAME_HANDSHAKE_REQ :: u8 where "QUIC_FRAME_HANDSHAKE_REQ = 10"
definition QUIC_FRAME_HANDSHAKE_RESP :: u8 where "QUIC_FRAME_HANDSHAKE_RESP = 11"
definition QUIC_FRAME_STREAM_DATA :: u8 where "QUIC_FRAME_STREAM_DATA = 12"
definition QUIC_FRAME_ACK :: u8 where "QUIC_FRAME_ACK = 13"
definition QUIC_FRAME_FIN :: u8 where "QUIC_FRAME_FIN = 14"
definition QUIC_FRAME_FIN_ACK :: u8 where "QUIC_FRAME_FIN_ACK = 15"
definition QUIC_CHUNK_SIZE :: nat where "QUIC_CHUNK_SIZE = 8192"

definition quic_chunks :: "nat \<Rightarrow> u64" where
  "quic_chunks n = of_nat ((n + QUIC_CHUNK_SIZE - 1) div QUIC_CHUNK_SIZE)"

definition quic_chunk :: "bytes \<Rightarrow> u64 \<Rightarrow> bytes" where
  "quic_chunk file k = take QUIC_CHUNK_SIZE (drop (unat k * QUIC_CHUNK_SIZE) file)"

text \<open>A data frame; nothing where the remainder by zero streams panics.\<close>

definition stream_packet :: "u64 \<Rightarrow> bytes \<Rightarrow> u64 \<Rightarrow> bytes option" where
  "stream_packet streams file k =
    (if streams = 0 then None
     else (let c = quic_chunk file k in
       Some (QUIC_FRAME_STREAM_DATA # ucast (k mod streams) # to_be 8 k @ to_be 2 (of_nat (length c) :: u16) @ c)))"

definition quic_ack :: "u64 \<Rightarrow> bytes" where
  "quic_ack k = QUIC_FRAME_ACK # to_be 8 k"

text \<open>The handshake, with the size of the file and the number of streams, as in the UDP transport.\<close>

definition quic_handshake_request :: "bytes \<Rightarrow> u64 \<Rightarrow> bytes" where
  "quic_handshake_request file streams = QUIC_FRAME_HANDSHAKE_REQ # to_be 8 (of_nat (length file) :: u64) @ [ucast streams]"

fun quic_handshake :: "bytes \<Rightarrow> u64 \<Rightarrow> nat \<Rightarrow> hs_event list \<Rightarrow> bytes list \<times> bool option" where
  "quic_handshake file streams attempts evs =
    (if attempts \<ge> 5 then ([], Some False)
     else
       (let req = quic_handshake_request file streams in
        case evs of
          [] \<Rightarrow> ([req], None)
        | HsDatagram (b # _) # rest \<Rightarrow>
            (if b = QUIC_FRAME_HANDSHAKE_RESP then ([req], Some True)
             else (let (ps, r) = quic_handshake file streams attempts rest in (req # ps, r)))
        | HsDatagram [] # rest \<Rightarrow> (let (ps, r) = quic_handshake file streams attempts rest in (req # ps, r))
        | HsError # rest \<Rightarrow> (let (ps, r) = quic_handshake file streams attempts rest in (req # ps, r))
        | HsTimeout # rest \<Rightarrow> (let (ps, r) = quic_handshake file streams (attempts + 1) rest in (req # ps, r))))"

section \<open>Sender\<close>

definition quic_sender_new :: udp_sender where
  "quic_sender_new =
    \<lparr>us_next = 0, us_acked = [], us_sent = [], us_last = [], us_cwnd = 12, us_rtt = Fin 40, us_rtt_var = Fin 8,
     us_retransmits = 0, us_total = 0\<rparr>"

definition quic_send_next :: "u64 \<Rightarrow> bytes \<Rightarrow> instant \<Rightarrow> udp_sender \<Rightarrow> (bytes \<times> udp_sender) option" where
  "quic_send_next streams file now s =
    map_option (\<lambda>p. (p,
       s\<lparr>us_sent := hm_insert (us_next s) now (us_sent s), us_last := hm_insert (us_next s) now (us_last s),
         us_total := us_total s + 1, us_next := us_next s + 1\<rparr>))
      (stream_packet streams file (us_next s))"

fun all_packets :: "bytes option list \<Rightarrow> bytes list option" where
  "all_packets [] = Some []"
| "all_packets (p # ps) = (case p of None \<Rightarrow> None | Some b \<Rightarrow> map_option (\<lambda>bs. b # bs) (all_packets ps))"

definition quic_timeout :: "u64 \<Rightarrow> bytes \<Rightarrow> instant \<Rightarrow> udp_sender \<Rightarrow> (bytes list \<times> udp_sender) option" where
  "quic_timeout streams file now s =
    (let ks = to_resend now s in
     map_option (\<lambda>ps. (ps,
       s\<lparr>us_last := fold (\<lambda>k. hm_insert k now) ks (us_last s),
         us_retransmits := us_retransmits s + of_nat (length ks), us_total := us_total s + of_nat (length ks),
         us_cwnd := max (us_cwnd s div 2) 4\<rparr>))
      (all_packets (map (stream_packet streams file) ks)))"

definition quic_background :: "bytes \<Rightarrow> u64 list \<times> bool" where
  "quic_background p =
    (let b = take 64 p in
     if length b \<ge> 9 \<and> hd b = QUIC_FRAME_ACK then ([from_be (take 8 (tl b))], True)
     else if b \<noteq> [] \<and> hd b = QUIC_FRAME_FIN_ACK then ([FIN_MARK], False)
     else ([], True))"

record quic_metrics =
  qm_link :: udp_metrics
  qm_streams :: u64

definition quic_result :: "rounding \<Rightarrow> u64 \<Rightarrow> udp_sender \<Rightarrow> quic_metrics" where
  "quic_result rnd streams s = \<lparr>qm_link = sender_metrics rnd s, qm_streams = streams\<rparr>"

section \<open>Receiver\<close>

definition stream_data :: "bytes \<Rightarrow> udp_receiver \<Rightarrow> (bytes list \<times> udp_receiver) option" where
  "stream_data b r =
    (if length b < 12 then Some ([], r)
     else
       (let k = (from_be (take 8 (drop 2 b)) :: u64);
            len = unat (from_be (take 2 (drop 10 b)) :: u16);
            off = k * of_nat QUIC_CHUNK_SIZE;
            stop = off + of_nat len in
        if length b < 12 + len then Some ([], r)
        else if stop \<le> of_nat (length (ur_buf r)) then
          (if off > stop then None
           else Some ([quic_ack k],
             r\<lparr>ur_buf := overwrite (unat off) (take len (drop 12 b)) (ur_buf r), ur_received := List.insert k (ur_received r)\<rparr>))
        else Some ([quic_ack k], r)))"

definition quic_receive :: "nat \<Rightarrow> bytes \<Rightarrow> udp_receiver \<Rightarrow> (bytes list \<times> udp_receiver) option" where
  "quic_receive expected p r =
    (let b = take (QUIC_CHUNK_SIZE + 32) p in
     case b of
       [] \<Rightarrow> Some ([], r)
     | t # _ \<Rightarrow>
         if t = QUIC_FRAME_HANDSHAKE_REQ then Some ([[QUIC_FRAME_HANDSHAKE_RESP]], r)
         else if t = QUIC_FRAME_STREAM_DATA then stream_data b r
         else if t = QUIC_FRAME_FIN then
           Some ([[QUIC_FRAME_FIN_ACK]], if of_nat (length (ur_received r)) \<ge> quic_chunks expected then r\<lparr>ur_done := True\<rparr> else r)
         else Some ([], r))"

section \<open>The system\<close>

definition quic_start :: "nat \<Rightarrow> udp_system" where
  "quic_start expected =
    \<lparr>uy_sender = quic_sender_new, uy_phase = UpLoop, uy_chan = [], uy_bg = True, uy_recv = udp_receiver_new expected,
     uy_to_recv = {#}, uy_to_send = {#}\<rparr>"

definition quic_sender_step :: "rounding \<Rightarrow> u64 \<Rightarrow> bytes \<Rightarrow> instant \<Rightarrow> bool \<Rightarrow> udp_system \<Rightarrow> udp_system option" where
  "quic_sender_step rnd streams file now timer y =
    (let s = uy_sender y; num = quic_chunks (length file) in
     case uy_phase y of
       UpLoop \<Rightarrow> Some (y\<lparr>uy_phase := (if more_to_ack num s then UpFill else UpFin 0)\<rparr>)
     | UpFill \<Rightarrow>
         (if window_open num s
          then map_option (\<lambda>(p, s'). y\<lparr>uy_sender := s', uy_to_recv := add_mset p (uy_to_recv y)\<rparr>) (quic_send_next streams file now s)
          else Some (y\<lparr>uy_phase := UpWait\<rparr>))
     | UpWait \<Rightarrow>
         (if timer
          then map_option (\<lambda>(ps, s'). y\<lparr>uy_sender := s', uy_phase := UpLoop, uy_to_recv := uy_to_recv y + mset ps\<rparr>)
            (quic_timeout streams file now s)
          else
            (case uy_chan y of
               q # qs \<Rightarrow>
                 (if q = FIN_MARK then Some (y\<lparr>uy_chan := qs, uy_phase := UpFin 0\<rparr>)
                  else Some (y\<lparr>uy_chan := qs, uy_sender := take_ack rnd now q s, uy_phase := UpLoop\<rparr>))
             | [] \<Rightarrow> if uy_bg y then None else Some (y\<lparr>uy_phase := UpLoop\<rparr>)))
     | UpFin n \<Rightarrow>
         (if n < 5 then Some (y\<lparr>uy_phase := UpFinWait n, uy_to_recv := add_mset [QUIC_FRAME_FIN] (uy_to_recv y)\<rparr>)
          else Some (y\<lparr>uy_phase := UpDone\<rparr>))
     | UpFinWait n \<Rightarrow>
         (if timer then Some (y\<lparr>uy_phase := UpFin (n + 1)\<rparr>)
          else
            (case uy_chan y of
               q # qs \<Rightarrow> Some (y\<lparr>uy_chan := qs, uy_phase := (if q = FIN_MARK then UpDone else UpFin n)\<rparr>)
             | [] \<Rightarrow> if uy_bg y then None else Some (y\<lparr>uy_phase := UpFin n\<rparr>)))
     | UpDone \<Rightarrow> None)"

inductive quic_step :: "rounding \<Rightarrow> u64 \<Rightarrow> bytes \<Rightarrow> nat \<Rightarrow> udp_system \<Rightarrow> udp_system \<Rightarrow> bool"
  for rnd :: rounding and streams :: u64 and data :: bytes and expected :: nat
where
  sender: "quic_sender_step rnd streams data now timer y = Some y' \<Longrightarrow> quic_step rnd streams data expected y y'"
| background: "uy_bg y \<Longrightarrow> p \<in># uy_to_send y \<Longrightarrow> quic_background p = (qs, go) \<Longrightarrow>
    quic_step rnd streams data expected y (y\<lparr>uy_chan := uy_chan y @ qs, uy_bg := go, uy_to_send := uy_to_send y - {#p#}\<rparr>)"
| background_error: "uy_bg y \<Longrightarrow> quic_step rnd streams data expected y (y\<lparr>uy_bg := False\<rparr>)"
| receiver: "\<not> ur_done (uy_recv y) \<Longrightarrow> p \<in># uy_to_recv y \<Longrightarrow> quic_receive expected p (uy_recv y) = Some (replies, r) \<Longrightarrow>
    quic_step rnd streams data expected y
      (y\<lparr>uy_recv := r, uy_to_recv := uy_to_recv y - {#p#}, uy_to_send := uy_to_send y + mset replies\<rparr>)"
| lose_data: "p \<in># uy_to_recv y \<Longrightarrow> quic_step rnd streams data expected y (y\<lparr>uy_to_recv := uy_to_recv y - {#p#}\<rparr>)"
| lose_reply: "p \<in># uy_to_send y \<Longrightarrow> quic_step rnd streams data expected y (y\<lparr>uy_to_send := uy_to_send y - {#p#}\<rparr>)"
| repeat_data: "p \<in># uy_to_recv y \<Longrightarrow> quic_step rnd streams data expected y (y\<lparr>uy_to_recv := add_mset p (uy_to_recv y)\<rparr>)"
| repeat_reply: "p \<in># uy_to_send y \<Longrightarrow> quic_step rnd streams data expected y (y\<lparr>uy_to_send := add_mset p (uy_to_send y)\<rparr>)"

section \<open>The UDP transport it is\<close>

text \<open>A datagram of the UDP transport: the frame types translated, the stream number taken out.\<close>

fun udp_of :: "bytes \<Rightarrow> bytes" where
  "udp_of [] = []"
| "udp_of (t # b) =
    (if t = QUIC_FRAME_HANDSHAKE_REQ then FRAME_HANDSHAKE_REQ # b
     else if t = QUIC_FRAME_HANDSHAKE_RESP then FRAME_HANDSHAKE_RESP # b
     else if t = QUIC_FRAME_STREAM_DATA then UDP_DATA # tl b
     else if t = QUIC_FRAME_ACK then UDP_ACK # b
     else if t = QUIC_FRAME_FIN then UDP_FIN # b
     else if t = QUIC_FRAME_FIN_ACK then UDP_FIN_ACK # b
     else 0 # b)"

definition udp_datagram :: "bytes \<Rightarrow> bytes" where
  "udp_datagram p = udp_of (take (QUIC_CHUNK_SIZE + 32) p)"

definition as_udp :: "udp_system \<Rightarrow> udp_system" where
  "as_udp y = y\<lparr>uy_to_recv := image_mset udp_datagram (uy_to_recv y), uy_to_send := image_mset udp_datagram (uy_to_send y)\<rparr>"

lemmas quic_consts = QUIC_FRAME_HANDSHAKE_REQ_def QUIC_FRAME_HANDSHAKE_RESP_def QUIC_FRAME_STREAM_DATA_def QUIC_FRAME_ACK_def
  QUIC_FRAME_FIN_def QUIC_FRAME_FIN_ACK_def FRAME_HANDSHAKE_REQ_def FRAME_HANDSHAKE_RESP_def UDP_DATA_def UDP_ACK_def UDP_FIN_def
  UDP_FIN_ACK_def

lemma sizes: "quic_chunks = udp_chunks" "quic_chunk = file_chunk" "QUIC_CHUNK_SIZE = UDP_CHUNK_SIZE"
  by (rule ext | simp add: quic_chunks_def udp_chunks_def quic_chunk_def file_chunk_def QUIC_CHUNK_SIZE_def UDP_CHUNK_SIZE_def)+

lemma length_file_chunk: "length (file_chunk file k) \<le> 8192"
  by (simp add: file_chunk_def UDP_CHUNK_SIZE_def)

lemma udp_datagram_short: "length p \<le> 8224 \<Longrightarrow> udp_datagram p = udp_of p"
  by (simp add: udp_datagram_def QUIC_CHUNK_SIZE_def)

lemma length_udp_of: "length (udp_of p) \<le> length p"
  by (cases p) auto

lemma udp_datagram_whole: "take (UDP_CHUNK_SIZE + 32) (udp_datagram p) = udp_datagram p"
proof -
  have "length (udp_datagram p) \<le> length (take (QUIC_CHUNK_SIZE + 32) p)" unfolding udp_datagram_def by (rule length_udp_of)
  also have "\<dots> \<le> UDP_CHUNK_SIZE + 32" by (simp add: sizes)
  finally show ?thesis by simp
qed

lemma packet_as_udp: "stream_packet streams file k = Some p \<Longrightarrow> udp_datagram p = data_packet file k"
  using length_file_chunk [of "file" k]
  by (auto simp: stream_packet_def udp_datagram_short data_packet_def sizes Let_def quic_consts split: if_splits)

lemma short_as_udp: "udp_datagram [QUIC_FRAME_FIN] = [UDP_FIN]" "udp_datagram [QUIC_FRAME_FIN_ACK] = [UDP_FIN_ACK]"
  "udp_datagram [QUIC_FRAME_HANDSHAKE_RESP] = [FRAME_HANDSHAKE_RESP]" "udp_datagram (quic_ack k) = ack_packet k"
  by (simp_all add: udp_datagram_def quic_consts QUIC_CHUNK_SIZE_def quic_ack_def ack_packet_def)

lemma send_as_udp:
  "quic_send_next streams file now s = Some (p, s') \<Longrightarrow> send_next file now s = (udp_datagram p, s')"
  by (auto simp: quic_send_next_def send_next_def packet_as_udp)

lemma all_packets_map:
  "all_packets (map (stream_packet streams file) ks) = Some ps \<Longrightarrow> map udp_datagram ps = map (data_packet file) ks"
  by (induction ks arbitrary: ps) (auto simp: packet_as_udp split: option.splits)

lemma timeout_as_udp:
  "quic_timeout streams file now s = Some (ps, s') \<Longrightarrow> on_timeout file now s = (map udp_datagram ps, s')"
  by (auto simp: quic_timeout_def on_timeout_def Let_def all_packets_map)


lemma background_as_udp: "background_read (udp_datagram p) = quic_background p"
  by (cases p)
    (auto simp: background_read_def quic_background_def udp_datagram_def quic_consts QUIC_CHUNK_SIZE_def Let_def min_def take_Cons')

text \<open>What both receivers do with a chunk.\<close>

definition placed :: "(u64 \<Rightarrow> bytes) \<Rightarrow> u64 \<Rightarrow> nat \<Rightarrow> bytes \<Rightarrow> udp_receiver \<Rightarrow> (bytes list \<times> udp_receiver) option" where
  "placed ack k len c r =
    (let off = k * of_nat UDP_CHUNK_SIZE; stop = off + of_nat len in
     if stop \<le> of_nat (length (ur_buf r)) then
       (if off > stop then None
        else Some ([ack k], r\<lparr>ur_buf := overwrite (unat off) c (ur_buf r), ur_received := List.insert k (ur_received r)\<rparr>))
     else Some ([ack k], r))"

definition chunk_of :: "(u64 \<Rightarrow> bytes) \<Rightarrow> bytes \<Rightarrow> udp_receiver \<Rightarrow> (bytes list \<times> udp_receiver) option" where
  "chunk_of ack x r =
    (if length x < 10 then Some ([], r)
     else
       (let len = unat (from_be (take 2 (drop 8 x)) :: u16) in
        if length x < 10 + len then Some ([], r) else placed ack (from_be (take 8 x)) len (take len (drop 10 x)) r))"

lemma stream_data_chunk: "stream_data (t # s # x) r = chunk_of quic_ack x r"
  unfolding stream_data_def chunk_of_def placed_def Let_def by (simp add: sizes)

lemma on_data_chunk: "on_data (t # x) r = chunk_of ack_packet x r"
  unfolding on_data_def chunk_of_def placed_def Let_def by simp

lemma placed_as_udp:
  "placed quic_ack k len c r = Some (replies, r') \<Longrightarrow> placed ack_packet k len c r = Some (map udp_datagram replies, r')"
  by (auto simp: placed_def Let_def short_as_udp split: if_splits)

lemma chunk_as_udp:
  "chunk_of quic_ack x r = Some (replies, r') \<Longrightarrow> chunk_of ack_packet x r = Some (map udp_datagram replies, r')"
  by (auto simp: chunk_of_def Let_def dest: placed_as_udp split: if_splits)

lemma receive_as_udp:
  assumes "quic_receive expected p r = Some (replies, r')"
  shows "udp_receive expected (udp_datagram p) r = Some (map udp_datagram replies, r')"
proof (cases "take (QUIC_CHUNK_SIZE + 32) p")
  case Nil
  then show ?thesis using assms by (simp add: quic_receive_def udp_receive_def udp_datagram_def)
next
  case (Cons t b)
  have u: "udp_datagram p = udp_of (t # b)" using Cons by (simp add: udp_datagram_def)
  have whole: "take (UDP_CHUNK_SIZE + 32) (udp_of (t # b)) = udp_of (t # b)" using udp_datagram_whole [of p] u by simp
  show ?thesis
  proof (cases "t = QUIC_FRAME_STREAM_DATA")
    case True
    have "on_data (UDP_DATA # tl b) r = Some (map udp_datagram replies, r')"
    proof (cases b)
      case Nil
      then show ?thesis using assms Cons True by (simp add: quic_receive_def Let_def stream_data_def on_data_def quic_consts)
    next
      case (Cons s x)
      then show ?thesis using assms \<open>take _ p = t # b\<close> True chunk_as_udp
        by (simp add: quic_receive_def Let_def stream_data_chunk on_data_chunk quic_consts)
    qed
    then show ?thesis using True whole u by (simp add: udp_receive_def Let_def quic_consts)
  next
    case False
    then show ?thesis using assms Cons whole u
      by (auto simp: quic_receive_def udp_receive_def Let_def quic_consts sizes udp_datagram_def split: if_splits)
  qed
qed


lemma as_udp_simps [simp]:
  "uy_sender (as_udp y) = uy_sender y" "uy_phase (as_udp y) = uy_phase y" "uy_chan (as_udp y) = uy_chan y"
  "uy_bg (as_udp y) = uy_bg y" "uy_recv (as_udp y) = uy_recv y"
  "uy_to_recv (as_udp y) = image_mset udp_datagram (uy_to_recv y)" "uy_to_send (as_udp y) = image_mset udp_datagram (uy_to_send y)"
  by (simp_all add: as_udp_def)

lemma image_without: "p \<in># M \<Longrightarrow> image_mset f (M - {#p#}) = image_mset f M - {#f p#}"
  by (simp add: image_mset_Diff)

lemma udp_system_eqI:
  fixes y z :: udp_system
  assumes "uy_sender y = uy_sender z" "uy_phase y = uy_phase z" "uy_chan y = uy_chan z" "uy_bg y = uy_bg z" "uy_recv y = uy_recv z"
    "uy_to_recv y = uy_to_recv z" "uy_to_send y = uy_to_send z"
  shows "y = z"
  using assms by (cases y; cases z) simp

lemma as_udp_update:
  "as_udp (y\<lparr>uy_to_recv := M\<rparr>) = (as_udp y)\<lparr>uy_to_recv := image_mset udp_datagram M\<rparr>"
  "as_udp (y\<lparr>uy_to_send := M\<rparr>) = (as_udp y)\<lparr>uy_to_send := image_mset udp_datagram M\<rparr>"
  "as_udp (y\<lparr>uy_bg := b\<rparr>) = (as_udp y)\<lparr>uy_bg := b\<rparr>"
  by (intro udp_system_eqI; simp add: as_udp_def)+

lemma sender_as_udp:
  assumes "quic_sender_step rnd streams file now timer y = Some y'"
  shows "sender_step rnd file now timer (as_udp y) = Some (as_udp y')"
proof (cases "uy_phase y")
  case UpFill
  then show ?thesis using assms
    by (auto simp: quic_sender_step_def sender_step_def Let_def sizes send_as_udp as_udp_def split: if_splits)
next
  case UpWait
  show ?thesis
  proof (cases timer)
    case True
    then show ?thesis using assms UpWait timeout_as_udp [of streams "file" now "uy_sender y"]
      by (auto simp: quic_sender_step_def sender_step_def Let_def as_udp_def)
  next
    case False
    then show ?thesis using assms UpWait
      by (auto simp: quic_sender_step_def sender_step_def Let_def as_udp_def split: list.splits if_splits)
  qed
qed (use assms in \<open>auto simp: quic_sender_step_def sender_step_def Let_def sizes as_udp_def short_as_udp split: list.splits if_splits\<close>)

lemma step_as_udp:
  assumes "quic_step rnd streams file n y y'"
  shows "udp_step rnd file n (as_udp y) (as_udp y')"
  using assms
proof cases
  case (sender now timer)
  then show ?thesis using udp_step.sender [OF sender_as_udp] by simp
next
  case (background p qs go)
  have "as_udp y' = background_step (udp_datagram p) (as_udp y)"
    using background by (simp add: background_step_def background_as_udp as_udp_def image_without)
  then show ?thesis using background udp_step.background [of "as_udp y" "udp_datagram p"] by simp
next
  case background_error
  then show ?thesis using udp_step.background_error [of "as_udp y"] by (simp add: as_udp_update)
next
  case (receiver p replies r)
  have "receiver_step n (udp_datagram p) (as_udp y) = Some (as_udp y')"
    using receiver receive_as_udp [of n p "uy_recv y" replies r] by (simp add: receiver_step_def as_udp_def image_without)
  then show ?thesis using receiver udp_step.receiver [of "as_udp y" "udp_datagram p"] by simp
next
  case (lose_data p)
  then show ?thesis using udp_step.lose_data [of "udp_datagram p" "as_udp y"] by (simp add: as_udp_update image_without)
next
  case (lose_reply p)
  then show ?thesis using udp_step.lose_reply [of "udp_datagram p" "as_udp y"] by (simp add: as_udp_update image_without)
next
  case (repeat_data p)
  then show ?thesis using udp_step.repeat_data [of "udp_datagram p" "as_udp y"] by (simp add: as_udp_update)
next
  case (repeat_reply p)
  then show ?thesis using udp_step.repeat_reply [of "udp_datagram p" "as_udp y"] by (simp add: as_udp_update)
qed

definition quic_reachable :: "rounding \<Rightarrow> u64 \<Rightarrow> bytes \<Rightarrow> nat \<Rightarrow> udp_system \<Rightarrow> bool" where
  "quic_reachable rnd streams file n y \<longleftrightarrow> (quic_step rnd streams file n)\<^sup>*\<^sup>* (quic_start n) y"

lemma runs_as_udp:
  "(quic_step rnd streams file n)\<^sup>*\<^sup>* y z \<Longrightarrow> (udp_step rnd file n)\<^sup>*\<^sup>* (as_udp y) (as_udp z)"
  by (induction rule: rtranclp_induct) (auto dest: step_as_udp intro: rtranclp.rtrancl_into_rtrancl)

lemma quic_start_inv: "udp_inv file (as_udp (quic_start (length file)))"
  using udp_start_inv [of "file"]
  by (simp add: udp_inv_defs quic_start_def udp_start_def quic_sender_new_def udp_sender_new_def as_udp_def data_phase_def)

lemma runs_inv:
  "(udp_step rnd file (length file))\<^sup>*\<^sup>* y z \<Longrightarrow> udp_small file \<Longrightarrow> udp_inv file y \<Longrightarrow> udp_inv file z"
  by (induction rule: rtranclp_induct) (auto intro: udp_step_inv)

text \<open>Without a stream nothing can be sent.\<close>

lemma no_streams: "stream_packet 0 file k = None"
  by (simp add: stream_packet_def)

text \<open>C32. The QUIC transport refines the UDP transport: every run of it is, frame types translated and stream numbers taken out of the
  datagrams, a run of the UDP transport, whatever the network does and whatever the number of streams; so when the
  sender has left its data phase, and before the receiver writes the file, the receiver's buffer is the file.\<close>

theorem quic_refines_udp:
  assumes "quic_reachable rnd streams file n y"
  shows "(udp_step rnd file n)\<^sup>*\<^sup>* (as_udp (quic_start n)) (as_udp y)
    \<and> (if udp_small file \<and> n = length file \<and> (data_phase (uy_phase y) \<longrightarrow> ur_done (uy_recv y)) then ur_buf (uy_recv y) = file else True)"
proof -
  have run: "(udp_step rnd file n)\<^sup>*\<^sup>* (as_udp (quic_start n)) (as_udp y)"
    using assms unfolding quic_reachable_def by (rule runs_as_udp)
  moreover have "ur_buf (uy_recv y) = file"
    if "udp_small file" "n = length file" "data_phase (uy_phase y) \<longrightarrow> ur_done (uy_recv y)"
    using udp_inv_delivered [OF that(1), of "as_udp y"] runs_inv [OF run [unfolded that(2)] that(1) quic_start_inv] that(3) by simp
  ultimately show ?thesis by simp
qed

theorem quic_refines_udp_witness:
  "ur_buf (uy_recv ((quic_start 0)\<lparr>uy_phase := UpFin 0\<rparr>)) = []"
proof -
  have "quic_sender_step Fin 3 [] 0 False (quic_start 0) = Some ((quic_start 0)\<lparr>uy_phase := UpFin 0\<rparr>)"
    by (simp add: quic_sender_step_def quic_start_def more_to_ack_def quic_sender_new_def quic_chunks_def QUIC_CHUNK_SIZE_def)
  then have "quic_reachable Fin 3 [] 0 ((quic_start 0)\<lparr>uy_phase := UpFin 0\<rparr>)"
    unfolding quic_reachable_def by (blast intro: quic_step.sender)
  from conjunct2 [OF quic_refines_udp [OF this]] show ?thesis
    by (simp add: udp_small_def udp_chunks_def UDP_CHUNK_SIZE_def FIN_MARK_def data_phase_def)
qed

end
