(* ===== verification/Tunnel.thy ===== *)
theory Tunnel
  imports Rust_Text
begin

text \<open>
  The reverse tunnel of the command line client (\<^verbatim>\<open>cli/src/tunnel.rs\<close>): the registry of the phones that have connected, the sending of a
  file through a registered connection, and the server for files phones push. A reader is the bytes still to come; the file
  system and the directory for downloads are arguments, and how the probe of a connection or a write ends is an input of the step.
\<close>

section \<open>Registry\<close>

text \<open>A connection is a number; each has a watcher with the address it was registered under. \<open>tn_written\<close> is what was sent on it.\<close>

record tunnels =
  tn_registry :: "(string, nat) hmap"
  tn_next :: nat
  tn_watchers :: "(string \<times> nat) list"
  tn_written :: "nat \<Rightarrow> bytes"

definition no_tunnels :: tunnels where
  "no_tunnels = \<lparr>tn_registry = [], tn_next = 0, tn_watchers = [], tn_written = (\<lambda>_. [])\<rparr>"

definition tunnel_accept :: "string \<Rightarrow> tunnels \<Rightarrow> tunnels" where
  "tunnel_accept ip t =
    t\<lparr>tn_registry := hm_insert ip (tn_next t) (tn_registry t), tn_next := Suc (tn_next t),
      tn_watchers := tn_watchers t @ [(ip, tn_next t)]\<rparr>"

text \<open>A watcher whose probe failed removes the address and ends.\<close>

definition watcher_gives_up :: "string \<times> nat \<Rightarrow> tunnels \<Rightarrow> tunnels" where
  "watcher_gives_up w t =
    t\<lparr>tn_registry := hm_remove (fst w) (tn_registry t), tn_watchers := remove1 w (tn_watchers t)\<rparr>"

definition has_tunnel :: "string \<Rightarrow> tunnels \<Rightarrow> bool" where
  "has_tunnel ip t \<longleftrightarrow> hm_get (tn_registry t) ip \<noteq> None"

section \<open>Sending\<close>

datatype tunnel_error = NoTunnel | TunnelIo string | TunnelWrite string

fun tunnel_error_to_string :: "tunnel_error \<Rightarrow> string" where
  "tunnel_error_to_string NoTunnel =
    ''no reverse tunnel for this phone (hotspot blocks direct TCP; run '' @ [CHR 39] @ ''dos serve'' @ [CHR 39]
      @ '' on Mac and ensure phone has connected to it)''"
| "tunnel_error_to_string (TunnelIo e) = ''file read error: '' @ e"
| "tunnel_error_to_string (TunnelWrite e) = ''tunnel write error: '' @ e"

definition tunnel_frame :: "string \<Rightarrow> bytes \<Rightarrow> bytes" where
  "tunnel_frame name data =
    to_be 4 (of_nat (length (as_bytes name)) :: u32) @ as_bytes name @ to_be 8 (of_nat (length data) :: u64) @ data"

text \<open>The connection used: the one registered for the phone, else any.\<close>

definition pick_tunnel :: "string \<Rightarrow> tunnels \<Rightarrow> nat option" where
  "pick_tunnel ip t =
    (case hm_get (tn_registry t) ip of
       Some e \<Rightarrow> Some e
     | None \<Rightarrow> (case tn_registry t of [] \<Rightarrow> None | (_, e) # _ \<Rightarrow> Some e))"

definition send_through_tunnel :: "string \<Rightarrow> string + bytes \<Rightarrow> string \<Rightarrow> string option \<Rightarrow> tunnels \<Rightarrow> (tunnel_error + unit) \<times> tunnels" where
  "send_through_tunnel ip contents name write_error t =
    (case pick_tunnel ip t of
       None \<Rightarrow> (Inl NoTunnel, t)
     | Some e \<Rightarrow>
         (case contents of
            Inl err \<Rightarrow> (Inl (TunnelIo err), t)
          | Inr data \<Rightarrow>
              (case write_error of
                 Some err \<Rightarrow> (Inl (TunnelWrite err), t\<lparr>tn_registry := hm_remove ip (tn_registry t)\<rparr>)
               | None \<Rightarrow> (Inr (), t\<lparr>tn_written := (tn_written t)(e := tn_written t e @ tunnel_frame name data)\<rparr>))))"

section \<open>Receiving\<close>

record tunnel_env =
  te_home :: string
  te_resolve :: "string \<Rightarrow> string"
  te_no_dir :: bool
  te_no_file :: "string \<Rightarrow> bool"
  te_no_space :: "string \<Rightarrow> nat \<Rightarrow> bool"

datatype tunnel_end =
    TunnelClosed | LongName | CutName | CutSize | HugeFile | NoDirectory | NoCreate | CutData | NoWrite

definition downloads_dir :: "tunnel_env \<Rightarrow> string" where
  "downloads_dir env = te_home env @ ''/Downloads/PDOS''"

definition output_path :: "tunnel_env \<Rightarrow> string \<Rightarrow> string" where
  "output_path env name = downloads_dir env @ ''/'' @ name"

definition received_script :: "string \<Rightarrow> string" where
  "received_script name =
    ''display notification '' @ [CHR 34] @ ''File received from Android: '' @ name @ [CHR 34] @ '' with title '' @ [CHR 34]
      @ ''PDOS: File Received'' @ [CHR 34] @ '' sound name '' @ [CHR 34] @ ''default'' @ [CHR 34]"

text \<open>The body in pieces of 65536 bytes, appended to the file: what was read before an error stays.\<close>

function push_body :: "tunnel_env \<Rightarrow> string \<Rightarrow> nat \<Rightarrow> bytes \<Rightarrow> bytes \<Rightarrow> bytes \<times> (tunnel_end + bytes)" where
  "push_body env path remaining s written =
    (if remaining = 0 then (written, Inr s)
     else
       (let n = min 65536 remaining in
        case read_exact n s of
          None \<Rightarrow> (written, Inl CutData)
        | Some (piece, rest) \<Rightarrow>
            (if te_no_space env path (length written) then (written, Inl NoWrite)
             else push_body env path (remaining - n) rest (written @ piece))))"
  by pat_completeness auto

termination
  by (relation "measure (\<lambda>(_, _, r, _, _). r)") auto

declare push_body.simps [simp del]

text \<open>The head of a frame: the name and the size.\<close>

definition push_head :: "bytes \<Rightarrow> tunnel_end + string \<times> nat \<times> bytes" where
  "push_head s =
    (case read_exact 4 s of
       None \<Rightarrow> Inl TunnelClosed
     | Some (l, s1) \<Rightarrow>
         (let n = unat (from_be l :: u32) in
          if n > 1024 then Inl LongName
          else
            (case read_exact n s1 of
               None \<Rightarrow> Inl CutName
             | Some (name, s2) \<Rightarrow>
                 (case read_exact 8 s2 of
                    None \<Rightarrow> Inl CutSize
                  | Some (z, s3) \<Rightarrow>
                      (let fsize = unat (from_be z :: u64) in
                       if fsize > 10 * 1024 * 1024 * 1024 then Inl HugeFile else Inr (from_utf8_lossy name, fsize, s3))))))"

lemma push_head_shorter: "push_head s = Inr (name, n, s') \<Longrightarrow> length s' < length s"
  by (auto simp: push_head_def Let_def read_exact_def split: if_splits)

lemma push_body_length: "push_body env path n s w = (w', Inr s') \<Longrightarrow> length s' \<le> length s"
proof (induction env path n s w rule: push_body.induct)
  case (1 env path n s w)
  show ?case
  proof (cases "read_exact (min 65536 n) s")
    case None
    then show ?thesis using "1.prems" by (subst (asm) push_body.simps) (auto split: if_splits)
  next
    case (Some p)
    obtain piece rest where p: "p = (piece, rest)" by (cases p)
    have "length rest \<le> length s" using Some p by (auto simp: read_exact_def split: if_splits)
    then show ?thesis using "1.prems" "1.IH" Some p
      by (subst (asm) push_body.simps) (fastforce simp: Let_def split: if_splits)
  qed
qed

function receive_pushes :: "tunnel_env \<Rightarrow> bytes \<Rightarrow> (string \<rightharpoonup> bytes) \<Rightarrow> string list \<Rightarrow> (string \<rightharpoonup> bytes) \<times> string list \<times> tunnel_end" where
  "receive_pushes env s files scripts =
    (case push_head s of
       Inl e \<Rightarrow> (files, scripts, e)
     | Inr (name, fsize, s1) \<Rightarrow>
         (let path = output_path env name in
          if te_no_dir env then (files, scripts, NoDirectory)
          else if te_no_file env path then (files, scripts, NoCreate)
          else
            (case push_body env path fsize s1 [] of
               (w, Inl e) \<Rightarrow> (files(te_resolve env path \<mapsto> w), scripts, e)
             | (w, Inr s2) \<Rightarrow> receive_pushes env s2 (files(te_resolve env path \<mapsto> w)) (scripts @ [received_script name]))))"
  by pat_completeness auto

termination
  by (relation "measure (\<lambda>(_, s, _, _). length s)") (auto dest!: push_head_shorter push_body_length [OF sym] intro: le_less_trans)

declare receive_pushes.simps [simp del]

section \<open>Facts\<close>

lemma accept_has: "has_tunnel ip (tunnel_accept ip t)"
  by (simp add: has_tunnel_def tunnel_accept_def)

text \<open>A phone that reconnects loses its new tunnel when the watcher of the old connection gives up.\<close>

lemma reconnected_tunnel_lost:
  "\<not> has_tunnel ip (watcher_gives_up (ip, tn_next t) (tunnel_accept ip (tunnel_accept ip t)))"
  by (simp add: has_tunnel_def tunnel_accept_def watcher_gives_up_def)

text \<open>A file for a phone without a tunnel goes to another phone.\<close>

lemma sent_to_another_phone:
  assumes "hm_get (tn_registry t) ip = None" "tn_registry t = (other, e) # ts"
  shows "fst (send_through_tunnel ip (Inr data) name None t) = Inr ()
    \<and> tn_written (snd (send_through_tunnel ip (Inr data) name None t)) e = tn_written t e @ tunnel_frame name data"
  using assms by (simp add: send_through_tunnel_def pick_tunnel_def)

lemma escaping_name: "output_path env ''../../x'' = te_home env @ ''/Downloads/PDOS/../../x''"
  by (simp add: output_path_def downloads_dir_def)

lemma long_name_refused: "1024 < length name \<Longrightarrow> length name < 2 ^ 32 \<Longrightarrow> push_head (tunnel_frame name data @ s) = Inl LongName"
  by (simp add: push_head_def tunnel_frame_def unsigned_of_nat take_bit_nat_eq_self)

text \<open>The body arrives whole.\<close>

lemma push_body_whole:
  "(\<And>k. \<not> te_no_space env path k) \<Longrightarrow> push_body env path (length data) (data @ s) w = (w @ data, Inr s)"
proof (induction "length data" arbitrary: data w rule: less_induct)
  case less
  show ?case
  proof (cases "data = []")
    case False
    let ?n = "min 65536 (length data)"
    have r: "read_exact ?n (data @ s) = Some (take ?n data, drop ?n data @ s)"
      by (simp add: read_exact_def min_def)
    have "push_body env path (length (drop ?n data)) (drop ?n data @ s) (w @ take ?n data) = ((w @ take ?n data) @ drop ?n data, Inr s)"
      by (rule less.hyps) (use False less.prems in auto)
    then show ?thesis using False r less.prems by (subst push_body.simps) (simp add: Let_def)
  qed (simp add: push_body.simps)
qed

lemma push_body_cut:
  assumes "length s < n" "\<And>k. \<not> te_no_space env path k"
  shows "push_body env path n s w = (w @ take (length s div 65536 * 65536) s, Inl CutData)"
  using assms(1)
proof (induction "length s" arbitrary: s n w rule: less_induct)
  case less
  show ?case
  proof (cases "length s < 65536")
    case True
    then show ?thesis using less.prems by (subst push_body.simps) (simp add: Let_def read_exact_def)
  next
    case False
    have "push_body env path (n - 65536) (drop 65536 s) (w @ take 65536 s)
        = ((w @ take 65536 s) @ take (length (drop 65536 s) div 65536 * 65536) (drop 65536 s), Inl CutData)"
      by (rule less.hyps) (use False less.prems in auto)
    moreover have "length s div 65536 * 65536 = 65536 + (length s - 65536) div 65536 * 65536" using False by (simp add: le_div_geq)
    ultimately show ?thesis using False less.prems assms(2)
      by (subst push_body.simps) (simp add: Let_def read_exact_def min_def take_add)
  qed
qed

definition frame_ok :: "string \<times> bytes \<Rightarrow> bool" where
  "frame_ok f \<longleftrightarrow> utf8_valid (fst f) \<and> length (fst f) \<le> 1024 \<and> length (snd f) \<le> 10 * 1024 * 1024 * 1024"

lemma push_head_frame:
  "frame_ok (name, data) \<Longrightarrow> push_head (tunnel_frame name data @ s) = Inr (name, length data, data @ s)"
  by (simp add: frame_ok_def push_head_def tunnel_frame_def unsigned_of_nat take_bit_nat_eq_self from_utf8_lossy_as_bytes)

text \<open>What a sequence of pushes should leave.\<close>

definition pushed :: "tunnel_env \<Rightarrow> (string \<times> bytes) list \<Rightarrow> (string \<rightharpoonup> bytes) \<Rightarrow> (string \<rightharpoonup> bytes)" where
  "pushed env frames files = foldl (\<lambda>fs f. fs(te_resolve env (output_path env (fst f)) \<mapsto> snd f)) files frames"

definition push_stream :: "(string \<times> bytes) list \<Rightarrow> bytes" where
  "push_stream frames = concat (map (\<lambda>f. tunnel_frame (fst f) (snd f)) frames)"

lemma receive_one_push:
  assumes "frame_ok f" "\<not> te_no_dir env" "\<And>p. \<not> te_no_file env p" "\<And>p k. \<not> te_no_space env p k"
  shows "receive_pushes env (tunnel_frame (fst f) (snd f) @ s) fs sc
      = receive_pushes env s (fs(te_resolve env (output_path env (fst f)) \<mapsto> snd f)) (sc @ [received_script (fst f)])"
  using assms push_head_frame [of "fst f" "snd f" s] push_body_whole [of env "output_path env (fst f)" "snd f" s "[]"]
  by (subst receive_pushes.simps) (simp add: Let_def)

lemma receive_many_pushes:
  assumes "list_all frame_ok frames" "\<not> te_no_dir env" "\<And>p. \<not> te_no_file env p" "\<And>p k. \<not> te_no_space env p k"
  shows "receive_pushes env (push_stream frames @ s) files scripts
      = receive_pushes env s (pushed env frames files) (scripts @ map (received_script \<circ> fst) frames)"
  using assms(1) by (induction frames arbitrary: files scripts) (simp_all add: push_stream_def pushed_def receive_one_push assms)

lemma receive_cut_push:
  assumes "frame_ok (name, data)" "got < length data" "\<not> te_no_dir env" "\<And>p. \<not> te_no_file env p" "\<And>p k. \<not> te_no_space env p k"
  shows "receive_pushes env (take (length (tunnel_frame name data) - length data + got) (tunnel_frame name data)) files scripts
      = (files(te_resolve env (output_path env name) \<mapsto> take (got div 65536 * 65536) data), scripts, CutData)"
proof -
  have "take (length (tunnel_frame name data) - length data + got) (tunnel_frame name data)
      = to_be 4 (of_nat (length (as_bytes name)) :: u32) @ as_bytes name @ to_be 8 (of_nat (length data) :: u64) @ take got data"
    by (simp add: tunnel_frame_def)
  moreover have "push_head \<dots> = Inr (name, length data, take got data)"
    using assms(1) by (simp add: frame_ok_def push_head_def unsigned_of_nat take_bit_nat_eq_self from_utf8_lossy_as_bytes)
  ultimately show ?thesis
    using assms(2-5) push_body_cut [of "take got data" "length data" env "output_path env name" "[]"]
    by (subst receive_pushes.simps) (simp add: Let_def min_def)
qed

text \<open>C33. Files pushed through a tunnel arrive whole and in order: where the file system takes them, the receiving server leaves exactly the contents of each file
  sent, the last one of a name winning, announces each, and stops at the end of the stream; a stream cut inside the
  contents of a further file leaves a file of whole pieces of 65536 bytes under its final name, not announced.\<close>

theorem tunnel_roundtrip:
  assumes "list_all frame_ok frames" "frame_ok (name, data)" "got < length data"
    and "\<not> te_no_dir env" "\<And>p. \<not> te_no_file env p" "\<And>p k. \<not> te_no_space env p k"
  shows "receive_pushes env (push_stream frames) files scripts
      = (pushed env frames files, scripts @ map (received_script \<circ> fst) frames, TunnelClosed)
    \<and> receive_pushes env (push_stream frames @ take (length (tunnel_frame name data) - length data + got) (tunnel_frame name data)) files scripts
        = ((pushed env frames files)(te_resolve env (output_path env name) \<mapsto> take (got div 65536 * 65536) data),
           scripts @ map (received_script \<circ> fst) frames, CutData)"
proof -
  have "receive_pushes env [] fs sc = (fs, sc, TunnelClosed)" for fs sc
    by (subst receive_pushes.simps) (simp add: push_head_def read_exact_def)
  then show ?thesis
    using receive_many_pushes [OF assms(1,4-6), of _ files scripts] receive_many_pushes [OF assms(1,4-6), of "[]" files scripts]
      receive_cut_push [OF assms(2-6)] by simp
qed

definition plain_tunnel :: tunnel_env where
  "plain_tunnel = \<lparr>te_home = ''/h'', te_resolve = id, te_no_dir = False, te_no_file = (\<lambda>_. False), te_no_space = (\<lambda>_ _. False)\<rparr>"

theorem tunnel_roundtrip_witness:
  "fst (receive_pushes plain_tunnel (push_stream [(''a'', [1, 2])] @ take 14 (tunnel_frame ''b'' [3, 4])) Map.empty [])
    = [''/h/Downloads/PDOS/a'' \<mapsto> [1, 2], ''/h/Downloads/PDOS/b'' \<mapsto> []]"
proof -
  have ok: "list_all frame_ok [(''a'', [1, 2])]" "frame_ok (''b'', [3, 4])" "1 < length ([3, 4] :: bytes)"
    "\<not> te_no_dir plain_tunnel" "\<And>p. \<not> te_no_file plain_tunnel p" "\<And>p k. \<not> te_no_space plain_tunnel p k"
    by (simp_all add: frame_ok_def plain_tunnel_def utf8_valid_ascii)
  show ?thesis
    using conjunct2 [OF tunnel_roundtrip [OF ok, of Map.empty "[]"]]
    by (simp add: tunnel_frame_def plain_tunnel_def output_path_def downloads_dir_def pushed_def)
qed

end
