(* ===== verification/Zero_Copy.thy ===== *)
theory Zero_Copy
  imports Prelude
begin

text \<open>
  Sending a part of a file without copying (\<^verbatim>\<open>cli/src/zero_copy.rs\<close>): \<^verbatim>\<open>sendfile\<close>, the way through the pipe of the thread with
  \<^verbatim>\<open>splice\<close>, and the retries. What the system calls return is the input; their effect on the socket, the pipe and
  the offset is the documented one: they move as many bytes as they return, a pipe in order.
\<close>

section \<open>State and system calls\<close>

record zero_copy =
  zc_out :: bytes
  zc_pipe :: bytes
  zc_offset :: nat

text \<open>What a call returns: a number of bytes, or an error number with what was sent before it (macOS only).\<close>

datatype sys_result = SysOk nat | SysErr nat nat

definition EAGAIN :: nat where "EAGAIN = 11"
definition EINVAL :: nat where "EINVAL = 22"
definition ENOSYS :: nat where "ENOSYS = 38"
definition EOPNOTSUPP :: nat where "EOPNOTSUPP = 95"
definition SEND_RETRIES :: nat where "SEND_RETRIES = 16"

definition file_part :: "bytes \<Rightarrow> nat \<Rightarrow> nat \<Rightarrow> bytes" where
  "file_part contents off n = take n (drop off contents)"

definition sendfile_impl :: "bytes \<Rightarrow> nat \<Rightarrow> sys_result \<Rightarrow> zero_copy \<Rightarrow> (nat + nat) \<times> zero_copy" where
  "sendfile_impl contents n r z =
    (case r of
       SysErr e _ \<Rightarrow> (Inl e, z)
     | SysOk k \<Rightarrow>
         (let part = file_part contents (zc_offset z) (min k n) in
          (Inr (length part), z\<lparr>zc_out := zc_out z @ part, zc_offset := zc_offset z + length part\<rparr>)))"


text \<open>From the pipe to the socket until \<open>left\<close> bytes are through; nothing where it still waits.\<close>

fun splice_out :: "nat \<Rightarrow> nat \<Rightarrow> sys_result list \<Rightarrow> zero_copy \<Rightarrow> ((nat + nat) \<times> zero_copy) option" where
  "splice_out done 0 rs z = Some (Inr done, z)"
| "splice_out done (Suc left) [] z = None"
| "splice_out done (Suc left) (SysErr e m # rs) z = (if e = EAGAIN then splice_out done (Suc left) rs z else Some (Inl e, z))"
| "splice_out done (Suc left) (SysOk k # rs) z =
    (let part = take (min k (Suc left)) (zc_pipe z) in
     splice_out (done + length part) (Suc left - length part) rs
       (z\<lparr>zc_out := zc_out z @ part, zc_pipe := drop (length part) (zc_pipe z)\<rparr>))"

text \<open>The first result is that of opening the pipe where that fails, else that of the call into the pipe.\<close>

definition splice_impl :: "bytes \<Rightarrow> nat \<Rightarrow> sys_result list \<Rightarrow> zero_copy \<Rightarrow> ((nat + nat) \<times> zero_copy) option" where
  "splice_impl contents n rs z =
    (case rs of
       [] \<Rightarrow> None
     | SysErr e _ # _ \<Rightarrow> Some (Inl e, z)
     | SysOk k # outs \<Rightarrow>
         (let part = file_part contents (zc_offset z) (min k n) in
          if part = [] then Some (Inr 0, z)
          else
            (case splice_out 0 (length part) outs (z\<lparr>zc_pipe := zc_pipe z @ part\<rparr>) of
               None \<Rightarrow> None
             | Some (Inl e, z') \<Rightarrow> Some (Inl e, z')
             | Some (Inr m, z') \<Rightarrow> Some (Inr m, z'\<lparr>zc_offset := zc_offset z' + length part\<rparr>))))"

section \<open>The retries\<close>

fun zero_copy_linux :: "bytes \<Rightarrow> nat \<Rightarrow> nat \<Rightarrow> sys_result list \<Rightarrow> zero_copy \<Rightarrow> ((nat + nat) \<times> zero_copy) option" where
  "zero_copy_linux contents n retries [] z = None"
| "zero_copy_linux contents n retries (r # rs) z =
    (case sendfile_impl contents n r z of
       (Inr m, z') \<Rightarrow> Some (Inr m, z')
     | (Inl e, z') \<Rightarrow>
         (if e = EINVAL \<or> e = ENOSYS \<or> e = EOPNOTSUPP then splice_impl contents n rs z'
          else if e = EAGAIN then
            (if retries + 1 \<ge> SEND_RETRIES then Some (Inl e, z') else zero_copy_linux contents n (retries + 1) rs z')
          else Some (Inl e, z')))"





section \<open>Facts\<close>
















text \<open>Sixteen times at most.\<close>

lemma linux_retries: "retries < SEND_RETRIES \<Longrightarrow> SEND_RETRIES \<le> retries + length rs \<Longrightarrow> list_all (\<lambda>r. r = SysErr EAGAIN 0) rs \<Longrightarrow>
    zero_copy_linux contents n retries rs z = Some (Inl EAGAIN, z)"
proof (induction rs arbitrary: retries)
  case (Cons r rs)
  then show ?case
    by (auto simp: sendfile_impl_def EAGAIN_def EINVAL_def ENOSYS_def EOPNOTSUPP_def)
qed simp




end
