(* ===== verification/Quic_Upload.thy ===== *)
theory Quic_Upload
  imports Float_Model Rust_Text "HOL-Library.Multiset"
begin

text \<open>
  The upload over QUIC of the transfer engine (\<^verbatim>\<open>quic_upload\<close> in \<^verbatim>\<open>crates/transfer_engine/src/transport/quic.rs\<close>): the
  main loop starts a task for a chunk while the shared offset is below the size of the file; a task takes the next chunk of the shared file
  handle, sends it on a stream of its own, and hashes it. The steps of the loop and of the tasks are those of a relation, with
  every interleaving. \<^verbatim>\<open>quinn\<close>, \<^verbatim>\<open>rustls\<close> and SHA-256 are third party: whether a stream can be opened and written is the choice of the
  step, the hash function an argument.

  The permit of the main loop ends with its iteration, so it limits nothing; the flow window and the pacing delay tasks
  and are no more than an order of the steps.
\<close>

text \<open>
  A chunk is lost where its task ends with an error, whatever of it the peer has got; a read that fails is taken not to move the file handle, and
  the file is taken not to change during the upload. Times are milliseconds.
\<close>

section \<open>Messages\<close>




section \<open>Connecting\<close>



section \<open>The upload\<close>

text \<open>A task that has not read yet, one with its chunk, one that has ended: with its chunk sent, with nothing to do, or with an error and
  the chunk it had. \<open>qu_streams\<close> are the contents of the streams in the order in which their chunks were hashed.\<close>

datatype quic_task = TaskNew | TaskChunk bytes | TaskSent | TaskIdle | TaskFailed bytes

record quic_state =
  qu_offset :: nat
  qu_tasks :: "quic_task list"
  qu_streams :: "bytes list"
  qu_hashed :: bytes
  qu_sent :: nat




definition take_chunk :: "bytes \<Rightarrow> nat \<Rightarrow> nat \<Rightarrow> quic_state \<Rightarrow> quic_state" where
  "take_chunk contents chunk i q =
    (if qu_offset q \<ge> length contents then q\<lparr>qu_tasks := (qu_tasks q)[i := TaskIdle]\<rparr>
     else
       (let n = min (length contents - qu_offset q) chunk in
        q\<lparr>qu_tasks := (qu_tasks q)[i := TaskChunk (take n (drop (qu_offset q) contents))], qu_offset := qu_offset q + n\<rparr>))"

definition send_chunk :: "nat \<Rightarrow> bytes \<Rightarrow> quic_state \<Rightarrow> quic_state" where
  "send_chunk i b q =
    q\<lparr>qu_tasks := (qu_tasks q)[i := TaskSent], qu_streams := qu_streams q @ [b], qu_hashed := qu_hashed q @ b,
      qu_sent := qu_sent q + length b\<rparr>"

inductive quic_upload_step :: "bytes \<Rightarrow> nat \<Rightarrow> quic_state \<Rightarrow> quic_state \<Rightarrow> bool"
  for contents :: bytes and chunk :: nat
where
  spawn: "qu_offset q < length contents \<Longrightarrow> quic_upload_step contents chunk q (q\<lparr>qu_tasks := qu_tasks q @ [TaskNew]\<rparr>)"
| take: "i < length (qu_tasks q) \<Longrightarrow> qu_tasks q ! i = TaskNew \<Longrightarrow> quic_upload_step contents chunk q (take_chunk contents chunk i q)"
| read_error: "i < length (qu_tasks q) \<Longrightarrow> qu_tasks q ! i = TaskNew \<Longrightarrow>
    quic_upload_step contents chunk q (q\<lparr>qu_tasks := (qu_tasks q)[i := TaskFailed []]\<rparr>)"
| send: "i < length (qu_tasks q) \<Longrightarrow> qu_tasks q ! i = TaskChunk b \<Longrightarrow> quic_upload_step contents chunk q (send_chunk i b q)"
| send_error: "i < length (qu_tasks q) \<Longrightarrow> qu_tasks q ! i = TaskChunk b \<Longrightarrow>
    quic_upload_step contents chunk q (q\<lparr>qu_tasks := (qu_tasks q)[i := TaskFailed b]\<rparr>)"









section \<open>What is sent\<close>





















end
