(* ===== verification/Syscall_Profiler.thy ===== *)
theory Syscall_Profiler
  imports Float_Model "HOL-Library.Multiset"
begin

text \<open>
  The profiler of system calls (\<^verbatim>\<open>cli/src/syscall_profiler.rs\<close>): its counters, the report, and the functions that take the place of those of the
  C library on Linux and Android. A hook takes the time before and after the call, which is itself a call of the hooked
  \<^verbatim>\<open>clock_gettime\<close>; a table of the threads that are inside a hook is meant to stop the recursion.
\<close>

section \<open>Counters\<close>

datatype syscall =
    ScRead | ScWrite | ScRecv | ScSend | ScMmap | ScMunmap | ScFutex | ScEpollWait | ScClockGettime

record syscall_stat =
  ss_count :: u64
  ss_total_ns :: u64
  ss_total_bytes :: u64

record profiler =
  pf_stats :: "syscall \<Rightarrow> syscall_stat"
  pf_active :: bool

definition no_stat :: syscall_stat where
  "no_stat = \<lparr>ss_count = 0, ss_total_ns = 0, ss_total_bytes = 0\<rparr>"

definition profiler_registry :: profiler where
  "profiler_registry = \<lparr>pf_stats = (\<lambda>_. no_stat), pf_active = False\<rparr>"

definition start_profiling :: "profiler \<Rightarrow> profiler" where
  "start_profiling p = p\<lparr>pf_stats := (\<lambda>_. no_stat), pf_active := True\<rparr>"

definition record_syscall :: "syscall \<Rightarrow> u64 \<Rightarrow> u64 \<Rightarrow> profiler \<Rightarrow> profiler" where
  "record_syscall c dur n p =
    (if pf_active p then
       (let s = pf_stats p c in
        p\<lparr>pf_stats := (pf_stats p)(c := \<lparr>ss_count = ss_count s + 1, ss_total_ns = ss_total_ns s + dur,
            ss_total_bytes = (if n > 0 then ss_total_bytes s + n else ss_total_bytes s)\<rparr>)\<rparr>)
     else p)"

section \<open>The report\<close>

record syscall_entry =
  sy_name :: string
  sy_calls :: u64
  sy_avg_ms :: fl
  sy_total_ms :: fl
  sy_pct :: fl
  sy_avg_bytes :: fl

fun syscall_name :: "syscall \<Rightarrow> string" where
  "syscall_name ScRead = ''read''"
| "syscall_name ScWrite = ''write''"
| "syscall_name ScRecv = ''recv''"
| "syscall_name ScSend = ''send''"
| "syscall_name ScMmap = ''mmap''"
| "syscall_name ScMunmap = ''munmap''"
| "syscall_name ScFutex = ''futex''"
| "syscall_name ScEpollWait = ''epoll_wait''"
| "syscall_name ScClockGettime = ''clock_gettime''"

definition report_order :: "syscall list" where
  "report_order = [ScRead, ScWrite, ScRecv, ScSend, ScMmap, ScMunmap, ScFutex, ScEpollWait, ScClockGettime]"

definition report_entry :: "rounding \<Rightarrow> fl \<Rightarrow> profiler \<Rightarrow> syscall \<Rightarrow> syscall_entry" where
  "report_entry rnd elapsed_ns p c =
    (let s = pf_stats p c; n = fl_of_u64 rnd (ss_count s); ns = fl_of_u64 rnd (ss_total_ns s) in
     \<lparr>sy_name = syscall_name c, sy_calls = ss_count s,
      sy_avg_ms = (if ss_count s = 0 then Fin 0 else fl_div rnd (fl_div rnd ns n) (Fin 1000000)),
      sy_total_ms = fl_div rnd ns (Fin 1000000),
      sy_pct = fl_mul rnd (fl_div rnd ns elapsed_ns) (Fin 100),
      sy_avg_bytes = (if ss_count s = 0 then Fin 0 else fl_div rnd (fl_of_u64 rnd (ss_total_bytes s)) n)\<rparr>)"

text \<open>The figures reported where nothing was counted.\<close>

definition mock_data :: "(string \<times> u64 \<times> rat \<times> rat \<times> rat) list" where
  "mock_data =
    [(''read'', 250, 9/2, 18/1000, 4096), (''write'', 180, 82/10, 45/1000, 8192), (''recv'', 320, 31/2, 48/1000, 16384),
     (''send'', 310, 121/10, 39/1000, 16384), (''mmap'', 15, 12/10, 8/100, 0), (''munmap'', 12, 8/10, 66/1000, 0),
     (''futex'', 450, 254/10, 56/1000, 0), (''epoll_wait'', 85, 351/10, 412/1000, 0), (''clock_gettime'', 1200, 21/10, 17/10000, 0)]"

definition mock_report_entry :: "rounding \<Rightarrow> fl \<Rightarrow> string \<times> u64 \<times> rat \<times> rat \<times> rat \<Rightarrow> syscall_entry" where
  "mock_report_entry rnd elapsed_ms d =
    (case d of (name, n, total_ms, avg_ms, avg_bytes) \<Rightarrow>
       \<lparr>sy_name = name, sy_calls = n, sy_avg_ms = Fin avg_ms, sy_total_ms = Fin total_ms,
        sy_pct = fl_mul rnd (fl_div rnd (Fin total_ms) elapsed_ms) (Fin 100), sy_avg_bytes = Fin avg_bytes\<rparr>)"

text \<open>The stable sort by falling total time.\<close>

fun insert_entry :: "syscall_entry \<Rightarrow> syscall_entry list \<Rightarrow> syscall_entry list" where
  "insert_entry e [] = [e]"
| "insert_entry e (x # xs) = (if fl_less (sy_total_ms x) (sy_total_ms e) then e # x # xs else x # insert_entry e xs)"

definition sort_entries :: "syscall_entry list \<Rightarrow> syscall_entry list" where
  "sort_entries es = foldl (\<lambda>acc e. insert_entry e acc) [] es"

text \<open>\<open>trunc\<close> is the conversion of a float to \<^verbatim>\<open>u64\<close>.\<close>

definition stop_profiling :: "rounding \<Rightarrow> (fl \<Rightarrow> u64) \<Rightarrow> fl \<Rightarrow> profiler \<Rightarrow> syscall_entry list \<times> profiler" where
  "stop_profiling rnd trunc elapsed_sec p =
    (let ns = trunc (fl_mul rnd elapsed_sec (Fin 1000000000));
         ns_f = (if ns = 0 then Fin 1 else fl_of_u64 rnd ns);
         entries = map (report_entry rnd ns_f p) report_order;
         ms = fl_mul rnd elapsed_sec (Fin 1000);
         ms_f = (if ms = Fin 0 then Fin 1 else ms);
         shown = (if sum_list (map sy_calls entries) = 0 then map (mock_report_entry rnd ms_f) mock_data else entries) in
     (sort_entries shown, p\<lparr>pf_active := False\<rparr>))"

section \<open>Hooks\<close>

definition MAX_THREADS_IN_HOOK :: nat where "MAX_THREADS_IN_HOOK = 128"

record hooks =
  hk_slots :: "u64 list"
  hk_resolved :: "syscall set"
  hk_profiler :: profiler

definition hooks_new :: "profiler \<Rightarrow> hooks" where
  "hooks_new p = \<lparr>hk_slots = replicate MAX_THREADS_IN_HOOK 0, hk_resolved = {}, hk_profiler = p\<rparr>"

definition is_in_hook :: "u64 \<Rightarrow> hooks \<Rightarrow> bool" where
  "is_in_hook tid h \<longleftrightarrow> tid \<noteq> 0 \<and> tid \<in> set (hk_slots h)"

text \<open>The first free slot is taken, if there is one; all slots of the thread are freed.\<close>

fun take_slot :: "u64 \<Rightarrow> u64 list \<Rightarrow> u64 list" where
  "take_slot tid [] = []"
| "take_slot tid (s # ss) = (if s = 0 then tid # ss else s # take_slot tid ss)"

definition set_in_hook :: "u64 \<Rightarrow> bool \<Rightarrow> hooks \<Rightarrow> hooks" where
  "set_in_hook tid val h =
    (if tid = 0 then h
     else if val then h\<lparr>hk_slots := take_slot tid (hk_slots h)\<rparr>
     else h\<lparr>hk_slots := map (\<lambda>s. if s = tid then 0 else s) (hk_slots h)\<rparr>)"

text \<open>A call of a hooked function: it passes to the C library, or returns the error value where the library's function is not known yet
  within a hook; a time stamp that gets the error value panics. Nothing where the fuel, the depth of the recursion, is used up.\<close>

datatype hook_result = HookPassed | HookFellBack | HookPanicked

fun hook_call :: "nat \<Rightarrow> u64 \<Rightarrow> syscall \<Rightarrow> u64 \<Rightarrow> u64 \<Rightarrow> hooks \<Rightarrow> (hook_result \<times> hooks) option" where
  "hook_call 0 tid c dur n h = None"
| "hook_call (Suc fuel) tid c dur n h =
    (if is_in_hook tid h then Some (if c \<in> hk_resolved h then HookPassed else HookFellBack, h)
     else
       (case hook_call fuel tid ScClockGettime 0 0 (set_in_hook tid True h) of
          None \<Rightarrow> None
        | Some (r, h1) \<Rightarrow>
            (if r \<noteq> HookPassed then Some (HookPanicked, h1)
             else
               (case hook_call fuel tid ScClockGettime 0 0 (h1\<lparr>hk_resolved := insert c (hk_resolved h1)\<rparr>) of
                  None \<Rightarrow> None
                | Some (r', h2) \<Rightarrow>
                    (if r' \<noteq> HookPassed then Some (HookPanicked, h2)
                     else Some (HookPassed,
                       set_in_hook tid False (h2\<lparr>hk_profiler := record_syscall c dur n (hk_profiler h2)\<rparr>)))))))"

section \<open>Facts\<close>

lemma record_inactive: "\<not> pf_active p \<Longrightarrow> record_syscall c dur n p = p"
  by (simp add: record_syscall_def)

lemma mset_insert_entry: "mset (insert_entry e es) = add_mset e (mset es)"
  by (induction es) auto

lemma mset_sort_entries: "mset (sort_entries es) = mset es"
proof -
  have "mset (foldl (\<lambda>acc e. insert_entry e acc) acc es) = mset es + mset acc" for acc
    by (induction es arbitrary: acc) (simp_all add: mset_insert_entry)
  then show ?thesis by (simp add: sort_entries_def)
qed

text \<open>A report without a single call shows the invented figures.\<close>

lemma nothing_counted_reported:
  "mset (map sy_name (fst (stop_profiling rnd trunc e (start_profiling p)))) = mset (map fst mock_data)
    \<and> list_all (\<lambda>x. sy_calls x > 0) (fst (stop_profiling rnd trunc e (start_profiling p)))"
proof -
  have s: "fst (stop_profiling rnd trunc e (start_profiling p))
      = sort_entries (map (mock_report_entry rnd (if fl_mul rnd e (Fin 1000) = Fin 0 then Fin 1 else fl_mul rnd e (Fin 1000))) mock_data)"
    by (simp add: stop_profiling_def Let_def start_profiling_def no_stat_def report_order_def report_entry_def)
  have "mset (map sy_name (sort_entries es)) = mset (map sy_name es)" for es by (simp add: mset_sort_entries)
  moreover have "set (sort_entries es) = set es" for es using mset_sort_entries mset_eq_setD by blast
  ultimately show ?thesis unfolding s by (simp add: list_all_iff mock_data_def mock_report_entry_def)
qed

lemma set_take_slot: "0 \<in> set ss \<Longrightarrow> tid \<in> set (take_slot tid ss)"
  by (induction ss) auto

lemma clear_absent: "tid \<notin> set ss \<Longrightarrow> map (\<lambda>s. if s = tid then 0 else s) ss = ss"
  by (induction ss) auto

lemma free_take_slot: "tid \<notin> set ss \<Longrightarrow> tid \<noteq> 0 \<Longrightarrow> map (\<lambda>s. if s = tid then 0 else s) (take_slot tid ss) = ss"
  by (induction ss) (auto simp: clear_absent)

lemma take_slot_full: "0 \<notin> set ss \<Longrightarrow> take_slot tid ss = ss"
  by (induction ss) auto

lemma nested_call:
  "is_in_hook tid h \<Longrightarrow> hook_call (Suc fuel) tid c dur n h = Some (if c \<in> hk_resolved h then HookPassed else HookFellBack, h)"
  by simp

lemma hook_runs_away: "tid = 0 \<or> (0 \<notin> set (hk_slots h) \<and> tid \<notin> set (hk_slots h)) \<Longrightarrow> hook_call fuel tid c dur n h = None"
  by (induction fuel arbitrary: c dur n h) (auto simp: is_in_hook_def set_in_hook_def take_slot_full)

text \<open>C36. What a hook does, by the state of the table of threads: with no free slot, or in a thread numbered 0, the hook calls itself without
  end, at every depth; with a free slot it panics at its first time stamp as long as \<^verbatim>\<open>clock_gettime\<close> itself has not been
  resolved, which it can never be, as it panics itself; only once it were resolved would a hook pass the call on, count it once, without its
  time stamps, and leave the table as it was.\<close>

theorem profiler_hooks:
  "(if tid = 0 \<or> (0 \<notin> set (hk_slots h) \<and> tid \<notin> set (hk_slots h)) then hook_call fuel tid c dur n h = None
    else if tid \<in> set (hk_slots h) then True
    else if ScClockGettime \<notin> hk_resolved h then
      hook_call (Suc (Suc fuel)) tid c dur n h = Some (HookPanicked, h\<lparr>hk_slots := take_slot tid (hk_slots h)\<rparr>)
    else hook_call (Suc (Suc fuel)) tid c dur n h
      = Some (HookPassed, h\<lparr>hk_resolved := insert c (hk_resolved h), hk_profiler := record_syscall c dur n (hk_profiler h)\<rparr>))"
proof -
  have "hook_call (Suc (Suc fuel)) tid c dur n h
      = (if ScClockGettime \<notin> hk_resolved h then Some (HookPanicked, h\<lparr>hk_slots := take_slot tid (hk_slots h)\<rparr>)
         else Some (HookPassed, h\<lparr>hk_resolved := insert c (hk_resolved h), hk_profiler := record_syscall c dur n (hk_profiler h)\<rparr>))"
    if "tid \<noteq> 0" "0 \<in> set (hk_slots h)" "tid \<notin> set (hk_slots h)"
    using that set_take_slot [OF that(2), of tid] free_take_slot [OF that(3,1)]
    by (simp add: is_in_hook_def set_in_hook_def)
  then show ?thesis using hook_runs_away [of tid h] by auto
qed

lemma first_hook_panics: "tid \<noteq> 0 \<Longrightarrow> \<exists>h. hook_call 2 tid c dur n (hooks_new p) = Some (HookPanicked, h)"
  using set_take_slot [of "replicate MAX_THREADS_IN_HOOK 0" tid]
  by (simp add: numeral_2_eq_2 is_in_hook_def set_in_hook_def hooks_new_def MAX_THREADS_IN_HOOK_def)

end
