(* ===== verification/Cli_Proc.thy ===== *)
theory Cli_Proc
  imports Receiver_Metrics
begin

text \<open>
  The command line client's own readers of the kernel's files (\<^verbatim>\<open>cli/src/observability.rs\<close>), translated from its code and
  shown equal to those of the file server of the Android agent (theories \<open>Proc_Files\<close> and
  \<open>Receiver_Metrics\<close>), whose types they share. A mutable local of a loop is a component of the loop's state.
\<close>

section \<open>Network\<close>

fun cli_snmp_lines :: "string list \<Rightarrow> u64 \<times> u64 \<times> u64 \<Rightarrow> u64 \<times> u64 \<times> u64" where
  "cli_snmp_lines (line # val_line # ls) s =
    (if prefix ''Tcp:'' line then
       (let headers = words line; vs = words val_line in
        cli_snmp_lines ls
          (if length headers = length vs then
             foldl (\<lambda>(in_segs, out_segs, retrans_segs) i.
               if headers ! i = ''InSegs'' then (u64_or 0 (vs ! i), out_segs, retrans_segs)
               else if headers ! i = ''OutSegs'' then (in_segs, u64_or 0 (vs ! i), retrans_segs)
               else if headers ! i = ''RetransSegs'' then (in_segs, out_segs, u64_or 0 (vs ! i))
               else (in_segs, out_segs, retrans_segs)) s [0..<length headers]
           else s))
     else cli_snmp_lines (val_line # ls) s)"
| "cli_snmp_lines _ s = s"

definition cli_proc_net_snmp :: "proc_fs \<Rightarrow> u64 \<times> u64 \<times> u64" where
  "cli_proc_net_snmp p = cli_snmp_lines (proc_lines p ''/proc/net/snmp'') (0, 0, 0)"

fun cli_netstat_lines :: "string list \<Rightarrow> u64 \<times> u64 \<times> u64 \<Rightarrow> u64 \<times> u64 \<times> u64" where
  "cli_netstat_lines (line # val_line # ls) s =
    (if prefix ''TcpExt:'' line then
       (let headers = words line; vs = words val_line in
        cli_netstat_lines ls
          (if length headers = length vs then
             foldl (\<lambda>(duplicate_acks, out_of_order_queued, zero_window_events) i.
               if headers ! i = ''TCPDuplicateAcks'' then (u64_or 0 (vs ! i), out_of_order_queued, zero_window_events)
               else if headers ! i = ''TCPOFOQueue'' then (duplicate_acks, u64_or 0 (vs ! i), zero_window_events)
               else if headers ! i \<in> {''TCPWantZeroWindowAdv'', ''TCPRcvPruned''} then
                 (duplicate_acks, out_of_order_queued, zero_window_events + u64_or 0 (vs ! i))
               else (duplicate_acks, out_of_order_queued, zero_window_events)) s [0..<length headers]
           else s))
     else cli_netstat_lines (val_line # ls) s)"
| "cli_netstat_lines _ s = s"

definition cli_proc_net_netstat :: "proc_fs \<Rightarrow> u64 \<times> u64 \<times> u64" where
  "cli_proc_net_netstat p = cli_netstat_lines (proc_lines p ''/proc/net/netstat'') (0, 0, 0)"

text \<open>As in the file server, eight columns are asked for and ten read: \<open>None\<close> is the panic of the index.\<close>

fun cli_dev_lines :: "string list \<Rightarrow> u64 \<Rightarrow> u64 \<Rightarrow> u64 \<Rightarrow> u64 \<Rightarrow> (u64 \<times> u64 \<times> u64 \<times> u64) option" where
  "cli_dev_lines [] rx_bytes rx_packets tx_bytes tx_packets = Some (rx_bytes, rx_packets, tx_bytes, tx_packets)"
| "cli_dev_lines (line # ls) rx_bytes rx_packets tx_bytes tx_packets =
    (if CHR '':'' \<notin> set line then cli_dev_lines ls rx_bytes rx_packets tx_bytes tx_packets
     else
       (let parts = str_split (CHR '':'') line; stats = words (parts ! 1) in
        if trim (parts ! 0) = ''lo'' \<or> length stats < 8 then cli_dev_lines ls rx_bytes rx_packets tx_bytes tx_packets
        else if length stats < 10 then None
        else cli_dev_lines ls (rx_bytes + u64_or 0 (stats ! 0)) (rx_packets + u64_or 0 (stats ! 1))
               (tx_bytes + u64_or 0 (stats ! 8)) (tx_packets + u64_or 0 (stats ! 9))))"

definition cli_proc_net_dev :: "proc_fs \<Rightarrow> (u64 \<times> u64 \<times> u64 \<times> u64) option" where
  "cli_proc_net_dev p = cli_dev_lines (proc_lines p ''/proc/net/dev'') 0 0 0 0"

definition cli_rtt :: "rounding \<Rightarrow> string \<Rightarrow> fl" where
  "cli_rtt rnd info_line =
    (case str_find ''rtt:'' info_line of
       None \<Rightarrow> rnd (1 / 10)
     | Some i \<Rightarrow>
         (let rtt_str = (case words (drop (i + 4) info_line) of w # _ \<Rightarrow> w | [] \<Rightarrow> []);
              number = (if CHR ''/'' \<in> set rtt_str then hd (str_split (CHR ''/'') rtt_str) else rtt_str) in
          (case parse_f64 rnd number of Some v \<Rightarrow> v | None \<Rightarrow> rnd (1 / 10))))"

text \<open>The word after a name, as a number.\<close>

definition cli_word_after :: "string \<Rightarrow> u64 \<Rightarrow> string \<Rightarrow> u64 option" where
  "cli_word_after name def info_line =
    map_option (\<lambda>i. u64_or def (case words (drop (i + length name) info_line) of w # _ \<Rightarrow> w | [] \<Rightarrow> [])) (str_find name info_line)"

text \<open>The record of defaults, overwritten by what the line has.\<close>

definition cli_ss_info :: "rounding \<Rightarrow> u64 \<Rightarrow> u64 \<Rightarrow> string \<Rightarrow> socket_tcp_info" where
  "cli_ss_info rnd recv_q send_q info_line =
    (let info = \<lparr>sti_rtt_ms = rnd (1 / 10), sti_cwnd = 10, sti_rcv_space = 14600, sti_recv_q = recv_q, sti_send_q = send_q\<rparr>;
         info = info\<lparr>sti_rtt_ms := cli_rtt rnd info_line\<rparr>;
         info = (case cli_word_after ''cwnd:'' 10 info_line of Some n \<Rightarrow> info\<lparr>sti_cwnd := n\<rparr> | None \<Rightarrow> info) in
     case cli_word_after ''rcvspace:'' 14600 info_line of
       Some n \<Rightarrow> info\<lparr>sti_rcv_space := n\<rparr>
     | None \<Rightarrow> (case cli_word_after ''rcv_space:'' 14600 info_line of
         Some n \<Rightarrow> info\<lparr>sti_rcv_space := n\<rparr> | None \<Rightarrow> info))"

fun cli_ss_lines :: "rounding \<Rightarrow> string \<Rightarrow> string list \<Rightarrow> socket_tcp_info option" where
  "cli_ss_lines rnd port_str [] = None"
| "cli_ss_lines rnd port_str (line # ls) =
    (let parts = words line in
     if \<not> contains line port_str \<or> length parts < 5 then cli_ss_lines rnd port_str ls
     else
       (case ls of
          [] \<Rightarrow> None
        | info_line # _ \<Rightarrow> Some (cli_ss_info rnd (u64_or 0 (parts ! 1)) (u64_or 0 (parts ! 2)) info_line)))"

definition cli_ss_connection :: "rounding \<Rightarrow> u16 \<Rightarrow> (bool \<times> bytes) option \<Rightarrow> socket_tcp_info option" where
  "cli_ss_connection rnd port run =
    (case run of
       None \<Rightarrow> None
     | Some (success, stdout) \<Rightarrow>
         if \<not> success then None
         else cli_ss_lines rnd (CHR '':'' # show_nat (unat port)) (str_lines (from_utf8_lossy stdout)))"

section \<open>Storage and memory\<close>

definition cli_self_io :: "proc_fs \<Rightarrow> u64 \<times> u64 \<times> u64" where
  "cli_self_io p = foldl (\<lambda>(syscw, wchar, write_bytes) line.
     if prefix ''syscw:'' line then (second_u64 line, wchar, write_bytes)
     else if prefix ''wchar:'' line then (syscw, second_u64 line, write_bytes)
     else if prefix ''write_bytes:'' line then (syscw, wchar, second_u64 line)
     else (syscw, wchar, write_bytes)) (0, 0, 0) (proc_lines p ''/proc/self/io'')"

definition cli_meminfo_fs :: "proc_fs \<Rightarrow> u64 \<times> u64 \<times> u64" where
  "cli_meminfo_fs p =
    (let (dirty, writeback, cached, buffers) = foldl (\<lambda>(dirty, writeback, cached, buffers) line.
       if prefix ''Dirty:'' line then (second_u64 line, writeback, cached, buffers)
       else if prefix ''Writeback:'' line then (dirty, second_u64 line, cached, buffers)
       else if prefix ''Cached:'' line then (dirty, writeback, second_u64 line, buffers)
       else if prefix ''Buffers:'' line then (dirty, writeback, cached, second_u64 line)
       else (dirty, writeback, cached, buffers)) (0, 0, 0, 0) (proc_lines p ''/proc/meminfo'') in
     (dirty, writeback, cached + buffers))"

text \<open>The loops that stop at their first line.\<close>

fun cli_nr_written :: "string list \<Rightarrow> u64" where
  "cli_nr_written [] = 0"
| "cli_nr_written (line # ls) = (if prefix ''nr_written '' line then second_u64 line else cli_nr_written ls)"

definition cli_vmstat_fs :: "proc_fs \<Rightarrow> u64" where
  "cli_vmstat_fs p = cli_nr_written (proc_lines p ''/proc/vmstat'')"

definition cli_memory_stats :: "proc_fs \<Rightarrow> u64 \<times> u64 \<times> u64 \<times> u64 \<times> u64 \<times> u64 \<times> u64" where
  "cli_memory_stats p =
    (let (heap, anon, mapped, rss, vsz) = foldl (\<lambda>(heap, anon, mapped, rss, vsz) line.
           if prefix ''VmData:'' line then (second_u64 line * 1024, anon, mapped, rss, vsz)
           else if prefix ''RssAnon:'' line then (heap, second_u64 line * 1024, mapped, rss, vsz)
           else if prefix ''RssFile:'' line then (heap, anon, second_u64 line * 1024, rss, vsz)
           else if prefix ''VmRSS:'' line then (heap, anon, mapped, second_u64 line * 1024, vsz)
           else if prefix ''VmSize:'' line then (heap, anon, mapped, rss, second_u64 line * 1024)
           else (heap, anon, mapped, rss, vsz)) (0, 0, 0, 0, 0) (proc_lines p ''/proc/self/status'');
         (minor, major) = (case p ''/proc/self/stat'' of
             None \<Rightarrow> (0, 0)
           | Some stat \<Rightarrow> (case after_last (CHR '')'') stat of
               None \<Rightarrow> (0, 0)
             | Some after_paren \<Rightarrow>
                 (let parts = words after_paren in
                  if length parts > 9 then (u64_or 0 (parts ! 7), u64_or 0 (parts ! 9)) else (0, 0)))) in
     (vsz, rss, heap, anon, mapped, minor, major))"

definition cli_map_line :: "u64 \<Rightarrow> string \<Rightarrow> u64" where
  "cli_map_line pages line =
    (let parts = words line in
     if length parts \<ge> 1 then
       (let ends = str_split (CHR ''-'') (parts ! 0) in
        if length ends = 2 then
          (case parse_hex_u64 (ends ! 0) of
             None \<Rightarrow> pages
           | Some lo \<Rightarrow> (case parse_hex_u64 (ends ! 1) of None \<Rightarrow> pages | Some hi \<Rightarrow> pages + sat_sub hi lo div 4096))
        else pages)
     else pages)"

definition cli_maps_pages :: "proc_fs \<Rightarrow> u64" where
  "cli_maps_pages p = foldl cli_map_line 0 (proc_lines p ''/proc/self/maps'')"

section \<open>Scheduler\<close>

definition cli_status_switches :: "proc_fs \<Rightarrow> u64 \<times> u64" where
  "cli_status_switches p = foldl (\<lambda>(voluntary, involuntary) line.
     if prefix ''voluntary_ctxt_switches:'' line then (second_u64 line, involuntary)
     else if prefix ''nonvoluntary_ctxt_switches:'' line then (voluntary, second_u64 line)
     else (voluntary, involuntary)) (0, 0) (proc_lines p ''/proc/self/status'')"

fun cli_migrations :: "string list \<Rightarrow> u64 \<Rightarrow> u64" where
  "cli_migrations [] m = m"
| "cli_migrations (line # ls) m =
    (if contains line ''nr_migrations'' \<and> 1 < length (str_split (CHR '':'') line)
     then cli_migrations ls (u64_or 0 (trim (str_split (CHR '':'') line ! 1))) else cli_migrations ls m)"

definition cli_sched_migrations :: "proc_fs \<Rightarrow> u64" where
  "cli_sched_migrations p = cli_migrations (proc_lines p ''/proc/self/sched'') 0"

fun cli_wait_sum :: "rounding \<Rightarrow> string list \<Rightarrow> u64" where
  "cli_wait_sum rnd [] = 0"
| "cli_wait_sum rnd (line # ls) =
    (let columns = str_split (CHR '':'') line;
         v = (if length columns > 1 then parse_f64 rnd (trim (columns ! 1)) else None) in
     if (contains line ''se.statistics.wait_sum'' \<or> contains line ''wait_sum'') \<and> v \<noteq> None
     then fl_as_u64 (fl_mul rnd (the v) (Fin 1000000)) else cli_wait_sum rnd ls)"

definition cli_sched_latency :: "rounding \<Rightarrow> proc_fs \<Rightarrow> u64" where
  "cli_sched_latency rnd p =
    (let from_sched = cli_wait_sum rnd (proc_lines p ''/proc/self/sched'') in
     case p ''/proc/self/schedstat'' of
       None \<Rightarrow> from_sched
     | Some content \<Rightarrow>
         (let parts = words content in
          if length parts \<ge> 2 then (case parse_u64 (parts ! 1) of Some ns \<Rightarrow> ns | None \<Rightarrow> from_sched) else from_sched))"

fun cli_procs_running :: "string list \<Rightarrow> u64" where
  "cli_procs_running [] = 0"
| "cli_procs_running (line # ls) = (if prefix ''procs_running '' line then second_u64 line else cli_procs_running ls)"

definition cli_run_queue_length :: "proc_fs \<Rightarrow> u64" where
  "cli_run_queue_length p = cli_procs_running (proc_lines p ''/proc/stat'')"

section \<open>The metrics before and after\<close>

fun cli_interrupts :: "string list \<Rightarrow> u64" where
  "cli_interrupts [] = 0"
| "cli_interrupts (line # ls) = (if prefix ''intr '' line then second_u64 line else cli_interrupts ls)"

definition cli_cpu_stats :: "string list \<Rightarrow> cpu_ticks" where
  "cli_cpu_stats ls =
    (let zero = \<lparr>ct_user = 0, ct_nice = 0, ct_system = 0, ct_idle = 0, ct_iowait = 0, ct_irq = 0, ct_softirq = 0, ct_steal = 0\<rparr> in
     if ls = [] then zero
     else
       (let parts = words (hd ls) in
        if length parts > 8 then
          \<lparr>ct_user = u64_or 0 (parts ! 1), ct_nice = u64_or 0 (parts ! 2), ct_system = u64_or 0 (parts ! 3),
           ct_idle = u64_or 0 (parts ! 4), ct_iowait = u64_or 0 (parts ! 5), ct_irq = u64_or 0 (parts ! 6),
           ct_softirq = u64_or 0 (parts ! 7), ct_steal = u64_or 0 (parts ! 8)\<rparr>
        else zero))"

text \<open>The flag is \<^verbatim>\<open>cfg(target_os = "linux")\<close>. The code opens each file once and defaults to the empty text.\<close>

definition cli_linux_metrics :: "bool \<Rightarrow> proc_fs \<Rightarrow> linux_metrics" where
  "cli_linux_metrics linux p =
    (if linux then
       (let content = (\<lambda>path. case p path of Some s \<Rightarrow> s | None \<Rightarrow> []);
            stat = content ''/proc/self/stat''; status = content ''/proc/self/status''; io = content ''/proc/self/io'';
            sched = content ''/proc/self/sched''; proc_stat = content ''/proc/stat''; meminfo = content ''/proc/meminfo'';
            softirqs = content ''/proc/softirqs''; interrupts = content ''/proc/interrupts'';
            (minor, major) = (case after_last (CHR '')'') stat of
                None \<Rightarrow> (0, 0)
              | Some after_paren \<Rightarrow>
                  (let parts = words after_paren in
                   if length parts > 9 then (u64_or 0 (parts ! 7), u64_or 0 (parts ! 9)) else (0, 0)));
            (vol, invol) = foldl (\<lambda>(v, i) line.
                if prefix ''voluntary_ctxt_switches:'' line then (second_u64 line, i)
                else if prefix ''nonvoluntary_ctxt_switches:'' line then (v, second_u64 line) else (v, i))
              (0, 0) (str_lines status);
            (rd, wr) = foldl (\<lambda>(rd, wr) line.
                if prefix ''read_bytes:'' line then (second_u64 line, wr)
                else if prefix ''write_bytes:'' line then (rd, second_u64 line) else (rd, wr))
              (0, 0) (str_lines io) in
        \<lparr>lm_raw = [stat, status, io, sched, proc_stat, meminfo, softirqs, interrupts],
         lm_minor_faults = minor, lm_major_faults = major, lm_voluntary = vol, lm_involuntary = invol,
         lm_bytes_read = rd, lm_bytes_written = wr, lm_cpu_migrations = cli_migrations (str_lines sched) 0,
         lm_cpu = cli_cpu_stats (str_lines proc_stat), lm_interrupts = cli_interrupts (str_lines proc_stat)\<rparr>)
     else
       \<lparr>lm_raw = [[], [], [], [], [], [], [], []], lm_minor_faults = 0, lm_major_faults = 0, lm_voluntary = 0,
        lm_involuntary = 0, lm_bytes_read = 0, lm_bytes_written = 0, lm_cpu_migrations = 0, lm_cpu = cli_cpu_stats [],
        lm_interrupts = 0\<rparr>)"

section \<open>Hardware\<close>

text \<open>Total and number of the readable frequencies.\<close>

definition cli_frequencies :: "proc_fs \<Rightarrow> u64 \<times> u64" where
  "cli_frequencies p = foldl (\<lambda>(total_khz, cpus) i.
     case p (''/sys/devices/system/cpu/cpu'' @ show_nat i @ ''/cpufreq/scaling_cur_freq'') of
       None \<Rightarrow> (total_khz, cpus)
     | Some content \<Rightarrow>
         (case parse_u64 (trim content) of Some freq \<Rightarrow> (total_khz + freq, cpus + 1) | None \<Rightarrow> (total_khz, cpus))) (0, 0) [0..<32]"

definition cli_cpu_freq_mhz :: "rounding \<Rightarrow> proc_fs \<Rightarrow> fl" where
  "cli_cpu_freq_mhz rnd p =
    (let (total_khz, cpus) = cli_frequencies p in
     if 0 < cpus then fl_div rnd (fl_div rnd (fl_of_u64 rnd total_khz) (fl_of_u64 rnd cpus)) (Fin 1000)
     else (case p ''/sys/devices/system/cpu/cpu0/cpufreq/cpuinfo_cur_freq'' of
         None \<Rightarrow> Fin 1500
       | Some s \<Rightarrow> (case parse_u64 (trim s) of Some v \<Rightarrow> fl_div rnd (fl_of_u64 rnd v) (Fin 1000) | None \<Rightarrow> Fin 1500)))"

definition cli_max_temp :: "rounding \<Rightarrow> proc_fs \<Rightarrow> fl" where
  "cli_max_temp rnd p =
    (let max_temp = foldl (\<lambda>max_temp i.
       case p (''/sys/class/thermal/thermal_zone'' @ show_nat i @ ''/temp'') of
         None \<Rightarrow> max_temp
       | Some content \<Rightarrow>
           (case parse_f64 rnd (trim content) of
              None \<Rightarrow> max_temp
            | Some t \<Rightarrow>
                (let temp = (if fl_less (Fin 1000) t then fl_div rnd t (Fin 1000) else t) in
                 if fl_less max_temp temp then temp else max_temp))) (Fin 0) [0..<20] in
     if max_temp = Fin 0 then Fin 32 else max_temp)"

definition cli_throttling :: "rounding \<Rightarrow> proc_fs \<Rightarrow> u64" where
  "cli_throttling rnd p =
    (let cooling = list_ex (\<lambda>i.
       case p (''/sys/class/thermal/cooling_device'' @ show_nat i @ ''/cur_state'') of
         None \<Rightarrow> False
       | Some content \<Rightarrow> (case parse_u64 (trim content) of Some state \<Rightarrow> 0 < state | None \<Rightarrow> False)) [0..<20];
         throttling = (if cooling then 1 else 0) in
     if fl_less (Fin 75) (cli_max_temp rnd p) then 1 else throttling)"

definition cli_linux_hardware :: "rounding \<Rightarrow> proc_fs \<Rightarrow> hw_metrics" where
  "cli_linux_hardware rnd p =
    (let governor = (case p ''/sys/devices/system/cpu/cpu0/cpufreq/scaling_governor'' of Some s \<Rightarrow> s | None \<Rightarrow> ''unknown'');
         battery = (case p ''/sys/class/power_supply/battery/temp'' of
             None \<Rightarrow> Fin 28
           | Some s \<Rightarrow> (case parse_f64 rnd (trim s) of Some t \<Rightarrow> fl_div rnd t (Fin 10) | None \<Rightarrow> Fin 28));
         scaling = (case p ''/sys/devices/system/cpu/cpu0/cpufreq/scaling_max_freq'' of
             None \<Rightarrow> Fin 100
           | Some s \<Rightarrow> (case parse_f64 rnd (trim s) of
               None \<Rightarrow> Fin 100
             | Some max_freq \<Rightarrow>
                 if fl_less (Fin 0) max_freq
                 then fl_mul rnd (fl_div rnd (fl_mul rnd (cli_cpu_freq_mhz rnd p) (Fin 1000)) max_freq) (Fin 100) else Fin 100)) in
     \<lparr>hw_cpu_freq_mhz = cli_cpu_freq_mhz rnd p, hw_cpu_governor = trim governor, hw_battery_temp_c = battery,
      hw_soc_temp_c = cli_max_temp rnd p, hw_thermal_throttle = cli_throttling rnd p,
      hw_cpu_scaling_pct = fl_min scaling (Fin 100)\<rparr>)"

section \<open>The copies read alike\<close>

named_theorems cli_reader_eqs

lemma foldl_zip_nth:
  "length xs = length ys \<Longrightarrow> foldl f s (zip xs ys) = foldl (\<lambda>s i. f s (xs ! i, ys ! i)) s [0..<length xs]"
proof -
  assume l: "length xs = length ys"
  have "zip xs ys = map (\<lambda>i. (xs ! i, ys ! i)) [0..<length xs]" using l by (intro nth_equalityI) simp_all
  then show ?thesis by (simp add: foldl_map)
qed

lemma foldl_image: "(\<And>s x. h (f s x) = g (h s) x) \<Longrightarrow> h (foldl f s xs) = foldl g (h s) xs"
  by (induction xs arbitrary: s) simp_all

lemma foldl_map_filter:
  "foldl g s (List.map_filter f xs) = foldl (\<lambda>s x. case f x of Some y \<Rightarrow> g s y | None \<Rightarrow> s) s xs"
  by (induction xs arbitrary: s) (simp_all add: List.map_filter_simps split: option.split)

lemma cli_snmp_lines_eq: "cli_snmp_lines ls s = table_loop ''Tcp:'' tcp_value ls s"
proof (induction ls s rule: cli_snmp_lines.induct)
  case (1 l v ls s)
  have f: "(\<lambda>(a, b, c) i. if words l ! i = ''InSegs'' then (u64_or 0 (words v ! i), b, c)
       else if words l ! i = ''OutSegs'' then (a, u64_or 0 (words v ! i), c)
       else if words l ! i = ''RetransSegs'' then (a, b, u64_or 0 (words v ! i)) else (a, b, c))
     = (\<lambda>s i. tcp_value s (words l ! i, words v ! i))"
    by (auto simp: fun_eq_iff)
  show ?case using 1 by (simp add: f Let_def foldl_zip_nth del: cli_snmp_lines.simps add: cli_snmp_lines.simps(1))
qed auto

lemma cli_netstat_lines_eq: "cli_netstat_lines ls s = table_loop ''TcpExt:'' tcp_ext_value ls s"
proof (induction ls s rule: cli_netstat_lines.induct)
  case (1 l v ls s)
  have f: "(\<lambda>(a, b, c) i. if words l ! i = ''TCPDuplicateAcks'' then (u64_or 0 (words v ! i), b, c)
       else if words l ! i = ''TCPOFOQueue'' then (a, u64_or 0 (words v ! i), c)
       else if words l ! i \<in> {''TCPWantZeroWindowAdv'', ''TCPRcvPruned''} then (a, b, c + u64_or 0 (words v ! i)) else (a, b, c))
     = (\<lambda>s i. tcp_ext_value s (words l ! i, words v ! i))"
    by (auto simp: fun_eq_iff)
  show ?case using 1 by (simp add: f Let_def foldl_zip_nth del: cli_netstat_lines.simps insert_iff add: cli_netstat_lines.simps(1))
qed auto

lemma cli_net_tables [cli_reader_eqs]:
  "cli_proc_net_snmp = parse_proc_net_snmp" "cli_proc_net_netstat = parse_proc_net_netstat"
  by (simp_all add: fun_eq_iff cli_proc_net_snmp_def parse_proc_net_snmp_def cli_proc_net_netstat_def parse_proc_net_netstat_def
      cli_snmp_lines_eq cli_netstat_lines_eq)

lemma cli_dev_lines_eq: "cli_dev_lines ls a b c d = dev_loop ls (a, b, c, d)"
  by (induction ls arbitrary: a b c d) (simp_all add: dev_line_def Let_def)

lemma cli_proc_net_dev_eq [cli_reader_eqs]: "cli_proc_net_dev = parse_proc_net_dev"
  by (simp add: fun_eq_iff cli_proc_net_dev_def parse_proc_net_dev_def cli_dev_lines_eq)

lemma cli_words_after:
  "cli_word_after ''cwnd:'' d l = map_option (\<lambda>i. u64_or d (word_at (i + 5) l)) (str_find ''cwnd:'' l)"
  "cli_word_after ''rcvspace:'' d l = map_option (\<lambda>i. u64_or d (word_at (i + 9) l)) (str_find ''rcvspace:'' l)"
  "cli_word_after ''rcv_space:'' d l = map_option (\<lambda>i. u64_or d (word_at (i + 10) l)) (str_find ''rcv_space:'' l)"
  by (simp_all add: cli_word_after_def word_at_def eval_nat_numeral)

lemma cli_ss_info_eq: "cli_ss_info rnd q r l = ss_info rnd q r l"
proof -
  have t: "sti_rtt_ms (ss_info rnd q r l) = cli_rtt rnd l"
    by (simp add: cli_rtt_def ss_info_def word_at_def f64_or_def Let_def cong: option.case_cong)
  show ?thesis
    using t unfolding cli_ss_info_def ss_info_def cli_words_after
    by (cases "str_find ''cwnd:'' l"; cases "str_find ''rcvspace:'' l"; cases "str_find ''rcv_space:'' l") simp_all
qed

lemma cli_ss_lines_eq: "cli_ss_lines rnd s ls = ss_loop rnd s ls"
  by (induction ls) (auto simp: Let_def cli_ss_info_eq split: list.split)

lemma cli_ss_connection_eq [cli_reader_eqs]: "cli_ss_connection = parse_ss_connection"
  by (intro ext) (simp add: cli_ss_connection_def parse_ss_connection_def cli_ss_lines_eq split: option.split bool.split)

text \<open>A loop over a tuple keeps the components that the loop over the list of values has.\<close>

lemma key_values_2:
  "foldl (\<lambda>(a, b) l. if prefix k l then (second_u64 l, b) else if prefix k' l then (a, second_u64 l) else (a, b)) (a, b) ls
    = (let v = foldl (key_value [k, k']) [a, b] ls in (v ! 0, v ! 1))"
  by (induction ls arbitrary: a b) simp_all

lemma key_values_3:
  "foldl (\<lambda>(a, b, c) l. if prefix k l then (second_u64 l, b, c) else if prefix k' l then (a, second_u64 l, c)
      else if prefix k'' l then (a, b, second_u64 l) else (a, b, c)) (a, b, c) ls
    = (let v = foldl (key_value [k, k', k'']) [a, b, c] ls in (v ! 0, v ! 1, v ! 2))"
  by (induction ls arbitrary: a b c) simp_all

lemma key_values_4:
  "foldl (\<lambda>(a, b, c, d) l. if prefix k1 l then (second_u64 l, b, c, d) else if prefix k2 l then (a, second_u64 l, c, d)
      else if prefix k3 l then (a, b, second_u64 l, d) else if prefix k4 l then (a, b, c, second_u64 l) else (a, b, c, d)) (a, b, c, d) ls
    = (let v = foldl (key_value [k1, k2, k3, k4]) [a, b, c, d] ls in (v ! 0, v ! 1, v ! 2, v ! 3))"
  by (induction ls arbitrary: a b c d) simp_all

lemma key_values_5:
  "foldl (\<lambda>(a, b, c, d, e) l. if prefix k1 l then (second_u64 l * n, b, c, d, e) else if prefix k2 l then (a, second_u64 l * n, c, d, e)
      else if prefix k3 l then (a, b, second_u64 l * n, d, e) else if prefix k4 l then (a, b, c, second_u64 l * n, e)
      else if prefix k5 l then (a, b, c, d, second_u64 l * n) else (a, b, c, d, e)) (a * n, b * n, c * n, d * n, e * n) ls
    = (let v = map (\<lambda>x. x * n) (foldl (key_value [k1, k2, k3, k4, k5]) [a, b, c, d, e] ls) in (v ! 0, v ! 1, v ! 2, v ! 3, v ! 4))"
  by (induction ls arbitrary: a b c d e) simp_all

lemma cli_status_switches_eq [cli_reader_eqs]: "cli_status_switches = parse_self_status_switches"
  by (intro ext) (simp add: cli_status_switches_def parse_self_status_switches_def key_values_def key_values_2 numeral_2_eq_2)

lemma cli_self_io_eq [cli_reader_eqs]: "cli_self_io = parse_self_io"
  by (intro ext) (simp add: cli_self_io_def parse_self_io_def key_values_def key_values_3 numeral_3_eq_3)
lemma cli_meminfo_fs_eq [cli_reader_eqs]: "cli_meminfo_fs = parse_meminfo_fs"
  by (intro ext) (simp add: cli_meminfo_fs_def parse_meminfo_fs_def key_values_def key_values_4 eval_nat_numeral Let_def)

lemma cli_stat_faults:
  "(case x of None \<Rightarrow> (0, 0) | Some s \<Rightarrow> (case after_last (CHR '')'') s of None \<Rightarrow> (0, 0)
     | Some r \<Rightarrow> (let ps = words r in if length ps > 9 then (u64_or 0 (ps ! 7), u64_or 0 (ps ! 9)) else (0, 0)))) = stat_faults x"
  by (simp add: stat_faults_def stat_words_def Let_def split: option.split)

lemma cli_memory_stats_eq [cli_reader_eqs]: "cli_memory_stats = parse_self_memory_stats"
proof
  fix p
  show "cli_memory_stats p = parse_self_memory_stats p"
    using key_values_5 [of "''VmData:''" 1024 "''RssAnon:''" "''RssFile:''" "''VmRSS:''" "''VmSize:''" 0 0 0 0 0 "proc_lines p ''/proc/self/status''"]
    unfolding cli_memory_stats_def parse_self_memory_stats_def cli_stat_faults
    by (simp add: key_values_def Let_def eval_nat_numeral split: prod.split)
qed

lemma cli_first_value:
  "cli_nr_written ls = first_value ''nr_written '' ls" "cli_procs_running ls = first_value ''procs_running '' ls"
  "cli_interrupts ls = first_value ''intr '' ls"
  by (induction ls) (simp_all add: first_value_def)

lemma cli_first_values [cli_reader_eqs]: "cli_vmstat_fs = parse_vmstat_fs" "cli_run_queue_length = parse_run_queue_length"
  by (simp_all add: fun_eq_iff cli_vmstat_fs_def parse_vmstat_fs_def cli_run_queue_length_def parse_run_queue_length_def cli_first_value)

lemma cli_map_line_eq: "cli_map_line = (\<lambda>n l. n + map_pages l)"
proof (intro ext)
  fix n l
  show "cli_map_line n l = n + map_pages l"
    by (cases "words l") (auto simp: cli_map_line_def map_pages_def Let_def length_Suc_conv numeral_2_eq_2 split: list.split option.split)
qed

lemma cli_maps_pages_eq [cli_reader_eqs]: "cli_maps_pages = parse_self_maps_pages"
  by (simp add: fun_eq_iff cli_maps_pages_def parse_self_maps_pages_def cli_map_line_eq)

lemma cli_migrations_eq:
  "cli_migrations ls m = foldl (\<lambda>m line.
     if contains line ''nr_migrations'' then
       (case after_colon line of Some v \<Rightarrow> u64_or 0 (trim v) | None \<Rightarrow> m)
     else m) m ls"
  by (induction ls arbitrary: m) (simp_all add: after_colon_def nth_opt_def)

lemma cli_sched_migrations_eq [cli_reader_eqs]: "cli_sched_migrations = parse_self_sched_migrations"
  by (simp add: fun_eq_iff cli_sched_migrations_def parse_self_sched_migrations_def migrations_def cli_migrations_eq)

lemma cli_wait_sum_eq: "cli_wait_sum rnd ls = wait_sum_loop rnd ls"
  by (induction ls) (auto simp: after_colon_def nth_opt_def Let_def split: option.split)

lemma cli_sched_latency_eq [cli_reader_eqs]: "cli_sched_latency = parse_sched_latency"
  by (intro ext)
    (auto simp: cli_sched_latency_def parse_sched_latency_def cli_wait_sum_eq nth_opt_def Let_def split: option.split)

lemma cli_cpu_stats_eq: "cli_cpu_stats ls = tick_line ls"
  by (cases ls) (simp_all add: cli_cpu_stats_def tick_line_def no_ticks_def Let_def)

lemma cli_linux_metrics_eq [cli_reader_eqs]: "cli_linux_metrics = collect_linux_metrics"
proof (intro ext)
  fix linux p
  have c: "str_lines (text_or_empty p f) = proc_lines p f" for f
    by (simp add: text_or_empty_def proc_lines_def str_lines_def split: option.split)
  have s: "stat_faults (Some x) = (case after_last (CHR '')'') x of None \<Rightarrow> (0, 0)
     | Some r \<Rightarrow> (let ps = words r in if length ps > 9 then (u64_or 0 (ps ! 7), u64_or 0 (ps ! 9)) else (0, 0)))" for x
    using cli_stat_faults [of "Some x"] by simp
  show "cli_linux_metrics linux p = collect_linux_metrics linux p"
    unfolding cli_linux_metrics_def collect_linux_metrics_def text_or_empty_def [symmetric] Let_def c key_values_2 cli_stat_faults s
      parse_self_status_switches_def parse_self_sched_migrations_def key_values_def migrations_def cli_migrations_eq
      cli_cpu_stats_eq cli_first_value
    by (simp add: raw_files_def tick_line_def split: prod.split)
qed

text \<open>Hardware.\<close>

lemma numbered_fold:
  "foldl g s (numbered p f pre post n) =
    foldl (\<lambda>s i. case p (pre @ show_nat i @ post) of None \<Rightarrow> s
      | Some c \<Rightarrow> (case f (trim c) of Some y \<Rightarrow> g s y | None \<Rightarrow> s)) s [0..<n]"
  unfolding numbered_def foldl_map_filter by (rule foldl_cong) (auto split: option.split)

lemma sum_and_count: "foldl (\<lambda>(a, n) x. (a + x, n + 1)) (a, n) xs = (a + sum_list xs, n + of_nat (length xs) :: u64)"
  for a :: u64
  by (induction xs arbitrary: a n) (simp_all add: algebra_simps)

lemma cli_frequencies_eq:
  "cli_frequencies p = (let fs = numbered p parse_u64 ''/sys/devices/system/cpu/cpu'' ''/cpufreq/scaling_cur_freq'' 32 in
     (sum_list fs, of_nat (length fs)))"
proof -
  have "cli_frequencies p = foldl (\<lambda>(a, n) x. (a + x, n + 1)) (0, 0)
      (numbered p parse_u64 ''/sys/devices/system/cpu/cpu'' ''/cpufreq/scaling_cur_freq'' 32)"
    unfolding cli_frequencies_def numbered_fold by (intro foldl_cong refl) (auto split: option.split)
  then show ?thesis by (simp only: sum_and_count Let_def add_0_left)
qed

lemma cli_cpu_freq_mhz_eq: "cli_cpu_freq_mhz rnd p = cpu_frequency rnd p"
  by (simp add: cli_cpu_freq_mhz_def cpu_frequency_def cli_frequencies_eq Let_def split: option.split)

lemma cli_max_temp_eq: "cli_max_temp rnd p = soc_temperature rnd p"
  unfolding cli_max_temp_def soc_temperature_def numbered_fold by (simp add: Let_def cong: option.case_cong)

lemma list_ex_map_filter: "list_ex P (List.map_filter f xs) \<longleftrightarrow> list_ex (\<lambda>x. case f x of Some y \<Rightarrow> P y | None \<Rightarrow> False) xs"
  by (induction xs) (simp_all add: List.map_filter_simps split: option.split)

lemma cli_throttling_eq: "cli_throttling rnd p = throttled rnd p"
proof -
  have "list_ex (\<lambda>i. case p (''/sys/class/thermal/cooling_device'' @ show_nat i @ ''/cur_state'') of
         None \<Rightarrow> False
       | Some content \<Rightarrow> (case parse_u64 (trim content) of Some state \<Rightarrow> 0 < state | None \<Rightarrow> False)) [0..<20]
     = list_ex (\<lambda>s. s > 0) (numbered p parse_u64 ''/sys/class/thermal/cooling_device'' ''/cur_state'' 20)"
    unfolding numbered_def list_ex_map_filter by (intro list_ex_cong refl) (auto split: option.split)
  then show ?thesis by (simp only: cli_throttling_def throttled_def cli_max_temp_eq Let_def) simp
qed

lemma cli_linux_hardware_eq [cli_reader_eqs]: "cli_linux_hardware = collect_hardware_metrics"
  by (intro ext)
    (simp add: cli_linux_hardware_def collect_hardware_metrics_def cli_cpu_freq_mhz_eq cli_max_temp_eq cli_throttling_eq
      battery_temperature_def Let_def split: option.split)

end
