(* ===== verification/Sender_Metrics.thy ===== *)
theory Sender_Metrics
  imports Cli_Proc Cli_Classifier
begin

text \<open>
  The telemetry of the command line client (\<^verbatim>\<open>cli/src/observability.rs\<close>): the process and hardware figures and the
  task that takes a sample every 100 ms during a transfer, over the client's own readers of the kernel's files (theory \<open>Cli_Proc\<close>). The
  types are those of the file server's telemetry (\<open>Receiver_Metrics\<close>), the code is the client's. The figures of
  \<^verbatim>\<open>sysinfo\<close>, \<^verbatim>\<open>getrusage\<close>, the Mach and tokio calls and the random numbers are arguments.
\<close>

section \<open>Network and file system\<close>

text \<open>Away from Linux the figures are invented: constants that alternate with a counter of the process.\<close>

definition cli_network_metrics :: "bool \<Rightarrow> proc_fs \<Rightarrow> u64 \<Rightarrow> (net_metrics \<times> u64) option" where
  "cli_network_metrics linux p mock_counter =
    (if linux then
       map_option (\<lambda>d. (\<lparr>nm_segs = cli_proc_net_snmp p, nm_stat = cli_proc_net_netstat p, nm_dev = d\<rparr>, mock_counter))
         (cli_proc_net_dev p)
     else
       Some (if mock_counter mod 2 = 0
         then \<lparr>nm_segs = (50000, 45000, 120), nm_stat = (80, 15, 1), nm_dev = (1000000, 1000, 2000000, 2000)\<rparr>
         else \<lparr>nm_segs = (58000, 53000, 135), nm_stat = (98, 22, 2), nm_dev = (26000000, 18000, 52000000, 36000)\<rparr>,
         mock_counter + 1))"

definition cli_network_sample ::
  "bool \<Rightarrow> rounding \<Rightarrow> proc_fs \<Rightarrow> (bool \<times> bytes) option \<Rightarrow> u16 \<Rightarrow> u64 \<Rightarrow> net_sample option" where
  "cli_network_sample linux rnd p ss port elapsed_ms =
    (if linux then
       (let info = (case cli_ss_connection rnd port ss of Some i \<Rightarrow> i
           | None \<Rightarrow> \<lparr>sti_rtt_ms = rnd (1 / 10), sti_cwnd = 10, sti_rcv_space = 14600, sti_recv_q = 0, sti_send_q = 0\<rparr>) in
        map_option (\<lambda>(rxb, rxp, txb, txp).
          \<lparr>ns_info = info, ns_rx_bytes = rxb, ns_rx_packets = rxp, ns_tx_bytes = txb, ns_tx_packets = txp\<rparr>)
          (cli_proc_net_dev p))
     else
       (let progress = fl_min (fl_div rnd (fl_of_u64 rnd elapsed_ms) (Fin 3000)) (Fin 1);
            amount = (\<lambda>n. fl_as_u64 (fl_mul rnd progress (Fin n))) in
        Some \<lparr>ns_info = \<lparr>
            sti_rtt_ms = fl_add rnd (rnd (2 / 10)) (fl_mul rnd (fl_of_u64 rnd (elapsed_ms mod 1000)) (rnd (1 / 10000))),
            sti_cwnd = fl_as_u64 (fl_add rnd (Fin 40) (fl_mul rnd progress (Fin 80))), sti_rcv_space = 65536,
            sti_recv_q = 0, sti_send_q = (if fl_less progress (rnd (95 / 100)) then 16384 else 0)\<rparr>,
          ns_rx_bytes = amount 25000000, ns_rx_packets = amount 17000,
          ns_tx_bytes = amount 50000000, ns_tx_packets = amount 34000\<rparr>))"

definition cli_fs_sample :: "bool \<Rightarrow> proc_fs \<Rightarrow> u64 \<Rightarrow> fs_sample" where
  "cli_fs_sample linux p elapsed_ms =
    (if linux then
       (let (syscw, wchar, write_bytes) = cli_self_io p; (dirty, writeback, cache) = cli_meminfo_fs p in
        \<lparr>fss_syscw = syscw, fss_wchar = wchar, fss_write_bytes = write_bytes, fss_dirty_kb = dirty,
         fss_writeback_kb = writeback, fss_cache_kb = cache, fss_nr_written = cli_vmstat_fs p\<rparr>)
     else
       (let i = elapsed_ms div 100; k = i mod 15; flushing = k < 3; cycle = i div 15 in
        \<lparr>fss_syscw = i * 64, fss_wchar = i * 1024 * 1024,
         fss_write_bytes = cycle * 15 * 1024 * 1024 + (if flushing then k * 5 * 1024 * 1024 else 0),
         fss_dirty_kb = (if flushing then 15000 - k * 5000 else k * 1024),
         fss_writeback_kb = (if flushing then 16384 else 0),
         fss_cache_kb = 128 * 1024 + (i * 512) mod (1024 * 1024), fss_nr_written = cycle\<rparr>))"

section \<open>Hardware and process\<close>

text \<open>On Linux from the kernel's files; elsewhere a function of the processor share, and the thermal level where the system knows one.\<close>

definition cli_hardware_metrics :: "bool \<Rightarrow> rounding \<Rightarrow> proc_fs \<Rightarrow> int option \<Rightarrow> fl \<Rightarrow> hw_metrics" where
  "cli_hardware_metrics linux rnd p thermal_level cpu_pct =
    (if linux then cli_linux_hardware rnd p
     else
       (let freq = fl_add rnd (Fin 2400) (fl_min (fl_mul rnd cpu_pct (Fin 8)) (Fin 800));
            soc = fl_add rnd (Fin 35) (fl_min (fl_mul rnd cpu_pct (rnd (4 / 10))) (Fin 45)) in
        \<lparr>hw_cpu_freq_mhz = freq, hw_cpu_governor = ''dynamic'',
         hw_battery_temp_c = fl_add rnd (Fin 28) (fl_min (fl_mul rnd cpu_pct (rnd (1 / 10))) (Fin 10)),
         hw_soc_temp_c = soc,
         hw_thermal_throttle =
           (if fl_less (Fin 70) soc \<or> (case thermal_level of Some l \<Rightarrow> l > 0 | None \<Rightarrow> False) then 1 else 0),
         hw_cpu_scaling_pct = fl_mul rnd (fl_div rnd freq (Fin 3200)) (Fin 100)\<rparr>))"

text \<open>What a sample of the client reads besides: the process of \<^verbatim>\<open>sysinfo\<close> (share, resident and virtual size), user and system time in seconds and
  microseconds, the number of threads where the platform is macOS, the thermal level, the bytes transferred so far and whether
  the active mode is zero copy.\<close>

record benchmark_input = tick_input +
  si_process :: "(fl \<times> u64 \<times> u64) option"
  si_times :: "((int \<times> int) \<times> int \<times> int) option"
  si_mach_threads :: "u64 option option"
  si_thermal :: "int option"
  si_transferred :: u64
  si_zero_copy :: bool

definition time_secs :: "rounding \<Rightarrow> int \<times> int \<Rightarrow> fl" where
  "time_secs rnd t = fl_add rnd (rnd (of_int (fst t))) (fl_div rnd (rnd (of_int (snd t))) (Fin 1000000))"

definition sample_sender_metrics :: "rounding \<Rightarrow> benchmark_input \<Rightarrow> process_metrics" where
  "sample_sender_metrics rnd x =
    (let (cpu, rss, vsz) = (case si_process x of Some v \<Rightarrow> v | None \<Rightarrow> (Fin 0, 0, 0)) in
     \<lparr>pr_cpu_pct = cpu,
      pr_user_time_sec = (case si_times x of Some (u, _) \<Rightarrow> time_secs rnd u | None \<Rightarrow> Fin 0),
      pr_sys_time_sec = (case si_times x of Some (_, s) \<Rightarrow> time_secs rnd s | None \<Rightarrow> Fin 0),
      pr_rss_bytes = rss, pr_vsz_bytes = vsz,
      pr_thread_count = (case si_mach_threads x of
          Some n \<Rightarrow> (case n of Some k \<Rightarrow> k | None \<Rightarrow> 0)
        | None \<Rightarrow> thread_count (ti_proc x)),
      pr_open_fds = (case ti_fds x of Some n \<Rightarrow> n | None \<Rightarrow> 0)\<rparr>)"

section \<open>The sampling task\<close>

record sender_task =
  snd_bytes :: u64
  snd_marks :: sampler_task

text \<open>Polls and busy nanoseconds of all workers.\<close>

definition cli_workers :: "benchmark_input \<Rightarrow> u64 \<times> u64" where
  "cli_workers x = foldl (\<lambda>(polls, busy) w. (polls + fst w, busy + snd w)) (0, 0) (ti_workers x)"

text \<open>The marks before the first sample; nothing where a reader panics.\<close>

definition benchmark_start :: "sampler_flags \<Rightarrow> rounding \<Rightarrow> u16 \<Rightarrow> benchmark_input \<Rightarrow> sender_task option" where
  "benchmark_start fl rnd port x =
    (let p = ti_proc x; (_, rss, _, _, _, minor, major) = cli_memory_stats p in
     case cli_network_sample (sfl_linux fl) rnd p (ti_ss x) port 0 of
       None \<Rightarrow> None
     | Some ns \<Rightarrow>
         Some \<lparr>snd_bytes = 0, snd_marks = \<lparr>tk_port = port,
           tk_net_bytes = ns_rx_bytes ns + ns_tx_bytes ns, tk_net_packets = ns_rx_packets ns + ns_tx_packets ns,
           tk_polls = (if sfl_tokio_unstable fl then fst (cli_workers x) else 0),
           tk_busy_ns = (if sfl_tokio_unstable fl then snd (cli_workers x) else 0),
           tk_switches = (if sfl_linux fl then cli_status_switches p else (0, 0)),
           tk_migrations = (if sfl_linux fl then cli_sched_migrations p else 0),
           tk_latency_ns = (if sfl_linux fl then cli_sched_latency rnd p else 0),
           tk_base_rss = (if sfl_linux fl then rss else (case si_process x of Some (_, r, _) \<Rightarrow> r | None \<Rightarrow> 0)),
           tk_base_faults = (if sfl_linux fl then (minor, major)
             else (case ti_usage x of Some u \<Rightarrow> u | None \<Rightarrow> (0, 0)))\<rparr>\<rparr>)"

text \<open>The parts of a round, in the code's order: runtime, scheduler, waiting and memory.\<close>

definition cli_runtime :: "sampler_flags \<Rightarrow> rounding \<Rightarrow> benchmark_input \<Rightarrow> fl \<Rightarrow> sampler_task \<Rightarrow> runtime_sample \<times> sampler_task" where
  "cli_runtime fl rnd x cpu_pct t =
    (let (r, t') =
       (if sfl_tokio_unstable fl then
          (let num_workers = rnd (of_nat (length (ti_workers x))); (current_polls, current_busy_ns) = cli_workers x;
               delta_polls = sat_sub current_polls (tk_polls t); delta_busy_ns = sat_sub current_busy_ns (tk_busy_ns t);
               active = fl_min (fl_div rnd (fl_of_u64 rnd delta_busy_ns) (Fin 100000000)) num_workers in
           (\<lparr>rs_active = active, rs_idle = fl_max (fl_sub rnd num_workers active) (Fin 0), rs_polls = delta_polls,
             rs_poll_us = (if 0 < delta_polls
               then fl_div rnd (fl_div rnd (fl_of_u64 rnd delta_busy_ns) (Fin 1000)) (fl_of_u64 rnd delta_polls) else Fin 0),
             rs_wakeups = 0, rs_blocking = sat_sub (fst (ti_blocking x)) (snd (ti_blocking x))\<rparr>,
            t\<lparr>tk_polls := current_polls, tk_busy_ns := current_busy_ns\<rparr>))
        else
          (let cpu_fraction = fl_min (fl_div rnd cpu_pct (Fin 100)) (Fin 4);
               poll_count = fl_as_u64 (fl_mul rnd cpu_fraction (Fin 120)) in
           (\<lparr>rs_active = cpu_fraction, rs_idle = fl_sub rnd (Fin 4) cpu_fraction, rs_polls = poll_count,
             rs_poll_us = (if 0 < poll_count then fl_add rnd (Fin 250) (fl_mul rnd (ti_random x 0) (Fin 50)) else Fin 0),
             rs_wakeups = 0, rs_blocking = 0\<rparr>, t)));
         waker_est = rs_polls r + (if 0 < rs_polls r
           then fl_as_u64 (fl_mul rnd (ti_random x 1) (fl_mul rnd (fl_of_u64 rnd (rs_polls r)) (rnd (15 / 100)))) else 0) in
     (r\<lparr>rs_wakeups := waker_est\<rparr>, t'))"

definition cli_scheduler ::
  "sampler_flags \<Rightarrow> rounding \<Rightarrow> benchmark_input \<Rightarrow> process_metrics \<Rightarrow> fl \<Rightarrow> sampler_task \<Rightarrow> sched_sample \<times> sampler_task" where
  "cli_scheduler fl rnd x metrics active_workers t =
    (if sfl_linux fl then
       (let (v_sw, inv_sw) = cli_status_switches (ti_proc x);
            delta_v = sat_sub v_sw (fst (tk_switches t)); delta_inv = sat_sub inv_sw (snd (tk_switches t));
            t = t\<lparr>tk_switches := (v_sw, inv_sw)\<rparr>;
            mig = cli_sched_migrations (ti_proc x); delta_mig = sat_sub mig (tk_migrations t);
            t = t\<lparr>tk_migrations := mig\<rparr>;
            lat_ns = cli_sched_latency rnd (ti_proc x); delta_lat_ns = sat_sub lat_ns (tk_latency_ns t);
            t = t\<lparr>tk_latency_ns := lat_ns\<rparr> in
        (\<lparr>ss_switches = delta_v + delta_inv, ss_migrations = delta_mig,
          ss_latency_ms = fl_div rnd (fl_of_u64 rnd delta_lat_ns) (Fin 1000000),
          ss_run_queue = cli_run_queue_length (ti_proc x)\<rparr>, t))
     else
       (let thread_factor = fl_max (fl_div rnd (fl_of_u64 rnd (pr_thread_count metrics)) (Fin 10)) (Fin 1);
            cpu_factor = fl_max (fl_div rnd (pr_cpu_pct metrics) (Fin 50)) (rnd (1 / 10)) in
        (\<lparr>ss_switches = fl_as_u64 (fl_mul rnd (fl_mul rnd thread_factor cpu_factor) (Fin 150)),
          ss_migrations = (if fl_less (Fin 10) (pr_cpu_pct metrics) then fl_as_u64 (fl_mul rnd cpu_factor (Fin 5)) else 0),
          ss_latency_ms = fl_add rnd (fl_mul rnd (fl_mul rnd cpu_factor thread_factor) (Fin (5 / 2)))
            (fl_mul rnd (ti_random x 2) (rnd (8 / 10))),
          ss_run_queue = fl_as_u64 (fl_add rnd active_workers (fl_mul rnd cpu_factor (Fin 2)))\<rparr>, t)))"

definition cli_contention :: "rounding \<Rightarrow> fl \<Rightarrow> fl \<Rightarrow> fl" where
  "cli_contention rnd active_workers sched_latency_ms =
    (if fl_less (Fin 1) active_workers then
       fl_min (fl_add rnd (fl_mul rnd active_workers (Fin 10)) (fl_mul rnd sched_latency_ms (Fin 2))) (Fin 100)
     else Fin 0)"

definition cli_channel_wait :: "rounding \<Rightarrow> fl \<Rightarrow> fl \<Rightarrow> u64 \<Rightarrow> fl" where
  "cli_channel_wait rnd active_workers sched_latency_ms poll_count =
    (if fl_less (Fin 0) active_workers then
       fl_min (fl_add rnd (fl_mul rnd sched_latency_ms (Fin (3 / 2)))
         (fl_mul rnd (fl_of_u64 rnd poll_count) (rnd (5 / 1000)))) (Fin 500)
     else Fin 0)"

definition cli_memory :: "sampler_flags \<Rightarrow> rounding \<Rightarrow> benchmark_input \<Rightarrow> process_metrics \<Rightarrow> sampler_task \<Rightarrow> memory_sample" where
  "cli_memory fl rnd x metrics t =
    (let since_base = (\<lambda>minor major. sat_sub minor (fst (tk_base_faults t)) + sat_sub major (snd (tk_base_faults t))) in
     if sfl_linux fl then
       (let (vsz, rss, heap, anon, mapped, minor, major) = cli_memory_stats (ti_proc x) in
        \<lparr>mms_rss = rss, mms_vsz = vsz, mms_heap = heap, mms_anon = anon, mms_mapped = mapped, mms_faults = (minor, major),
         mms_mapped_pages = cli_maps_pages (ti_proc x),
         mms_mmap_faults = fl_as_u64 (fl_mul rnd (fl_of_u64 rnd (since_base minor major)) (rnd (85 / 100))),
         mms_growth = sint (sat_sub rss (tk_base_rss t))\<rparr>)
     else
       (let rss = pr_rss_bytes metrics; mapped = fl_as_u64 (fl_mul rnd (fl_of_u64 rnd rss) (rnd (40 / 100)));
            (minor, major) = (case ti_usage x of Some usage \<Rightarrow> usage | None \<Rightarrow> (0, 0)) in
        \<lparr>mms_rss = rss, mms_vsz = pr_vsz_bytes metrics,
         mms_heap = fl_as_u64 (fl_mul rnd (fl_of_u64 rnd rss) (rnd (75 / 100))),
         mms_anon = fl_as_u64 (fl_mul rnd (fl_of_u64 rnd rss) (rnd (60 / 100))),
         mms_mapped = mapped, mms_faults = (minor, major), mms_mapped_pages = mapped div 4096,
         mms_mmap_faults = fl_as_u64 (fl_mul rnd (fl_of_u64 rnd (since_base minor major)) (rnd (80 / 100))),
         mms_growth = max (- (2 ^ 63)) (min (2 ^ 63 - 1) (sint rss - sint (tk_base_rss t)))\<rparr>))"

record sender_sample =
  sns_timestamp_ms :: u64
  sns_transferred :: u64
  sns_throughput :: fl
  sns_zero_copy :: bool
  sns_process :: process_metrics
  sns_hardware :: hw_metrics
  sns_memory :: memory_sample
  sns_socket :: socket_tcp_info
  sns_bytes_per_sec :: u64
  sns_packets_per_sec :: u64
  sns_avg_packet_size :: fl
  sns_fs :: fs_sample
  sns_runtime :: runtime_sample
  sns_contention :: fl
  sns_channel_wait :: fl
  sns_sched :: sched_sample

definition sender_round ::
  "sampler_flags \<Rightarrow> rounding \<Rightarrow> benchmark_input \<Rightarrow> sender_task \<Rightarrow> (sender_sample \<times> sender_task) option" where
  "sender_round fl rnd x d =
    (let t = snd_marks d; pm = sample_sender_metrics rnd x in
     case cli_network_sample (sfl_linux fl) rnd (ti_proc x) (ti_ss x) (tk_port t) (ti_elapsed_ms x) of
       None \<Rightarrow> None
     | Some ns \<Rightarrow>
         (let moved = sat_sub (si_transferred x) (snd_bytes d);
              nbytes = ns_rx_bytes ns + ns_tx_bytes ns; npackets = ns_rx_packets ns + ns_tx_packets ns;
              db = sat_sub nbytes (tk_net_bytes t); dp = sat_sub npackets (tk_net_packets t);
              t1 = t\<lparr>tk_net_bytes := nbytes, tk_net_packets := npackets\<rparr>;
              (rs, t2) = cli_runtime fl rnd x (pr_cpu_pct pm) t1;
              (ss, t3) = cli_scheduler fl rnd x pm (rs_active rs) t2 in
          Some (\<lparr>sns_timestamp_ms = ti_elapsed_ms x, sns_transferred = si_transferred x,
              sns_throughput = fl_div rnd (fl_mul rnd (fl_of_u64 rnd moved) (Fin 8)) (Fin 100000),
              sns_zero_copy = si_zero_copy x, sns_process = pm,
              sns_hardware = cli_hardware_metrics (sfl_linux fl) rnd (ti_proc x) (si_thermal x) (pr_cpu_pct pm),
              sns_memory = cli_memory fl rnd x pm t3, sns_socket = ns_info ns,
              sns_bytes_per_sec = fl_as_u64 (fl_div rnd (fl_of_u64 rnd db) (rnd (1 / 10))),
              sns_packets_per_sec = fl_as_u64 (fl_div rnd (fl_of_u64 rnd dp) (rnd (1 / 10))),
              sns_avg_packet_size = (if dp > 0 then fl_div rnd (fl_of_u64 rnd db) (fl_of_u64 rnd dp) else Fin 0),
              sns_fs = cli_fs_sample (sfl_linux fl) (ti_proc x) (ti_elapsed_ms x), sns_runtime = rs,
              sns_contention = cli_contention rnd (rs_active rs) (ss_latency_ms ss),
              sns_channel_wait = cli_channel_wait rnd (rs_active rs) (ss_latency_ms ss) (rs_polls rs),
              sns_sched = ss\<rparr>, \<lparr>snd_bytes = si_transferred x, snd_marks = t3\<rparr>)))"

section \<open>The sample as JSON\<close>

text \<open>The numbers of a JSON sample. A float that is no number is written as null; the hardware figures then get a default.\<close>

definition js_float :: "fl \<Rightarrow> json_number option" where
  "js_float x = (case x of Fin _ \<Rightarrow> Some (JsFloat x) | _ \<Rightarrow> None)"

definition finite_or :: "fl \<Rightarrow> fl \<Rightarrow> json_number option" where
  "finite_or d x = (case x of Fin _ \<Rightarrow> Some (JsFloat x) | _ \<Rightarrow> Some (JsFloat d))"

definition js_int :: "int \<Rightarrow> json_number option" where
  "js_int i = Some (if i < 0 then JsNeg i else JsPos (of_int i))"

definition sender_fields :: "sender_sample \<Rightarrow> (string \<times> json_number option) list" where
  "sender_fields s =
    (let n = \<lambda>w :: u64. Some (JsPos w); pm = sns_process s; hw = sns_hardware s; m = sns_memory s; k = sns_socket s;
         f = sns_fs s; r = sns_runtime s; c = sns_sched s in
     [(''timestamp_ms'', n (sns_timestamp_ms s)), (''bytes_transferred'', n (sns_transferred s)),
      (''rolling_throughput_mbps'', js_float (sns_throughput s)),
      (''cpu_pct'', js_float (pr_cpu_pct pm)), (''user_time_sec'', js_float (pr_user_time_sec pm)),
      (''sys_time_sec'', js_float (pr_sys_time_sec pm)), (''rss_bytes'', n (pr_rss_bytes pm)), (''vsz_bytes'', n (pr_vsz_bytes pm)),
      (''thread_count'', n (pr_thread_count pm)), (''open_fds'', n (of_nat (pr_open_fds pm))),
      (''hw_cpu_freq_mhz'', finite_or (Fin 1500) (hw_cpu_freq_mhz hw)),
      (''hw_battery_temp_c'', finite_or (Fin 28) (hw_battery_temp_c hw)), (''hw_soc_temp_c'', finite_or (Fin 35) (hw_soc_temp_c hw)),
      (''hw_thermal_throttle'', n (hw_thermal_throttle hw)), (''hw_cpu_scaling_pct'', finite_or (Fin 100) (hw_cpu_scaling_pct hw)),
      (''mem_rss_bytes'', n (mms_rss m)), (''mem_vsz_bytes'', n (mms_vsz m)), (''mem_heap_bytes'', n (mms_heap m)),
      (''mem_anon_bytes'', n (mms_anon m)), (''mem_mapped_bytes'', n (mms_mapped m)),
      (''mem_minor_faults'', n (fst (mms_faults m))), (''mem_major_faults'', n (snd (mms_faults m))),
      (''mem_mapped_pages'', n (mms_mapped_pages m)), (''mem_mmap_faults'', n (mms_mmap_faults m)),
      (''mem_growth_bytes'', js_int (mms_growth m)),
      (''rtt_ms'', js_float (sti_rtt_ms k)), (''cwnd'', n (sti_cwnd k)), (''rcv_space'', n (sti_rcv_space k)),
      (''recv_q'', n (sti_recv_q k)), (''send_q'', n (sti_send_q k)),
      (''bytes_per_sec'', n (sns_bytes_per_sec s)), (''packets_per_sec'', n (sns_packets_per_sec s)),
      (''avg_packet_size'', js_float (sns_avg_packet_size s)),
      (''fs_syscw'', n (fss_syscw f)), (''fs_wchar'', n (fss_wchar f)), (''fs_write_bytes'', n (fss_write_bytes f)),
      (''fs_dirty_kb'', n (fss_dirty_kb f)), (''fs_writeback_kb'', n (fss_writeback_kb f)), (''fs_cache_kb'', n (fss_cache_kb f)),
      (''fs_nr_written'', n (fss_nr_written f)),
      (''tokio_active_workers'', js_float (rs_active r)), (''tokio_idle_workers'', js_float (rs_idle r)),
      (''tokio_poll_count'', n (rs_polls r)), (''tokio_poll_duration_us'', js_float (rs_poll_us r)),
      (''tokio_task_wakeups'', n (rs_wakeups r)), (''tokio_spawn_blocking_usage'', n (rs_blocking r)),
      (''tokio_mutex_contention'', js_float (sns_contention s)), (''tokio_channel_wait_time_ms'', js_float (sns_channel_wait s)),
      (''sched_context_switches'', n (ss_switches c)), (''sched_cpu_migrations'', n (ss_migrations c)),
      (''sched_latency_ms'', js_float (ss_latency_ms c)), (''sched_run_queue_length'', n (ss_run_queue c))])"

definition sender_json :: "sender_sample \<Rightarrow> sample" where
  "sender_json s key = Option.bind (map_of (sender_fields s) key) id"

section \<open>The two ends measure alike\<close>

lemma cli_network_sample_eq: "cli_network_sample = collect_rolling_network_sample"
  unfolding cli_network_sample_def collect_rolling_network_sample_def no_connection_def cli_reader_eqs by (intro ext) simp

lemma cli_fs_sample_eq: "cli_fs_sample = collect_rolling_fs_sample"
  unfolding cli_fs_sample_def collect_rolling_fs_sample_def cli_reader_eqs by simp

lemma cli_network_metrics_eq: "cli_network_metrics = collect_network_metrics"
  unfolding cli_network_metrics_def collect_network_metrics_def cli_reader_eqs by simp

lemma truncated_input [simp]:
  "ti_proc (tick_input.truncate x) = ti_proc x" "ti_ss (tick_input.truncate x) = ti_ss x"
  "ti_elapsed_ms (tick_input.truncate x) = ti_elapsed_ms x" "ti_now (tick_input.truncate x) = ti_now x"
  "ti_page (tick_input.truncate x) = ti_page x" "ti_fds (tick_input.truncate x) = ti_fds x"
  "ti_workers (tick_input.truncate x) = ti_workers x" "ti_blocking (tick_input.truncate x) = ti_blocking x"
  "ti_usage (tick_input.truncate x) = ti_usage x" "ti_random (tick_input.truncate x) = ti_random x"
  by (simp_all add: tick_input.truncate_def)

lemma cli_workers_eq: "cli_workers x = (sum_list (map fst (ti_workers x)), sum_list (map snd (ti_workers x)))"
proof -
  have "foldl (\<lambda>(p, b) w. (p + fst w, b + snd w)) (p, b) ws = (p + sum_list (map fst ws), b + sum_list (map snd ws))"
    for p b :: u64 and ws
    by (induction ws arbitrary: p b) (simp_all add: algebra_simps)
  then show ?thesis by (simp add: cli_workers_def)
qed

lemma cli_runtime_eq: "cli_runtime fl rnd x cpu t = runtime_round fl rnd (tick_input.truncate x) cpu t"
  by (simp add: cli_runtime_def runtime_round_def cli_workers_eq Let_def)

lemma cli_scheduler_eq: "cli_scheduler fl rnd x pm active t = sched_round fl rnd (tick_input.truncate x) pm active t"
  by (simp add: cli_scheduler_def sched_round_def cli_reader_eqs Let_def split: prod.split)

lemma cli_waits_eq: "cli_contention = mutex_contention" "cli_channel_wait = channel_wait_time"
  by (simp_all add: fun_eq_iff cli_contention_def mutex_contention_def cli_channel_wait_def channel_wait_time_def)

lemma cli_memory_eq: "cli_memory fl rnd x pm t = memory_round fl rnd (tick_input.truncate x) pm t"
  by (simp add: cli_memory_def memory_round_def cli_reader_eqs fault_estimate_def sat_sub_i64_def Let_def split: prod.split option.split)

text \<open>On Linux the scheduler and the memory are those of the kernel files, whatever the process figures; so are the marks.\<close>

lemma linux_rounds:
  assumes "sfl_linux fl"
  shows "sched_round fl rnd i pm active t = sched_round fl rnd i pm' active' t" "memory_round fl rnd i pm t = memory_round fl rnd i pm' t"
  using assms by (simp_all add: sched_round_def memory_round_def)

lemma runtime_round_unstable:
  "sfl_tokio_unstable fl \<Longrightarrow> runtime_round fl rnd i cpu t = runtime_round fl rnd i cpu' t"
  by (simp add: runtime_round_def)

definition same_process :: "sampler_flags \<Rightarrow> process_metrics \<Rightarrow> process_metrics \<Rightarrow> bool" where
  "same_process fl a b \<longleftrightarrow> (sfl_linux fl \<and> sfl_tokio_unstable fl) \<or> a = b"

lemma same_round:
  "case (sender_round fl rnd x d, sample_round fl rnd (tick_input.truncate x) mark (snd_marks d)) of
     (Some (s, d'), Some (r, _, t')) \<Rightarrow>
       sns_timestamp_ms s = rsm_timestamp_ms r \<and> sns_socket s = rsm_socket r \<and> sns_fs s = rsm_fs r
       \<and> sns_bytes_per_sec s = rsm_bytes_per_sec r \<and> sns_packets_per_sec s = rsm_packets_per_sec r
       \<and> sns_avg_packet_size s = rsm_avg_packet_size r
       \<and> (if sfl_linux fl then sns_hardware s = rsm_hardware r else True)
       \<and> (if same_process fl (sns_process s) (rsm_process r)
          then sns_runtime s = rsm_runtime r \<and> sns_sched s = rsm_sched r \<and> sns_memory s = rsm_memory r
            \<and> sns_contention s = rsm_contention r \<and> sns_channel_wait s = rsm_channel_wait r \<and> snd_marks d' = t' else True)
   | (None, None) \<Rightarrow> True
   | _ \<Rightarrow> False"
proof -
  let ?i = "tick_input.truncate x"
  let ?t = "snd_marks d"
  obtain pm mark' where pm: "sample_receiver_process_metrics rnd (ti_proc x) (ti_now x) (ti_page x) (ti_fds x) mark = (pm, mark')"
    by (cases "sample_receiver_process_metrics rnd (ti_proc x) (ti_now x) (ti_page x) (ti_fds x) mark")
  note eqs = cli_network_sample_eq cli_fs_sample_eq cli_runtime_eq cli_scheduler_eq cli_waits_eq cli_memory_eq
  show ?thesis
  proof (cases "collect_rolling_network_sample (sfl_linux fl) rnd (ti_proc x) (ti_ss x) (tk_port ?t) (ti_elapsed_ms x)")
    case None
    then show ?thesis by (simp add: sender_round_def sample_round_def eqs pm Let_def)
  next
    case (Some ns)
    let ?t1 = "?t\<lparr>tk_net_bytes := ns_rx_bytes ns + ns_tx_bytes ns, tk_net_packets := ns_rx_packets ns + ns_tx_packets ns\<rparr>"
    let ?q = "sample_sender_metrics rnd x"
    obtain rs t2 where r: "runtime_round fl rnd ?i (pr_cpu_pct ?q) ?t1 = (rs, t2)" by fastforce
    obtain rs' t2' where r': "runtime_round fl rnd ?i (pr_cpu_pct pm) ?t1 = (rs', t2')" by fastforce
    obtain ss t3 where c: "sched_round fl rnd ?i ?q (rs_active rs) t2 = (ss, t3)" by fastforce
    obtain ss' t3' where c': "sched_round fl rnd ?i pm (rs_active rs') t2' = (ss', t3')" by fastforce
    have "rs = rs' \<and> ss = ss' \<and> t3 = t3' \<and> memory_round fl rnd ?i ?q t3' = memory_round fl rnd ?i pm t3'"
      if s: "same_process fl ?q pm"
    proof (cases "?q = pm")
      case False
      then have f: "sfl_linux fl" "sfl_tokio_unstable fl" using s by (auto simp: same_process_def)
      then have "rs = rs' \<and> t2 = t2'"
        using r r' runtime_round_unstable [of fl rnd ?i "pr_cpu_pct ?q" ?t1 "pr_cpu_pct pm"] by simp
      then show ?thesis using c c' f linux_rounds(1) [of fl rnd ?i ?q "rs_active rs" t2 pm "rs_active rs'"]
          linux_rounds(2) [of fl rnd ?i ?q t3' pm] by simp
    qed (use r r' c c' in simp)
    then show ?thesis
      using Some by (simp add: sender_round_def sample_round_def eqs cli_hardware_metrics_def cli_reader_eqs pm Let_def r r' c c')
  qed
qed

lemma same_start:
  "if sfl_linux fl
   then map_option snd_marks (benchmark_start fl rnd port x) = map_option snd (task_start fl rnd port (tick_input.truncate x) mark)
   else True"
  by (simp add: benchmark_start_def task_start_def cli_network_sample_eq cli_reader_eqs cli_workers_eq Let_def
      split: option.split prod.split)

text \<open>C39. Both ends of a transfer measure alike, though each has its own copy of the readers and of the round: from the same files, with the same marks,
  the client's round fails exactly when the file server's does, and otherwise reports the same socket, rates and storage figures; on Linux also the same
  hardware; and the same runtime, scheduler, memory and waiting figures and the same marks for the next round where the process figures
  agree, or on Linux with the unstable metrics of the runtime whatever they are. On Linux both ends start with the same marks, and both read the kernel's
  metrics before and after a transfer alike.\<close>

theorem sampler_copies:
  "(case (sender_round fl rnd x d, sample_round fl rnd (tick_input.truncate x) mark (snd_marks d)) of
     (Some (s, d'), Some (r, _, t')) \<Rightarrow>
       sns_timestamp_ms s = rsm_timestamp_ms r \<and> sns_socket s = rsm_socket r \<and> sns_fs s = rsm_fs r
       \<and> sns_bytes_per_sec s = rsm_bytes_per_sec r \<and> sns_packets_per_sec s = rsm_packets_per_sec r
       \<and> sns_avg_packet_size s = rsm_avg_packet_size r
       \<and> (if sfl_linux fl then sns_hardware s = rsm_hardware r else True)
       \<and> (if same_process fl (sns_process s) (rsm_process r)
          then sns_runtime s = rsm_runtime r \<and> sns_sched s = rsm_sched r \<and> sns_memory s = rsm_memory r
            \<and> sns_contention s = rsm_contention r \<and> sns_channel_wait s = rsm_channel_wait r \<and> snd_marks d' = t' else True)
   | (None, None) \<Rightarrow> True
   | _ \<Rightarrow> False)
   \<and> (if sfl_linux fl
      then map_option snd_marks (benchmark_start fl rnd port x) = map_option snd (task_start fl rnd port (tick_input.truncate x) mark)
      else True)
   \<and> cli_linux_metrics linux p = collect_linux_metrics linux p \<and> cli_network_metrics linux p n = collect_network_metrics linux p n"
  by (intro conjI same_round same_start) (simp_all add: cli_reader_eqs cli_network_metrics_eq)

section \<open>What no sample has\<close>

text \<open>What the classifier looks for and no sample has: losses, variation of the round trip, rates of system calls. The retransmissions it reports are one
  percent of the context switches.\<close>

lemma no_readings:
  assumes "\<And>s. s \<in> set ss \<Longrightarrow> s key = None"
  shows "readings rnd ss key = []"
  using assms unfolding readings_def by (induction ss) (simp_all add: List.map_filter_simps split: option.splits)

definition unsampled :: "string list" where
  "unsampled = [''net_retransmissions'', ''packet_loss_pct'', ''rtt_variance_ms'', ''syscall_rate_per_sec'']"

lemma unsampled_readings: "list_all (\<lambda>k. readings rnd (map sender_json xs) k = []) unsampled"
  by (auto simp: unsampled_def sender_json_def sender_fields_def Let_def intro!: no_readings)

lemma telemetry_gaps:
  "ag_loss (aggregate rnd (map sender_json xs)) = Fin 0" "ag_rtt_var (aggregate rnd (map sender_json xs)) = Fin 0"
  "ag_retransmissions (aggregate rnd (map sender_json xs))
    = fl_mul rnd (sample_sum rnd (map sender_json xs) ''sched_context_switches'') (rnd (1 / 100))"
  using unsampled_readings [of rnd xs]
  by (simp_all add: unsampled_def aggregate_def sum_retransmissions_def sample_avg_def sample_sum_def fl_total_def)

end
