(* ===== verification/Observability.thy ===== *)
theory Observability
  imports Sender_Metrics
begin

text \<open>
  The diagnoses of a benchmarked transfer (\<^verbatim>\<open>cli/src/observability.rs\<close>): the differences of the kernel counters, and the verdicts on
  scheduler, memory, hardware, network and storage, with their findings. A sample is seen as the numbers among its fields; rounding, the
  square root and the text of a float are arguments. Text outside ASCII is written as its bytes.
\<close>

section \<open>Reading samples\<close>

definition u64_field :: "u64 \<Rightarrow> sample \<Rightarrow> string \<Rightarrow> u64" where
  "u64_field d s key = (case Option.bind (s key) as_u64 of Some n \<Rightarrow> n | None \<Rightarrow> d)"

definition f64_field :: "rounding \<Rightarrow> fl \<Rightarrow> sample \<Rightarrow> string \<Rightarrow> fl" where
  "f64_field rnd d s key = (case s key of Some v \<Rightarrow> as_f64 rnd v | None \<Rightarrow> d)"

definition fl_count :: "rounding \<Rightarrow> 'a list \<Rightarrow> fl" where
  "fl_count rnd xs = rnd (of_nat (length xs))"

definition fl_peak :: "fl list \<Rightarrow> fl" where
  "fl_peak xs = foldl (\<lambda>m x. if fl_less m x then x else m) (Fin 0) xs"

definition share_of :: "rounding \<Rightarrow> ('a \<Rightarrow> bool) \<Rightarrow> 'a list \<Rightarrow> fl" where
  "share_of rnd P xs = fl_div rnd (fl_count rnd (filter P xs)) (fl_count rnd xs)"

definition siren :: string where "siren = [CHR 0xF0, CHR 0x9F, CHR 0x9A, CHR 0xA8]"
definition warning_sign :: string where "warning_sign = [CHR 0xE2, CHR 0x9A, CHR 0xA0, CHR 0xEF, CHR 0xB8, CHR 0x8F]"
definition info_sign :: string where "info_sign = [CHR 0xE2, CHR 0x84, CHR 0xB9, CHR 0xEF, CHR 0xB8, CHR 0x8F]"
definition check_mark :: string where "check_mark = [CHR 0xE2, CHR 0x9C, CHR 0x85]"
definition degree_sign :: string where "degree_sign = [CHR 0xC2, CHR 0xB0]"

section \<open>Scheduler\<close>

definition scheduler_saturated :: "rounding \<Rightarrow> sample \<Rightarrow> bool" where
  "scheduler_saturated rnd s \<longleftrightarrow>
    fl_less (Fin 15) (f64_field rnd (Fin 0) s ''sched_latency_ms'')
    \<or> fl_less (Fin 8) (f64_field rnd (Fin 0) s ''sched_run_queue_length'')
    \<or> u64_field 0 s ''sched_context_switches'' > 500"

definition diagnose_scheduler :: "rounding \<Rightarrow> float_text \<Rightarrow> sample list \<Rightarrow> fl \<times> string \<times> string list" where
  "diagnose_scheduler rnd fmt ss =
    (if ss = [] then (Fin 0, ''No data available'', [])
     else
       (let pct = fl_mul rnd (share_of rnd (scheduler_saturated rnd) ss) (Fin 100);
            avg_run_q = fl_div rnd (fl_total rnd (map (\<lambda>s. f64_field rnd (Fin 0) s ''sched_run_queue_length'') ss)) (fl_count rnd ss);
            avg_ctxt = fl_div rnd (fl_of_u64 rnd (sum_list (map (\<lambda>s. u64_field 0 s ''sched_context_switches'') ss))) (fl_count rnd ss) in
        if fl_less (Fin 30) pct then
          (pct, ''CRITICAL: Scheduler saturation is degrading file transfer performance.'',
           [''Severe scheduler bottleneck detected: '' @ fmt 1 pct @ ''% of benchmark time spent in a saturated scheduler state.'',
            (if fl_less (Fin 6) avg_run_q then
               ''Primary Cause: Run queue saturation. Too many threads are waiting for a CPU core. Consider increasing core affinities or reducing non-critical background threads.''
             else if fl_less (Fin 400) avg_ctxt then
               ''Primary Cause: Excess context switching. Threads are yielding too frequently, causing thrashing. Check for over-contended tokio mutexes or too many active blocking tasks.''
             else
               ''Primary Cause: CPU starvation. Scheduler latency spiked while running at high load. Ensure CPU governor is set to performance.'')])
        else if fl_less (Fin 5) pct then
          (pct, ''WARNING: Periodic scheduler latency spikes observed.'',
           [''Moderate scheduler bottleneck detected: '' @ fmt 1 pct @ ''% of benchmark time spent in a saturated scheduler state.''])
        else
          (pct, ''HEALTHY: The Tokio scheduler and OS thread pooling are functioning optimally.'',
           [''Scheduler latency, run queue length, and context switches remain within healthy limits.''])))"

section \<open>Memory\<close>

definition megabytes :: "rounding \<Rightarrow> u64 \<Rightarrow> fl" where
  "megabytes rnd n = fl_div rnd (fl_of_u64 rnd n) (Fin 1048576)"

fun rises :: "u64 \<Rightarrow> u64 list \<Rightarrow> nat" where
  "rises prev [] = 0"
| "rises prev (x # xs) = (if x > prev then 1 else 0) + rises x xs"

definition diagnose_memory :: "rounding \<Rightarrow> float_text \<Rightarrow> sample list \<Rightarrow> string \<times> string list" where
  "diagnose_memory rnd fmt ss =
    (if ss = [] then (''HEALTHY: No memory telemetry collected.'', [])
     else
       (let at0 = u64_field 0 (hd ss); at1 = u64_field 0 (last ss);
            start_rss = at0 ''mem_rss_bytes''; end_rss = at1 ''mem_rss_bytes'';
            duration = max (u64_field 1 (last ss) ''timestamp_ms'') 1;
            growth = megabytes rnd (sat_sub end_rss start_rss);
            rate = fl_div rnd growth (fl_div rnd (fl_of_u64 rnd duration) (Fin 1000));
            monotonic = fl_div rnd (rnd (of_nat (rises start_rss (map (\<lambda>s. u64_field 0 s ''mem_rss_bytes'') ss)))) (fl_count rnd ss);
            ends = '' MB (initial: '' @ fmt 2 (megabytes rnd start_rss) @ '' MB, final: '' @ fmt 2 (megabytes rnd end_rss) @ '' MB)'';
            (verdict, leak) =
              (if fl_less (Fin 35) growth \<and> fl_less (Fin (1 / 2)) monotonic then
                 (''CRITICAL: Memory leak suspected due to significant monotonic memory growth.'',
                  [siren @ '' **Potential Memory Leak Detected**: Process RSS grew continuously by '' @ fmt 2 growth @ ends
                    @ '' at a rate of '' @ fmt 2 rate @ '' MB/s.''])
               else if fl_less (Fin 15) growth then
                 (''WARNING: Elevate memory growth detected over the file transfer session.'',
                  [warning_sign @ '' **High Memory Growth Observed**: RSS grew by '' @ fmt 2 growth @ ends
                    @ ''. Ensure resources are being released when transfer finishes.''])
               else (''HEALTHY: The process memory footprint is stable and leak-free.'', []));
            total_major = sat_sub (at1 ''mem_major_faults'') (at0 ''mem_major_faults'');
            mmap_faults = at1 ''mem_mmap_faults'';
            findings = leak
              @ (if total_major > 50 then
                   [warning_sign @ '' **High Major Page Faults ('' @ show_nat (unat total_major)
                     @ '')**: Process triggered physical disk reads to fetch virtual memory pages. This degrades active request throughput.''] else [])
              @ (if mmap_faults > 1000 then
                   [info_sign @ '' **Frequent Mmap Demand Paging**: Encountered '' @ show_nat (unat mmap_faults)
                     @ '' page faults from memory-mapped files. This is normal for zero-copy file mapping, but can be pre-faulted using `MAP_POPULATE` on Linux.''] else []) in
        (verdict,
         if findings = [] then
           [check_mark @ '' **Healthy Memory Footprint**: No memory leaks or abnormal page faults detected. RSS growth was minimal and stabilized.'']
         else findings)))"

section \<open>Hardware\<close>

definition correlation :: "rounding \<Rightarrow> (fl \<Rightarrow> fl) \<Rightarrow> fl list \<Rightarrow> fl list \<Rightarrow> fl" where
  "correlation rnd sqrt_of xs ys =
    (let mx = fl_div rnd (fl_total rnd xs) (fl_count rnd xs); my = fl_div rnd (fl_total rnd ys) (fl_count rnd xs);
         (num, dx, dy) = foldl (\<lambda>(n, a, b) (x, y).
             let p = fl_sub rnd x mx; q = fl_sub rnd y my in
             (fl_add rnd n (fl_mul rnd p q), fl_add rnd a (fl_mul rnd p p), fl_add rnd b (fl_mul rnd q q)))
           (Fin 0, Fin 0, Fin 0) (zip xs ys) in
     if fl_less (Fin 0) dx \<and> fl_less (Fin 0) dy then fl_div rnd num (sqrt_of (fl_mul rnd dx dy)) else Fin 0)"

definition diagnose_hardware :: "rounding \<Rightarrow> (fl \<Rightarrow> fl) \<Rightarrow> float_text \<Rightarrow> sample list \<Rightarrow> fl \<times> string \<times> string list" where
  "diagnose_hardware rnd sqrt_of fmt ss =
    (if length ss < 2 then (Fin 0, ''HEALTHY: Insufficient samples to diagnose hardware performance.'', [])
     else
       (let f = \<lambda>key. map (\<lambda>s. f64_field rnd (Fin 0) s key) ss;
            throttle_pct = fl_mul rnd (share_of rnd (\<lambda>s. u64_field 0 s ''hw_thermal_throttle'' > 0) ss) (Fin 100);
            soc = fl_peak (f ''hw_soc_temp_c''); bat = fl_peak (f ''hw_battery_temp_c'');
            r = correlation rnd sqrt_of (f ''rolling_throughput_mbps'') (f ''hw_cpu_freq_mhz'');
            (verdict, extra) =
              (if fl_less (Fin 5) throttle_pct then
                 (''WARNING: Thermal throttling detected! The CPU frequency was actively clamped by the OS to prevent overheating.'',
                  [''Thermal Throttling Active: '' @ fmt 1 throttle_pct @ ''% of benchmark duration was throttled.''])
               else if fl_less (Fin 72) soc then
                 (''WARNING: High thermal load. CPU is near throttling thresholds.'',
                  [''SoC temperature approached safety threshold limits (thermal zone > 72'' @ degree_sign @ ''C). Throttling risk is high.''])
               else (''HEALTHY: CPU temperatures and thermal governors operating under optimal limits without active throttling.'', [])) in
        (r, verdict,
         [''Peak SoC Temperature: '' @ fmt 1 soc @ '' '' @ degree_sign @ ''C'',
          ''Peak Battery Temperature: '' @ fmt 1 bat @ '' '' @ degree_sign @ ''C'',
          ''Throughput-to-CPU Frequency Correlation: '' @ fmt 3 r @ '' (Pearson'' @ [CHR 39] @ ''s r)'',
          (if fl_less (rnd (6 / 10)) r then
             ''Strong positive correlation: higher CPU frequencies directly boost file transfer throughput. Throughput is CPU-bound.''
           else if fl_less r (fl_neg (rnd (3 / 10))) then
             ''Negative correlation detected: frequency spikes occurred during throughput drops, suggesting throttling or queue blockages.''
           else
             ''Low or neutral correlation: file transfer throughput is bound by other factors (such as network queue depth or disk writeback limits).'')]
         @ extra)))"
section \<open>Network\<close>

text \<open>A metrics object, read by section and field.\<close>

type_synonym net_json = "string \<Rightarrow> string \<Rightarrow> json_number option"

definition net_value :: "net_json \<Rightarrow> string \<Rightarrow> string \<Rightarrow> u64" where
  "net_value o_net part field = u64_field 0 (o_net part) field"

definition NO_NETWORK_CAUSE :: string where
  "NO_NETWORK_CAUSE = ''No major network bottleneck detected. Throughput is operating within healthy boundaries.''"
definition LOSS_CAUSE :: string where "LOSS_CAUSE = ''Packet Loss / Link Instability''"
definition BANDWIDTH_CAUSE :: string where "BANDWIDTH_CAUSE = ''Network Path Bandwidth Limit / Congestion''"
definition READER_CAUSE :: string where "READER_CAUSE = ''Receiver Application Read Latency / CPU Sched Bottleneck''"
definition WINDOW_CAUSE :: string where "WINDOW_CAUSE = ''TCP Window Size Limits''"

definition counter_findings :: "u64 \<Rightarrow> u64 \<Rightarrow> u64 \<Rightarrow> string list" where
  "counter_findings retrans dup ofo =
    (if retrans > 5 then
       [siren @ '' **Active TCP Retransmissions**: Detected '' @ show_nat (unat retrans)
         @ '' retransmitted segments during the transfer. This indicates packet loss on the link, triggering TCP congestion control to repeatedly cut the cwnd.''] else [])
    @ (if dup > 10 then
       [warning_sign @ '' **High Duplicate ACKs**: Detected '' @ show_nat (unat dup)
         @ '' duplicate ACKs. This suggests the network path is dropping packets or experiencing significant out-of-order delivery.''] else [])
    @ (if ofo > 5 then
       [warning_sign @ '' **Out-of-Order Packet Arrival**: Detected '' @ show_nat (unat ofo)
         @ '' packets queued out-of-order. This indicates jitter, packet reordering by intermediate switches, or severe packet drop rates.''] else [])"

text \<open>The samples of the receiver that have a partner among those of the sender.\<close>

definition partners :: "sample list \<Rightarrow> sample list \<Rightarrow> sample list" where
  "partners sender receiver = take (length sender) receiver"

definition queue_findings :: "rounding \<Rightarrow> float_text \<Rightarrow> sample list \<Rightarrow> sample list \<Rightarrow> string \<Rightarrow> string list \<times> string" where
  "queue_findings rnd fmt sender receiver cause =
    (let deep = \<lambda>key s. u64_field 0 s key > 32 * 1024; n = fl_count rnd sender;
         send_ratio = fl_div rnd (fl_count rnd (filter (deep ''send_q'') sender)) n;
         recv_ratio = fl_div rnd (fl_count rnd (filter (deep ''recv_q'') (partners sender receiver))) n;
         full = \<lambda>r. fl_less (rnd (4 / 10)) r in
     if sender = [] then ([], cause)
     else
       ((if full send_ratio then
           [siren @ '' **Sender Buffer Saturation (Send-Q)**: The socket send queue was full (>32kB) for '' @ fmt 1 (fl_mul rnd send_ratio (Fin 100))
             @ ''% of the transfer. This indicates network bandwidth capacity limits or TCP window starvation.''] else [])
        @ (if full recv_ratio then
           [siren @ '' **Receiver Buffer Saturation (Recv-Q)**: The socket receive queue was full (>32kB) for '' @ fmt 1 (fl_mul rnd recv_ratio (Fin 100))
             @ ''% of the transfer. This implies that the application layer (Axum handler/Tokio runtime) is not pulling bytes from the kernel fast enough. The bottleneck is the **Receiver CPU/Application Processing** rather than the network itself.''] else []),
        (let c = (if full send_ratio \<and> contains cause ''No major'' then BANDWIDTH_CAUSE else cause) in
         if full recv_ratio then READER_CAUSE else c)))"

text \<open>The least receive window, starting at the largest double, which is an argument.\<close>

definition least_window :: "rounding \<Rightarrow> fl \<Rightarrow> sample list \<Rightarrow> sample list \<Rightarrow> fl" where
  "least_window rnd f64_max sender receiver =
    foldl (\<lambda>m s. let w = f64_field rnd (Fin 65536) s ''rcv_space'' in if fl_less w m then w else m) f64_max (partners sender receiver)"

definition window_findings :: "rounding \<Rightarrow> float_text \<Rightarrow> fl \<Rightarrow> sample list \<Rightarrow> sample list \<Rightarrow> string \<Rightarrow> string list \<times> string" where
  "window_findings rnd fmt f64_max sender receiver cause =
    (let least = least_window rnd f64_max sender receiver in
     if sender \<noteq> [] \<and> fl_less least (Fin 65536) then
       ([warning_sign @ '' **Low TCP Receive Window (rcv_space)**: The minimum TCP receive window fell to '' @ fmt 1 (fl_div rnd least (Fin 1024))
          @ '' kB. This limits the BDP (Bandwidth-Delay Product), restricting maximum achievable throughput.''],
        (if contains cause ''No major'' then WINDOW_CAUSE else cause))
     else ([], cause))"

definition diagnose_network ::
  "rounding \<Rightarrow> float_text \<Rightarrow> fl \<Rightarrow> sample list \<Rightarrow> sample list \<Rightarrow> net_json \<Rightarrow> net_json \<Rightarrow> net_json \<Rightarrow> net_json \<Rightarrow> string \<times> string list" where
  "diagnose_network rnd fmt f64_max sender receiver before after rx_before rx_after =
    (let moved = \<lambda>b a part field. sat_sub (net_value a part field) (net_value b part field);
         retrans = moved before after ''snmp'' ''retrans_segs'';
         counters = counter_findings retrans (moved rx_before rx_after ''netstat'' ''duplicate_acks'')
           (moved rx_before rx_after ''netstat'' ''out_of_order_queued'');
         (queues, cause) = queue_findings rnd fmt sender receiver (if retrans > 5 then LOSS_CAUSE else NO_NETWORK_CAUSE);
         (windows, cause') = window_findings rnd fmt f64_max sender receiver cause in
     (cause', counters @ queues @ windows))"

text \<open>The metrics object the client writes.\<close>

definition net_metrics_json :: "net_metrics \<Rightarrow> net_json" where
  "net_metrics_json m part field =
    (let row = \<lambda>ks ns. map_option JsPos (map_of (zip ks ns) field);
         (ins, outs, retrans) = nm_segs m; (dup, ofo, zero_win) = nm_stat m; (rxb, rxp, txb, txp) = nm_dev m in
     if part = ''snmp'' then row [''in_segs'', ''out_segs'', ''retrans_segs''] [ins, outs, retrans]
     else if part = ''netstat'' then row [''duplicate_acks'', ''out_of_order_queued'', ''zero_window_events''] [dup, ofo, zero_win]
     else if part = ''dev'' then row [''rx_bytes'', ''rx_packets'', ''tx_bytes'', ''tx_packets''] [rxb, rxp, txb, txp]
     else None)"

section \<open>Kernel counters before and after\<close>

text \<open>A metrics object of the kernel as its reader sees it: the text of \<^verbatim>\<open>raw.stat\<close>, the object \<^verbatim>\<open>parsed\<close>, and its object \<^verbatim>\<open>cpu\<close>.\<close>

record kernel_json =
  kj_stat :: "string option"
  kj_parsed :: "sample option"
  kj_cpu :: "sample option"

record cpu_split =
  cs_user :: fl
  cs_kernel :: fl
  cs_softirq :: fl
  cs_iowait :: fl
  cs_idle :: fl

record kernel_deltas =
  kd_counters :: "(string \<times> u64) list"
  kd_page_faults :: u64
  kd_cpu :: cpu_split

definition no_split :: cpu_split where
  "no_split = \<lparr>cs_user = Fin 0, cs_kernel = Fin 0, cs_softirq = Fin 0, cs_iowait = Fin 0, cs_idle = Fin 0\<rparr>"

definition counter_delta :: "sample \<Rightarrow> sample \<Rightarrow> string \<Rightarrow> u64" where
  "counter_delta b a key = sat_sub (u64_field 0 a key) (u64_field 0 b key)"

text \<open>A percentage with two decimals; \<open>round_of\<close> is \<^verbatim>\<open>f64::round\<close>.\<close>

definition percent_of :: "rounding \<Rightarrow> (fl \<Rightarrow> fl) \<Rightarrow> u64 \<Rightarrow> u64 \<Rightarrow> fl" where
  "percent_of rnd round_of part total_d =
    fl_div rnd (round_of (fl_mul rnd (fl_mul rnd (fl_div rnd (fl_of_u64 rnd part) (fl_of_u64 rnd total_d)) (Fin 100)) (Fin 100))) (Fin 100)"

definition tick_names :: "string list" where
  "tick_names = [''user'', ''nice'', ''system'', ''idle'', ''iowait'', ''irq'', ''softirq'', ''steal'']"

definition cpu_deltas :: "rounding \<Rightarrow> (fl \<Rightarrow> fl) \<Rightarrow> sample option \<Rightarrow> sample option \<Rightarrow> cpu_split" where
  "cpu_deltas rnd round_of b a =
    (case (b, a) of
       (Some bc, Some ac) \<Rightarrow>
         (let d = counter_delta bc ac; total_d = sum_list (map d tick_names); pct = \<lambda>n. percent_of rnd round_of n total_d in
          if total_d > 0 then
            \<lparr>cs_user = pct (d ''user'' + d ''nice''), cs_kernel = pct (d ''system''), cs_softirq = pct (d ''softirq''),
             cs_iowait = pct (d ''iowait''), cs_idle = pct (d ''idle'')\<rparr>
          else no_split)
     | _ \<Rightarrow> no_split)"

definition counter_names :: "string list" where
  "counter_names = [''voluntary_ctxt_switches'', ''involuntary_ctxt_switches'', ''cpu_migrations'', ''minor_faults'', ''major_faults'',
     ''bytes_read'', ''bytes_written'', ''interrupt_count'']"

definition linux_deltas :: "rounding \<Rightarrow> (fl \<Rightarrow> fl) \<Rightarrow> kernel_json \<Rightarrow> kernel_json \<Rightarrow> kernel_deltas option" where
  "linux_deltas rnd round_of before after =
    (case (kj_parsed before, kj_parsed after) of
       (Some b, Some a) \<Rightarrow>
         (if kj_stat before = Some [] then None
          else Some \<lparr>kd_counters = map (\<lambda>k. (k, counter_delta b a k)) counter_names,
            kd_page_faults = counter_delta b a ''minor_faults'' + counter_delta b a ''major_faults'',
            kd_cpu = cpu_deltas rnd round_of (kj_cpu before) (kj_cpu after)\<rparr>)
     | _ \<Rightarrow> None)"

text \<open>The object the client writes.\<close>

definition ticks_json :: "cpu_ticks \<Rightarrow> sample" where
  "ticks_json t key =
    map_option JsPos (map_of (zip tick_names
      [ct_user t, ct_nice t, ct_system t, ct_idle t, ct_iowait t, ct_irq t, ct_softirq t, ct_steal t]) key)"

definition linux_json :: "linux_metrics \<Rightarrow> kernel_json" where
  "linux_json m =
    \<lparr>kj_stat = Some (hd (lm_raw m)),
     kj_parsed = Some (\<lambda>key. map_option JsPos (map_of (zip counter_names
       [lm_voluntary m, lm_involuntary m, lm_cpu_migrations m, lm_minor_faults m, lm_major_faults m, lm_bytes_read m,
        lm_bytes_written m, lm_interrupts m]) key)),
     kj_cpu = Some (ticks_json (lm_cpu m))\<rparr>"

section \<open>Storage\<close>

definition NO_STORAGE_CAUSE :: string where
  "NO_STORAGE_CAUSE = ''No major filesystem or storage bottlenecks detected. Storage performance is operating within healthy boundaries.''"

text \<open>The differences between neighbours, starting from the first.\<close>

fun steps_from :: "u64 \<Rightarrow> u64 list \<Rightarrow> u64 list" where
  "steps_from prev [] = []"
| "steps_from prev (x # xs) = sat_sub x prev # steps_from x xs"

definition speed_of :: "rounding \<Rightarrow> u64 \<Rightarrow> fl" where
  "speed_of rnd n = fl_div rnd (fl_of_u64 rnd n) (fl_mul rnd (Fin 1048576) (rnd (1 / 10)))"

text \<open>The coefficient of variation of the speeds above 0.01, where their mean is above 0.1.\<close>

definition burstiness :: "rounding \<Rightarrow> (fl \<Rightarrow> fl) \<Rightarrow> fl list \<Rightarrow> fl option" where
  "burstiness rnd sqrt_of speeds =
    (let xs = filter (fl_less (rnd (1 / 100))) speeds; n = fl_count rnd xs; mean = fl_div rnd (fl_total rnd xs) n in
     if xs \<noteq> [] \<and> fl_less (rnd (1 / 10)) mean then
       Some (fl_div rnd (sqrt_of (fl_div rnd (fl_total rnd (map (\<lambda>x. fl_mul rnd (fl_sub rnd x mean) (fl_sub rnd x mean)) xs)) n)) mean)
     else None)"

definition blocked_share :: "rounding \<Rightarrow> fl list \<Rightarrow> fl list \<Rightarrow> fl" where
  "blocked_share rnd writeback throughput =
    (let avg = (if throughput = [] then Fin 0 else fl_div rnd (fl_total rnd throughput) (fl_count rnd throughput)) in
     share_of rnd (\<lambda>(wb, tp). fl_less (Fin 16384) wb \<and> fl_less tp (fl_mul rnd avg (Fin (1 / 2)))) (zip writeback throughput))"

text \<open>A cause, where one is found, and the finding.\<close>

definition burst_finding :: "rounding \<Rightarrow> (fl \<Rightarrow> fl) \<Rightarrow> float_text \<Rightarrow> string \<Rightarrow> fl list \<Rightarrow> (string option \<times> string) option" where
  "burst_finding rnd sqrt_of fmt side speeds =
    (case burstiness rnd sqrt_of speeds of
       Some cv \<Rightarrow>
         (if fl_less (rnd (12 / 10)) cv then
            Some (Some ''Application I/O Burstiness / Batching'',
              siren @ '' **Bursty Application Writes**: The '' @ side @ '' application write speed showed extreme burstiness (Coefficient of Variation = '' @ fmt 2 cv
                @ ''). This indicates the application batches its filesystem writes, resulting in periodic high-intensity IO requests that cause latency spikes.'')
          else None)
     | None \<Rightarrow> None)"

definition blocking_finding :: "rounding \<Rightarrow> float_text \<Rightarrow> fl list \<Rightarrow> fl list \<Rightarrow> (string option \<times> string) option" where
  "blocking_finding rnd fmt writeback throughput =
    (let ratio = blocked_share rnd writeback throughput in
     if throughput \<noteq> [] \<and> fl_less (rnd (1 / 10)) ratio then
       Some (Some ''Kernel Writeback Thread Blocking (dirty_writeback_centisecs / storage latency)'',
         siren @ '' **Writeback Blocking / Page Cache Pressure**: For '' @ fmt 1 (fl_mul rnd ratio (Fin 100))
           @ ''% of the transfer duration, high kernel writeback activity (>16MB) coincided with a significant drop (<50% of average) in application throughput. This indicates that kernel background flushes are blocking application execution threads.'')
     else None)"

definition iowait_finding :: "float_text \<Rightarrow> string \<Rightarrow> fl \<Rightarrow> (string option \<times> string) option" where
  "iowait_finding fmt side iowait =
    (if fl_less (Fin 15) iowait then
       Some (Some ''Physical Storage Medium Saturation'',
         siren @ '' **Storage IO Saturation**: The '' @ side @ '' CPU spent '' @ fmt 1 iowait
           @ ''% of its cycles waiting on storage IO (iowait). This indicates that the storage media (Flash/SSD) cannot keep up with the incoming write stream.'')
     else None)"

definition flush_finding :: "rounding \<Rightarrow> float_text \<Rightarrow> fl list \<Rightarrow> fl list \<Rightarrow> (string option \<times> string) option" where
  "flush_finding rnd fmt app disk =
    (let written = \<lambda>xs. fl_mul rnd (fl_total rnd xs) (rnd (1 / 10)); ratio = fl_div rnd (written disk) (written app) in
     if fl_less (Fin 10) (written app) \<and> fl_less ratio (rnd (2 / 10)) then
       Some (None,
         warning_sign @ '' **Delayed Flush / Buffer Accumulation**: Only '' @ fmt 1 (fl_mul rnd ratio (Fin 100))
           @ ''% of cache-written data was written to physical storage during the transfer. The remaining data resides in the kernel dirty pages, leaving a post-transfer writeback tail.'')
     else None)"

text \<open>A later cause replaces an earlier one.\<close>

definition last_cause :: "string \<Rightarrow> (string option \<times> string) list \<Rightarrow> string" where
  "last_cause c fs = foldl (\<lambda>c f. case fst f of Some d \<Rightarrow> d | None \<Rightarrow> c) c fs"

definition is_upload :: "string \<Rightarrow> bool" where
  "is_upload direction \<longleftrightarrow> contains (map ascii_lower direction) ''upload''"

definition diagnose_storage ::
  "rounding \<Rightarrow> (fl \<Rightarrow> fl) \<Rightarrow> float_text \<Rightarrow> string \<Rightarrow> sample list \<Rightarrow> sample list \<Rightarrow> kernel_deltas option \<Rightarrow> kernel_deltas option \<Rightarrow> string \<times> string list" where
  "diagnose_storage rnd sqrt_of fmt direction sender receiver sender_deltas receiver_deltas =
    (let up = is_upload direction; ss = (if up then receiver else sender); side = (if up then ''Receiver'' else ''Sender'');
         iowait = (case (if up then receiver_deltas else sender_deltas) of Some d \<Rightarrow> cs_iowait (kd_cpu d) | None \<Rightarrow> Fin 0);
         steps = \<lambda>key. map (speed_of rnd) (steps_from (u64_field 0 (hd ss) key) (map (\<lambda>s. u64_field 0 s key) (tl ss)));
         col = \<lambda>key. map (\<lambda>s. f64_field rnd (Fin 0) s key) (tl ss);
         app = steps ''fs_wchar''; disk = steps ''fs_write_bytes'';
         fs = List.map_filter id
           [burst_finding rnd sqrt_of fmt side app, blocking_finding rnd fmt (col ''fs_writeback_kb'') (col ''rolling_throughput_mbps''),
            iowait_finding fmt side iowait, flush_finding rnd fmt app disk] in
     if length ss < 2 then (NO_STORAGE_CAUSE, []) else (last_cause NO_STORAGE_CAUSE fs, map snd fs))"

section \<open>Facts\<close>

lemmas network_causes = NO_NETWORK_CAUSE_def LOSS_CAUSE_def BANDWIDTH_CAUSE_def READER_CAUSE_def WINDOW_CAUSE_def

lemma cause_open:
  "contains NO_NETWORK_CAUSE ''No major''" "\<not> contains LOSS_CAUSE ''No major''" "\<not> contains BANDWIDTH_CAUSE ''No major''"
  "\<not> contains READER_CAUSE ''No major''"
  by (simp_all add: contains_def network_causes)

text \<open>The conditions of the diagnosis of the network.\<close>

definition queue_full :: "rounding \<Rightarrow> string \<Rightarrow> sample list \<Rightarrow> sample list \<Rightarrow> bool" where
  "queue_full rnd key sender ss \<longleftrightarrow>
    sender \<noteq> []
    \<and> fl_less (rnd (4 / 10)) (fl_div rnd (fl_count rnd (filter (\<lambda>s. u64_field 0 s key > 32 * 1024) ss)) (fl_count rnd sender))"

lemma queue_cause:
  "snd (queue_findings rnd fmt sender receiver c)
    = (if queue_full rnd ''recv_q'' sender (partners sender receiver) then READER_CAUSE
       else if queue_full rnd ''send_q'' sender sender \<and> contains c ''No major'' then BANDWIDTH_CAUSE else c)"
  by (simp add: queue_findings_def queue_full_def Let_def)

lemma window_cause:
  "snd (window_findings rnd fmt mx sender receiver c)
    = (if sender \<noteq> [] \<and> fl_less (least_window rnd mx sender receiver) (Fin 65536) \<and> contains c ''No major'' then WINDOW_CAUSE else c)"
  by (simp add: window_findings_def Let_def)

lemma network_diagnosis:
  "diagnose_network rnd fmt mx sender receiver b a rb ra =
    (let moved = \<lambda>b a part field. sat_sub (net_value a part field) (net_value b part field);
         retrans = moved b a ''snmp'' ''retrans_segs'';
         q = queue_findings rnd fmt sender receiver (if retrans > 5 then LOSS_CAUSE else NO_NETWORK_CAUSE);
         w = window_findings rnd fmt mx sender receiver (snd q) in
     (snd w, counter_findings retrans (moved rb ra ''netstat'' ''duplicate_acks'') (moved rb ra ''netstat'' ''out_of_order_queued'')
       @ fst q @ fst w))"
  by (simp add: diagnose_network_def Let_def split: prod.splits)

lemma simulated_retransmissions:
  assumes "cli_network_metrics False p n = Some (b, n')" "cli_network_metrics False p' m = Some (a, m')"
  shows "sat_sub (net_value (net_metrics_json a) ''snmp'' ''retrans_segs'') (net_value (net_metrics_json b) ''snmp'' ''retrans_segs'')
    = (if n mod 2 = 0 \<and> m mod 2 \<noteq> 0 then 15 else 0)"
  using assms
  by (auto simp: cli_network_metrics_def net_value_def net_metrics_json_def u64_field_def sat_sub_def split: if_splits)

text \<open>C38. The verdict on the network, which the code reaches by overwriting it, is the first of a list: the receiver's queue, lost
  packets, the sender's queue, the receive window, nothing. Away from Linux it does not depend on the network: the two readings of a benchmark are
  those of a counter that all benchmarks of the process share, \<open>n\<close> at the first and \<open>m\<close> at the second. Where \<open>n\<close> is even and \<open>m\<close> odd, as it is
  when no other reading comes between them, the benchmark reports 15 retransmitted segments, and packet loss as the cause unless the
  receiver's queue is blamed; otherwise packet loss is never the cause.\<close>

theorem network_verdict:
  "fst (diagnose_network rnd fmt mx sender receiver before after rx_before rx_after)
    = (if queue_full rnd ''recv_q'' sender (partners sender receiver) then READER_CAUSE
       else if sat_sub (net_value after ''snmp'' ''retrans_segs'') (net_value before ''snmp'' ''retrans_segs'') > 5 then LOSS_CAUSE
       else if queue_full rnd ''send_q'' sender sender then BANDWIDTH_CAUSE
       else if sender \<noteq> [] \<and> fl_less (least_window rnd mx sender receiver) (Fin 65536) then WINDOW_CAUSE
       else NO_NETWORK_CAUSE)
   \<and> (case (cli_network_metrics False p n, cli_network_metrics False p' m) of
        (Some (b, n'), Some (a, _)) \<Rightarrow>
          n' = n + 1
          \<and> (let (cause, findings) = diagnose_network rnd fmt mx sender receiver (net_metrics_json b) (net_metrics_json a) rx_before rx_after in
             if n mod 2 = 0 \<and> m mod 2 \<noteq> 0
             then hd findings = hd (counter_findings 15 0 0) \<and> cause \<in> {LOSS_CAUSE, READER_CAUSE}
             else cause \<noteq> LOSS_CAUSE)
      | _ \<Rightarrow> False)"
proof -
  have order: "fst (diagnose_network rnd fmt mx sender receiver b a rb ra)
      = (if queue_full rnd ''recv_q'' sender (partners sender receiver) then READER_CAUSE
         else if sat_sub (net_value a ''snmp'' ''retrans_segs'') (net_value b ''snmp'' ''retrans_segs'') > 5 then LOSS_CAUSE
         else if queue_full rnd ''send_q'' sender sender then BANDWIDTH_CAUSE
         else if sender \<noteq> [] \<and> fl_less (least_window rnd mx sender receiver) (Fin 65536) then WINDOW_CAUSE
         else NO_NETWORK_CAUSE)" for b a rb ra
    by (simp add: network_diagnosis Let_def window_cause queue_cause cause_open)
  obtain b where b: "cli_network_metrics False p n = Some (b, n + 1)" by (auto simp: cli_network_metrics_def)
  obtain a m' where a: "cli_network_metrics False p' m = Some (a, m')" by (auto simp: cli_network_metrics_def)
  note counted = simulated_retransmissions [OF b a]
  have "hd (counter_findings 15 x y @ fs) = hd (counter_findings 15 0 0)" for x y fs by (simp add: counter_findings_def)
  then have first: "hd (snd (diagnose_network rnd fmt mx sender receiver (net_metrics_json b) (net_metrics_json a) rx_before rx_after))
      = hd (counter_findings 15 0 0)" if "n mod 2 = 0 \<and> m mod 2 \<noteq> 0"
    using counted that by (simp add: network_diagnosis Let_def)
  have differ: "READER_CAUSE \<noteq> LOSS_CAUSE" "BANDWIDTH_CAUSE \<noteq> LOSS_CAUSE" "WINDOW_CAUSE \<noteq> LOSS_CAUSE" "NO_NETWORK_CAUSE \<noteq> LOSS_CAUSE"
    by (simp_all add: network_causes)
  show ?thesis
    using order [of before after rx_before rx_after] order [of "net_metrics_json b" "net_metrics_json a" rx_before rx_after] first counted differ
    by (simp add: a b case_prod_beta)
qed

text \<open>The kernel counters: the difference of two readings of the client is that of the files.\<close>

lemma own_deltas:
  assumes "hd (lm_raw b) \<noteq> []"
  shows "linux_deltas rnd round_of (linux_json b) (linux_json a) \<noteq> None
    \<and> (let d = the (linux_deltas rnd round_of (linux_json b) (linux_json a)) in
       map_of (kd_counters d) ''minor_faults'' = Some (sat_sub (lm_minor_faults a) (lm_minor_faults b))
       \<and> kd_page_faults d = sat_sub (lm_minor_faults a) (lm_minor_faults b) + sat_sub (lm_major_faults a) (lm_major_faults b))"
  using assms by (simp add: linux_deltas_def linux_json_def counter_names_def counter_delta_def u64_field_def Let_def)

lemma no_kernel_deltas: "linux_deltas rnd round_of (linux_json (cli_linux_metrics False p)) k = None"
  by (simp add: linux_deltas_def linux_json_def cli_reader_eqs collect_linux_metrics_def raw_files_def split: option.splits)

text \<open>A receiver on Linux whose connection \<^verbatim>\<open>ss\<close> does not show is blamed for its window.\<close>

lemma unseen_connection_small_window:
  assumes "r ''rcv_space'' = Some (JsPos 14600)" "rnd 14600 = Fin 14600" "fl_less (Fin 14600) mx"
  shows "snd (window_findings rnd fmt mx [s] [r] NO_NETWORK_CAUSE) = WINDOW_CAUSE"
  using assms by (simp add: window_cause least_window_def partners_def f64_field_def fl_of_u64_def cause_open)

end
