(* ===== verification/Dashboard_Receive.thy ===== *)
theory Dashboard_Receive
  imports Http_Ranges Proc_Text "HOL-Library.Multiset"
begin

text \<open>
  The receiving end of the dashboard of the command line client (\<^verbatim>\<open>cli/src/dashboard.rs\<close>): reading the head of a request,
  the headers, and the handler of \<^verbatim>\<open>/api/receive-file\<close>, which uploads of other devices call, several at once for the ranges of one
  file. What a request does to its file is a list of steps, so that requests can be interleaved. How many bytes a read
  returns and which calls fail are arguments. \<^verbatim>\<open>to_lowercase\<close> is modelled for ASCII: no other letter becomes one of a header's name.
\<close>

section \<open>Heads\<close>

text \<open>The head is read byte by byte up to an empty line; a connection that ends or a head above the limit is dropped.\<close>

fun dash_head :: "bytes \<Rightarrow> bytes \<Rightarrow> (bytes \<times> bytes) option" where
  "dash_head buf [] = None"
| "dash_head buf (b # s) =
    (let buf' = buf @ [b] in
     if suffix (as_bytes (crlf @ crlf)) buf' then Some (buf', s)
     else if length buf' > 32768 then None
     else dash_head buf' s)"

text \<open>The first line that begins with the name, in any case; its part between the first two colons.\<close>

definition header_line :: "string \<Rightarrow> string \<Rightarrow> string option" where
  "header_line name head_text = find (\<lambda>l. prefix name (map ascii_lower l)) (str_lines head_text)"

definition header_field :: "string \<Rightarrow> string \<Rightarrow> string option" where
  "header_field name head_text =
    Option.bind (header_line name head_text) (\<lambda>l. map_option trim (nth_opt 1 (str_split (CHR '':'') l)))"

definition header_number :: "string \<Rightarrow> string \<Rightarrow> nat option" where
  "header_number name head_text = Option.bind (header_field name head_text) (parse_unsigned (2 ^ 64))"

definition request_length :: "string \<Rightarrow> nat" where
  "request_length head_text = (case header_number ''content-length:'' head_text of Some n \<Rightarrow> n | None \<Rightarrow> 0)"

definition callback_url :: "string \<Rightarrow> string option" where
  "callback_url head_text =
    (case header_line ''x-report-progress-to:'' head_text of
       None \<Rightarrow> None
     | Some l \<Rightarrow>
         (case str_find '':'' l of
            None \<Rightarrow> None
          | Some i \<Rightarrow> (let v = trim (drop (i + 1) l) in if v = [] then None else Some v)))"

section \<open>Files as steps\<close>

datatype file_step = SetLen nat | WriteAt nat bytes

fun apply_step :: "file_step \<Rightarrow> bytes \<Rightarrow> bytes" where
  "apply_step (SetLen n) f = take n f @ replicate (n - length f) 0"
| "apply_step (WriteAt pos b) f = take pos f @ replicate (pos - length f) 0 @ b @ drop (pos + length b) f"

text \<open>What the handler meets: the home directory, the time in seconds, the errors of making the directory and of opening the file, the sizes of
  the reads, the errors of the \<open>k\<close>-th read and write, and the error of unpacking.\<close>

record dash_env =
  dsh_home :: "string option"
  dsh_now :: nat
  dsh_mkdir :: "string option"
  dsh_open :: "string \<Rightarrow> string option"
  dsh_sizes :: "nat \<Rightarrow> nat"
  dsh_read :: "nat \<Rightarrow> string option"
  dsh_write :: "nat \<Rightarrow> string option"
  dsh_unzip :: "string \<Rightarrow> string option"

text \<open>The loop over the body: its steps, and the error, or how many bytes are missing. What a failing write leaves is left out.\<close>

function body_steps :: "dash_env \<Rightarrow> nat \<Rightarrow> nat \<Rightarrow> nat \<Rightarrow> bytes \<Rightarrow> file_step list \<times> (string + nat)" where
  "body_steps env k remaining pos s =
    (if remaining = 0 then ([], Inr 0)
     else
       (case dsh_read env k of
          Some e \<Rightarrow> ([], Inl e)
        | None \<Rightarrow>
            (if s = [] then ([], Inr remaining)
             else
               (let piece = take (max 1 (min (dsh_sizes env k) (min 65536 remaining))) s in
                case dsh_write env k of
                  Some e \<Rightarrow> ([], Inl e)
                | None \<Rightarrow>
                    (case body_steps env (Suc k) (remaining - length piece) (pos + length piece) (drop (length piece) s) of
                       (steps, r) \<Rightarrow> (WriteAt pos piece # steps, r))))))"
  by pat_completeness auto
termination
  by (relation "measure (\<lambda>(_, _, r, _, _). r)") (auto simp: min_def max_def)

declare body_steps.simps [simp del]

section \<open>The handler\<close>

text \<open>The outcome ends with what is on the disk and in the list: setting the length is taken to work (the code ignores its error), and
  the progress reports, the notification and the answer, whose loss changes neither, are left out. Unpacking an archive is an argument.\<close>

definition dash_downloads :: "dash_env \<Rightarrow> string" where
  "dash_downloads env = (case dsh_home env of Some h \<Rightarrow> h | None \<Rightarrow> ''/tmp'') @ ''/Downloads/PDOS''"

definition incoming_name :: "dash_env \<Rightarrow> string \<Rightarrow> string" where
  "incoming_name env head_text =
    (case header_field ''x-filename:'' head_text of Some n \<Rightarrow> n | None \<Rightarrow> ''received_'' @ show_nat (dsh_now env))"

definition incoming_path :: "dash_env \<Rightarrow> string \<Rightarrow> string" where
  "incoming_path env head_text = dash_downloads env @ ''/'' @ incoming_name env head_text"

definition first_steps :: "string \<Rightarrow> file_step list" where
  "first_steps head_text =
    (if header_number ''x-offset:'' head_text \<in> {None, Some 0} then
       (case header_number ''x-total-size:'' head_text of Some n \<Rightarrow> [SetLen n] | None \<Rightarrow> [])
     else [])"

definition range_offset :: "string \<Rightarrow> nat" where
  "range_offset head_text = (case header_number ''x-offset:'' head_text of Some n \<Rightarrow> n | None \<Rightarrow> 0)"

text \<open>\<^verbatim>\<open>trim_end_matches(".zip")\<close>\<close>

function trim_zip :: "string \<Rightarrow> string" where
  "trim_zip s = (if suffix ''.zip'' s then trim_zip (take (length s - 4) s) else s)"
  by pat_completeness auto
termination
  by (relation "measure length") (auto simp: suffix_def)

declare trim_zip.simps [simp del]

definition extracted_to :: "dash_env \<Rightarrow> string \<Rightarrow> string option" where
  "extracted_to env path =
    (if suffix ''.zip'' path then (case dsh_unzip env path of None \<Rightarrow> Some (trim_zip path) | Some _ \<Rightarrow> None) else None)"

record dash_reception =
  rcp_name :: string
  rcp_path :: string
  rcp_steps :: "file_step list"
  rcp_missing :: nat
  rcp_size :: nat
  rcp_extracted :: "string option"

datatype dash_outcome = DashRefused nat string | DashBroken string "file_step list" | DashReceived dash_reception

definition handle_receive_file :: "dash_env \<Rightarrow> string \<Rightarrow> nat \<Rightarrow> bytes \<Rightarrow> dash_outcome" where
  "handle_receive_file env head_text content_length s =
    (let path = incoming_path env head_text in
     if content_length = 0 then DashRefused 400 ''Empty file''
     else
       (case dsh_mkdir env of
          Some e \<Rightarrow> DashBroken e []
        | None \<Rightarrow>
            (case dsh_open env path of
               Some e \<Rightarrow> DashBroken e []
             | None \<Rightarrow>
                 (case body_steps env 0 content_length (range_offset head_text) s of
                    (steps, Inl e) \<Rightarrow> DashBroken e (first_steps head_text @ steps)
                  | (steps, Inr missing) \<Rightarrow>
                      DashReceived \<lparr>rcp_name = incoming_name env head_text, rcp_path = path,
                        rcp_steps = first_steps head_text @ steps, rcp_missing = missing, rcp_size = content_length,
                        rcp_extracted = extracted_to env path\<rparr>))))"

text \<open>The list the user interface polls: the last 50 entries; a poll empties it. The entry and the last progress report say
  received and complete, whatever is missing.\<close>

record pending_entry =
  pe_id :: nat
  pe_filename :: string
  pe_path :: string
  pe_size :: nat
  pe_status :: string
  pe_extracted :: "string option"

definition pending_of :: "dash_env \<Rightarrow> dash_reception \<Rightarrow> pending_entry" where
  "pending_of env r =
    \<lparr>pe_id = dsh_now env, pe_filename = rcp_name r, pe_path = rcp_path r, pe_size = rcp_size r, pe_status = ''received'',
     pe_extracted = rcp_extracted r\<rparr>"

definition push_pending :: "'a \<Rightarrow> 'a list \<Rightarrow> 'a list" where
  "push_pending e ps = (let qs = ps @ [e] in if length qs > 50 then tl qs else qs)"

definition take_pending :: "'a list \<Rightarrow> 'a list \<times> 'a list" where
  "take_pending ps = (ps, [])"

section \<open>The connection\<close>

definition request_target :: "string \<Rightarrow> string \<times> string \<times> string" where
  "request_target head_text =
    (let ps = (case str_lines head_text of [] \<Rightarrow> [] | l # _ \<Rightarrow> words l);
         verb = (case ps of m # _ \<Rightarrow> m | [] \<Rightarrow> ''GET'');
         full = (case ps of _ # p # _ \<Rightarrow> p | _ \<Rightarrow> ''/'') in
     case str_find ''?'' full of
       Some i \<Rightarrow> (verb, take i full, drop (i + 1) full)
     | None \<Rightarrow> (verb, full, []))"

definition dash_upload :: "dash_env \<Rightarrow> bytes \<Rightarrow> dash_outcome option" where
  "dash_upload env s =
    (case dash_head [] s of
       None \<Rightarrow> None
     | Some (h, rest) \<Rightarrow>
         (let t = from_utf8_lossy h; (verb, path, _) = request_target t in
          if verb = ''POST'' \<and> path = ''/api/receive-file'' then Some (handle_receive_file env t (request_length t) rest) else None))"

end
