(* ===== verification/Dashboard_Facts.thy ===== *)
theory Dashboard_Facts
  imports Dashboard_Receive
begin

text \<open>
  What the dashboard makes of a parallel upload: the head a client sends is read back, the body becomes writes within its range, and
  the steps of all requests, in whatever order they are executed, leave the file.
\<close>

section \<open>Heads\<close>

definition head_of :: "string list \<Rightarrow> string" where
  "head_of ls = concat (map (\<lambda>l. l @ crlf) ls) @ crlf"

lemma head_of_Cons: "head_of (l # ls) = l @ crlf @ head_of ls"
  by (simp add: head_of_def)

lemma head_ends:
  assumes "list_all (\<lambda>l. l \<noteq> [] \<and> plain_line l) ls" "ls \<noteq> []" "head_of ls = a @ crlf @ crlf @ b"
  shows "b = []"
  using assms
proof (induction ls arbitrary: a)
  case (Cons l ls)
  from Cons.prems(3) have eq: "(l @ crlf) @ head_of ls = a @ (crlf @ crlf @ b)" by (simp add: head_of_Cons)
  then obtain us where "l @ crlf = a @ us \<and> us @ head_of ls = crlf @ crlf @ b \<or> l @ crlf @ us = a \<and> head_of ls = us @ crlf @ crlf @ b"
    unfolding append_eq_append_conv2 by auto
  then show ?case
  proof
    assume "l @ crlf @ us = a \<and> head_of ls = us @ crlf @ crlf @ b"
    moreover from this have "ls \<noteq> []" by (cases ls) (auto simp: head_of_def crlf_def)
    ultimately show ?thesis using Cons.IH [of us] Cons.prems(1) by simp
  next
    assume u: "l @ crlf = a @ us \<and> us @ head_of ls = crlf @ crlf @ b"
    show ?thesis
    proof (cases us)
      case Nil
      then have h: "head_of ls = [] @ crlf @ crlf @ b" using u by simp
      then have "ls \<noteq> []" by (cases ls) (auto simp: head_of_def crlf_def)
      then show ?thesis using Cons.IH [OF _ _ h] Cons.prems(1) by simp
    next
      case (Cons c cs)
      then have c: "c = CHR 0x0D" using u by (simp add: crlf_def)
      have "CHR 0x0D \<notin> set l" using Cons.prems(1) by (simp add: plain_line_def)
      then have us: "us = crlf"
        using u Cons c by (auto simp: crlf_def append_eq_append_conv2 append_eq_Cons_conv Cons_eq_append_conv)
      then have h: "head_of ls = crlf @ b" using u by (simp add: crlf_def)
      show ?thesis
      proof (cases ls)
        case Nil
        then show ?thesis using h by (simp add: head_of_def)
      next
        case (Cons k ks)
        then have "k \<noteq> []" "CHR 0x0D \<notin> set k" using Cons.prems(1) by (simp_all add: plain_line_def)
        then show ?thesis using h Cons by (cases k) (auto simp: head_of_Cons crlf_def)
      qed
    qed
  qed
qed simp

lemma dash_head_stops:
  "t \<noteq> [] \<Longrightarrow> suffix (as_bytes (crlf @ crlf)) (buf @ t)
    \<Longrightarrow> (\<And>n. 0 < n \<Longrightarrow> n < length t \<Longrightarrow> \<not> suffix (as_bytes (crlf @ crlf)) (buf @ take n t))
    \<Longrightarrow> length (buf @ t) \<le> 32768 \<Longrightarrow> dash_head buf (t @ rest) = Some (buf @ t, rest)"
proof (induction t arbitrary: buf)
  case (Cons c t)
  show ?case
  proof (cases "t = []")
    case True
    then show ?thesis using Cons.prems(2) by (simp add: Let_def)
  next
    case False
    have "\<not> suffix (as_bytes (crlf @ crlf)) (buf @ [c])" using Cons.prems(3) [of 1] False by simp
    moreover have "dash_head (buf @ [c]) (t @ rest) = Some ((buf @ [c]) @ t, rest)"
      using False Cons.prems(2,4) Cons.prems(3) [of "Suc _"] by (intro Cons.IH) auto
    ultimately show ?thesis using Cons.prems(4) by (auto simp: Let_def)
  qed
qed simp

lemma dash_head_of:
  assumes "list_all (\<lambda>l. l \<noteq> [] \<and> plain_line l) ls" "ls \<noteq> []" "length (head_of ls) \<le> 32768"
  shows "dash_head [] (as_bytes (head_of ls) @ rest) = Some (as_bytes (head_of ls), rest)"
proof -
  have inj: "as_bytes a = as_bytes b \<Longrightarrow> a = b" for a b by (metis of_bytes_as_bytes)
  have ne: "head_of ls \<noteq> []" by (simp add: head_of_def crlf_def)
  have "suffix (as_bytes (crlf @ crlf)) (as_bytes (head_of ls))"
  proof -
    obtain l ks where ls: "ls = ks @ [l]" using assms(2) by (metis append_butlast_last_id)
    show ?thesis unfolding suffix_def
      by (rule exI [of _ "as_bytes (concat (map (\<lambda>l. l @ crlf) ks) @ l)"]) (simp add: ls head_of_def)
  qed
  moreover have "\<not> suffix (as_bytes (crlf @ crlf)) (take n (as_bytes (head_of ls)))" if n: "n < length (as_bytes (head_of ls))" for n
  proof
    assume "suffix (as_bytes (crlf @ crlf)) (take n (as_bytes (head_of ls)))"
    then obtain p where "as_bytes (take n (head_of ls)) = p @ as_bytes (crlf @ crlf)" by (auto simp: suffix_def take_as_bytes)
    then have "take n (head_of ls) = of_bytes p @ crlf @ crlf"
      by (metis of_bytes_as_bytes of_bytes_def map_append)
    then have "head_of ls = of_bytes p @ crlf @ crlf @ drop n (head_of ls)" by (metis append.assoc append_take_drop_id)
    from head_ends [OF assms(1,2) this] n show False by simp
  qed
  ultimately show ?thesis
    using dash_head_stops [of "as_bytes (head_of ls)" "[]" rest] ne assms(3) by (simp add: as_bytes_def)
qed

lemma head_lines:
  assumes "list_all plain_line ls"
  shows "str_lines (head_of ls) = ls @ [[]]"
proof -
  have split: "str_split (CHR 0x0A) (head_of ls) = map (\<lambda>l. l @ [CHR 0x0D]) ls @ [[CHR 0x0D], []]"
    using assms
  proof (induction ls)
    case Nil
    then show ?case by (simp add: head_of_def crlf_def)
  next
    case (Cons l ls)
    then show ?case using str_split_append [of "CHR 0x0A" "l @ [CHR 0x0D]" "head_of ls"]
      by (simp add: head_of_Cons crlf_def plain_line_def)
  qed
  show ?thesis by (simp add: str_lines_def split Let_def strip_cr_def butlast_append o_def)
qed

section \<open>Headers\<close>

definition range_lines :: "string \<Rightarrow> u16 \<Rightarrow> string \<Rightarrow> nat \<Rightarrow> nat \<Rightarrow> nat \<Rightarrow> string list" where
  "range_lines host port name off fsize len =
    [''POST /api/receive-file HTTP/1.1'', ''Host: '' @ host @ '':'' @ show_nat (unat port),
     ''Content-Type: application/octet-stream'', ''X-Filename: '' @ name, ''X-Offset: '' @ show_nat off,
     ''X-Total-Size: '' @ show_nat fsize, ''Content-Length: '' @ show_nat len, ''Connection: close'']"

lemma range_head:
  "request_head host port name [''X-Offset: '' @ show_nat off, ''X-Total-Size: '' @ show_nat fsize, ''Content-Length: '' @ show_nat len]
    = head_of (range_lines host port name off fsize len)"
  by (simp add: request_head_def head_of_def range_lines_def)

lemma plain_word_no_colon: "CHR '':'' \<notin> set (show_nat n)"
  using show_nat_digits [of n] by (force simp: list_all_iff is_ascii_digit_def code_def)

lemma second_field:
  "plain_word w \<Longrightarrow> CHR '':'' \<notin> set w \<Longrightarrow> CHR '':'' \<notin> set k
    \<Longrightarrow> map_option trim (nth_opt 1 (str_split (CHR '':'') (k @ CHR '':'' # CHR '' '' # w))) = Some w"
  using trim_padded [of w 1] by (simp add: str_split_append str_split_no_sep nth_opt_def)

lemma lower_chars:
  "ascii_lower (CHR '' '') = CHR '' ''" "ascii_lower (CHR ''-'') = CHR ''-''" "ascii_lower (CHR ''.'') = CHR ''.''"
  "ascii_lower (CHR ''/'') = CHR ''/''" "ascii_lower (CHR ''1'') = CHR ''1''" "ascii_lower (CHR '':'') = CHR '':''"
  "ascii_lower (CHR ''C'') = CHR ''c''" "ascii_lower (CHR ''F'') = CHR ''f''" "ascii_lower (CHR ''H'') = CHR ''h''"
  "ascii_lower (CHR ''L'') = CHR ''l''" "ascii_lower (CHR ''O'') = CHR ''o''" "ascii_lower (CHR ''P'') = CHR ''p''"
  "ascii_lower (CHR ''S'') = CHR ''s''" "ascii_lower (CHR ''T'') = CHR ''t''" "ascii_lower (CHR ''X'') = CHR ''x''"
  "ascii_lower (CHR ''a'') = CHR ''a''" "ascii_lower (CHR ''c'') = CHR ''c''" "ascii_lower (CHR ''e'') = CHR ''e''"
  "ascii_lower (CHR ''f'') = CHR ''f''" "ascii_lower (CHR ''g'') = CHR ''g''" "ascii_lower (CHR ''h'') = CHR ''h''"
  "ascii_lower (CHR ''i'') = CHR ''i''" "ascii_lower (CHR ''l'') = CHR ''l''" "ascii_lower (CHR ''m'') = CHR ''m''"
  "ascii_lower (CHR ''n'') = CHR ''n''" "ascii_lower (CHR ''o'') = CHR ''o''" "ascii_lower (CHR ''p'') = CHR ''p''"
  "ascii_lower (CHR ''r'') = CHR ''r''" "ascii_lower (CHR ''s'') = CHR ''s''" "ascii_lower (CHR ''t'') = CHR ''t''"
  "ascii_lower (CHR ''v'') = CHR ''v''" "ascii_lower (CHR ''y'') = CHR ''y''" "ascii_lower (CHR ''z'') = CHR ''z''"
  by code_simp+

lemma range_headers:
  fixes port :: u16
  assumes "plain_word host" "plain_word name" "CHR '':'' \<notin> set name" "off < 2 ^ 64" "fsize < 2 ^ 64" "len < 2 ^ 64"
  defines "t \<equiv> head_of (range_lines host port name off fsize len)"
  shows "request_length t = len" "header_number ''x-offset:'' t = Some off" "header_number ''x-total-size:'' t = Some fsize"
    "header_field ''x-filename:'' t = Some name" "request_target t = (''POST'', ''/api/receive-file'', [])"
proof -
  have plain: "list_all plain_line (range_lines host port name off fsize len)"
    using plain_word_line [OF assms(1)] plain_word_line [OF assms(2)] plain_word_line [OF plain_word_show]
    by (simp add: range_lines_def plain_line_def)
  note lines = head_lines [OF plain, folded t_def]
  have f: "header_line ''content-length:'' t = Some (''Content-Length: '' @ show_nat len)"
    "header_line ''x-offset:'' t = Some (''X-Offset: '' @ show_nat off)"
    "header_line ''x-total-size:'' t = Some (''X-Total-Size: '' @ show_nat fsize)"
    "header_line ''x-filename:'' t = Some (''X-Filename: '' @ name)"
    by (simp_all add: header_line_def lines range_lines_def lower_chars)
  have n: "header_field ''content-length:'' t = Some (show_nat len)" "header_field ''x-offset:'' t = Some (show_nat off)"
    "header_field ''x-total-size:'' t = Some (show_nat fsize)" "header_field ''x-filename:'' t = Some name"
    using second_field [OF plain_word_show plain_word_no_colon, of "''Content-Length''" len]
      second_field [OF plain_word_show plain_word_no_colon, of "''X-Offset''" off]
      second_field [OF plain_word_show plain_word_no_colon, of "''X-Total-Size''" fsize]
      second_field [OF assms(2,3), of "''X-Filename''"]
    by (simp_all add: header_field_def f)
  show "header_field ''x-filename:'' t = Some name" by (rule n)
  show "header_number ''x-offset:'' t = Some off" "header_number ''x-total-size:'' t = Some fsize"
    using assms(4-6) by (simp_all add: header_number_def n parse_show_nat)
  show "request_length t = len"
    using assms(4-6) by (simp add: request_length_def header_number_def n parse_show_nat)
  show "request_target t = (''POST'', ''/api/receive-file'', [])"
  proof -
    have "words ''POST /api/receive-file HTTP/1.1'' = [''POST'', ''/api/receive-file'', ''HTTP/1.1'']"
      using words_lead [of "''POST''" "[''/api/receive-file'', ''HTTP/1.1'']"]
      by (simp add: plain_word_def unwords_def code_def)
    then show ?thesis by (simp add: request_target_def lines range_lines_def)
  qed
qed

section \<open>Bodies\<close>

text \<open>Successive writes of a text from a position on.\<close>

fun writes_of :: "nat \<Rightarrow> bytes \<Rightarrow> file_step list \<Rightarrow> bool" where
  "writes_of pos s [] = (s = [])"
| "writes_of pos s (SetLen n # ws) = False"
| "writes_of pos s (WriteAt p b # ws) = (p = pos \<and> prefix b s \<and> writes_of (pos + length b) (drop (length b) s) ws)"

definition quiet_env :: "dash_env \<Rightarrow> bool" where
  "quiet_env env \<longleftrightarrow> dsh_mkdir env = None \<and> (\<forall>p. dsh_open env p = None) \<and> (\<forall>k. dsh_read env k = None \<and> dsh_write env k = None)"

lemma body_steps_quiet:
  assumes "quiet_env env"
  shows "length s = m \<Longrightarrow> \<exists>ws. body_steps env k m pos (s @ rest) = (ws, Inr 0) \<and> writes_of pos s ws"
proof (induction m arbitrary: k pos s rule: less_induct)
  case (less m)
  show ?case
  proof (cases "m = 0")
    case True
    then show ?thesis using less.prems by (simp add: body_steps.simps)
  next
    case False
    define n where "n = max 1 (min (dsh_sizes env k) (min 65536 m))"
    have n: "0 < n" "n \<le> m" using False by (auto simp: n_def)
    have p: "take n (s @ rest) = take n s" "length (take n s) = n" "drop n (s @ rest) = drop n s @ rest"
      using n less.prems by simp_all
    have "\<exists>ws. body_steps env (Suc k) (m - n) (pos + n) (drop n s @ rest) = (ws, Inr 0) \<and> writes_of (pos + n) (drop n s) ws"
      using n less.prems by (intro less.IH) auto
    then obtain ws where ws: "body_steps env (Suc k) (m - n) (pos + n) (drop n s @ rest) = (ws, Inr 0)"
      "writes_of (pos + n) (drop n s) ws" by blast
    moreover have "s @ rest \<noteq> []" using False less.prems by auto
    ultimately have "body_steps env k m pos (s @ rest) = (WriteAt pos (take n s) # ws, Inr 0)"
      using False assms by (subst body_steps.simps) (simp add: n_def [symmetric] p quiet_env_def Let_def del: One_nat_def length_take take_append drop_append)
    then show ?thesis using ws(2) p(2) by (auto simp: take_is_prefix)
  qed
qed

section \<open>Steps in any order\<close>

definition step_fits :: "bytes \<Rightarrow> file_step \<Rightarrow> bool" where
  "step_fits data st = (case st of SetLen n \<Rightarrow> n = length data
     | WriteAt p b \<Rightarrow> p + length b \<le> length data \<and> take (length b) (drop p data) = b)"

definition step_writes :: "nat \<Rightarrow> file_step \<Rightarrow> bool" where
  "step_writes i st = (case st of SetLen n \<Rightarrow> False | WriteAt p b \<Rightarrow> p \<le> i \<and> i < p + length b)"

definition settled :: "bytes \<Rightarrow> nat \<Rightarrow> bytes \<Rightarrow> bool" where
  "settled data i f \<longleftrightarrow> i < length f \<and> f ! i = data ! i"

lemma apply_step_settles:
  assumes "step_fits data st" "i < length data" "settled data i f \<or> step_writes i st"
  shows "settled data i (apply_step st f)"
proof (cases st)
  case (SetLen n)
  then show ?thesis using assms by (simp add: settled_def step_fits_def step_writes_def nth_append)
next
  case (WriteAt p b)
  then have "b ! (i - p) = data ! i" if "p \<le> i" "i < p + length b"
  proof -
    have "b ! (i - p) = take (length b) (drop p data) ! (i - p)" using assms(1) WriteAt by (simp add: step_fits_def)
    then show ?thesis using that assms(2) by simp
  qed
  then show ?thesis using assms(2,3) WriteAt
    by (auto simp: settled_def step_writes_def nth_append min_def not_less)
qed

lemma fold_settles:
  "\<forall>st \<in> set sts. step_fits data st \<Longrightarrow> i < length data \<Longrightarrow> settled data i f \<or> (\<exists>st \<in> set sts. step_writes i st)
    \<Longrightarrow> settled data i (fold apply_step sts f)"
proof (induction sts arbitrary: f)
  case (Cons st sts)
  then show ?case using apply_step_settles [of data st i f] by auto
qed simp

lemma apply_step_length:
  "step_fits data st \<Longrightarrow> length f = length data \<or> st = SetLen (length data) \<Longrightarrow> length (apply_step st f) = length data"
  by (cases st) (auto simp: step_fits_def min_def)

lemma fold_length:
  "\<forall>st \<in> set sts. step_fits data st \<Longrightarrow> length f = length data \<or> SetLen (length data) \<in> set sts
    \<Longrightarrow> length (fold apply_step sts f) = length data"
proof (induction sts arbitrary: f)
  case (Cons st sts)
  then show ?case using apply_step_length [of data st f] by auto
qed simp

lemma fold_steps:
  assumes "\<forall>st \<in> set sts. step_fits data st" "SetLen (length data) \<in> set sts"
    "\<And>i. i < length data \<Longrightarrow> \<exists>st \<in> set sts. step_writes i st"
  shows "fold apply_step sts old = data"
  using fold_length [OF assms(1), of old] fold_settles [OF assms(1), of _ old] assms(2,3)
  by (intro nth_equalityI) (auto simp: settled_def)

lemma writes_fit:
  assumes "writes_of pos s ws" "pos + length s \<le> length data" "take (length s) (drop pos data) = s"
  shows "\<forall>st \<in> set ws. step_fits data st"
  using assms
proof (induction pos s ws rule: writes_of.induct)
  case (3 pos s p b ws)
  then obtain t where s: "s = b @ t" by (auto simp: prefix_def)
  have t: "take (length b) (drop pos data) = b" "take (length t) (drop (pos + length b) data) = t"
    using 3(4) by (simp_all add: s take_add append_eq_append_conv) (use 3(3) s in \<open>auto simp: add.commute\<close>)
  then show ?case using 3 by (auto simp: s step_fits_def)
qed simp_all

lemma writes_cover:
  assumes "writes_of pos s ws" "pos \<le> i" "i < pos + length s"
  shows "\<exists>st \<in> set ws. step_writes i st"
  using assms
proof (induction pos s ws rule: writes_of.induct)
  case (3 pos s p b ws)
  then show ?case
  proof (cases "i < pos + length b")
    case True
    then show ?thesis using 3 by (auto simp: step_writes_def)
  next
    case False
    then show ?thesis using 3 by (auto simp: prefix_def)
  qed
qed simp_all

section \<open>Requests\<close>

lemma show_nat_length: "n < 10 ^ Suc k \<Longrightarrow> length (show_nat n) \<le> Suc k"
proof (induction k arbitrary: n)
  case 0
  then show ?case by (simp add: show_nat.simps)
next
  case (Suc k)
  have "n div 10 < 10 ^ Suc k" using Suc.prems by (simp add: less_mult_imp_div_less)
  from Suc.IH [OF this] show ?case by (subst show_nat.simps) simp
qed

lemma show_nat_short: "n < 2 ^ 64 \<Longrightarrow> length (show_nat n) \<le> 20"
  using show_nat_length [of n 19] by simp

lemma show_port_short: "length (show_nat (unat (port :: u16))) \<le> 20"
proof -
  have "unat port < 2 ^ LENGTH(16)" by (rule unsigned_less)
  then show ?thesis by (intro show_nat_short) simp
qed

lemma hex_digit_code: "n < 16 \<Longrightarrow> 48 \<le> code (hex_digit_upper n) \<and> code (hex_digit_upper n) \<le> 70 \<and> code (hex_digit_upper n) \<noteq> 58"
  by (auto simp: hex_digit_upper_def code_def)

lemma urlencode_byte_plain:
  "urlencode_byte b \<noteq> [] \<and> length (urlencode_byte b) \<le> 3
    \<and> list_all (\<lambda>c. 33 \<le> code c \<and> code c \<le> 126 \<and> code c \<noteq> 58) (urlencode_byte b)"
proof -
  have "33 \<le> unat b \<and> unat b \<le> 126 \<and> unat b \<noteq> 58" if "unreserved b"
    using that by (auto simp: unreserved_def word_le_nat_alt)
  moreover have "unat b div 16 < 16" using unat_u8 [of b] by simp
  ultimately show ?thesis
    using hex_digit_code [of "unat b div 16"] hex_digit_code [of "unat b mod 16"]
    by (auto simp: urlencode_byte_def code_def)
qed

lemma urlencode_plain:
  "s \<noteq> [] \<Longrightarrow> plain_word (urlencode s)" "CHR '':'' \<notin> set (urlencode s)" "length (urlencode s) \<le> 3 * length s"
proof -
  have all: "list_all (\<lambda>c. 33 \<le> code c \<and> code c \<le> 126 \<and> code c \<noteq> 58) (urlencode s)"
    using urlencode_byte_plain by (auto simp: urlencode_def list_all_iff)
  then show "CHR '':'' \<notin> set (urlencode s)" by (auto simp: list_all_iff code_def)
  show "plain_word (urlencode s)" if "s \<noteq> []"
    using that all urlencode_byte_plain by (cases s) (auto simp: plain_word_def list_all_iff urlencode_def as_bytes_def)
  show "length (urlencode s) \<le> 3 * length s"
  proof (induction s)
    case (Cons c s)
    then show ?case using urlencode_byte_plain [of "byte_of_char c"] by (simp add: urlencode_def as_bytes_def)
  qed (simp add: urlencode_def as_bytes_def)
qed

lemma range_head_short:
  fixes port :: u16
  assumes "length host + length name \<le> 30000" "off < 2 ^ 64" "fsize < 2 ^ 64" "len < 2 ^ 64"
  shows "length (head_of (range_lines host port name off fsize len)) \<le> 32768"
  using assms(1) show_nat_short [OF assms(2)] show_nat_short [OF assms(3)] show_nat_short [OF assms(4)] show_port_short [of port]
  by (simp add: head_of_def range_lines_def crlf_def)

lemma range_head_ascii:
  assumes "plain_word host" "plain_word name"
  shows "utf8_valid (head_of (range_lines host port name off fsize len))"
proof (rule utf8_valid_ascii)
  have w: "c \<in> set w \<Longrightarrow> plain_word w \<Longrightarrow> (of_char c :: nat) < 128" for c w
    by (auto simp: plain_word_def list_all_iff code_def)
  show "\<forall>c \<in> set (head_of (range_lines host port name off fsize len)). (of_char c :: nat) < 128"
    using assms w [OF _ plain_word_show] w [of _ host] w [of _ name] by (auto simp: head_of_def range_lines_def crlf_def)
qed

lemma ranges_cover:
  assumes "i < unat fsize"
  shows "\<exists>r \<in> set (upload_ranges fsize k). unat (fst r) \<le> i \<and> i < unat (snd r)"
proof -
  define n where "n = clamp_streams k"
  define e where "e = unat (fsize div n)"
  obtain m where m: "unat n = Suc m" "m < 32"
    using clamp_streams_bounds [of k] by (cases "unat n") (auto simp: n_def)
  define j where "j = (if e = 0 then m else min m (i div e))"
  have j: "j \<le> m" "j * e \<le> i" by (auto simp: j_def min_def intro: order_trans [OF mult_le_mono1 div_times_less_eq_dividend])
  have "Suc j * e \<le> Suc m * e" using j(1) by (intro mult_le_mono1) simp
  also have "\<dots> \<le> unat fsize" by (simp only: e_def unat_div m(1) times_div_less_eq_dividend)
  finally have b: "Suc j * e \<le> unat fsize" .
  have u: "unat (of_nat j * (fsize div n)) = j * e" "unat ((of_nat j + 1) * (fsize div n)) = Suc j * e"
    using unat_times_small [of j "fsize div n" fsize] unat_times_small [of "Suc j" "fsize div n" fsize] b j m(2)
    by (simp_all add: e_def add.commute)
  have "(of_nat j = n - 1) = (j = m)"
  proof -
    have "0 < n" using m(1) by (auto simp: word_less_nat_alt)
    then have "unat (n - 1) = m" using m(1) by (simp add: unat_sub word_le_nat_alt)
    then show ?thesis using j(1) m(2) by (simp add: word_unat_eq_iff unsigned_of_nat take_bit_nat_eq_self)
  qed
  moreover have "i < Suc j * e" if "j \<noteq> m"
    using that dividend_less_times_div [of e i] by (auto simp: j_def min_def mult.commute split: if_splits)
  ultimately have "unat (of_nat j * (fsize div n)) \<le> i"
    "i < unat (if of_nat j = n - 1 then fsize else (of_nat j + 1) * (fsize div n))" using u j assms by auto
  moreover from this have "of_nat j * (fsize div n) < (if of_nat j = n - 1 then fsize else (of_nat j + 1) * (fsize div n))"
    unfolding word_less_nat_alt by linarith
  ultimately show ?thesis using j(1) m(1)
    unfolding upload_ranges_def Let_def n_def [symmetric] by (force simp del: upt_Suc)
qed

section \<open>The parallel upload received\<close>

definition sent_steps :: "dash_env \<Rightarrow> ('e \<times> conn) option \<Rightarrow> file_step list" where
  "sent_steps env stream =
    (case stream of
       None \<Rightarrow> []
     | Some (_, c) \<Rightarrow> (case dash_upload env (so_out c) of Some (DashReceived r) \<Rightarrow> rcp_steps r | _ \<Rightarrow> []))"

lemma range_received:
  fixes port :: u16
  assumes "unat fsize = length data" "r \<in> set (upload_ranges fsize k)" "plain_word host" "plain_word name" "CHR '':'' \<notin> set name"
    "length host + length name \<le> 30000" "quiet_env env"
  shows "\<exists>ws ex. dash_upload env
      (as_bytes (request_head host port name [''X-Offset: '' @ show_nat (unat (fst r)), ''X-Total-Size: '' @ show_nat (unat fsize),
         ''Content-Length: '' @ show_nat (unat (snd r - fst r))]) @ range_bytes data r)
    = Some (DashReceived \<lparr>rcp_name = name, rcp_path = dash_downloads env @ ''/'' @ name,
        rcp_steps = (if unat (fst r) = 0 then [SetLen (length data)] else []) @ ws, rcp_missing = 0,
        rcp_size = length (range_bytes data r), rcp_extracted = ex\<rparr>)
    \<and> writes_of (unat (fst r)) (range_bytes data r) ws"
proof -
  have small: "unat (w :: u64) < 2 ^ 64" for w
  proof -
    have "unat w < 2 ^ LENGTH(64)" by (rule unsigned_less)
    then show ?thesis by simp
  qed
  have len: "unat (snd r - fst r) = length (range_bytes data r)" "fst r < snd r" using range_within [OF assms(1,2)] by simp_all
  then have pos: "0 < length (range_bytes data r)" by (metis word_less_nat_alt unat_sub less_imp_le zero_less_diff)
  define t where "t = head_of (range_lines host port name (unat (fst r)) (unat fsize) (unat (snd r - fst r)))"
  note h = range_headers [OF assms(3-5) small [of "fst r"] small [of fsize] small [of "snd r - fst r"], of port, folded t_def]
  have "list_all (\<lambda>l. l \<noteq> [] \<and> plain_line l) (range_lines host port name (unat (fst r)) (unat fsize) (unat (snd r - fst r)))"
    using plain_word_line [OF assms(3)] plain_word_line [OF assms(4)] plain_word_line [OF plain_word_show]
    by (simp add: range_lines_def plain_line_def)
  from dash_head_of [OF this _ range_head_short [OF assms(6) small small small], of "range_bytes data r"]
  have head: "dash_head [] (as_bytes t @ range_bytes data r) = Some (as_bytes t, range_bytes data r)"
    unfolding t_def by (simp add: range_lines_def)
  have utf: "from_utf8_lossy (as_bytes t) = t" using range_head_ascii [OF assms(3,4)] by (simp add: t_def from_utf8_lossy_as_bytes)
  obtain ws where ws: "body_steps env 0 (length (range_bytes data r)) (unat (fst r)) (range_bytes data r) = (ws, Inr 0)"
    "writes_of (unat (fst r)) (range_bytes data r) ws"
    using body_steps_quiet [OF assms(7), of "range_bytes data r" "length (range_bytes data r)" 0 "unat (fst r)" "[]"] by auto
  have first: "first_steps t = (if unat (fst r) = 0 then [SetLen (length data)] else [])" "range_offset t = unat (fst r)"
    "incoming_name env t = name"
    using assms(1) by (simp_all add: first_steps_def range_offset_def incoming_name_def h)
  have "dash_upload env (as_bytes t @ range_bytes data r) = Some (handle_receive_file env t (length (range_bytes data r)) (range_bytes data r))"
    using h(1,5) len(1) by (simp add: dash_upload_def head utf)
  also have "handle_receive_file env t (length (range_bytes data r)) (range_bytes data r)
      = DashReceived \<lparr>rcp_name = name, rcp_path = dash_downloads env @ ''/'' @ name,
        rcp_steps = (if unat (fst r) = 0 then [SetLen (length data)] else []) @ ws, rcp_missing = 0,
        rcp_size = length (range_bytes data r), rcp_extracted = extracted_to env (dash_downloads env @ ''/'' @ name)\<rparr>"
    using pos assms(7) by (simp add: handle_receive_file_def first ws(1) quiet_env_def incoming_path_def Let_def)
  finally show ?thesis using ws(2) unfolding range_head t_def by blast
qed

lemma range_fits:
  assumes "unat fsize = length data" "r \<in> set (upload_ranges fsize k)"
  shows "unat (fst r) + length (range_bytes data r) = unat (snd r)" "unat (snd r) \<le> length data"
  using range_within [OF assms] assms(1) by (auto simp: range_bytes_def word_le_nat_alt word_less_nat_alt)

text \<open>C21. A parallel upload arrives, whatever the interleaving. Each stream's bytes are received by the dashboard as one request: its
  range of the file, nothing missing, under the encoded name. The writes of all requests, executed in any order whatever and over
  whatever the old file holds, leave exactly the file that was sent.\<close>

theorem parallel_upload_received:
  fixes port :: u16
  assumes "unat fsize = length data" "data \<noteq> []" "0 < cs" "length data < so_writes_left c" "so_out c = []"
    and "plain_word host" "name \<noteq> []" "length host + 3 * length name \<le> 30000" "\<And>r. quiet_env (env r)"
    and "mset steps = (\<Sum>r \<in># mset (upload_ranges fsize k).
      mset (sent_steps (env r) (upload_range show_io host port (urlencode name) fsize (open_stream data cs c) r)))"
  shows "fold apply_step steps old = data
    \<and> list_all (\<lambda>r. \<exists>c' rc. upload_range show_io host port (urlencode name) fsize (open_stream data cs c) r = Some (Inr (snd r - fst r), c')
        \<and> dash_upload (env r) (so_out c') = Some (DashReceived rc) \<and> rcp_missing rc = 0
        \<and> rcp_path rc = dash_downloads (env r) @ ''/'' @ urlencode name) (upload_ranges fsize k)"
proof -
  let ?up = "upload_range show_io host port (urlencode name) fsize (open_stream data cs c)"
  note plain = urlencode_plain(1) [OF assms(7)] urlencode_plain(2) [of name]
  have short: "length host + length (urlencode name) \<le> 30000" using assms(8) urlencode_plain(3) [of name] by linarith
  have each: "\<exists>c' rc ws. ?up r = Some (Inr (snd r - fst r), c') \<and> dash_upload (env r) (so_out c') = Some (DashReceived rc)
      \<and> rcp_missing rc = 0 \<and> rcp_path rc = dash_downloads (env r) @ ''/'' @ urlencode name
      \<and> rcp_steps rc = (if unat (fst r) = 0 then [SetLen (length data)] else []) @ ws
      \<and> writes_of (unat (fst r)) (range_bytes data r) ws"
    if r: "r \<in> set (upload_ranges fsize k)" for r
    using range_received [OF assms(1) r assms(6) plain short assms(9) [of r], of port]
      upload_range_ok [OF assms(1) r assms(3,4), of show_io host port "urlencode name"] assms(5) by fastforce
  have sent: "\<exists>ws. set (sent_steps (env r) (?up r)) = (if unat (fst r) = 0 then {SetLen (length data)} else {}) \<union> set ws
      \<and> writes_of (unat (fst r)) (range_bytes data r) ws" if r: "r \<in> set (upload_ranges fsize k)" for r
    using each [OF r] by (auto simp: sent_steps_def)
  have steps: "set steps = (\<Union>r \<in> set (upload_ranges fsize k). set (sent_steps (env r) (?up r)))"
    using arg_cong [OF assms(10), of set_mset] by simp
  have cut: "take (length (range_bytes data r)) (drop (unat (fst r)) data) = range_bytes data r" for r
    by (simp add: range_bytes_def min_def)
  have set_len: "step_fits data (SetLen (length data))" by (simp add: step_fits_def)
  have "\<forall>st \<in> set steps. step_fits data st"
  proof
    fix st assume "st \<in> set steps"
    then obtain r where r: "r \<in> set (upload_ranges fsize k)" "st \<in> set (sent_steps (env r) (?up r))" using steps by auto
    from sent [OF r(1)] obtain ws where "set (sent_steps (env r) (?up r)) = (if unat (fst r) = 0 then {SetLen (length data)} else {}) \<union> set ws"
      and w: "writes_of (unat (fst r)) (range_bytes data r) ws" by blast
    then show "step_fits data st"
      using r(2) writes_fit [OF w _ cut] range_fits [OF assms(1) r(1)] set_len by (auto split: if_splits)
  qed
  moreover have "\<exists>st \<in> set steps. step_writes i st" if i: "i < length data" for i
  proof -
    obtain r where r: "r \<in> set (upload_ranges fsize k)" "unat (fst r) \<le> i" "i < unat (snd r)"
      using ranges_cover [of i fsize k] i assms(1) by auto
    from sent [OF r(1)] obtain ws where ws: "set ws \<subseteq> set (sent_steps (env r) (?up r))" "writes_of (unat (fst r)) (range_bytes data r) ws"
      by blast
    from writes_cover [OF ws(2) r(2)] r(3) range_fits [OF assms(1) r(1)] have "\<exists>st \<in> set ws. step_writes i st" by simp
    then show ?thesis using ws(1) r(1) steps by blast
  qed
  moreover have "SetLen (length data) \<in> set steps"
  proof -
    obtain r where r: "r \<in> set (upload_ranges fsize k)" "unat (fst r) \<le> 0"
      using ranges_cover [of 0 fsize k] assms(1,2) by auto
    from sent [OF r(1)] r steps show ?thesis by fastforce
  qed
  ultimately have "fold apply_step steps old = data" by (intro fold_steps)
  moreover have "\<forall>r \<in> set (upload_ranges fsize k). \<exists>c' rc. ?up r = Some (Inr (snd r - fst r), c')
      \<and> dash_upload (env r) (so_out c') = Some (DashReceived rc) \<and> rcp_missing rc = 0
      \<and> rcp_path rc = dash_downloads (env r) @ ''/'' @ urlencode name"
    using each by blast
  ultimately show ?thesis by (simp only: list_all_iff simp_thms)
qed

lemma mset_all_steps: "mset (rev (concat (map f rs))) = (\<Sum>r \<in># mset rs. mset (f r))"
  by (induction rs) simp_all

definition calm_env :: "u64 \<times> u64 \<Rightarrow> dash_env" where
  "calm_env r = \<lparr>dsh_home = Some ''/home/u'', dsh_now = 7, dsh_mkdir = None, dsh_open = (\<lambda>_. None), dsh_sizes = (\<lambda>_. 2),
     dsh_read = (\<lambda>_. None), dsh_write = (\<lambda>_. None), dsh_unzip = (\<lambda>_. None)\<rparr>"

theorem parallel_upload_received_witness:
  "fold apply_step (rev (concat (map (\<lambda>r. sent_steps (calm_env r) (upload_range (\<lambda>_. ''io'') ''h'' 80 (urlencode ''a b'') 5
       (open_stream [1, 2, 3, 4, 5] 2 \<lparr>so_out = [], so_writes_left = 9\<rparr>) r)) (upload_ranges 5 2)))) [9, 9, 9, 9, 9, 9, 9]
   = [1, 2, 3, 4, 5]"
proof -
  have "plain_word ''h''" by (simp add: plain_word_def code_def)
  moreover have "quiet_env (calm_env r)" for r by (simp add: calm_env_def quiet_env_def)
  ultimately show ?thesis
    using parallel_upload_received [of 5 "[1, 2, 3, 4, 5]" 2 "\<lparr>so_out = [], so_writes_left = 9\<rparr>" "''h''" "''a b''" calm_env,
      OF _ _ _ _ _ _ _ _ _ mset_all_steps, of "\<lambda>_. ''io''" 80 2 "[9, 9, 9, 9, 9, 9, 9]"]
    by simp
qed

end
