(* ===== verification/Spec2Isabelle.thy ===== *)
theory Spec2Isabelle
  imports Core_Model Protocol Relay Chunk_Tracker Frames Reliable Transfer_Error Handshake Session
    Peer Resume Pairing Discovery Streaming Identity Coordinator_State Control_Loop Window Nat_Traversal
    Transfer_Relay Keepalive Http_Ranges Http_Receive Relay_Refinement
    Proc_Facts File_Server_Facts Transfer_Scheduler Cli_Feedback_Facts Udp_Facts Cli_Engine_Facts Remote_Facts
    Quic_Transport Tunnel Zero_Copy Quic_Upload Syscall_Profiler
    Observability Dashboard_Facts
begin

text \<open>
  \<^bold>\<open>A verification development for distributed-os.\<close>

  The repository connects the devices of one user: a relay forwards messages between nodes that cannot
  reach each other, and a transfer engine sends files between devices of a local network. This
  development models the logic of those programs and of the crates they share. What is modelled
  is the Rust code under \<^verbatim>\<open>src/crates\<close> and \<^verbatim>\<open>src/relay\<close>, the desktop agent, the file server of the Android agent and the
  transfer and measuring logic of the command line client; each definition carries the name of the function or type it translates.

  \<^bold>\<open>Parts and theories.\<close>

  \<^item> \<open>Prelude\<close>, \<open>Rust_Strings\<close>, \<open>Rust_Text\<close>: what the code uses of the language and its standard library.
    Hash maps are association lists without duplicates (\<open>hm_get\<close>, \<open>hm_insert\<close>, \<open>hm_remove\<close>,
    \<open>hm_modify\<close>, \<open>hm_retain\<close>), byte strings are lists of 8-bit words with the big-endian codecs, floats are
    \<open>fl\<close>, fallible calls are sums (\<open>Inl\<close> the error). The locale \<open>bounded_log\<close> is the contract of the
    histories with a maximal length.
  \<^item> \<open>Core_Model\<close> (\<^verbatim>\<open>crates/core\<close>): identifiers, capabilities, status values, the node record.
  \<^item> \<open>Protocol\<close> (\<^verbatim>\<open>crates/protocol\<close>): messages, builders, envelope and version check, validation, pair codes.
  \<^item> \<open>Relay\<close> (\<^verbatim>\<open>relay/src\<close>): the registry, search, the dispatch of a frame, and \<open>relay_step\<close>, the step
    relation of interleaved connections that open, identify, send and close.
  \<^item> \<open>Chunk_Tracker\<close>, \<open>Frames\<close>, \<open>Reliable\<close> (\<^verbatim>\<open>transfer_engine/src/reliable.rs\<close>): the chunks of a file and their
    states, the wire frames, the sending loop and the receiving loop.
  \<^item> \<open>Session\<close> (\<^verbatim>\<open>session.rs\<close>): negotiation messages, the session state machine and its manager.
  \<^item> \<open>Handshake\<close> (\<^verbatim>\<open>handshake.rs\<close>, \<^verbatim>\<open>transport/selection.rs\<close>): capability payloads, negotiation, transports.
  \<^item> \<open>Transfer_Error\<close>, \<open>Peer\<close>, \<open>Resume\<close>, \<open>Pairing\<close>, \<open>Identity\<close>, \<open>Discovery\<close>: \<^verbatim>\<open>error.rs\<close>, \<^verbatim>\<open>peer.rs\<close>, \<^verbatim>\<open>resume.rs\<close>,
    \<^verbatim>\<open>pairing.rs\<close> with \<^verbatim>\<open>transport/tofu.rs\<close>, \<^verbatim>\<open>identity.rs\<close>, \<^verbatim>\<open>discovery.rs\<close>.
  \<^item> \<open>Streaming\<close> (\<^verbatim>\<open>streaming.rs\<close>): the engine that executes a request source by source.
  \<^item> \<open>Coordinator\<close>, \<open>Coordinator_Steps\<close> (\<^verbatim>\<open>lib.rs\<close>): the coordinator that composes sessions, handshake, resume
    state, pairing, discovery and the engine.
  \<^item> \<open>Coordinator_State\<close>: the coordinator's sessions are well formed in every reachable state.
  \<^item> \<open>Relay_Refinement\<close>: an abstract routing service (\<open>route_step\<close>) and the simulation of the relay by it.
  \<^item> \<open>Float_Model\<close>, \<open>Control\<close>, \<open>Control_Decision\<close>, \<open>Control_Loop\<close> (\<^verbatim>\<open>adaptive.rs\<close>, \<^verbatim>\<open>control/metrics.rs\<close>,
    \<^verbatim>\<open>control/classifier.rs\<close>, \<^verbatim>\<open>control/decision.rs\<close>, \<^verbatim>\<open>control/loop.rs\<close>): measurements, the bottleneck classifier,
    the decision engine, and the control loop that composes them.
  \<^item> \<open>Window\<close> (\<^verbatim>\<open>window.rs\<close>): the byte window. \<open>Keepalive\<close> (\<^verbatim>\<open>keepalive.rs\<close>): the idle monitor and its stream.
    \<open>Nat_Traversal\<close> (\<^verbatim>\<open>nat.rs\<close>): STUN messages, NAT test, hole punching. \<open>Transfer_Relay\<close> (\<^verbatim>\<open>relay.rs\<close>): the
    pairing server and its client.
  \<^item> \<open>Http_Send\<close>, \<open>Http_Upload\<close>, \<open>Http_Facts\<close>, \<open>Http_Ranges\<close>, \<open>Http_Receive\<close> (\<^verbatim>\<open>http.rs\<close>, \<^verbatim>\<open>transport/core.rs\<close>):
    connecting, request headers, the streaming, directory and parallel uploads, and the receiving side.
  \<^item> \<open>Proc_Text\<close>, \<open>Proc_Files\<close>, \<open>Proc_Facts\<close>, \<open>Receiver_Metrics\<close>, \<open>Flame_Graph\<close>, \<open>Flame_Facts\<close>, \<open>File_Server\<close>,
    \<open>File_Server_Facts\<close> (\<^verbatim>\<open>agents/android/src/file_server.rs\<close>): the file server of the Android agent, which receives
    what the HTTP client sends: readers of the kernel's files, samples, call profile, handlers and the sampler shared
    by all transfers.
  \<^item> \<open>Cli_Classifier\<close>, \<open>Cli_Tuning\<close>, \<open>Cli_Feedback\<close>, \<open>Cli_Feedback_Facts\<close> (\<^verbatim>\<open>cli/src/adaptive\<close>, \<^verbatim>\<open>transport_switcher.rs\<close>,
    \<^verbatim>\<open>mode_switcher.rs\<close>): the tuning of the command line client: classifier, plans, tuner, feedback loop.
  \<^item> \<open>Udp_Transport\<close>, \<open>Udp_Facts\<close> (\<^verbatim>\<open>cli/src/udp_transport.rs\<close>): its UDP transport; \<open>udp_step\<close> is the step relation of
    sender, reading task, receiver and a network that loses, repeats and reorders datagrams.
  \<^item> \<open>Transfer_Scheduler\<close>, \<open>Transfer_Profile\<close>, \<open>Cli_Telemetry\<close>, \<open>Cli_Engine\<close>, \<open>Cli_Engine_Facts\<close> (\<^verbatim>\<open>cli/src/transfer_engine\<close>,
    \<^verbatim>\<open>http_transfer.rs\<close>, \<^verbatim>\<open>telemetry.rs\<close>, \<^verbatim>\<open>file.rs\<close>): queues, checkpoints, probes, file analysis, the profile, session
    records, the exchange of capabilities, and the engine that executes a profile.
  \<^item> \<open>Tasks\<close>, \<open>Desktop_Providers\<close>, \<open>Agent_Runtime\<close>, \<open>Agent_Facts\<close>, \<open>Agent_Calls\<close> (\<^verbatim>\<open>crates/task_manager\<close>, \<^verbatim>\<open>crates/runtime\<close>,
    \<^verbatim>\<open>agents/desktop/src\<close>): the tasks of a node, the providers of the desktop agent, and \<open>agent_step\<close>, the event loop of
    an agent with its bounded queues, connection and heartbeat.
  \<^item> \<open>Json_Text\<close>, \<open>Remote_Client\<close>, \<open>Remote_Facts\<close> (\<^verbatim>\<open>cli/src/file.rs\<close>, \<^verbatim>\<open>clipboard.rs\<close>, \<^verbatim>\<open>terminal.rs\<close>, \<^verbatim>\<open>notify.rs\<close>,
    \<^verbatim>\<open>pair.rs\<close>, \<^verbatim>\<open>search.rs\<close>): the commands that ask an agent through the relay, composed with relay and agent.
  \<^item> \<open>Quic_Transport\<close>, \<open>Quic_Upload\<close> (\<^verbatim>\<open>cli/src/quic_transport.rs\<close>, \<^verbatim>\<open>transport/quic.rs\<close>): the client's framing over UDP that
    is called QUIC, as the step relation \<open>quic_step\<close>, and the upload over real QUIC streams, whose library is an argument.
  \<^item> \<open>Tunnel\<close>, \<open>Zero_Copy\<close>, \<open>Syscall_Profiler\<close> (\<^verbatim>\<open>cli/src/tunnel.rs\<close>, \<^verbatim>\<open>zero_copy.rs\<close>, \<^verbatim>\<open>syscall_profiler.rs\<close>): files pushed
    through a reverse tunnel, sending by \<^verbatim>\<open>sendfile\<close> and \<^verbatim>\<open>splice\<close>, the hooks that count library calls.
  \<^item> \<open>Cli_Proc\<close>, \<open>Sender_Metrics\<close>, \<open>Observability\<close> (\<^verbatim>\<open>cli/src/observability.rs\<close>): the client's own readers of the kernel's files,
    what a benchmark samples, shown to agree with the file server's copies, and its diagnoses.
  \<^item> \<open>Dashboard_Receive\<close>, \<open>Dashboard_Facts\<close> (\<^verbatim>\<open>cli/src/dashboard.rs\<close>): the dashboard's endpoint for received files, composed
    with the parallel upload of the HTTP client.

  \<^bold>\<open>State and operations.\<close> A struct is a record with prefixed fields, an enum a datatype. A method that
  takes \<^verbatim>\<open>&mut self\<close> or locks a field is a function from the state to the new state, paired with its
  result. Machine integers are words and wrap as in a release build. An asynchronous
  method is cut where it waits, because other operations can run there: the pieces are functions, and a
  step relation (\<open>relay_step\<close>, \<open>co_step\<close>, \<open>window_step\<close>; \<open>loop_run\<close> and \<open>ks_step\<close> over lists of events) composes them in any order; the safety properties are
  inductions over the reachable states. What the program reads from outside arrives as an argument: the
  clock, random identifiers, bytes of a socket, results of writes, the file system; third-party code
  (JSON, SHA-256, UUID generation, sockets) is an argument with the documented behaviour as a named
  hypothesis where a property needs it.

  \<^bold>\<open>Interfaces.\<close> Locales state the contracts one component relies on in another; each is interpreted on the
  model's own operations in the theory that provides them, and properties use the interpreted facts.

  \<^bold>\<open>What the lemmas show.\<close>

  \<^item> Reliable transfer: the tracker's progress is sound; a sender that returns success wrote every chunk
    and read an acknowledgement for each; a receiver reassembles the file in any order of arrival; end to end
    the file arrives; and the sender does return under prompt acknowledgements. Two defects are
    characterised exactly: the extra byte of a NACK and the NACK of an acknowledged chunk.
  \<^item> Relay: no dangling routes in any reachable state; forwarding goes to the addressed node only.
  \<^item> Sessions, peers, resume, pairing, identity, discovery: invariants of each store, and the
    behaviour of each operation on every branch.
  \<^item> Coordinator: the outcome of a transfer on every path, what a peer is told, that an incoming
    session never becomes active, and that resuming always starts from zero.
  \<^item> Refinement: every step of the relay is a step of the routing service or leaves it alone
    (locale \<open>simulation\<close>, interpreted on the relay).
  \<^item> Control: the decisions stay within their bounds whatever the measurements; and the loop as written
    never takes a measurement, so it never decides anything.
  \<^item> Window, keepalive: the bytes in flight stay within the window under any interleaving; what a peer
    reads from a kept-alive stream is the data with the frames in it.
  \<^item> HTTP: without a token the bytes on the wire are the header and the file; with one, write errors
    disappear; the ranges of a parallel upload cover the file exactly; the loops end; a received file
    appears under its name complete or not at all.
  \<^item> File server: the readers invert the kernel's formats; the flame graph counts the call chains of the report;
    an upload stays in its directory and a download does not; what the HTTP client sends arrives whole under a
    name whose spaces have become plus signs; overlapping transfers disturb each other's samples.
  \<^item> Command line client: the classifier depends on the order of its map only where it has no confidence; the
    configuration stays in its ranges whatever is measured; a UDP transfer that ends has delivered the file, but one
    lost chunk may keep it from ending; the scheduler starts a job at most once for each attempt; the analysis
    counts the files of the tree; a download that is cut counts as verified, and an upload over WiFi may turn into
    a download.
  \<^item> Remote commands: a request gets exactly one answer in every run of an agent, addressed to its sender; a file written
    to an agent and read back is the same.
  \<^item> QUIC and tunnel: the framing over UDP refines the UDP transport; pushed files arrive under the names given; an upload
    over streams reports the sum and checksum of what it read.
  \<^item> Zero copy and hooks: a chunk counts only what was sent; a thread in a hook never counts its own calls, up to
    the size of the table.
  \<^item> Benchmarks: client and file server take the same measurements; away from Linux the verdict on the network is settled
    beforehand.
  \<^item> Dashboard: the requests of a parallel upload are read back, and their writes, in any order and over any old file,
    leave the file that was sent.

  \<^bold>\<open>Bounds and fuel.\<close> The loops of sender and receiver consume an explicit list of inputs, one per
  iteration; running out of inputs is the result \<open>None\<close>, and \<open>send_completes\<close> shows that the inputs which
  acknowledge the file are enough. The constructor of the tracker is a \<open>partial_function (option)\<close>, since with
  chunk size 0 it does not return. The loops of the
  directory upload and the parallel upload are \<open>partial_function (option)\<close> and \<open>upload_loops_end\<close> gives the
  chunk sizes for which they return. The streaming loop, the skipping of hashed bytes and the STUN attribute
  scan end by a measure on what is left. Floating point values are rationals with infinities and not-a-number
  (\<open>fl\<close>), and the rounding of an operation is an argument where its result matters; the bounds of the
  decision engine hold for every rounding that is exact on the integers up to 8. The UDP sender's loops are the
  steps of a relation, so that not ending is a property of its runs. Those facts of the classifier which need it state
  the laws of rounding they use (\<open>rounds\<close>). The dashboard's loop over a body ends by a
  measure on the bytes that remain.

  \<^bold>\<open>Not modelled.\<close> Sockets, timers and task spawning as such (their effects are the steps above); logging;
  the configuration of \<^verbatim>\<open>quinn\<close> and the TLS transport, which call \<^verbatim>\<open>quinn\<close> and \<^verbatim>\<open>rustls\<close>; SQL storage and the
  cryptography crate, which call a database and \<^verbatim>\<open>ed25519-dalek\<close>; sampling of operating system
  counters by the system monitors; the desktop window, the Android and Swift front ends; the pages of the dashboard, its other
  endpoints, drawings and the text of reports; scripts. Integer
  overflow panics of debug builds are not modelled; the wrap-around of release builds is.
\<close>

end
